(* ===== verification/Prelude.thy ===== *)
theory Prelude
  imports Main "HOL-Library.Sublist"
begin

text \<open>
  What the components share.

  \<^item> Collections of simplification rules: \<open>js_simps\<close> for the JavaScript primitives,
    \<open>eff_simps\<close> for effectful computations, \<open>store_simps\<close> for the stores.
  \<^item> JavaScript numbers as the services use them: whole numbers and \<open>NaN\<close>, which is what
    \<open>Number(undefined)\<close> gives for an unset environment variable.
  \<^item> Decimal rendering of numbers (\<open>String(id)\<close>), with its inverse.
  \<^item> Plain objects used as dictionaries. Objects with integer keys (\<open>Record<number, T>\<close>)
    enumerate their keys in ascending order; objects with string keys inherit the properties of
    \<open>Object.prototype\<close>.
  \<^item> Computations with state and exceptions. A thrown exception keeps the state changes made
    before it, as in the source; \<open>promise_all\<close> starts every computation and reports the first
    failure.
\<close>

named_theorems js_simps
named_theorems eff_simps
named_theorems store_simps

section \<open>JavaScript numbers\<close>

datatype js_number = NaN | Num int

fun js_add :: "js_number \<Rightarrow> js_number \<Rightarrow> js_number" where
  "js_add (Num a) (Num b) = Num (a + b)"
| "js_add _ _ = NaN"

fun js_sub :: "js_number \<Rightarrow> js_number \<Rightarrow> js_number" where
  "js_sub (Num a) (Num b) = Num (a - b)"
| "js_sub _ _ = NaN"

text \<open>\<open>===\<close> and \<open><=\<close>: every comparison with \<open>NaN\<close> is false.\<close>

fun js_eq :: "js_number \<Rightarrow> js_number \<Rightarrow> bool" where
  "js_eq (Num a) (Num b) = (a = b)"
| "js_eq _ _ = False"

fun js_le :: "js_number \<Rightarrow> js_number \<Rightarrow> bool" where
  "js_le (Num a) (Num b) = (a \<le> b)"
| "js_le _ _ = False"

lemma js_sub_Num_iff: "js_sub a b = Num k \<longleftrightarrow> (\<exists>x y. a = Num x \<and> b = Num y \<and> k = x - y)"
  by (cases a; cases b) auto

lemma js_eq_Num_iff: "js_eq a b \<longleftrightarrow> (\<exists>x. a = Num x \<and> b = Num x)"
  by (cases a; cases b) auto

section \<open>Strings\<close>

abbreviation quoted :: "string \<Rightarrow> string" where
  "quoted s \<equiv> [CHR 0x22] @ s @ [CHR 0x22]"

text \<open>\<open>s.includes(t)\<close>\<close>

fun str_includes :: "string \<Rightarrow> string \<Rightarrow> bool" where
  "str_includes [] t = (t = [])"
| "str_includes (c # s) t = (take (length t) (c # s) = t \<or> str_includes s t)"

lemma str_includes_iff: "str_includes s t \<longleftrightarrow> sublist t s"
proof (induction s)
  case Nil
  then show ?case by simp
next
  case (Cons c s)
  have "take (length t) (c # s) = t \<longleftrightarrow> prefix t (c # s)"
    by (metis append_eq_conv_conj append_take_drop_id prefix_def)
  with Cons show ?case by (simp add: sublist_Cons_right)
qed

text \<open>\<open>s.split(c)\<close>: the pieces between the separators, empty ones included.\<close>

fun split_on :: "char \<Rightarrow> string \<Rightarrow> string list" where
  "split_on c [] = [[]]"
| "split_on c (x # xs) =
     (if x = c then [] # split_on c xs
      else (case split_on c xs of [] \<Rightarrow> [[x]] | p # ps \<Rightarrow> (x # p) # ps))"

fun join_with :: "char \<Rightarrow> string list \<Rightarrow> string" where
  "join_with c [] = []"
| "join_with c [p] = p"
| "join_with c (p # q # ps) = p @ c # join_with c (q # ps)"

lemma split_on_not_Nil [simp]: "split_on c xs \<noteq> []"
  by (induction xs) (auto split: list.splits)

lemma join_split: "join_with c (split_on c xs) = xs"
proof (induction xs)
  case Nil
  then show ?case by simp
next
  case (Cons x xs)
  obtain p ps where pp: "split_on c xs = p # ps"
    using split_on_not_Nil [of c xs] by (cases "split_on c xs") auto
  with Cons show ?case by (cases ps) auto
qed

lemma split_on_pieces: "p \<in> set (split_on c xs) \<Longrightarrow> c \<notin> set p"
  by (induction xs arbitrary: p) (fastforce split: if_splits list.splits)+

lemma split_on_single: "c \<notin> set p \<Longrightarrow> split_on c p = [p]"
  by (induction p) auto

lemma split_on_append: "c \<notin> set p \<Longrightarrow> split_on c (p @ c # q) = p # split_on c q"
  by (induction p) auto

lemma split_join:
  assumes "ps \<noteq> []" and "\<forall>p \<in> set ps. c \<notin> set p"
  shows "split_on c (join_with c ps) = ps"
  using assms
  by (induction c ps rule: join_with.induct) (auto simp: split_on_single split_on_append)

text \<open>\<open>s.trim()\<close>, on the white space of ASCII.\<close>

definition is_space :: "char \<Rightarrow> bool" where
  "is_space c \<longleftrightarrow> c \<in> {CHR '' '', CHR 0x09, CHR 0x0A, CHR 0x0B, CHR 0x0C, CHR 0x0D}"

definition trim :: "string \<Rightarrow> string" where
  "trim s = rev (dropWhile is_space (rev (dropWhile is_space s)))"

lemma dropWhile_id: "(xs \<noteq> [] \<Longrightarrow> \<not> P (hd xs)) \<Longrightarrow> dropWhile P xs = xs"
  by (cases xs) auto

lemma trim_id:
  assumes "\<forall>c \<in> set s. \<not> is_space c"
  shows "trim s = s"
proof -
  have "dropWhile is_space s = s" by (rule dropWhile_id) (use assms in auto)
  moreover have "dropWhile is_space (rev s) = rev s"
    by (rule dropWhile_id) (use assms hd_in_set in fastforce)
  ultimately show ?thesis by (simp add: trim_def)
qed

section \<open>Decimal rendering\<close>

definition digit_char :: "nat \<Rightarrow> char" where
  "digit_char d = char_of (48 + d)"

definition char_digit :: "char \<Rightarrow> nat" where
  "char_digit c = of_char c - 48"

fun nat_to_string :: "nat \<Rightarrow> string" where
  "nat_to_string n =
     (if n < 10 then [digit_char n] else nat_to_string (n div 10) @ [digit_char (n mod 10)])"

declare nat_to_string.simps [simp del]

definition string_to_nat :: "string \<Rightarrow> nat" where
  "string_to_nat s = foldl (\<lambda>a c. 10 * a + char_digit c) 0 s"

lemma char_digit_digit_char: "d < 10 \<Longrightarrow> char_digit (digit_char d) = d"
  by (simp add: char_digit_def digit_char_def of_char_of)

lemma string_to_nat_to_string [simp]: "string_to_nat (nat_to_string n) = n"
proof (induction n rule: nat_to_string.induct)
  case (1 n)
  show ?case
  proof (cases "n < 10")
    case True
    then show ?thesis
      by (simp add: nat_to_string.simps [of n] string_to_nat_def char_digit_digit_char)
  next
    case False
    with "1.IH" have "foldl (\<lambda>a c. 10 * a + char_digit c) 0 (nat_to_string (n div 10)) = n div 10"
      by (simp add: string_to_nat_def)
    with False show ?thesis
      by (simp add: nat_to_string.simps [of n] string_to_nat_def char_digit_digit_char)
  qed
qed

lemma nat_to_string_inject [simp]: "nat_to_string m = nat_to_string n \<longleftrightarrow> m = n"
  by (metis string_to_nat_to_string)

lemma nat_to_string_not_Nil [simp]: "nat_to_string n \<noteq> []"
  by (subst nat_to_string.simps) simp

section \<open>Objects with integer keys\<close>

text \<open>
  A \<open>Record<number, T>\<close>: the property names are integer-like, so \<open>Object.values\<close> lists the
  values by ascending key. The object is kept as the list of its entries in that order.
\<close>

type_synonym 'v int_object = "(nat \<times> 'v) list"

fun int_put :: "nat \<Rightarrow> 'v \<Rightarrow> 'v int_object \<Rightarrow> 'v int_object" where
  "int_put k v [] = [(k, v)]"
| "int_put k v ((k', v') # xs) =
     (if k < k' then (k, v) # (k', v') # xs
      else if k = k' then (k, v) # xs
      else (k', v') # int_put k v xs)"

abbreviation int_get :: "'v int_object \<Rightarrow> nat \<Rightarrow> 'v option" where
  "int_get \<equiv> map_of"

definition object_values :: "'v int_object \<Rightarrow> 'v list" where
  "object_values o1 = map snd o1"

definition keys_sorted :: "'v int_object \<Rightarrow> bool" where
  "keys_sorted o1 = sorted_wrt (<) (map fst o1)"

lemma int_get_put [store_simps]: "int_get (int_put k v o1) = (int_get o1)(k \<mapsto> v)"
proof (induction o1)
  case Nil
  then show ?case by simp
next
  case (Cons a o1)
  obtain k' v' where "a = (k', v')" by (cases a)
  with Cons show ?case by (auto simp: fun_upd_twist)
qed

lemma set_keys_int_put [simp]: "fst ` set (int_put k v o1) = insert k (fst ` set o1)"
  by (induction k v o1 rule: int_put.induct) auto

lemma keys_sorted_Nil [simp]: "keys_sorted []"
  by (simp add: keys_sorted_def)

lemma keys_sorted_int_put [intro]: "keys_sorted o1 \<Longrightarrow> keys_sorted (int_put k v o1)"
proof (induction k v o1 rule: int_put.induct)
  case (2 k v k' v' xs)
  have "fst ` set (int_put k v xs) = insert k (fst ` set xs)" by simp
  with 2 show ?case
    by (auto simp: keys_sorted_def)
qed (simp add: keys_sorted_def)

lemma keys_sorted_distinct: "keys_sorted o1 \<Longrightarrow> distinct (map fst o1)"
  by (simp add: keys_sorted_def strict_sorted_iff)

lemma set_object_values:
  "keys_sorted o1 \<Longrightarrow> set (object_values o1) = {v. \<exists>k. int_get o1 k = Some v}"
  by (force simp: object_values_def dest: keys_sorted_distinct map_of_SomeD intro: map_of_is_SomeI)

lemma int_put_above:
  "(\<forall>k' \<in> fst ` set o1. k' < k) \<Longrightarrow> int_put k v o1 = o1 @ [(k, v)]"
  by (induction k v o1 rule: int_put.induct) auto

section \<open>Objects with string keys\<close>

text \<open>
  Reading \<open>obj[key]\<close> on an object literal searches \<open>Object.prototype\<close> after the object's own
  properties: the names below are found on every such object.
\<close>

datatype 'v js_property = Absent | Own 'v | Inherited string

definition object_prototype_keys :: "string list" where
  "object_prototype_keys =
     [''constructor'', ''__defineGetter__'', ''__defineSetter__'', ''hasOwnProperty'',
      ''__lookupGetter__'', ''__lookupSetter__'', ''isPrototypeOf'', ''propertyIsEnumerable'',
      ''toString'', ''valueOf'', ''__proto__'', ''toLocaleString'']"

definition js_get :: "(string \<rightharpoonup> 'v) \<Rightarrow> string \<Rightarrow> 'v js_property" where
  "js_get o1 k = (case o1 k of
      Some v \<Rightarrow> Own v
    | None \<Rightarrow> if k \<in> set object_prototype_keys then Inherited k else Absent)"

lemma js_get_own [js_simps]: "o1 k = Some v \<Longrightarrow> js_get o1 k = Own v"
  by (simp add: js_get_def)

lemma js_get_absent [js_simps]:
  "o1 k = None \<Longrightarrow> k \<notin> set object_prototype_keys \<Longrightarrow> js_get o1 k = Absent"
  by (simp add: js_get_def)

lemma js_get_inherited [js_simps]:
  "o1 k = None \<Longrightarrow> k \<in> set object_prototype_keys \<Longrightarrow> js_get o1 k = Inherited k"
  by (simp add: js_get_def)

section \<open>Computations with state and exceptions\<close>

type_synonym ('e, 's, 'a) eff = "'s \<Rightarrow> ('e + 'a) \<times> 's"

definition ret :: "'a \<Rightarrow> ('e, 's, 'a) eff" where
  "ret a = (\<lambda>s. (Inr a, s))"

definition throw :: "'e \<Rightarrow> ('e, 's, 'a) eff" where
  "throw e = (\<lambda>s. (Inl e, s))"

definition andThen :: "('e, 's, 'a) eff \<Rightarrow> ('a \<Rightarrow> ('e, 's, 'b) eff) \<Rightarrow> ('e, 's, 'b) eff" where
  "andThen m f = (\<lambda>s. case m s of (Inl e, s') \<Rightarrow> (Inl e, s') | (Inr a, s') \<Rightarrow> f a s')"

definition tryCatch :: "('e, 's, 'a) eff \<Rightarrow> ('e \<Rightarrow> ('e, 's, 'a) eff) \<Rightarrow> ('e, 's, 'a) eff" where
  "tryCatch m h = (\<lambda>s. case m s of (Inl e, s') \<Rightarrow> h e s' | (Inr a, s') \<Rightarrow> (Inr a, s'))"

definition reads :: "('s \<Rightarrow> 'a) \<Rightarrow> ('e, 's, 'a) eff" where
  "reads f = (\<lambda>s. (Inr (f s), s))"

definition modifies :: "('s \<Rightarrow> 's) \<Rightarrow> ('e, 's, unit) eff" where
  "modifies f = (\<lambda>s. (Inr (), f s))"

definition lift_result :: "'e + 'a \<Rightarrow> ('e, 's, 'a) eff" where
  "lift_result r = (\<lambda>s. (r, s))"

text \<open>Run a computation on a part of the state.\<close>

definition zoom :: "('s \<Rightarrow> 't) \<Rightarrow> ('t \<Rightarrow> 's \<Rightarrow> 's) \<Rightarrow> ('e, 't, 'a) eff \<Rightarrow> ('e, 's, 'a) eff" where
  "zoom get put m = (\<lambda>s. case m (get s) of (r, t) \<Rightarrow> (r, put t s))"

text \<open>
  \<open>Promise.all(xs.map(f))\<close>: every computation is started, in order, and runs to its end even when
  another fails; the result is the list of the results or the first failure.
\<close>

fun promise_all :: "('e, 's, 'a) eff list \<Rightarrow> ('e, 's, 'a list) eff" where
  "promise_all [] s = (Inr [], s)"
| "promise_all (m # ms) s =
     (case m s of (r, s1) \<Rightarrow> (case promise_all ms s1 of (rs, s2) \<Rightarrow>
        (case r of Inl e \<Rightarrow> Inl e
         | Inr a \<Rightarrow> (case rs of Inl e \<Rightarrow> Inl e | Inr as \<Rightarrow> Inr (a # as)), s2)))"

lemma ret_eq [eff_simps]: "ret a s = (Inr a, s)"
  by (simp add: ret_def)

lemma throw_eq [eff_simps]: "throw e s = (Inl e, s)"
  by (simp add: throw_def)

lemma reads_eq [eff_simps]: "reads f s = (Inr (f s), s)"
  by (simp add: reads_def)

lemma modifies_eq [eff_simps]: "modifies f s = (Inr (), f s)"
  by (simp add: modifies_def)

lemma lift_result_eq [eff_simps]: "lift_result r s = (r, s)"
  by (simp add: lift_result_def)

lemma andThen_Inl [eff_simps]: "m s = (Inl e, s') \<Longrightarrow> andThen m f s = (Inl e, s')"
  by (simp add: andThen_def)

lemma andThen_Inr [eff_simps]: "m s = (Inr a, s') \<Longrightarrow> andThen m f s = f a s'"
  by (simp add: andThen_def)

lemma tryCatch_Inl [eff_simps]: "m s = (Inl e, s') \<Longrightarrow> tryCatch m h s = h e s'"
  by (simp add: tryCatch_def)

lemma tryCatch_Inr [eff_simps]: "m s = (Inr a, s') \<Longrightarrow> tryCatch m h s = (Inr a, s')"
  by (simp add: tryCatch_def)

lemma zoom_eq [eff_simps]: "m (get s) = (r, t) \<Longrightarrow> zoom get put m s = (r, put t s)"
  by (simp add: zoom_def)

lemma andThen_cases:
  obtains (thrown) e s' where "m s = (Inl e, s')" "andThen m f s = (Inl e, s')"
  | (returned) a s' where "m s = (Inr a, s')" "andThen m f s = f a s'"
  by (cases "m s"; cases "fst (m s)") (auto simp: andThen_def)

text \<open>What every started computation preserves holds after \<open>promise_all\<close>.\<close>

lemma promise_all_preserves:
  assumes "\<And>m s. m \<in> set ms \<Longrightarrow> P s \<Longrightarrow> P (snd (m s))" and "P s"
  shows "P (snd (promise_all ms s))"
  using assms
proof (induction ms arbitrary: s)
  case Nil
  then show ?case by simp
next
  case (Cons m ms)
  have "P (snd (m s))" using Cons.prems by simp
  then have "P (snd (promise_all ms (snd (m s))))" using Cons by simp
  then show ?case by (auto split: prod.splits)
qed

end
