(* ===== verification/Errors.thy ===== *)
theory Errors
  imports Prelude
begin

text \<open>
  The error values of the API: \<open>common/errors.ts\<close>, the translation of SDK errors
  (\<open>handleSdkError\<close> of \<open>transactions/transactions.util.ts\<close>), the translation of database
  errors (\<open>datastore/postgres/repos/utils.ts\<close>) and the filter that turns an error into an HTTP
  response (\<open>common/filters/app-error-to-http-response.filter.ts\<close>).

  Exceptions are values of type \<open>exn\<close>. The SDK's error codes are the ones the source names; every
  other code is \<open>OtherSdkCode\<close>. The lemmas give the HTTP status of every SDK error, show that a
  response with a status of 500 never carries the text of the error, and that translating an
  error twice is the same as translating it once.
\<close>

section \<open>Application errors\<close>

datatype app_error_code =
    NotFound | Conflict | Config | Validation | Unauthorized | Unprocessable | Internal

record app_error =
  code :: app_error_code
  message :: string

definition appNotFoundError :: "string \<Rightarrow> string \<Rightarrow> app_error" where
  "appNotFoundError ident resource =
     (let identifierMessage =
            (if ident \<noteq> '''' then '': with identifier: '' @ quoted ident else '''')
      in \<lparr>code = NotFound,
          message = ''Not Found: '' @ resource @ '' was not found'' @ identifierMessage\<rparr>)"

definition appConflictError :: "string \<Rightarrow> string \<Rightarrow> app_error" where
  "appConflictError ident resource =
     \<lparr>code = Conflict,
      message = ''Conflict: '' @ resource @ '' already exists with unique identifier: '' @ quoted ident\<rparr>"

definition appConfigError :: "string \<Rightarrow> string \<Rightarrow> app_error" where
  "appConfigError key msg = \<lparr>code = Config, message = ''Config: '' @ key @ '': '' @ msg\<rparr>"

definition appValidationError :: "string \<Rightarrow> app_error" where
  "appValidationError msg = \<lparr>code = Validation, message = ''Validation: '' @ msg\<rparr>"

definition appUnauthorizedError :: "string \<Rightarrow> app_error" where
  "appUnauthorizedError msg = \<lparr>code = Unauthorized, message = ''Unauthorized: '' @ msg\<rparr>"

definition appUnprocessableError :: "string \<Rightarrow> app_error" where
  "appUnprocessableError msg = \<lparr>code = Unprocessable, message = ''Unprocessable: '' @ msg\<rparr>"

definition appInternalError :: "string \<Rightarrow> app_error" where
  "appInternalError msg = \<lparr>code = Internal, message = ''Internal: '' @ msg\<rparr>"

lemmas app_error_defs =
  appNotFoundError_def appConflictError_def appConfigError_def appValidationError_def
  appUnauthorizedError_def appUnprocessableError_def appInternalError_def

section \<open>Exceptions\<close>

datatype sdk_error_code =
    General | NoDataChange | ValidationError | EntityInUse | InsufficientBalance
  | UnmetPrerequisite | LimitExceeded | DataUnavailable | NotAuthorized | OtherSdkCode string

text \<open>
  A thrown value is an application error, an error of the SDK, an error of the object-relational
  mapper, any other instance of \<open>Error\<close>, or something that is not an \<open>Error\<close> at all.
  \<open>IllTyped\<close> is not an exception of the source: it marks the point where the source goes on with an
  object that lacks mandatory fields, and the theorems on the services show it is never reached.
\<close>

datatype exn =
    AppErr app_error
  | PolymeshErr sdk_error_code string
  | TypeOrmErr string
  | PlainErr string
  | NotAnError
  | IllTyped string

type_synonym 'a result = "exn + 'a"

abbreviation js_type_error :: exn where
  "js_type_error \<equiv> PlainErr ''TypeError''"

fun isAppError :: "exn \<Rightarrow> bool" where
  "isAppError (AppErr _) = True"
| "isAppError _ = False"

section \<open>Translation of SDK errors\<close>

definition signing_manager_text :: string where
  "signing_manager_text = ''not part of the Signing Manager attached to the SDK''"

text \<open>\<open>Inl\<close> is the error the function itself throws, \<open>Inr\<close> the error it returns.\<close>

fun handleSdkError :: "exn \<Rightarrow> exn + exn" where
  "handleSdkError (AppErr a) = Inr (AppErr a)"
| "handleSdkError (PolymeshErr c msg) =
     (if c = General \<and> str_includes msg signing_manager_text
      then Inl (AppErr (appValidationError msg))
      else Inr (AppErr (case c of
          NoDataChange \<Rightarrow> appValidationError msg
        | ValidationError \<Rightarrow> appValidationError msg
        | EntityInUse \<Rightarrow> appValidationError msg
        | InsufficientBalance \<Rightarrow> appUnprocessableError msg
        | UnmetPrerequisite \<Rightarrow> appUnprocessableError msg
        | LimitExceeded \<Rightarrow> appUnprocessableError msg
        | DataUnavailable \<Rightarrow> appNotFoundError msg ''''
        | NotAuthorized \<Rightarrow> appUnauthorizedError msg
        | _ \<Rightarrow> appInternalError msg)))"
| "handleSdkError (TypeOrmErr msg) = Inr (AppErr (appInternalError msg))"
| "handleSdkError (PlainErr msg) = Inr (AppErr (appInternalError msg))"
| "handleSdkError NotAnError = Inr (AppErr (appInternalError ''An unexpected error occurred''))"
| "handleSdkError (IllTyped w) = Inr (IllTyped w)"

text \<open>Every caller writes \<open>throw handleSdkError(error)\<close>: what is thrown in the end.\<close>

definition thrown :: "exn \<Rightarrow> exn" where
  "thrown e = (case handleSdkError e of Inl a \<Rightarrow> a | Inr a \<Rightarrow> a)"

text \<open>\<open>p.catch(error => { throw handleSdkError(error); })\<close>\<close>

definition rethrow_sdk :: "'a result \<Rightarrow> 'a result" where
  "rethrow_sdk r = (case r of Inl e \<Rightarrow> Inl (thrown e) | Inr a \<Rightarrow> Inr a)"

section \<open>Translation of database errors\<close>

definition duplicate_key_text :: string where
  "duplicate_key_text = ''duplicate key value violates unique constraint''"

fun isTypeOrmError :: "exn \<Rightarrow> bool" where
  "isTypeOrmError (TypeOrmErr _) = True"
| "isTypeOrmError _ = False"

fun convertTypeOrmErrorToAppError :: "string \<Rightarrow> string \<Rightarrow> exn \<Rightarrow> exn" where
  "convertTypeOrmErrorToAppError ident resourceType (TypeOrmErr msg) =
     (if str_includes msg duplicate_key_text then AppErr (appConflictError ident resourceType)
      else TypeOrmErr msg)"
| "convertTypeOrmErrorToAppError ident resourceType e = e"

section \<open>HTTP responses\<close>

record http_reply =
  statusCode :: nat
  reply_message :: string

fun appErrorCodeToHttpStatusCode :: "app_error_code \<Rightarrow> nat" where
  "appErrorCodeToHttpStatusCode NotFound = 404"
| "appErrorCodeToHttpStatusCode Conflict = 409"
| "appErrorCodeToHttpStatusCode Config = 500"
| "appErrorCodeToHttpStatusCode Internal = 500"
| "appErrorCodeToHttpStatusCode Validation = 400"
| "appErrorCodeToHttpStatusCode Unauthorized = 401"
| "appErrorCodeToHttpStatusCode Unprocessable = 422"

definition catchAppError :: "app_error \<Rightarrow> http_reply" where
  "catchAppError a =
     (let sc = appErrorCodeToHttpStatusCode (code a);
          msg = (if sc \<ge> 500 then ''Internal Server Error'' else message a)
      in \<lparr>statusCode = sc, reply_message = msg\<rparr>)"

section \<open>Lemmas\<close>

lemma code_app_errors [simp]:
  "code (appNotFoundError i r) = NotFound"
  "code (appConflictError i r) = Conflict"
  "code (appConfigError i r) = Config"
  "code (appValidationError m) = Validation"
  "code (appUnauthorizedError m) = Unauthorized"
  "code (appUnprocessableError m) = Unprocessable"
  "code (appInternalError m) = Internal"
  by (simp_all add: app_error_defs Let_def)

lemma thrown_AppErr [simp]: "thrown (AppErr a) = AppErr a"
  by (simp add: thrown_def)

lemma thrown_is_AppErr: "(\<And>w. e \<noteq> IllTyped w) \<Longrightarrow> \<exists>a. thrown e = AppErr a"
  by (cases e) (auto simp: thrown_def)

lemma thrown_IllTyped [simp]: "thrown e = IllTyped w \<longleftrightarrow> e = IllTyped w"
  by (cases e) (auto simp: thrown_def)

lemma rethrow_sdk_Inr [simp]: "rethrow_sdk r = Inr a \<longleftrightarrow> r = Inr a"
  by (auto simp: rethrow_sdk_def split: sum.splits)

lemma rethrow_sdk_Inl: "rethrow_sdk r = Inl e \<longleftrightarrow> (\<exists>e0. r = Inl e0 \<and> e = thrown e0)"
  by (auto simp: rethrow_sdk_def split: sum.splits)

text \<open>The status of the response, as a table over the SDK's error codes.\<close>

definition sdk_status :: "sdk_error_code \<Rightarrow> string \<Rightarrow> nat" where
  "sdk_status c msg =
     (if c \<in> {NoDataChange, ValidationError, EntityInUse}
         \<or> c = General \<and> str_includes msg signing_manager_text then 400
      else if c \<in> {InsufficientBalance, UnmetPrerequisite, LimitExceeded} then 422
      else if c = DataUnavailable then 404
      else if c = NotAuthorized then 401
      else 500)"

lemma thrown_PolymeshErr_status:
  "\<exists>a. thrown (PolymeshErr c msg) = AppErr a
       \<and> appErrorCodeToHttpStatusCode (code a) = sdk_status c msg"
  by (cases c) (auto simp: thrown_def sdk_status_def)

lemma thrown_idem: "thrown (thrown e) = thrown e"
proof (cases "\<exists>w. e = IllTyped w")
  case True
  then show ?thesis by (auto simp: thrown_def)
next
  case False
  then obtain a where "thrown e = AppErr a" using thrown_is_AppErr by blast
  then show ?thesis by simp
qed

lemma rethrow_sdk_idem: "rethrow_sdk (rethrow_sdk r) = rethrow_sdk r"
  by (simp add: rethrow_sdk_def thrown_idem split: sum.splits)

lemma convertTypeOrm_conflict:
  "convertTypeOrmErrorToAppError i r e = AppErr a \<longleftrightarrow>
     e = AppErr a \<or> (\<exists>msg. e = TypeOrmErr msg \<and> str_includes msg duplicate_key_text
                        \<and> a = appConflictError i r)"
  by (cases e) auto

section \<open>Properties\<close>

text \<open>
  C1: the HTTP response to an error of the SDK, for every code and text. Errors of the caller are answered with their status and the
  text of the SDK after the kind of error; missing data with the text as the identifier that was not found (an empty text is left out); and every other code
  with 500 and a text that discloses nothing. The text on foreign signers makes a general error one of the caller.
\<close>

theorem sdk_error_response:
  "\<exists>a. thrown (PolymeshErr c msg) = AppErr a
     \<and> catchAppError a = (case c of
         NoDataChange \<Rightarrow> \<lparr>statusCode = 400, reply_message = ''Validation: '' @ msg\<rparr>
       | ValidationError \<Rightarrow> \<lparr>statusCode = 400, reply_message = ''Validation: '' @ msg\<rparr>
       | EntityInUse \<Rightarrow> \<lparr>statusCode = 400, reply_message = ''Validation: '' @ msg\<rparr>
       | InsufficientBalance \<Rightarrow> \<lparr>statusCode = 422, reply_message = ''Unprocessable: '' @ msg\<rparr>
       | UnmetPrerequisite \<Rightarrow> \<lparr>statusCode = 422, reply_message = ''Unprocessable: '' @ msg\<rparr>
       | LimitExceeded \<Rightarrow> \<lparr>statusCode = 422, reply_message = ''Unprocessable: '' @ msg\<rparr>
       | DataUnavailable \<Rightarrow> \<lparr>statusCode = 404, reply_message = ''Not Found:  was not found''
            @ (if msg = '''' then '''' else '': with identifier: '' @ quoted msg)\<rparr>
       | NotAuthorized \<Rightarrow> \<lparr>statusCode = 401, reply_message = ''Unauthorized: '' @ msg\<rparr>
       | General \<Rightarrow> if str_includes msg ''not part of the Signing Manager attached to the SDK''
            then \<lparr>statusCode = 400, reply_message = ''Validation: '' @ msg\<rparr>
            else \<lparr>statusCode = 500, reply_message = ''Internal Server Error''\<rparr>
       | OtherSdkCode _ \<Rightarrow> \<lparr>statusCode = 500, reply_message = ''Internal Server Error''\<rparr>)"
  by (cases c) (auto simp: thrown_def catchAppError_def app_error_defs signing_manager_text_def Let_def)

text \<open>
  Errors that are neither application nor SDK errors (a failing library call, a
  \<open>TypeError\<close>, a thrown non-error) become a response that is the same for all of them, so nothing of
  them is disclosed; and passing an error through \<open>handleSdkError\<close> at two levels, as
  \<open>prepareProcedure\<close> within \<open>processTransaction\<close> does, is the same as passing it once.
\<close>

theorem foreign_errors_are_opaque:
  "e \<in> {TypeOrmErr m, PlainErr m, NotAnError} \<Longrightarrow>
     (\<exists>a. thrown e = AppErr a
        \<and> catchAppError a = \<lparr>statusCode = 500, reply_message = ''Internal Server Error''\<rparr>)
     \<and> thrown (thrown e) = thrown e"
  by (auto simp: thrown_def catchAppError_def Let_def)

theorem foreign_errors_are_opaque_witness:
  "(\<exists>a. thrown (PlainErr ''secret'') = AppErr a
        \<and> catchAppError a = \<lparr>statusCode = 500, reply_message = ''Internal Server Error''\<rparr>)
     \<and> thrown (thrown (PlainErr ''secret'')) = thrown (PlainErr ''secret'')"
  by (rule foreign_errors_are_opaque [of _ "''secret''"]) simp

end
