(* ===== verification/Local_Store.thy ===== *)
theory Local_Store
  imports Errors
begin

text \<open>
  What the in-memory repositories of \<open>datastore/local-store/repos\<close> have in common: a counter
  \<open>currentId\<close> and an object of models by identifier. \<open>store_ok\<close> is their invariant: every model is
  stored under its own identifier, no identifier is above the counter, so the next one is free, and
  \<open>Object.values\<close> lists each model once.
\<close>

record 'm local_store =
  ls_currentId :: nat
  ls_entries :: "'m int_object"

definition empty_store :: "'m local_store" where
  "empty_store = \<lparr>ls_currentId = 0, ls_entries = []\<rparr>"

definition ls_insert :: "(nat \<Rightarrow> 'm) \<Rightarrow> 'm local_store \<Rightarrow> 'm \<times> 'm local_store" where
  "ls_insert mk st =
     (let k = Suc (ls_currentId st); m = mk k
      in (m, st\<lparr>ls_currentId := k, ls_entries := int_put k m (ls_entries st)\<rparr>))"

definition ls_put :: "nat \<Rightarrow> 'm \<Rightarrow> 'm local_store \<Rightarrow> 'm local_store" where
  "ls_put i m st = st\<lparr>ls_entries := int_put i m (ls_entries st)\<rparr>"

abbreviation ls_get :: "'m local_store \<Rightarrow> nat \<rightharpoonup> 'm" where
  "ls_get st \<equiv> int_get (ls_entries st)"

definition store_ok :: "('m \<Rightarrow> nat) \<Rightarrow> 'm local_store \<Rightarrow> bool" where
  "store_ok ident st \<longleftrightarrow> keys_sorted (ls_entries st)
     \<and> (\<forall>k m. ls_get st k = Some m \<longrightarrow> ident m = k \<and> 0 < k \<and> k \<le> ls_currentId st)"

lemma store_ok_empty [simp]: "store_ok ident empty_store"
  by (simp add: store_ok_def empty_store_def)

lemma store_ok_ident: "store_ok ident st \<Longrightarrow> ls_get st i = Some m \<Longrightarrow> ident m = i"
  by (simp add: store_ok_def)

lemma store_ok_free: "store_ok ident st \<Longrightarrow> ls_get st (Suc (ls_currentId st)) = None"
  by (cases "ls_get st (Suc (ls_currentId st))") (force simp: store_ok_def)+

lemma ls_insert_sel [store_simps]:
  "fst (ls_insert mk st) = mk (Suc (ls_currentId st))"
  "ls_get (snd (ls_insert mk st)) =
     (ls_get st)(Suc (ls_currentId st) \<mapsto> mk (Suc (ls_currentId st)))"
  by (simp_all add: ls_insert_def Let_def store_simps)

lemma ls_put_get [store_simps]: "ls_get (ls_put i m st) = (ls_get st)(i \<mapsto> m)"
  by (simp add: ls_put_def store_simps)

lemma store_ok_insert:
  assumes "store_ok ident st" "\<And>k. ident (mk k) = k"
  shows "store_ok ident (snd (ls_insert mk st))"
  using assms by (auto simp: store_ok_def ls_insert_def Let_def store_simps le_SucI)

lemma store_ok_put:
  assumes "store_ok ident st" "ls_get st i = Some m0" "ident m = i"
  shows "store_ok ident (ls_put i m st)"
  using assms by (auto simp: store_ok_def ls_put_def store_simps)

lemma store_ok_values:
  assumes "store_ok ident st"
  shows "set (object_values (ls_entries st)) = ran (ls_get st)"
    and "distinct (map ident (object_values (ls_entries st)))"
proof -
  have srt: "keys_sorted (ls_entries st)" using assms by (simp add: store_ok_def)
  then show "set (object_values (ls_entries st)) = ran (ls_get st)"
    by (simp add: set_object_values ran_def)
  have "ident m = k" if "(k, m) \<in> set (ls_entries st)" for k m
    using assms map_of_is_SomeI [OF keys_sorted_distinct [OF srt] that] by (auto simp: store_ok_def)
  then have "map ident (object_values (ls_entries st)) = map fst (ls_entries st)"
    by (auto simp: object_values_def)
  then show "distinct (map ident (object_values (ls_entries st)))"
    using srt by (simp add: keys_sorted_distinct)
qed

end
