(* ===== verification/Auth.thy ===== *)
theory Auth
  imports Local_Store "HOL-Library.Multiset"
begin

text \<open>
  Users, API keys and the strategies that authenticate a request: \<open>users/users.service.ts\<close>,
  \<open>auth/auth.service.ts\<close>, \<open>auth/auth.utils.ts\<close>, \<open>auth/strategies\<close> and the in-memory repositories
  \<open>datastore/local-store/repos/users.repo.ts\<close> and \<open>api-key.repo.ts\<close>.

  The contracts of the two repositories are the locales \<open>users_repo\<close> and \<open>api_key_repo\<close>. The second one
  leaves open what happens to a set of keys (\<open>unspecified\<close>): the in-memory repository reads keys of a
  plain object, so the names every object inherits are found there. The random secret of a new key is an
  argument; \<open>None\<close> is a failure of the generator.
\<close>

section \<open>Data\<close>

record user =
  us_id :: string
  us_name :: string

definition defaultUser :: user where
  "defaultUser = \<lparr>us_id = ''-1'', us_name = ''DefaultUser''\<rparr>"

record api_key =
  ak_userId :: string
  ak_secret :: string

text \<open>Who a request is authenticated as: a user, or a property inherited from \<open>Object.prototype\<close>.\<close>

datatype principal = UserPrincipal user | InheritedPrincipal string

record 'u users_repo_ops =
  uo_findByName :: "string \<Rightarrow> (exn, 'u, user) eff"
  uo_createUser :: "string \<Rightarrow> (exn, 'u, user) eff"

record 'k api_key_repo_ops =
  ko_getUserByApiKey :: "string \<Rightarrow> (exn, 'k, principal) eff"
  ko_createApiKey :: "string option \<Rightarrow> user \<Rightarrow> (exn, 'k, api_key) eff"
  ko_deleteApiKey :: "string \<Rightarrow> (exn, 'k, unit) eff"

definition UsersRepo_type :: string where
  "UsersRepo_type = ''User''"

definition ApiKeyRepo_type :: string where
  "ApiKeyRepo_type = ''ApiKey''"

section \<open>The in-memory repositories\<close>

text \<open>The default user has the key \<open>-1\<close>, which \<open>Object.values\<close> lists after the integer keys.\<close>

record user_store =
  ur_users :: "user int_object"
  ur_nextId :: nat

definition empty_users :: user_store where
  "empty_users = \<lparr>ur_users = [], ur_nextId = 0\<rparr>"

definition all_users :: "user_store \<Rightarrow> user list" where
  "all_users st = object_values (ur_users st) @ [defaultUser]"

definition getUserByName :: "user_store \<Rightarrow> string \<Rightarrow> user option" where
  "getUserByName st name = find (\<lambda>u. us_name u = name) (all_users st)"

definition local_createUser :: "string \<Rightarrow> (exn, user_store, user) eff" where
  "local_createUser name = (\<lambda>st. case getUserByName st name of
      Some _ \<Rightarrow> (Inl (AppErr (appConflictError name UsersRepo_type)), st)
    | None \<Rightarrow>
        (let k = Suc (ur_nextId st); u = \<lparr>us_id = nat_to_string k, us_name = name\<rparr>
         in (Inr u, st\<lparr>ur_nextId := k, ur_users := int_put k u (ur_users st)\<rparr>)))"

definition local_findByName :: "string \<Rightarrow> (exn, user_store, user) eff" where
  "local_findByName name = (\<lambda>st. case getUserByName st name of
      None \<Rightarrow> (Inl (AppErr (appNotFoundError name UsersRepo_type)), st)
    | Some u \<Rightarrow> (Inr u, st))"

definition local_users_repo :: "user_store users_repo_ops" where
  "local_users_repo = \<lparr>uo_findByName = local_findByName, uo_createUser = local_createUser\<rparr>"

type_synonym key_store = "string \<rightharpoonup> user"

definition parseApiKeysConfig :: "string \<Rightarrow> string list" where
  "parseApiKeysConfig raw = (if trim raw = '''' then [] else map trim (split_on (CHR '','') raw))"

text \<open>
  The constructor; a configured key named \<open>__proto__\<close> is outside the model, and a secret, which is
  Base64, is never that name.
\<close>

definition initial_keys :: "string \<Rightarrow> key_store" where
  "initial_keys givenApiKeys = foldl (\<lambda>m key. m(key \<mapsto> defaultUser)) Map.empty (parseApiKeysConfig givenApiKeys)"

definition local_getUserByApiKey :: "string \<Rightarrow> (exn, key_store, principal) eff" where
  "local_getUserByApiKey apiKey = (\<lambda>m. case js_get m apiKey of
      Absent \<Rightarrow> (Inl (AppErr (appNotFoundError ''*REDACTED*'' ApiKeyRepo_type)), m)
    | Own u \<Rightarrow> (Inr (UserPrincipal u), m)
    | Inherited k \<Rightarrow> (Inr (InheritedPrincipal k), m))"

definition local_deleteApiKey :: "string \<Rightarrow> (exn, key_store, unit) eff" where
  "local_deleteApiKey apiKey = (\<lambda>m. (Inr (), m(apiKey := None)))"

definition local_createApiKey :: "string option \<Rightarrow> user \<Rightarrow> (exn, key_store, api_key) eff" where
  "local_createApiKey rnd u = (\<lambda>m. case rnd of
      None \<Rightarrow> (Inl (PlainErr ''randomBytes''), m)
    | Some secret \<Rightarrow> (Inr \<lparr>ak_userId = us_id u, ak_secret = secret\<rparr>, m(secret \<mapsto> u)))"

definition local_api_keys_repo :: "key_store api_key_repo_ops" where
  "local_api_keys_repo = \<lparr>ko_getUserByApiKey = local_getUserByApiKey,
     ko_createApiKey = local_createApiKey, ko_deleteApiKey = local_deleteApiKey\<rparr>"

section \<open>The services and strategies\<close>

record ('u, 'k) auth_state =
  au_users :: 'u
  au_keys :: 'k

abbreviation on_users :: "(exn, 'u, 'a) eff \<Rightarrow> (exn, ('u, 'k) auth_state, 'a) eff" where
  "on_users m \<equiv> zoom au_users (\<lambda>t. au_users_update (\<lambda>_. t)) m"

abbreviation on_keys :: "(exn, 'k, 'a) eff \<Rightarrow> (exn, ('u, 'k) auth_state, 'a) eff" where
  "on_keys m \<equiv> zoom au_keys (\<lambda>t. au_keys_update (\<lambda>_. t)) m"

definition users_getByName :: "'u users_repo_ops \<Rightarrow> string \<Rightarrow> (exn, ('u, 'k) auth_state, user) eff" where
  "users_getByName U name = on_users (uo_findByName U name)"

definition users_createUser :: "'u users_repo_ops \<Rightarrow> string \<Rightarrow> (exn, ('u, 'k) auth_state, user) eff" where
  "users_createUser U name = andThen (on_users (uo_createUser U name)) ret"

definition createApiKey ::
    "'u users_repo_ops \<Rightarrow> 'k api_key_repo_ops \<Rightarrow> string option \<Rightarrow> string \<Rightarrow>
     (exn, ('u, 'k) auth_state, api_key) eff" where
  "createApiKey U K rnd userName =
     andThen (users_getByName U userName) (\<lambda>user. on_keys (ko_createApiKey K rnd user))"

definition validateApiKey :: "'k api_key_repo_ops \<Rightarrow> string \<Rightarrow> (exn, ('u, 'k) auth_state, principal) eff" where
  "validateApiKey K apiKey = on_keys (ko_getUserByApiKey K apiKey)"

definition deleteApiKey :: "'k api_key_repo_ops \<Rightarrow> string \<Rightarrow> (exn, ('u, 'k) auth_state, unit) eff" where
  "deleteApiKey K apiKey = on_keys (ko_deleteApiKey K apiKey)"

text \<open>
  \<open>ApiKeyStrategy.validate\<close>. A principal is an object, so the test for a missing user never holds.
\<close>

definition apiKeyStrategy_validate :: "'k api_key_repo_ops \<Rightarrow> string \<Rightarrow> (exn, ('u, 'k) auth_state, principal) eff" where
  "apiKeyStrategy_validate K apiKey = andThen (validateApiKey K apiKey) ret"

definition openStrategy_validate :: principal where
  "openStrategy_validate = UserPrincipal defaultUser"

section \<open>Configuration of the strategies\<close>

datatype auth_strategy = ApiKey | Open

definition authStrategyValues :: "auth_strategy list" where
  "authStrategyValues = [ApiKey, Open]"

text \<open>\<open>indexOf\<close> on a list, \<open>-1\<close> for a missing element.\<close>

fun indexOf :: "'a list \<Rightarrow> 'a \<Rightarrow> int" where
  "indexOf [] x = - 1"
| "indexOf (y # ys) x = (if y = x then 0 else if indexOf ys x = - 1 then - 1 else indexOf ys x + 1)"

definition cmpAuthStrategyOrder :: "auth_strategy \<Rightarrow> auth_strategy \<Rightarrow> int" where
  "cmpAuthStrategyOrder a b = indexOf authStrategyValues a - indexOf authStrategyValues b"

text \<open>The order that sorting with \<open>cmpAuthStrategyOrder\<close> follows.\<close>

instantiation auth_strategy :: linorder
begin

definition less_eq_auth_strategy :: "auth_strategy \<Rightarrow> auth_strategy \<Rightarrow> bool" where
  "less_eq_auth_strategy a b \<longleftrightarrow> cmpAuthStrategyOrder a b \<le> 0"

definition less_auth_strategy :: "auth_strategy \<Rightarrow> auth_strategy \<Rightarrow> bool" where
  "less_auth_strategy a b \<longleftrightarrow> cmpAuthStrategyOrder a b < 0"

instance
proof
  fix x y :: auth_strategy
  show "x \<le> y \<Longrightarrow> y \<le> x \<Longrightarrow> x = y"
    by (cases x; cases y) (simp_all add: less_eq_auth_strategy_def cmpAuthStrategyOrder_def authStrategyValues_def)
qed (auto simp: less_eq_auth_strategy_def less_auth_strategy_def cmpAuthStrategyOrder_def)

end

fun strategy_value :: "auth_strategy \<Rightarrow> string" where
  "strategy_value ApiKey = ''apiKey''"
| "strategy_value Open = ''open''"

text \<open>\<open>isStrategyKey\<close>, with the strategy a key stands for.\<close>

definition isStrategyKey :: "string \<Rightarrow> auth_strategy option" where
  "isStrategyKey key = find (\<lambda>s. strategy_value s = key) authStrategyValues"

definition parseAuthStrategyConfig :: "string \<Rightarrow> auth_strategy list result" where
  "parseAuthStrategyConfig raw =
     (let givenStrategies = map trim (split_on (CHR '','') raw);
          filteredStrategies = List.map_filter isStrategyKey givenStrategies
      in if length filteredStrategies \<noteq> length givenStrategies
         then Inl (PlainErr (''Auth config error! '' @ quoted (join_with (CHR '','') givenStrategies)
                @ '' contains an unrecognized option. Valid values are: ''
                @ quoted (join_with (CHR '','') (map strategy_value authStrategyValues))))
         else Inr (sort filteredStrategies))"

section \<open>Contracts\<close>

locale users_repo =
  fixes U :: "'u users_repo_ops"
    and names_of :: "'u \<Rightarrow> string \<rightharpoonup> user"
    and users_ok :: "'u \<Rightarrow> bool"
  assumes find_known: "users_ok st \<Longrightarrow> names_of st n = Some u \<Longrightarrow> uo_findByName U n st = (Inr u, st)"
    and find_unknown: "users_ok st \<Longrightarrow> names_of st n = None \<Longrightarrow>
        \<exists>e. uo_findByName U n st = (Inl (AppErr e), st) \<and> code e = NotFound"
    and create_taken: "users_ok st \<Longrightarrow> names_of st n \<noteq> None \<Longrightarrow>
        \<exists>e. uo_createUser U n st = (Inl (AppErr e), st) \<and> code e = Conflict"
    and create_free: "users_ok st \<Longrightarrow> names_of st n = None \<Longrightarrow>
        \<exists>u st'. uo_createUser U n st = (Inr u, st') \<and> us_name u = n \<and> users_ok st'
        \<and> names_of st' = (names_of st)(n \<mapsto> u) \<and> us_id u \<notin> us_id ` ran (names_of st)"
begin

text \<open>A created user is found by name, and creating a second one of that name is a conflict.\<close>

lemma create_then_find:
  assumes "users_ok (au_users a)" "names_of (au_users a) n = None"
  obtains u a' where "users_createUser U n a = (Inr u, a')" "users_getByName U n a' = (Inr u, a')"
    "\<exists>e. users_createUser U n a' = (Inl (AppErr e), a') \<and> code e = Conflict" "au_keys a' = au_keys a"
proof -
  obtain u st where u: "uo_createUser U n (au_users a) = (Inr u, st)" "users_ok st"
    "names_of st = (names_of (au_users a))(n \<mapsto> u)"
    using create_free [OF assms] by blast
  let ?a' = "a\<lparr>au_users := st\<rparr>"
  have found: "names_of st n = Some u" using u(3) by simp
  have 1: "users_createUser U n a = (Inr u, ?a')"
    by (simp add: users_createUser_def andThen_def zoom_def u(1) eff_simps)
  have 2: "users_getByName U n ?a' = (Inr u, ?a')"
    by (simp add: users_getByName_def zoom_def find_known [OF u(2) found])
  have "names_of st n \<noteq> None" using found by simp
  from create_taken [OF u(2) this] have 3: "\<exists>e. users_createUser U n ?a' = (Inl (AppErr e), ?a') \<and> code e = Conflict"
    by (auto simp: users_createUser_def andThen_def zoom_def)
  from 1 2 3 show thesis by (rule that) simp
qed

end

locale api_key_repo =
  fixes K :: "'k api_key_repo_ops"
    and keys_of :: "'k \<Rightarrow> string \<rightharpoonup> user"
    and unspecified :: "string set"
  assumes get_known: "keys_of st k = Some u \<Longrightarrow> ko_getUserByApiKey K k st = (Inr (UserPrincipal u), st)"
    and get_unknown: "keys_of st k = None \<Longrightarrow> k \<notin> unspecified \<Longrightarrow>
        \<exists>e. ko_getUserByApiKey K k st = (Inl (AppErr e), st) \<and> code e = NotFound"
    and create_key: "\<exists>st'. ko_createApiKey K (Some s) u st = (Inr \<lparr>ak_userId = us_id u, ak_secret = s\<rparr>, st')
        \<and> keys_of st' = (keys_of st)(s \<mapsto> u)"
    and create_fails: "\<exists>e. ko_createApiKey K None u st = (Inl e, st)"
    and delete_key: "\<exists>st'. ko_deleteApiKey K k st = (Inr (), st') \<and> keys_of st' = (keys_of st)(k := None)"
begin

lemma validate_iff:
  assumes "k \<notin> unspecified"
  shows "fst (apiKeyStrategy_validate K k a) = Inr p \<longleftrightarrow>
    (\<exists>u. keys_of (au_keys a) k = Some u \<and> p = UserPrincipal u)"
proof (cases "keys_of (au_keys a) k")
  case None
  then obtain e where "ko_getUserByApiKey K k (au_keys a) = (Inl (AppErr e), au_keys a)"
    using get_unknown assms by blast
  with None show ?thesis
    by (simp add: apiKeyStrategy_validate_def validateApiKey_def andThen_def zoom_def)
next
  case (Some u)
  from get_known [OF Some] Some show ?thesis
    by (auto simp: apiKeyStrategy_validate_def validateApiKey_def andThen_def zoom_def eff_simps)
qed

end

section \<open>The in-memory repositories keep the contracts\<close>

definition local_users_ok :: "user_store \<Rightarrow> bool" where
  "local_users_ok st \<longleftrightarrow> (\<forall>(k, u) \<in> set (ur_users st). us_id u = nat_to_string k \<and> k \<le> ur_nextId st)"

lemma find_append_case: "find P (xs @ ys) = (case find P xs of None \<Rightarrow> find P ys | Some x \<Rightarrow> Some x)"
  by (induction xs) auto

lemma find_SomeD: "find P xs = Some x \<Longrightarrow> x \<in> set xs \<and> P x"
  by (induction xs) (auto split: if_splits)

lemma nat_to_string_digits: "c \<in> set (nat_to_string n) \<Longrightarrow> \<exists>d < 10. c = digit_char d"
proof (induction n rule: nat_to_string.induct)
  case (1 n)
  show ?case
  proof (cases "n < 10")
    case True
    with "1.prems" show ?thesis by (auto simp: nat_to_string.simps [of n])
  next
    case False
    with "1.prems" have "c \<in> set (nat_to_string (n div 10)) \<or> c = digit_char (n mod 10)"
      by (auto simp: nat_to_string.simps [of n])
    then show ?thesis
    proof
      assume "c = digit_char (n mod 10)"
      then show ?thesis by (intro exI [of _ "n mod 10"]) simp
    qed (use "1.IH" False in blast)
  qed
qed

lemma nat_to_string_not_default: "nat_to_string n \<noteq> us_id defaultUser"
proof
  assume "nat_to_string n = us_id defaultUser"
  then have "CHR ''-'' \<in> set (nat_to_string n)" by (simp add: defaultUser_def)
  then obtain d where "d < 10" "CHR ''-'' = digit_char d" using nat_to_string_digits by blast
  then have "of_char (CHR ''-'') = (of_char (digit_char d) :: nat)" by simp
  with \<open>d < 10\<close> show False by (simp add: digit_char_def of_char_of)
qed

lemma local_user_id:
  assumes "local_users_ok st" "u \<in> set (all_users st)"
  shows "us_id u \<noteq> nat_to_string (Suc (ur_nextId st))"
  using assms nat_to_string_not_default [of "Suc (ur_nextId st)"]
  by (force simp: all_users_def object_values_def local_users_ok_def)

lemma local_create_free:
  assumes ok: "local_users_ok st" and free: "getUserByName st n = None"
  defines "u \<equiv> \<lparr>us_id = nat_to_string (Suc (ur_nextId st)), us_name = n\<rparr>"
  defines "st' \<equiv> st\<lparr>ur_nextId := Suc (ur_nextId st), ur_users := int_put (Suc (ur_nextId st)) u (ur_users st)\<rparr>"
  shows "local_createUser n st = (Inr u, st')" "local_users_ok st'" "getUserByName st' = (getUserByName st)(n \<mapsto> u)"
proof -
  have app: "ur_users st' = ur_users st @ [(Suc (ur_nextId st), u)]"
    using ok by (auto simp: st'_def local_users_ok_def intro!: int_put_above)
  show "local_createUser n st = (Inr u, st')"
    by (simp add: local_createUser_def free u_def st'_def Let_def)
  show "local_users_ok st'"
    using ok unfolding local_users_ok_def app by (auto simp: u_def st'_def)
  show "getUserByName st' = (getUserByName st)(n \<mapsto> u)"
    using free
    by (auto simp: getUserByName_def all_users_def object_values_def app find_append_case u_def
        split: option.splits if_splits)
qed

interpretation local_user: users_repo local_users_repo getUserByName local_users_ok
proof unfold_locales
  fix st n
  assume ok: "local_users_ok st" and free: "getUserByName st n = None"
  note c = local_create_free [OF ok free]
  have "nat_to_string (Suc (ur_nextId st)) \<notin> us_id ` ran (getUserByName st)"
    using local_user_id [OF ok] by (fastforce simp: ran_def getUserByName_def dest: find_SomeD)
  with c show "\<exists>u st'. uo_createUser local_users_repo n st = (Inr u, st') \<and> us_name u = n \<and> local_users_ok st'
      \<and> getUserByName st' = (getUserByName st)(n \<mapsto> u) \<and> us_id u \<notin> us_id ` ran (getUserByName st)"
    by (auto simp: local_users_repo_def)
qed (auto simp: local_users_repo_def local_findByName_def local_createUser_def)

interpretation local_key: api_key_repo local_api_keys_repo "\<lambda>m. m" "set object_prototype_keys"
  by unfold_locales (auto simp: local_api_keys_repo_def local_getUserByApiKey_def local_createApiKey_def
      local_deleteApiKey_def js_simps)

section \<open>Sequences of requests\<close>

text \<open>A request that changes who may authenticate.\<close>

datatype auth_request = CreateUser string | CreateKey string "string option" | DeleteKey string

fun handle_auth ::
    "auth_request \<Rightarrow> (user_store, key_store) auth_state \<Rightarrow> (user_store, key_store) auth_state" where
  "handle_auth (CreateUser n) a = snd (users_createUser local_users_repo n a)"
| "handle_auth (CreateKey n rnd) a = snd (createApiKey local_users_repo local_api_keys_repo rnd n a)"
| "handle_auth (DeleteKey k) a = snd (deleteApiKey local_api_keys_repo k a)"

definition auth_start :: "string \<Rightarrow> (user_store, key_store) auth_state" where
  "auth_start givenApiKeys = \<lparr>au_users = empty_users, au_keys = initial_keys givenApiKeys\<rparr>"

definition after_requests :: "string \<Rightarrow> auth_request list \<Rightarrow> (user_store, key_store) auth_state" where
  "after_requests givenApiKeys rs = fold handle_auth rs (auth_start givenApiKeys)"

text \<open>
  What the keys should be after the requests: a specification that knows users by name only. The default
  user exists from the start.
\<close>

fun key_spec :: "auth_request list \<Rightarrow> (string set \<times> (string \<rightharpoonup> string)) \<Rightarrow> (string set \<times> (string \<rightharpoonup> string))" where
  "key_spec [] s = s"
| "key_spec (CreateUser n # rs) (names, keys) = key_spec rs (insert n names, keys)"
| "key_spec (CreateKey n (Some k) # rs) (names, keys) =
     key_spec rs (names, if n \<in> names then keys(k \<mapsto> n) else keys)"
| "key_spec (CreateKey n None # rs) s = key_spec rs s"
| "key_spec (DeleteKey k # rs) (names, keys) = key_spec rs (names, keys(k := None))"

definition key_start :: "string \<Rightarrow> string set \<times> (string \<rightharpoonup> string)" where
  "key_start givenApiKeys = ({us_name defaultUser},
     \<lambda>k. if k \<in> set (parseApiKeysConfig givenApiKeys) then Some (us_name defaultUser) else None)"

lemma initial_keys_eq:
  "initial_keys g = (\<lambda>k. if k \<in> set (parseApiKeysConfig g) then Some defaultUser else None)"
proof -
  have "foldl (\<lambda>m key. m(key \<mapsto> defaultUser)) m ks = (\<lambda>k. if k \<in> set ks then Some defaultUser else m k)" for ks m
    by (induction ks arbitrary: m) (auto simp: fun_eq_iff)
  then show ?thesis by (simp add: initial_keys_def)
qed

text \<open>The simulation between the services and the specification.\<close>

definition auth_sim :: "(user_store, key_store) auth_state \<Rightarrow> string set \<times> (string \<rightharpoonup> string) \<Rightarrow> bool" where
  "auth_sim a s \<longleftrightarrow> local_users_ok (au_users a) \<and> fst s = dom (getUserByName (au_users a))
     \<and> snd s = (\<lambda>k. map_option us_name (au_keys a k))"

lemma getUserByName_name: "getUserByName st n = Some u \<Longrightarrow> us_name u = n"
  by (auto simp: getUserByName_def dest: find_SomeD)

lemma auth_sim_run:
  assumes "auth_sim a s"
  shows "auth_sim (fold handle_auth rs a) (key_spec rs s)"
  using assms
proof (induction rs s arbitrary: a rule: key_spec.induct)
  case (2 n rs names keys)
  have "auth_sim (handle_auth (CreateUser n) a) (insert n names, keys)"
  proof (cases "getUserByName (au_users a) n")
    case None
    with "2.prems" local_create_free [OF _ None] show ?thesis
      by (auto simp: auth_sim_def users_createUser_def local_users_repo_def andThen_def zoom_def eff_simps)
  next
    case (Some u)
    with "2.prems" show ?thesis
      by (auto simp: auth_sim_def users_createUser_def local_users_repo_def local_createUser_def
          andThen_def zoom_def insert_absorb domI)
  qed
  with "2.IH" show ?case by simp
next
  case (3 n k rs names keys)
  have "auth_sim (handle_auth (CreateKey n (Some k)) a) (names, if n \<in> names then keys(k \<mapsto> n) else keys)"
    using "3.prems" getUserByName_name [of "au_users a" n]
    by (cases "getUserByName (au_users a) n")
      (auto simp: auth_sim_def createApiKey_def users_getByName_def local_users_repo_def local_findByName_def
        local_api_keys_repo_def local_createApiKey_def andThen_def zoom_def fun_eq_iff)
  with "3.IH" show ?case by simp
next
  case (4 n rs s)
  have "auth_sim (handle_auth (CreateKey n None) a) s"
    using "4.prems" by (cases "getUserByName (au_users a) n")
      (auto simp: auth_sim_def createApiKey_def users_getByName_def local_users_repo_def local_findByName_def
        local_api_keys_repo_def local_createApiKey_def andThen_def zoom_def)
  with "4.IH" show ?case by simp
next
  case (5 k rs names keys)
  have "auth_sim (handle_auth (DeleteKey k) a) (names, keys(k := None))"
    using "5.prems"
    by (auto simp: auth_sim_def deleteApiKey_def local_api_keys_repo_def local_deleteApiKey_def zoom_def fun_eq_iff)
  with "5.IH" show ?case by simp
qed simp

lemma auth_sim_start: "auth_sim (auth_start g) (key_start g)"
  by (auto simp: auth_sim_def auth_start_def key_start_def local_users_ok_def empty_users_def getUserByName_def
      all_users_def object_values_def initial_keys_eq fun_eq_iff split: if_splits)
lemma strategy_value_inject [simp]: "strategy_value s = strategy_value t \<longleftrightarrow> s = t"
  by (cases s; cases t) simp_all

lemma isStrategyKey_iff: "isStrategyKey k = Some s \<longleftrightarrow> k = strategy_value s"
  by (cases s) (auto simp: isStrategyKey_def authStrategyValues_def)

lemma map_filter_length: "length (List.map_filter f xs) = length xs \<longleftrightarrow> (\<forall>x \<in> set xs. f x \<noteq> None)"
proof (induction xs)
  case (Cons x xs)
  have "length (List.map_filter f xs) \<le> length xs" by (induction xs) (auto simp: map_filter_simps split: option.split)
  with Cons show ?case by (auto simp: map_filter_simps split: option.split)
qed (simp add: map_filter_simps)

lemma recognised_values:
  "\<forall>x \<in> set xs. isStrategyKey x \<noteq> None \<Longrightarrow> map strategy_value (List.map_filter isStrategyKey xs) = xs"
  by (induction xs) (auto simp: map_filter_simps isStrategyKey_iff split: option.split)

lemma isStrategyKey_value [simp]: "isStrategyKey (strategy_value s) = Some s"
  by (simp add: isStrategyKey_iff)

lemma decode_strategies:
  "image_mset (\<lambda>k. the (isStrategyKey k)) (mset (map strategy_value ss)) = mset ss"
  by (induction ss) simp_all

section \<open>Properties\<close>

text \<open>
  C21: authentication with API keys. After any sequence of requests that create users, create keys and
  delete keys, a key authenticates a request as a user if and only if the specification says so: the key
  was configured or issued to a user that existed, and has not been deleted since. The names every
  object inherits are excluded, as is a configured key \<open>__proto__\<close>, which would replace what the object inherits.
\<close>

theorem api_keys_refine_specification:
  assumes "k \<notin> set object_prototype_keys" "''__proto__'' \<notin> set (parseApiKeysConfig g)"
  shows "(\<exists>u. fst (apiKeyStrategy_validate local_api_keys_repo k (after_requests g rs)) = Inr (UserPrincipal u) \<and> us_name u = n)
    \<longleftrightarrow> snd (key_spec rs (key_start g)) k = Some n"
proof -
  let ?a = "after_requests g rs"
  have "auth_sim ?a (key_spec rs (key_start g))"
    unfolding after_requests_def by (rule auth_sim_run [OF auth_sim_start])
  then have "snd (key_spec rs (key_start g)) k = map_option us_name (au_keys ?a k)" by (simp add: auth_sim_def)
  then show ?thesis using local_key.validate_iff [OF assms(1), of ?a] by auto
qed

theorem api_keys_refine_specification_witness:
  "\<exists>u. fst (apiKeyStrategy_validate local_api_keys_repo ''k1''
      (after_requests ''a, b'' [CreateUser ''Alice'', CreateKey ''Alice'' (Some ''k1''), DeleteKey ''a''])) = Inr (UserPrincipal u)
    \<and> us_name u = ''Alice''"
proof -
  have "''k1'' \<notin> set object_prototype_keys" "''__proto__'' \<notin> set (parseApiKeysConfig ''a, b'')" by code_simp+
  moreover have "snd (key_spec [CreateUser ''Alice'', CreateKey ''Alice'' (Some ''k1''), DeleteKey ''a''] (key_start ''a, b'')) ''k1''
      = Some ''Alice''" by (simp add: key_start_def)
  ultimately show ?thesis using api_keys_refine_specification [of "''k1''" "''a, b''"] by blast
qed

text \<open>
  C22: an API key that names a property of \<open>Object.prototype\<close>, such as \<open>constructor\<close>, is accepted by the
  in-memory repository in every state, though it was never issued: the request is authenticated and
  no user stands behind it.
\<close>

theorem inherited_names_authenticate:
  assumes "k \<in> set object_prototype_keys" "au_keys a k = None"
  shows "fst (apiKeyStrategy_validate local_api_keys_repo k a) = Inr (InheritedPrincipal k)"
  using assms by (simp add: apiKeyStrategy_validate_def validateApiKey_def local_api_keys_repo_def
      local_getUserByApiKey_def andThen_def zoom_def js_simps eff_simps)

theorem inherited_names_authenticate_witness:
  "fst (apiKeyStrategy_validate local_api_keys_repo ''constructor'' (auth_start '''')) = Inr (InheritedPrincipal ''constructor'')"
proof -
  have "''constructor'' \<in> set object_prototype_keys" "au_keys (auth_start '''') ''constructor'' = None" by code_simp+
  then show ?thesis by (rule inherited_names_authenticate)
qed

lemma sorted_strategies: "sorted (replicate m ApiKey @ replicate n Open)"
  by (auto simp: sorted_append less_eq_auth_strategy_def cmpAuthStrategyOrder_def authStrategyValues_def sorted_replicate)

lemma count_recognised:
  "\<forall>x \<in> set xs. isStrategyKey x \<noteq> None \<Longrightarrow> count (mset (List.map_filter isStrategyKey xs)) s = count_list xs (strategy_value s)"
  by (induction xs) (auto simp: map_filter_simps isStrategyKey_iff split: option.split)

lemma strategies_mset: "mset ss = replicate_mset (count (mset ss) ApiKey) ApiKey + replicate_mset (count (mset ss) Open) Open"
proof (rule multiset_eqI)
  fix x show "count (mset ss) x = count (replicate_mset (count (mset ss) ApiKey) ApiKey + replicate_mset (count (mset ss) Open) Open) x"
    by (cases x) simp_all
qed

lemma sort_strategies: "sort ss = replicate (count (mset ss) ApiKey) ApiKey @ replicate (count (mset ss) Open) Open"
  by (rule properties_for_sort [OF _ sorted_strategies]) (simp add: strategies_mset [symmetric])

text \<open>
  C23: the configured strategies. The configuration is accepted exactly when every comma separated piece is, apart from spaces around it, the name
  \<open>apiKey\<close> or \<open>open\<close>; the strategies are then evaluated with every API key strategy first and every open strategy last, each as often as it was given.
\<close>

theorem parse_strategies_correct:
  "parseAuthStrategyConfig raw = Inr ss \<longleftrightarrow>
     (let given = map trim (split_on (CHR '','') raw)
      in (\<forall>key \<in> set given. key = ''apiKey'' \<or> key = ''open'')
         \<and> ss = replicate (count_list given ''apiKey'') ApiKey @ replicate (count_list given ''open'') Open)"
proof -
  define given where "given = map trim (split_on (CHR '','') raw)"
  have names: "isStrategyKey key \<noteq> None \<longleftrightarrow> key = ''apiKey'' \<or> key = ''open''" for key
    by (auto simp: isStrategyKey_def authStrategyValues_def)
  have "parseAuthStrategyConfig raw = Inr ss \<longleftrightarrow> (\<forall>x \<in> set given. isStrategyKey x \<noteq> None) \<and> ss = sort (List.map_filter isStrategyKey given)"
    unfolding parseAuthStrategyConfig_def Let_def given_def [symmetric] map_filter_length by auto
  also have "\<dots> \<longleftrightarrow> (\<forall>x \<in> set given. isStrategyKey x \<noteq> None)
      \<and> ss = replicate (count_list given ''apiKey'') ApiKey @ replicate (count_list given ''open'') Open"
    using count_recognised [of given] by (auto simp: sort_strategies)
  finally show ?thesis unfolding names given_def Let_def .
qed

text \<open>Strategies with the open one first are put in order, and a name that is none is refused.\<close>

theorem parse_strategies_correct_witness:
  "parseAuthStrategyConfig ''open, apiKey'' = Inr [ApiKey, Open] \<and> (\<forall>ss. parseAuthStrategyConfig ''open,key'' \<noteq> Inr ss)"
  unfolding parse_strategies_correct by (simp add: trim_def is_space_def)

end
