(* ===== verification/Schedule.thy ===== *)
theory Schedule
  imports Errors
begin

text \<open>
  Scheduled tasks: \<open>schedule/schedule.service.ts\<close> and \<open>schedule/types.ts\<close>.

  The state is the set of the running timers of the process (what \<open>setTimeout\<close> and
  \<open>setInterval\<close> create, each with its handle) and the registry of names. The registry is a class of
  the package \<open>@nestjs/schedule\<close>: it is the parameter \<open>registry_api\<close>, and \<open>registry_ok\<close> states its
  documented behaviour (adding a name that is present throws, deleting a name stops its timer, and
  throws when the name is absent). The callbacks are values of a type \<open>'t\<close> of tasks.

  The lemmas keep \<open>sched_ok\<close>: the timeouts that have not fired are exactly the names of the
  registry, each with its own handle. So a timeout that fires can delete its name, and its name can be
  used again from then on.
\<close>

datatype scheduled_task_type = Timeout | Interval

record 'r registry_api =
  addTimeoutR :: "string \<Rightarrow> nat \<Rightarrow> 'r \<Rightarrow> 'r result"
  deleteTimeoutR :: "string \<Rightarrow> 'r \<Rightarrow> ('r \<times> nat) result"
  addIntervalR :: "string \<Rightarrow> nat \<Rightarrow> 'r \<Rightarrow> 'r result"
  deleteIntervalR :: "string \<Rightarrow> 'r \<Rightarrow> ('r \<times> nat) result"
  timeoutsR :: "'r \<Rightarrow> string \<rightharpoonup> nat"
  intervalsR :: "'r \<Rightarrow> string \<rightharpoonup> nat"

definition registry_ok :: "'r registry_api \<Rightarrow> bool" where
  "registry_ok api \<longleftrightarrow>
     (\<forall>r n h. timeoutsR api r n = None \<longrightarrow>
        (\<exists>r'. addTimeoutR api n h r = Inr r' \<and> timeoutsR api r' = (timeoutsR api r)(n \<mapsto> h)
              \<and> intervalsR api r' = intervalsR api r))
   \<and> (\<forall>r n h. timeoutsR api r n \<noteq> None \<longrightarrow> (\<exists>e. addTimeoutR api n h r = Inl e))
   \<and> (\<forall>r n h. timeoutsR api r n = Some h \<longrightarrow>
        (\<exists>r'. deleteTimeoutR api n r = Inr (r', h) \<and> timeoutsR api r' = (timeoutsR api r)(n := None)
              \<and> intervalsR api r' = intervalsR api r))
   \<and> (\<forall>r n. timeoutsR api r n = None \<longrightarrow> (\<exists>e. deleteTimeoutR api n r = Inl e))"

record 't timer =
  t_handle :: nat
  t_name :: string
  t_type :: scheduled_task_type
  t_task :: 't
  t_due :: int

record ('r, 't) scheduler =
  registry :: 'r
  timers :: "'t timer list"
  nextHandle :: nat

text \<open>The delay the runtime uses: anything that is not between 1 and 2147483647 becomes 1.\<close>

fun timer_delay :: "js_number \<Rightarrow> int" where
  "timer_delay NaN = 1"
| "timer_delay (Num n) = (if n < 1 \<or> n > 2147483647 then 1 else n)"

section \<open>Operations\<close>

definition start_timer ::
    "string \<Rightarrow> scheduled_task_type \<Rightarrow> 't \<Rightarrow> int \<Rightarrow> ('r, 't) scheduler \<Rightarrow> ('r, 't) scheduler" where
  "start_timer ident ty cb due s =
     s\<lparr>timers := timers s @ [\<lparr>t_handle = nextHandle s, t_name = ident, t_type = ty,
                              t_task = cb, t_due = due\<rparr>],
       nextHandle := Suc (nextHandle s)\<rparr>"

definition clear_timer :: "nat \<Rightarrow> ('r, 't) scheduler \<Rightarrow> ('r, 't) scheduler" where
  "clear_timer h s = s\<lparr>timers := filter (\<lambda>t. t_handle t \<noteq> h) (timers s)\<rparr>"

text \<open>The timer is started first; a name that is already registered throws after that.\<close>

definition addInterval ::
    "'r registry_api \<Rightarrow> int \<Rightarrow> string \<Rightarrow> 't \<Rightarrow> js_number \<Rightarrow> (exn, ('r, 't) scheduler, unit) eff" where
  "addInterval api time ident cb ms = (\<lambda>s.
     let s1 = start_timer ident Interval cb (time + timer_delay ms) s in
     (case addIntervalR api ident (nextHandle s) (registry s) of
        Inl e \<Rightarrow> (Inl e, s1)
      | Inr r \<Rightarrow> (Inr (), s1\<lparr>registry := r\<rparr>)))"

definition deleteInterval ::
    "'r registry_api \<Rightarrow> string \<Rightarrow> (exn, ('r, 't) scheduler, unit) eff" where
  "deleteInterval api ident = (\<lambda>s.
     (case deleteIntervalR api ident (registry s) of
        Inl e \<Rightarrow> (Inl e, s)
      | Inr (r, h) \<Rightarrow> (Inr (), clear_timer h (s\<lparr>registry := r\<rparr>))))"

definition addTimeout ::
    "'r registry_api \<Rightarrow> int \<Rightarrow> string \<Rightarrow> 't \<Rightarrow> js_number \<Rightarrow> (exn, ('r, 't) scheduler, unit) eff" where
  "addTimeout api time ident cb ms = (\<lambda>s.
     let s1 = start_timer ident Timeout cb (time + timer_delay ms) s in
     (case addTimeoutR api ident (nextHandle s) (registry s) of
        Inl e \<Rightarrow> (Inl e, s1)
      | Inr r \<Rightarrow> (Inr (), s1\<lparr>registry := r\<rparr>)))"

definition deleteTimeout ::
    "'r registry_api \<Rightarrow> string \<Rightarrow> (exn, ('r, 't) scheduler, unit) eff" where
  "deleteTimeout api ident = (\<lambda>s.
     (case deleteTimeoutR api ident (registry s) of
        Inl e \<Rightarrow> (Inl e, s)
      | Inr (r, h) \<Rightarrow> (Inr (), clear_timer h (s\<lparr>registry := r\<rparr>))))"

text \<open>
  \<open>wrapCallback\<close>: a timeout deletes its name first; an error of the callback is logged and goes no
  further. An error of \<open>deleteTimeout\<close> is outside the \<open>try\<close> and rejects the promise.
\<close>

definition wrapCallback ::
    "(string \<Rightarrow> (exn, 'w, unit) eff) \<Rightarrow> string \<Rightarrow> scheduled_task_type \<Rightarrow> (exn, 'w, unit) eff
     \<Rightarrow> (exn, 'w, unit) eff" where
  "wrapCallback deleteT ident ty cb =
     andThen (if ty = Timeout then deleteT ident else ret ())
       (\<lambda>_. tryCatch cb (\<lambda>err. ret ()))"

text \<open>What the runtime does with a timeout that is due: the timer is gone before its callback runs.\<close>

definition take_timer :: "'t timer \<Rightarrow> ('r, 't) scheduler \<Rightarrow> ('r, 't) scheduler" where
  "take_timer t s = (if t_type t = Timeout then clear_timer (t_handle t) s else s)"

section \<open>The invariant\<close>

definition pending :: "('r, 't) scheduler \<Rightarrow> 't timer list" where
  "pending s = filter (\<lambda>t. t_type t = Timeout) (timers s)"

definition sched_ok :: "'r registry_api \<Rightarrow> ('r, 't) scheduler \<Rightarrow> bool" where
  "sched_ok api s \<longleftrightarrow>
     distinct (map t_handle (timers s))
   \<and> (\<forall>t \<in> set (timers s). t_handle t < nextHandle s)
   \<and> distinct (map t_name (pending s))
   \<and> (\<forall>n h. timeoutsR api (registry s) n = Some h \<longleftrightarrow>
              (\<exists>t \<in> set (pending s). t_name t = n \<and> t_handle t = h))"

lemma registry_add:
  assumes "registry_ok api" "timeoutsR api r n = None"
  obtains r' where "addTimeoutR api n h r = Inr r'"
    "timeoutsR api r' = (timeoutsR api r)(n \<mapsto> h)"
  using assms unfolding registry_ok_def by blast

lemma registry_delete:
  assumes "registry_ok api" "timeoutsR api r n = Some h"
  obtains r' where "deleteTimeoutR api n r = Inr (r', h)"
    "timeoutsR api r' = (timeoutsR api r)(n := None)"
  using assms unfolding registry_ok_def by blast

lemma registry_delete_absent:
  assumes "registry_ok api" "timeoutsR api r n = None"
  obtains e where "deleteTimeoutR api n r = Inl e"
  using assms unfolding registry_ok_def by blast

lemma pending_start_timer [simp]:
  "pending (start_timer n Timeout cb due s) =
     pending s @ [\<lparr>t_handle = nextHandle s, t_name = n, t_type = Timeout, t_task = cb, t_due = due\<rparr>]"
  by (simp add: pending_def start_timer_def)

lemma pending_registry [simp]: "pending (s\<lparr>registry := r\<rparr>) = pending s"
  by (simp add: pending_def)

lemma set_pending: "t \<in> set (pending s) \<longleftrightarrow> t \<in> set (timers s) \<and> t_type t = Timeout"
  by (auto simp: pending_def)

lemma sched_ok_name_free:
  assumes "sched_ok api s" "n \<notin> t_name ` set (pending s)"
  shows "timeoutsR api (registry s) n = None"
proof (cases "timeoutsR api (registry s) n")
  case (Some h)
  with assms(1) have "\<exists>t \<in> set (pending s). t_name t = n" unfolding sched_ok_def by blast
  with assms(2) show ?thesis by blast
qed

lemma addTimeout_fresh:
  assumes api: "registry_ok api" and ok: "sched_ok api s" and free: "n \<notin> t_name ` set (pending s)"
  obtains s' where "addTimeout api time n cb ms s = (Inr (), s')" "sched_ok api s'"
    "pending s' = pending s @ [\<lparr>t_handle = nextHandle s, t_name = n, t_type = Timeout,
        t_task = cb, t_due = time + timer_delay ms\<rparr>]"
proof -
  let ?t = "\<lparr>t_handle = nextHandle s, t_name = n, t_type = Timeout, t_task = cb,
             t_due = time + timer_delay ms\<rparr>"
  have none: "timeoutsR api (registry s) n = None" using ok free by (rule sched_ok_name_free)
  from api none obtain r' where r': "addTimeoutR api n (nextHandle s) (registry s) = Inr r'"
    "timeoutsR api r' = (timeoutsR api (registry s))(n \<mapsto> nextHandle s)" by (rule registry_add)
  let ?s' = "(start_timer n Timeout cb (time + timer_delay ms) s)\<lparr>registry := r'\<rparr>"
  have run: "addTimeout api time n cb ms s = (Inr (), ?s')"
    by (simp add: addTimeout_def r'(1))
  have pend: "pending ?s' = pending s @ [?t]" by simp
  have reg: "timeoutsR api (registry ?s') m = Some h \<longleftrightarrow>
      (\<exists>t \<in> set (pending ?s'). t_name t = m \<and> t_handle t = h)" for m h
  proof (cases "m = n")
    case True
    with free show ?thesis by (auto simp: r'(2) image_iff)
  next
    case False
    with ok show ?thesis by (auto simp: r'(2) sched_ok_def)
  qed
  have "sched_ok api ?s'"
    unfolding sched_ok_def
  proof (intro conjI allI)
    show "distinct (map t_handle (timers ?s'))" "\<forall>t \<in> set (timers ?s'). t_handle t < nextHandle ?s'"
      using ok by (auto simp: sched_ok_def start_timer_def less_Suc_eq)
    show "distinct (map t_name (pending ?s'))"
      using ok free by (simp add: sched_ok_def)
  qed (rule reg)
  with run pend that show ?thesis by blast
qed

lemma clear_timer_pending [simp]:
  "pending (clear_timer h s) = filter (\<lambda>t. t_handle t \<noteq> h) (pending s)"
  by (simp add: pending_def clear_timer_def conj_commute)

lemma pending_handle_inj:
  assumes "sched_ok api s" "t \<in> set (pending s)" "u \<in> set (pending s)" "t_handle t = t_handle u"
  shows "t = u"
  using assms by (auto simp: sched_ok_def set_pending dest: inj_onD [OF distinct_map [THEN iffD1, THEN conjunct2]])

lemma pending_name_inj:
  assumes "sched_ok api s" "t \<in> set (pending s)" "u \<in> set (pending s)" "t_name t = t_name u"
  shows "t = u"
  using assms by (auto simp: sched_ok_def dest: inj_onD [OF distinct_map [THEN iffD1, THEN conjunct2]])

text \<open>
  A timeout that fires finds its own name in the registry, and after \<open>deleteTimeout\<close> neither the timer
  nor the name is left: the name can be scheduled again.
\<close>

lemma fire_timeout:
  assumes api: "registry_ok api" and ok: "sched_ok api s" and t: "t \<in> set (pending s)"
  obtains s' where "deleteTimeout api (t_name t) (take_timer t s) = (Inr (), s')"
    "sched_ok api s'" "pending s' = filter (\<lambda>u. u \<noteq> t) (pending s)"
    "t_name t \<notin> t_name ` set (pending s')"
proof -
  have ty: "t_type t = Timeout" using t by (simp add: set_pending)
  have some: "timeoutsR api (registry s) (t_name t) = Some (t_handle t)"
    using ok t by (auto simp: sched_ok_def)
  from api some obtain r' where r': "deleteTimeoutR api (t_name t) (registry s) = Inr (r', t_handle t)"
    "timeoutsR api r' = (timeoutsR api (registry s))(t_name t := None)" by (rule registry_delete)
  let ?s' = "clear_timer (t_handle t) ((clear_timer (t_handle t) s)\<lparr>registry := r'\<rparr>)"
  have reg0: "registry (clear_timer h s) = registry s" for h by (simp add: clear_timer_def)
  have run: "deleteTimeout api (t_name t) (take_timer t s) = (Inr (), ?s')"
    by (simp add: deleteTimeout_def take_timer_def ty reg0 r'(1))
  have flt: "filter (\<lambda>u. t_handle u \<noteq> t_handle t) (pending s) = filter (\<lambda>u. u \<noteq> t) (pending s)"
    by (rule filter_cong) (use pending_handle_inj [OF ok _ t] in auto)
  have pend: "pending ?s' = filter (\<lambda>u. u \<noteq> t) (pending s)"
    by (simp flip: flt)
  have names: "t_name t \<notin> t_name ` set (pending ?s')"
    using pending_name_inj [OF ok _ t] by (auto simp: pend simp del: clear_timer_pending)
  have reg: "timeoutsR api (registry ?s') m = Some h \<longleftrightarrow>
      (\<exists>u \<in> set (pending ?s'). t_name u = m \<and> t_handle u = h)" for m h
  proof (cases "m = t_name t")
    case True
    have "timeoutsR api (registry ?s') m = None" by (simp add: True clear_timer_def r'(2))
    with True names show ?thesis by (auto simp: image_iff simp del: clear_timer_pending)
  next
    case False
    have "timeoutsR api (registry ?s') m = timeoutsR api (registry s) m"
      using False by (simp add: clear_timer_def r'(2))
    with False ok show ?thesis
      by (auto simp: pend sched_ok_def simp del: clear_timer_pending)
  qed
  have "sched_ok api ?s'"
    unfolding sched_ok_def
  proof (intro conjI allI)
    show "distinct (map t_handle (timers ?s'))" "\<forall>t \<in> set (timers ?s'). t_handle t < nextHandle ?s'"
      using ok by (auto simp: sched_ok_def clear_timer_def distinct_map_filter)
    show "distinct (map t_name (pending ?s'))"
      using ok by (simp add: pend sched_ok_def distinct_map_filter del: clear_timer_pending)
  qed (rule reg)
  with run pend names that show ?thesis by blast
qed

section \<open>A concrete registry\<close>

text \<open>An instance of the parameter, to evaluate the model on: two association lists.\<close>

type_synonym list_registry = "(string \<times> nat) list \<times> (string \<times> nat) list"

definition list_registry_api :: "list_registry registry_api" where
  "list_registry_api =
     \<lparr>addTimeoutR = (\<lambda>n h (ts, is). if map_of ts n = None then Inr ((n, h) # ts, is)
                       else Inl (PlainErr ''duplicate timeout'')),
      deleteTimeoutR = (\<lambda>n (ts, is). case map_of ts n of None \<Rightarrow> Inl (PlainErr ''no timeout'')
                       | Some h \<Rightarrow> Inr ((filter (\<lambda>p. fst p \<noteq> n) ts, is), h)),
      addIntervalR = (\<lambda>n h (ts, is). if map_of is n = None then Inr (ts, (n, h) # is)
                       else Inl (PlainErr ''duplicate interval'')),
      deleteIntervalR = (\<lambda>n (ts, is). case map_of is n of None \<Rightarrow> Inl (PlainErr ''no interval'')
                       | Some h \<Rightarrow> Inr ((ts, filter (\<lambda>p. fst p \<noteq> n) is), h)),
      timeoutsR = (\<lambda>r. map_of (fst r)),
      intervalsR = (\<lambda>r. map_of (snd r))\<rparr>"

lemma map_of_filter_neq: "map_of (filter (\<lambda>p. fst p \<noteq> n) xs) = (map_of xs)(n := None)"
  by (induction xs) auto

lemma list_registry_ok: "registry_ok list_registry_api"
  by (auto simp: registry_ok_def list_registry_api_def map_of_filter_neq split: option.splits)

definition empty_scheduler :: "(list_registry, 't) scheduler" where
  "empty_scheduler = \<lparr>registry = ([], []), timers = [], nextHandle = 0\<rparr>"

lemma empty_scheduler_ok: "sched_ok list_registry_api empty_scheduler"
  by (simp add: sched_ok_def empty_scheduler_def pending_def list_registry_api_def)

end
