(* ===== verification/Sdk.thy ===== *)
theory Sdk
  imports Complex_Main Errors
begin

text \<open>
  The values of the Polymesh SDK (a package, not part of the repository) that the source handles:
  arbitrary-precision numbers, the transaction objects the services receive, and the payloads of
  offline transactions. The SDK's functions are parameters: a \<open>procedure\<close> holds what the methods of
  a prepared transaction answer. The calls made are
  recorded as \<open>sdk_call\<close> values, so that theorems can say which of them happen.
\<close>

section \<open>Numbers\<close>

text \<open>\<open>BigNumber\<close>: a rational value, an infinity (\<open>True\<close> the positive one) or not a number.\<close>

datatype big_number = BN rat | BNInf bool | BNNaN

fun bn_eq :: "big_number \<Rightarrow> big_number \<Rightarrow> bool" where
  "bn_eq (BN a) (BN b) = (a = b)"
| "bn_eq (BNInf a) (BNInf b) = (a = b)"
| "bn_eq _ _ = False"

fun bn_lt :: "big_number \<Rightarrow> big_number \<Rightarrow> bool" where
  "bn_lt (BN a) (BN b) = (a < b)"
| "bn_lt (BNInf a) (BN _) = (\<not> a)"
| "bn_lt (BN _) (BNInf b) = b"
| "bn_lt (BNInf a) (BNInf b) = (\<not> a \<and> b)"
| "bn_lt _ _ = False"

definition bn_gt :: "big_number \<Rightarrow> big_number \<Rightarrow> bool" where
  "bn_gt a b = bn_lt b a"

definition bn_lte :: "big_number \<Rightarrow> big_number \<Rightarrow> bool" where
  "bn_lte a b = (bn_lt a b \<or> bn_eq a b)"

lemma bn_eq_refl: "bn_eq a a \<longleftrightarrow> a \<noteq> BNNaN"
  by (cases a) auto

lemma bn_eq_iff: "bn_eq a b \<longleftrightarrow> a = b \<and> a \<noteq> BNNaN"
  by (cases a; cases b) auto

lemma bn_lte_gt: "a \<noteq> BNNaN \<Longrightarrow> b \<noteq> BNNaN \<Longrightarrow> bn_lte a b \<longleftrightarrow> \<not> bn_gt a b"
  by (cases a; cases b) (auto simp: bn_lte_def bn_gt_def)

section \<open>Transactions\<close>

text \<open>The statuses of a transaction of the SDK that the source names.\<close>

datatype transaction_status = Idle | Unapproved | Running | Succeeded | Rejected | Aborted | Failed

datatype tx_kind = PolymeshTransaction string | PolymeshTransactionBatch "string list"

text \<open>
  The fields of a transaction object at one moment: the SDK changes the object while it runs.
  \<open>tx_kind_of\<close> is what \<open>isPolymeshTransaction\<close> and \<open>isPolymeshTransactionBatch\<close> find, \<open>None\<close> when
  neither does.
\<close>

record sdk_transaction =
  tx_kind_of :: "tx_kind option"
  tx_status :: transaction_status
  tx_txHash :: "string option"
  tx_blockHash :: "string option"
  tx_blockNumber :: "nat option"
  tx_error :: "string option"
  tx_multiSig :: "string option"

section \<open>Payloads\<close>

record signer_payload =
  sp_address :: string
  sp_nonce :: string
  sp_rest :: string

record transaction_payload =
  tp_payload :: signer_payload
  tp_method :: string
  tp_metadata :: "(string \<times> string) list"
  tp_multiSig :: "string option"

section \<open>Prepared transactions\<close>

record fees =
  fee_protocol :: big_number
  fee_gas :: big_number
  fee_total :: big_number

record total_fees =
  tf_fees :: fees
  tf_balance :: big_number
  tf_type :: string
  tf_address :: string

record 'res procedure =
  pr_tx :: sdk_transaction
  pr_supportsSubsidy :: bool
  pr_totalFees :: "total_fees result"
  pr_toSignablePayload :: "(string \<times> string) list \<Rightarrow> transaction_payload result"
  pr_run :: "('res \<times> sdk_transaction) result"
  pr_runAsProposal :: "(string \<times> sdk_transaction) result"

datatype sdk_call =
    PrepareCall | TotalFeesCall | ToSignablePayloadCall | RunCall | RunAsProposalCall

end
