(* ===== verification/Webhook_State.thy ===== *)
theory Webhook_State
  imports Schedule Sdk
begin

text \<open>
  The data of the webhook subsystem and the state of the process that runs it.

  \<^item> \<open>events/types.ts\<close>, \<open>events/entities/event.entity.ts\<close>, \<open>common/types.ts\<close>: event types, the
    payload of a transaction update, event entities.
  \<^item> \<open>subscriptions/types.ts\<close>, \<open>subscriptions/models/subscription.model.ts\<close>,
    \<open>subscriptions/repo/subscription.repo.ts\<close>: subscriptions and the interface of their repository.
  \<^item> \<open>notifications/types.ts\<close>, \<open>notifications/model/notification.model.ts\<close>,
    \<open>notifications/repo/notifications.repo.ts\<close>: notifications and the interface of their repository.
  \<^item> \<open>world\<close>: the state all services share: the clock, the scheduler, the two repositories, the
    events, the tracked transactions, the HTTP requests made so far (each with the task that made
    it) and the requests whose response is still awaited.
  \<^item> \<open>deps\<close>: what is injected into the services: the scheduler's registry, the configuration
    (\<open>subscriptions.config.ts\<close>, \<open>notifications.config.ts\<close>, \<open>transactions.config.ts\<close>), the two
    library functions behind a signature, and the repositories.

  An \<open>await\<close> on an HTTP request ends a step: the rest of the callback is a value of
  \<open>pending_call\<close> that a later step resumes, so any other step may come in between. The awaits on the
  repositories are run through.
\<close>

section \<open>Events\<close>

datatype event_type = TransactionUpdate

datatype transaction_type = Single | Batch

text \<open>\<open>TransactionUpdatePayload\<close>: a field that is absent (or undefined) is \<open>None\<close>.\<close>

record transaction_update_payload =
  p_status :: transaction_status
  p_proposal :: "string option"
  p_type :: transaction_type
  p_transactionTag :: "string option"
  p_transactionTags :: "string list option"
  p_transactionHash :: "string option"
  p_blockHash :: "string option"
  p_blockNumber :: "string option"
  p_result :: "string option"
  p_error :: "string option"

record event_entity =
  e_id :: nat
  e_type :: event_type
  e_scope :: string
  e_createdAt :: int
  e_payload :: transaction_update_payload
  e_processed :: bool

record event_store =
  ev_currentId :: nat
  ev_entries :: "event_entity int_object"

section \<open>Subscriptions\<close>

datatype subscription_status = Inactive | Active | SubRejected | Done

record subscription_params =
  s_eventType :: event_type
  s_eventScope :: string
  s_webhookUrl :: string
  s_createdAt :: int
  s_ttl :: js_number
  s_status :: subscription_status
  s_triesLeft :: js_number
  s_nextNonce :: nat
  s_legitimacySecret :: string

record subscription = subscription_params +
  s_id :: nat

text \<open>\<open>Partial<SubscriptionParams>\<close>\<close>

record subscription_update =
  u_eventType :: "event_type option"
  u_eventScope :: "string option"
  u_webhookUrl :: "string option"
  u_createdAt :: "int option"
  u_ttl :: "js_number option"
  u_status :: "subscription_status option"
  u_triesLeft :: "js_number option"
  u_nextNonce :: "nat option"
  u_legitimacySecret :: "string option"

definition no_change :: subscription_update where
  "no_change = \<lparr>u_eventType = None, u_eventScope = None, u_webhookUrl = None, u_createdAt = None,
     u_ttl = None, u_status = None, u_triesLeft = None, u_nextNonce = None, u_legitimacySecret = None\<rparr>"

abbreviation updated :: "'a option \<Rightarrow> 'a \<Rightarrow> 'a" where
  "updated u v \<equiv> (case u of None \<Rightarrow> v | Some v' \<Rightarrow> v')"

text \<open>\<open>{ ...model, ...params }\<close>\<close>

definition spread_subscription :: "subscription \<Rightarrow> subscription_update \<Rightarrow> subscription" where
  "spread_subscription m u = m\<lparr>
     s_eventType := updated (u_eventType u) (s_eventType m),
     s_eventScope := updated (u_eventScope u) (s_eventScope m),
     s_webhookUrl := updated (u_webhookUrl u) (s_webhookUrl m),
     s_createdAt := updated (u_createdAt u) (s_createdAt m),
     s_ttl := updated (u_ttl u) (s_ttl m),
     s_status := updated (u_status u) (s_status m),
     s_triesLeft := updated (u_triesLeft u) (s_triesLeft m),
     s_nextNonce := updated (u_nextNonce u) (s_nextNonce m),
     s_legitimacySecret := updated (u_legitimacySecret u) (s_legitimacySecret m)\<rparr>"

text \<open>\<open>new SubscriptionModel({ id, ...params })\<close>\<close>

definition new_subscription :: "nat \<Rightarrow> subscription_params \<Rightarrow> subscription" where
  "new_subscription i p = subscription_params.extend p \<lparr>s_id = i\<rparr>"

text \<open>\<open>isExpired\<close>: with an unset lifetime the comparison is with an invalid date and is false.\<close>

definition isExpired :: "int \<Rightarrow> subscription \<Rightarrow> bool" where
  "isExpired time s = js_le (js_add (Num (s_createdAt s)) (s_ttl s)) (Num time)"

record 's subscription_repo_ops =
  sr_create :: "subscription_params \<Rightarrow> (exn, 's, subscription) eff"
  sr_update :: "nat \<Rightarrow> subscription_update \<Rightarrow> (exn, 's, subscription) eff"
  sr_findById :: "nat \<Rightarrow> (exn, 's, subscription option) eff"
  sr_findAll :: "(exn, 's, subscription list) eff"
  sr_incrementNonces :: "nat list \<Rightarrow> (exn, 's, unit) eff"

section \<open>Notifications\<close>

datatype notification_status = NActive | Acknowledged | NFailed | Orphaned

record notification_params =
  n_subscriptionId :: nat
  n_eventId :: nat
  n_nonce :: nat
  n_triesLeft :: js_number
  n_status :: notification_status

record notification = notification_params +
  n_id :: nat
  n_createdAt :: int

text \<open>\<open>Partial<NotificationParams>\<close>\<close>

record notification_update =
  v_subscriptionId :: "nat option"
  v_eventId :: "nat option"
  v_nonce :: "nat option"
  v_triesLeft :: "js_number option"
  v_status :: "notification_status option"

definition no_nchange :: notification_update where
  "no_nchange = \<lparr>v_subscriptionId = None, v_eventId = None, v_nonce = None, v_triesLeft = None,
     v_status = None\<rparr>"

definition spread_notification :: "notification \<Rightarrow> notification_update \<Rightarrow> notification" where
  "spread_notification m u = m\<lparr>
     n_subscriptionId := updated (v_subscriptionId u) (n_subscriptionId m),
     n_eventId := updated (v_eventId u) (n_eventId m),
     n_nonce := updated (v_nonce u) (n_nonce m),
     n_triesLeft := updated (v_triesLeft u) (n_triesLeft m),
     n_status := updated (v_status u) (n_status m)\<rparr>"

definition new_notification :: "nat \<Rightarrow> int \<Rightarrow> notification_params \<Rightarrow> notification" where
  "new_notification i time p = notification_params.extend p \<lparr>n_id = i, n_createdAt = time\<rparr>"

record notification_payload =
  np_subscriptionId :: nat
  np_type :: event_type
  np_scope :: string
  np_nonce :: nat
  np_payload :: transaction_update_payload

text \<open>The repository stamps a new notification with the time, which is an argument here.\<close>

record 'n notification_repo_ops =
  nr_create :: "int \<Rightarrow> notification_params \<Rightarrow> (exn, 'n, notification) eff"
  nr_findById :: "nat \<Rightarrow> (exn, 'n, notification option) eff"
  nr_update :: "nat \<Rightarrow> notification_update \<Rightarrow> (exn, 'n, notification) eff"

section \<open>Transactions being tracked\<close>

text \<open>
  \<open>transactionStore\<close> and \<open>currentId\<close> of the transactions service; \<open>listening\<close> are the identifiers
  whose \<open>onStatusChange\<close> callback has not been unsubscribed.
\<close>

record transaction_store =
  ts_currentId :: nat
  ts_entries :: "nat \<rightharpoonup> sdk_transaction"
  listening :: "nat list"

section \<open>The process\<close>

datatype task = SendHandshake nat | SendNotification nat

datatype http_request =
    HandshakePost string string
  | NotificationPost string notification_payload string

record http_response =
  r_status :: nat
  r_headers :: "string \<rightharpoonup> string"

text \<open>The client library resolves with a response or rejects.\<close>

type_synonym http_outcome = "http_response option"

datatype pending_call =
    HandshakeSent nat js_number string
  | NotificationSent nat js_number

record ('s, 'n, 'r) world =
  now :: int
  sched :: "('r, task) scheduler"
  subs :: 's
  notifs :: 'n
  events :: event_store
  txs :: transaction_store
  outbox :: "(task \<times> http_request) list"
  inflight :: "pending_call list"

record 'r base_deps =
  registry_of :: "'r registry_api"
  sub_ttl :: js_number
  sub_maxTries :: js_number
  sub_retryInterval :: js_number
  notif_maxTries :: js_number
  notif_retryInterval :: js_number
  legitimacySecret :: string
  hmac :: "string \<Rightarrow> string \<Rightarrow> string"
  stringify :: "notification_payload \<Rightarrow> string"

record ('s, 'n, 'r) deps = "'r base_deps" +
  sub_repo :: "'s subscription_repo_ops"
  notif_repo :: "'n notification_repo_ops"

text \<open>The parts of the state a repository or the scheduler works on.\<close>

abbreviation on_subs :: "(exn, 's, 'a) eff \<Rightarrow> (exn, ('s, 'n, 'r) world, 'a) eff" where
  "on_subs m \<equiv> zoom subs (\<lambda>t. subs_update (\<lambda>_. t)) m"

abbreviation on_notifs :: "(exn, 'n, 'a) eff \<Rightarrow> (exn, ('s, 'n, 'r) world, 'a) eff" where
  "on_notifs m \<equiv> zoom notifs (\<lambda>t. notifs_update (\<lambda>_. t)) m"

abbreviation on_sched ::
    "(exn, ('r, task) scheduler, 'a) eff \<Rightarrow> (exn, ('s, 'n, 'r) world, 'a) eff" where
  "on_sched m \<equiv> zoom sched (\<lambda>t. sched_update (\<lambda>_. t)) m"

section \<open>Reading an event\<close>

text \<open>\<open>EventsService.findOne\<close>, which the notifications service calls.\<close>

definition events_findOne :: "nat \<Rightarrow> (exn, ('s, 'n, 'r) world, event_entity) eff" where
  "events_findOne i = (\<lambda>w. case int_get (ev_entries (events w)) i of
      None \<Rightarrow> (Inl (AppErr (appNotFoundError (nat_to_string i) ''event'')), w)
    | Some e \<Rightarrow> (Inr e, w))"

section \<open>Lemmas on the data\<close>

lemma new_subscription_sel [simp]:
  "s_id (new_subscription i p) = i"
  "s_eventType (new_subscription i p) = s_eventType p"
  "s_eventScope (new_subscription i p) = s_eventScope p"
  "s_webhookUrl (new_subscription i p) = s_webhookUrl p"
  "s_createdAt (new_subscription i p) = s_createdAt p"
  "s_ttl (new_subscription i p) = s_ttl p"
  "s_status (new_subscription i p) = s_status p"
  "s_triesLeft (new_subscription i p) = s_triesLeft p"
  "s_nextNonce (new_subscription i p) = s_nextNonce p"
  "s_legitimacySecret (new_subscription i p) = s_legitimacySecret p"
  by (simp_all add: new_subscription_def subscription_params.defs)

lemma spread_subscription_id [simp]: "s_id (spread_subscription m u) = s_id m"
  by (simp add: spread_subscription_def)

lemma spread_subscription_no_change [simp]: "spread_subscription m no_change = m"
  by (simp add: spread_subscription_def no_change_def)

lemma new_notification_sel [simp]:
  "n_id (new_notification i t p) = i"
  "n_createdAt (new_notification i t p) = t"
  "n_subscriptionId (new_notification i t p) = n_subscriptionId p"
  "n_eventId (new_notification i t p) = n_eventId p"
  "n_nonce (new_notification i t p) = n_nonce p"
  "n_triesLeft (new_notification i t p) = n_triesLeft p"
  "n_status (new_notification i t p) = n_status p"
  by (simp_all add: new_notification_def notification_params.defs)

lemma spread_notification_id [simp]: "n_id (spread_notification m u) = n_id m"
  by (simp add: spread_notification_def)

lemma isExpired_mono: "isExpired t s \<Longrightarrow> t \<le> t' \<Longrightarrow> isExpired t' s"
  by (cases "s_ttl s") (auto simp: isExpired_def)

lemma isExpired_NaN: "s_ttl s = NaN \<Longrightarrow> \<not> isExpired t s"
  by (simp add: isExpired_def)

end
