(* ===== verification/Subscriptions.thy ===== *)
theory Subscriptions
  imports Webhook_State Local_Store
begin

text \<open>
  Subscriptions: the repository interface as a locale, the in-memory repository
  (\<open>datastore/local-store/repos/subscription.repo.ts\<close>) as its interpretation, and the service
  (\<open>subscriptions/subscriptions.service.ts\<close>).

  The locale \<open>subscription_repo\<close> states what the service relies on: a created subscription has a new
  identifier and can be found, an update changes exactly the given fields of one subscription,
  finding an unknown identifier is a not-found error, and incrementing nonces adds one to each of the
  given subscriptions. The lemmas on the service are proved in the locale, over \<open>subs_of\<close>, the
  subscriptions a repository holds.
\<close>

section \<open>The in-memory repository\<close>

type_synonym local_subs = "subscription local_store"

definition local_sub_create :: "subscription_params \<Rightarrow> (exn, local_subs, subscription) eff" where
  "local_sub_create p = (\<lambda>st. case ls_insert (\<lambda>i. new_subscription i p) st of (m, st') \<Rightarrow> (Inr m, st'))"

text \<open>
  With an unknown identifier the source stores an object that has the given fields only;
  the model stops there.
\<close>

definition local_sub_update ::
    "nat \<Rightarrow> subscription_update \<Rightarrow> (exn, local_subs, subscription) eff" where
  "local_sub_update i u = (\<lambda>st. case ls_get st i of
      None \<Rightarrow> (Inl (IllTyped ''subscription''), st)
    | Some m \<Rightarrow> (Inr (spread_subscription m u), ls_put i (spread_subscription m u) st))"

definition local_sub_findById :: "nat \<Rightarrow> (exn, local_subs, subscription option) eff" where
  "local_sub_findById i = (\<lambda>st. case ls_get st i of
      None \<Rightarrow> (Inl (AppErr (appNotFoundError (nat_to_string i) ''notification'')), st)
    | Some m \<Rightarrow> (Inr (Some m), st))"

definition local_sub_findAll :: "(exn, local_subs, subscription list) eff" where
  "local_sub_findAll = (\<lambda>st. (Inr (object_values (ls_entries st)), st))"

fun local_sub_incrementNonces :: "nat list \<Rightarrow> (exn, local_subs, unit) eff" where
  "local_sub_incrementNonces [] st = (Inr (), st)"
| "local_sub_incrementNonces (i # is) st = (case ls_get st i of
      None \<Rightarrow> (Inl js_type_error, st)
    | Some m \<Rightarrow> local_sub_incrementNonces is (ls_put i (m\<lparr>s_nextNonce := s_nextNonce m + 1\<rparr>) st))"

definition local_subscription_repo :: "local_subs subscription_repo_ops" where
  "local_subscription_repo =
     \<lparr>sr_create = local_sub_create, sr_update = local_sub_update, sr_findById = local_sub_findById,
      sr_findAll = local_sub_findAll, sr_incrementNonces = local_sub_incrementNonces\<rparr>"

section \<open>The service\<close>

record subscription_filters =
  f_eventType :: "event_type option"
  f_eventScope :: "string option"
  f_status :: "subscription_status option"
  f_excludeExpired :: bool

text \<open>A filter that is absent, or an empty string, matches everything.\<close>

definition matches :: "int \<Rightarrow> subscription_filters \<Rightarrow> subscription \<Rightarrow> bool" where
  "matches time f s \<longleftrightarrow>
     (case f_status f of None \<Rightarrow> True | Some st \<Rightarrow> st = s_status s)
   \<and> (case f_eventScope f of None \<Rightarrow> True | Some sc \<Rightarrow> sc = '''' \<or> sc = s_eventScope s)
   \<and> (case f_eventType f of None \<Rightarrow> True | Some ty \<Rightarrow> ty = s_eventType s)
   \<and> (\<not> f_excludeExpired f \<or> \<not> isExpired time s)"

definition subscriptions_findAll ::
    "('s, 'n, 'r) deps \<Rightarrow> subscription_filters \<Rightarrow> (exn, ('s, 'n, 'r) world, subscription list) eff" where
  "subscriptions_findAll D f =
     andThen (on_subs (sr_findAll (sub_repo D))) (\<lambda>ss.
     andThen (reads now) (\<lambda>time. ret (filter (matches time f) ss)))"

definition subscriptions_findOne ::
    "('s, 'n, 'r) deps \<Rightarrow> nat \<Rightarrow> (exn, ('s, 'n, 'r) world, subscription) eff" where
  "subscriptions_findOne D i =
     andThen (on_subs (sr_findById (sub_repo D) i)) (\<lambda>sub. case sub of
        None \<Rightarrow> throw (AppErr (appNotFoundError ''subscription'' (nat_to_string i)))
      | Some s \<Rightarrow> ret s)"

definition handshakeTimeoutId :: "nat \<Rightarrow> string" where
  "handshakeTimeoutId i = ''sendSubscriptionHandshake_'' @ nat_to_string i"

definition scheduleSendHandshake ::
    "('s, 'n, 'r) deps \<Rightarrow> nat \<Rightarrow> js_number \<Rightarrow> (exn, ('s, 'n, 'r) world, unit) eff" where
  "scheduleSendHandshake D i ms =
     andThen (reads now) (\<lambda>time.
       on_sched (addTimeout (registry_of D) time (handshakeTimeoutId i) (SendHandshake i) ms))"

definition createSubscription ::
    "('s, 'n, 'r) deps \<Rightarrow> event_type \<Rightarrow> string \<Rightarrow> string \<Rightarrow> string \<Rightarrow>
     (exn, ('s, 'n, 'r) world, nat) eff" where
  "createSubscription D eventType eventScope webhookUrl secret =
     andThen (reads now) (\<lambda>time.
     andThen (on_subs (sr_create (sub_repo D)
         \<lparr>s_eventType = eventType, s_eventScope = eventScope, s_webhookUrl = webhookUrl,
          s_createdAt = time, s_ttl = sub_ttl D, s_status = Inactive,
          s_triesLeft = sub_maxTries D, s_nextNonce = 0, s_legitimacySecret = secret\<rparr>)) (\<lambda>model.
     andThen (scheduleSendHandshake D (s_id model) (Num 0)) (\<lambda>_.
     ret (s_id model))))"

definition updateSubscription ::
    "('s, 'n, 'r) deps \<Rightarrow> nat \<Rightarrow> subscription_update \<Rightarrow> (exn, ('s, 'n, 'r) world, subscription) eff" where
  "updateSubscription D i u = on_subs (sr_update (sub_repo D) i u)"

definition batchMarkAsDone :: "('s, 'n, 'r) deps \<Rightarrow> nat list \<Rightarrow> (exn, ('s, 'n, 'r) world, unit) eff" where
  "batchMarkAsDone D ids =
     andThen (promise_all (map (\<lambda>i. updateSubscription D i (no_change\<lparr>u_status := Some Done\<rparr>)) ids))
       (\<lambda>_. ret ())"

definition batchBumpNonce :: "('s, 'n, 'r) deps \<Rightarrow> nat list \<Rightarrow> (exn, ('s, 'n, 'r) world, unit) eff" where
  "batchBumpNonce D ids = on_subs (sr_incrementNonces (sub_repo D) ids)"

definition subscriptions_retry ::
    "('s, 'n, 'r) deps \<Rightarrow> nat \<Rightarrow> js_number \<Rightarrow> (exn, ('s, 'n, 'r) world, unit) eff" where
  "subscriptions_retry D i triesLeft =
     (if js_eq triesLeft (Num 0)
      then andThen (updateSubscription D i
             (no_change\<lparr>u_triesLeft := Some triesLeft, u_status := Some SubRejected\<rparr>)) (\<lambda>_. ret ())
      else andThen (updateSubscription D i (no_change\<lparr>u_triesLeft := Some triesLeft\<rparr>)) (\<lambda>_.
             scheduleSendHandshake D i (sub_retryInterval D)))"

definition HANDSHAKE_HEADER_KEY :: string where
  "HANDSHAKE_HEADER_KEY = ''x-hook-secret''"

definition handleHandshakeResponse ::
    "('s, 'n, 'r) deps \<Rightarrow> nat \<Rightarrow> http_response \<Rightarrow> string \<Rightarrow> (exn, ('s, 'n, 'r) world, unit) eff" where
  "handleHandshakeResponse D i response secret =
     (if r_status response = 200 \<and> r_headers response HANDSHAKE_HEADER_KEY = Some secret
      then andThen (updateSubscription D i (no_change\<lparr>u_status := Some Active\<rparr>)) (\<lambda>_. ret ())
      else throw (PlainErr ''Webhook did not respond with expected handshake''))"

text \<open>
  \<open>sendHandshake\<close> up to the HTTP request. The random secret is an argument; \<open>None\<close> is a failure to
  generate it, which the \<open>catch\<close> handles like a failed request.
\<close>

definition sendHandshake ::
    "('s, 'n, 'r) deps \<Rightarrow> string option \<Rightarrow> nat \<Rightarrow> (exn, ('s, 'n, 'r) world, unit) eff" where
  "sendHandshake D rnd i =
     andThen (subscriptions_findOne D i) (\<lambda>subscription.
     andThen (reads now) (\<lambda>time.
       if isExpired time subscription then ret ()
       else (case rnd of
          None \<Rightarrow> subscriptions_retry D i (js_sub (s_triesLeft subscription) (Num 1))
        | Some secret \<Rightarrow>
            modifies (\<lambda>w. w\<lparr>
              outbox := outbox w @ [(SendHandshake i, HandshakePost (s_webhookUrl subscription) secret)],
              inflight := inflight w @ [HandshakeSent i (s_triesLeft subscription) secret]\<rparr>))))"

text \<open>The rest of \<open>sendHandshake\<close>, once the request is answered or has failed.\<close>

definition handshakeAnswered ::
    "('s, 'n, 'r) deps \<Rightarrow> nat \<Rightarrow> js_number \<Rightarrow> string \<Rightarrow> http_outcome \<Rightarrow>
     (exn, ('s, 'n, 'r) world, unit) eff" where
  "handshakeAnswered D i triesLeft secret outcome =
     tryCatch
       (case outcome of
          None \<Rightarrow> throw (PlainErr ''request failed'')
        | Some response \<Rightarrow> handleHandshakeResponse D i response secret)
       (\<lambda>err. subscriptions_retry D i (js_sub triesLeft (Num 1)))"

section \<open>The contract of the repository\<close>

locale subscription_repo =
  fixes R :: "'s subscription_repo_ops"
    and subs_of :: "'s \<Rightarrow> nat \<rightharpoonup> subscription"
    and subs_ok :: "'s \<Rightarrow> bool"
  assumes create: "subs_ok st \<Longrightarrow> \<exists>i st'. sr_create R p st = (Inr (new_subscription i p), st')
        \<and> subs_of st i = None \<and> subs_of st' = (subs_of st)(i \<mapsto> new_subscription i p) \<and> subs_ok st'"
    and update: "subs_ok st \<Longrightarrow> subs_of st i = Some m \<Longrightarrow>
        \<exists>st'. sr_update R i u st = (Inr (spread_subscription m u), st')
        \<and> subs_of st' = (subs_of st)(i \<mapsto> spread_subscription m u) \<and> subs_ok st'"
    and findById_known: "subs_ok st \<Longrightarrow> subs_of st i = Some m \<Longrightarrow> sr_findById R i st = (Inr (Some m), st)"
    and findById_unknown: "subs_ok st \<Longrightarrow> subs_of st i = None \<Longrightarrow>
        \<exists>e. sr_findById R i st = (Inl (AppErr e), st) \<and> code e = NotFound"
    and findAll: "subs_ok st \<Longrightarrow>
        \<exists>ms. sr_findAll R st = (Inr ms, st) \<and> set ms = ran (subs_of st) \<and> distinct (map s_id ms)"
    and incrementNonces: "subs_ok st \<Longrightarrow> ids \<noteq> [] \<Longrightarrow> set ids \<subseteq> dom (subs_of st) \<Longrightarrow> distinct ids \<Longrightarrow>
        \<exists>st'. sr_incrementNonces R ids st = (Inr (), st') \<and> subs_ok st'
        \<and> subs_of st' = (\<lambda>i. if i \<in> set ids
              then map_option (\<lambda>m. m\<lparr>s_nextNonce := s_nextNonce m + 1\<rparr>) (subs_of st i)
              else subs_of st i)"
    and ids: "subs_ok st \<Longrightarrow> subs_of st i = Some m \<Longrightarrow> s_id m = i"
begin

lemma findAll_service:
  assumes "sub_repo D = R" "subs_ok (subs w)"
  obtains ss where "subscriptions_findAll D f w = (Inr ss, w)" "distinct (map s_id ss)"
    "set ss = {s \<in> ran (subs_of (subs w)). matches (now w) f s}"
proof -
  obtain ms where ms: "sr_findAll R (subs w) = (Inr ms, subs w)"
    "set ms = ran (subs_of (subs w))" "distinct (map s_id ms)"
    using findAll [OF assms(2)] by blast
  have "subscriptions_findAll D f w = (Inr (filter (matches (now w) f) ms), w)"
    by (simp add: subscriptions_findAll_def assms(1) andThen_def zoom_def ms(1) eff_simps)
  then show thesis
    by (rule that) (use ms(2,3) in \<open>auto simp: distinct_map_filter\<close>)
qed

lemma findOne_known:
  assumes "sub_repo D = R" "subs_ok (subs w)" "subs_of (subs w) i = Some m"
  shows "subscriptions_findOne D i w = (Inr m, w)"
  by (simp add: subscriptions_findOne_def assms(1) andThen_def zoom_def
      findById_known [OF assms(2,3)] eff_simps)

lemma findOne_unknown:
  assumes "sub_repo D = R" "subs_ok (subs w)" "subs_of (subs w) i = None"
  shows "\<exists>e. subscriptions_findOne D i w = (Inl (AppErr e), w) \<and> code e = NotFound"
  using findById_unknown [OF assms(2,3)]
  by (auto simp: subscriptions_findOne_def assms(1) andThen_def zoom_def eff_simps)

lemma updateSubscription_known:
  assumes "sub_repo D = R" "subs_ok (subs w)" "subs_of (subs w) i = Some m"
  obtains st where "updateSubscription D i u w = (Inr (spread_subscription m u), w\<lparr>subs := st\<rparr>)"
    "subs_ok st" "subs_of st = (subs_of (subs w))(i \<mapsto> spread_subscription m u)"
  using update [OF assms(2,3), of u] by (auto simp: updateSubscription_def assms(1) zoom_def)

lemma batchBumpNonce_known:
  assumes "sub_repo D = R" "subs_ok (subs w)" "is \<noteq> []" "set is \<subseteq> dom (subs_of (subs w))" "distinct is"
  obtains st where "batchBumpNonce D is w = (Inr (), w\<lparr>subs := st\<rparr>)" "subs_ok st"
    "subs_of st = (\<lambda>i. if i \<in> set is
        then map_option (\<lambda>m. m\<lparr>s_nextNonce := s_nextNonce m + 1\<rparr>) (subs_of (subs w) i)
        else subs_of (subs w) i)"
  using incrementNonces [OF assms(2-5)] by (auto simp: batchBumpNonce_def assms(1) zoom_def)

text \<open>Marking as done: every given subscription becomes done, the others stay as they are.\<close>

lemma promise_all_updates:
  assumes "sub_repo D = R" "subs_ok (subs w)" "set is \<subseteq> dom (subs_of (subs w))"
  shows "\<exists>st ms. promise_all (map (\<lambda>i. updateSubscription D i (no_change\<lparr>u_status := Some Done\<rparr>)) is) w
           = (Inr ms, w\<lparr>subs := st\<rparr>) \<and> subs_ok st
         \<and> subs_of st = (\<lambda>i. if i \<in> set is
              then map_option (\<lambda>m. m\<lparr>s_status := Done\<rparr>) (subs_of (subs w) i) else subs_of (subs w) i)"
  using assms
proof (induction "is" arbitrary: w)
  case Nil
  then show ?case by (intro exI [of _ "subs w"] exI [of _ "[]"]) simp
next
  case (Cons i "is")
  let ?u = "no_change\<lparr>u_status := Some Done\<rparr>"
  obtain m where m: "subs_of (subs w) i = Some m" using Cons.prems by auto
  have sp: "spread_subscription m ?u = m\<lparr>s_status := Done\<rparr>"
    by (simp add: spread_subscription_def no_change_def)
  from Cons.prems(1,2) m obtain st where st:
    "updateSubscription D i ?u w = (Inr (spread_subscription m ?u), w\<lparr>subs := st\<rparr>)"
    "subs_ok st" "subs_of st = (subs_of (subs w))(i \<mapsto> spread_subscription m ?u)"
    by (rule updateSubscription_known)
  let ?w1 = "w\<lparr>subs := st\<rparr>"
  have ok1: "subs_ok (subs ?w1)" and dom1: "set is \<subseteq> dom (subs_of (subs ?w1))"
    using Cons.prems(3) st(2,3) by auto
  from Cons.IH [OF Cons.prems(1) ok1 dom1] obtain st' ms where st':
    "promise_all (map (\<lambda>i. updateSubscription D i ?u) is) ?w1 = (Inr ms, ?w1\<lparr>subs := st'\<rparr>)"
    "subs_ok st'" "subs_of st' = (\<lambda>j. if j \<in> set is
        then map_option (\<lambda>m. m\<lparr>s_status := Done\<rparr>) (subs_of (subs ?w1) j) else subs_of (subs ?w1) j)"
    by blast
  have "subs_of st' = (\<lambda>j. if j \<in> set (i # is)
      then map_option (\<lambda>m. m\<lparr>s_status := Done\<rparr>) (subs_of (subs w) j) else subs_of (subs w) j)"
    by (rule ext) (auto simp: st'(3) st(3) m sp)
  with st(1) st'(1,2) show ?case by auto
qed

lemma batchMarkAsDone_known:
  assumes "sub_repo D = R" "subs_ok (subs w)" "set is \<subseteq> dom (subs_of (subs w))"
  obtains st where "batchMarkAsDone D is w = (Inr (), w\<lparr>subs := st\<rparr>)" "subs_ok st"
    "subs_of st = (\<lambda>i. if i \<in> set is
        then map_option (\<lambda>m. m\<lparr>s_status := Done\<rparr>) (subs_of (subs w) i) else subs_of (subs w) i)"
  using promise_all_updates [OF assms]
  by (auto simp: batchMarkAsDone_def andThen_def eff_simps)

lemma schedule_fresh:
  assumes "registry_ok (registry_of D)" "sched_ok (registry_of D) (sched w)"
    "handshakeTimeoutId i \<notin> t_name ` set (pending (sched w))"
  obtains sc t where "scheduleSendHandshake D i ms w = (Inr (), w\<lparr>sched := sc\<rparr>)"
    "sched_ok (registry_of D) sc" "pending sc = pending (sched w) @ [t]"
    "t_name t = handshakeTimeoutId i" "t_task t = SendHandshake i" "t_due t = now w + timer_delay ms"
proof -
  from assms obtain sc where "addTimeout (registry_of D) (now w) (handshakeTimeoutId i)
      (SendHandshake i) ms (sched w) = (Inr (), sc)" "sched_ok (registry_of D) sc"
    "pending sc = pending (sched w) @ [\<lparr>t_handle = nextHandle (sched w), t_name = handshakeTimeoutId i,
       t_type = Timeout, t_task = SendHandshake i, t_due = now w + timer_delay ms\<rparr>]"
    by (rule addTimeout_fresh)
  then show thesis
    by (intro that [of sc]) (auto simp: scheduleSendHandshake_def andThen_def zoom_def eff_simps)
qed

lemma createSubscription_fresh:
  assumes D: "sub_repo D = R" and ok: "subs_ok (subs w)"
    and reg: "registry_ok (registry_of D)" and sok: "sched_ok (registry_of D) (sched w)"
    and fresh: "\<And>i. subs_of (subs w) i = None \<Longrightarrow>
      handshakeTimeoutId i \<notin> t_name ` set (pending (sched w))"
  obtains i st sc t where "createSubscription D ty scope url secret w = (Inr i, w\<lparr>subs := st, sched := sc\<rparr>)"
    "subs_of (subs w) i = None" "subs_ok st"
    "subs_of st = (subs_of (subs w))(i \<mapsto> \<lparr>s_eventType = ty, s_eventScope = scope, s_webhookUrl = url,
        s_createdAt = now w, s_ttl = sub_ttl D, s_status = Inactive, s_triesLeft = sub_maxTries D,
        s_nextNonce = 0, s_legitimacySecret = secret, s_id = i\<rparr>)"
    "sched_ok (registry_of D) sc" "pending sc = pending (sched w) @ [t]"
    "t_name t = handshakeTimeoutId i" "t_task t = SendHandshake i"
proof -
  let ?p = "\<lparr>s_eventType = ty, s_eventScope = scope, s_webhookUrl = url, s_createdAt = now w,
     s_ttl = sub_ttl D, s_status = Inactive, s_triesLeft = sub_maxTries D, s_nextNonce = 0,
     s_legitimacySecret = secret\<rparr>"
  obtain i st where c: "sr_create R ?p (subs w) = (Inr (new_subscription i ?p), st)"
    "subs_of (subs w) i = None" "subs_of st = (subs_of (subs w))(i \<mapsto> new_subscription i ?p)" "subs_ok st"
    using create [OF ok, of ?p] by blast
  let ?w1 = "w\<lparr>subs := st\<rparr>"
  have sok1: "sched_ok (registry_of D) (sched ?w1)"
    and free: "handshakeTimeoutId i \<notin> t_name ` set (pending (sched ?w1))"
    using sok fresh [OF c(2)] by simp_all
  from reg sok1 free obtain sc t where s:
    "scheduleSendHandshake D i (Num 0) ?w1 = (Inr (), ?w1\<lparr>sched := sc\<rparr>)"
    "sched_ok (registry_of D) sc" "pending sc = pending (sched ?w1) @ [t]"
    "t_name t = handshakeTimeoutId i" "t_task t = SendHandshake i"
    "t_due t = now ?w1 + timer_delay (Num 0)"
    by (rule schedule_fresh)
  have "createSubscription D ty scope url secret w = (Inr i, w\<lparr>subs := st, sched := sc\<rparr>)"
    by (simp add: createSubscription_def andThen_def zoom_def D c(1) s(1) eff_simps)
  then show thesis
    by (rule that) (use c s in \<open>auto simp: new_subscription_def subscription_params.defs\<close>)
qed

text \<open>
  \<open>retry\<close>: with no try left the subscription is rejected and nothing is scheduled; otherwise the
  number of tries is stored and the handshake is scheduled again after the configured interval.
\<close>

lemma retry_exhausted:
  assumes "sub_repo D = R" "subs_ok (subs w)" "subs_of (subs w) i = Some m" "js_eq tries (Num 0)"
  obtains st where "subscriptions_retry D i tries w = (Inr (), w\<lparr>subs := st\<rparr>)" "subs_ok st"
    "subs_of st = (subs_of (subs w))(i \<mapsto> m\<lparr>s_status := SubRejected, s_triesLeft := tries\<rparr>)"
proof -
  let ?u = "no_change\<lparr>u_triesLeft := Some tries, u_status := Some SubRejected\<rparr>"
  have sp: "spread_subscription m ?u = m\<lparr>s_status := SubRejected, s_triesLeft := tries\<rparr>"
    by (simp add: spread_subscription_def no_change_def)
  from assms(1-3) obtain st where "updateSubscription D i ?u w = (Inr (spread_subscription m ?u), w\<lparr>subs := st\<rparr>)"
    "subs_ok st" "subs_of st = (subs_of (subs w))(i \<mapsto> spread_subscription m ?u)"
    by (rule updateSubscription_known)
  then show thesis
    by (intro that) (simp_all add: subscriptions_retry_def assms(4) andThen_def eff_simps sp)
qed

lemma retry_again:
  assumes D: "sub_repo D = R" and ok: "subs_ok (subs w)" and m: "subs_of (subs w) i = Some m"
    and left: "\<not> js_eq tries (Num 0)"
    and reg: "registry_ok (registry_of D)" and sok: "sched_ok (registry_of D) (sched w)"
    and free: "handshakeTimeoutId i \<notin> t_name ` set (pending (sched w))"
  obtains st sc t where "subscriptions_retry D i tries w = (Inr (), w\<lparr>subs := st, sched := sc\<rparr>)"
    "subs_ok st" "subs_of st = (subs_of (subs w))(i \<mapsto> m\<lparr>s_triesLeft := tries\<rparr>)"
    "sched_ok (registry_of D) sc" "pending sc = pending (sched w) @ [t]"
    "t_name t = handshakeTimeoutId i" "t_task t = SendHandshake i"
    "t_due t = now w + timer_delay (sub_retryInterval D)"
proof -
  let ?u = "no_change\<lparr>u_triesLeft := Some tries\<rparr>"
  have sp: "spread_subscription m ?u = m\<lparr>s_triesLeft := tries\<rparr>"
    by (simp add: spread_subscription_def no_change_def)
  from D ok m obtain st where st: "updateSubscription D i ?u w = (Inr (spread_subscription m ?u), w\<lparr>subs := st\<rparr>)"
    "subs_ok st" "subs_of st = (subs_of (subs w))(i \<mapsto> spread_subscription m ?u)"
    by (rule updateSubscription_known)
  let ?w1 = "w\<lparr>subs := st\<rparr>"
  have sok1: "sched_ok (registry_of D) (sched ?w1)"
    and free1: "handshakeTimeoutId i \<notin> t_name ` set (pending (sched ?w1))"
    using sok free by simp_all
  from reg sok1 free1 obtain sc t where s:
    "scheduleSendHandshake D i (sub_retryInterval D) ?w1 = (Inr (), ?w1\<lparr>sched := sc\<rparr>)"
    "sched_ok (registry_of D) sc" "pending sc = pending (sched ?w1) @ [t]"
    "t_name t = handshakeTimeoutId i" "t_task t = SendHandshake i"
    "t_due t = now ?w1 + timer_delay (sub_retryInterval D)"
    by (rule schedule_fresh)
  have "subscriptions_retry D i tries w = (Inr (), w\<lparr>subs := st, sched := sc\<rparr>)"
    by (simp add: subscriptions_retry_def left andThen_def st(1) s(1) eff_simps)
  then show thesis
    by (rule that) (use st s in \<open>simp_all add: sp\<close>)
qed

lemma handshake_confirmed:
  assumes "sub_repo D = R" "subs_ok (subs w)" "subs_of (subs w) i = Some m"
    "r_status r = 200" "r_headers r HANDSHAKE_HEADER_KEY = Some secret"
  obtains st where "handshakeAnswered D i tries secret (Some r) w = (Inr (), w\<lparr>subs := st\<rparr>)"
    "subs_ok st" "subs_of st = (subs_of (subs w))(i \<mapsto> m\<lparr>s_status := Active\<rparr>)"
proof -
  let ?u = "no_change\<lparr>u_status := Some Active\<rparr>"
  have sp: "spread_subscription m ?u = m\<lparr>s_status := Active\<rparr>"
    by (simp add: spread_subscription_def no_change_def)
  from assms(1-3) obtain st where "updateSubscription D i ?u w = (Inr (spread_subscription m ?u), w\<lparr>subs := st\<rparr>)"
    "subs_ok st" "subs_of st = (subs_of (subs w))(i \<mapsto> spread_subscription m ?u)"
    by (rule updateSubscription_known)
  then show thesis
    by (intro that) (simp_all add: handshakeAnswered_def handleHandshakeResponse_def assms(4,5)
        tryCatch_def andThen_def eff_simps sp)
qed

end

lemma handshake_refused:
  assumes "\<And>r. outcome = Some r \<Longrightarrow> r_status r \<noteq> 200 \<or> r_headers r HANDSHAKE_HEADER_KEY \<noteq> Some secret"
  shows "handshakeAnswered D i tries secret outcome w = subscriptions_retry D i (js_sub tries (Num 1)) w"
  using assms
  by (cases outcome) (auto simp: handshakeAnswered_def handleHandshakeResponse_def tryCatch_def eff_simps)

section \<open>The in-memory repository keeps the contract\<close>

abbreviation local_subs_ok :: "local_subs \<Rightarrow> bool" where
  "local_subs_ok \<equiv> store_ok s_id"

lemma local_incrementNonces:
  assumes "local_subs_ok st" "set ids \<subseteq> dom (ls_get st)" "distinct ids"
  shows "\<exists>st'. local_sub_incrementNonces ids st = (Inr (), st') \<and> local_subs_ok st'
        \<and> ls_get st' = (\<lambda>i. if i \<in> set ids
              then map_option (\<lambda>m. m\<lparr>s_nextNonce := s_nextNonce m + 1\<rparr>) (ls_get st i)
              else ls_get st i)"
  using assms
proof (induction ids arbitrary: st)
  case Nil
  then show ?case by simp
next
  case (Cons i ids)
  obtain m where m: "ls_get st i = Some m" using Cons.prems by auto
  let ?st1 = "ls_put i (m\<lparr>s_nextNonce := s_nextNonce m + 1\<rparr>) st"
  have "s_id m = i" using Cons.prems(1) m by (simp add: store_ok_def)
  then have ok1: "local_subs_ok ?st1" by (intro store_ok_put [OF Cons.prems(1) m]) simp
  have dom1: "set ids \<subseteq> dom (ls_get ?st1)" using Cons.prems(2) by (auto simp: store_simps)
  from Cons.IH [OF ok1 dom1] Cons.prems(3) obtain st' where st':
    "local_sub_incrementNonces ids ?st1 = (Inr (), st')" "local_subs_ok st'"
    "ls_get st' = (\<lambda>j. if j \<in> set ids
        then map_option (\<lambda>m. m\<lparr>s_nextNonce := s_nextNonce m + 1\<rparr>) (ls_get ?st1 j) else ls_get ?st1 j)"
    by auto
  have "ls_get st' = (\<lambda>j. if j \<in> set (i # ids)
      then map_option (\<lambda>m. m\<lparr>s_nextNonce := s_nextNonce m + 1\<rparr>) (ls_get st j) else ls_get st j)"
    using Cons.prems(3) by (intro ext) (auto simp: st'(3) store_simps m)
  with st'(1,2) show ?case by (simp add: m)
qed

interpretation local_sub: subscription_repo local_subscription_repo ls_get local_subs_ok
proof unfold_locales
  fix st :: local_subs and p
  assume ok: "local_subs_ok st"
  let ?i = "Suc (ls_currentId st)"
  have "sr_create local_subscription_repo p st =
      (Inr (new_subscription ?i p), snd (ls_insert (\<lambda>i. new_subscription i p) st))"
    by (simp add: local_subscription_repo_def local_sub_create_def split_beta store_simps)
  then show "\<exists>i st'. sr_create local_subscription_repo p st = (Inr (new_subscription i p), st')
      \<and> ls_get st i = None \<and> ls_get st' = (ls_get st)(i \<mapsto> new_subscription i p) \<and> local_subs_ok st'"
    using store_ok_free [OF ok] store_ok_insert [OF ok, of "\<lambda>i. new_subscription i p"]
    by (intro exI conjI) (auto simp: store_simps)
next
  fix st :: local_subs and i m u
  assume ok: "local_subs_ok st" and m: "ls_get st i = Some m"
  have "s_id (spread_subscription m u) = i" using ok m by (simp add: store_ok_def)
  with store_ok_put [OF ok m] m show "\<exists>st'. sr_update local_subscription_repo i u st
      = (Inr (spread_subscription m u), st')
      \<and> ls_get st' = (ls_get st)(i \<mapsto> spread_subscription m u) \<and> local_subs_ok st'"
    by (auto simp: local_subscription_repo_def local_sub_update_def store_simps)
next
  fix st :: local_subs and ids
  assume "local_subs_ok st" "set ids \<subseteq> dom (ls_get st)" "distinct ids"
  then show "\<exists>st'. sr_incrementNonces local_subscription_repo ids st = (Inr (), st') \<and> local_subs_ok st'
      \<and> ls_get st' = (\<lambda>i. if i \<in> set ids
            then map_option (\<lambda>m. m\<lparr>s_nextNonce := s_nextNonce m + 1\<rparr>) (ls_get st i)
            else ls_get st i)"
    by (simp add: local_subscription_repo_def local_incrementNonces)
qed (auto simp: local_subscription_repo_def local_sub_findById_def local_sub_findAll_def store_ok_values
    dest: store_ok_ident)

section \<open>Names of the scheduled handshakes\<close>

lemma handshakeTimeoutId_inject [simp]: "handshakeTimeoutId i = handshakeTimeoutId j \<longleftrightarrow> i = j"
  by (simp add: handshakeTimeoutId_def)

end
