(* ===== verification/Notifications.thy ===== *)
theory Notifications
  imports Subscriptions
begin

text \<open>
  Notifications: the repository interface as a locale, the in-memory repository
  (\<open>datastore/local-store/repos/notification.repo.ts\<close>) as its interpretation, and the service
  (\<open>notifications/notifications.service.ts\<close>, \<open>notifications/notifications.util.ts\<close>).

  The contract leaves open how many tries a new notification starts with (\<open>init_tries\<close>): the
  in-memory repository writes a constant there, whatever the service asks for.
\<close>

section \<open>The in-memory repository\<close>

type_synonym local_notifs = "notification local_store"

definition local_notification_triesLeft :: js_number where
  "local_notification_triesLeft = Num 10"

definition local_notif_create ::
    "int \<Rightarrow> notification_params \<Rightarrow> (exn, local_notifs, notification) eff" where
  "local_notif_create time p = (\<lambda>st.
     case ls_insert (\<lambda>i. new_notification i time
            (p\<lparr>n_triesLeft := local_notification_triesLeft, n_status := NActive\<rparr>)) st of
       (m, st') \<Rightarrow> (Inr m, st'))"

text \<open>As in the other repository, an update under an unknown identifier leaves the modelled states.\<close>

definition local_notif_update ::
    "nat \<Rightarrow> notification_update \<Rightarrow> (exn, local_notifs, notification) eff" where
  "local_notif_update i u = (\<lambda>st. case ls_get st i of
      None \<Rightarrow> (Inl (IllTyped ''notification''), st)
    | Some m \<Rightarrow> (Inr (spread_notification m u), ls_put i (spread_notification m u) st))"

definition local_notif_findById :: "nat \<Rightarrow> (exn, local_notifs, notification option) eff" where
  "local_notif_findById i = (\<lambda>st. (Inr (ls_get st i), st))"

definition local_notification_repo :: "local_notifs notification_repo_ops" where
  "local_notification_repo = \<lparr>nr_create = local_notif_create, nr_findById = local_notif_findById,
     nr_update = local_notif_update\<rparr>"

section \<open>The service\<close>

definition notifications_findOne ::
    "('s, 'n, 'r) deps \<Rightarrow> nat \<Rightarrow> (exn, ('s, 'n, 'r) world, notification) eff" where
  "notifications_findOne D i =
     andThen (on_notifs (nr_findById (notif_repo D) i)) (\<lambda>n. case n of
        None \<Rightarrow> throw (AppErr (appNotFoundError (nat_to_string i) ''notification''))
      | Some m \<Rightarrow> ret m)"

definition notificationTimeoutId :: "nat \<Rightarrow> string" where
  "notificationTimeoutId i = ''sendNotification_'' @ nat_to_string i"

definition scheduleSendNotification ::
    "('s, 'n, 'r) deps \<Rightarrow> nat \<Rightarrow> js_number \<Rightarrow> (exn, ('s, 'n, 'r) world, unit) eff" where
  "scheduleSendNotification D i ms =
     andThen (reads now) (\<lambda>time.
       on_sched (addTimeout (registry_of D) time (notificationTimeoutId i) (SendNotification i) ms))"

record new_notification_params =
  nn_subscriptionId :: nat
  nn_eventId :: nat
  nn_nonce :: nat

definition createNotification ::
    "('s, 'n, 'r) deps \<Rightarrow> new_notification_params \<Rightarrow> (exn, ('s, 'n, 'r) world, nat) eff" where
  "createNotification D p =
     andThen (reads now) (\<lambda>time.
     andThen (on_notifs (nr_create (notif_repo D) time
        \<lparr>n_subscriptionId = nn_subscriptionId p, n_eventId = nn_eventId p, n_nonce = nn_nonce p,
         n_triesLeft = notif_maxTries D, n_status = NActive\<rparr>)) (\<lambda>model.
     andThen (scheduleSendNotification D (n_id model) (Num 0)) (\<lambda>_. ret (n_id model))))"

definition createNotifications ::
    "('s, 'n, 'r) deps \<Rightarrow> new_notification_params list \<Rightarrow> (exn, ('s, 'n, 'r) world, nat list) eff" where
  "createNotifications D newNotifications =
     promise_all (map (createNotification D) newNotifications)"

definition updateNotification ::
    "('s, 'n, 'r) deps \<Rightarrow> nat \<Rightarrow> notification_update \<Rightarrow> (exn, ('s, 'n, 'r) world, notification) eff" where
  "updateNotification D i u = on_notifs (nr_update (notif_repo D) i u)"

definition assembleNotificationPayload ::
    "nat \<Rightarrow> event_type \<Rightarrow> string \<Rightarrow> transaction_update_payload \<Rightarrow> nat \<Rightarrow> notification_payload" where
  "assembleNotificationPayload subscriptionId ty scope payload nonce =
     \<lparr>np_subscriptionId = subscriptionId, np_type = ty, np_scope = scope, np_nonce = nonce,
      np_payload = payload\<rparr>"

definition signPayload :: "('s, 'n, 'r) deps \<Rightarrow> notification_payload \<Rightarrow> string \<Rightarrow> string" where
  "signPayload D payload secret = hmac D secret (stringify D payload)"

definition notifications_retry ::
    "('s, 'n, 'r) deps \<Rightarrow> nat \<Rightarrow> js_number \<Rightarrow> (exn, ('s, 'n, 'r) world, unit) eff" where
  "notifications_retry D i triesLeft =
     (if js_eq triesLeft (Num 0)
      then andThen (updateNotification D i
             (no_nchange\<lparr>v_triesLeft := Some triesLeft, v_status := Some NFailed\<rparr>)) (\<lambda>_. ret ())
      else andThen (updateNotification D i (no_nchange\<lparr>v_triesLeft := Some triesLeft\<rparr>)) (\<lambda>_.
             scheduleSendNotification D i (notif_retryInterval D)))"

definition handleWebhookResponse ::
    "('s, 'n, 'r) deps \<Rightarrow> nat \<Rightarrow> http_response \<Rightarrow> (exn, ('s, 'n, 'r) world, unit) eff" where
  "handleWebhookResponse D i response =
     (if r_status response = 200
      then andThen (updateNotification D i (no_nchange\<lparr>v_status := Some Acknowledged\<rparr>)) (\<lambda>_. ret ())
      else throw (PlainErr (''Webhook responded with non-OK status: '' @ nat_to_string (r_status response))))"

text \<open>\<open>sendNotification\<close> up to the HTTP request, with the \<open>catch\<close> around what precedes it.\<close>

definition sendNotification ::
    "('s, 'n, 'r) deps \<Rightarrow> nat \<Rightarrow> (exn, ('s, 'n, 'r) world, unit) eff" where
  "sendNotification D i =
     andThen (notifications_findOne D i) (\<lambda>notification.
     tryCatch
       (andThen (subscriptions_findOne D (n_subscriptionId notification)) (\<lambda>subscription.
        andThen (events_findOne (n_eventId notification)) (\<lambda>event.
        andThen (reads now) (\<lambda>time.
          if isExpired time subscription
          then andThen (updateNotification D i (no_nchange\<lparr>v_status := Some Orphaned\<rparr>)) (\<lambda>_. ret ())
          else
            (let payload = assembleNotificationPayload (n_subscriptionId notification) (e_type event)
                             (e_scope event) (e_payload event) (n_nonce notification);
                 signature = signPayload D payload (s_legitimacySecret subscription)
             in modifies (\<lambda>w. w\<lparr>
                  outbox := outbox w @ [(SendNotification i,
                     NotificationPost (s_webhookUrl subscription) payload signature)],
                  inflight := inflight w @ [NotificationSent i (n_triesLeft notification)]\<rparr>))))))
       (\<lambda>err. notifications_retry D i (js_sub (n_triesLeft notification) (Num 1))))"

definition notificationAnswered ::
    "('s, 'n, 'r) deps \<Rightarrow> nat \<Rightarrow> js_number \<Rightarrow> http_outcome \<Rightarrow> (exn, ('s, 'n, 'r) world, unit) eff" where
  "notificationAnswered D i triesLeft outcome =
     tryCatch
       (case outcome of
          None \<Rightarrow> throw (PlainErr ''request failed'')
        | Some response \<Rightarrow> handleWebhookResponse D i response)
       (\<lambda>err. notifications_retry D i (js_sub triesLeft (Num 1)))"

section \<open>The contract of the repository\<close>

locale notification_repo =
  fixes R :: "'n notification_repo_ops"
    and notifs_of :: "'n \<Rightarrow> nat \<rightharpoonup> notification"
    and notifs_ok :: "'n \<Rightarrow> bool"
    and init_tries :: "js_number \<Rightarrow> js_number"
  assumes create: "notifs_ok st \<Longrightarrow> n_status p = NActive \<Longrightarrow>
        \<exists>i c st'. nr_create R time p st =
             (Inr (new_notification i c (p\<lparr>n_triesLeft := init_tries (n_triesLeft p)\<rparr>)), st')
        \<and> notifs_of st i = None \<and> notifs_ok st'
        \<and> notifs_of st' = (notifs_of st)(i \<mapsto>
             new_notification i c (p\<lparr>n_triesLeft := init_tries (n_triesLeft p)\<rparr>))"
    and update: "notifs_ok st \<Longrightarrow> notifs_of st i = Some m \<Longrightarrow>
        \<exists>st'. nr_update R i u st = (Inr (spread_notification m u), st')
        \<and> notifs_of st' = (notifs_of st)(i \<mapsto> spread_notification m u) \<and> notifs_ok st'"
    and findById_known: "notifs_ok st \<Longrightarrow> notifs_of st i = Some m \<Longrightarrow> nr_findById R i st = (Inr (Some m), st)"
    and findById_unknown: "notifs_ok st \<Longrightarrow> notifs_of st i = None \<Longrightarrow>
        nr_findById R i st = (Inr None, st) \<or>
        (\<exists>e. nr_findById R i st = (Inl (AppErr e), st) \<and> code e = NotFound)"
    and ids: "notifs_ok st \<Longrightarrow> notifs_of st i = Some m \<Longrightarrow> n_id m = i"
begin

lemma findOne_known:
  assumes "notif_repo D = R" "notifs_ok (notifs w)" "notifs_of (notifs w) i = Some m"
  shows "notifications_findOne D i w = (Inr m, w)"
  by (simp add: notifications_findOne_def assms(1) andThen_def zoom_def
      findById_known [OF assms(2,3)] eff_simps)

lemma findOne_unknown:
  assumes "notif_repo D = R" "notifs_ok (notifs w)" "notifs_of (notifs w) i = None"
  shows "\<exists>e. notifications_findOne D i w = (Inl (AppErr e), w) \<and> code e = NotFound"
  using findById_unknown [OF assms(2,3)]
  by (auto simp: notifications_findOne_def assms(1) andThen_def zoom_def eff_simps)

lemma updateNotification_known:
  assumes "notif_repo D = R" "notifs_ok (notifs w)" "notifs_of (notifs w) i = Some m"
  obtains st where "updateNotification D i u w = (Inr (spread_notification m u), w\<lparr>notifs := st\<rparr>)"
    "notifs_ok st" "notifs_of st = (notifs_of (notifs w))(i \<mapsto> spread_notification m u)"
  using update [OF assms(2,3), of u] by (auto simp: updateNotification_def assms(1) zoom_def)

lemma schedule_fresh:
  assumes "registry_ok (registry_of D)" "sched_ok (registry_of D) (sched w)"
    "notificationTimeoutId i \<notin> t_name ` set (pending (sched w))"
  obtains sc t where "scheduleSendNotification D i ms w = (Inr (), w\<lparr>sched := sc\<rparr>)"
    "sched_ok (registry_of D) sc" "pending sc = pending (sched w) @ [t]"
    "t_name t = notificationTimeoutId i" "t_task t = SendNotification i"
    "t_due t = now w + timer_delay ms"
proof -
  from assms obtain sc where "addTimeout (registry_of D) (now w) (notificationTimeoutId i)
      (SendNotification i) ms (sched w) = (Inr (), sc)" "sched_ok (registry_of D) sc"
    "pending sc = pending (sched w) @ [\<lparr>t_handle = nextHandle (sched w), t_name = notificationTimeoutId i,
       t_type = Timeout, t_task = SendNotification i, t_due = now w + timer_delay ms\<rparr>]"
    by (rule addTimeout_fresh)
  then show thesis
    by (intro that [of sc]) (auto simp: scheduleSendNotification_def andThen_def zoom_def eff_simps)
qed

text \<open>What a repository makes of one request of the service.\<close>

definition stored :: "('s, 'n, 'r) deps \<Rightarrow> nat \<Rightarrow> int \<Rightarrow> new_notification_params \<Rightarrow> notification" where
  "stored D i c p = new_notification i c
     \<lparr>n_subscriptionId = nn_subscriptionId p, n_eventId = nn_eventId p, n_nonce = nn_nonce p,
      n_triesLeft = init_tries (notif_maxTries D), n_status = NActive\<rparr>"

lemma createNotification_fresh:
  assumes D: "notif_repo D = R" and ok: "notifs_ok (notifs w)"
    and reg: "registry_ok (registry_of D)" and sok: "sched_ok (registry_of D) (sched w)"
    and fresh: "\<And>i. notifs_of (notifs w) i = None \<Longrightarrow>
      notificationTimeoutId i \<notin> t_name ` set (pending (sched w))"
  obtains i c st sc t where "createNotification D p w = (Inr i, w\<lparr>notifs := st, sched := sc\<rparr>)"
    "notifs_of (notifs w) i = None" "notifs_ok st"
    "notifs_of st = (notifs_of (notifs w))(i \<mapsto> stored D i c p)"
    "sched_ok (registry_of D) sc" "pending sc = pending (sched w) @ [t]"
    "t_name t = notificationTimeoutId i" "t_task t = SendNotification i"
proof -
  let ?p = "\<lparr>n_subscriptionId = nn_subscriptionId p, n_eventId = nn_eventId p, n_nonce = nn_nonce p,
      n_triesLeft = notif_maxTries D, n_status = NActive\<rparr>"
  have act: "n_status ?p = NActive" by simp
  from create [OF ok act, of "now w"] obtain i c st where c:
    "nr_create R (now w) ?p (notifs w) =
       (Inr (new_notification i c (?p\<lparr>n_triesLeft := init_tries (n_triesLeft ?p)\<rparr>)), st)"
    "notifs_of (notifs w) i = None" "notifs_ok st"
    "notifs_of st = (notifs_of (notifs w))(i \<mapsto>
       new_notification i c (?p\<lparr>n_triesLeft := init_tries (n_triesLeft ?p)\<rparr>))" by blast
  let ?w1 = "w\<lparr>notifs := st\<rparr>"
  have sok1: "sched_ok (registry_of D) (sched ?w1)"
    and free: "notificationTimeoutId i \<notin> t_name ` set (pending (sched ?w1))"
    using sok fresh [OF c(2)] by simp_all
  from reg sok1 free obtain sc t where s:
    "scheduleSendNotification D i (Num 0) ?w1 = (Inr (), ?w1\<lparr>sched := sc\<rparr>)"
    "sched_ok (registry_of D) sc" "pending sc = pending (sched ?w1) @ [t]"
    "t_name t = notificationTimeoutId i" "t_task t = SendNotification i"
    "t_due t = now ?w1 + timer_delay (Num 0)" by (rule schedule_fresh)
  have "createNotification D p w = (Inr i, w\<lparr>notifs := st, sched := sc\<rparr>)"
    by (simp add: createNotification_def andThen_def zoom_def D c(1) [simplified] s(1) eff_simps)
  then show thesis
    by (rule that) (use c s in \<open>simp_all add: stored_def\<close>)
qed

lemma createNotifications_fresh:
  assumes "notif_repo D = R" "notifs_ok (notifs w)"
    and "registry_ok (registry_of D)" "sched_ok (registry_of D) (sched w)"
    and "\<And>i. notifs_of (notifs w) i = None \<Longrightarrow>
      notificationTimeoutId i \<notin> t_name ` set (pending (sched w))"
    and inj: "inj notificationTimeoutId"
  shows "\<exists>ids st sc ts. createNotifications D ps w = (Inr ids, w\<lparr>notifs := st, sched := sc\<rparr>)
     \<and> notifs_ok st \<and> sched_ok (registry_of D) sc \<and> pending sc = pending (sched w) @ ts
     \<and> map t_name ts = map notificationTimeoutId ids \<and> map t_task ts = map SendNotification ids
     \<and> distinct ids \<and> set ids \<inter> dom (notifs_of (notifs w)) = {}
     \<and> (\<forall>i. i \<notin> set ids \<longrightarrow> notifs_of st i = notifs_of (notifs w) i)
     \<and> list_all2 (\<lambda>i p. \<exists>c. notifs_of st i = Some (stored D i c p)) ids ps"
  using assms(1-5)
proof (induction ps arbitrary: w)
  case Nil
  then show ?case
    by (intro exI [of _ "[]"] exI [of _ "notifs w"] exI [of _ "sched w"])
      (simp add: createNotifications_def)
next
  case (Cons p ps)
  from Cons.prems obtain i c st sc t where h: "createNotification D p w = (Inr i, w\<lparr>notifs := st, sched := sc\<rparr>)"
    "notifs_of (notifs w) i = None" "notifs_ok st"
    "notifs_of st = (notifs_of (notifs w))(i \<mapsto> stored D i c p)"
    "sched_ok (registry_of D) sc" "pending sc = pending (sched w) @ [t]"
    "t_name t = notificationTimeoutId i" "t_task t = SendNotification i"
    by (rule createNotification_fresh)
  let ?w1 = "w\<lparr>notifs := st, sched := sc\<rparr>"
  have ok1: "notifs_ok (notifs ?w1)" and sok1: "sched_ok (registry_of D) (sched ?w1)"
    using h(3,5) by simp_all
  have fresh1: "notificationTimeoutId j \<notin> t_name ` set (pending (sched ?w1))"
    if "notifs_of (notifs ?w1) j = None" for j
  proof -
    have "notifs_of (notifs w) j = None" "j \<noteq> i" using that h(4) by (auto split: if_splits)
    then show ?thesis using Cons.prems(5) [of j] h(6,7) inj by (auto simp: inj_eq)
  qed
  from Cons.IH [OF Cons.prems(1) ok1 Cons.prems(3) sok1 fresh1] obtain ids st' sc' ts where IH:
    "createNotifications D ps ?w1 = (Inr ids, ?w1\<lparr>notifs := st', sched := sc'\<rparr>)"
    "notifs_ok st'" "sched_ok (registry_of D) sc'" "pending sc' = pending (sched ?w1) @ ts"
    "map t_name ts = map notificationTimeoutId ids" "map t_task ts = map SendNotification ids"
    "distinct ids" "set ids \<inter> dom (notifs_of (notifs ?w1)) = {}"
    "\<forall>i. i \<notin> set ids \<longrightarrow> notifs_of st' i = notifs_of (notifs ?w1) i"
    "list_all2 (\<lambda>i p. \<exists>c. notifs_of st' i = Some (stored D i c p)) ids ps" by blast
  have notin: "i \<notin> set ids" using IH(8) h(4) by auto
  have run: "createNotifications D (p # ps) w = (Inr (i # ids), w\<lparr>notifs := st', sched := sc'\<rparr>)"
    using h(1) IH(1) by (simp add: createNotifications_def)
  show ?case
    by (intro exI [of _ "i # ids"] exI [of _ st'] exI [of _ sc'] exI [of _ "t # ts"])
      (use run IH(2-10) h(2,4,6-8) notin in auto)
qed

lemma retry_exhausted:
  assumes "notif_repo D = R" "notifs_ok (notifs w)" "notifs_of (notifs w) i = Some m"
    "js_eq tries (Num 0)"
  obtains st where "notifications_retry D i tries w = (Inr (), w\<lparr>notifs := st\<rparr>)" "notifs_ok st"
    "notifs_of st = (notifs_of (notifs w))(i \<mapsto> m\<lparr>n_triesLeft := tries, n_status := NFailed\<rparr>)"
proof -
  let ?u = "no_nchange\<lparr>v_triesLeft := Some tries, v_status := Some NFailed\<rparr>"
  have sp: "spread_notification m ?u = m\<lparr>n_triesLeft := tries, n_status := NFailed\<rparr>"
    by (simp add: spread_notification_def no_nchange_def)
  from assms(1-3) obtain st where
    "updateNotification D i ?u w = (Inr (spread_notification m ?u), w\<lparr>notifs := st\<rparr>)"
    "notifs_ok st" "notifs_of st = (notifs_of (notifs w))(i \<mapsto> spread_notification m ?u)"
    by (rule updateNotification_known)
  then show thesis
    by (intro that) (simp_all add: notifications_retry_def assms(4) andThen_def eff_simps sp)
qed

lemma retry_again:
  assumes D: "notif_repo D = R" and ok: "notifs_ok (notifs w)" and m: "notifs_of (notifs w) i = Some m"
    and left: "\<not> js_eq tries (Num 0)"
    and reg: "registry_ok (registry_of D)" and sok: "sched_ok (registry_of D) (sched w)"
    and free: "notificationTimeoutId i \<notin> t_name ` set (pending (sched w))"
  obtains st sc t where "notifications_retry D i tries w = (Inr (), w\<lparr>notifs := st, sched := sc\<rparr>)"
    "notifs_ok st" "notifs_of st = (notifs_of (notifs w))(i \<mapsto> m\<lparr>n_triesLeft := tries\<rparr>)"
    "sched_ok (registry_of D) sc" "pending sc = pending (sched w) @ [t]"
    "t_name t = notificationTimeoutId i" "t_task t = SendNotification i"
    "t_due t = now w + timer_delay (notif_retryInterval D)"
proof -
  let ?u = "no_nchange\<lparr>v_triesLeft := Some tries\<rparr>"
  have sp: "spread_notification m ?u = m\<lparr>n_triesLeft := tries\<rparr>"
    by (simp add: spread_notification_def no_nchange_def)
  from D ok m obtain st where st:
    "updateNotification D i ?u w = (Inr (spread_notification m ?u), w\<lparr>notifs := st\<rparr>)"
    "notifs_ok st" "notifs_of st = (notifs_of (notifs w))(i \<mapsto> spread_notification m ?u)"
    by (rule updateNotification_known)
  let ?w1 = "w\<lparr>notifs := st\<rparr>"
  have sok1: "sched_ok (registry_of D) (sched ?w1)"
    and free1: "notificationTimeoutId i \<notin> t_name ` set (pending (sched ?w1))"
    using sok free by simp_all
  from reg sok1 free1 obtain sc t where s:
    "scheduleSendNotification D i (notif_retryInterval D) ?w1 = (Inr (), ?w1\<lparr>sched := sc\<rparr>)"
    "sched_ok (registry_of D) sc" "pending sc = pending (sched ?w1) @ [t]"
    "t_name t = notificationTimeoutId i" "t_task t = SendNotification i"
    "t_due t = now ?w1 + timer_delay (notif_retryInterval D)" by (rule schedule_fresh)
  have "notifications_retry D i tries w = (Inr (), w\<lparr>notifs := st, sched := sc\<rparr>)"
    by (simp add: notifications_retry_def left andThen_def st(1) s(1) eff_simps)
  then show thesis
    by (rule that) (use st s in \<open>simp_all add: sp\<close>)
qed

lemma acknowledged:
  assumes "notif_repo D = R" "notifs_ok (notifs w)" "notifs_of (notifs w) i = Some m" "r_status r = 200"
  obtains st where "notificationAnswered D i tries (Some r) w = (Inr (), w\<lparr>notifs := st\<rparr>)"
    "notifs_ok st" "notifs_of st = (notifs_of (notifs w))(i \<mapsto> m\<lparr>n_status := Acknowledged\<rparr>)"
proof -
  let ?u = "no_nchange\<lparr>v_status := Some Acknowledged\<rparr>"
  have sp: "spread_notification m ?u = m\<lparr>n_status := Acknowledged\<rparr>"
    by (simp add: spread_notification_def no_nchange_def)
  from assms(1-3) obtain st where
    "updateNotification D i ?u w = (Inr (spread_notification m ?u), w\<lparr>notifs := st\<rparr>)"
    "notifs_ok st" "notifs_of st = (notifs_of (notifs w))(i \<mapsto> spread_notification m ?u)"
    by (rule updateNotification_known)
  then show thesis
    by (intro that) (simp_all add: notificationAnswered_def handleWebhookResponse_def assms(4)
        tryCatch_def andThen_def eff_simps sp)
qed

end

lemma notification_refused:
  assumes "\<And>r. outcome = Some r \<Longrightarrow> r_status r \<noteq> 200"
  shows "notificationAnswered D i tries outcome w = notifications_retry D i (js_sub tries (Num 1)) w"
  using assms
  by (cases outcome) (auto simp: notificationAnswered_def handleWebhookResponse_def tryCatch_def eff_simps)

section \<open>The in-memory repository keeps the contract\<close>

abbreviation local_notifs_ok :: "local_notifs \<Rightarrow> bool" where
  "local_notifs_ok \<equiv> store_ok n_id"

interpretation local_notif: notification_repo local_notification_repo ls_get local_notifs_ok
  "\<lambda>_. local_notification_triesLeft"
proof unfold_locales
  fix st :: local_notifs and p :: notification_params and time
  assume ok: "local_notifs_ok st" and act: "n_status p = NActive"
  let ?i = "Suc (ls_currentId st)"
  let ?mk = "\<lambda>i. new_notification i time (p\<lparr>n_triesLeft := local_notification_triesLeft\<rparr>)"
  have p: "p\<lparr>n_triesLeft := local_notification_triesLeft, n_status := NActive\<rparr> =
      p\<lparr>n_triesLeft := local_notification_triesLeft\<rparr>" using act by simp
  have "nr_create local_notification_repo time p st = (Inr (?mk ?i), snd (ls_insert ?mk st))"
    by (simp add: local_notification_repo_def local_notif_create_def split_beta store_simps p)
  then show "\<exists>i c st'. nr_create local_notification_repo time p st =
        (Inr (new_notification i c (p\<lparr>n_triesLeft := local_notification_triesLeft\<rparr>)), st')
      \<and> ls_get st i = None \<and> local_notifs_ok st'
      \<and> ls_get st' = (ls_get st)(i \<mapsto>
           new_notification i c (p\<lparr>n_triesLeft := local_notification_triesLeft\<rparr>))"
    using store_ok_free [OF ok] store_ok_insert [OF ok, of ?mk]
    by (intro exI conjI) (auto simp: store_simps)
next
  fix st :: local_notifs and i m u
  assume ok: "local_notifs_ok st" and m: "ls_get st i = Some m"
  have "n_id (spread_notification m u) = i" using store_ok_ident [OF ok m] by simp
  with store_ok_put [OF ok m] m show "\<exists>st'. nr_update local_notification_repo i u st
      = (Inr (spread_notification m u), st')
      \<and> ls_get st' = (ls_get st)(i \<mapsto> spread_notification m u) \<and> local_notifs_ok st'"
    by (auto simp: local_notification_repo_def local_notif_update_def store_simps)
qed (auto simp: local_notification_repo_def local_notif_findById_def dest: store_ok_ident)

section \<open>Names of the scheduled notifications\<close>

lemma notificationTimeoutId_inject [simp]: "notificationTimeoutId i = notificationTimeoutId j \<longleftrightarrow> i = j"
  by (simp add: notificationTimeoutId_def)

lemma inj_notificationTimeoutId: "inj notificationTimeoutId"
  by (simp add: inj_def)

lemma timeoutId_disjoint [simp]:
  "handshakeTimeoutId i \<noteq> notificationTimeoutId j" "notificationTimeoutId j \<noteq> handshakeTimeoutId i"
  by (simp_all add: handshakeTimeoutId_def notificationTimeoutId_def)

end
