(* ===== verification/Events.thy ===== *)
theory Events
  imports Notifications
begin

text \<open>
  Events (\<open>events/events.service.ts\<close>): creating an event creates one notification for every active
  subscription to it that has not expired, numbered with the subscription's next nonce.

  The locale \<open>webhooks\<close> joins the contracts of the two repositories: the lemmas on the services that
  use both are proved in it. \<open>local_deps\<close> are the dependencies of a process with the in-memory
  repositories.
\<close>

section \<open>The service\<close>

definition event_filters :: "event_entity \<Rightarrow> subscription_filters" where
  "event_filters event = \<lparr>f_eventType = Some (e_type event), f_eventScope = Some (e_scope event),
     f_status = Some Active, f_excludeExpired = True\<rparr>"

definition notification_for :: "event_entity \<Rightarrow> subscription \<Rightarrow> new_notification_params" where
  "notification_for event s =
     \<lparr>nn_subscriptionId = s_id s, nn_eventId = e_id event, nn_nonce = s_nextNonce s\<rparr>"

definition createEventNotifications ::
    "('s, 'n, 'r) deps \<Rightarrow> event_entity \<Rightarrow> (exn, ('s, 'n, 'r) world, unit) eff" where
  "createEventNotifications D event =
     andThen (subscriptions_findAll D (event_filters event)) (\<lambda>affected.
       if affected \<noteq> [] then
         andThen (batchBumpNonce D (map s_id affected)) (\<lambda>_.
         andThen (createNotifications D (map (notification_for event) affected)) (\<lambda>_. ret ()))
       else ret ())"

definition markEventAsProcessed :: "nat \<Rightarrow> (exn, ('s, 'n, 'r) world, unit) eff" where
  "markEventAsProcessed i = (\<lambda>w. case int_get (ev_entries (events w)) i of
      None \<Rightarrow> (Inl (IllTyped ''event''), w)
    | Some e \<Rightarrow> (Inr (), w\<lparr>events := (events w)\<lparr>ev_entries :=
          int_put i (e\<lparr>e_processed := True\<rparr>) (ev_entries (events w))\<rparr>\<rparr>))"

definition createEvent ::
    "('s, 'n, 'r) deps \<Rightarrow> event_type \<Rightarrow> string \<Rightarrow> transaction_update_payload \<Rightarrow>
     (exn, ('s, 'n, 'r) world, nat) eff" where
  "createEvent D ty scope payload =
     andThen (modifies (\<lambda>w. w\<lparr>events := (events w)\<lparr>ev_currentId := Suc (ev_currentId (events w))\<rparr>\<rparr>)) (\<lambda>_.
     andThen (reads (\<lambda>w. \<lparr>e_id = ev_currentId (events w), e_type = ty, e_scope = scope,
        e_createdAt = now w, e_payload = payload, e_processed = False\<rparr>)) (\<lambda>event.
     andThen (modifies (\<lambda>w. w\<lparr>events := (events w)\<lparr>ev_entries :=
        int_put (e_id event) event (ev_entries (events w))\<rparr>\<rparr>)) (\<lambda>_.
     andThen (createEventNotifications D event) (\<lambda>_.
     andThen (markEventAsProcessed (e_id event)) (\<lambda>_. ret (e_id event))))))"

section \<open>The two repositories together\<close>

locale webhooks =
  S: subscription_repo "sub_repo D" subs_of subs_ok +
  N: notification_repo "notif_repo D" notifs_of notifs_ok init_tries
  for D :: "('s, 'n, 'r) deps"
    and subs_of :: "'s \<Rightarrow> nat \<rightharpoonup> subscription"
    and subs_ok :: "'s \<Rightarrow> bool"
    and notifs_of :: "'n \<Rightarrow> nat \<rightharpoonup> notification"
    and notifs_ok :: "'n \<Rightarrow> bool"
    and init_tries :: "js_number \<Rightarrow> js_number"
begin

text \<open>The subscriptions an event is for.\<close>

definition subscribers :: "('s, 'n, 'r) world \<Rightarrow> event_entity \<Rightarrow> subscription set" where
  "subscribers w event = {s \<in> ran (subs_of (subs w)). matches (now w) (event_filters event) s}"

definition bumped :: "nat set \<Rightarrow> (nat \<rightharpoonup> subscription) \<Rightarrow> nat \<rightharpoonup> subscription" where
  "bumped I f = (\<lambda>i. if i \<in> I
     then map_option (\<lambda>m. m\<lparr>s_nextNonce := s_nextNonce m + 1\<rparr>) (f i) else f i)"

text \<open>
  Creating the notifications of an event: each subscriber's next nonce goes up by one, and exactly one
  new notification per subscriber is stored, with the nonce the subscriber had.
\<close>

lemma createEventNotifications_effect:
  assumes ok: "subs_ok (subs w)" "notifs_ok (notifs w)"
    and reg: "registry_ok (registry_of D)" and sok: "sched_ok (registry_of D) (sched w)"
    and fresh: "\<And>i. notifs_of (notifs w) i = None \<Longrightarrow>
      notificationTimeoutId i \<notin> t_name ` set (pending (sched w))"
  shows "\<exists>ss ids st nt sc ts. createEventNotifications D event w
        = (Inr (), w\<lparr>subs := st, notifs := nt, sched := sc\<rparr>)
     \<and> set ss = subscribers w event \<and> distinct (map s_id ss)
     \<and> subs_ok st \<and> notifs_ok nt \<and> sched_ok (registry_of D) sc
     \<and> subs_of st = bumped (s_id ` subscribers w event) (subs_of (subs w))
     \<and> pending sc = pending (sched w) @ ts
     \<and> map t_name ts = map notificationTimeoutId ids \<and> map t_task ts = map SendNotification ids
     \<and> distinct ids \<and> set ids \<inter> dom (notifs_of (notifs w)) = {}
     \<and> (\<forall>i. i \<notin> set ids \<longrightarrow> notifs_of nt i = notifs_of (notifs w) i)
     \<and> list_all2 (\<lambda>i s. \<exists>c. notifs_of nt i = Some (N.stored D i c (notification_for event s))) ids ss"
proof -
  obtain ss where ss: "subscriptions_findAll D (event_filters event) w = (Inr ss, w)"
    "distinct (map s_id ss)" "set ss = subscribers w event"
    using S.findAll_service [OF refl ok(1), of "event_filters event"] unfolding subscribers_def by metis
  show ?thesis
  proof (cases "ss = []")
    case True
    with ss have none: "subscribers w event = {}" by simp
    have run: "createEventNotifications D event w = (Inr (), w)"
      by (simp add: createEventNotifications_def andThen_def ss(1) True eff_simps)
    show ?thesis
      by (rule exI [of _ ss], rule exI [of _ "[]"], rule exI [of _ "subs w"], rule exI [of _ "notifs w"],
          rule exI [of _ "sched w"], rule exI [of _ "[]"])
        (use run ok sok True none in \<open>simp add: bumped_def\<close>)
  next
    case False
    have "s_id s \<in> dom (subs_of (subs w))" if "s \<in> set ss" for s
      using that ss(3) S.ids [OF ok(1)] by (force simp: subscribers_def ran_def)
    then have dom: "set (map s_id ss) \<subseteq> dom (subs_of (subs w))" by auto
    have some: "map s_id ss \<noteq> []" using False by simp
    from refl ok(1) some dom ss(2) obtain st where st:
      "batchBumpNonce D (map s_id ss) w = (Inr (), w\<lparr>subs := st\<rparr>)" "subs_ok st"
      "subs_of st = (\<lambda>i. if i \<in> set (map s_id ss)
         then map_option (\<lambda>m. m\<lparr>s_nextNonce := s_nextNonce m + 1\<rparr>) (subs_of (subs w) i)
         else subs_of (subs w) i)"
      by (rule S.batchBumpNonce_known)
    have bump: "subs_of st = bumped (s_id ` subscribers w event) (subs_of (subs w))"
      by (simp add: st(3) bumped_def flip: ss(3))
    let ?w1 = "w\<lparr>subs := st\<rparr>"
    have "notifs_ok (notifs ?w1)" "sched_ok (registry_of D) (sched ?w1)"
      "\<And>i. notifs_of (notifs ?w1) i = None \<Longrightarrow>
        notificationTimeoutId i \<notin> t_name ` set (pending (sched ?w1))"
      using ok(2) sok fresh by simp_all
    from N.createNotifications_fresh [OF refl this(1) reg this(2,3) inj_notificationTimeoutId,
        of "map (notification_for event) ss"]
    obtain ids nt sc ts where c:
      "createNotifications D (map (notification_for event) ss) ?w1
         = (Inr ids, ?w1\<lparr>notifs := nt, sched := sc\<rparr>)"
      "notifs_ok nt" "sched_ok (registry_of D) sc" "pending sc = pending (sched ?w1) @ ts"
      "map t_name ts = map notificationTimeoutId ids" "map t_task ts = map SendNotification ids"
      "distinct ids" "set ids \<inter> dom (notifs_of (notifs ?w1)) = {}"
      "\<forall>i. i \<notin> set ids \<longrightarrow> notifs_of nt i = notifs_of (notifs ?w1) i"
      "list_all2 (\<lambda>i p. \<exists>c. notifs_of nt i = Some (N.stored D i c p)) ids
         (map (notification_for event) ss)"
      by blast
    have run: "createEventNotifications D event w = (Inr (), w\<lparr>subs := st, notifs := nt, sched := sc\<rparr>)"
      by (simp add: createEventNotifications_def andThen_def ss(1) False st(1) c(1) eff_simps)
    show ?thesis
      by (rule exI [of _ ss], rule exI [of _ ids], rule exI [of _ st], rule exI [of _ nt],
          rule exI [of _ sc], rule exI [of _ ts])
        (use run ss(2,3) st(2) bump c(2-10) in \<open>simp add: list_all2_map2\<close>)
  qed
qed

end

section \<open>The dependencies with the in-memory repositories\<close>

definition local_deps :: "'r base_deps \<Rightarrow> (local_subs, local_notifs, 'r) deps" where
  "local_deps c = base_deps.extend c
     \<lparr>sub_repo = local_subscription_repo, notif_repo = local_notification_repo\<rparr>"

lemma local_deps_sel [simp]:
  "sub_repo (local_deps c) = local_subscription_repo"
  "notif_repo (local_deps c) = local_notification_repo"
  "registry_of (local_deps c) = registry_of c"
  "sub_ttl (local_deps c) = sub_ttl c"
  "sub_maxTries (local_deps c) = sub_maxTries c"
  "sub_retryInterval (local_deps c) = sub_retryInterval c"
  "notif_maxTries (local_deps c) = notif_maxTries c"
  "notif_retryInterval (local_deps c) = notif_retryInterval c"
  "legitimacySecret (local_deps c) = legitimacySecret c"
  "hmac (local_deps c) = hmac c"
  "stringify (local_deps c) = stringify c"
  by (simp_all add: local_deps_def base_deps.defs)

interpretation lw: webhooks "local_deps c" ls_get local_subs_ok ls_get local_notifs_ok
    "\<lambda>_. local_notification_triesLeft" for c :: "'r base_deps"
  by (simp add: webhooks_def local_sub.subscription_repo_axioms local_notif.notification_repo_axioms)

end
