(* ===== verification/Transactions.thy ===== *)
theory Transactions
  imports Events
begin

text \<open>
  Transactions with a callback (\<open>transactions/transactions.service.ts\<close>): the store of tracked
  transactions, the subscription created for a submission, the payload of a status update, and the
  handling of a status change. A run of a transaction belongs to the SDK: what it leaves in the
  transaction object is an argument.
\<close>

section \<open>Payload of a status update\<close>

definition assemblePayload ::
    "sdk_transaction \<Rightarrow> string option \<Rightarrow> transaction_update_payload result" where
  "assemblePayload tx proposal =
     (let status = tx_status tx;
          base = \<lparr>p_status = status, p_proposal = proposal, p_type = Batch, p_transactionTag = None,
                  p_transactionTags = None, p_transactionHash = None, p_blockHash = None,
                  p_blockNumber = None, p_result = None, p_error = None\<rparr>;
          typed = (case tx_kind_of tx of
              Some (PolymeshTransaction tag) \<Rightarrow> Inr (base\<lparr>p_type := Single, p_transactionTag := Some tag\<rparr>)
            | Some (PolymeshTransactionBatch tags) \<Rightarrow> Inr (base\<lparr>p_transactionTags := Some tags\<rparr>)
            | None \<Rightarrow> Inl js_type_error)
      in (case typed of Inl e \<Rightarrow> Inl e | Inr payload0 \<Rightarrow>
     (let payload1 = (if status \<notin> {Rejected, Unapproved, Idle}
                      then payload0\<lparr>p_transactionHash := tx_txHash tx\<rparr> else payload0);
          payload2 = (if status \<in> {Succeeded, Failed}
                      then (case tx_blockNumber tx of
                          None \<Rightarrow> Inl js_type_error
                        | Some n \<Rightarrow> Inr (payload1\<lparr>p_blockHash := tx_blockHash tx,
                                p_blockNumber := Some (nat_to_string n),
                                p_result := (if status = Succeeded then Some ''placeholder''
                                             else p_result payload1)\<rparr>))
                      else Inr payload1)
      in (case payload2 of Inl e \<Rightarrow> Inl e | Inr payload3 \<Rightarrow>
        (if status \<in> {Aborted, Failed, Rejected}
         then (case tx_error tx of
             None \<Rightarrow> Inl js_type_error
           | Some m \<Rightarrow> Inr (payload3\<lparr>p_error := Some m\<rparr>))
         else Inr payload3)))))"

section \<open>Tracking a transaction\<close>

definition addListener :: "sdk_transaction \<Rightarrow> (exn, ('s, 'n, 'r) world, nat) eff" where
  "addListener tx = (\<lambda>w.
     let i = Suc (ts_currentId (txs w))
     in (Inr i, w\<lparr>txs := (txs w)\<lparr>ts_currentId := i, listening := listening (txs w) @ [i],
           ts_entries := (ts_entries (txs w))(i \<mapsto> tx)\<rparr>\<rparr>))"

text \<open>The part of \<open>submitAndSubscribe\<close> before the transaction is run.\<close>

definition subscribeTransaction ::
    "('s, 'n, 'r) deps \<Rightarrow> sdk_transaction \<Rightarrow> string \<Rightarrow> string \<Rightarrow> (exn, ('s, 'n, 'r) world, nat \<times> nat) eff" where
  "subscribeTransaction D tx webhookUrl secret =
     andThen (addListener tx) (\<lambda>i.
     andThen (createSubscription D TransactionUpdate (nat_to_string i) webhookUrl secret) (\<lambda>subscriptionId.
     andThen (updateSubscription D subscriptionId (no_change\<lparr>u_nextNonce := Some 1\<rparr>)) (\<lambda>_.
     ret (i, subscriptionId))))"

text \<open>
  \<open>lifted\<close> runs a computation on the world inside a larger state, and \<open>run\<close> is the run of the transaction there, which gives the
  proposal, if there is one. \<open>tx'\<close> is the transaction object when the response is assembled, after \<open>run\<close> was started or
  \<open>runAsProposal\<close> has ended.
\<close>

definition submitAndSubscribe_in ::
    "((exn, ('s, 'n, 'r) world, nat \<times> nat) eff \<Rightarrow> (exn, 'g, nat \<times> nat) eff) \<Rightarrow> ('s, 'n, 'r) deps \<Rightarrow> sdk_transaction \<Rightarrow> string \<Rightarrow> string \<Rightarrow>
     sdk_transaction \<Rightarrow> (exn, 'g, string option) eff \<Rightarrow> (exn, 'g, notification_payload) eff" where
  "submitAndSubscribe_in lifted D tx webhookUrl secret tx' run =
     andThen (lifted (subscribeTransaction D tx webhookUrl secret)) (\<lambda>ids.
     andThen run (\<lambda>txProposal.
     andThen (lift_result (assemblePayload tx' txProposal)) (\<lambda>payload.
     ret \<lparr>np_subscriptionId = snd ids, np_type = TransactionUpdate, np_scope = nat_to_string (fst ids),
          np_nonce = 0, np_payload = payload\<rparr>)))"

text \<open>
  On the world of the webhooks alone, for a run that gives \<open>proposal\<close>: \<open>None\<close> when there is none or when the run failed, which is logged only.
\<close>

definition submitAndSubscribe ::
    "('s, 'n, 'r) deps \<Rightarrow> sdk_transaction \<Rightarrow> string \<Rightarrow> string \<Rightarrow> sdk_transaction \<Rightarrow> string option \<Rightarrow>
     (exn, ('s, 'n, 'r) world, notification_payload) eff" where
  "submitAndSubscribe D tx webhookUrl secret tx' proposal =
     submitAndSubscribe_in (\<lambda>m. m) D tx webhookUrl secret tx' (ret (if tx_multiSig tx = None then None else proposal))"

definition markSubsAsDone :: "('s, 'n, 'r) deps \<Rightarrow> nat \<Rightarrow> (exn, ('s, 'n, 'r) world, unit) eff" where
  "markSubsAsDone D i =
     andThen (subscriptions_findAll D \<lparr>f_eventType = Some TransactionUpdate,
        f_eventScope = Some (nat_to_string i), f_status = Some Active, f_excludeExpired = True\<rparr>)
       (\<lambda>affected. batchMarkAsDone D (map s_id affected))"

definition terminal :: "transaction_status \<Rightarrow> bool" where
  "terminal status \<longleftrightarrow> status \<in> {Aborted, Failed, Rejected, Succeeded}"

definition untrack :: "nat \<Rightarrow> (exn, ('s, 'n, 'r) world, unit) eff" where
  "untrack i = (\<lambda>w. case ts_entries (txs w) i of
      None \<Rightarrow> (Inl js_type_error, w)
    | Some _ \<Rightarrow> (Inr (), w\<lparr>txs := (txs w)\<lparr>listening := filter (\<lambda>j. j \<noteq> i) (listening (txs w)),
          ts_entries := (ts_entries (txs w))(i := None)\<rparr>\<rparr>))"

definition handleTransactionStatusChange ::
    "('s, 'n, 'r) deps \<Rightarrow> nat \<Rightarrow> sdk_transaction \<Rightarrow> (exn, ('s, 'n, 'r) world, unit) eff" where
  "handleTransactionStatusChange D i tx =
     tryCatch
       (andThen (lift_result (assemblePayload tx None)) (\<lambda>payload.
        andThen (createEvent D TransactionUpdate (nat_to_string i) payload) (\<lambda>_.
          if terminal (tx_status tx)
          then andThen (untrack i) (\<lambda>_. markSubsAsDone D i)
          else ret ())))
       (\<lambda>err. ret ())"

section \<open>The shape of a payload\<close>

text \<open>
  A payload is well-formed when it has the fields its type (\<open>TransactionUpdatePayload\<close> of
  \<open>events/types.ts\<close>) requires for its status, and none that belong to another status.
\<close>

definition payload_shape :: "transaction_update_payload \<Rightarrow> bool" where
  "payload_shape p \<longleftrightarrow>
     (p_type p = Single \<longleftrightarrow> p_transactionTag p \<noteq> None)
   \<and> (p_type p = Batch \<longleftrightarrow> p_transactionTags p \<noteq> None)
   \<and> (p_transactionHash p \<noteq> None \<longrightarrow> p_status p \<in> {Running, Succeeded, Failed, Aborted})
   \<and> (p_blockNumber p \<noteq> None \<longleftrightarrow> p_status p \<in> {Succeeded, Failed})
   \<and> (p_blockHash p \<noteq> None \<longrightarrow> p_status p \<in> {Succeeded, Failed})
   \<and> (p_result p \<noteq> None \<longleftrightarrow> p_status p = Succeeded)
   \<and> (p_error p \<noteq> None \<longleftrightarrow> p_status p \<in> {Aborted, Failed, Rejected})"

lemma assemblePayload_shape: "assemblePayload tx proposal = Inr p \<Longrightarrow> payload_shape p \<and> p_status p = tx_status tx"
  by (cases "tx_status tx"; cases "tx_kind_of tx")
    (auto simp: assemblePayload_def payload_shape_def Let_def split: tx_kind.splits option.splits)

text \<open>
  The object the SDK hands over is complete: it is a transaction or a batch, a transaction in a block
  has its number, and one that did not succeed has its error.
\<close>

definition tx_complete :: "sdk_transaction \<Rightarrow> bool" where
  "tx_complete tx \<longleftrightarrow> tx_kind_of tx \<noteq> None
     \<and> (tx_status tx \<in> {Succeeded, Failed} \<longrightarrow> tx_blockNumber tx \<noteq> None)
     \<and> (tx_status tx \<in> {Aborted, Failed, Rejected} \<longrightarrow> tx_error tx \<noteq> None)"

lemma assemblePayload_total: "(\<exists>p. assemblePayload tx proposal = Inr p) \<longleftrightarrow> tx_complete tx"
  by (cases "tx_status tx"; cases "tx_kind_of tx")
    (auto simp: assemblePayload_def tx_complete_def Let_def split: tx_kind.splits option.splits)

end
