(* ===== verification/Js_Numeric.thy ===== *)
theory Js_Numeric
  imports Complex_Main Prelude
begin

text \<open>
  The numeric conversions of strings the source uses: \<open>Number(s)\<close> and \<open>parseInt(s, 16)\<close>, as ECMAScript
  defines them on ASCII text. A result is a rational number, an infinity or \<open>NaN\<close>; rounding to 53
  bits is not modelled. The lemmas give the result on the decimal and hexadecimal rendering of a
  natural number, and on text that is not a number.
\<close>

datatype js_real = JNaN | JInf bool | JRat rat

section \<open>Digits\<close>

definition digit_value :: "nat \<Rightarrow> char \<Rightarrow> nat option" where
  "digit_value base c =
     (let n = (of_char c :: nat);
          d = (if 48 \<le> n \<and> n \<le> 57 then Some (n - 48)
               else if 97 \<le> n \<and> n \<le> 122 then Some (n - 87)
               else if 65 \<le> n \<and> n \<le> 90 then Some (n - 55) else None)
      in case d of Some v \<Rightarrow> if v < base then Some v else None | None \<Rightarrow> None)"

text \<open>The longest prefix of digits: its value, its length and the rest.\<close>

fun take_digits :: "nat \<Rightarrow> string \<Rightarrow> nat \<Rightarrow> nat \<Rightarrow> nat \<times> nat \<times> string" where
  "take_digits base [] acc len = (acc, len, [])"
| "take_digits base (c # cs) acc len = (case digit_value base c of
      None \<Rightarrow> (acc, len, c # cs)
    | Some v \<Rightarrow> take_digits base cs (acc * base + v) (Suc len))"

section \<open>\<open>Number\<close>\<close>

definition radix_literal :: "nat \<Rightarrow> string \<Rightarrow> js_real" where
  "radix_literal base s = (case take_digits base s 0 0 of (v, len, rest) \<Rightarrow>
      if len > 0 \<and> rest = [] then JRat (of_nat v) else JNaN)"

definition strip_sign :: "string \<Rightarrow> int \<times> string" where
  "strip_sign s = (if s \<noteq> [] \<and> hd s = CHR ''-'' then (-1, tl s)
     else if s \<noteq> [] \<and> hd s = CHR ''+'' then (1, tl s) else (1, s))"

text \<open>The exponent part of a decimal literal; \<open>None\<close> when it is malformed.\<close>

definition exponent :: "string \<Rightarrow> int option" where
  "exponent s =
     (if s = [] then Some 0
      else if hd s \<noteq> CHR ''e'' \<and> hd s \<noteq> CHR ''E'' then None
      else (case strip_sign (tl s) of (sg, ds) \<Rightarrow>
             (case take_digits 10 ds 0 0 of (v, len, rest) \<Rightarrow>
                if len > 0 \<and> rest = [] then Some (sg * int v) else None)))"

definition rat_pow10 :: "int \<Rightarrow> rat" where
  "rat_pow10 e = (if 0 \<le> e then 10 ^ nat e else 1 / 10 ^ nat (- e))"

definition unsigned_decimal :: "string \<Rightarrow> js_real" where
  "unsigned_decimal s =
     (if s = ''Infinity'' then JInf True
      else case take_digits 10 s 0 0 of (i, ilen, rest) \<Rightarrow>
        (let (f, flen, rest') = (if rest \<noteq> [] \<and> hd rest = CHR ''.'' then take_digits 10 (tl rest) 0 0 else (0, 0, rest))
         in if ilen + flen = 0 then JNaN
            else case exponent rest' of
               None \<Rightarrow> JNaN
             | Some e \<Rightarrow> JRat ((of_nat i + of_nat f / 10 ^ flen) * rat_pow10 e)))"

fun js_negate :: "js_real \<Rightarrow> js_real" where
  "js_negate JNaN = JNaN"
| "js_negate (JInf b) = JInf (\<not> b)"
| "js_negate (JRat r) = JRat (- r)"

definition js_Number :: "string \<Rightarrow> js_real" where
  "js_Number s0 =
     (let s = trim s0; p = take 2 s
      in if s = [] then JRat 0
         else if p = ''0x'' \<or> p = ''0X'' then radix_literal 16 (drop 2 s)
         else if p = ''0o'' \<or> p = ''0O'' then radix_literal 8 (drop 2 s)
         else if p = ''0b'' \<or> p = ''0B'' then radix_literal 2 (drop 2 s)
         else (case strip_sign s of (sg, r) \<Rightarrow>
           if sg < 0 then js_negate (unsigned_decimal r) else unsigned_decimal r))"

section \<open>\<open>parseInt(s, 16)\<close>\<close>

definition parseInt16 :: "string \<Rightarrow> js_number" where
  "parseInt16 s0 = (case strip_sign (dropWhile is_space s0) of (sg, s1) \<Rightarrow>
      (let s2 = (if take 2 s1 = ''0x'' \<or> take 2 s1 = ''0X'' then drop 2 s1 else s1)
       in case take_digits 16 s2 0 0 of (v, len, rest) \<Rightarrow>
            if len = 0 then NaN else Num (sg * int v)))"

text \<open>Rendering in base 16, as the chain's payloads have their numbers.\<close>

definition hex_char :: "nat \<Rightarrow> char" where
  "hex_char d = char_of (if d < 10 then 48 + d else 87 + d)"

fun nat_to_hex :: "nat \<Rightarrow> string" where
  "nat_to_hex n = (if n < 16 then [hex_char n] else nat_to_hex (n div 16) @ [hex_char (n mod 16)])"

declare nat_to_hex.simps [simp del]

section \<open>Lemmas\<close>

lemma digit_value_digit_char:
  assumes "d < 10" "10 \<le> base"
  shows "digit_value base (digit_char d) = Some d"
  using assms by (simp add: digit_value_def digit_char_def of_char_of)

lemma digit_value_hex_char: "d < 16 \<Longrightarrow> digit_value 16 (hex_char d) = Some d"
  by (cases "d < 10") (simp_all add: digit_value_def hex_char_def of_char_of)

lemma take_digits_append:
  assumes "\<forall>c \<in> set xs. digit_value base c \<noteq> None"
  shows "take_digits base (xs @ ys) acc len =
    take_digits base ys (foldl (\<lambda>a c. a * base + the (digit_value base c)) acc xs) (len + length xs)"
  using assms
proof (induction xs arbitrary: acc len)
  case (Cons x xs)
  then obtain v where "digit_value base x = Some v" by auto
  with Cons show ?case by simp
qed simp

lemma nat_to_string_char: "c \<in> set (nat_to_string n) \<Longrightarrow> \<exists>d < 10. c = digit_char d"
proof (induction n rule: nat_to_string.induct)
  case (1 n)
  show ?case
  proof (cases "n < 10")
    case True
    with "1.prems" show ?thesis by (auto simp: nat_to_string.simps [of n])
  next
    case False
    with "1.prems" have "c \<in> set (nat_to_string (n div 10)) \<or> c = digit_char (n mod 10)"
      by (auto simp: nat_to_string.simps [of n])
    then show ?thesis
    proof
      assume "c = digit_char (n mod 10)"
      then show ?thesis by (intro exI [of _ "n mod 10"]) simp
    qed (use "1.IH" False in blast)
  qed
qed

lemma digit_char_not: "d < 10 \<Longrightarrow> (of_char c :: nat) < 48 \<or> 57 < (of_char c :: nat) \<Longrightarrow> digit_char d \<noteq> c"
  by (auto simp: digit_char_def of_char_of)

lemma nat_to_string_not:
  assumes "(of_char c :: nat) < 48 \<or> 57 < (of_char c :: nat)"
  shows "c \<notin> set (nat_to_string n)"
  using nat_to_string_char digit_char_not [OF _ assms] by metis

lemma nat_to_string_fold: "foldl (\<lambda>a c. a * 10 + the (digit_value 10 c)) 0 (nat_to_string n) = n"
proof (induction n rule: nat_to_string.induct)
  case (1 n)
  show ?case
  proof (cases "n < 10")
    case True
    then show ?thesis by (simp add: nat_to_string.simps [of n] digit_value_digit_char)
  next
    case False
    with "1.IH" show ?thesis by (simp add: nat_to_string.simps [of n] digit_value_digit_char)
  qed
qed

lemma take_digits_nat: "take_digits 10 (nat_to_string n) 0 0 = (n, length (nat_to_string n), [])"
proof -
  have "\<forall>c \<in> set (nat_to_string n). digit_value 10 c \<noteq> None"
    using nat_to_string_char [of _ n] digit_value_digit_char [of _ 10] by fastforce
  from take_digits_append [OF this, of "[]" 0 0] show ?thesis by (simp add: nat_to_string_fold)
qed

lemma nat_to_hex_char: "c \<in> set (nat_to_hex n) \<Longrightarrow> \<exists>d < 16. c = hex_char d"
proof (induction n rule: nat_to_hex.induct)
  case (1 n)
  show ?case
  proof (cases "n < 16")
    case True
    with "1.prems" show ?thesis by (auto simp: nat_to_hex.simps [of n])
  next
    case False
    with "1.prems" have "c \<in> set (nat_to_hex (n div 16)) \<or> c = hex_char (n mod 16)"
      by (auto simp: nat_to_hex.simps [of n])
    then show ?thesis
    proof
      assume "c = hex_char (n mod 16)"
      then show ?thesis by (intro exI [of _ "n mod 16"]) simp
    qed (use "1.IH" False in blast)
  qed
qed

lemma nat_to_hex_fold: "foldl (\<lambda>a c. a * 16 + the (digit_value 16 c)) 0 (nat_to_hex n) = n"
proof (induction n rule: nat_to_hex.induct)
  case (1 n)
  show ?case
  proof (cases "n < 16")
    case True
    then show ?thesis by (simp add: nat_to_hex.simps [of n] digit_value_hex_char)
  next
    case False
    with "1.IH" show ?thesis by (simp add: nat_to_hex.simps [of n] digit_value_hex_char)
  qed
qed

lemma nat_to_hex_not_Nil [simp]: "nat_to_hex n \<noteq> []"
  by (subst nat_to_hex.simps) simp

lemma parseInt16_hex: "parseInt16 (''0x'' @ nat_to_hex n) = Num (int n)"
proof -
  have "\<forall>c \<in> set (nat_to_hex n). digit_value 16 c \<noteq> None"
    using nat_to_hex_char [of _ n] digit_value_hex_char by fastforce
  from take_digits_append [OF this, of "[]" 0 0]
  have "take_digits 16 (nat_to_hex n) 0 0 = (n, length (nat_to_hex n), [])" by (simp add: nat_to_hex_fold)
  then show ?thesis by (simp add: parseInt16_def is_space_def strip_sign_def)
qed

lemma nat_to_string_space: "\<forall>c \<in> set (nat_to_string n). \<not> is_space c"
proof
  fix c assume "c \<in> set (nat_to_string n)"
  then obtain d where "d < 10" "c = digit_char d" using nat_to_string_char by blast
  then show "\<not> is_space c" using digit_char_not [of d] by (auto simp: is_space_def)
qed

lemma js_Number_nat: "js_Number (nat_to_string n) = JRat (of_nat n)"
proof -
  obtain c cs where s: "nat_to_string n = c # cs" using nat_to_string_not_Nil [of n] by (cases "nat_to_string n") auto
  then have mem: "\<And>x. x \<in> set (c # cs) \<Longrightarrow> x \<in> set (nat_to_string n)" by auto
  have c: "c \<noteq> CHR ''-''" "c \<noteq> CHR ''+''" "c \<noteq> CHR ''I''"
    using mem [of c] nat_to_string_not [of _ n] by auto
  have p: "take 2 (c # cs) \<noteq> [CHR ''0'', x]" if "(of_char x :: nat) < 48 \<or> 57 < (of_char x :: nat)" for x
  proof
    assume "take 2 (c # cs) = [CHR ''0'', x]"
    then have "x \<in> set (take 2 (c # cs))" by simp
    then have "x \<in> set (c # cs)" by (rule in_set_takeD)
    with mem nat_to_string_not [OF that] show False by blast
  qed
  have t: "trim (c # cs) = c # cs" using trim_id [OF nat_to_string_space [of n]] s by simp
  have "js_Number (nat_to_string n) = unsigned_decimal (c # cs)"
    unfolding js_Number_def s t Let_def
    using c p [of "CHR ''x''"] p [of "CHR ''X''"] p [of "CHR ''o''"] p [of "CHR ''O''"] p [of "CHR ''b''"]
      p [of "CHR ''B''"]
    by (auto simp: strip_sign_def)
  also have "\<dots> = JRat (of_nat n)"
    using take_digits_nat [of n] c by (simp add: unsigned_decimal_def s exponent_def rat_pow10_def)
  finally show ?thesis .
qed

end
