(* ===== verification/Messages.thy ===== *)
theory Messages
  imports Js_Numeric Sdk
begin

text \<open>
  The message services: \<open>message/local/local-message.service.ts\<close>, which calls the listeners in the
  process itself, and \<open>message/artemis/artemis.service.ts\<close> over an AMQP broker.

  Validating a model is done by the package \<open>class-validator\<close>: \<open>validate\<close> gives the text of the errors,
  \<open>None\<close> when there are none. The local service does not await the listeners it calls; \<open>lm_calls\<close> holds
  the calls that were made and whose work is still to be done. The broker's answers are parameters of the
  operations of the second service.
\<close>

section \<open>Addresses and queues\<close>

datatype address_name = RequestsAddress | SignaturesAddress | FinalizationsAddress

datatype queue_name = EventsLogQueue | RequestsQueue | SignaturesQueue | FinalizationsQueue

fun address_value :: "address_name \<Rightarrow> string" where
  "address_value RequestsAddress = ''Requests''"
| "address_value SignaturesAddress = ''Signatures''"
| "address_value FinalizationsAddress = ''Finalizations''"

fun queue_value :: "queue_name \<Rightarrow> string" where
  "queue_value EventsLogQueue = ''EventsLog''"
| "queue_value RequestsQueue = ''Requests''"
| "queue_value SignaturesQueue = ''Signatures''"
| "queue_value FinalizationsQueue = ''Finalizations''"

fun addressToQueue :: "address_name \<Rightarrow> queue_name" where
  "addressToQueue RequestsAddress = RequestsQueue"
| "addressToQueue SignaturesAddress = SignaturesQueue"
| "addressToQueue FinalizationsAddress = FinalizationsQueue"

record message_receipt =
  mr_id :: nat
  mr_topic :: address_name

section \<open>The local service\<close>

record ('l, 'c) handler =
  h_listenOn :: queue_name
  h_listener :: 'l
  h_model :: 'c

record ('l, 'c, 'm) local_messages =
  lm_listeners :: "queue_name \<Rightarrow> ('l, 'c) handler list"
  lm_id :: nat
  lm_calls :: "('l \<times> 'm) list"

definition local_messages_start :: "('l, 'c, 'm) local_messages" where
  "local_messages_start = \<lparr>lm_listeners = (\<lambda>_. []), lm_id = 1, lm_calls = []\<rparr>"

definition invalid_message :: "queue_name \<Rightarrow> string \<Rightarrow> exn" where
  "invalid_message listenOn errString =
     AppErr (appInternalError (''received invalid message on '' @ quoted (queue_value listenOn) @ '': '' @ errString))"

definition local_handler ::
    "('c \<Rightarrow> 'm \<Rightarrow> string option) \<Rightarrow> ('l, 'c) handler \<Rightarrow> 'm \<Rightarrow> (exn, ('l, 'c, 'm) local_messages, unit) eff" where
  "local_handler validate h msg = (case validate (h_model h) msg of
      Some errString \<Rightarrow> throw (invalid_message (h_listenOn h) errString)
    | None \<Rightarrow> modifies (\<lambda>s. s\<lparr>lm_calls := lm_calls s @ [(h_listener h, msg)]\<rparr>))"

definition handlers_for :: "('l, 'c, 'm) local_messages \<Rightarrow> address_name \<Rightarrow> ('l, 'c) handler list" where
  "handlers_for s publishOn = lm_listeners s (addressToQueue publishOn) @ lm_listeners s EventsLogQueue"

definition local_sendMessage ::
    "('c \<Rightarrow> 'm \<Rightarrow> string option) \<Rightarrow> address_name \<Rightarrow> 'm \<Rightarrow> (exn, ('l, 'c, 'm) local_messages, message_receipt) eff" where
  "local_sendMessage validate publishOn msg = (\<lambda>s.
     andThen (promise_all (map (\<lambda>h. local_handler validate h msg) (handlers_for s publishOn))) (\<lambda>_.
     andThen (reads lm_id) (\<lambda>i.
     andThen (modifies (\<lambda>s. s\<lparr>lm_id := Suc (lm_id s)\<rparr>)) (\<lambda>_.
     ret \<lparr>mr_id = i, mr_topic = publishOn\<rparr>))) s)"

definition local_registerListener ::
    "queue_name \<Rightarrow> 'l \<Rightarrow> 'c \<Rightarrow> (exn, ('l, 'c, 'm) local_messages, unit) eff" where
  "local_registerListener listenOn listener model =
     modifies (\<lambda>s. s\<lparr>lm_listeners := (lm_listeners s)(listenOn :=
        lm_listeners s listenOn @ [\<lparr>h_listenOn = listenOn, h_listener = listener, h_model = model\<rparr>])\<rparr>)"

section \<open>The Artemis service\<close>

record artemis_env =
  ARTEMIS_HOST :: "string option"
  ARTEMIS_PORT :: "string option"
  ARTEMIS_USERNAME :: "string option"
  ARTEMIS_PASSWORD :: "string option"

datatype artemis_config =
    NotConfigured
  | Configured (ac_host: string) (ac_port: js_real) (ac_username: string) (ac_password: string)
      (ac_timeout: nat) (ac_transport: string)

definition blank :: "string option \<Rightarrow> bool" where
  "blank v \<longleftrightarrow> v = None \<or> v = Some ''''"

definition readArtemisFromEnv :: "artemis_env \<Rightarrow> artemis_config" where
  "readArtemisFromEnv env =
     (if blank (ARTEMIS_HOST env) \<or> blank (ARTEMIS_PORT env) \<or> blank (ARTEMIS_USERNAME env) \<or> blank (ARTEMIS_PASSWORD env)
      then NotConfigured
      else Configured (the (ARTEMIS_HOST env)) (js_Number (the (ARTEMIS_PORT env))) (the (ARTEMIS_USERNAME env))
             (the (ARTEMIS_PASSWORD env)) 10 ''tcp'')"

text \<open>Which service \<open>MessageModule.registerAsync\<close> selects.\<close>

datatype message_backend = LocalBackend | ArtemisBackend artemis_config

definition select_message_module :: "artemis_env \<Rightarrow> message_backend" where
  "select_message_module env = (case readArtemisFromEnv env of
      NotConfigured \<Rightarrow> LocalBackend | c \<Rightarrow> ArtemisBackend c)"










text \<open>
  What happens to a delivery: the handler accepts it or rejects it with a condition and a
  description, leaves it unsettled, or throws. \<open>listener\<close> is what the awaited listener answers.
\<close>

datatype settlement = Accepted | RejectedWith string string | Unsettled | HandlerThrew exn

fun error_text :: "exn \<Rightarrow> string" where
  "error_text (AppErr a) = message a"
| "error_text (PolymeshErr _ m) = m"
| "error_text (TypeOrmErr m) = m"
| "error_text (PlainErr m) = m"
| "error_text NotAnError = ''unknown error''"
| "error_text (IllTyped m) = m"

definition artemis_onMessage ::
    "(string \<times> ('m \<Rightarrow> string option)) \<Rightarrow> ('m \<Rightarrow> (exn, 's, unit) eff) \<Rightarrow> bool \<Rightarrow> 'm option \<Rightarrow> 's \<Rightarrow> settlement \<times> 's" where
  "artemis_onMessage model listener has_delivery message_opt s =
     (if \<not> has_delivery then (HandlerThrew (AppErr (appInternalError ''message received without delivery methods'')), s)
      else case message_opt of
          None \<Rightarrow> (Unsettled, s)
        | Some body \<Rightarrow> (case snd model body of
            Some errs \<Rightarrow> (RejectedWith ''validation error'' (''message was deemed invalid for model: '' @ fst model), s)
          | None \<Rightarrow> (case listener body s of
               (Inr _, s') \<Rightarrow> (Accepted, s')
             | (Inl e, s') \<Rightarrow> (RejectedWith ''processing error'' (''error processing message: '' @ error_text e), s'))))"


section \<open>Lemmas\<close>

lemma local_handler_None:
  "validate (h_model h) m = None \<Longrightarrow> local_handler validate h m s = (Inr (), s\<lparr>lm_calls := lm_calls s @ [(h_listener h, m)]\<rparr>)"
  by (simp add: local_handler_def eff_simps)

lemma local_handler_Some:
  "validate (h_model h) m = Some errs \<Longrightarrow> local_handler validate h m s = (Inl (invalid_message (h_listenOn h) errs), s)"
  by (simp add: local_handler_def eff_simps)

lemma started_handlers:
  "promise_all (map (\<lambda>h. local_handler validate h m) hs) s =
     (case find (\<lambda>h. validate (h_model h) m \<noteq> None) hs of
        None \<Rightarrow> Inr (map (\<lambda>_. ()) hs)
      | Some h \<Rightarrow> Inl (invalid_message (h_listenOn h) (the (validate (h_model h) m))),
      s\<lparr>lm_calls := lm_calls s @ map (\<lambda>h. (h_listener h, m)) (filter (\<lambda>h. validate (h_model h) m = None) hs)\<rparr>)"
proof (induction hs arbitrary: s)
  case (Cons h hs)
  show ?case
    by (cases "validate (h_model h) m")
      (auto simp: Cons local_handler_None local_handler_Some split: option.splits)
qed simp

definition accepting :: "('c \<Rightarrow> 'm \<Rightarrow> string option) \<Rightarrow> 'm \<Rightarrow> ('l, 'c) handler list \<Rightarrow> ('l \<times> 'm) list" where
  "accepting validate m hs = map (\<lambda>h. (h_listener h, m)) (filter (\<lambda>h. validate (h_model h) m = None) hs)"

lemma local_send_valid:
  assumes "\<And>h. h \<in> set (handlers_for s a) \<Longrightarrow> validate (h_model h) m = None"
  shows "local_sendMessage validate a m s = (Inr \<lparr>mr_id = lm_id s, mr_topic = a\<rparr>,
     s\<lparr>lm_calls := lm_calls s @ map (\<lambda>h. (h_listener h, m)) (handlers_for s a), lm_id := Suc (lm_id s)\<rparr>)"
proof -
  have "find (\<lambda>h. validate (h_model h) m \<noteq> None) (handlers_for s a) = None"
    using assms by (auto simp: find_None_iff)
  moreover have "filter (\<lambda>h. validate (h_model h) m = None) (handlers_for s a) = handlers_for s a"
    using assms by (auto simp: filter_id_conv)
  ultimately show ?thesis
    by (simp add: local_sendMessage_def andThen_def started_handlers eff_simps)
qed











section \<open>Properties\<close>

text \<open>
  Publishing with the local service. Every listener of the queue, then every listener of the log
  of events, is called once with the message unless the message is invalid for its model; the receipt has the
  next identifier. When the message is invalid for some listener the call is rejected with the error
  of the first such listener and no identifier is used, but the other listeners have been called all the same.
\<close>

theorem local_send_effect:
  "local_sendMessage validate a m s =
     (let hs = lm_listeners s (addressToQueue a) @ lm_listeners s EventsLogQueue;
          s' = s\<lparr>lm_calls := lm_calls s @ accepting validate m hs\<rparr>
      in case find (\<lambda>h. validate (h_model h) m \<noteq> None) hs of
           None \<Rightarrow> (Inr \<lparr>mr_id = lm_id s, mr_topic = a\<rparr>, s'\<lparr>lm_id := Suc (lm_id s)\<rparr>)
         | Some h \<Rightarrow> (Inl (invalid_message (h_listenOn h) (the (validate (h_model h) m))), s'))"
  unfolding Let_def handlers_for_def [symmetric] accepting_def local_sendMessage_def
  by (auto simp: andThen_def started_handlers eff_simps split: option.splits)





end
