(* ===== verification/Signing.thy ===== *)
theory Signing
  imports Js_Numeric Sdk
begin

text \<open>
  Signing: \<open>signing/services\<close> (the abstract service and its local, Vault and Fireblocks
  implementations), \<open>signing/config/signers.config.ts\<close> and the choice of the implementation in
  \<open>signing/signing.module.ts\<close>.

  The signing managers are packages: what they answer (\<open>manager\<close>) is a parameter. An address book is
  a plain object, so the names every object inherits are found in it.
\<close>

section \<open>The managers and the services\<close>

record vault_key =
  vk_name :: string
  vk_version :: nat
  vk_address :: string

record manager =
  mg_addAccount :: "string option \<Rightarrow> string result"
  mg_getVaultKeys :: "vault_key list result"
  mg_deriveAccount :: "js_real list \<Rightarrow> string result"
  mg_ss58Format :: int
  mg_signPayload :: "signer_payload \<Rightarrow> string result"
  mg_isValidAddress :: "string \<Rightarrow> bool"

text \<open>The value a handle stands for: an address, or what a plain object inherits under that name.\<close>

datatype account_ref = Address string | InheritedValue string

type_synonym address_book = "string \<rightharpoonup> string"

text \<open>The text a template string gives for an inherited property.\<close>

definition inherited_text :: "string \<Rightarrow> string" where
  "inherited_text k =
     (if k = ''__proto__'' then ''[object Object]''
      else if k = ''constructor'' then ''function Object() { [native code] }''
      else ''function '' @ k @ ''() { [native code] }'')"

definition isAddress :: "manager \<Rightarrow> string \<Rightarrow> bool" where
  "isAddress M address = mg_isValidAddress M address"

definition signing_signPayload :: "manager \<Rightarrow> signer_payload \<Rightarrow> string result" where
  "signing_signPayload M payload = mg_signPayload M payload"

definition throwNoSigner :: "string \<Rightarrow> exn" where
  "throwNoSigner handle = AppErr (appNotFoundError handle ''signer'')"

definition addSigner_unsupported :: "string \<Rightarrow> string \<Rightarrow> string result" where
  "addSigner_unsupported handle mnemonic =
     Inl (AppErr (appInternalError ''Adding signers is not supported with the configured service''))"

section \<open>Local signing\<close>

definition local_getAddressByHandle :: "string \<Rightarrow> (exn, address_book, account_ref) eff" where
  "local_getAddressByHandle handle = (\<lambda>book. case js_get book handle of
      Absent \<Rightarrow> (Inl (throwNoSigner handle), book)
    | Own address \<Rightarrow> if address = '''' then (Inl (throwNoSigner handle), book) else (Inr (Address address), book)
    | Inherited k \<Rightarrow> (Inr (InheritedValue k), book))"

text \<open>Assigning a text to \<open>__proto__\<close> has no effect.\<close>

definition setAddressByHandle :: "string \<Rightarrow> string \<Rightarrow> (exn, address_book, unit) eff" where
  "setAddressByHandle handle address =
     modifies (\<lambda>book. if handle = ''__proto__'' then book else book(handle \<mapsto> address))"

text \<open>
  The entries of a plain object in the order \<open>forEach\<close> visits them: keys that are array indices first,
  ascending, then the others in the order they were added.
\<close>

definition is_index_key :: "string \<Rightarrow> bool" where
  "is_index_key k \<longleftrightarrow> k = nat_to_string (string_to_nat k) \<and> string_to_nat k < 4294967295"

definition object_entries :: "(string \<times> 'v) list \<Rightarrow> (string \<times> 'v) list" where
  "object_entries kvs = sort_key (\<lambda>p. string_to_nat (fst p)) (filter (\<lambda>p. is_index_key (fst p)) kvs)
     @ filter (\<lambda>p. \<not> is_index_key (fst p)) kvs"

fun load_accounts :: "manager \<Rightarrow> (string \<times> string option) list \<Rightarrow> (exn, address_book, unit) eff" where
  "load_accounts M [] = ret ()"
| "load_accounts M ((handle, mnemonic) # rest) =
     andThen (lift_result (mg_addAccount M mnemonic)) (\<lambda>address.
     andThen (setAddressByHandle handle address) (\<lambda>_. load_accounts M rest))"

text \<open>\<open>setManager\<close> is what \<open>setSigningManager\<close> of the SDK answers.\<close>

definition local_initialize ::
    "manager \<Rightarrow> unit result \<Rightarrow> (string \<times> string option) list \<Rightarrow> (exn, address_book, unit) eff" where
  "local_initialize M setManager accounts =
     andThen (lift_result setManager) (\<lambda>_. load_accounts M (object_entries accounts))"

definition local_addSigner :: "manager \<Rightarrow> string \<Rightarrow> string \<Rightarrow> (exn, address_book, string) eff" where
  "local_addSigner M handle mnemonic = (\<lambda>book.
     let existing = (case js_get book handle of
            Absent \<Rightarrow> None | Own a \<Rightarrow> if a = '''' then None else Some a | Inherited k \<Rightarrow> Some (inherited_text k))
     in case existing of
          Some a \<Rightarrow> (Inl (AppErr (appConflictError a handle)), book)
        | None \<Rightarrow> andThen (lift_result (mg_addAccount M (Some mnemonic))) (\<lambda>address.
                  andThen (setAddressByHandle handle address) (\<lambda>_. ret address)) book)"

section \<open>Vault signing\<close>

definition vault_label :: "vault_key \<Rightarrow> string" where
  "vault_label k = vk_name k @ ''-'' @ nat_to_string (vk_version k)"

definition vault_getAddressByHandle :: "manager \<Rightarrow> string \<Rightarrow> account_ref result" where
  "vault_getAddressByHandle M handle = (case mg_getVaultKeys M of
      Inl e \<Rightarrow> Inl e
    | Inr keys \<Rightarrow> (case find (\<lambda>k. vault_label k = handle) keys of
         Some k \<Rightarrow> Inr (Address (vk_address k))
       | None \<Rightarrow> Inl (throwNoSigner handle)))"

text \<open>\<open>initialize\<close> and \<open>logKeys\<close>: the lines written to the log.\<close>

definition logKey :: "string \<Rightarrow> string \<Rightarrow> string" where
  "logKey handle address = ''Key '' @ quoted handle @ '' with address '' @ quoted address @ '' was loaded''"

definition vault_logKeys :: "manager \<Rightarrow> string list result" where
  "vault_logKeys M = (case mg_getVaultKeys M of
      Inl e \<Rightarrow> Inl e | Inr keys \<Rightarrow> Inr (map (\<lambda>k. logKey (vault_label k) (vk_address k)) keys))"

definition vault_initialize :: "manager \<Rightarrow> unit result \<Rightarrow> string list result" where
  "vault_initialize M setManager = (case setManager of Inl e \<Rightarrow> Inl e | Inr _ \<Rightarrow> vault_logKeys M)"

section \<open>Fireblocks signing\<close>

definition determineBip44CoinType :: "int \<Rightarrow> int" where
  "determineBip44CoinType ss58Format = (if ss58Format = 12 then 595 else 1)"

text \<open>\<open>x || 0\<close>, for a section that may be missing.\<close>

fun or_zero :: "js_real option \<Rightarrow> js_real" where
  "or_zero None = JRat 0"
| "or_zero (Some JNaN) = JRat 0"
| "or_zero (Some r) = r"

definition handleToDerivationPath :: "manager \<Rightarrow> string \<Rightarrow> js_real list result" where
  "handleToDerivationPath M handle =
     (let sections = map js_Number (split_on (CHR ''-'') handle)
      in if JNaN \<in> set sections \<or> length sections > 3 \<or> handle = ''''
         then Inl (AppErr (appValidationError
                ''Fireblocks `signer` field should be 3 integers formatted like: `x-y-z`''))
         else Inr [JRat 44, JRat (of_int (determineBip44CoinType (mg_ss58Format M))), sections ! 0,
                   or_zero (if 1 < length sections then Some (sections ! 1) else None),
                   or_zero (if 2 < length sections then Some (sections ! 2) else None)])"

definition fireblocks_getAddressByHandle :: "manager \<Rightarrow> string \<Rightarrow> account_ref result" where
  "fireblocks_getAddressByHandle M handle = (case handleToDerivationPath M handle of
      Inl e \<Rightarrow> Inl e
    | Inr path \<Rightarrow> (case mg_deriveAccount M path of Inl e \<Rightarrow> Inl e | Inr a \<Rightarrow> Inr (Address a)))"

section \<open>Configuration\<close>

record signer_env =
  LOCAL_SIGNERS :: "string option"
  LOCAL_MNEMONICS :: "string option"
  VAULT_URL :: "string option"
  VAULT_TOKEN :: "string option"
  FIREBLOCKS_URL :: "string option"
  FIREBLOCKS_API_KEY :: "string option"
  FIREBLOCKS_SECRET_PATH :: "string option"

datatype signer_config =
    VaultConfig string string
  | FireblocksConfig string string string
  | LocalConfig "(string \<times> string option) list"

definition truthy :: "string option \<Rightarrow> bool" where
  "truthy v \<longleftrightarrow> v \<noteq> None \<and> v \<noteq> Some ''''"

text \<open>\<open>LOCAL_SIGNERS?.split(',').map(trim) || []\<close>\<close>

definition comma_list :: "string option \<Rightarrow> string list" where
  "comma_list v = (case v of None \<Rightarrow> [] | Some s \<Rightarrow> map trim (split_on (CHR '','') s))"

text \<open>
  \<open>accounts[signer] = mnemonics[index]\<close>: a repeated signer keeps its place and takes the new value, and
  assigning to \<open>__proto__\<close> has no effect.
\<close>

fun object_put :: "string \<Rightarrow> 'v \<Rightarrow> (string \<times> 'v) list \<Rightarrow> (string \<times> 'v) list" where
  "object_put k v [] = [(k, v)]"
| "object_put k v ((k', v') # xs) = (if k = k' then (k, v) # xs else (k', v') # object_put k v xs)"

fun pair_from :: "string list \<Rightarrow> string list \<Rightarrow> (string \<times> string option) list \<Rightarrow> (string \<times> string option) list" where
  "pair_from [] mnemonics acc = acc"
| "pair_from (signer # signers) mnemonics acc =
     pair_from signers (drop 1 mnemonics)
       (if signer = ''__proto__'' then acc
        else object_put signer (case mnemonics of [] \<Rightarrow> None | m # _ \<Rightarrow> Some m) acc)"

definition pair_accounts :: "string list \<Rightarrow> string list \<Rightarrow> (string \<times> string option) list" where
  "pair_accounts signers mnemonics = pair_from signers mnemonics []"

definition signers_config :: "signer_env \<Rightarrow> (string \<Rightarrow> string result) \<Rightarrow> signer_config result" where
  "signers_config env readFileSync =
     (if truthy (VAULT_URL env) \<and> truthy (VAULT_TOKEN env)
      then Inr (VaultConfig (the (VAULT_URL env)) (the (VAULT_TOKEN env)))
      else if truthy (FIREBLOCKS_URL env) \<and> truthy (FIREBLOCKS_API_KEY env) \<and> truthy (FIREBLOCKS_SECRET_PATH env)
      then (case readFileSync (the (FIREBLOCKS_SECRET_PATH env)) of
              Inl e \<Rightarrow> Inl e
            | Inr secret \<Rightarrow> Inr (FireblocksConfig (the (FIREBLOCKS_URL env)) (the (FIREBLOCKS_API_KEY env)) secret))
      else Inr (LocalConfig (pair_accounts (comma_list (LOCAL_SIGNERS env)) (comma_list (LOCAL_MNEMONICS env)))))"

text \<open>The service the module provides for a configuration.\<close>

datatype signing_service = LocalService | VaultService | FireblocksService

fun signing_factory :: "signer_config \<Rightarrow> signing_service" where
  "signing_factory (VaultConfig _ _) = VaultService"
| "signing_factory (FireblocksConfig _ _ _) = FireblocksService"
| "signing_factory (LocalConfig _) = LocalService"

fun getAddressByHandle :: "signing_service \<Rightarrow> manager \<Rightarrow> string \<Rightarrow> (exn, address_book, account_ref) eff" where
  "getAddressByHandle LocalService M handle = local_getAddressByHandle handle"
| "getAddressByHandle VaultService M handle = lift_result (vault_getAddressByHandle M handle)"
| "getAddressByHandle FireblocksService M handle = lift_result (fireblocks_getAddressByHandle M handle)"

fun addSigner :: "signing_service \<Rightarrow> manager \<Rightarrow> string \<Rightarrow> string \<Rightarrow> (exn, address_book, string) eff" where
  "addSigner LocalService M handle mnemonic = local_addSigner M handle mnemonic"
| "addSigner _ M handle mnemonic = lift_result (addSigner_unsupported handle mnemonic)"

section \<open>Lemmas\<close>

lemma map_of_object_put: "map_of (object_put k v kvs) = (map_of kvs)(k \<mapsto> v)"
  by (induction k v kvs rule: object_put.induct) (auto simp: fun_upd_twist)

lemma distinct_object_put: "distinct (map fst kvs) \<Longrightarrow> distinct (map fst (object_put k v kvs))"
proof (induction k v kvs rule: object_put.induct)
  case (2 k v k' v' xs)
  have "fst ` set (object_put k v xs) = insert k (fst ` set xs)" for xs
    by (induction k v xs rule: object_put.induct) auto
  with 2 show ?case by auto
qed simp

lemma object_entries_perm:
  assumes "distinct (map fst kvs)"
  shows "map_of (object_entries kvs) = map_of kvs" "distinct (map fst (object_entries kvs))"
    "set (object_entries kvs) = set kvs"
proof -
  let ?A = "filter (\<lambda>p. is_index_key (fst p)) kvs" and ?B = "filter (\<lambda>p. \<not> is_index_key (fst p)) kvs"
  show set: "set (object_entries kvs) = set kvs" by (auto simp: object_entries_def)
  have "distinct (map fst (sort_key (\<lambda>p. string_to_nat (fst p)) ?A))"
  proof -
    have "inj_on fst (set ?A)" "distinct ?A"
      using assms by (auto simp: distinct_map intro: inj_on_subset)
    then show ?thesis by (auto simp: distinct_map)
  qed
  then show d: "distinct (map fst (object_entries kvs))"
    using assms by (auto simp: object_entries_def distinct_map_filter)
  show "map_of (object_entries kvs) = map_of kvs"
    using set d assms by (intro ext) (metis map_of_eq_Some_iff not_None_eq)
qed

lemma load_accounts_ok:
  assumes "distinct (map fst kvs)" "''__proto__'' \<notin> fst ` set kvs" "\<And>h m. (h, m) \<in> set kvs \<Longrightarrow> mg_addAccount M m = Inr (addr m)"
  shows "load_accounts M kvs book = (Inr (), book ++ (\<lambda>h. map_option addr (map_of kvs h)))"
  using assms
proof (induction kvs arbitrary: book)
  case (Cons p kvs)
  obtain h m where p: "p = (h, m)" by (cases p)
  have "map_of kvs h = None" using Cons.prems(1) by (auto simp: p map_of_eq_None_iff)
  then have "book(h \<mapsto> addr m) ++ (\<lambda>h. map_option addr (map_of kvs h)) =
      book ++ (\<lambda>k. map_option addr (map_of (p # kvs) k))"
    by (auto simp: p fun_eq_iff map_add_def split: option.splits)
  moreover have "mg_addAccount M m = Inr (addr m)" by (rule Cons.prems(3) [of h]) (simp add: p)
  moreover have "load_accounts M kvs (book(h \<mapsto> addr m)) =
      (Inr (), book(h \<mapsto> addr m) ++ (\<lambda>h. map_option addr (map_of kvs h)))"
    by (rule Cons.IH) (use Cons.prems in auto)
  ultimately show ?case
    using Cons.prems(2) by (auto simp: p andThen_def setAddressByHandle_def eff_simps)
qed (simp add: ret_def map_add_def)

lemma map_of_pair_from:
  assumes "distinct signers" "length mnemonics = length signers" "''__proto__'' \<notin> set signers"
  shows "map_of (pair_from signers mnemonics acc) = map_of acc ++ map_of (zip signers (map Some mnemonics))"
  using assms
proof (induction signers mnemonics acc rule: pair_from.induct)
  case (2 s signers mnemonics acc)
  then obtain m ms where m: "mnemonics = m # ms" by (cases mnemonics) auto
  have none: "map_of (zip signers (map Some ms)) s = None"
    using "2.prems" by (auto simp: m map_of_zip_is_None)
  have "(map_of acc)(s \<mapsto> Some m) ++ map_of (zip signers (map Some ms)) =
      map_of acc ++ (map_of (zip signers (map Some ms)))(s \<mapsto> Some m)"
    using none by (auto simp: fun_eq_iff map_add_def split: option.splits)
  moreover have "map_of (pair_from signers ms (object_put s (Some m) acc)) =
      map_of (object_put s (Some m) acc) ++ map_of (zip signers (map Some ms))"
    using 2 by (auto simp: m)
  ultimately show ?case using "2.prems"(3)
    by (auto simp: m map_of_object_put fun_eq_iff map_add_def split: option.splits)
qed simp

lemma map_of_pair_accounts:
  assumes "distinct signers" "length mnemonics = length signers" "''__proto__'' \<notin> set signers"
  shows "map_of (pair_accounts signers mnemonics) = map_of (zip signers (map Some mnemonics))"
  using map_of_pair_from [OF assms, of "[]"] by (simp add: pair_accounts_def)

lemma distinct_pair_accounts: "distinct (map fst (pair_accounts signers mnemonics))"
proof -
  have "distinct (map fst acc) \<Longrightarrow> distinct (map fst (pair_from signers mnemonics acc))" for acc
    by (induction signers mnemonics acc rule: pair_from.induct) (auto simp: distinct_object_put)
  then show ?thesis by (simp add: pair_accounts_def)
qed

lemma split_on_label:
  assumes "c \<notin> set q"
  shows "last (split_on c (p @ c # q)) = q" "butlast (split_on c (p @ c # q)) = split_on c p"
proof -
  have "split_on c (p @ c # q) = split_on c p @ [q]" for p
  proof (induction p)
    case Nil
    show ?case using split_on_single [OF assms] by simp
  next
    case (Cons x p)
    obtain y ys where "split_on c p = y # ys" using split_on_not_Nil [of c p] by (cases "split_on c p") auto
    with Cons show ?case by simp
  qed
  then show "last (split_on c (p @ c # q)) = q" "butlast (split_on c (p @ c # q)) = split_on c p" by simp_all
qed

lemma nat_to_string_no_dash: "CHR ''-'' \<notin> set (nat_to_string n)"
  by (rule nat_to_string_not) simp

lemma vault_label_inject: "vault_label k = vault_label k' \<longleftrightarrow> vk_name k = vk_name k' \<and> vk_version k = vk_version k'"
proof
  assume eq: "vault_label k = vault_label k'"
  have l: "last (split_on (CHR ''-'') (vault_label k)) = nat_to_string (vk_version k)"
    "join_with (CHR ''-'') (butlast (split_on (CHR ''-'') (vault_label k))) = vk_name k" for k
    using split_on_label [OF nat_to_string_no_dash, of "vk_name k" "vk_version k"]
    by (simp_all add: vault_label_def join_split)
  from l [of k] l [of k'] eq show "vk_name k = vk_name k' \<and> vk_version k = vk_version k'" by simp
qed (simp add: vault_label_def)

section \<open>Properties\<close>

text \<open>
  C36: Vault handles are not ambiguous, even when the name of a key contains dashes or digits: the
  handle of a key of the Vault resolves to the address of that key.
\<close>

theorem vault_handle_resolves:
  assumes "mg_getVaultKeys M = Inr keys" "k \<in> set keys"
    and "\<forall>a \<in> set keys. \<forall>b \<in> set keys. vk_name a = vk_name b \<and> vk_version a = vk_version b \<longrightarrow> a = b"
  shows "vault_getAddressByHandle M (vault_label k) = Inr (Address (vk_address k))"
proof -
  have "find (\<lambda>x. vault_label x = vault_label k) keys \<noteq> None" using assms(2) by (auto simp: find_None_iff)
  then obtain x where x: "find (\<lambda>x. vault_label x = vault_label k) keys = Some x" by auto
  then have "x \<in> set keys" "vault_label x = vault_label k" by (auto simp: find_Some_iff)
  with assms(2,3) have "x = k" by (auto simp: vault_label_inject)
  with x assms(1) show ?thesis by (simp add: vault_getAddressByHandle_def)
qed

definition demo_manager :: manager where
  "demo_manager = \<lparr>mg_addAccount = (\<lambda>m. case m of None \<Rightarrow> Inl (PlainErr ''mnemonic'') | Some s \<Rightarrow> Inr (''5'' @ s)),
     mg_getVaultKeys = Inr [\<lparr>vk_name = ''a'', vk_version = 12, vk_address = ''A''\<rparr>,
        \<lparr>vk_name = ''a-1'', vk_version = 2, vk_address = ''B''\<rparr>],
     mg_deriveAccount = (\<lambda>p. Inr ''D''), mg_ss58Format = 12, mg_signPayload = (\<lambda>p. Inr ''sig''),
     mg_isValidAddress = (\<lambda>a. False)\<rparr>"

theorem vault_handle_resolves_witness:
  "vault_getAddressByHandle demo_manager ''a-1-2'' = Inr (Address ''B'')"
proof -
  let ?k = "\<lparr>vk_name = ''a-1'', vk_version = 2, vk_address = ''B''\<rparr> :: vault_key"
  have "vault_label ?k = ''a-1-2''" by code_simp
  moreover have "vault_getAddressByHandle demo_manager (vault_label ?k) = Inr (Address (vk_address ?k))"
    by (rule vault_handle_resolves) (auto simp: demo_manager_def)
  ultimately show ?thesis by simp
qed


text \<open>
  C37: Local signers. With as many mnemonics as signers, no signer named twice or \<open>__proto__\<close>, and a signing manager that
  accepts the mnemonics, the service resolves each configured signer to the address of the mnemonic in the
  same position.
\<close>

theorem local_signers_loaded:
  assumes "distinct signers" "i < length signers" "length mnemonics = length signers"
    and "''__proto__'' \<notin> set signers"
    and "\<forall>m \<in> set mnemonics. \<exists>a. mg_addAccount M (Some m) = Inr a \<and> a \<noteq> ''''"
  shows "\<exists>book a. local_initialize M (Inr ()) (pair_accounts signers mnemonics) Map.empty = (Inr (), book)
     \<and> mg_addAccount M (Some (mnemonics ! i)) = Inr a
     \<and> getAddressByHandle LocalService M (signers ! i) book = (Inr (Address a), book)"
proof -
  let ?kvs = "pair_accounts signers mnemonics"
  define addr where "addr m = (case mg_addAccount M m of Inl e \<Rightarrow> [] | Inr a \<Rightarrow> a)" for m
  note entries = object_entries_perm [OF distinct_pair_accounts, of signers mnemonics]
  have added: "\<exists>a. mg_addAccount M m = Inr a \<and> a \<noteq> []" if "(h, m) \<in> set ?kvs" for h m
  proof -
    have "map_of (zip signers (map Some mnemonics)) h = Some m"
      using that map_of_is_SomeI [OF distinct_pair_accounts] map_of_pair_accounts [OF assms(1,3,4)] by metis
    then have "m \<in> Some ` set mnemonics" by (auto dest!: map_of_SomeD set_zip_rightD)
    with assms(5) show ?thesis by auto
  qed
  then have ok: "mg_addAccount M m = Inr (addr m)" if "(h, m) \<in> set (object_entries ?kvs)" for h m
    using that entries(3) by (force simp: addr_def)
  have "''__proto__'' \<notin> fst ` set (object_entries ?kvs)"
    unfolding entries(3) dom_map_of_conv_image_fst [symmetric] map_of_pair_accounts [OF assms(1,3,4)]
    using assms(3,4) by (simp add: dom_map_of_zip)
  from load_accounts_ok [OF entries(2) this ok, where book = Map.empty]
  have run: "local_initialize M (Inr ()) ?kvs Map.empty = (Inr (), \<lambda>h. map_option addr (map_of ?kvs h))"
    by (simp add: local_initialize_def andThen_def eff_simps entries(1))
  have at: "map_of ?kvs (signers ! i) = Some (Some (mnemonics ! i))"
    using assms(1-4) map_of_zip_nth [of signers "map Some mnemonics" i] by (simp add: map_of_pair_accounts)
  from added [OF map_of_SomeD [OF at]] obtain a where a: "mg_addAccount M (Some (mnemonics ! i)) = Inr a" "a \<noteq> []" by blast
  have "addr (Some (mnemonics ! i)) = a" by (simp add: addr_def a(1))
  with run a at show ?thesis
    by (intro exI [of _ "\<lambda>h. map_option addr (map_of ?kvs h)"] exI [of _ a])
      (simp add: local_getAddressByHandle_def js_simps)
qed

theorem local_signers_loaded_witness:
  "\<exists>book a. local_initialize demo_manager (Inr ()) (pair_accounts [''alice'', ''bob''] [''m1'', ''m2'']) Map.empty = (Inr (), book)
     \<and> mg_addAccount demo_manager (Some ([''m1'', ''m2''] ! 1)) = Inr a
     \<and> getAddressByHandle LocalService demo_manager ([''alice'', ''bob''] ! 1) book = (Inr (Address a), book)"
  by (rule local_signers_loaded) (auto simp: demo_manager_def)

text \<open>
  Adding a signer. A handle that is not in the address book and not inherited is added with the
  address of the mnemonic and is resolved to it from then on, and adding it a second time is a
  conflict that changes nothing.
\<close>

theorem add_signer_once:
  assumes "book handle = None" "handle \<notin> set object_prototype_keys"
    and "mg_addAccount M (Some mnemonic) = Inr a" "a \<noteq> []"
  shows "\<exists>book'. addSigner LocalService M handle mnemonic book = (Inr a, book')
     \<and> getAddressByHandle LocalService M handle book' = (Inr (Address a), book')
     \<and> addSigner LocalService M handle mnemonic' book' = (Inl (AppErr (appConflictError a handle)), book')"
proof -
  have "handle \<noteq> ''__proto__''" using assms(2) by (auto simp: object_prototype_keys_def)
  with assms show ?thesis
    by (intro exI [of _ "book(handle \<mapsto> a)"])
      (simp add: local_addSigner_def local_getAddressByHandle_def js_simps andThen_def setAddressByHandle_def eff_simps)
qed

theorem add_signer_once_witness:
  "\<exists>book'. addSigner LocalService demo_manager ''eve'' ''m'' Map.empty = (Inr ''5m'', book')
     \<and> getAddressByHandle LocalService demo_manager ''eve'' book' = (Inr (Address ''5m''), book')
     \<and> addSigner LocalService demo_manager ''eve'' ''n'' book' = (Inl (AppErr (appConflictError ''5m'' ''eve'')), book')"
  by (rule add_signer_once) (simp_all add: demo_manager_def object_prototype_keys_def)

end
