(* ===== verification/Offline.thy ===== *)
theory Offline
  imports Messages Signing "HOL-Library.Multiset"
begin

text \<open>
  Offline transactions: the starter puts a payload on the queue of requests, the signer
  answers with a signature, the submitter records the transaction, forwards it to the chain, publishes the
  finalization and marks the record, and the recorder keeps every message. The sources are
  \<open>offline-starter\<close>, \<open>offline-signer\<close>, \<open>offline-submitter\<close> and \<open>offline-recorder\<close>, with the in-memory
  repositories of \<open>datastore/local-store\<close>.

  The parts of \<open>submit\<close> between its awaits are separate definitions, since other work happens between
  them. The chain's answer to \<open>submitTransaction\<close> is an input; the payloads and signatures handed to the
  chain are kept in \<open>of_submitted\<close>. A listener of the local message service is not awaited by
  anyone: its failure is an unhandled rejection, kept in \<open>of_rejected\<close>.
\<close>

section \<open>Models and messages\<close>

record offline_request =
  rq_id :: string
  rq_payload :: transaction_payload

record offline_signature =
  og_id :: string
  og_signature :: string
  og_payload :: transaction_payload

record submit_result =
  sr_blockHash :: string
  sr_transactionHash :: string
  sr_transactionIndex :: nat

record finalization =
  fz_id :: string
  fz_address :: string
  fz_nonce :: js_number
  fz_result :: submit_result

datatype offline_message =
    RequestMsg offline_request | SignatureMsg offline_signature | FinalizationMsg finalization

datatype message_model = OfflineRequestModel | OfflineSignatureModel | AnyModel

record offline_receipt =
  or_id :: string
  or_deliveryId :: nat
  or_topicName :: address_name
  or_payload :: signer_payload
  or_metadata :: "(string \<times> string) list"
  or_multiSig :: "string option"

datatype offline_tx_status = Signed | Finalized

record offline_tx =
  ot_id :: string
  ot_payload :: transaction_payload
  ot_signature :: string
  ot_status :: offline_tx_status
  ot_address :: string
  ot_nonce :: js_number
  ot_blockHash :: "string option"
  ot_txIndex :: "string option"
  ot_txHash :: "string option"

text \<open>\<open>Partial<OfflineTxModel>\<close>: the properties that are present.\<close>

record offline_tx_update =
  ou_id :: "string option"
  ou_payload :: "transaction_payload option"
  ou_signature :: "string option"
  ou_status :: "offline_tx_status option"
  ou_address :: "string option"
  ou_nonce :: "js_number option"
  ou_blockHash :: "string option option"
  ou_txIndex :: "string option option"
  ou_txHash :: "string option option"

definition or_else :: "'a option \<Rightarrow> 'a \<Rightarrow> 'a" where
  "or_else v d = (case v of None \<Rightarrow> d | Some x \<Rightarrow> x)"

definition spread_offline_tx :: "offline_tx \<Rightarrow> offline_tx_update \<Rightarrow> offline_tx" where
  "spread_offline_tx m p = \<lparr>ot_id = or_else (ou_id p) (ot_id m), ot_payload = or_else (ou_payload p) (ot_payload m),
     ot_signature = or_else (ou_signature p) (ot_signature m), ot_status = or_else (ou_status p) (ot_status m),
     ot_address = or_else (ou_address p) (ot_address m), ot_nonce = or_else (ou_nonce p) (ot_nonce m),
     ot_blockHash = or_else (ou_blockHash p) (ot_blockHash m), ot_txIndex = or_else (ou_txIndex p) (ot_txIndex m),
     ot_txHash = or_else (ou_txHash p) (ot_txHash m)\<rparr>"

definition whole_model :: "offline_tx \<Rightarrow> offline_tx_update" where
  "whole_model m = \<lparr>ou_id = Some (ot_id m), ou_payload = Some (ot_payload m), ou_signature = Some (ot_signature m),
     ou_status = Some (ot_status m), ou_address = Some (ot_address m), ou_nonce = Some (ot_nonce m),
     ou_blockHash = Some (ot_blockHash m), ou_txIndex = Some (ot_txIndex m), ou_txHash = Some (ot_txHash m)\<rparr>"

record 'b offline_event =
  ev_id :: string
  ev_body :: 'b

section \<open>Repositories\<close>

record 't offline_tx_ops =
  ox_createTx :: "offline_tx \<Rightarrow> (exn, 't, offline_tx) eff"
  ox_findById :: "string \<Rightarrow> (exn, 't, offline_tx option) eff"
  ox_updateTx :: "string \<Rightarrow> offline_tx_update \<Rightarrow> (exn, 't, offline_tx) eff"

record 'e offline_event_ops =
  oe_recordEvent :: "offline_message \<Rightarrow> (exn, 'e, offline_message offline_event) eff"

text \<open>The in-memory repositories: a plain object and a counter that starts at one.\<close>

record 'v keyed_store =
  ks_objects :: "string \<rightharpoonup> 'v"
  ks_id :: nat

definition keyed_start :: "'v keyed_store" where
  "keyed_start = \<lparr>ks_objects = Map.empty, ks_id = 1\<rparr>"

definition local_nextId :: "(exn, 'v keyed_store, string) eff" where
  "local_nextId = (\<lambda>s. (Inr (nat_to_string (ks_id s)), s\<lparr>ks_id := Suc (ks_id s)\<rparr>))"

definition local_createTx :: "offline_tx \<Rightarrow> (exn, offline_tx keyed_store, offline_tx) eff" where
  "local_createTx transaction =
     andThen local_nextId (\<lambda>i.
       let model = transaction\<lparr>ot_id := i\<rparr>
       in andThen (modifies (\<lambda>s. s\<lparr>ks_objects := (ks_objects s)(i \<mapsto> model)\<rparr>)) (\<lambda>_. ret model))"

definition local_offline_findById :: "string \<Rightarrow> (exn, offline_tx keyed_store, offline_tx option) eff" where
  "local_offline_findById i = (\<lambda>s. case js_get (ks_objects s) i of
      Own m \<Rightarrow> (Inr (Some m), s) | Absent \<Rightarrow> (Inr None, s) | Inherited k \<Rightarrow> (Inl (IllTyped k), s))"

definition local_updateTx :: "string \<Rightarrow> offline_tx_update \<Rightarrow> (exn, offline_tx keyed_store, offline_tx) eff" where
  "local_updateTx i params = (\<lambda>s. case js_get (ks_objects s) i of
      Absent \<Rightarrow> (Inl (AppErr (appNotFoundError i ''offlineTxModel'')), s)
    | Inherited k \<Rightarrow> (Inl (IllTyped k), s)
    | Own m \<Rightarrow> (let newModel = spread_offline_tx m params
               in (Inr newModel, s\<lparr>ks_objects := (ks_objects s)(i \<mapsto> newModel)\<rparr>)))"

definition local_offline_txs :: "offline_tx keyed_store offline_tx_ops" where
  "local_offline_txs = \<lparr>ox_createTx = local_createTx, ox_findById = local_offline_findById, ox_updateTx = local_updateTx\<rparr>"

definition local_recordEvent :: "'b \<Rightarrow> (exn, 'b offline_event keyed_store, 'b offline_event) eff" where
  "local_recordEvent body =
     andThen local_nextId (\<lambda>i.
       let model = \<lparr>ev_id = i, ev_body = body\<rparr>
       in andThen (modifies (\<lambda>s. s\<lparr>ks_objects := (ks_objects s)(i \<mapsto> model)\<rparr>)) (\<lambda>_. ret model))"

definition local_offline_events :: "offline_message offline_event keyed_store offline_event_ops" where
  "local_offline_events = \<lparr>oe_recordEvent = local_recordEvent\<rparr>"

section \<open>The services\<close>

datatype offline_listener = AutoSign | SubmitSignature | RecordEvent

text \<open>What \<open>submit\<close> waits for: the chain's answer, then its turn to update the record.\<close>

datatype waiting =
    AwaitChain offline_signature js_number offline_tx
  | AwaitUpdate offline_tx

record ('t, 'e) offline_state =
  of_messages :: "(offline_listener, message_model, offline_message) local_messages"
  of_txs :: 't
  of_events :: 'e
  of_submitted :: "(transaction_payload \<times> string) list"
  of_waiting :: "waiting list"
  of_rejected :: "(offline_listener \<times> transaction_payload) list"

record ('t, 'e) offline_deps =
  od_validate :: "message_model \<Rightarrow> offline_message \<Rightarrow> string option"
  od_txs :: "'t offline_tx_ops"
  od_events :: "'e offline_event_ops"
  od_manager :: manager

definition sendMessage ::
    "('t, 'e) offline_deps \<Rightarrow> address_name \<Rightarrow> offline_message \<Rightarrow> (exn, ('t, 'e) offline_state, message_receipt) eff" where
  "sendMessage D publishOn m =
     zoom of_messages (\<lambda>x s. s\<lparr>of_messages := x\<rparr>) (local_sendMessage (od_validate D) publishOn m)"

text \<open>The listeners the services register when they are constructed, in the order of the modules.\<close>

definition offline_start :: "'t \<Rightarrow> 'e \<Rightarrow> ('t, 'e) offline_state" where
  "offline_start t e = \<lparr>of_messages = snd (andThen (local_registerListener RequestsQueue AutoSign OfflineRequestModel)
        (\<lambda>_. andThen (local_registerListener SignaturesQueue SubmitSignature OfflineSignatureModel)
        (\<lambda>_. local_registerListener EventsLogQueue RecordEvent AnyModel)) local_messages_start),
     of_txs = t, of_events = e, of_submitted = [], of_waiting = [], of_rejected = []\<rparr>"

definition beginTransaction ::
    "('t, 'e) offline_deps \<Rightarrow> string \<Rightarrow> ('res procedure) \<Rightarrow> (string \<times> string) list \<Rightarrow>
     (exn, ('t, 'e) offline_state, offline_receipt) eff" where
  "beginTransaction D internalTxId transaction metadata =
     andThen (lift_result (pr_toSignablePayload transaction (object_put ''internalTxId'' internalTxId metadata))) (\<lambda>payload.
     andThen (sendMessage D RequestsAddress (RequestMsg \<lparr>rq_id = internalTxId, rq_payload = payload\<rparr>)) (\<lambda>receipt.
     ret \<lparr>or_id = internalTxId, or_deliveryId = mr_id receipt, or_topicName = RequestsAddress,
          or_payload = tp_payload payload, or_metadata = tp_metadata payload, or_multiSig = tp_multiSig payload\<rparr>))"

definition autoSign :: "('t, 'e) offline_deps \<Rightarrow> offline_request \<Rightarrow> (exn, ('t, 'e) offline_state, unit) eff" where
  "autoSign D body =
     andThen (lift_result (signing_signPayload (od_manager D) (tp_payload (rq_payload body)))) (\<lambda>signature.
     andThen (sendMessage D SignaturesAddress
        (SignatureMsg \<lparr>og_id = rq_id body, og_signature = signature, og_payload = rq_payload body\<rparr>)) (\<lambda>_.
     ret ()))"

text \<open>\<open>submit\<close> up to the call of \<open>submitTransaction\<close>.\<close>

definition submit_begin :: "('t, 'e) offline_deps \<Rightarrow> offline_signature \<Rightarrow> (exn, ('t, 'e) offline_state, unit) eff" where
  "submit_begin D body =
     (let payload = og_payload body; address = sp_address (tp_payload payload);
          nonce = parseInt16 (sp_nonce (tp_payload payload))
      in andThen (zoom of_txs (\<lambda>x s. s\<lparr>of_txs := x\<rparr>) (ox_createTx (od_txs D)
             \<lparr>ot_id = og_id body, ot_payload = payload, ot_signature = og_signature body, ot_status = Signed,
              ot_address = address, ot_nonce = nonce, ot_blockHash = None, ot_txIndex = None, ot_txHash = None\<rparr>))
         (\<lambda>transaction. modifies (\<lambda>s. s\<lparr>of_submitted := of_submitted s @ [(ot_payload transaction, og_signature body)],
             of_waiting := of_waiting s @ [AwaitChain body nonce transaction]\<rparr>)))"

text \<open>\<open>submit\<close> from the chain's answer to the publication of the finalization.\<close>

definition submit_finalized ::
    "('t, 'e) offline_deps \<Rightarrow> offline_signature \<Rightarrow> js_number \<Rightarrow> offline_tx \<Rightarrow> submit_result result \<Rightarrow>
     (exn, ('t, 'e) offline_state, unit) eff" where
  "submit_finalized D body nonce transaction answer =
     andThen (lift_result answer) (\<lambda>r.
     andThen (sendMessage D FinalizationsAddress (FinalizationMsg
        \<lparr>fz_id = og_id body, fz_address = sp_address (tp_payload (og_payload body)), fz_nonce = nonce, fz_result = r\<rparr>)) (\<lambda>_.
     modifies (\<lambda>s. s\<lparr>of_waiting := of_waiting s @ [AwaitUpdate (transaction\<lparr>ot_blockHash := Some (sr_blockHash r),
        ot_txIndex := Some (nat_to_string (sr_transactionIndex r)), ot_txHash := Some (sr_transactionHash r),
        ot_status := Finalized\<rparr>)]\<rparr>)))"

text \<open>\<open>updateTransaction\<close> does not await the repository: a failure there is an unhandled rejection too.\<close>

definition updateTransaction :: "('t, 'e) offline_deps \<Rightarrow> offline_tx \<Rightarrow> (exn, ('t, 'e) offline_state, unit) eff" where
  "updateTransaction D tx =
     andThen (zoom of_txs (\<lambda>x s. s\<lparr>of_txs := x\<rparr>) (ox_updateTx (od_txs D) (ot_id tx) (whole_model tx))) (\<lambda>_. ret ())"

definition recordEvent :: "('t, 'e) offline_deps \<Rightarrow> offline_message \<Rightarrow> (exn, ('t, 'e) offline_state, unit) eff" where
  "recordEvent D m =
     andThen (zoom of_events (\<lambda>x s. s\<lparr>of_events := x\<rparr>) (oe_recordEvent (od_events D) m)) (\<lambda>_. ret ())"

fun listener_body ::
    "('t, 'e) offline_deps \<Rightarrow> offline_listener \<Rightarrow> offline_message \<Rightarrow> (exn, ('t, 'e) offline_state, unit) eff" where
  "listener_body D AutoSign (RequestMsg r) = autoSign D r"
| "listener_body D SubmitSignature (SignatureMsg g) = submit_begin D g"
| "listener_body D RecordEvent m = recordEvent D m"
| "listener_body D _ _ = throw js_type_error"

section \<open>The process\<close>

fun message_payload :: "offline_message \<Rightarrow> transaction_payload list" where
  "message_payload (RequestMsg r) = [rq_payload r]"
| "message_payload (SignatureMsg g) = [og_payload g]"
| "message_payload (FinalizationMsg f) = []"

fun waiting_payload :: "waiting \<Rightarrow> transaction_payload" where
  "waiting_payload (AwaitChain g n t) = ot_payload t"
| "waiting_payload (AwaitUpdate t) = ot_payload t"

text \<open>
  The inputs: a request to begin a transaction, the turn of a called listener, the chain's answer to a
  submission, and the turn of an update. A number picks one of the things that are pending.
\<close>

datatype 'res offline_input =
    Begin string "'res procedure" "(string \<times> string) list"
  | RunListener nat
  | ChainAnswer nat "submit_result result"
  | RunUpdate nat

definition drop_nth :: "nat \<Rightarrow> 'a list \<Rightarrow> 'a list" where
  "drop_nth n xs = take n xs @ drop (Suc n) xs"

definition unhandled ::
    "offline_listener \<Rightarrow> transaction_payload list \<Rightarrow> (exn, ('t, 'e) offline_state, unit) eff \<Rightarrow>
     ('t, 'e) offline_state \<Rightarrow> ('t, 'e) offline_state" where
  "unhandled l ps m s = (case m s of
      (Inr _, s') \<Rightarrow> s'
    | (Inl e, s') \<Rightarrow> s'\<lparr>of_rejected := of_rejected s' @ map (\<lambda>p. (l, p)) ps\<rparr>)"

fun offline_step :: "('t, 'e) offline_deps \<Rightarrow> 'res offline_input \<Rightarrow> ('t, 'e) offline_state \<Rightarrow> ('t, 'e) offline_state" where
  "offline_step D (Begin i P md) s = snd (beginTransaction D i P md s)"
| "offline_step D (RunListener n) s =
     (if n < length (lm_calls (of_messages s))
      then case lm_calls (of_messages s) ! n of (l, m) \<Rightarrow>
             unhandled l (if l = RecordEvent then [] else message_payload m) (listener_body D l m)
               (s\<lparr>of_messages := (of_messages s)\<lparr>lm_calls := drop_nth n (lm_calls (of_messages s))\<rparr>\<rparr>)
      else s)"
| "offline_step D (ChainAnswer n answer) s =
     (if n < length (of_waiting s)
      then case of_waiting s ! n of
             AwaitChain g nonce t \<Rightarrow>
               unhandled SubmitSignature [ot_payload t] (submit_finalized D g nonce t answer)
                 (s\<lparr>of_waiting := drop_nth n (of_waiting s)\<rparr>)
           | AwaitUpdate t \<Rightarrow> s
      else s)"
| "offline_step D (RunUpdate n) s =
     (if n < length (of_waiting s)
      then case of_waiting s ! n of
             AwaitUpdate t \<Rightarrow>
               unhandled SubmitSignature [ot_payload t] (updateTransaction D t) (s\<lparr>of_waiting := drop_nth n (of_waiting s)\<rparr>)
           | AwaitChain g nonce t \<Rightarrow> s
      else s)"

definition offline_run ::
    "('t, 'e) offline_deps \<Rightarrow> 'res offline_input list \<Rightarrow> 't \<Rightarrow> 'e \<Rightarrow> ('t, 'e) offline_state" where
  "offline_run D inputs t e = fold (offline_step D) inputs (offline_start t e)"

section \<open>Interfaces of the repositories\<close>

definition finalized :: "(string \<rightharpoonup> offline_tx) \<Rightarrow> transaction_payload multiset" where
  "finalized g = image_mset (\<lambda>i. ot_payload (the (g i))) (mset_set {i. \<exists>m. g i = Some m \<and> ot_status m = Finalized})"

text \<open>
  What a repository of offline transactions promises: a created record is stored under an identifier that was
  free, an update replaces the record it names, and a stored record is found.
\<close>

locale offline_tx_repo =
  fixes T :: "'t offline_tx_ops" and inv :: "'t \<Rightarrow> bool" and get :: "'t \<Rightarrow> string \<rightharpoonup> offline_tx"
  assumes finite_records: "inv t \<Longrightarrow> finite (dom (get t))"
    and createTx: "inv t \<Longrightarrow> \<exists>i t'. ox_createTx T p t = (Inr (p\<lparr>ot_id := i\<rparr>), t') \<and> inv t' \<and> get t i = None
          \<and> get t' = (get t)(i \<mapsto> p\<lparr>ot_id := i\<rparr>)"
    and updateTx: "inv t \<Longrightarrow> get t i = Some m \<Longrightarrow> \<exists>t'. ox_updateTx T i q t = (Inr (spread_offline_tx m q), t') \<and> inv t'
          \<and> get t' = (get t)(i \<mapsto> spread_offline_tx m q)"
    and findById: "inv t \<Longrightarrow> get t i = Some m \<Longrightarrow> ox_findById T i t = (Inr (Some m), t)"

text \<open>A repository of events keeps every body it is given.\<close>

locale offline_event_repo =
  fixes E :: "'e offline_event_ops" and einv :: "'e \<Rightarrow> bool" and bodies :: "'e \<Rightarrow> offline_message multiset"
  assumes recordEvent: "einv e \<Longrightarrow> \<exists>v e'. oe_recordEvent E m e = (Inr v, e') \<and> ev_body v = m \<and> einv e'
          \<and> bodies e' = add_mset m (bodies e)"

definition keyed_ok :: "'v keyed_store \<Rightarrow> bool" where
  "keyed_ok s \<longleftrightarrow> finite (dom (ks_objects s)) \<and> (\<forall>i \<in> dom (ks_objects s). \<exists>n < ks_id s. i = nat_to_string n)"

definition event_bodies :: "'b offline_event keyed_store \<Rightarrow> 'b multiset" where
  "event_bodies s = image_mset (\<lambda>i. ev_body (the (ks_objects s i))) (mset_set (dom (ks_objects s)))"

lemma keyed_fresh: "keyed_ok s \<Longrightarrow> ks_objects s (nat_to_string (ks_id s)) = None"
  by (rule ccontr) (auto simp: keyed_ok_def dest!: bspec)

lemma keyed_ok_put:
  "keyed_ok s \<Longrightarrow> keyed_ok (s\<lparr>ks_id := Suc (ks_id s), ks_objects := (ks_objects s)(nat_to_string (ks_id s) \<mapsto> v)\<rparr>)"
  by (auto simp: keyed_ok_def intro: less_SucI)

lemma keyed_ok_replace: "keyed_ok s \<Longrightarrow> i \<in> dom (ks_objects s) \<Longrightarrow> keyed_ok (s\<lparr>ks_objects := (ks_objects s)(i \<mapsto> v)\<rparr>)"
  by (auto simp: keyed_ok_def)

lemma image_mset_upd_other: "i \<notin># A \<Longrightarrow> image_mset (\<lambda>j. f (the ((g(i \<mapsto> v)) j))) A = image_mset (\<lambda>j. f (the (g j))) A"
  by (rule image_mset_cong) auto

lemma event_bodies_put:
  assumes "keyed_ok s"
  shows "event_bodies (s\<lparr>ks_id := k, ks_objects := (ks_objects s)(nat_to_string (ks_id s) \<mapsto> v)\<rparr>) = add_mset (ev_body v) (event_bodies s)"
proof -
  let ?i = "nat_to_string (ks_id s)"
  have "?i \<notin> dom (ks_objects s)" "finite (dom (ks_objects s))" using keyed_fresh [OF assms] assms by (auto simp: keyed_ok_def)
  then show ?thesis by (simp add: event_bodies_def image_mset_upd_other del: fun_upd_apply) simp
qed

interpretation local_txs: offline_tx_repo local_offline_txs keyed_ok ks_objects
proof
  fix t :: "offline_tx keyed_store" and p i m q
  assume ok: "keyed_ok t"
  then show "finite (dom (ks_objects t))" by (simp add: keyed_ok_def)
  show "\<exists>i t'. ox_createTx local_offline_txs p t = (Inr (p\<lparr>ot_id := i\<rparr>), t') \<and> keyed_ok t' \<and> ks_objects t i = None
          \<and> ks_objects t' = (ks_objects t)(i \<mapsto> p\<lparr>ot_id := i\<rparr>)"
    using keyed_ok_put [OF ok] keyed_fresh [OF ok]
    by (intro exI [of _ "nat_to_string (ks_id t)"]) (simp add: local_offline_txs_def local_createTx_def local_nextId_def andThen_def eff_simps Let_def)
  assume m: "ks_objects t i = Some m"
  then show "\<exists>t'. ox_updateTx local_offline_txs i q t = (Inr (spread_offline_tx m q), t') \<and> keyed_ok t'
          \<and> ks_objects t' = (ks_objects t)(i \<mapsto> spread_offline_tx m q)"
    using keyed_ok_replace [OF ok, of i] by (auto simp: local_offline_txs_def local_updateTx_def js_simps Let_def)
  show "ox_findById local_offline_txs i t = (Inr (Some m), t)"
    using m by (simp add: local_offline_txs_def local_offline_findById_def js_simps)
qed

interpretation local_events: offline_event_repo local_offline_events keyed_ok event_bodies
proof
  fix e :: "offline_message offline_event keyed_store" and m
  assume ok: "keyed_ok e"
  show "\<exists>v e'. oe_recordEvent local_offline_events m e = (Inr v, e') \<and> ev_body v = m \<and> keyed_ok e'
          \<and> event_bodies e' = add_mset m (event_bodies e)"
    using keyed_ok_put [OF ok] event_bodies_put [OF ok]
    by (simp add: local_offline_events_def local_recordEvent_def local_nextId_def andThen_def eff_simps Let_def)
qed

lemma keyed_ok_start [simp]: "keyed_ok keyed_start"
  by (simp add: keyed_ok_def keyed_start_def)

section \<open>Publishing\<close>

text \<open>
  The validation package accepts a model whose decorated properties have the right type, which all
  messages the services publish have.
\<close>

fun model_fits :: "message_model \<Rightarrow> offline_message \<Rightarrow> bool" where
  "model_fits OfflineRequestModel m = (\<exists>r. m = RequestMsg r)"
| "model_fits OfflineSignatureModel m = (\<exists>g. m = SignatureMsg g)"
| "model_fits AnyModel m = True"

definition models_valid :: "('t, 'e) offline_deps \<Rightarrow> bool" where
  "models_valid D \<longleftrightarrow> (\<forall>c m. model_fits c m \<longrightarrow> od_validate D c m = None)"

fun offline_listeners :: "queue_name \<Rightarrow> (offline_listener, message_model) handler list" where
  "offline_listeners RequestsQueue = [\<lparr>h_listenOn = RequestsQueue, h_listener = AutoSign, h_model = OfflineRequestModel\<rparr>]"
| "offline_listeners SignaturesQueue = [\<lparr>h_listenOn = SignaturesQueue, h_listener = SubmitSignature, h_model = OfflineSignatureModel\<rparr>]"
| "offline_listeners EventsLogQueue = [\<lparr>h_listenOn = EventsLogQueue, h_listener = RecordEvent, h_model = AnyModel\<rparr>]"
| "offline_listeners FinalizationsQueue = []"

fun called :: "offline_message \<Rightarrow> (offline_listener \<times> offline_message) list" where
  "called (RequestMsg r) = [(AutoSign, RequestMsg r), (RecordEvent, RequestMsg r)]"
| "called (SignatureMsg g) = [(SubmitSignature, SignatureMsg g), (RecordEvent, SignatureMsg g)]"
| "called (FinalizationMsg f) = [(RecordEvent, FinalizationMsg f)]"

fun address_of :: "offline_message \<Rightarrow> address_name" where
  "address_of (RequestMsg r) = RequestsAddress"
| "address_of (SignatureMsg g) = SignaturesAddress"
| "address_of (FinalizationMsg f) = FinalizationsAddress"

definition sent :: "offline_message \<Rightarrow> ('t, 'e) offline_state \<Rightarrow> ('t, 'e) offline_state" where
  "sent m s = s\<lparr>of_messages := (of_messages s)\<lparr>lm_calls := lm_calls (of_messages s) @ called m, lm_id := Suc (lm_id (of_messages s))\<rparr>\<rparr>"

lemma offline_start_sel [simp]:
  "lm_listeners (of_messages (offline_start t e)) = offline_listeners" "lm_id (of_messages (offline_start t e)) = 1"
  "lm_calls (of_messages (offline_start t e)) = []"
  "of_txs (offline_start t e) = t" "of_events (offline_start t e) = e" "of_submitted (offline_start t e) = []"
  "of_waiting (offline_start t e) = []" "of_rejected (offline_start t e) = []"
proof -
  show "lm_listeners (of_messages (offline_start t e)) = offline_listeners"
  proof
    fix q
    show "lm_listeners (of_messages (offline_start t e)) q = offline_listeners q"
      by (cases q) (simp_all add: offline_start_def local_registerListener_def local_messages_start_def andThen_def eff_simps)
  qed
qed (simp_all add: offline_start_def local_registerListener_def local_messages_start_def andThen_def eff_simps)

lemma sendMessage_sent:
  assumes "models_valid D" "lm_listeners (of_messages s) = offline_listeners" "a = address_of m"
  shows "sendMessage D a m s = (Inr \<lparr>mr_id = lm_id (of_messages s), mr_topic = a\<rparr>, sent m s)"
proof -
  have "od_validate D (h_model h) m = None" if "h \<in> set (handlers_for (of_messages s) a)" for h
    using that assms by (cases m) (auto simp: handlers_for_def models_valid_def)
  then have "local_sendMessage (od_validate D) a m (of_messages s) = (Inr \<lparr>mr_id = lm_id (of_messages s), mr_topic = a\<rparr>,
      (of_messages s)\<lparr>lm_calls := lm_calls (of_messages s) @ map (\<lambda>h. (h_listener h, m)) (handlers_for (of_messages s) a),
         lm_id := Suc (lm_id (of_messages s))\<rparr>)"
    by (rule local_send_valid)
  then show ?thesis
    using assms by (cases m) (simp_all add: sendMessage_def zoom_def handlers_for_def sent_def)
qed

end
