(* ===== verification/Submit.thy ===== *)
theory Submit
  imports Transactions Offline
begin

text \<open>
  Submitting a transaction: the options of a request (\<open>common/dto/transaction-options.dto.ts\<close>,
  \<open>extractTxOptions\<close> of \<open>common/utils/functions.ts\<close>), \<open>TransactionsService.submit\<close> and \<open>getSigningAccount\<close>,
  \<open>prepareProcedure\<close> and \<open>processTransaction\<close> of \<open>transactions/transactions.util.ts\<close>, the response a
  controller makes (\<open>handleServiceResult\<close>) and its status code.

  A method of the SDK is a parameter: what preparing it answers. The calls made on the SDK are kept in
  \<open>gw_calls\<close>, in order. The SDK changes a transaction object while it runs: \<open>seen\<close> is the object at the moment
  the response to a submission with a callback is assembled.
\<close>

section \<open>Options\<close>

datatype process_mode = SubmitMode | SubmitWithCallback | OfflineMode | DryRun | AMQP

record mortality =
  mo_lifetime :: "big_number option"
  mo_immortal :: bool

record transaction_options =
  op_signer :: string
  op_processMode :: process_mode
  op_mortality :: "mortality option"
  op_nonce :: "big_number option"
  op_webhookUrl :: "string option"
  op_metadata :: "(string \<times> string) list option"

text \<open>The fields of a request that concern the transaction; the others are \<open>args\<close>.\<close>

record 'args transaction_base =
  tb_options :: "transaction_options option"
  tb_signer :: "string option"
  tb_webhookUrl :: "string option"
  tb_dryRun :: "bool option"
  tb_args :: 'args

definition present :: "string option \<Rightarrow> bool" where
  "present v \<longleftrightarrow> v \<noteq> None \<and> v \<noteq> Some ''''"

text \<open>\<open>[].some(...)\<close> is false whatever the deprecated fields hold.\<close>

definition deprecatedParams :: "'args transaction_base \<Rightarrow> bool" where
  "deprecatedParams params \<longleftrightarrow> list_ex (\<lambda>param. present param) []"

definition extractTxOptions :: "'args transaction_base \<Rightarrow> (transaction_options \<times> 'args) result" where
  "extractTxOptions params =
     (if deprecatedParams params \<and> tb_options params \<noteq> None
      then Inl (AppErr (appValidationError (quoted ''signer'' @ '', '' @ quoted ''webhookUrl'' @ '', '' @ quoted ''dryRun''
             @ '' are deprecated and should be nested in '' @ quoted ''options''
             @ ''. These fields are mutually exclusive with '' @ quoted ''options'')))
      else case tb_options params of
          Some options \<Rightarrow> Inr (options, tb_args params)
        | None \<Rightarrow>
            if \<not> present (tb_signer params)
            then Inl (AppErr (appValidationError (quoted ''signer'' @ '' must be present in transaction requests'')))
            else let processMode = (if tb_dryRun params = Some True then DryRun
                                    else if present (tb_webhookUrl params) then SubmitWithCallback else SubmitMode)
                 in Inr (\<lparr>op_signer = the (tb_signer params), op_processMode = processMode, op_mortality = None,
                          op_nonce = None, op_webhookUrl = tb_webhookUrl params, op_metadata = None\<rparr>, tb_args params))"

section \<open>Preparing and running a transaction\<close>

record procedure_opts =
  po_signingAccount :: account_ref
  po_mortality :: "mortality option"
  po_nonce :: "big_number option"

text \<open>\<open>m_noArgs\<close>: the method has no parameter for arguments (\<open>method.length === 0\<close>).\<close>

record ('args, 'res) sdk_method =
  m_noArgs :: bool
  m_call :: "'args option \<Rightarrow> procedure_opts \<Rightarrow> 'res procedure result"

datatype proposal = FakeProposal string | Proposal string

record tx_model =
  tm_blockHash :: "string option"
  tm_transactionHash :: "string option"
  tm_blockNumber :: "nat option"
  tm_tags :: tx_kind

record details =
  dt_status :: transaction_status
  dt_fees :: fees
  dt_supportsSubsidy :: bool
  dt_balance :: big_number
  dt_type :: string
  dt_address :: string

text \<open>What \<open>submit\<close> gives: \<open>None\<close> as a direct result is the empty object of a dry run.\<close>

datatype 'res submit_response =
    PayloadResult details transaction_payload
  | DirectResult "'res option" "tx_model list" details
  | ProposalResult proposal "tx_model list" details
  | NotificationResult notification_payload
  | OfflineResult offline_receipt

record ('s, 'n, 'r, 't, 'e) gateway =
  gw_book :: address_book
  gw_world :: "('s, 'n, 'r) world"
  gw_offline :: "('t, 'e) offline_state"
  gw_calls :: "sdk_call list"

definition sdk :: "sdk_call \<Rightarrow> 'a result \<Rightarrow> (exn, ('s, 'n, 'r, 't, 'e) gateway, 'a) eff" where
  "sdk c r = (\<lambda>s. (r, s\<lparr>gw_calls := gw_calls s @ [c]\<rparr>))"

definition rethrowing :: "(exn, 's, 'a) eff \<Rightarrow> (exn, 's, 'a) eff" where
  "rethrowing m = tryCatch m (\<lambda>e. throw (thrown e))"

definition prepareProcedure ::
    "('args, 'res) sdk_method \<Rightarrow> 'args \<Rightarrow> procedure_opts \<Rightarrow> (exn, ('s, 'n, 'r, 't, 'e) gateway, 'res procedure) eff" where
  "prepareProcedure mth args opts = rethrowing
     (if m_noArgs mth then sdk PrepareCall (m_call mth None opts)
      else sdk PrepareCall (m_call mth (Some args) opts))"

definition assembleTransactionResponse :: "sdk_transaction \<Rightarrow> tx_model result" where
  "assembleTransactionResponse transaction = (case tx_kind_of transaction of
      None \<Rightarrow> Inl (AppErr (appInternalError
        ''Unsupported transaction details received. Please report this issue to the Polymesh team''))
    | Some tagDetails \<Rightarrow> Inr \<lparr>tm_blockHash = tx_blockHash transaction, tm_transactionHash = tx_txHash transaction,
        tm_blockNumber = tx_blockNumber transaction, tm_tags = tagDetails\<rparr>)"

definition transaction_details :: "'res procedure \<Rightarrow> total_fees \<Rightarrow> details" where
  "transaction_details procedure totalFees =
     \<lparr>dt_status = tx_status (pr_tx procedure), dt_fees = tf_fees totalFees,
      dt_supportsSubsidy = pr_supportsSubsidy procedure, dt_balance = tf_balance totalFees,
      dt_type = tf_type totalFees, dt_address = tf_address totalFees\<rparr>"

text \<open>What \<open>processTransaction\<close> does with the prepared transaction, by mode.\<close>

definition processPrepared ::
    "'res procedure \<Rightarrow> details \<Rightarrow> transaction_options \<Rightarrow> (exn, ('s, 'n, 'r, 't, 'e) gateway, 'res submit_response) eff" where
  "processPrepared procedure details transactionOptions =
     (if op_processMode transactionOptions = DryRun
      then (case tx_multiSig (pr_tx procedure) of
              Some multiSigAddress \<Rightarrow> ret (ProposalResult (FakeProposal multiSigAddress) [] details)
            | None \<Rightarrow> ret (DirectResult None [] details))
      else if op_processMode transactionOptions = OfflineMode
      then andThen (sdk ToSignablePayloadCall (pr_toSignablePayload procedure
               (case op_metadata transactionOptions of None \<Rightarrow> [] | Some md \<Rightarrow> md)))
             (\<lambda>transactionPayload. ret (PayloadResult details transactionPayload))
      else (case tx_multiSig (pr_tx procedure) of
              Some _ \<Rightarrow> andThen (sdk RunAsProposalCall (pr_runAsProposal procedure)) (\<lambda>(p, tx').
                andThen (lift_result (assembleTransactionResponse tx')) (\<lambda>m.
                ret (ProposalResult (Proposal p) [m] details)))
            | None \<Rightarrow> andThen (sdk RunCall (pr_run procedure)) (\<lambda>(r, tx').
                andThen (lift_result (assembleTransactionResponse tx')) (\<lambda>m.
                ret (DirectResult (Some r) [m] details)))))"

definition processTransaction ::
    "('args, 'res) sdk_method \<Rightarrow> 'args \<Rightarrow> procedure_opts \<Rightarrow> transaction_options \<Rightarrow>
     (exn, ('s, 'n, 'r, 't, 'e) gateway, 'res submit_response) eff" where
  "processTransaction mth args opts transactionOptions = rethrowing
     (andThen (prepareProcedure mth args opts) (\<lambda>procedure.
      andThen (sdk TotalFeesCall (pr_totalFees procedure)) (\<lambda>totalFees.
      processPrepared procedure (transaction_details procedure totalFees) transactionOptions)))"

section \<open>Submitting\<close>

abbreviation in_world :: "(exn, ('s, 'n, 'r) world, 'a) eff \<Rightarrow> (exn, ('s, 'n, 'r, 't, 'e) gateway, 'a) eff" where
  "in_world m \<equiv> zoom gw_world (\<lambda>x s. s\<lparr>gw_world := x\<rparr>) m"

abbreviation in_offline :: "(exn, ('t, 'e) offline_state, 'a) eff \<Rightarrow> (exn, ('s, 'n, 'r, 't, 'e) gateway, 'a) eff" where
  "in_offline m \<equiv> zoom gw_offline (\<lambda>x s. s\<lparr>gw_offline := x\<rparr>) m"

definition getSigningAccount ::
    "signing_service \<Rightarrow> manager \<Rightarrow> string \<Rightarrow> (exn, ('s, 'n, 'r, 't, 'e) gateway, account_ref) eff" where
  "getSigningAccount S M signer =
     (if isAddress M signer then ret (Address signer)
      else zoom gw_book (\<lambda>x s. s\<lparr>gw_book := x\<rparr>) (getAddressByHandle S M signer))"

text \<open>The run of a transaction with a callback: once the subscription exists; a failing run is only logged.\<close>

definition runWithCallback :: "'res procedure \<Rightarrow> (exn, ('s, 'n, 'r, 't, 'e) gateway, string option) eff" where
  "runWithCallback procedure = (case tx_multiSig (pr_tx procedure) of
      Some _ \<Rightarrow> tryCatch (andThen (sdk RunAsProposalCall (pr_runAsProposal procedure)) (\<lambda>r. ret (Some (fst r)))) (\<lambda>_. ret None)
    | None \<Rightarrow> tryCatch (andThen (sdk RunCall (pr_run procedure)) (\<lambda>_. ret None)) (\<lambda>_. ret None))"

text \<open>The call of \<open>submitAndSubscribe\<close> in \<open>submit\<close>.\<close>

definition submitWithCallback ::
    "('s, 'n, 'r) deps \<Rightarrow> 'res procedure \<Rightarrow> string \<Rightarrow> string \<Rightarrow> sdk_transaction \<Rightarrow>
     (exn, ('s, 'n, 'r, 't, 'e) gateway, notification_payload) eff" where
  "submitWithCallback D procedure webhookUrl secret seen =
     submitAndSubscribe_in (\<lambda>m. in_world m) D (pr_tx procedure) webhookUrl secret seen (runWithCallback procedure)"

record ('s, 'n, 'r, 't, 'e) gateway_deps =
  gd_webhooks :: "('s, 'n, 'r) deps"
  gd_offline :: "('t, 'e) offline_deps"
  gd_signing :: signing_service
  gd_secret :: string

text \<open>
  The promises of the branches are returned without being awaited, so only the preparation is inside
  the \<open>try\<close>. A missing \<open>webhookUrl\<close> is excluded by the validation of the options.
\<close>

definition submit ::
    "('s, 'n, 'r, 't, 'e) gateway_deps \<Rightarrow> ('args, 'res) sdk_method \<Rightarrow> 'args \<Rightarrow> transaction_options \<Rightarrow> string \<Rightarrow>
     sdk_transaction \<Rightarrow> (exn, ('s, 'n, 'r, 't, 'e) gateway, 'res submit_response) eff" where
  "submit G mth args transactionOptions uuid seen =
     andThen (getSigningAccount (gd_signing G) (od_manager (gd_offline G)) (op_signer transactionOptions)) (\<lambda>signingAccount.
     let sdkOptions = \<lparr>po_signingAccount = signingAccount, po_mortality = op_mortality transactionOptions,
            po_nonce = op_nonce transactionOptions\<rparr>
     in andThen (rethrowing (prepareProcedure mth args sdkOptions)) (\<lambda>transaction.
        if op_processMode transactionOptions = SubmitWithCallback
        then (case op_webhookUrl transactionOptions of
                None \<Rightarrow> throw (IllTyped ''webhookUrl'')
              | Some webhookUrl \<Rightarrow>
                  andThen (submitWithCallback (gd_webhooks G) transaction webhookUrl (gd_secret G) seen)
                    (\<lambda>n. ret (NotificationResult n)))
        else if op_processMode transactionOptions = AMQP
        then andThen (sdk ToSignablePayloadCall (Inr ())) (\<lambda>_.
             andThen (in_offline (beginTransaction (gd_offline G) uuid transaction
                (case op_metadata transactionOptions of None \<Rightarrow> [] | Some md \<Rightarrow> md)))
               (\<lambda>r. ret (OfflineResult r)))
        else processTransaction mth args sdkOptions transactionOptions))"

section \<open>Responses\<close>

datatype 'model transaction_response =
    TransactionPayloadResultModel transaction_payload details
  | TransactionQueueModel "tx_model list" details "proposal option"
  | ResolvedModel 'model
  | OfflineReceiptModel offline_receipt
  | NotificationPayloadModel notification_payload

text \<open>\<open>resolver\<close> is the controller's own resolver; without one the basic model is made.\<close>

fun handleServiceResult ::
    "'res submit_response \<Rightarrow> ('res option \<Rightarrow> tx_model list \<Rightarrow> details \<Rightarrow> 'model) option \<Rightarrow> 'model transaction_response" where
  "handleServiceResult (PayloadResult d p) resolver = TransactionPayloadResultModel p d"
| "handleServiceResult (ProposalResult p ts d) resolver = TransactionQueueModel ts d (Some p)"
| "handleServiceResult (DirectResult r ts d) resolver = (case resolver of
      Some f \<Rightarrow> ResolvedModel (f r ts d) | None \<Rightarrow> TransactionQueueModel ts d None)"
| "handleServiceResult (OfflineResult r) resolver = OfflineReceiptModel r"
| "handleServiceResult (NotificationResult n) resolver = NotificationPayloadModel n"

text \<open>The status code of a response, from the code Nest chose and the body of the request.\<close>

definition webhookResponseCode :: "nat \<Rightarrow> 'args transaction_base \<Rightarrow> nat" where
  "webhookResponseCode sc body = (if sc = 201 \<and> present (tb_webhookUrl body) then 202 else sc)"

section \<open>Reasoning about the calls\<close>

text \<open>
  \<open>makes P m\<close>: whatever the state, \<open>m\<close> only adds calls \<open>cs\<close>, and \<open>P cs r\<close> holds for them and its result.
\<close>

definition makes :: "(sdk_call list \<Rightarrow> 'a result \<Rightarrow> bool) \<Rightarrow> (exn, ('s, 'n, 'r, 't, 'e) gateway, 'a) eff \<Rightarrow> bool" where
  "makes P m \<longleftrightarrow> (\<forall>s. \<exists>cs. gw_calls (snd (m s)) = gw_calls s @ cs \<and> P cs (fst (m s)))"

lemma makes_andThen:
  assumes "makes P m" "\<And>a. makes (Q a) (f a)" "\<And>cs e. P cs (Inl e) \<Longrightarrow> R cs (Inl e)"
    and "\<And>cs a cs' r. P cs (Inr a) \<Longrightarrow> Q a cs' r \<Longrightarrow> R (cs @ cs') r"
  shows "makes R (andThen m f)"
  unfolding makes_def
proof
  fix s
  obtain cs where cs: "gw_calls (snd (m s)) = gw_calls s @ cs" "P cs (fst (m s))" using assms(1) by (auto simp: makes_def)
  show "\<exists>cs. gw_calls (snd (andThen m f s)) = gw_calls s @ cs \<and> R cs (fst (andThen m f s))"
  proof (cases rule: andThen_cases [of m s f])
    case (thrown e s')
    with cs assms(3) show ?thesis by auto
  next
    case (returned a s')
    obtain cs' where "gw_calls (snd (f a s')) = gw_calls s' @ cs'" "Q a cs' (fst (f a s'))" using assms(2) by (force simp: makes_def)
    with cs returned assms(4) show ?thesis by (intro exI [of _ "cs @ cs'"]) auto
  qed
qed

lemma makes_tryCatch:
  assumes "makes P m" "\<And>e. makes (Q e) (h e)" "\<And>cs a. P cs (Inr a) \<Longrightarrow> R cs (Inr a)"
    and "\<And>cs e cs' r. P cs (Inl e) \<Longrightarrow> Q e cs' r \<Longrightarrow> R (cs @ cs') r"
  shows "makes R (tryCatch m h)"
  unfolding makes_def
proof
  fix s
  obtain cs where cs: "gw_calls (snd (m s)) = gw_calls s @ cs" "P cs (fst (m s))" using assms(1) by (auto simp: makes_def)
  obtain r s' where m: "m s = (r, s')" by (cases "m s")
  show "\<exists>cs. gw_calls (snd (tryCatch m h s)) = gw_calls s @ cs \<and> R cs (fst (tryCatch m h s))"
  proof (cases r)
    case (Inl e)
    obtain cs' where "gw_calls (snd (h e s')) = gw_calls s' @ cs'" "Q e cs' (fst (h e s'))" using assms(2) by (force simp: makes_def)
    with cs m Inl assms(4) show ?thesis by (intro exI [of _ "cs @ cs'"]) (auto simp: eff_simps)
  next
    case (Inr a)
    with cs m assms(3) show ?thesis by (auto simp: eff_simps)
  qed
qed

lemma makes_simple:
  "makes (\<lambda>cs r. cs = [] \<and> r = Inr a) (ret a)"
  "makes (\<lambda>cs r. cs = [] \<and> r = Inl e) (throw e)"
  "makes (\<lambda>cs r. cs = [] \<and> r = x) (lift_result x)"
  "makes (\<lambda>cs r. cs = [c] \<and> r = x) (sdk c x)"
  by (simp_all add: makes_def eff_simps sdk_def)

lemma makes_zoom:
  "makes (\<lambda>cs r. cs = []) (in_world m)" "makes (\<lambda>cs r. cs = []) (in_offline m')"
  "makes (\<lambda>cs r. cs = []) (zoom gw_book (\<lambda>x s. s\<lparr>gw_book := x\<rparr>) m'')"
  by (simp_all add: makes_def zoom_def split: prod.splits)

lemma makes_mono: "makes P m \<Longrightarrow> (\<And>cs r. P cs r \<Longrightarrow> Q cs r) \<Longrightarrow> makes Q m"
  unfolding makes_def by blast

lemma makesE:
  assumes "makes P m" "m s = (r, s')"
  obtains cs where "gw_calls s' = gw_calls s @ cs" "P cs r"
  using assms unfolding makes_def by (metis fst_conv snd_conv)

abbreviation is_run :: "sdk_call \<Rightarrow> bool" where
  "is_run c \<equiv> c = RunCall \<or> c = RunAsProposalCall"

definition runs :: "sdk_call list \<Rightarrow> sdk_call list" where
  "runs cs = filter is_run cs"

lemma runs_simps [simp]:
  "runs [] = []" "runs (xs @ ys) = runs xs @ runs ys" "runs [PrepareCall] = []" "runs [TotalFeesCall] = []"
  "runs [ToSignablePayloadCall] = []" "runs [RunCall] = [RunCall]" "runs [RunAsProposalCall] = [RunAsProposalCall]"
  by (simp_all add: runs_def)

lemma makes_rethrowing:
  assumes "makes P m" "\<And>cs a. P cs (Inr a) \<Longrightarrow> R cs (Inr a)" "\<And>cs e. P cs (Inl e) \<Longrightarrow> R cs (Inl (thrown e))"
  shows "makes R (rethrowing m)"
  unfolding rethrowing_def using assms
  by (intro makes_tryCatch [where P = P and Q = "\<lambda>e cs r. cs = [] \<and> r = Inl (thrown e)"] makes_simple) auto

lemma makes_prepare: "makes (\<lambda>cs r. cs = [PrepareCall]) (prepareProcedure m args opts)"
  unfolding prepareProcedure_def
  by (rule makes_rethrowing [where P = "\<lambda>cs r. cs = [PrepareCall]"])
    (auto intro: makes_mono [OF makes_simple(4)])

text \<open>What a call of \<open>processTransaction\<close> runs and answers in each mode.\<close>

fun processed_ok :: "process_mode \<Rightarrow> sdk_call list \<Rightarrow> 'res submit_response result \<Rightarrow> bool" where
  "processed_ok DryRun cs (Inr (ProposalResult p ts d)) = (runs cs = [] \<and> ts = [])"
| "processed_ok DryRun cs (Inr (DirectResult r ts d)) = (runs cs = [] \<and> ts = [] \<and> r = None)"
| "processed_ok DryRun cs (Inl e) = (runs cs = [])"
| "processed_ok OfflineMode cs (Inr (PayloadResult d p)) = (runs cs = [])"
| "processed_ok OfflineMode cs (Inl e) = (runs cs = [])"
| "processed_ok DryRun cs _ = False"
| "processed_ok OfflineMode cs _ = False"
| "processed_ok mode cs (Inr (ProposalResult p ts d)) = (runs cs = [RunAsProposalCall] \<and> length ts = 1)"
| "processed_ok mode cs (Inr (DirectResult r ts d)) = (runs cs = [RunCall] \<and> length ts = 1 \<and> r \<noteq> None)"
| "processed_ok mode cs (Inl e) = (length (runs cs) \<le> 1)"
| "processed_ok mode cs _ = False"

lemma processed_ok_error: "processed_ok mode cs (Inl e) = (if mode = DryRun \<or> mode = OfflineMode then runs cs = [] else length (runs cs) \<le> 1)"
  by (cases mode) auto

lemma processed_ok_prefix: "runs cs = [] \<Longrightarrow> processed_ok mode cs' r \<Longrightarrow> processed_ok mode (cs @ cs') r"
  by (induction mode cs' r rule: processed_ok.induct) auto

lemma processed_ok_Cons: "\<not> is_run c \<Longrightarrow> processed_ok mode cs r \<Longrightarrow> processed_ok mode (c # cs) r"
  using processed_ok_prefix [of "[c]" mode cs r] by (simp add: runs_def)

lemma makes_assembled:
  "makes (\<lambda>cs r. cs = [] \<and> ((\<exists>e. r = Inl e) \<or> (\<exists>m. r = Inr (f m))))
     (andThen (lift_result (assembleTransactionResponse tx')) (\<lambda>m. ret (f m)))"
  by (rule makes_andThen [where Q = "\<lambda>m cs r. cs = [] \<and> r = Inr (f m)", OF makes_simple(3) makes_simple(1)]) auto

lemma makes_run:
  assumes "\<And>p m. processed_ok mode [c] (Inr (f p m))" "mode \<noteq> DryRun" "mode \<noteq> OfflineMode"
  shows "makes (processed_ok mode) (andThen (sdk c x)
     (\<lambda>(p, tx'). andThen (lift_result (assembleTransactionResponse tx')) (\<lambda>m. ret (f p m))))"
  unfolding split_beta
  by (rule makes_andThen [OF makes_simple(4) makes_assembled])
    (use assms in \<open>auto simp: processed_ok_error runs_def\<close>)

lemma makes_prepared: "makes (processed_ok (op_processMode opts)) (processPrepared P d opts)"
proof (cases "op_processMode opts")
  case DryRun
  then show ?thesis
    by (cases "tx_multiSig (pr_tx P)") (auto simp: processPrepared_def intro: makes_mono [OF makes_simple(1)])
next
  case OfflineMode
  then show ?thesis
    by (auto simp: processPrepared_def intro!: makes_andThen [OF makes_simple(4) makes_simple(1)])
qed (auto simp: processPrepared_def split: option.split intro!: makes_run)

lemma makes_fees:
  "makes (processed_ok (op_processMode opts))
     (andThen (sdk TotalFeesCall x) (\<lambda>f. processPrepared P (transaction_details P f) opts))"
  by (rule makes_andThen [OF makes_simple(4) makes_prepared]) (auto simp: processed_ok_error intro: processed_ok_Cons)

lemma makes_process: "makes (processed_ok (op_processMode opts)) (processTransaction mth args po opts)"
  unfolding processTransaction_def
proof (rule makes_rethrowing)
  show "makes (processed_ok (op_processMode opts)) (andThen (prepareProcedure mth args po) (\<lambda>procedure.
      andThen (sdk TotalFeesCall (pr_totalFees procedure)) (\<lambda>totalFees.
      processPrepared procedure (transaction_details procedure totalFees) opts)))"
    by (rule makes_andThen [OF makes_prepare makes_fees]) (auto simp: processed_ok_error intro: processed_ok_Cons)
qed (auto simp: processed_ok_error)
fun submit_ok :: "process_mode \<Rightarrow> sdk_call list \<Rightarrow> 'res submit_response result \<Rightarrow> bool" where
  "submit_ok SubmitWithCallback cs (Inr (NotificationResult n)) = (\<exists>c. runs cs = [c])"
| "submit_ok SubmitWithCallback cs (Inr _) = False"
| "submit_ok SubmitWithCallback cs (Inl e) = (length (runs cs) \<le> 1)"
| "submit_ok AMQP cs (Inr (OfflineResult r)) = (runs cs = [])"
| "submit_ok AMQP cs (Inr _) = False"
| "submit_ok AMQP cs (Inl e) = (runs cs = [])"
| "submit_ok mode cs r = processed_ok mode cs r"

lemma submit_ok_Cons: "\<not> is_run c \<Longrightarrow> submit_ok mode cs r \<Longrightarrow> submit_ok mode (c # cs) r"
  by (induction mode cs r rule: submit_ok.induct) (simp_all add: runs_def processed_ok_Cons)

lemma submit_ok_error: "runs cs = [] \<Longrightarrow> submit_ok mode cs (Inl e)"
  by (cases mode) auto

lemma submit_ok_other: "mode \<noteq> SubmitWithCallback \<Longrightarrow> mode \<noteq> AMQP \<Longrightarrow> submit_ok mode = processed_ok mode"
  by (cases mode) (simp_all add: fun_eq_iff)

lemma makes_try_run:
  assumes "is_run c"
  shows "makes (\<lambda>cs r. (\<exists>c. runs cs = [c]) \<and> (\<exists>x. r = Inr x)) (tryCatch (andThen (sdk c x) (\<lambda>a. ret (f a))) (\<lambda>_. ret y))"
  by (rule makes_tryCatch [OF makes_andThen [where R = "\<lambda>cs r. cs = [c]", OF makes_simple(4) makes_simple(1)] makes_simple(1)])
    (use assms in auto)

lemma makes_callback_run: "makes (\<lambda>cs r. (\<exists>c. runs cs = [c]) \<and> (\<exists>x. r = Inr x)) (runWithCallback P)"
  by (auto simp: runWithCallback_def makes_try_run split: option.split)

lemma makes_callback:
  "makes (\<lambda>cs r. length (runs cs) \<le> 1 \<and> (\<forall>n. r = Inr n \<longrightarrow> (\<exists>c. runs cs = [c]))) (submitWithCallback D P url secret seen)"
proof -
  have respond: "makes (\<lambda>cs r. cs = []) (andThen (lift_result (assemblePayload seen p)) (\<lambda>payload. ret (f payload)))" for p f
    by (rule makes_andThen [OF makes_simple(3) makes_simple(1)]) auto
  have tail: "makes (\<lambda>cs r. \<exists>c. runs cs = [c]) (andThen (runWithCallback P)
      (\<lambda>p. andThen (lift_result (assemblePayload seen p)) (\<lambda>payload. ret (f payload))))" for f
    by (rule makes_andThen [OF makes_callback_run respond]) auto
  show ?thesis unfolding submitWithCallback_def submitAndSubscribe_in_def by (rule makes_andThen [OF makes_zoom(1) tail]) auto
qed

lemma makes_submit: "makes (submit_ok (op_processMode opts)) (submit G mth args opts uuid seen)"
proof -
  have account: "makes (\<lambda>cs r. cs = []) (getSigningAccount S M signer)" for S M signer
    by (simp add: getSigningAccount_def makes_zoom makes_mono [OF makes_simple(1)])
  have prepare: "makes (\<lambda>cs r. cs = [PrepareCall]) (rethrowing (prepareProcedure mth args po))" for po
    by (rule makes_rethrowing [OF makes_prepare]) auto
  have callback: "makes (submit_ok SubmitWithCallback) (andThen (submitWithCallback D P url secret seen) (\<lambda>n. ret (NotificationResult n)))"
    for D P url secret
    by (rule makes_andThen [OF makes_callback makes_simple(1)]) auto
  have amqp: "makes (submit_ok AMQP) (andThen (sdk ToSignablePayloadCall (Inr ())) (\<lambda>_. andThen (in_offline m) (\<lambda>r. ret (OfflineResult r))))"
    for m
  proof (rule makes_andThen [OF makes_simple(4)])
    show "makes (submit_ok AMQP) (andThen (in_offline m) (\<lambda>r. ret (OfflineResult r)))"
      by (rule makes_andThen [OF makes_zoom(2) makes_simple(1)]) auto
  qed (auto intro: submit_ok_Cons)
  have body: "makes (submit_ok (op_processMode opts)) (if op_processMode opts = SubmitWithCallback
        then (case op_webhookUrl opts of None \<Rightarrow> throw (IllTyped x)
              | Some webhookUrl \<Rightarrow> andThen (submitWithCallback D P webhookUrl secret seen) (\<lambda>n. ret (NotificationResult n)))
        else if op_processMode opts = AMQP
        then andThen (sdk ToSignablePayloadCall (Inr ())) (\<lambda>_. andThen (in_offline (beginTransaction O' uuid P md)) (\<lambda>r. ret (OfflineResult r)))
        else processTransaction mth args po opts)" for x D P secret O' md po
  proof (cases "op_processMode opts")
    case SubmitWithCallback
    then show ?thesis
      by (auto simp: callback split: option.split intro: makes_mono [OF makes_simple(2)])
  qed (use makes_process [of opts mth args po] amqp in \<open>simp_all add: submit_ok_other\<close>)
  show ?thesis unfolding submit_def Let_def
    by (rule makes_andThen [OF account makes_andThen [OF prepare body]])
      (auto simp: submit_ok_error intro: submit_ok_Cons)
qed

end
