(* ===== verification/Delivery.thy ===== *)
theory Delivery
  imports Webhook_State
begin

text \<open>
  The life of one delivery, a handshake or a notification: it is scheduled, sent, answered or failed,
  and tried again until its tries are used up. This is the part of the specification the two services
  share; \<open>Webhook_Spec\<close> shows that every step of the subsystem is, for each delivery, one of these
  steps or none.

  \<open>delivery_ok\<close> is the invariant: a delivery that is scheduled or awaited is wanted, it is not both and
  not twice; a wanted delivery is scheduled, awaited or lapsed; with a positive number of
  tries to start with, no more than that many requests are sent.
\<close>

fun call_task :: "pending_call \<Rightarrow> task" where
  "call_task (HandshakeSent i _ _) = SendHandshake i"
| "call_task (NotificationSent i _) = SendNotification i"

fun call_tries :: "pending_call \<Rightarrow> js_number" where
  "call_tries (HandshakeSent _ tries _) = tries"
| "call_tries (NotificationSent _ tries) = tries"

text \<open>
  \<open>d_model\<close> is \<open>None\<close> before the model is created; then it says whether the model is in its initial
  status, still wanting delivery, and how many tries it has left.
\<close>

record delivery =
  d_model :: "(bool \<times> js_number) option"
  d_scheduled :: bool
  d_awaited :: "pending_call set"
  d_sent :: nat
  d_lapsed :: bool

definition d_fail :: "js_number \<Rightarrow> delivery \<Rightarrow> delivery" where
  "d_fail tries d =
     (if js_eq tries (Num 0) then d\<lparr>d_model := Some (False, tries)\<rparr>
      else d\<lparr>d_model := map_option (\<lambda>p. (fst p, tries)) (d_model d), d_scheduled := True\<rparr>)"

inductive delivery_step :: "js_number \<Rightarrow> delivery \<Rightarrow> delivery \<Rightarrow> bool" for tries0 :: js_number where
  d_create: "d_model d = None \<Longrightarrow>
    delivery_step tries0 d (d\<lparr>d_model := Some (True, tries0), d_scheduled := True, d_lapsed := l\<rparr>)"
| d_drop: "d_scheduled d \<Longrightarrow> d_lapsed d \<Longrightarrow> delivery_step tries0 d (d\<lparr>d_scheduled := False\<rparr>)"
| d_send: "d_scheduled d \<Longrightarrow> d_model d = Some (b, call_tries c) \<Longrightarrow>
    delivery_step tries0 d (d\<lparr>d_scheduled := False, d_awaited := insert c (d_awaited d),
      d_sent := Suc (d_sent d)\<rparr>)"
| d_unsent: "d_scheduled d \<Longrightarrow> d_model d = Some (b, t) \<Longrightarrow>
    delivery_step tries0 d (d_fail (js_sub t (Num 1)) (d\<lparr>d_scheduled := False\<rparr>))"
| d_settle: "c \<in> d_awaited d \<Longrightarrow> d_model d = Some (b, t) \<Longrightarrow>
    delivery_step tries0 d (d\<lparr>d_awaited := d_awaited d - {c}, d_model := Some (False, t)\<rparr>)"
| d_give_up: "d_scheduled d \<Longrightarrow> d_model d = Some (b, t) \<Longrightarrow>
    delivery_step tries0 d (d\<lparr>d_scheduled := False, d_model := Some (False, t)\<rparr>)"
| d_refuse: "c \<in> d_awaited d \<Longrightarrow>
    delivery_step tries0 d (d_fail (js_sub (call_tries c) (Num 1)) (d\<lparr>d_awaited := d_awaited d - {c}\<rparr>))"
| d_lapse: "delivery_step tries0 d (d\<lparr>d_lapsed := True\<rparr>)"

definition duty_ok :: "delivery \<Rightarrow> bool" where
  "duty_ok d \<longleftrightarrow>
     (d_scheduled d \<longrightarrow> d_awaited d = {} \<and> (\<exists>t. d_model d = Some (True, t)))
   \<and> (d_awaited d = {} \<or> (\<exists>c. d_awaited d = {c} \<and> d_model d = Some (True, call_tries c)))
   \<and> (\<forall>t. d_model d = Some (True, t) \<longrightarrow> d_scheduled d \<or> d_awaited d \<noteq> {} \<or> d_lapsed d)"

definition budget_ok :: "int \<Rightarrow> delivery \<Rightarrow> bool" where
  "budget_ok k d \<longleftrightarrow>
     (d_model d = None \<longrightarrow> d_sent d = 0)
   \<and> (\<forall>t. d_model d = Some (True, t) \<longrightarrow> (\<exists>n \<ge> 1. t = Num n \<and>
        int (d_sent d) + n \<le> k + (if d_awaited d = {} then 0 else 1)))
   \<and> int (d_sent d) \<le> k"

lemma duty_ok_step: "delivery_step t0 d d' \<Longrightarrow> duty_ok d \<Longrightarrow> duty_ok d'"
  by (induction rule: delivery_step.induct) (auto simp: duty_ok_def d_fail_def)

lemma duty_awaited:
  assumes "duty_ok d" "c \<in> d_awaited d"
  shows "d_awaited d = {c}" "d_model d = Some (True, call_tries c)"
proof -
  from assms obtain c' where "d_awaited d = {c'}" "d_model d = Some (True, call_tries c')"
    unfolding duty_ok_def by blast
  with assms(2) show "d_awaited d = {c}" "d_model d = Some (True, call_tries c)" by simp_all
qed

lemma duty_scheduled:
  assumes "duty_ok d" "d_scheduled d" "d_model d = Some (b, t)"
  shows "d_awaited d = {}" "b"
  using assms by (simp_all add: duty_ok_def)

lemma budget_left:
  assumes "budget_ok k d" "d_model d = Some (True, t)"
  obtains n where "1 \<le> n" "t = Num n" "int (d_sent d) + n \<le> k + (if d_awaited d = {} then 0 else 1)"
  using assms unfolding budget_ok_def by blast

lemma budget_ok_step:
  assumes "delivery_step (Num k) d d'" "1 \<le> k" "duty_ok d" "budget_ok k d"
  shows "budget_ok k d'"
  using assms
proof (induction rule: delivery_step.induct)
  case (d_unsent d b t)
  note s = duty_scheduled [OF d_unsent.prems(2) d_unsent.hyps]
  have m: "d_model d = Some (True, t)" using d_unsent.hyps(2) s(2) by simp
  from d_unsent.prems(3) m obtain n where "1 \<le> n" "t = Num n"
    "int (d_sent d) + n \<le> k + (if d_awaited d = {} then 0 else 1)" by (rule budget_left)
  with m s(1) show ?case by (cases "n = 1") (simp_all add: budget_ok_def d_fail_def)
next
  case (d_refuse c d)
  note s = duty_awaited [OF d_refuse.prems(2) d_refuse.hyps]
  from d_refuse.prems(3) s(2) obtain n where "1 \<le> n" "call_tries c = Num n"
    "int (d_sent d) + n \<le> k + (if d_awaited d = {} then 0 else 1)" by (rule budget_left)
  with s show ?case by (cases "n = 1") (simp_all add: budget_ok_def d_fail_def)
next
  case (d_send d b c)
  note s = duty_scheduled [OF d_send.prems(2) d_send.hyps]
  have m: "d_model d = Some (True, call_tries c)" using d_send.hyps(2) s(2) by simp
  from d_send.prems(3) m obtain n where "1 \<le> n" "call_tries c = Num n"
    "int (d_sent d) + n \<le> k + (if d_awaited d = {} then 0 else 1)" by (rule budget_left)
  with m s(1) show ?case by (simp add: budget_ok_def)
next
  case (d_create d l)
  then show ?case by (simp add: budget_ok_def)
qed (simp_all add: budget_ok_def)

end
