(* ===== verification/Webhook_Spec.thy ===== *)
theory Webhook_Spec
  imports Delivery
begin

text \<open>
  The specification of the webhook subsystem: subscriptions, notifications and events as maps, the
  scheduled tasks as a set, the requests awaiting an answer as well; no timers, names, counters or
  stores. \<open>hook_step\<close> says what one reaction of the process may do to them.

  The invariants are proved here, by cases on the step:
  \<^item> \<open>duties_ok\<close>: whatever is scheduled or awaited belongs to a model that still needs it, once;
  \<^item> \<open>covered\<close>: nothing is lost, a model that still needs delivery is scheduled or awaited;
  \<^item> \<open>refs_ok\<close>: a notification has its subscription and its event, of the same scope;
  \<^item> \<open>nonces_ok\<close>: the notifications of a subscription are numbered 1, 2, 3, ... without gap or repetition;
  \<^item> \<open>budget_ok\<close>: no delivery is tried more often than configured.
\<close>

section \<open>The specification\<close>

record hooks =
  h_now :: int
  h_subs :: "nat \<rightharpoonup> subscription"
  h_notifs :: "nat \<rightharpoonup> notification"
  h_events :: "nat \<rightharpoonup> string"
  h_tasks :: "task set"
  h_calls :: "pending_call set"
  h_sent :: "task list"

text \<open>The two ways an attempt to deliver ends without success.\<close>

definition sub_failed :: "nat \<Rightarrow> subscription \<Rightarrow> js_number \<Rightarrow> hooks \<Rightarrow> hooks" where
  "sub_failed i m tries a =
     (if js_eq tries (Num 0)
      then a\<lparr>h_subs := (h_subs a)(i \<mapsto> m\<lparr>s_status := SubRejected, s_triesLeft := tries\<rparr>)\<rparr>
      else a\<lparr>h_subs := (h_subs a)(i \<mapsto> m\<lparr>s_triesLeft := tries\<rparr>),
             h_tasks := insert (SendHandshake i) (h_tasks a)\<rparr>)"

definition notif_failed :: "nat \<Rightarrow> notification \<Rightarrow> js_number \<Rightarrow> hooks \<Rightarrow> hooks" where
  "notif_failed i n tries a =
     (if js_eq tries (Num 0)
      then a\<lparr>h_notifs := (h_notifs a)(i \<mapsto> n\<lparr>n_triesLeft := tries, n_status := NFailed\<rparr>)\<rparr>
      else a\<lparr>h_notifs := (h_notifs a)(i \<mapsto> n\<lparr>n_triesLeft := tries\<rparr>),
             h_tasks := insert (SendNotification i) (h_tasks a)\<rparr>)"

abbreviation done_task :: "task \<Rightarrow> hooks \<Rightarrow> hooks" where
  "done_task k a \<equiv> a\<lparr>h_tasks := h_tasks a - {k}\<rparr>"

text \<open>The subscriptions an event of a scope is for.\<close>

definition interested :: "hooks \<Rightarrow> string \<Rightarrow> subscription set" where
  "interested a scope = {s \<in> ran (h_subs a). s_status s = Active
     \<and> (scope = '''' \<or> s_eventScope s = scope) \<and> \<not> isExpired (h_now a) s}"

definition bump :: "nat set \<Rightarrow> (nat \<rightharpoonup> subscription) \<Rightarrow> nat \<rightharpoonup> subscription" where
  "bump I f = (\<lambda>i. if i \<in> I
     then map_option (\<lambda>m. m\<lparr>s_nextNonce := s_nextNonce m + 1\<rparr>) (f i) else f i)"

definition finish :: "nat set \<Rightarrow> (nat \<rightharpoonup> subscription) \<Rightarrow> nat \<rightharpoonup> subscription" where
  "finish I f = (\<lambda>i. if i \<in> I then map_option (\<lambda>m. m\<lparr>s_status := Done\<rparr>) (f i) else f i)"

text \<open>
  \<open>new\<close> gives the subscription of each notification an event creates: one per interested
  subscription, under identifiers not used before.
\<close>

definition notified ::
    "js_number \<Rightarrow> nat \<Rightarrow> (nat \<rightharpoonup> subscription) \<Rightarrow> (nat \<rightharpoonup> notification) \<Rightarrow> (nat \<rightharpoonup> notification) \<Rightarrow> bool" where
  "notified tries e new ns ns' \<longleftrightarrow> (\<forall>j. case new j of
      None \<Rightarrow> ns' j = ns j
    | Some s \<Rightarrow> ns j = None \<and> (\<exists>n. ns' j = Some n \<and> n_subscriptionId n = s_id s \<and> n_eventId n = e
        \<and> n_nonce n = s_nextNonce s \<and> n_triesLeft n = tries \<and> n_status n = NActive))"

inductive hook_step :: "js_number \<Rightarrow> js_number \<Rightarrow> hooks \<Rightarrow> hooks \<Rightarrow> bool"
  for subTries notifTries :: js_number where
  h_tick: "0 \<le> d \<Longrightarrow> hook_step subTries notifTries a (a\<lparr>h_now := h_now a + d\<rparr>)"
| h_subscribe: "h_subs a i = None \<Longrightarrow> s_id m = i \<Longrightarrow> s_status m = Inactive \<Longrightarrow> s_triesLeft m = subTries \<Longrightarrow>
    s_nextNonce m = 1 \<Longrightarrow>
    hook_step subTries notifTries a (a\<lparr>h_subs := (h_subs a)(i \<mapsto> m),
       h_tasks := insert (SendHandshake i) (h_tasks a)\<rparr>)"
| h_expired: "SendHandshake i \<in> h_tasks a \<Longrightarrow> h_subs a i = Some m \<Longrightarrow> isExpired (h_now a) m \<Longrightarrow>
    hook_step subTries notifTries a (done_task (SendHandshake i) a)"
| h_handshake: "SendHandshake i \<in> h_tasks a \<Longrightarrow> h_subs a i = Some m \<Longrightarrow> \<not> isExpired (h_now a) m \<Longrightarrow>
    hook_step subTries notifTries a ((done_task (SendHandshake i) a)\<lparr>
       h_calls := insert (HandshakeSent i (s_triesLeft m) secret) (h_calls a),
       h_sent := h_sent a @ [SendHandshake i]\<rparr>)"
| h_no_secret: "SendHandshake i \<in> h_tasks a \<Longrightarrow> h_subs a i = Some m \<Longrightarrow> \<not> isExpired (h_now a) m \<Longrightarrow>
    hook_step subTries notifTries a
      (sub_failed i m (js_sub (s_triesLeft m) (Num 1)) (done_task (SendHandshake i) a))"
| h_confirmed: "HandshakeSent i tries secret \<in> h_calls a \<Longrightarrow> h_subs a i = Some m \<Longrightarrow>
    hook_step subTries notifTries a (a\<lparr>h_calls := h_calls a - {HandshakeSent i tries secret}, h_subs := (h_subs a)(i \<mapsto> m\<lparr>s_status := Active\<rparr>)\<rparr>)"
| h_refused: "HandshakeSent i tries secret \<in> h_calls a \<Longrightarrow> h_subs a i = Some m \<Longrightarrow>
    hook_step subTries notifTries a (sub_failed i m (js_sub tries (Num 1)) (a\<lparr>h_calls := h_calls a - {HandshakeSent i tries secret}\<rparr>))"
| h_orphaned: "SendNotification i \<in> h_tasks a \<Longrightarrow> h_notifs a i = Some n \<Longrightarrow>
    h_subs a (n_subscriptionId n) = Some m \<Longrightarrow> isExpired (h_now a) m \<Longrightarrow>
    hook_step subTries notifTries a ((done_task (SendNotification i) a)\<lparr>
       h_notifs := (h_notifs a)(i \<mapsto> n\<lparr>n_status := Orphaned\<rparr>)\<rparr>)"
| h_notify: "SendNotification i \<in> h_tasks a \<Longrightarrow> h_notifs a i = Some n \<Longrightarrow>
    h_subs a (n_subscriptionId n) = Some m \<Longrightarrow> \<not> isExpired (h_now a) m \<Longrightarrow>
    hook_step subTries notifTries a ((done_task (SendNotification i) a)\<lparr>
       h_calls := insert (NotificationSent i (n_triesLeft n)) (h_calls a),
       h_sent := h_sent a @ [SendNotification i]\<rparr>)"
| h_acknowledged: "NotificationSent i tries \<in> h_calls a \<Longrightarrow> h_notifs a i = Some n \<Longrightarrow>
    hook_step subTries notifTries a (a\<lparr>h_calls := h_calls a - {NotificationSent i tries},
       h_notifs := (h_notifs a)(i \<mapsto> n\<lparr>n_status := Acknowledged\<rparr>)\<rparr>)"
| h_failed: "NotificationSent i tries \<in> h_calls a \<Longrightarrow> h_notifs a i = Some n \<Longrightarrow>
    hook_step subTries notifTries a (notif_failed i n (js_sub tries (Num 1)) (a\<lparr>h_calls := h_calls a - {NotificationSent i tries}\<rparr>))"
| h_event: "h_events a e = None \<Longrightarrow> scope \<noteq> '''' \<Longrightarrow> inj_on (\<lambda>j. map_option s_id (new j)) (dom new) \<Longrightarrow>
    ran new = interested a scope \<Longrightarrow> notified notifTries e new (h_notifs a) ns' \<Longrightarrow>
    hook_step subTries notifTries a (a\<lparr>h_events := (h_events a)(e \<mapsto> scope),
       h_subs := bump (s_id ` interested a scope) (h_subs a), h_notifs := ns',
       h_tasks := h_tasks a \<union> SendNotification ` dom new\<rparr>)"
| h_done: "hook_step subTries notifTries a
    (a\<lparr>h_subs := finish (s_id ` interested a scope) (h_subs a)\<rparr>)"

section \<open>Each delivery by itself\<close>

fun model_of :: "hooks \<Rightarrow> task \<Rightarrow> (bool \<times> js_number) option" where
  "model_of a (SendHandshake i) = map_option (\<lambda>m. (s_status m = Inactive, s_triesLeft m)) (h_subs a i)"
| "model_of a (SendNotification i) = map_option (\<lambda>n. (n_status n = NActive, n_triesLeft n)) (h_notifs a i)"

fun lapsed :: "hooks \<Rightarrow> task \<Rightarrow> bool" where
  "lapsed a (SendHandshake i) = (\<exists>m. h_subs a i = Some m \<and> isExpired (h_now a) m)"
| "lapsed a (SendNotification i) = False"

definition view :: "hooks \<Rightarrow> task \<Rightarrow> delivery" where
  "view a k = \<lparr>d_model = model_of a k, d_scheduled = (k \<in> h_tasks a),
     d_awaited = {c \<in> h_calls a. call_task c = k}, d_sent = count_list (h_sent a) k, d_lapsed = lapsed a k\<rparr>"

definition subs_ids :: "hooks \<Rightarrow> bool" where
  "subs_ids a \<longleftrightarrow> (\<forall>i m. h_subs a i = Some m \<longrightarrow> s_id m = i)"

lemma interested_sub:
  "s \<in> interested a scope \<Longrightarrow> subs_ids a \<Longrightarrow> h_subs a (s_id s) = Some s \<and> s_status s = Active"
  by (auto simp: interested_def ran_def subs_ids_def)

lemma subs_ids_step: "hook_step t0 t1 a a' \<Longrightarrow> subs_ids a \<Longrightarrow> subs_ids a'"
  by (induction rule: hook_step.induct)
    (auto simp: subs_ids_def sub_failed_def notif_failed_def bump_def finish_def split: if_splits)

lemma isExpired_cong [simp]:
  "isExpired t (m\<lparr>s_status := x\<rparr>) = isExpired t m"
  "isExpired t (m\<lparr>s_triesLeft := y\<rparr>) = isExpired t m"
  "isExpired t (m\<lparr>s_nextNonce := z\<rparr>) = isExpired t m"
  by (simp_all add: isExpired_def)

text \<open>A step that leaves the models of a kind, the tasks, the requests and the time alone.\<close>

lemma view_eqI:
  assumes "model_of a' k = model_of a k" "k \<in> h_tasks a' \<longleftrightarrow> k \<in> h_tasks a"
    "\<And>c. call_task c = k \<Longrightarrow> c \<in> h_calls a' \<longleftrightarrow> c \<in> h_calls a"
    "count_list (h_sent a') k = count_list (h_sent a) k" "lapsed a' k = lapsed a k"
  shows "view a' k = view a k"
proof -
  have "{c \<in> h_calls a'. call_task c = k} = {c \<in> h_calls a. call_task c = k}" using assms(3) by blast
  with assms(1,2,4,5) show ?thesis by (simp add: view_def)
qed

fun tries_at_start :: "js_number \<Rightarrow> js_number \<Rightarrow> task \<Rightarrow> js_number" where
  "tries_at_start t0 t1 (SendHandshake _) = t0"
| "tries_at_start t0 t1 (SendNotification _) = t1"

lemma view_other:
  assumes "k \<noteq> k0"
    and "\<And>i. k = SendHandshake i \<Longrightarrow> h_subs a' i = h_subs a i"
    and "\<And>i. k = SendNotification i \<Longrightarrow> h_notifs a' i = h_notifs a i"
    and "h_tasks a' - {k0} = h_tasks a - {k0}"
    and "\<And>c. call_task c \<noteq> k0 \<Longrightarrow> c \<in> h_calls a' \<longleftrightarrow> c \<in> h_calls a"
    and "h_sent a' = h_sent a \<or> h_sent a' = h_sent a @ [k0]" and "h_now a' = h_now a"
  shows "view a' k = view a k"
proof (rule view_eqI)
  show "model_of a' k = model_of a k"
  proof (cases k)
    case (SendHandshake i)
    show ?thesis unfolding SendHandshake by (simp add: assms(2) [OF SendHandshake])
  next
    case (SendNotification i)
    show ?thesis unfolding SendNotification by (simp add: assms(3) [OF SendNotification])
  qed
  show "lapsed a' k = lapsed a k"
  proof (cases k)
    case (SendHandshake i)
    show ?thesis unfolding SendHandshake by (simp add: assms(2) [OF SendHandshake] assms(7) split: option.split)
  next
    case (SendNotification i)
    show ?thesis unfolding SendNotification by simp
  qed
  show "k \<in> h_tasks a' \<longleftrightarrow> k \<in> h_tasks a" using assms(1,4) by blast
  show "count_list (h_sent a') k = count_list (h_sent a) k" using assms(1,6) by auto
  show "c \<in> h_calls a' \<longleftrightarrow> c \<in> h_calls a" if "call_task c = k" for c
    using assms(1) assms(5) [of c] that by simp
qed

text \<open>What dropping a task, sending a request and receiving its answer do to a delivery.\<close>

lemma view_done_task: "view (done_task k a) k = (view a k)\<lparr>d_scheduled := False\<rparr>"
  by (cases k) (simp_all add: view_def)

lemma view_sent:
  assumes "call_task c = k"
  shows "view ((done_task k a)\<lparr>h_calls := insert c (h_calls a), h_sent := h_sent a @ [k]\<rparr>) k =
    (view a k)\<lparr>d_scheduled := False, d_awaited := insert c (d_awaited (view a k)),
      d_sent := Suc (d_sent (view a k))\<rparr>"
  using assms by (cases k) (auto simp: view_def)

lemma view_answered:
  "view (a\<lparr>h_calls := h_calls a - {c}\<rparr>) k = (view a k)\<lparr>d_awaited := d_awaited (view a k) - {c}\<rparr>"
  by (cases k) (auto simp: view_def)

text \<open>The effect of a failed attempt on the delivery it belongs to.\<close>

lemma view_sub_failed:
  assumes "h_subs a i = Some m"
  shows "view (sub_failed i m tries a) (SendHandshake i) = d_fail tries (view a (SendHandshake i))"
  using assms by (simp add: view_def sub_failed_def d_fail_def)

lemma view_notif_failed:
  assumes "h_notifs a i = Some n"
  shows "view (notif_failed i n tries a) (SendNotification i) = d_fail tries (view a (SendNotification i))"
  using assms by (simp add: view_def notif_failed_def d_fail_def)

lemma failed_sel [simp]:
  "h_now (sub_failed i m t a) = h_now a" "h_sent (sub_failed i m t a) = h_sent a"
  "h_calls (sub_failed i m t a) = h_calls a" "h_notifs (sub_failed i m t a) = h_notifs a"
  "h_events (sub_failed i m t a) = h_events a"
  "j \<noteq> i \<Longrightarrow> h_subs (sub_failed i m t a) j = h_subs a j"
  "h_tasks (sub_failed i m t a) - {SendHandshake i} = h_tasks a - {SendHandshake i}"
  "h_now (notif_failed i n t a) = h_now a" "h_sent (notif_failed i n t a) = h_sent a"
  "h_calls (notif_failed i n t a) = h_calls a" "h_subs (notif_failed i n t a) = h_subs a"
  "h_events (notif_failed i n t a) = h_events a"
  "j \<noteq> i \<Longrightarrow> h_notifs (notif_failed i n t a) j = h_notifs a j"
  "h_tasks (notif_failed i n t a) - {SendNotification i} = h_tasks a - {SendNotification i}"
  by (auto simp: sub_failed_def notif_failed_def)

text \<open>An event creates deliveries and changes none; the end of a transaction changes none.\<close>

lemma event_view:
  assumes "subs_ids a" "notified t1 e new (h_notifs a) ns'"
    and a': "a' = a\<lparr>h_events := (h_events a)(e \<mapsto> scope), h_subs := bump I (h_subs a), h_notifs := ns',
       h_tasks := h_tasks a \<union> SendNotification ` dom new\<rparr>"
  shows "view a' k = view a k \<or> delivery_step (tries_at_start t0 t1 k) (view a k) (view a' k)"
proof (cases k)
  case (SendHandshake i)
  have "view a' k = view a k"
    by (rule view_eqI) (auto simp: SendHandshake a' bump_def option.map_comp comp_def split: option.split)
  then show ?thesis ..
next
  case (SendNotification i)
  show ?thesis
  proof (cases "new i")
    case None
    then have "ns' i = h_notifs a i" using assms(2) by (auto simp: notified_def split: option.splits dest!: spec [of _ i])
    then have "view a' k = view a k"
      by (intro view_eqI) (use None in \<open>auto simp: SendNotification a'\<close>)
    then show ?thesis ..
  next
    case (Some s)
    then obtain n where n: "h_notifs a i = None" "ns' i = Some n" "n_status n = NActive" "n_triesLeft n = t1"
      using assms(2) by (auto simp: notified_def split: option.splits dest!: spec [of _ i])
    have none: "d_model (view a k) = None" by (simp add: view_def SendNotification n(1))
    have "view a' k = (view a k)\<lparr>d_model := Some (True, t1), d_scheduled := True, d_lapsed := False\<rparr>"
      using n(2-4) Some by (auto simp: view_def SendNotification a')
    then show ?thesis
      using d_create [OF none, of "tries_at_start t0 t1 k" False] by (simp add: SendNotification)
  qed
qed

lemma done_view:
  assumes "subs_ids a"
  shows "view (a\<lparr>h_subs := finish (s_id ` interested a scope) (h_subs a)\<rparr>) k = view a k"
proof -
  have "map_option (\<lambda>m. (s_status m = Inactive, s_triesLeft m)) (finish (s_id ` interested a scope) (h_subs a) i)
      = map_option (\<lambda>m. (s_status m = Inactive, s_triesLeft m)) (h_subs a i)" for i
    using interested_sub [OF _ assms] by (cases "h_subs a i") (auto simp: finish_def)
  moreover have "(\<exists>m. finish I (h_subs a) i = Some m \<and> isExpired t m)
      = (\<exists>m. h_subs a i = Some m \<and> isExpired t m)" for i t I
    by (cases "h_subs a i") (auto simp: finish_def)
  ultimately show ?thesis by (intro view_eqI; cases k) simp_all
qed

lemma view_step_at:
  assumes "delivery_step (tries_at_start t0 t1 k0) (view a k0) (view a' k0)"
    and "\<And>i. k0 \<noteq> SendHandshake i \<Longrightarrow> h_subs a' i = h_subs a i"
    and "\<And>i. k0 \<noteq> SendNotification i \<Longrightarrow> h_notifs a' i = h_notifs a i"
    and "h_tasks a' - {k0} = h_tasks a - {k0}"
    and "\<And>c. call_task c \<noteq> k0 \<Longrightarrow> c \<in> h_calls a' \<longleftrightarrow> c \<in> h_calls a"
    and "h_sent a' = h_sent a \<or> h_sent a' = h_sent a @ [k0]" and "h_now a' = h_now a"
  shows "view a' k = view a k \<or> delivery_step (tries_at_start t0 t1 k) (view a k) (view a' k)"
proof (cases "k = k0")
  case False
  have "view a' k = view a k"
    by (rule view_other [OF False _ _ assms(4-7)]) (use False assms(2,3) in auto)
  then show ?thesis ..
qed (use assms(1) in simp)

lemma view_step:
  assumes "hook_step t0 t1 a a'" "subs_ids a"
  shows "view a' k = view a k \<or> delivery_step (tries_at_start t0 t1 k) (view a k) (view a' k)"
  using assms
proof (induction rule: hook_step.induct)
  case (h_tick d a)
  let ?a' = "a\<lparr>h_now := h_now a + d\<rparr>"
  show ?case
  proof (cases "lapsed ?a' k = lapsed a k")
    case True
    then have "view ?a' k = view a k" by (intro view_eqI) (cases k; simp)+
    then show ?thesis ..
  next
    case False
    have "lapsed ?a' k"
      using False isExpired_mono [of "h_now a" _ "h_now a + d"] h_tick
      by (cases k) (auto split: option.splits)
    then have "view ?a' k = (view a k)\<lparr>d_lapsed := True\<rparr>" by (cases k) (auto simp: view_def)
    then show ?thesis using d_lapse by metis
  qed
next
  case (h_event a e scope new ns')
  then show ?case by (intro event_view) auto
next
  case (h_done a scope)
  then show ?case by (simp add: done_view)
next
  case (h_subscribe a i m)
  then have none: "d_model (view a (SendHandshake i)) = None" by (simp add: view_def)
  from h_subscribe show ?case
    using d_create [OF none, of t0 "isExpired (h_now a) m"]
    by (intro view_step_at [where ?k0.0 = "SendHandshake i"]) (auto simp: view_def)
next
  case (h_expired i a m)
  then have "d_scheduled (view a (SendHandshake i))" "d_lapsed (view a (SendHandshake i))"
    by (simp_all add: view_def)
  from d_drop [OF this, of t0] show ?case
    by (intro view_step_at [where ?k0.0 = "SendHandshake i"]) (auto simp: view_done_task)
next
  case (h_handshake i a m secret)
  let ?c = "HandshakeSent i (s_triesLeft m) secret" and ?k = "SendHandshake i"
  have "d_scheduled (view a ?k)" "d_model (view a ?k) = Some (s_status m = Inactive, call_tries ?c)"
    using h_handshake by (simp_all add: view_def)
  from d_send [OF this, of t0] view_sent [of ?c ?k a] show ?case
    by (intro view_step_at [where ?k0.0 = ?k]) auto
next
  case (h_notify i a n m)
  let ?c = "NotificationSent i (n_triesLeft n)" and ?k = "SendNotification i"
  have "d_scheduled (view a ?k)" "d_model (view a ?k) = Some (n_status n = NActive, call_tries ?c)"
    using h_notify by (simp_all add: view_def)
  from d_send [OF this, of t1] view_sent [of ?c ?k a] show ?case
    by (intro view_step_at [where ?k0.0 = ?k]) auto
next
  case (h_no_secret i a m)
  let ?k = "SendHandshake i"
  have "d_scheduled (view a ?k)" "d_model (view a ?k) = Some (s_status m = Inactive, s_triesLeft m)"
    using h_no_secret by (simp_all add: view_def)
  from d_unsent [OF this, of t0] h_no_secret show ?case
    by (intro view_step_at [where ?k0.0 = ?k]) (auto simp: view_sub_failed view_done_task)
next
  case (h_orphaned i a n m)
  let ?k = "SendNotification i"
  have "d_scheduled (view a ?k)" "d_model (view a ?k) = Some (n_status n = NActive, n_triesLeft n)"
    using h_orphaned by (simp_all add: view_def)
  from d_give_up [OF this, of t1] show ?case
    by (intro view_step_at [where ?k0.0 = ?k]) (auto simp: view_def)
next
  case (h_confirmed i tries secret a m)
  let ?c = "HandshakeSent i tries secret" and ?k = "SendHandshake i"
  have c: "?c \<in> d_awaited (view a ?k)" "d_model (view a ?k) = Some (s_status m = Inactive, s_triesLeft m)"
    using h_confirmed by (simp_all add: view_def)
  have "view (a\<lparr>h_calls := h_calls a - {?c}, h_subs := (h_subs a)(i \<mapsto> m\<lparr>s_status := Active\<rparr>)\<rparr>) ?k
      = (view a ?k)\<lparr>d_awaited := d_awaited (view a ?k) - {?c}, d_model := Some (False, s_triesLeft m)\<rparr>"
    using h_confirmed by (auto simp: view_def)
  with d_settle [OF c, of t0] show ?case by (intro view_step_at [where ?k0.0 = ?k]) auto
next
  case (h_acknowledged i tries a n)
  let ?c = "NotificationSent i tries" and ?k = "SendNotification i"
  have c: "?c \<in> d_awaited (view a ?k)" "d_model (view a ?k) = Some (n_status n = NActive, n_triesLeft n)"
    using h_acknowledged by (simp_all add: view_def)
  have "view (a\<lparr>h_calls := h_calls a - {?c}, h_notifs := (h_notifs a)(i \<mapsto> n\<lparr>n_status := Acknowledged\<rparr>)\<rparr>) ?k
      = (view a ?k)\<lparr>d_awaited := d_awaited (view a ?k) - {?c}, d_model := Some (False, n_triesLeft n)\<rparr>"
    using h_acknowledged by (auto simp: view_def)
  with d_settle [OF c, of t1] show ?case by (intro view_step_at [where ?k0.0 = ?k]) auto
next
  case (h_refused i tries secret a m)
  let ?c = "HandshakeSent i tries secret" and ?k = "SendHandshake i"
  have "?c \<in> d_awaited (view a ?k)" using h_refused by (simp add: view_def)
  from d_refuse [OF this, of t0] h_refused show ?case
    by (intro view_step_at [where ?k0.0 = ?k]) (auto simp: view_sub_failed view_answered)
next
  case (h_failed i tries a n)
  let ?c = "NotificationSent i tries" and ?k = "SendNotification i"
  have "?c \<in> d_awaited (view a ?k)" using h_failed by (simp add: view_def)
  from d_refuse [OF this, of t1] h_failed show ?case
    by (intro view_step_at [where ?k0.0 = ?k]) (auto simp: view_notif_failed view_answered)
qed

section \<open>Changes of status\<close>

abbreviation duties_ok :: "hooks \<Rightarrow> bool" where
  "duties_ok a \<equiv> (\<forall>k. duty_ok (view a k))"

lemma duties_ok_step: "hook_step t0 t1 a a' \<Longrightarrow> subs_ids a \<Longrightarrow> duties_ok a \<Longrightarrow> duties_ok a'"
  using view_step duty_ok_step by metis

lemma scheduled_sub:
  "duties_ok a \<Longrightarrow> SendHandshake i \<in> h_tasks a \<Longrightarrow> h_subs a i = Some m \<Longrightarrow> s_status m = Inactive"
  by (drule spec [of _ "SendHandshake i"]) (auto simp: duty_ok_def view_def)

lemma scheduled_notif:
  "duties_ok a \<Longrightarrow> SendNotification i \<in> h_tasks a \<Longrightarrow> h_notifs a i = Some n \<Longrightarrow> n_status n = NActive"
  by (drule spec [of _ "SendNotification i"]) (auto simp: duty_ok_def view_def)

lemma awaited_sub:
  assumes "duties_ok a" "HandshakeSent i t x \<in> h_calls a" "h_subs a i = Some m"
  shows "s_status m = Inactive"
proof -
  have "HandshakeSent i t x \<in> d_awaited (view a (SendHandshake i))" using assms(2) by (simp add: view_def)
  from duty_awaited(2) [OF assms(1) [rule_format] this] assms(3) show ?thesis by (simp add: view_def)
qed

lemma awaited_notif:
  assumes "duties_ok a" "NotificationSent i t \<in> h_calls a" "h_notifs a i = Some n"
  shows "n_status n = NActive"
proof -
  have "NotificationSent i t \<in> d_awaited (view a (SendNotification i))" using assms(2) by (simp add: view_def)
  from duty_awaited(2) [OF assms(1) [rule_format] this] assms(3) show ?thesis by (simp add: view_def)
qed

lemmas wanted = scheduled_sub scheduled_notif awaited_sub awaited_notif

text \<open>
  A subscription leaves its first status once; rejected and done are final, and an active subscription
  can only be done. A notification leaves its first status once. What they are for never changes.
\<close>

definition sub_evolves :: "subscription \<Rightarrow> subscription \<Rightarrow> bool" where
  "sub_evolves m m' \<longleftrightarrow>
     (s_status m' = s_status m \<or> s_status m = Inactive \<or> s_status m = Active \<and> s_status m' = Done)
   \<and> s_id m' = s_id m \<and> s_eventType m' = s_eventType m \<and> s_eventScope m' = s_eventScope m
   \<and> s_webhookUrl m' = s_webhookUrl m \<and> s_createdAt m' = s_createdAt m \<and> s_ttl m' = s_ttl m
   \<and> s_legitimacySecret m' = s_legitimacySecret m \<and> s_nextNonce m \<le> s_nextNonce m'"

definition notif_evolves :: "notification \<Rightarrow> notification \<Rightarrow> bool" where
  "notif_evolves n n' \<longleftrightarrow> (n_status n' = n_status n \<or> n_status n = NActive)
   \<and> n_id n' = n_id n \<and> n_subscriptionId n' = n_subscriptionId n \<and> n_eventId n' = n_eventId n
   \<and> n_nonce n' = n_nonce n \<and> n_createdAt n' = n_createdAt n"

lemma evolves_refl [simp]: "sub_evolves m m" "notif_evolves n n"
  by (simp_all add: sub_evolves_def notif_evolves_def)

lemma subs_step:
  assumes "hook_step t0 t1 a a'" "subs_ids a" "duties_ok a" "h_subs a i = Some m"
  shows "\<exists>m'. h_subs a' i = Some m' \<and> sub_evolves m m'"
  using assms
proof (induction rule: hook_step.induct)
  case (h_done a scope)
  then show ?case
    using interested_sub [OF _ h_done.prems(1)] by (auto simp: finish_def sub_evolves_def)
qed (auto simp: sub_failed_def bump_def sub_evolves_def dest: wanted)

lemma notifs_step:
  assumes "hook_step t0 t1 a a'" "duties_ok a" "h_notifs a j = Some n"
  shows "\<exists>n'. h_notifs a' j = Some n' \<and> notif_evolves n n'"
  using assms
proof (induction rule: hook_step.induct)
  case (h_event a e scope new ns')
  then have "new j = None" by (auto simp: notified_def split: option.splits dest!: spec [of _ j])
  with h_event show ?case by (auto simp: notified_def split: option.splits dest!: spec [of _ j])
qed (auto simp: notif_failed_def notif_evolves_def dest: wanted)

section \<open>References\<close>

definition refs_ok :: "hooks \<Rightarrow> bool" where
  "refs_ok a \<longleftrightarrow> (\<forall>j n. h_notifs a j = Some n \<longrightarrow> (\<exists>m. h_subs a (n_subscriptionId n) = Some m
     \<and> h_events a (n_eventId n) = Some (s_eventScope m) \<and> s_status m \<in> {Active, Done}))"

lemma old_or_new:
  assumes "hook_step t0 t1 a a'" "h_notifs a' j = Some n"
  shows "(\<exists>n0. h_notifs a j = Some n0 \<and> n_subscriptionId n = n_subscriptionId n0
      \<and> n_eventId n = n_eventId n0 \<and> n_nonce n = n_nonce n0)
    \<or> (\<exists>scope s. h_notifs a j = None \<and> scope \<noteq> '''' \<and> s \<in> interested a scope \<and> n_subscriptionId n = s_id s
      \<and> n_nonce n = s_nextNonce s \<and> h_events a (n_eventId n) = None \<and> h_events a' (n_eventId n) = Some scope)"
  using assms
proof (induction rule: hook_step.induct)
  case (h_event a e scope new ns')
  show ?case
  proof (cases "new j")
    case None
    with h_event show ?thesis by (auto simp: notified_def split: option.splits dest!: spec [of _ j])
  next
    case (Some s)
    then have "s \<in> interested a scope" using h_event.hyps(4) by (auto simp: ran_def)
    with Some h_event show ?thesis
      by (intro disjI2 exI [of _ scope] exI [of _ s])
        (auto simp: notified_def split: option.splits dest!: spec [of _ j])
  qed
qed (auto simp: notif_failed_def split: if_splits)

lemma events_step: "hook_step t0 t1 a a' \<Longrightarrow> h_events a e = Some x \<Longrightarrow> h_events a' e = Some x"
  by (induction rule: hook_step.induct) (auto simp: sub_failed_def notif_failed_def)

lemma refs_ok_step:
  assumes st: "hook_step t0 t1 a a'" and ok: "subs_ids a" "duties_ok a" "refs_ok a"
  shows "refs_ok a'"
  unfolding refs_ok_def
proof (intro allI impI)
  fix j n assume n: "h_notifs a' j = Some n"
  have evolve: "\<exists>m'. h_subs a' i = Some m' \<and> s_eventScope m' = s_eventScope m \<and> s_status m' \<in> {Active, Done}"
    if "h_subs a i = Some m" "s_status m \<in> {Active, Done}" for i m
    using subs_step [OF st ok(1,2) that(1)] that(2) by (auto simp: sub_evolves_def)
  from old_or_new [OF st n] consider
    n0 where "h_notifs a j = Some n0" "n_subscriptionId n = n_subscriptionId n0" "n_eventId n = n_eventId n0"
  | scope s where "scope \<noteq> ''''" "s \<in> interested a scope" "n_subscriptionId n = s_id s" "h_events a' (n_eventId n) = Some scope"
    by blast
  then show "\<exists>m. h_subs a' (n_subscriptionId n) = Some m \<and> h_events a' (n_eventId n) = Some (s_eventScope m)
      \<and> s_status m \<in> {Active, Done}"
  proof cases
    case 1
    then obtain m where m: "h_subs a (n_subscriptionId n) = Some m" "h_events a (n_eventId n) = Some (s_eventScope m)"
      "s_status m \<in> {Active, Done}" using ok(3) by (auto simp: refs_ok_def)
    from evolve [OF m(1,3)] events_step [OF st m(2)] show ?thesis by auto
  next
    case 2
    have s: "h_subs a (s_id s) = Some s" "s_status s \<in> {Active, Done}"
      using interested_sub [OF 2(2) ok(1)] by simp_all
    have "s_eventScope s = scope" using 2(1,2) by (simp add: interested_def)
    with evolve [OF s(1,2)] 2(3,4) show ?thesis by auto
  qed
qed

section \<open>Nonces\<close>

text \<open>The number of a notification within its subscription, and the next number of a subscription.\<close>

definition numbered :: "hooks \<Rightarrow> nat \<Rightarrow> (nat \<times> nat) option" where
  "numbered a j = map_option (\<lambda>n. (n_subscriptionId n, n_nonce n)) (h_notifs a j)"

definition next_nonce :: "hooks \<Rightarrow> nat \<Rightarrow> nat option" where
  "next_nonce a i = map_option s_nextNonce (h_subs a i)"

definition nonces_ok :: "hooks \<Rightarrow> bool" where
  "nonces_ok a \<longleftrightarrow>
     (\<forall>j j' p. numbered a j = Some p \<longrightarrow> numbered a j' = Some p \<longrightarrow> j = j')
   \<and> (\<forall>j i x. numbered a j = Some (i, x) \<longrightarrow> (\<exists>z. next_nonce a i = Some z \<and> 1 \<le> x \<and> x < z))
   \<and> (\<forall>i x z. next_nonce a i = Some z \<longrightarrow> 1 \<le> x \<longrightarrow> x < z \<longrightarrow> (\<exists>j. numbered a j = Some (i, x)))
   \<and> (\<forall>i z. next_nonce a i = Some z \<longrightarrow> 1 \<le> z)"

lemma nonces_ok_cong:
  "(\<And>j. numbered a' j = numbered a j) \<Longrightarrow> (\<And>i. next_nonce a' i = next_nonce a i) \<Longrightarrow> nonces_ok a' = nonces_ok a"
  by (simp add: nonces_ok_def)

text \<open>Numbering one more notification of each subscription of a set.\<close>

lemma nonces_ok_extend:
  assumes ok: "nonces_ok a"
    and old: "\<And>j. j \<notin> dom new \<Longrightarrow> numbered a' j = numbered a j"
    and new: "\<And>j i. new j = Some i \<Longrightarrow> numbered a j = None \<and> numbered a' j = map_option (Pair i) (next_nonce a i)"
    and nonce: "\<And>i. next_nonce a' i = (if i \<in> ran new then map_option Suc (next_nonce a i) else next_nonce a i)"
    and inj: "inj_on new (dom new)" and known: "ran new \<subseteq> dom (next_nonce a)"
  shows "nonces_ok a'"
proof -
  from ok have U: "\<And>j j' p. numbered a j = Some p \<Longrightarrow> numbered a j' = Some p \<Longrightarrow> j = j'"
    and R: "\<And>j i x. numbered a j = Some (i, x) \<Longrightarrow> \<exists>z. next_nonce a i = Some z \<and> 1 \<le> x \<and> x < z"
    and S: "\<And>i x z. next_nonce a i = Some z \<Longrightarrow> 1 \<le> x \<Longrightarrow> x < z \<Longrightarrow> \<exists>j. numbered a j = Some (i, x)"
    and P: "\<And>i z. next_nonce a i = Some z \<Longrightarrow> 1 \<le> z"
    unfolding nonces_ok_def by blast+
  have split: "new j = None \<and> numbered a j = Some (i, x) \<or> new j = Some i \<and> next_nonce a i = Some x"
    if "numbered a' j = Some (i, x)" for j i x
    using that old [of j] new [of j] by (cases "new j") (auto simp: domIff)
  have keep: "new j = None" if "numbered a j = Some p" for j p
    using that new [of j] by (cases "new j") auto
  show ?thesis
    unfolding nonces_ok_def
  proof (intro conjI allI impI)
    fix j j' p assume "numbered a' j = Some p" "numbered a' j' = Some p"
    then have p: "numbered a' j = Some (fst p, snd p)" "numbered a' j' = Some (fst p, snd p)" by simp_all
    have old_new: False if "numbered a k = Some (i, x)" "next_nonce a i = Some x" for k i x
      using R [OF that(1)] that(2) by simp
    from split [OF p(1)] split [OF p(2)] show "j = j'"
    proof (elim disjE conjE)
      assume "new j = Some (fst p)" "new j' = Some (fst p)"
      then show "j = j'" by (intro inj_onD [OF inj]) auto
    qed (use U old_new in \<open>blast+\<close>)
  next
    fix j i x assume "numbered a' j = Some (i, x)"
    from split [OF this] show "\<exists>z. next_nonce a' i = Some z \<and> 1 \<le> x \<and> x < z"
      using R P by (fastforce simp: nonce ran_def)
  next
    fix i x z assume z: "next_nonce a' i = Some z" "1 \<le> x" "x < z"
    show "\<exists>j. numbered a' j = Some (i, x)"
    proof (cases "next_nonce a i = Some x")
      case True
      with z have "i \<in> ran new" by (auto simp: nonce split: if_splits)
      then obtain j where j: "new j = Some i" by (auto simp: ran_def)
      with new [OF j] True show ?thesis by auto
    next
      case False
      with z obtain y where "next_nonce a i = Some y" "x < y" by (auto simp: nonce less_Suc_eq split: if_splits)
      with S z(2) obtain j where j: "numbered a j = Some (i, x)" by blast
      with old [of j] keep [OF j] show ?thesis by auto
    qed
  next
    fix i z assume "next_nonce a' i = Some z"
    then show "1 \<le> z" using P by (auto simp: nonce split: if_splits)
  qed
qed

lemma nonces_ok_step:
  assumes "hook_step t0 t1 a a'" "subs_ids a" "nonces_ok a"
  shows "nonces_ok a'"
  using assms
proof (induction rule: hook_step.induct)
  case (h_subscribe a i m)
  let ?a' = "a\<lparr>h_subs := (h_subs a)(i \<mapsto> m), h_tasks := insert (SendHandshake i) (h_tasks a)\<rparr>"
  have n: "numbered ?a' = numbered a" by (rule ext) (simp add: numbered_def)
  have z: "next_nonce ?a' = (next_nonce a)(i \<mapsto> 1)" "next_nonce a i = None"
    using h_subscribe by (auto simp: next_nonce_def)
  have "numbered a j \<noteq> Some (i, x)" for j x
  proof
    assume "numbered a j = Some (i, x)"
    with h_subscribe.prems(2) have "\<exists>y. next_nonce a i = Some y" unfolding nonces_ok_def by blast
    with z(2) show False by simp
  qed
  with h_subscribe.prems(2) show ?case
    unfolding nonces_ok_def n z(1) using z(2) by (auto split: if_splits)
next
  case (h_event a e scope new ns')
  let ?I = "s_id ` interested a scope"
  let ?a' = "a\<lparr>h_events := (h_events a)(e \<mapsto> scope), h_subs := bump ?I (h_subs a), h_notifs := ns',
      h_tasks := h_tasks a \<union> SendNotification ` dom new\<rparr>"
  let ?new = "\<lambda>j. map_option s_id (new j)"
  have ran: "ran ?new = ?I" using h_event.hyps(4) by (force simp: ran_def)
  have known: "next_nonce a (s_id s) = Some (s_nextNonce s)" if "s \<in> interested a scope" for s
    using interested_sub [OF that h_event.prems(1)] by (simp add: next_nonce_def)
  show ?case
  proof (rule nonces_ok_extend [OF h_event.prems(2)])
    show "numbered ?a' j = numbered a j" if "j \<notin> dom ?new" for j
      using that h_event.hyps(5) by (auto simp: numbered_def notified_def dom_def split: option.splits dest!: spec [of _ j])
    show "numbered a j = None \<and> numbered ?a' j = map_option (Pair i) (next_nonce a i)" if "?new j = Some i" for j i
    proof -
      from that obtain s where s: "new j = Some s" "i = s_id s" by auto
      then have "s \<in> interested a scope" using h_event.hyps(4) by (auto simp: ran_def)
      with known s h_event.hyps(5) show ?thesis
        by (auto simp: numbered_def notified_def split: option.splits dest!: spec [of _ j])
    qed
    show "next_nonce ?a' i = (if i \<in> ran ?new then map_option Suc (next_nonce a i) else next_nonce a i)" for i
      unfolding ran by (simp add: next_nonce_def bump_def option.map_comp comp_def)
    show "inj_on ?new (dom ?new)" using h_event.hyps(3) by (simp add: dom_def)
    show "ran ?new \<subseteq> dom (next_nonce a)" unfolding ran using known by auto
  qed
next
  case (h_done a scope)
  have "next_nonce (a\<lparr>h_subs := finish I (h_subs a)\<rparr>) i = next_nonce a i" for i I
    by (cases "h_subs a i") (auto simp: next_nonce_def finish_def)
  with h_done.prems(2) show ?case by (subst nonces_ok_cong) (simp_all add: numbered_def)
qed (auto elim!: iffD1 [OF nonces_ok_cong, rotated 2] simp: numbered_def next_nonce_def sub_failed_def notif_failed_def)

section \<open>The invariant of the specification\<close>

definition hook_ok :: "hooks \<Rightarrow> bool" where
  "hook_ok a \<longleftrightarrow> subs_ids a \<and> duties_ok a \<and> refs_ok a \<and> nonces_ok a"

lemma hook_ok_step:
  assumes st: "hook_step t0 t1 a a'" and ok: "hook_ok a"
  shows "hook_ok a'"
proof -
  from ok have a: "subs_ids a" "duties_ok a" "refs_ok a" "nonces_ok a" by (simp_all add: hook_ok_def)
  from subs_ids_step [OF st a(1)] duties_ok_step [OF st a(1,2)] refs_ok_step [OF st a(1-3)]
    nonces_ok_step [OF st a(1,4)]
  show ?thesis by (simp add: hook_ok_def)
qed

lemma hook_ok_steps: "(hook_step t0 t1)\<^sup>*\<^sup>* a a' \<Longrightarrow> hook_ok a \<Longrightarrow> hook_ok a'"
  by (induction rule: rtranclp_induct) (auto intro: hook_ok_step)

text \<open>The budget of every delivery, when both numbers of tries are positive.\<close>

lemma budget_step:
  assumes "hook_step (Num k) t1 a a'" "hook_ok a" "1 \<le> k" "budget_ok k (view a (SendHandshake i))"
  shows "budget_ok k (view a' (SendHandshake i))"
  using view_step [OF assms(1), of "SendHandshake i"] assms budget_ok_step by (auto simp: hook_ok_def)

lemma nbudget_step:
  assumes "hook_step t0 (Num k) a a'" "hook_ok a" "1 \<le> k" "budget_ok k (view a (SendNotification i))"
  shows "budget_ok k (view a' (SendNotification i))"
  using view_step [OF assms(1), of "SendNotification i"] assms budget_ok_step by (auto simp: hook_ok_def)

lemma budget_steps:
  assumes "(hook_step (Num k) t1)\<^sup>*\<^sup>* a a'" "hook_ok a" "1 \<le> k" "budget_ok k (view a (SendHandshake i))"
  shows "budget_ok k (view a' (SendHandshake i))"
  using assms by (induction rule: rtranclp_induct) (auto intro: budget_step hook_ok_steps)

lemma nbudget_steps:
  assumes "(hook_step t0 (Num k))\<^sup>*\<^sup>* a a'" "hook_ok a" "1 \<le> k" "budget_ok k (view a (SendNotification i))"
  shows "budget_ok k (view a' (SendNotification i))"
  using assms by (induction rule: rtranclp_induct) (auto intro: nbudget_step hook_ok_steps)

lemma duty_scheduled_not_awaited:
  assumes "duties_ok a" "call_task c \<in> h_tasks a"
  shows "c \<notin> h_calls a"
proof
  assume "c \<in> h_calls a"
  then have "c \<in> d_awaited (view a (call_task c))" by (simp add: view_def)
  moreover have "d_awaited (view a (call_task c)) = {}"
    using assms(1) [rule_format, of "call_task c"] assms(2) by (simp add: duty_ok_def view_def)
  ultimately show False by simp
qed

section \<open>Over any number of steps\<close>

lemma sub_evolves_trans: "sub_evolves m m' \<Longrightarrow> sub_evolves m' m'' \<Longrightarrow> sub_evolves m m''"
  by (auto simp: sub_evolves_def)

lemma notif_evolves_trans: "notif_evolves n n' \<Longrightarrow> notif_evolves n' n'' \<Longrightarrow> notif_evolves n n''"
  by (auto simp: notif_evolves_def)

lemma subs_steps:
  assumes "(hook_step t0 t1)\<^sup>*\<^sup>* a a'" "hook_ok a" "h_subs a i = Some m"
  shows "\<exists>m'. h_subs a' i = Some m' \<and> sub_evolves m m'"
  using assms(1)
proof (induction rule: rtranclp_induct)
  case base
  with assms(3) show ?case by auto
next
  case (step b a')
  then obtain m' where m': "h_subs b i = Some m'" "sub_evolves m m'" by blast
  have "hook_ok b" using step.hyps(1) assms(2) by (rule hook_ok_steps)
  then have "subs_ids b" "duties_ok b" by (simp_all add: hook_ok_def)
  from subs_step [OF step.hyps(2) this m'(1)] m'(2) show ?case using sub_evolves_trans by blast
qed

lemma notifs_steps:
  assumes "(hook_step t0 t1)\<^sup>*\<^sup>* a a'" "hook_ok a" "h_notifs a j = Some n"
  shows "\<exists>n'. h_notifs a' j = Some n' \<and> notif_evolves n n'"
  using assms(1)
proof (induction rule: rtranclp_induct)
  case base
  with assms(3) show ?case by auto
next
  case (step b a')
  then obtain n' where n': "h_notifs b j = Some n'" "notif_evolves n n'" by blast
  have "hook_ok b" using step.hyps(1) assms(2) by (rule hook_ok_steps)
  then have "duties_ok b" by (simp add: hook_ok_def)
  from notifs_step [OF step.hyps(2) this n'(1)] n'(2) show ?case using notif_evolves_trans by blast
qed

text \<open>With a number of tries that is not a number, no handshake is ever given up.\<close>

definition never_rejected :: "hooks \<Rightarrow> bool" where
  "never_rejected a \<longleftrightarrow> (\<forall>i m. h_subs a i = Some m \<longrightarrow> s_triesLeft m = NaN \<and> s_status m \<noteq> SubRejected)"

lemma awaited_tries:
  assumes "duties_ok a" "HandshakeSent i t x \<in> h_calls a" "h_subs a i = Some m"
  shows "t = s_triesLeft m"
proof -
  have "HandshakeSent i t x \<in> d_awaited (view a (SendHandshake i))" using assms(2) by (simp add: view_def)
  from duty_awaited(2) [OF assms(1) [rule_format] this] assms(3) show ?thesis by (simp add: view_def)
qed

lemma never_rejected_step:
  assumes "hook_step NaN t1 a a'" "hook_ok a" "never_rejected a"
  shows "never_rejected a'"
  using assms
proof (induction rule: hook_step.induct)
  case (h_refused i tries secret a m)
  then have "tries = NaN" using awaited_tries [of a i tries secret m] by (auto simp: hook_ok_def never_rejected_def)
  with h_refused show ?case by (auto simp: never_rejected_def sub_failed_def)
qed (auto simp: never_rejected_def sub_failed_def notif_failed_def bump_def finish_def split: if_splits)

lemma never_rejected_steps:
  "(hook_step NaN t1)\<^sup>*\<^sup>* a a' \<Longrightarrow> hook_ok a \<Longrightarrow> never_rejected a \<Longrightarrow> never_rejected a'"
  by (induction rule: rtranclp_induct) (auto intro: never_rejected_step hook_ok_steps)

text \<open>An empty specification state.\<close>

lemma hook_ok_empty:
  assumes "h_subs a = Map.empty" "h_notifs a = Map.empty" "h_tasks a = {}" "h_calls a = {}"
  shows "hook_ok a"
proof -
  have "duty_ok (view a k)" for k using assms by (cases k) (simp_all add: duty_ok_def view_def)
  with assms show ?thesis
    by (simp add: hook_ok_def subs_ids_def refs_ok_def nonces_ok_def numbered_def next_nonce_def)
qed

lemma budget_ok_empty:
  assumes "h_subs a = Map.empty" "h_notifs a = Map.empty" "h_sent a = []" "1 \<le> k"
  shows "budget_ok k (view a t)"
  using assms by (cases t) (simp_all add: budget_ok_def view_def)

lemma exactly_one_duty:
  assumes "duty_ok (view a k)" "model_of a k = Some (True, t)" "\<not> lapsed a k"
  shows "(k \<in> h_tasks a) \<noteq> (k \<in> call_task ` h_calls a)"
proof -
  have aw: "k \<in> call_task ` h_calls a \<longleftrightarrow> d_awaited (view a k) \<noteq> {}" by (auto simp: view_def)
  have "d_scheduled (view a k) = (k \<in> h_tasks a)" "d_model (view a k) = Some (True, t)" "\<not> d_lapsed (view a k)"
    using assms(2,3) by (simp_all add: view_def)
  with assms(1) show ?thesis unfolding aw duty_ok_def by blast
qed

end
