(* ===== verification/Webhooks.thy ===== *)
theory Webhooks
  imports Transactions Webhook_Spec
begin

text \<open>
  The webhook subsystem as a whole. \<open>wstep\<close> interleaves what can happen to the process: time passes, a
  timeout that is due fires, a request is answered or fails, a transaction is submitted with a
  callback, the SDK reports a new status of a tracked transaction.

  \<open>hook_step\<close> is the abstract specification: subscriptions, notifications and events as maps, the
  scheduled tasks as a set, no timers, names, counters or stores. Every step of the process is matched by
  steps of the specification (\<open>refinement\<close>, in the locale \<open>webhooks\<close>, so for every pair of
  repositories that keep the contracts), and the invariants are proved on the specification:
  references, the one-to-one correspondence between live models and their scheduled or pending
  request, nonces, legal changes of status, the number of handshakes sent.
\<close>

section \<open>Steps of the process\<close>

fun run_task :: "('s, 'n, 'r) deps \<Rightarrow> string option \<Rightarrow> task \<Rightarrow> (exn, ('s, 'n, 'r) world, unit) eff" where
  "run_task D rnd (SendHandshake i) = sendHandshake D rnd i"
| "run_task D rnd (SendNotification i) = sendNotification D i"

text \<open>A timeout that fires: the runtime drops the timer and calls the wrapped callback.\<close>

definition fire :: "('s, 'n, 'r) deps \<Rightarrow> string option \<Rightarrow> task timer \<Rightarrow> ('s, 'n, 'r) world \<Rightarrow> ('s, 'n, 'r) world" where
  "fire D rnd t w =
     snd (wrapCallback (\<lambda>n. on_sched (deleteTimeout (registry_of D) n)) (t_name t) (t_type t)
            (run_task D rnd (t_task t)) (w\<lparr>sched := take_timer t (sched w)\<rparr>))"

fun answered :: "('s, 'n, 'r) deps \<Rightarrow> pending_call \<Rightarrow> http_outcome \<Rightarrow> (exn, ('s, 'n, 'r) world, unit) eff" where
  "answered D (HandshakeSent i tries secret) outcome = handshakeAnswered D i tries secret outcome"
| "answered D (NotificationSent i tries) outcome = notificationAnswered D i tries outcome"

text \<open>The pending callback goes on inside the \<open>try\<close> of its wrapper.\<close>

definition answer ::
    "('s, 'n, 'r) deps \<Rightarrow> pending_call \<Rightarrow> http_outcome \<Rightarrow> ('s, 'n, 'r) world \<Rightarrow> ('s, 'n, 'r) world" where
  "answer D c outcome w = snd (tryCatch (answered D c outcome) (\<lambda>err. ret ()) w)"

text \<open>The services schedule timeouts only, so only timeouts fire.\<close>

inductive wstep :: "('s, 'n, 'r) deps \<Rightarrow> ('s, 'n, 'r) world \<Rightarrow> ('s, 'n, 'r) world \<Rightarrow> bool"
  for D :: "('s, 'n, 'r) deps" where
  tick: "0 \<le> d \<Longrightarrow> wstep D w (w\<lparr>now := now w + d\<rparr>)"
| timeout: "t \<in> set (pending (sched w)) \<Longrightarrow> t_due t \<le> now w \<Longrightarrow> wstep D w (fire D rnd t w)"
| reply: "inflight w = cs @ c # ds \<Longrightarrow> wstep D w (answer D c outcome (w\<lparr>inflight := cs @ ds\<rparr>))"
| submitted: "wstep D w (snd (submitAndSubscribe D tx url (legitimacySecret D) tx' proposal w))"
| status: "i \<in> set (listening (txs w)) \<Longrightarrow> wstep D w (snd (handleTransactionStatusChange D i tx w))"

inductive reachable :: "('s, 'n, 'r) deps \<Rightarrow> ('s, 'n, 'r) world \<Rightarrow> ('s, 'n, 'r) world \<Rightarrow> bool"
  for D :: "('s, 'n, 'r) deps" and w0 :: "('s, 'n, 'r) world" where
  start: "reachable D w0 w0"
| step: "reachable D w0 w \<Longrightarrow> wstep D w w' \<Longrightarrow> reachable D w0 w'"

text \<open>The process when it starts, with the in-memory repositories.\<close>

definition initial_world :: "'r \<Rightarrow> int \<Rightarrow> (local_subs, local_notifs, 'r) world" where
  "initial_world r time = \<lparr>now = time, sched = \<lparr>registry = r, timers = [], nextHandle = 0\<rparr>,
     subs = empty_store, notifs = empty_store, events = \<lparr>ev_currentId = 0, ev_entries = []\<rparr>,
     txs = \<lparr>ts_currentId = 0, ts_entries = Map.empty, listening = []\<rparr>, outbox = [], inflight = []\<rparr>"

section \<open>The process refines the specification\<close>

fun task_name :: "task \<Rightarrow> string" where
  "task_name (SendHandshake i) = handshakeTimeoutId i"
| "task_name (SendNotification i) = notificationTimeoutId i"

lemma task_name_inject [simp]: "task_name k = task_name k' \<longleftrightarrow> k = k'"
  by (cases k; cases k') simp_all

definition events_ok :: "event_store \<Rightarrow> bool" where
  "events_ok es \<longleftrightarrow> (\<forall>k e. int_get (ev_entries es) k = Some e \<longrightarrow> e_id e = k \<and> k \<le> ev_currentId es)"

definition txs_ok :: "transaction_store \<Rightarrow> bool" where
  "txs_ok ts \<longleftrightarrow> (\<forall>i. i \<in> set (listening ts) \<longleftrightarrow> ts_entries ts i \<noteq> None)
     \<and> (\<forall>i \<in> set (listening ts). i \<le> ts_currentId ts)"

context webhooks
begin

definition hooks_of :: "('s, 'n, 'r) world \<Rightarrow> hooks" where
  "hooks_of w = \<lparr>h_now = now w, h_subs = subs_of (subs w), h_notifs = notifs_of (notifs w),
     h_events = (\<lambda>k. map_option e_scope (int_get (ev_entries (events w)) k)),
     h_tasks = t_task ` set (pending (sched w)), h_calls = set (inflight w), h_sent = map fst (outbox w)\<rparr>"

definition proc_ok :: "('s, 'n, 'r) world \<Rightarrow> bool" where
  "proc_ok w \<longleftrightarrow> subs_ok (subs w) \<and> notifs_ok (notifs w) \<and> sched_ok (registry_of D) (sched w)
     \<and> (\<forall>t \<in> set (pending (sched w)). t_name t = task_name (t_task t))
     \<and> events_ok (events w) \<and> txs_ok (txs w) \<and> distinct (inflight w)"

abbreviation spec_step :: "hooks \<Rightarrow> hooks \<Rightarrow> bool" where
  "spec_step \<equiv> hook_step (sub_maxTries D) (init_tries (notif_maxTries D))"

lemma hooks_of_sel [simp]:
  "h_now (hooks_of w) = now w" "h_subs (hooks_of w) = subs_of (subs w)"
  "h_notifs (hooks_of w) = notifs_of (notifs w)" "h_tasks (hooks_of w) = t_task ` set (pending (sched w))"
  "h_calls (hooks_of w) = set (inflight w)" "h_sent (hooks_of w) = map fst (outbox w)"
  "h_events (hooks_of w) = (\<lambda>k. map_option e_scope (int_get (ev_entries (events w)) k))"
  by (simp_all add: hooks_of_def)

lemma name_free:
  assumes "proc_ok w" "k \<notin> h_tasks (hooks_of w)"
  shows "task_name k \<notin> t_name ` set (pending (sched w))"
  using assms by (auto simp: proc_ok_def)

lemma proc_ok_parts:
  assumes "proc_ok w"
  shows "subs_ok (subs w)" "notifs_ok (notifs w)" "sched_ok (registry_of D) (sched w)"
  using assms by (simp_all add: proc_ok_def)

text \<open>A failed attempt, on the process and on the specification.\<close>

lemma sub_retry_refines:
  assumes reg: "registry_ok (registry_of D)" and ok: "proc_ok w" and m: "subs_of (subs w) i = Some m"
    and free: "SendHandshake i \<notin> h_tasks (hooks_of w)"
  obtains w' where "subscriptions_retry D i tries w = (Inr (), w')" "proc_ok w'"
    "hooks_of w' = sub_failed i m tries (hooks_of w)"
proof (cases "js_eq tries (Num 0)")
  case True
  from refl proc_ok_parts(1) [OF ok] m True obtain st where
    "subscriptions_retry D i tries w = (Inr (), w\<lparr>subs := st\<rparr>)" "subs_ok st"
    "subs_of st = (subs_of (subs w))(i \<mapsto> m\<lparr>s_status := SubRejected, s_triesLeft := tries\<rparr>)"
    by (rule S.retry_exhausted)
  with ok True show ?thesis
    by (intro that [of "w\<lparr>subs := st\<rparr>"]) (auto simp: proc_ok_def hooks_of_def sub_failed_def)
next
  case False
  have free': "handshakeTimeoutId i \<notin> t_name ` set (pending (sched w))"
    using name_free [OF ok free] by simp
  from refl proc_ok_parts(1) [OF ok] m False reg proc_ok_parts(3) [OF ok] free' obtain st sc t where
    "subscriptions_retry D i tries w = (Inr (), w\<lparr>subs := st, sched := sc\<rparr>)"
    "subs_ok st" "subs_of st = (subs_of (subs w))(i \<mapsto> m\<lparr>s_triesLeft := tries\<rparr>)"
    "sched_ok (registry_of D) sc" "pending sc = pending (sched w) @ [t]"
    "t_name t = handshakeTimeoutId i" "t_task t = SendHandshake i"
    "t_due t = now w + timer_delay (sub_retryInterval D)"
    by (rule S.retry_again)
  with ok False show ?thesis
    by (intro that [of "w\<lparr>subs := st, sched := sc\<rparr>"]) (auto simp: proc_ok_def hooks_of_def sub_failed_def)
qed

lemma notif_retry_refines:
  assumes reg: "registry_ok (registry_of D)" and ok: "proc_ok w" and n: "notifs_of (notifs w) i = Some n"
    and free: "SendNotification i \<notin> h_tasks (hooks_of w)"
  obtains w' where "notifications_retry D i tries w = (Inr (), w')" "proc_ok w'"
    "hooks_of w' = notif_failed i n tries (hooks_of w)"
proof (cases "js_eq tries (Num 0)")
  case True
  from refl proc_ok_parts(2) [OF ok] n True obtain st where
    "notifications_retry D i tries w = (Inr (), w\<lparr>notifs := st\<rparr>)" "notifs_ok st"
    "notifs_of st = (notifs_of (notifs w))(i \<mapsto> n\<lparr>n_triesLeft := tries, n_status := NFailed\<rparr>)"
    by (rule N.retry_exhausted)
  with ok True show ?thesis
    by (intro that [of "w\<lparr>notifs := st\<rparr>"]) (auto simp: proc_ok_def hooks_of_def notif_failed_def)
next
  case False
  have free': "notificationTimeoutId i \<notin> t_name ` set (pending (sched w))"
    using name_free [OF ok free] by simp
  from refl proc_ok_parts(2) [OF ok] n False reg proc_ok_parts(3) [OF ok] free' obtain st sc t where
    "notifications_retry D i tries w = (Inr (), w\<lparr>notifs := st, sched := sc\<rparr>)"
    "notifs_ok st" "notifs_of st = (notifs_of (notifs w))(i \<mapsto> n\<lparr>n_triesLeft := tries\<rparr>)"
    "sched_ok (registry_of D) sc" "pending sc = pending (sched w) @ [t]"
    "t_name t = notificationTimeoutId i" "t_task t = SendNotification i"
    "t_due t = now w + timer_delay (notif_retryInterval D)"
    by (rule N.retry_again)
  with ok False show ?thesis
    by (intro that [of "w\<lparr>notifs := st, sched := sc\<rparr>"]) (auto simp: proc_ok_def hooks_of_def notif_failed_def)
qed

text \<open>A timeout fires: its task is no longer scheduled, and its callback runs.\<close>

lemma fire_refines:
  assumes reg: "registry_ok (registry_of D)" and ok: "proc_ok w" and t: "t \<in> set (pending (sched w))"
  obtains w1 where "fire D rnd t w = snd (tryCatch (run_task D rnd (t_task t)) (\<lambda>_. ret ()) w1)"
    "proc_ok w1" "hooks_of w1 = done_task (t_task t) (hooks_of w)"
proof -
  from reg proc_ok_parts(3) [OF ok] t obtain sc where sc:
    "deleteTimeout (registry_of D) (t_name t) (take_timer t (sched w)) = (Inr (), sc)"
    "sched_ok (registry_of D) sc" "pending sc = filter (\<lambda>u. u \<noteq> t) (pending (sched w))"
    "t_name t \<notin> t_name ` set (pending sc)" by (rule fire_timeout)
  have ty: "t_type t = Timeout" using t by (simp add: set_pending)
  have run: "fire D rnd t w = snd (tryCatch (run_task D rnd (t_task t)) (\<lambda>_. ret ()) (w\<lparr>sched := sc\<rparr>))"
    by (simp add: fire_def wrapCallback_def ty andThen_def zoom_def sc(1))
  have same: "u = t" if "u \<in> set (pending (sched w))" "t_task u = t_task t" for u
  proof -
    have "t_name u = t_name t" using ok that t by (simp add: proc_ok_def)
    with pending_name_inj [OF proc_ok_parts(3) [OF ok] that(1) t] show ?thesis by simp
  qed
  have "t_task ` set (pending sc) = t_task ` set (pending (sched w)) - {t_task t}"
    using same by (auto simp: sc(3))
  with run ok sc(2,3) show thesis
    by (intro that [of "w\<lparr>sched := sc\<rparr>"]) (auto simp: proc_ok_def hooks_of_def)
qed

lemma scheduled_model:
  assumes "hook_ok (hooks_of w)" "t \<in> set (pending (sched w))"
  shows "t_task t = SendHandshake i \<Longrightarrow> \<exists>m. subs_of (subs w) i = Some m"
    and "t_task t = SendNotification i \<Longrightarrow> \<exists>n. notifs_of (notifs w) i = Some n"
proof -
  have "t_task t \<in> h_tasks (hooks_of w)" using assms(2) by simp
  then have "d_scheduled (view (hooks_of w) (t_task t))" by (simp add: view_def)
  moreover have "duty_ok (view (hooks_of w) (t_task t))" using assms(1) by (simp add: hook_ok_def)
  ultimately have "\<exists>p. model_of (hooks_of w) (t_task t) = Some p" by (auto simp: duty_ok_def view_def)
  then show "t_task t = SendHandshake i \<Longrightarrow> \<exists>m. subs_of (subs w) i = Some m"
    "t_task t = SendNotification i \<Longrightarrow> \<exists>n. notifs_of (notifs w) i = Some n" by auto
qed

lemma fire_handshake:
  assumes reg: "registry_ok (registry_of D)" and ok: "proc_ok w" "hook_ok (hooks_of w)"
    and t: "t \<in> set (pending (sched w))" "t_task t = SendHandshake i"
  shows "proc_ok (fire D rnd t w) \<and> spec_step (hooks_of w) (hooks_of (fire D rnd t w))"
proof -
  from reg ok(1) t(1) obtain w1 where w1: "fire D rnd t w = snd (tryCatch (run_task D rnd (t_task t)) (\<lambda>_. ret ()) w1)"
    "proc_ok w1" "hooks_of w1 = done_task (t_task t) (hooks_of w)" by (rule fire_refines)
  obtain m where m: "subs_of (subs w) i = Some m" using scheduled_model(1) [OF ok(2) t] by blast
  have "h_subs (hooks_of w1) i = Some m" "h_now (hooks_of w1) = now w" by (simp_all add: w1(3) m)
  then have m1: "subs_of (subs w1) i = Some m" "now w1 = now w" by simp_all
  have task: "SendHandshake i \<in> h_tasks (hooks_of w)" "h_subs (hooks_of w) i = Some m"
    using t m by (auto intro: rev_image_eqI)
  note find = S.findOne_known [OF refl proc_ok_parts(1) [OF w1(2)] m1(1)]
  show ?thesis
  proof (cases "isExpired (now w) m")
    case True
    have "fire D rnd t w = w1"
      by (simp add: w1(1) t(2) sendHandshake_def tryCatch_def andThen_def find m1(2) True eff_simps)
    with w1(2,3) t(2) h_expired [OF task] True show ?thesis by simp
  next
    case False
    show ?thesis
    proof (cases rnd)
      case None
      have "SendHandshake i \<notin> h_tasks (hooks_of w1)" by (simp only: w1(3) t(2)) simp
      from reg w1(2) m1(1) this obtain w2 where w2:
        "subscriptions_retry D i (js_sub (s_triesLeft m) (Num 1)) w1 = (Inr (), w2)" "proc_ok w2"
        "hooks_of w2 = sub_failed i m (js_sub (s_triesLeft m) (Num 1)) (hooks_of w1)"
        by (rule sub_retry_refines)
      have "fire D rnd t w = w2"
        unfolding w1(1) unfolding t(2) None
        by (simp add: sendHandshake_def tryCatch_def andThen_def find m1(2) False w2(1) eff_simps)
      with w2(2,3) w1(3) t(2) h_no_secret [OF task] False show ?thesis by simp
    next
      case (Some secret)
      let ?c = "HandshakeSent i (s_triesLeft m) secret"
      let ?w2 = "w1\<lparr>outbox := outbox w1 @ [(SendHandshake i, HandshakePost (s_webhookUrl m) secret)],
          inflight := inflight w1 @ [?c]\<rparr>"
      have "fire D rnd t w = ?w2"
        unfolding w1(1) unfolding t(2) Some
        by (simp add: sendHandshake_def tryCatch_def andThen_def find m1(2) False eff_simps)
      moreover have "hooks_of ?w2 = (done_task (SendHandshake i) (hooks_of w))\<lparr>
          h_calls := insert ?c (h_calls (hooks_of w)), h_sent := h_sent (hooks_of w) @ [SendHandshake i]\<rparr>"
        using w1(3) t(2) by (simp add: hooks_of_def)
      moreover have "?c \<notin> set (inflight w1)"
      proof
        assume "?c \<in> set (inflight w1)"
        then have "?c \<in> h_calls (hooks_of w)" using w1(3) by (simp add: hooks_of_def)
        with ok(2) task(1) duty_scheduled_not_awaited show False by (fastforce simp: hook_ok_def)
      qed
      ultimately show ?thesis
        using w1(2) h_handshake [OF task] False by (simp add: proc_ok_def)
    qed
  qed
qed

lemma fire_notification:
  assumes reg: "registry_ok (registry_of D)" and ok: "proc_ok w" "hook_ok (hooks_of w)"
    and t: "t \<in> set (pending (sched w))" "t_task t = SendNotification i"
  shows "proc_ok (fire D rnd t w) \<and> spec_step (hooks_of w) (hooks_of (fire D rnd t w))"
proof -
  from reg ok(1) t(1) obtain w1 where w1: "fire D rnd t w = snd (tryCatch (run_task D rnd (t_task t)) (\<lambda>_. ret ()) w1)"
    "proc_ok w1" "hooks_of w1 = done_task (t_task t) (hooks_of w)" by (rule fire_refines)
  obtain n where n: "notifs_of (notifs w) i = Some n" using scheduled_model(2) [OF ok(2) t] by blast
  then have "h_notifs (hooks_of w) i = Some n" by simp
  with ok(2) obtain m where m': "h_subs (hooks_of w) (n_subscriptionId n) = Some m"
    "h_events (hooks_of w) (n_eventId n) = Some (s_eventScope m)" unfolding hook_ok_def refs_ok_def by blast
  then have m: "subs_of (subs w) (n_subscriptionId n) = Some m" by simp
  have "h_notifs (hooks_of w1) i = Some n" "h_subs (hooks_of w1) (n_subscriptionId n) = Some m"
    "h_now (hooks_of w1) = now w" "h_events (hooks_of w1) (n_eventId n) = Some (s_eventScope m)"
    using m' by (simp_all add: w1(3) n)
  then obtain e where at1: "notifs_of (notifs w1) i = Some n" "subs_of (subs w1) (n_subscriptionId n) = Some m"
    "now w1 = now w" "int_get (ev_entries (events w1)) (n_eventId n) = Some e" by auto
  have task: "SendNotification i \<in> h_tasks (hooks_of w)" "h_notifs (hooks_of w) i = Some n"
    "h_subs (hooks_of w) (n_subscriptionId n) = Some m"
    using t n m by (auto intro: rev_image_eqI)
  note find = N.findOne_known [OF refl proc_ok_parts(2) [OF w1(2)] at1(1)]
    S.findOne_known [OF refl proc_ok_parts(1) [OF w1(2)] at1(2)]
  note run = sendNotification_def tryCatch_def andThen_def find at1(3,4) events_findOne_def
  show ?thesis
  proof (cases "isExpired (now w) m")
    case True
    let ?u = "no_nchange\<lparr>v_status := Some Orphaned\<rparr>"
    from refl proc_ok_parts(2) [OF w1(2)] at1(1) obtain st where st:
      "updateNotification D i ?u w1 = (Inr (spread_notification n ?u), w1\<lparr>notifs := st\<rparr>)"
      "notifs_ok st" "notifs_of st = (notifs_of (notifs w1))(i \<mapsto> spread_notification n ?u)"
      by (rule N.updateNotification_known)
    have sp: "spread_notification n ?u = n\<lparr>n_status := Orphaned\<rparr>"
      by (simp add: spread_notification_def no_nchange_def)
    have "fire D rnd t w = w1\<lparr>notifs := st\<rparr>"
      unfolding w1(1) t(2) by (simp add: run True st(1) eff_simps)
    moreover have "hooks_of (w1\<lparr>notifs := st\<rparr>) = (done_task (SendNotification i) (hooks_of w))\<lparr>
        h_notifs := (h_notifs (hooks_of w))(i \<mapsto> n\<lparr>n_status := Orphaned\<rparr>)\<rparr>"
      using w1(3) t(2) st(3) by (simp add: hooks_of_def sp)
    ultimately show ?thesis
      using w1(2) st(2) h_orphaned [OF task] True by (simp add: proc_ok_def)
  next
    case False
    let ?c = "NotificationSent i (n_triesLeft n)"
    define post where "post = NotificationPost (s_webhookUrl m)
      (assembleNotificationPayload (n_subscriptionId n) (e_type e) (e_scope e) (e_payload e) (n_nonce n))
      (signPayload D (assembleNotificationPayload (n_subscriptionId n) (e_type e) (e_scope e) (e_payload e)
         (n_nonce n)) (s_legitimacySecret m))"
    let ?w2 = "w1\<lparr>outbox := outbox w1 @ [(SendNotification i, post)], inflight := inflight w1 @ [?c]\<rparr>"
    have "fire D rnd t w = ?w2"
      unfolding w1(1) t(2) by (simp add: run False Let_def post_def eff_simps)
    moreover have "hooks_of ?w2 = (done_task (SendNotification i) (hooks_of w))\<lparr>
        h_calls := insert ?c (h_calls (hooks_of w)), h_sent := h_sent (hooks_of w) @ [SendNotification i]\<rparr>"
      using w1(3) t(2) by (simp add: hooks_of_def)
    moreover have "?c \<notin> set (inflight w1)"
    proof
      assume "?c \<in> set (inflight w1)"
      then have "?c \<in> h_calls (hooks_of w)" using w1(3) by (simp add: hooks_of_def)
      with ok(2) task(1) duty_scheduled_not_awaited show False by (fastforce simp: hook_ok_def)
    qed
    ultimately show ?thesis
      using w1(2) h_notify [OF task] False by (simp add: proc_ok_def)
  qed
qed

end

context webhooks
begin

text \<open>The answer to a request: it is no longer awaited, and the rest of its callback runs.\<close>

lemma awaited_model:
  assumes "hook_ok (hooks_of w)" "c \<in> set (inflight w)"
  shows "c = HandshakeSent i tries secret \<Longrightarrow>
      (\<exists>m. subs_of (subs w) i = Some m) \<and> SendHandshake i \<notin> h_tasks (hooks_of w)"
    and "c = NotificationSent i tries \<Longrightarrow>
      (\<exists>n. notifs_of (notifs w) i = Some n) \<and> SendNotification i \<notin> h_tasks (hooks_of w)"
proof -
  have du: "duties_ok (hooks_of w)" using assms(1) by (simp add: hook_ok_def)
  have c: "c \<in> h_calls (hooks_of w)" using assms(2) by simp
  then have "c \<in> d_awaited (view (hooks_of w) (call_task c))" by (simp add: view_def)
  from duty_awaited(2) [OF du [rule_format] this]
  have mo: "model_of (hooks_of w) (call_task c) = Some (True, call_tries c)" by (simp add: view_def)
  have nt: "call_task c \<notin> h_tasks (hooks_of w)" using duty_scheduled_not_awaited [OF du] c by blast
  show "(\<exists>m. subs_of (subs w) i = Some m) \<and> SendHandshake i \<notin> h_tasks (hooks_of w)"
    if "c = HandshakeSent i tries secret" using mo nt that by auto
  show "(\<exists>n. notifs_of (notifs w) i = Some n) \<and> SendNotification i \<notin> h_tasks (hooks_of w)"
    if "c = NotificationSent i tries" using mo nt that by auto
qed

lemma answer_handshake:
  assumes reg: "registry_ok (registry_of D)" and ok: "proc_ok w" "hook_ok (hooks_of w)"
    and c: "inflight w = cs @ c # ds" "c = HandshakeSent i tries secret"
  shows "proc_ok (answer D c outcome (w\<lparr>inflight := cs @ ds\<rparr>))
    \<and> spec_step (hooks_of w) (hooks_of (answer D c outcome (w\<lparr>inflight := cs @ ds\<rparr>)))"
proof -
  let ?w1 = "w\<lparr>inflight := cs @ ds\<rparr>"
  have inw: "c \<in> set (inflight w)" using c(1) by simp
  obtain m where m: "subs_of (subs w) i = Some m" and nt: "SendHandshake i \<notin> h_tasks (hooks_of w)"
    using awaited_model(1) [OF ok(2) inw c(2)] by blast
  have ok1: "proc_ok ?w1" using ok(1) c(1) by (simp add: proc_ok_def)
  have ab: "hooks_of ?w1 = (hooks_of w)\<lparr>h_calls := h_calls (hooks_of w) - {c}\<rparr>"
    using ok(1) c(1) by (auto simp: hooks_of_def proc_ok_def)
  have m1: "subs_of (subs ?w1) i = Some m" "SendHandshake i \<notin> h_tasks (hooks_of ?w1)" using m nt by simp_all
  have call: "HandshakeSent i tries secret \<in> h_calls (hooks_of w)" "h_subs (hooks_of w) i = Some m"
    using inw c(2) m by simp_all
  show ?thesis
  proof (cases "\<exists>r. outcome = Some r \<and> r_status r = 200 \<and> r_headers r HANDSHAKE_HEADER_KEY = Some secret")
    case True
    then obtain r where r: "outcome = Some r" "r_status r = 200" "r_headers r HANDSHAKE_HEADER_KEY = Some secret"
      by blast
    from refl proc_ok_parts(1) [OF ok1] m1(1) r(2,3) obtain st where st:
      "handshakeAnswered D i tries secret (Some r) ?w1 = (Inr (), ?w1\<lparr>subs := st\<rparr>)"
      "subs_ok st" "subs_of st = (subs_of (subs ?w1))(i \<mapsto> m\<lparr>s_status := Active\<rparr>)"
      by (rule S.handshake_confirmed)
    have "answer D c outcome ?w1 = ?w1\<lparr>subs := st\<rparr>"
      by (simp add: answer_def c(2) r(1) tryCatch_def st(1))
    moreover have "hooks_of (?w1\<lparr>subs := st\<rparr>) = (hooks_of w)\<lparr>h_calls := h_calls (hooks_of w) - {c},
        h_subs := (h_subs (hooks_of w))(i \<mapsto> m\<lparr>s_status := Active\<rparr>)\<rparr>"
      using ab st(3) by (simp add: hooks_of_def)
    ultimately show ?thesis
      using ok1 st(2) h_confirmed [OF call] c(2) by (simp add: proc_ok_def)
  next
    case False
    then have refused: "handshakeAnswered D i tries secret outcome ?w1
        = subscriptions_retry D i (js_sub tries (Num 1)) ?w1"
      by (intro handshake_refused) blast
    from reg ok1 m1 obtain w2 where w2: "subscriptions_retry D i (js_sub tries (Num 1)) ?w1 = (Inr (), w2)"
      "proc_ok w2" "hooks_of w2 = sub_failed i m (js_sub tries (Num 1)) (hooks_of ?w1)"
      by (rule sub_retry_refines)
    have "answer D c outcome ?w1 = w2"
      by (simp add: answer_def c(2) tryCatch_def refused w2(1))
    with w2(2,3) h_refused [OF call] ab c(2) show ?thesis by simp
  qed
qed

lemma answer_notification:
  assumes reg: "registry_ok (registry_of D)" and ok: "proc_ok w" "hook_ok (hooks_of w)"
    and c: "inflight w = cs @ c # ds" "c = NotificationSent i tries"
  shows "proc_ok (answer D c outcome (w\<lparr>inflight := cs @ ds\<rparr>))
    \<and> spec_step (hooks_of w) (hooks_of (answer D c outcome (w\<lparr>inflight := cs @ ds\<rparr>)))"
proof -
  let ?w1 = "w\<lparr>inflight := cs @ ds\<rparr>"
  have inw: "c \<in> set (inflight w)" using c(1) by simp
  obtain n where n: "notifs_of (notifs w) i = Some n" and nt: "SendNotification i \<notin> h_tasks (hooks_of w)"
    using awaited_model(2) [OF ok(2) inw c(2)] by blast
  have ok1: "proc_ok ?w1" using ok(1) c(1) by (simp add: proc_ok_def)
  have ab: "hooks_of ?w1 = (hooks_of w)\<lparr>h_calls := h_calls (hooks_of w) - {c}\<rparr>"
    using ok(1) c(1) by (auto simp: hooks_of_def proc_ok_def)
  have n1: "notifs_of (notifs ?w1) i = Some n" "SendNotification i \<notin> h_tasks (hooks_of ?w1)" using n nt by simp_all
  have call: "NotificationSent i tries \<in> h_calls (hooks_of w)" "h_notifs (hooks_of w) i = Some n"
    using inw c(2) n by simp_all
  show ?thesis
  proof (cases "\<exists>r. outcome = Some r \<and> r_status r = 200")
    case True
    then obtain r where r: "outcome = Some r" "r_status r = 200" by blast
    from refl proc_ok_parts(2) [OF ok1] n1(1) r(2) obtain st where st:
      "notificationAnswered D i tries (Some r) ?w1 = (Inr (), ?w1\<lparr>notifs := st\<rparr>)"
      "notifs_ok st" "notifs_of st = (notifs_of (notifs ?w1))(i \<mapsto> n\<lparr>n_status := Acknowledged\<rparr>)"
      by (rule N.acknowledged)
    have "answer D c outcome ?w1 = ?w1\<lparr>notifs := st\<rparr>"
      by (simp add: answer_def c(2) r(1) tryCatch_def st(1))
    moreover have "hooks_of (?w1\<lparr>notifs := st\<rparr>) = (hooks_of w)\<lparr>h_calls := h_calls (hooks_of w) - {c},
        h_notifs := (h_notifs (hooks_of w))(i \<mapsto> n\<lparr>n_status := Acknowledged\<rparr>)\<rparr>"
      using ab st(3) by (simp add: hooks_of_def)
    ultimately show ?thesis
      using ok1 st(2) h_acknowledged [OF call] c(2) by (simp add: proc_ok_def)
  next
    case False
    then have refused: "notificationAnswered D i tries outcome ?w1
        = notifications_retry D i (js_sub tries (Num 1)) ?w1"
      by (intro notification_refused) blast
    from reg ok1 n1 obtain w2 where w2: "notifications_retry D i (js_sub tries (Num 1)) ?w1 = (Inr (), w2)"
      "proc_ok w2" "hooks_of w2 = notif_failed i n (js_sub tries (Num 1)) (hooks_of ?w1)"
      by (rule notif_retry_refines)
    have "answer D c outcome ?w1 = w2"
      by (simp add: answer_def c(2) tryCatch_def refused w2(1))
    with w2(2,3) h_failed [OF call] ab c(2) show ?thesis by simp
  qed
qed

end

lemma event_type_single: "(ty :: event_type) = ty'"
  by (cases ty; cases ty') simp

lemma inj_map_of_zip:
  assumes "length ks = length vs" "distinct ks" "distinct (map f vs)"
  shows "inj_on (\<lambda>k. map_option f (map_of (zip ks vs) k)) (dom (map_of (zip ks vs)))"
proof (rule inj_onI)
  fix k k' assume k: "k \<in> dom (map_of (zip ks vs))" "k' \<in> dom (map_of (zip ks vs))"
    and eq: "map_option f (map_of (zip ks vs) k) = map_option f (map_of (zip ks vs) k')"
  then obtain p q where "p < length ks" "ks ! p = k" "q < length ks" "ks ! q = k'"
    using assms(1) by (auto simp: in_set_conv_nth)
  with assms(1,2) eq have "map f vs ! p = map f vs ! q" by (auto simp: map_of_zip_nth)
  with \<open>p < length ks\<close> \<open>q < length ks\<close> assms(1,3) have "p = q"
    by (simp add: nth_eq_iff_index_eq del: nth_map)
  with \<open>ks ! p = k\<close> \<open>ks ! q = k'\<close> show "k = k'" by simp
qed

context webhooks
begin

lemma unscheduled_sub:
  assumes "hook_ok (hooks_of w)" "subs_of (subs w) i = None"
  shows "SendHandshake i \<notin> h_tasks (hooks_of w)"
proof
  assume "SendHandshake i \<in> h_tasks (hooks_of w)"
  then obtain t where "t \<in> set (pending (sched w))" "t_task t = SendHandshake i" by auto
  from scheduled_model(1) [OF assms(1) this] assms(2) show False by simp
qed

lemma unscheduled_notif:
  assumes "hook_ok (hooks_of w)" "notifs_of (notifs w) i = None"
  shows "SendNotification i \<notin> h_tasks (hooks_of w)"
proof
  assume "SendNotification i \<in> h_tasks (hooks_of w)"
  then obtain t where "t \<in> set (pending (sched w))" "t_task t = SendNotification i" by auto
  from scheduled_model(2) [OF assms(1) this] assms(2) show False by simp
qed

text \<open>A submission with a callback.\<close>

lemma submit_refines:
  assumes reg: "registry_ok (registry_of D)" and ok: "proc_ok w" "hook_ok (hooks_of w)"
    and w'_def: "w' = snd (submitAndSubscribe D tx url secret tx' proposal w)"
  shows "proc_ok w' \<and> spec_step (hooks_of w) (hooks_of w')"
proof -
  let ?k = "Suc (ts_currentId (txs w))"
  let ?ts = "(txs w)\<lparr>ts_currentId := ?k, listening := listening (txs w) @ [?k],
      ts_entries := (ts_entries (txs w))(?k \<mapsto> tx)\<rparr>"
  let ?w1 = "w\<lparr>txs := ?ts\<rparr>"
  have ok1: "proc_ok ?w1" using ok(1) by (auto simp: proc_ok_def txs_ok_def le_SucI)
  have fresh: "handshakeTimeoutId i \<notin> t_name ` set (pending (sched ?w1))" if "subs_of (subs ?w1) i = None" for i
    using name_free [OF ok(1) unscheduled_sub [OF ok(2)], of i] that by simp
  from refl proc_ok_parts(1) [OF ok1] reg proc_ok_parts(3) [OF ok1] fresh obtain i st sc t where c:
    "createSubscription D TransactionUpdate (nat_to_string ?k) url secret ?w1 = (Inr i, ?w1\<lparr>subs := st, sched := sc\<rparr>)"
    "subs_of (subs ?w1) i = None" "subs_ok st"
    "subs_of st = (subs_of (subs ?w1))(i \<mapsto> \<lparr>s_eventType = TransactionUpdate, s_eventScope = nat_to_string ?k,
        s_webhookUrl = url, s_createdAt = now ?w1, s_ttl = sub_ttl D, s_status = Inactive,
        s_triesLeft = sub_maxTries D, s_nextNonce = 0, s_legitimacySecret = secret, s_id = i\<rparr>)"
    "sched_ok (registry_of D) sc" "pending sc = pending (sched ?w1) @ [t]"
    "t_name t = handshakeTimeoutId i" "t_task t = SendHandshake i"
    by (rule S.createSubscription_fresh)
  let ?w2 = "?w1\<lparr>subs := st, sched := sc\<rparr>" and ?u = "no_change\<lparr>u_nextNonce := Some 1\<rparr>"
  let ?m = "\<lparr>s_eventType = TransactionUpdate, s_eventScope = nat_to_string ?k,
        s_webhookUrl = url, s_createdAt = now w, s_ttl = sub_ttl D, s_status = Inactive,
        s_triesLeft = sub_maxTries D, s_nextNonce = 0, s_legitimacySecret = secret, s_id = i\<rparr>"
  have ok2: "subs_ok (subs ?w2)" and m2: "subs_of (subs ?w2) i = Some ?m" using c(3,4) by simp_all
  from refl ok2 m2 obtain st' where st': "updateSubscription D i ?u ?w2 = (Inr (spread_subscription ?m ?u), ?w2\<lparr>subs := st'\<rparr>)"
    "subs_ok st'" "subs_of st' = (subs_of (subs ?w2))(i \<mapsto> spread_subscription ?m ?u)"
    by (rule S.updateSubscription_known)
  have sp: "spread_subscription ?m ?u = ?m\<lparr>s_nextNonce := 1\<rparr>"
    by (simp add: spread_subscription_def no_change_def)
  have w': "w' = ?w2\<lparr>subs := st'\<rparr>"
    unfolding w'_def submitAndSubscribe_def submitAndSubscribe_in_def subscribeTransaction_def
    by (simp add: andThen_def addListener_def Let_def c(1) st'(1) eff_simps split: sum.split del: One_nat_def)
  have "proc_ok w'" using ok1 c(5-8) st'(2) by (auto simp: w' proc_ok_def)
  moreover have "hooks_of w' = (hooks_of w)\<lparr>h_subs := (h_subs (hooks_of w))(i \<mapsto> ?m\<lparr>s_nextNonce := 1\<rparr>),
      h_tasks := insert (SendHandshake i) (h_tasks (hooks_of w))\<rparr>"
    using st'(3) c(4,6,8) by (simp add: w' hooks_of_def sp del: One_nat_def)
  ultimately show ?thesis using h_subscribe [of "hooks_of w" i "?m\<lparr>s_nextNonce := 1\<rparr>"] c(2) by simp
qed

text \<open>An event, with its notifications.\<close>

lemma subscribers_interested:
  "e_scope event = scope \<Longrightarrow> subscribers w event = interested (hooks_of w) scope"
  by (auto simp: subscribers_def interested_def matches_def event_filters_def event_type_single)

lemma createEvent_refines:
  assumes reg: "registry_ok (registry_of D)" and ok: "proc_ok w" "hook_ok (hooks_of w)" and scope: "scope \<noteq> ''''"
  obtains e w' where "createEvent D TransactionUpdate scope payload w = (Inr e, w')" "proc_ok w'"
    "spec_step (hooks_of w) (hooks_of w')" "txs w' = txs w"
proof -
  let ?k = "Suc (ev_currentId (events w))"
  define event where "event = \<lparr>e_id = ?k, e_type = TransactionUpdate, e_scope = scope, e_createdAt = now w,
      e_payload = payload, e_processed = False\<rparr>"
  let ?es = "(events w)\<lparr>ev_currentId := ?k, ev_entries := int_put ?k event (ev_entries (events w))\<rparr>"
  let ?w1 = "w\<lparr>events := ?es\<rparr>"
  have none: "int_get (ev_entries (events w)) ?k = None"
  proof (cases "int_get (ev_entries (events w)) ?k")
    case (Some e)
    with ok(1) have "?k \<le> ev_currentId (events w)" unfolding proc_ok_def events_ok_def by blast
    then show ?thesis by simp
  qed
  have fresh: "notificationTimeoutId i \<notin> t_name ` set (pending (sched ?w1))" if "notifs_of (notifs ?w1) i = None" for i
    using name_free [OF ok(1) unscheduled_notif [OF ok(2)], of i] that by simp
  have ok1: "subs_ok (subs ?w1)" "notifs_ok (notifs ?w1)" "sched_ok (registry_of D) (sched ?w1)"
    using proc_ok_parts [OF ok(1)] by simp_all
  from createEventNotifications_effect [OF ok1(1,2) reg ok1(3) fresh, of event] obtain ss ids st nt sc ts where c:
    "createEventNotifications D event ?w1 = (Inr (), ?w1\<lparr>subs := st, notifs := nt, sched := sc\<rparr>)"
    "set ss = subscribers ?w1 event" "distinct (map s_id ss)" "subs_ok st" "notifs_ok nt" "sched_ok (registry_of D) sc"
    "subs_of st = bumped (s_id ` subscribers ?w1 event) (subs_of (subs ?w1))"
    "pending sc = pending (sched ?w1) @ ts" "map t_name ts = map notificationTimeoutId ids"
    "map t_task ts = map SendNotification ids" "distinct ids" "set ids \<inter> dom (notifs_of (notifs ?w1)) = {}"
    "\<forall>i. i \<notin> set ids \<longrightarrow> notifs_of nt i = notifs_of (notifs ?w1) i"
    "list_all2 (\<lambda>i s. \<exists>c. notifs_of nt i = Some (N.stored D i c (notification_for event s))) ids ss"
    by blast
  let ?new = "map_of (zip ids ss)"
  have len: "length ids = length ss" using c(14) by (simp add: list_all2_lengthD)
  have int: "subscribers ?w1 event = interested (hooks_of w) scope"
    by (subst subscribers_interested [of event scope]) (simp_all add: event_def interested_def)
  have stored: "\<exists>d. notifs_of nt j = Some (N.stored D j d (notification_for event s))" if "?new j = Some s" for j s
    using c(14) that by (auto simp: list_all2_iff dest!: map_of_SomeD)
  have notified: "notified (init_tries (notif_maxTries D)) ?k ?new (h_notifs (hooks_of w)) (notifs_of nt)"
    unfolding notified_def
  proof (intro allI, split option.split, intro conjI allI impI)
    fix j assume "?new j = None"
    then have "j \<notin> set ids" using len by (simp add: map_of_zip_is_None)
    with c(13) show "notifs_of nt j = h_notifs (hooks_of w) j" by simp
  next
    fix j s assume j: "?new j = Some s"
    then have "j \<in> set ids" by (auto dest!: map_of_SomeD set_zip_leftD)
    with c(12) show "h_notifs (hooks_of w) j = None" by (auto simp: disjoint_iff)
    from stored [OF j] show "\<exists>n. notifs_of nt j = Some n \<and> n_subscriptionId n = s_id s \<and> n_eventId n = ?k \<and>
        n_nonce n = s_nextNonce s \<and> n_triesLeft n = init_tries (notif_maxTries D) \<and> n_status n = NActive"
      by (auto simp: N.stored_def notification_for_def event_def)
  qed
  let ?w2 = "?w1\<lparr>subs := st, notifs := nt, sched := sc\<rparr>"
  let ?es' = "?es\<lparr>ev_entries := int_put ?k (event\<lparr>e_processed := True\<rparr>) (ev_entries ?es)\<rparr>"
  have run: "createEvent D TransactionUpdate scope payload w = (Inr ?k, ?w2\<lparr>events := ?es'\<rparr>)"
    using c(1) by (simp add: createEvent_def andThen_def eff_simps event_def markEventAsProcessed_def store_simps)
  have "proc_ok (?w2\<lparr>events := ?es'\<rparr>)"
  proof -
    have "map t_name ts = map task_name (map t_task ts)" unfolding c(9,10) by simp
    then have "t_name t = task_name (t_task t)" if "t \<in> set ts" for t using that by (simp add: comp_def)
    moreover have "events_ok ?es'" using ok(1) by (fastforce simp: proc_ok_def events_ok_def store_simps event_def)
    ultimately show ?thesis using ok(1) c(4-6,8) by (auto simp: proc_ok_def)
  qed
  moreover have "hooks_of (?w2\<lparr>events := ?es'\<rparr>) = (hooks_of w)\<lparr>h_events := (h_events (hooks_of w))(?k \<mapsto> scope),
       h_subs := bump (s_id ` interested (hooks_of w) scope) (h_subs (hooks_of w)), h_notifs := notifs_of nt,
       h_tasks := h_tasks (hooks_of w) \<union> SendNotification ` dom ?new\<rparr>"
  proof -
    have "t_task ` set ts = SendNotification ` set ids" using c(10) by (metis set_map)
    then show ?thesis
      using c(7,8) len int by (auto simp: hooks_of_def bumped_def bump_def store_simps event_def image_Un)
  qed
  moreover have "inj_on (\<lambda>j. map_option s_id (?new j)) (dom ?new)" by (rule inj_map_of_zip [OF len c(11,3)])
  ultimately show thesis
    using h_event [of "hooks_of w" ?k scope ?new "init_tries (notif_maxTries D)" "notifs_of nt"] none notified scope c(2) int len c(11)
    by (intro that [OF run]) (simp_all add: ran_map_of_zip)
qed

text \<open>The end of a transaction.\<close>

lemma markSubsAsDone_refines:
  assumes ok: "proc_ok w" "subs_ids (hooks_of w)"
  obtains w' where "markSubsAsDone D i w = (Inr (), w')" "proc_ok w'"
    "hooks_of w' = (hooks_of w)\<lparr>h_subs := finish (s_id ` interested (hooks_of w) (nat_to_string i)) (h_subs (hooks_of w))\<rparr>"
    "txs w' = txs w"
proof -
  let ?f = "\<lparr>f_eventType = Some TransactionUpdate, f_eventScope = Some (nat_to_string i),
      f_status = Some Active, f_excludeExpired = True\<rparr>"
  from refl proc_ok_parts(1) [OF ok(1)] obtain ss where ss: "subscriptions_findAll D ?f w = (Inr ss, w)"
    "distinct (map s_id ss)" "set ss = {s \<in> ran (subs_of (subs w)). matches (now w) ?f s}"
    by (rule S.findAll_service)
  have set: "set ss = interested (hooks_of w) (nat_to_string i)"
    by (auto simp: ss(3) interested_def matches_def event_type_single)
  have "set (map s_id ss) \<subseteq> dom (subs_of (subs w))"
    using interested_sub [OF _ ok(2)] by (auto simp: set)
  from refl proc_ok_parts(1) [OF ok(1)] this obtain st where st: "batchMarkAsDone D (map s_id ss) w = (Inr (), w\<lparr>subs := st\<rparr>)"
    "subs_ok st" "subs_of st = (\<lambda>i. if i \<in> set (map s_id ss)
        then map_option (\<lambda>m. m\<lparr>s_status := Done\<rparr>) (subs_of (subs w) i) else subs_of (subs w) i)"
    by (rule S.batchMarkAsDone_known)
  have "markSubsAsDone D i w = (Inr (), w\<lparr>subs := st\<rparr>)"
    by (simp add: markSubsAsDone_def andThen_def ss(1) st(1))
  then show thesis
    by (rule that) (use ok(1) st(2,3) set in \<open>auto simp: proc_ok_def hooks_of_def finish_def\<close>)
qed

text \<open>
  A status change of a tracked transaction: the handler never reaches its \<open>catch\<close> once the payload is
  assembled, and after a terminal status the transaction is no longer tracked and its active
  subscriptions are done.
\<close>

lemma status_refines:
  assumes reg: "registry_ok (registry_of D)" and ok: "proc_ok w" "hook_ok (hooks_of w)"
    and i: "i \<in> set (listening (txs w))" and p: "assemblePayload tx None = Inr payload"
  obtains a w' where "handleTransactionStatusChange D i tx w = (Inr (), w')" "proc_ok w'"
    "spec_step (hooks_of w) a"
    "hooks_of w' = (if terminal (tx_status tx)
       then a\<lparr>h_subs := finish (s_id ` interested a (nat_to_string i)) (h_subs a)\<rparr> else a)"
    "txs w' = (if terminal (tx_status tx)
       then (txs w)\<lparr>listening := filter (\<lambda>j. j \<noteq> i) (listening (txs w)), ts_entries := (ts_entries (txs w))(i := None)\<rparr>
       else txs w)"
proof -
  have "nat_to_string i \<noteq> []" by simp
  with reg ok obtain e w1 where w1: "createEvent D TransactionUpdate (nat_to_string i) payload w = (Inr e, w1)"
    "proc_ok w1" "spec_step (hooks_of w) (hooks_of w1)" "txs w1 = txs w" by (rule createEvent_refines)
  show thesis
  proof (cases "terminal (tx_status tx)")
    case False
    then have "handleTransactionStatusChange D i tx w = (Inr (), w1)"
      by (simp add: handleTransactionStatusChange_def tryCatch_def andThen_def p w1(1) eff_simps)
    then show thesis by (rule that [OF _ w1(2,3)]) (use False w1(4) in simp_all)
  next
    case True
    let ?ts = "(txs w)\<lparr>listening := filter (\<lambda>j. j \<noteq> i) (listening (txs w)), ts_entries := (ts_entries (txs w))(i := None)\<rparr>"
    let ?w2 = "w1\<lparr>txs := ?ts\<rparr>"
    have tok: "txs_ok (txs w)" using ok(1) by (simp add: proc_ok_def)
    then obtain d where d: "ts_entries (txs w) i = Some d" using i by (auto simp: txs_ok_def)
    have un: "untrack i w1 = (Inr (), ?w2)" by (simp add: untrack_def w1(4) d)
    have ok2: "proc_ok ?w2" "hooks_of ?w2 = hooks_of w1"
      using w1(2) tok by (auto simp: proc_ok_def txs_ok_def hooks_of_def)
    have "subs_ids (hooks_of ?w2)"
      using hook_ok_step [OF w1(3) ok(2)] by (simp add: ok2(2) hook_ok_def)
    with ok2(1) obtain w3 where w3: "markSubsAsDone D i ?w2 = (Inr (), w3)" "proc_ok w3"
      "hooks_of w3 = (hooks_of ?w2)\<lparr>h_subs := finish (s_id ` interested (hooks_of ?w2) (nat_to_string i)) (h_subs (hooks_of ?w2))\<rparr>"
      "txs w3 = txs ?w2" by (rule markSubsAsDone_refines)
    have "handleTransactionStatusChange D i tx w = (Inr (), w3)"
      using True by (simp add: handleTransactionStatusChange_def tryCatch_def andThen_def p w1(1) un w3(1) eff_simps)
    then show thesis by (rule that [OF _ w3(2) w1(3)]) (use True w3(3,4) ok2(2) in simp_all)
  qed
qed

lemma unassembled_status:
  assumes "assemblePayload tx None = Inl x"
  shows "handleTransactionStatusChange D i tx w = (Inr (), w)"
  using assms by (simp add: handleTransactionStatusChange_def tryCatch_def andThen_def eff_simps)

section \<open>Refinement and reachable states\<close>

lemma refinement:
  assumes st: "wstep D w w'" and reg: "registry_ok (registry_of D)" and ok: "proc_ok w" "hook_ok (hooks_of w)"
  shows "proc_ok w' \<and> spec_step\<^sup>*\<^sup>* (hooks_of w) (hooks_of w')"
  using st
proof cases
  case (tick d)
  have "hooks_of w' = (hooks_of w)\<lparr>h_now := h_now (hooks_of w) + d\<rparr>" by (simp add: tick hooks_of_def)
  then have "spec_step (hooks_of w) (hooks_of w')" by (simp only: h_tick [OF tick(2)])
  moreover have "proc_ok w'" using ok(1) by (simp add: tick(1) proc_ok_def)
  ultimately show ?thesis by blast
next
  case (timeout t rnd)
  show ?thesis
  proof (cases "t_task t")
    case (SendHandshake i)
    from fire_handshake [OF reg ok timeout(2) this, of rnd] timeout(1) show ?thesis by auto
  next
    case (SendNotification i)
    from fire_notification [OF reg ok timeout(2) this, of rnd] timeout(1) show ?thesis by auto
  qed
next
  case (reply cs c ds outcome)
  show ?thesis
  proof (cases c)
    case (HandshakeSent i tries secret)
    from answer_handshake [OF reg ok reply(2) this, of outcome] reply(1) show ?thesis by auto
  next
    case (NotificationSent i tries)
    from answer_notification [OF reg ok reply(2) this, of outcome] reply(1) show ?thesis by auto
  qed
next
  case (submitted tx url tx' proposal)
  from submit_refines [OF reg ok this] show ?thesis by auto
next
  case (status i tx)
  show ?thesis
  proof (cases "assemblePayload tx None")
    case (Inl x)
    then show ?thesis using status(1) ok(1) by (simp add: unassembled_status)
  next
    case (Inr payload)
    from reg ok status(2) Inr obtain a w2 where w2: "handleTransactionStatusChange D i tx w = (Inr (), w2)"
      "proc_ok w2" "spec_step (hooks_of w) a"
      "hooks_of w2 = (if terminal (tx_status tx)
         then a\<lparr>h_subs := finish (s_id ` interested a (nat_to_string i)) (h_subs a)\<rparr> else a)"
      by (rule status_refines)
    have "spec_step\<^sup>*\<^sup>* a (hooks_of w2)"
      using h_done by (auto simp: w2(4))
    with w2(1-3) status(1) show ?thesis by (simp add: converse_rtranclp_into_rtranclp)
  qed
qed

lemma reachable_refines:
  assumes "reachable D w0 w" "registry_ok (registry_of D)" "proc_ok w0" "hook_ok (hooks_of w0)"
  shows "proc_ok w \<and> hook_ok (hooks_of w) \<and> spec_step\<^sup>*\<^sup>* (hooks_of w0) (hooks_of w)"
  using assms(1)
proof induction
  case start
  with assms show ?case by simp
next
  case (step w w')
  then have "proc_ok w' \<and> spec_step\<^sup>*\<^sup>* (hooks_of w) (hooks_of w')"
    using refinement assms(2) by blast
  with step.IH show ?case using hook_ok_steps by (auto intro: rtranclp_trans)
qed

end

end
