(* ===== verification/Webhook_Properties.thy ===== *)
theory Webhook_Properties
  imports Webhooks
begin

text \<open>
  What holds in every state the process can reach with the in-memory repositories, whatever the timing
  of timeouts, answers, submissions and status changes. Each property is read off the specification
  through the refinement.

  \<open>demo\<close> is a run of a concrete process, evaluated by the simplifier: a transaction is submitted, its
  handshake is sent and confirmed, and the transaction succeeds. The witnesses apply the properties to
  its states.
\<close>

section \<open>States of a running process\<close>

definition running :: "'r base_deps \<Rightarrow> (local_subs, local_notifs, 'r) world \<Rightarrow> bool" where
  "running c w \<longleftrightarrow> registry_ok (registry_of c) \<and>
     (\<exists>r time. timeoutsR (registry_of c) r = Map.empty \<and> reachable (local_deps c) (initial_world r time) w)"

lemma initial_ok:
  assumes "timeoutsR (registry_of c) r = Map.empty"
  shows "lw.proc_ok c (initial_world r time)" "hook_ok (lw.hooks_of (initial_world r time))"
  using assms
  by (simp_all add: lw.proc_ok_def initial_world_def events_ok_def txs_ok_def sched_ok_def pending_def
      empty_store_def store_ok_def hook_ok_empty lw.hooks_of_def)

lemma running_ok:
  assumes "running c w"
  shows "registry_ok (registry_of c)" "lw.proc_ok c w" "hook_ok (lw.hooks_of w)"
proof -
  from assms obtain r time where r: "registry_ok (registry_of c)" "timeoutsR (registry_of c) r = Map.empty"
    "reachable (local_deps c) (initial_world r time) w" unfolding running_def by blast
  have reg: "registry_ok (registry_of (local_deps c))" using r(1) by simp
  from lw.reachable_refines [OF r(3) reg initial_ok [OF r(2)]] r(1)
  show "registry_ok (registry_of c)" "lw.proc_ok c w" "hook_ok (lw.hooks_of w)" by blast+
qed

lemma running_spec:
  assumes "running c w"
  obtains a where "(hook_step (sub_maxTries c) local_notification_triesLeft)\<^sup>*\<^sup>* a (lw.hooks_of w)" "hook_ok a"
    "h_subs a = Map.empty" "h_notifs a = Map.empty" "h_sent a = []"
proof -
  from assms obtain r time where r: "registry_ok (registry_of c)" "timeoutsR (registry_of c) r = Map.empty"
    "reachable (local_deps c) (initial_world r time) w" unfolding running_def by blast
  have reg: "registry_ok (registry_of (local_deps c))" using r(1) by simp
  from lw.reachable_refines [OF r(3) reg initial_ok [OF r(2)]] initial_ok(2) [OF r(2)]
  show thesis
    by (intro that [of "lw.hooks_of (initial_world r time)"])
      (simp_all add: initial_world_def empty_store_def lw.hooks_of_def)
qed

section \<open>A run\<close>

definition demo_config :: "list_registry base_deps" where
  "demo_config = \<lparr>registry_of = list_registry_api, sub_ttl = Num 60000, sub_maxTries = Num 5,
     sub_retryInterval = Num 1000, notif_maxTries = Num 3, notif_retryInterval = Num 1000,
     legitimacySecret = ''legit'', hmac = (\<lambda>s p. s @ p), stringify = (\<lambda>p. np_scope p)\<rparr>"

definition demo_tx :: sdk_transaction where
  "demo_tx = \<lparr>tx_kind_of = Some (PolymeshTransaction ''asset.issue''), tx_status = Succeeded,
     tx_txHash = Some ''0x01'', tx_blockHash = Some ''0x02'', tx_blockNumber = Some 7,
     tx_error = None, tx_multiSig = None\<rparr>"

definition demo0 :: "(local_subs, local_notifs, list_registry) world" where
  "demo0 = initial_world ([], []) 0"

definition demo1 :: "(local_subs, local_notifs, list_registry) world" where
  "demo1 = snd (submitAndSubscribe (local_deps demo_config) demo_tx ''https://hook'' ''legit'' demo_tx None demo0)"

definition demo2 :: "(local_subs, local_notifs, list_registry) world" where
  "demo2 = demo1\<lparr>now := now demo1 + 10\<rparr>"

definition demo3 :: "(local_subs, local_notifs, list_registry) world" where
  "demo3 = fire (local_deps demo_config) (Some ''secret'') (hd (pending (sched demo2))) demo2"

definition demo4 :: "(local_subs, local_notifs, list_registry) world" where
  "demo4 = answer (local_deps demo_config) (HandshakeSent 1 (Num 5) ''secret'')
     (Some \<lparr>r_status = 200, r_headers = [HANDSHAKE_HEADER_KEY \<mapsto> ''secret'']\<rparr>) (demo3\<lparr>inflight := []\<rparr>)"

definition demo5 :: "(local_subs, local_notifs, list_registry) world" where
  "demo5 = snd (handleTransactionStatusChange (local_deps demo_config) 1 demo_tx demo4)"

lemma demo2_pending: "pending (sched demo2) \<noteq> [] \<and> t_due (hd (pending (sched demo2))) \<le> now demo2"
  by code_simp

lemma demo3_inflight: "inflight demo3 = [HandshakeSent 1 (Num 5) ''secret'']"
  by code_simp

lemma demo4_listening: "listening (txs demo4) = [1]"
  by code_simp

lemma runningI:
  "registry_ok (registry_of c) \<Longrightarrow> timeoutsR (registry_of c) r = Map.empty \<Longrightarrow>
   reachable (local_deps c) (initial_world r time) w \<Longrightarrow> running c w"
  unfolding running_def by blast

lemma demo_registry:
  "registry_ok (registry_of demo_config)" "timeoutsR (registry_of demo_config) ([], []) = Map.empty"
  by (simp add: demo_config_def list_registry_ok, simp add: demo_config_def list_registry_api_def)

lemma demo_reachable:
  "running demo_config demo0" "running demo_config demo1" "running demo_config demo4" "running demo_config demo5"
proof -
  let ?D = "local_deps demo_config" and ?R = "reachable (local_deps demo_config) (initial_world ([], []) 0)"
  have secret: "''legit'' = legitimacySecret ?D" by (simp add: demo_config_def)
  have r0: "?R demo0" unfolding demo0_def by (rule reachable.start)
  have "wstep ?D demo0 demo1" unfolding demo1_def secret by (rule wstep.submitted)
  with r0 have r1: "?R demo1" by (rule reachable.step)
  have "wstep ?D demo1 demo2" unfolding demo2_def by (rule wstep.tick) simp
  with r1 have r2: "?R demo2" by (rule reachable.step)
  have "wstep ?D demo2 demo3"
    unfolding demo3_def by (rule wstep.timeout) (use demo2_pending in simp_all)
  with r2 have r3: "?R demo3" by (rule reachable.step)
  have "wstep ?D demo3 demo4"
    using wstep.reply [of demo3 "[]" _ "[]" ?D] by (simp add: demo4_def demo3_inflight)
  with r3 have r4: "?R demo4" by (rule reachable.step)
  have "wstep ?D demo4 demo5" unfolding demo5_def by (rule wstep.status) (simp add: demo4_listening)
  with r4 have r5: "?R demo5" by (rule reachable.step)
  show "running demo_config demo0" "running demo_config demo1" "running demo_config demo4"
    "running demo_config demo5"
    by (rule runningI [OF demo_registry r0] runningI [OF demo_registry r1] runningI [OF demo_registry r4]
        runningI [OF demo_registry r5])+
qed

lemma demo5_models:
  "map_option (\<lambda>m. (s_status m, s_nextNonce m)) (ls_get (subs demo5) 1) = Some (Done, 2)"
  "map_option (\<lambda>n. (n_subscriptionId n, n_nonce n, n_status n)) (ls_get (notifs demo5) 1) = Some (1, 1, NActive)"
  by code_simp+

section \<open>Properties\<close>

text \<open>
  C2: every reaction of the process is a sequence of steps of the specification. The stores, timers,
  names, counters and callbacks of the services together do nothing the specification does not allow,
  whatever state they have reached.
\<close>

theorem process_refines_specification:
  assumes "running c w" "wstep (local_deps c) w w'"
  shows "(hook_step (sub_maxTries c) local_notification_triesLeft)\<^sup>*\<^sup>* (lw.hooks_of w) (lw.hooks_of w')"
  using lw.refinement [OF assms(2)] running_ok [OF assms(1)] by simp

theorem process_refines_specification_witness:
  "(hook_step (Num 5) local_notification_triesLeft)\<^sup>*\<^sup>* (lw.hooks_of demo4) (lw.hooks_of demo5)"
proof -
  have "wstep (local_deps demo_config) demo4 demo5"
    unfolding demo5_def by (rule wstep.status) (simp add: demo4_listening)
  from process_refines_specification [OF demo_reachable(3) this] show ?thesis by (simp add: demo_config_def)
qed

text \<open>
  C3: the notifications of a subscription are numbered 1, 2, 3, ... up to the next nonce of the
  subscription: every number below it is the number of exactly one notification, and no other number is
  used.
\<close>

theorem notification_numbering:
  assumes "running c w" "ls_get (subs w) i = Some m"
  shows "1 \<le> x \<and> x < s_nextNonce m \<longleftrightarrow>
    (\<exists>!j. \<exists>n. ls_get (notifs w) j = Some n \<and> n_subscriptionId n = i \<and> n_nonce n = x)"
proof -
  let ?a = "lw.hooks_of w"
  have ok: "nonces_ok ?a" using running_ok(3) [OF assms(1)] by (simp add: hook_ok_def)
  have num: "numbered ?a j = Some (i, x) \<longleftrightarrow>
      (\<exists>n. ls_get (notifs w) j = Some n \<and> n_subscriptionId n = i \<and> n_nonce n = x)" for j
    by (auto simp: numbered_def)
  have nxt: "next_nonce ?a i = Some (s_nextNonce m)" using assms(2) by (simp add: next_nonce_def)
  have "1 \<le> x \<and> x < s_nextNonce m \<longleftrightarrow> (\<exists>j. numbered ?a j = Some (i, x))"
    using ok nxt unfolding nonces_ok_def by fastforce
  also have "\<dots> \<longleftrightarrow> (\<exists>!j. numbered ?a j = Some (i, x))"
    using ok unfolding nonces_ok_def by blast
  finally show ?thesis by (simp add: num)
qed

theorem notification_numbering_witness:
  "\<exists>m. ls_get (subs demo5) 1 = Some m \<and> (\<exists>!j. \<exists>n. ls_get (notifs demo5) j = Some n \<and> n_subscriptionId n = 1 \<and> n_nonce n = 1)"
proof -
  obtain m where m: "ls_get (subs demo5) 1 = Some m" "s_nextNonce m = 2" using demo5_models(1) by auto
  from notification_numbering [OF demo_reachable(4) m(1), of 1] m show ?thesis by simp
qed

text \<open>
  C4: a notification never dangles: its subscription exists, was confirmed by its handshake, and the
  event it reports exists and has the scope the subscription asked for.
\<close>

theorem notification_references:
  assumes "running c w" "ls_get (notifs w) j = Some n"
  shows "\<exists>m e. ls_get (subs w) (n_subscriptionId n) = Some m \<and> s_status m \<in> {Active, Done}
     \<and> int_get (ev_entries (events w)) (n_eventId n) = Some e \<and> e_scope e = s_eventScope m"
proof -
  have "refs_ok (lw.hooks_of w)" using running_ok(3) [OF assms(1)] by (simp add: hook_ok_def)
  then obtain m where "h_subs (lw.hooks_of w) (n_subscriptionId n) = Some m" "s_status m \<in> {Active, Done}"
    "h_events (lw.hooks_of w) (n_eventId n) = Some (s_eventScope m)"
    unfolding refs_ok_def using assms(2) lw.hooks_of_sel(3) by metis
  then show ?thesis by auto
qed

theorem notification_references_witness:
  "\<exists>n m e. ls_get (notifs demo5) 1 = Some n \<and> ls_get (subs demo5) (n_subscriptionId n) = Some m
     \<and> s_status m \<in> {Active, Done}
     \<and> int_get (ev_entries (events demo5)) (n_eventId n) = Some e \<and> e_scope e = s_eventScope m"
proof -
  obtain n where "ls_get (notifs demo5) 1 = Some n" using demo5_models(2) by auto
  with notification_references [OF demo_reachable(4) this] show ?thesis by blast
qed

text \<open>
  C5: with a configured number of tries, the handshake of a subscription is sent at most that many
  times, however often it is refused, fails or is interleaved with anything else.
\<close>

theorem handshake_attempts_bounded:
  assumes "running c w" "sub_maxTries c = Num k" "1 \<le> k"
  shows "int (count_list (map fst (outbox w)) (SendHandshake i)) \<le> k"
proof -
  from assms(1) obtain a where r: "(hook_step (sub_maxTries c) local_notification_triesLeft)\<^sup>*\<^sup>* a (lw.hooks_of w)"
    "hook_ok a" "h_subs a = Map.empty" "h_notifs a = Map.empty" "h_sent a = []"
    by (rule running_spec)
  have "budget_ok k (view (lw.hooks_of w) (SendHandshake i))"
    by (rule budget_steps [OF r(1) [unfolded assms(2)] r(2) assms(3) budget_ok_empty [OF r(3-5) assms(3)]])
  then show ?thesis by (simp add: budget_ok_def view_def)
qed

theorem handshake_attempts_bounded_witness:
  "int (count_list (map fst (outbox demo5)) (SendHandshake 1)) \<le> 5"
  by (rule handshake_attempts_bounded [OF demo_reachable(4)]) (simp_all add: demo_config_def)

text \<open>
  C6: with the in-memory repository a notification is sent at most ten times, whatever number of
  tries is configured: the repository ignores the configured number.
\<close>

theorem notification_attempts_bounded:
  assumes "running c w"
  shows "count_list (map fst (outbox w)) (SendNotification i) \<le> 10"
proof -
  from assms(1) obtain a where r: "(hook_step (sub_maxTries c) local_notification_triesLeft)\<^sup>*\<^sup>* a (lw.hooks_of w)"
    "hook_ok a" "h_subs a = Map.empty" "h_notifs a = Map.empty" "h_sent a = []"
    by (rule running_spec)
  have "budget_ok 10 (view (lw.hooks_of w) (SendNotification i))"
    by (rule nbudget_steps [OF r(1) [unfolded local_notification_triesLeft_def] r(2) _ budget_ok_empty [OF r(3-5)]])
      simp_all
  then show ?thesis by (simp add: budget_ok_def view_def)
qed

theorem notification_attempts_bounded_witness:
  "count_list (map fst (outbox demo5)) (SendNotification 1) \<le> 10"
  by (rule notification_attempts_bounded [OF demo_reachable(4)])

text \<open>
  A number of handshake tries that is not a number, which \<open>Number(undefined)\<close> gives when the service
  is configured without the defaults of \<open>app.module.ts\<close>, is no bound at all: no subscription is ever
  rejected, and a handshake that is refused is tried again for as long as the subscription lives.
\<close>

theorem unset_tries_never_reject:
  assumes "running c w" "sub_maxTries c = NaN" "ls_get (subs w) i = Some m"
  shows "s_status m \<noteq> SubRejected"
proof -
  from assms(1) obtain a where r: "(hook_step (sub_maxTries c) local_notification_triesLeft)\<^sup>*\<^sup>* a (lw.hooks_of w)"
    "hook_ok a" "h_subs a = Map.empty" "h_notifs a = Map.empty" "h_sent a = []"
    by (rule running_spec)
  have "never_rejected (lw.hooks_of w)"
    by (rule never_rejected_steps [OF r(1) [unfolded assms(2)] r(2)]) (simp add: never_rejected_def r(3))
  with assms(3) show ?thesis by (simp add: never_rejected_def)
qed

definition unset_config :: "list_registry base_deps" where
  "unset_config = demo_config\<lparr>sub_maxTries := NaN\<rparr>"

theorem unset_tries_never_reject_witness:
  "\<exists>m. ls_get (subs (snd (submitAndSubscribe (local_deps unset_config) demo_tx ''u'' ''legit'' demo_tx None demo0))) 1 = Some m
     \<and> s_status m \<noteq> SubRejected"
proof -
  let ?w = "snd (submitAndSubscribe (local_deps unset_config) demo_tx ''u'' ''legit'' demo_tx None demo0)"
  have secret: "''legit'' = legitimacySecret (local_deps unset_config)" by (simp add: unset_config_def demo_config_def)
  have "wstep (local_deps unset_config) demo0 ?w" unfolding secret by (rule wstep.submitted)
  then have "reachable (local_deps unset_config) demo0 ?w" by (rule reachable.step [OF reachable.start])
  moreover have "registry_of unset_config = registry_of demo_config" by (simp add: unset_config_def)
  ultimately have run: "running unset_config ?w"
    using runningI [of unset_config "([], [])" 0 ?w] demo_registry by (simp add: demo0_def)
  have "map_option s_status (ls_get (subs ?w) 1) = Some Inactive" by code_simp
  then obtain m where m: "ls_get (subs ?w) 1 = Some m" by auto
  have "sub_maxTries unset_config = NaN" by (simp add: unset_config_def)
  from unset_tries_never_reject [OF run this m] m show ?thesis by blast
qed
text \<open>
  C7: nothing is lost. A subscription that still waits for its handshake and has not expired has its
  handshake scheduled or its request unanswered, and a notification that is neither acknowledged, failed
  nor orphaned is scheduled or its request is unanswered; never both.
\<close>

theorem no_delivery_lost:
  assumes "running c w"
  shows "(\<forall>i m. ls_get (subs w) i = Some m \<and> s_status m = Inactive \<and> \<not> isExpired (now w) m \<longrightarrow>
      (SendHandshake i \<in> t_task ` set (pending (sched w))) \<noteq> (SendHandshake i \<in> call_task ` set (inflight w)))
    \<and> (\<forall>i n. ls_get (notifs w) i = Some n \<and> n_status n = NActive \<longrightarrow>
      (SendNotification i \<in> t_task ` set (pending (sched w))) \<noteq> (SendNotification i \<in> call_task ` set (inflight w)))"
proof -
  let ?a = "lw.hooks_of w"
  have du: "duty_ok (view ?a k)" for k using running_ok(3) [OF assms(1)] by (simp add: hook_ok_def)
  have one: "(k \<in> t_task ` set (pending (sched w))) \<noteq> (k \<in> call_task ` set (inflight w))"
    if "model_of ?a k = Some (True, t)" "\<not> lapsed ?a k" for k t
    using exactly_one_duty [OF du that] by simp
  show ?thesis
  proof (intro conjI allI impI; elim conjE)
    fix i m assume "ls_get (subs w) i = Some m" "s_status m = Inactive" "\<not> isExpired (now w) m"
    then show "(SendHandshake i \<in> t_task ` set (pending (sched w))) \<noteq> (SendHandshake i \<in> call_task ` set (inflight w))"
      by (intro one [of _ "s_triesLeft m"]) simp_all
  next
    fix i n assume "ls_get (notifs w) i = Some n" "n_status n = NActive"
    then show "(SendNotification i \<in> t_task ` set (pending (sched w))) \<noteq> (SendNotification i \<in> call_task ` set (inflight w))"
      by (intro one [of _ "n_triesLeft n"]) simp_all
  qed
qed

theorem no_delivery_lost_witness:
  "ls_get (notifs demo5) 1 \<noteq> None
     \<and> (SendNotification 1 \<in> t_task ` set (pending (sched demo5))) \<noteq> (SendNotification 1 \<in> call_task ` set (inflight demo5))"
proof -
  obtain n where "ls_get (notifs demo5) 1 = Some n" "n_status n = NActive" using demo5_models(2) by auto
  with no_delivery_lost [OF demo_reachable(4)] show ?thesis by simp
qed

text \<open>
  C8: models only move forward. From any state the process can reach to any later one, a subscription
  that was rejected or done stays so, an active one can only become done, a notification that left its
  first status keeps the status it got, and neither ever changes what it belongs to; a subscription's
  next nonce never goes down.
\<close>

theorem models_move_forward:
  assumes "running c w" "reachable (local_deps c) w w'"
  shows "(\<forall>i m. ls_get (subs w) i = Some m \<longrightarrow> (\<exists>m'. ls_get (subs w') i = Some m' \<and> sub_evolves m m'))
    \<and> (\<forall>j n. ls_get (notifs w) j = Some n \<longrightarrow> (\<exists>n'. ls_get (notifs w') j = Some n' \<and> notif_evolves n n'))"
proof -
  have reg: "registry_ok (registry_of (local_deps c))" using running_ok(1) [OF assms(1)] by simp
  note ok = running_ok(2,3) [OF assms(1)]
  from lw.reachable_refines [OF assms(2) reg ok]
  have st: "(hook_step (sub_maxTries c) local_notification_triesLeft)\<^sup>*\<^sup>* (lw.hooks_of w) (lw.hooks_of w')" by simp
  from subs_steps [OF st ok(2)] notifs_steps [OF st ok(2)] show ?thesis by simp
qed

theorem models_move_forward_witness:
  "\<exists>m m'. ls_get (subs demo4) 1 = Some m \<and> s_status m = Active \<and> ls_get (subs demo5) 1 = Some m' \<and> sub_evolves m m'"
proof -
  have "map_option s_status (ls_get (subs demo4) 1) = Some Active" by code_simp
  then obtain m where m: "ls_get (subs demo4) 1 = Some m" "s_status m = Active" by auto
  have "wstep (local_deps demo_config) demo4 demo5"
    unfolding demo5_def by (rule wstep.status) (simp add: demo4_listening)
  then have "reachable (local_deps demo_config) demo4 demo5" by (rule reachable.step [OF reachable.start])
  with models_move_forward [OF demo_reachable(3) this] m show ?thesis by blast
qed

text \<open>
  C9: a timeout that fires finds its own name in the registry, so its callback runs and its promise is
  never rejected: no unhandled rejection can come from the scheduler.
\<close>

theorem timeout_never_rejects:
  assumes "running c w" "t \<in> set (pending (sched w))"
  shows "fst (wrapCallback (\<lambda>n. on_sched (deleteTimeout (registry_of c) n)) (t_name t) (t_type t)
     (run_task (local_deps c) rnd (t_task t)) (w\<lparr>sched := take_timer t (sched w)\<rparr>)) = Inr ()"
proof -
  have "sched_ok (registry_of c) (sched w)" using running_ok(2) [OF assms(1)] by (simp add: lw.proc_ok_def)
  from running_ok(1) [OF assms(1)] this assms(2) obtain sc where
    "deleteTimeout (registry_of c) (t_name t) (take_timer t (sched w)) = (Inr (), sc)" by (rule fire_timeout)
  then show ?thesis
    by (auto simp: wrapCallback_def andThen_def zoom_def tryCatch_def eff_simps split: prod.split sum.split)
qed

theorem timeout_never_rejects_witness:
  "fst (wrapCallback (\<lambda>n. on_sched (deleteTimeout (registry_of demo_config) n))
     (t_name (hd (pending (sched demo1)))) (t_type (hd (pending (sched demo1))))
     (run_task (local_deps demo_config) None (t_task (hd (pending (sched demo1)))))
     (demo1\<lparr>sched := take_timer (hd (pending (sched demo1))) (sched demo1)\<rparr>)) = Inr ()"
proof -
  have "pending (sched demo1) \<noteq> []" by code_simp
  then show ?thesis by (intro timeout_never_rejects [OF demo_reachable(2)]) simp
qed

text \<open>
  C10: the last status of a transaction. When the SDK reports a terminal status of a tracked
  transaction and its object is complete, the handler succeeds: the transaction is no longer tracked,
  no other transaction is affected, and no subscription to it that has not expired is left active.
\<close>

theorem terminal_status_ends_tracking:
  assumes "running c w" "i \<in> set (listening (txs w))" "terminal (tx_status tx)" "tx_complete tx"
  shows "\<exists>w'. handleTransactionStatusChange (local_deps c) i tx w = (Inr (), w')
     \<and> ts_entries (txs w') = (ts_entries (txs w))(i := None)
     \<and> set (listening (txs w')) = set (listening (txs w)) - {i}
     \<and> (\<forall>j m. ls_get (subs w') j = Some m \<and> s_eventScope m = nat_to_string i \<and> s_status m = Active
           \<longrightarrow> isExpired (now w') m)"
proof -
  have reg: "registry_ok (registry_of (local_deps c))" using running_ok(1) [OF assms(1)] by simp
  from assms(4) obtain payload where p: "assemblePayload tx None = Inr payload"
    using assemblePayload_total by blast
  from reg running_ok(2,3) [OF assms(1)] assms(2) p obtain a w' where w':
    "handleTransactionStatusChange (local_deps c) i tx w = (Inr (), w')"
    "hook_step (sub_maxTries (local_deps c)) local_notification_triesLeft (lw.hooks_of w) a"
    "lw.hooks_of w' = (if terminal (tx_status tx)
       then a\<lparr>h_subs := finish (s_id ` interested a (nat_to_string i)) (h_subs a)\<rparr> else a)"
    "txs w' = (if terminal (tx_status tx)
       then (txs w)\<lparr>listening := filter (\<lambda>j. j \<noteq> i) (listening (txs w)), ts_entries := (ts_entries (txs w))(i := None)\<rparr>
       else txs w)"
    by (rule lw.status_refines)
  have ids: "subs_ids a" using hook_ok_step [OF w'(2) running_ok(3) [OF assms(1)]] by (simp add: hook_ok_def)
  have eq: "ls_get (subs w') = finish (s_id ` interested a (nat_to_string i)) (h_subs a)" "now w' = h_now a"
    using w'(3) assms(3) lw.hooks_of_sel(1,2) [of w'] by simp_all
  have "isExpired (now w') m"
    if m: "ls_get (subs w') j = Some m" "s_eventScope m = nat_to_string i" "s_status m = Active" for j m
  proof (rule ccontr)
    assume live: "\<not> isExpired (now w') m"
    have "j \<notin> s_id ` interested a (nat_to_string i)" using m(1,3) by (auto simp: eq(1) finish_def)
    moreover from this have am: "h_subs a j = Some m" using m(1) by (simp add: eq(1) finish_def)
    then have "m \<in> interested a (nat_to_string i)" "s_id m = j"
      using m(2,3) live ids by (auto simp: interested_def eq(2) subs_ids_def ran_def)
    ultimately show False by blast
  qed
  with w'(1,4) assms(3) show ?thesis by (intro exI [of _ w']) auto
qed

theorem terminal_status_ends_tracking_witness:
  "\<exists>w'. handleTransactionStatusChange (local_deps demo_config) 1 demo_tx demo4 = (Inr (), w')
     \<and> ts_entries (txs w') = (ts_entries (txs demo4))(1 := None)
     \<and> set (listening (txs w')) = set (listening (txs demo4)) - {1}
     \<and> (\<forall>j m. ls_get (subs w') j = Some m \<and> s_eventScope m = nat_to_string 1 \<and> s_status m = Active
           \<longrightarrow> isExpired (now w') m)"
  by (rule terminal_status_ends_tracking [OF demo_reachable(3)])
    (simp_all add: demo4_listening demo_tx_def terminal_def tx_complete_def)

end
