(* ===== verification/Offline_Flow.thy ===== *)
theory Offline_Flow
  imports Offline
begin

text \<open>
  What holds of offline transactions whatever the order in which listeners run, the chain answers and
  records are updated. \<open>flow\<close> is the invariant, stated on the parts of the state; it is proved once for every
  pair of repositories that keep their promises and used for the in-memory ones.
\<close>

section \<open>The invariant\<close>

fun begun_by :: "'res offline_input \<Rightarrow> transaction_payload list" where
  "begun_by (Begin i P md) = (case pr_toSignablePayload P (object_put ''internalTxId'' i md) of Inl e \<Rightarrow> [] | Inr p \<Rightarrow> [p])"
| "begun_by _ = []"

definition call_payload :: "offline_listener \<times> offline_message \<Rightarrow> transaction_payload multiset" where
  "call_payload c = (if fst c = RecordEvent then {#} else mset (message_payload (snd c)))"

definition is_record :: "offline_listener \<times> offline_message \<Rightarrow> bool" where
  "is_record c \<longleftrightarrow> fst c = RecordEvent"

fun call_ok :: "manager \<Rightarrow> transaction_payload list \<Rightarrow> offline_listener \<times> offline_message \<Rightarrow> bool" where
  "call_ok M ps (AutoSign, m) = (\<exists>r. m = RequestMsg r \<and> rq_payload r \<in> set ps)"
| "call_ok M ps (SubmitSignature, m) = (\<exists>g. m = SignatureMsg g \<and> og_payload g \<in> set ps
     \<and> signing_signPayload M (tp_payload (og_payload g)) = Inr (og_signature g))"
| "call_ok M ps (RecordEvent, m) = True"

fun waiting_id :: "waiting \<Rightarrow> string" where
  "waiting_id (AwaitChain g n t) = ot_id t"
| "waiting_id (AwaitUpdate t) = ot_id t"

fun waiting_ok :: "(string \<rightharpoonup> offline_tx) \<Rightarrow> waiting \<Rightarrow> bool" where
  "waiting_ok g (AwaitChain b n t) = (g (ot_id t) = Some t \<and> ot_status t = Signed)"
| "waiting_ok g (AwaitUpdate t) = (\<exists>m b i h. g (ot_id t) = Some m \<and> ot_status m = Signed \<and> ot_id m = ot_id t
     \<and> t = m\<lparr>ot_blockHash := Some b, ot_txIndex := Some i, ot_txHash := Some h, ot_status := Finalized\<rparr>)"

definition record_ok :: "(transaction_payload \<times> string) list \<Rightarrow> offline_tx \<Rightarrow> bool" where
  "record_ok sub m \<longleftrightarrow> (ot_payload m, ot_signature m) \<in> set sub
     \<and> ot_address m = sp_address (tp_payload (ot_payload m)) \<and> ot_nonce m = parseInt16 (sp_nonce (tp_payload (ot_payload m)))
     \<and> (ot_status m = Finalized \<longleftrightarrow> ot_blockHash m \<noteq> None)
     \<and> (ot_blockHash m \<noteq> None \<longleftrightarrow> ot_txHash m \<noteq> None) \<and> (ot_blockHash m \<noteq> None \<longleftrightarrow> ot_txIndex m \<noteq> None)"

lemma spread_whole [simp]: "spread_offline_tx m (whole_model t) = t"
  by (simp add: spread_offline_tx_def whole_model_def or_else_def)

lemma finalized_create:
  assumes "g i = None" "ot_status m = Signed"
  shows "finalized (g(i \<mapsto> m)) = finalized g"
proof -
  have "{j. \<exists>x. (g(i \<mapsto> m)) j = Some x \<and> ot_status x = Finalized} = {j. \<exists>x. g j = Some x \<and> ot_status x = Finalized}"
    using assms by (auto split: if_splits)
  moreover have "i \<notin># mset_set {j. \<exists>x. g j = Some x \<and> ot_status x = Finalized}"
    using assms by (cases "finite {j. \<exists>x. g j = Some x \<and> ot_status x = Finalized}") auto
  ultimately show ?thesis unfolding finalized_def using image_mset_upd_other [of i _ ot_payload g m] by (simp only:)
qed

lemma finalized_update:
  assumes "g i = Some m0" "ot_status m0 = Signed" "ot_status m = Finalized" "finite (dom g)"
  shows "finalized (g(i \<mapsto> m)) = add_mset (ot_payload m) (finalized g)"
proof -
  let ?F = "{j. \<exists>x. g j = Some x \<and> ot_status x = Finalized}"
  have "{j. \<exists>x. (g(i \<mapsto> m)) j = Some x \<and> ot_status x = Finalized} = insert i ?F"
    using assms by (auto split: if_splits)
  moreover have "finite ?F" by (rule finite_subset [OF _ assms(4)]) auto
  moreover have "i \<notin> ?F" using assms by simp
  moreover have "image_mset (\<lambda>j. ot_payload (the ((g(i \<mapsto> m)) j))) (mset_set ?F) = image_mset (\<lambda>j. ot_payload (the (g j))) (mset_set ?F)"
    using \<open>i \<notin> ?F\<close> \<open>finite ?F\<close> by (intro image_mset_upd_other) simp
  ultimately show ?thesis by (simp add: finalized_def del: fun_upd_apply) simp
qed

lemma waiting_stored: "waiting_ok g w \<Longrightarrow> g (waiting_id w) \<noteq> None"
  by (cases w) auto

lemma waiting_ok_other: "waiting_ok g w \<Longrightarrow> waiting_id w \<noteq> i \<Longrightarrow> waiting_ok (g(i \<mapsto> m)) w"
  by (cases w) auto

lemma call_ok_mono: "call_ok M ps c \<Longrightarrow> call_ok M (ps @ qs) c"
  by (cases "(M, ps, c)" rule: call_ok.cases) auto

lemma record_ok_mono: "record_ok sub m \<Longrightarrow> record_ok (sub @ xs) m"
  by (auto simp: record_ok_def)

lemma mset_drop_nth: "n < length xs \<Longrightarrow> mset xs = add_mset (xs ! n) (mset (drop_nth n xs))"
  by (metis append_take_drop_id Cons_nth_drop_Suc drop_nth_def mset_append mset.simps(2) union_mset_add_mset_right)

lemma count_image_less: "count (image_mset f (add_mset w W)) i \<le> 1 \<Longrightarrow> count (image_mset f W) i \<le> 1"
  by (simp split: if_splits)

locale offline_process = offline_tx_repo T inv get + offline_event_repo E einv bodies
  for T :: "'t offline_tx_ops" and inv get and E :: "'e offline_event_ops" and einv bodies
begin

definition flow :: "manager \<Rightarrow> transaction_payload list \<Rightarrow> nat \<Rightarrow> (offline_listener \<times> offline_message) multiset \<Rightarrow> 't \<Rightarrow> 'e \<Rightarrow>
    (transaction_payload \<times> string) list \<Rightarrow> waiting multiset \<Rightarrow> transaction_payload multiset \<Rightarrow> bool" where
  "flow M ps k C t e sub W rej \<longleftrightarrow> inv t \<and> einv e
   \<and> (\<forall>c \<in># C. call_ok M ps c)
   \<and> (\<forall>p sg. (p, sg) \<in> set sub \<longrightarrow> p \<in> set ps \<and> signing_signPayload M (tp_payload p) = Inr sg)
   \<and> (\<forall>w \<in># W. waiting_ok (get t) w) \<and> (\<forall>i. count (image_mset waiting_id W) i \<le> 1)
   \<and> (\<forall>i m. get t i = Some m \<longrightarrow> record_ok sub m)
   \<and> mset ps = \<Sum>\<^sub># (image_mset call_payload C) + image_mset waiting_payload W + finalized (get t) + rej
   \<and> k = Suc (size (bodies e) + size (filter_mset is_record C))"

lemma flowI:
  assumes "inv t" "einv e" "\<And>c. c \<in># C \<Longrightarrow> call_ok M ps c"
    and "\<And>p sg. (p, sg) \<in> set sub \<Longrightarrow> p \<in> set ps \<and> signing_signPayload M (tp_payload p) = Inr sg"
    and "\<And>w. w \<in># W \<Longrightarrow> waiting_ok (get t) w" "\<And>i. count (image_mset waiting_id W) i \<le> 1"
    and "\<And>i m. get t i = Some m \<Longrightarrow> record_ok sub m"
    and "mset ps = \<Sum>\<^sub># (image_mset call_payload C) + image_mset waiting_payload W + finalized (get t) + rej"
    and "k = Suc (size (bodies e) + size (filter_mset is_record C))"
  shows "flow M ps k C t e sub W rej"
  using assms by (simp add: flow_def)

lemma flowD:
  assumes "flow M ps k C t e sub W rej"
  shows "inv t" "einv e" "\<And>c. c \<in># C \<Longrightarrow> call_ok M ps c"
    and "\<And>p sg. (p, sg) \<in> set sub \<Longrightarrow> p \<in> set ps \<and> signing_signPayload M (tp_payload p) = Inr sg"
    and "\<And>w. w \<in># W \<Longrightarrow> waiting_ok (get t) w" "\<And>i. count (image_mset waiting_id W) i \<le> 1"
    and "\<And>i m. get t i = Some m \<Longrightarrow> record_ok sub m"
    and "mset ps = \<Sum>\<^sub># (image_mset call_payload C) + image_mset waiting_payload W + finalized (get t) + rej"
    and "k = Suc (size (bodies e) + size (filter_mset is_record C))"
  using assms by (simp_all add: flow_def)

lemma flow_begin:
  assumes "flow M ps k C t e sub W rej"
  shows "flow M (ps @ [rq_payload r]) (Suc k) (mset (called (RequestMsg r)) + C) t e sub W rej"
  using assms unfolding flow_def
  by (auto simp: call_payload_def is_record_def intro: call_ok_mono)

lemma flow_signed:
  assumes "flow M ps k (add_mset (AutoSign, RequestMsg r) C) t e sub W rej"
    and "signing_signPayload M (tp_payload (rq_payload r)) = Inr sg" "og_payload g = rq_payload r" "og_signature g = sg"
  shows "flow M ps (Suc k) (mset (called (SignatureMsg g)) + C) t e sub W rej"
  using assms unfolding flow_def
  by (auto simp: call_payload_def is_record_def)

lemma flow_rejected_call:
  assumes "flow M ps k (add_mset c C) t e sub W rej" "\<not> is_record c"
  shows "flow M ps k C t e sub W (call_payload c + rej)"
  using assms unfolding flow_def by (auto simp: is_record_def)

lemma flow_recorded:
  assumes "flow M ps k (add_mset (RecordEvent, m) C) t e sub W rej" "einv e'" "bodies e' = add_mset m (bodies e)"
  shows "flow M ps k C t e' sub W rej"
  using assms unfolding flow_def by (auto simp: is_record_def call_payload_def)

lemma flow_created:
  assumes "flow M ps k (add_mset (SubmitSignature, SignatureMsg g) C) t e sub W rej"
    and "p = \<lparr>ot_id = og_id g, ot_payload = og_payload g, ot_signature = og_signature g, ot_status = Signed,
        ot_address = sp_address (tp_payload (og_payload g)), ot_nonce = parseInt16 (sp_nonce (tp_payload (og_payload g))),
        ot_blockHash = None, ot_txIndex = None, ot_txHash = None\<rparr>"
    and "inv t'" "get t i = None" "get t' = (get t)(i \<mapsto> p\<lparr>ot_id := i\<rparr>)"
  shows "flow M ps k C t' e (sub @ [(og_payload g, og_signature g)]) (add_mset (AwaitChain g n (p\<lparr>ot_id := i\<rparr>)) W) rej"
proof -
  note f = flowD [OF assms(1)]
  have free: "waiting_id w \<noteq> i" if "w \<in># W" for w
    using waiting_stored [OF f(5) [OF that]] assms(4) by metis
  have fin: "finalized (get t') = finalized (get t)"
    unfolding assms(5) by (rule finalized_create) (simp_all add: assms(2,4))
  show ?thesis
  proof (rule flowI [OF assms(3) f(2)])
    show "call_ok M ps c" if "c \<in># C" for c using f(3) that by simp
    show "p \<in> set ps \<and> signing_signPayload M (tp_payload p) = Inr sg" if "(p, sg) \<in> set (sub @ [(og_payload g, og_signature g)])" for p sg
      using that f(3) [of "(SubmitSignature, SignatureMsg g)"] f(4) [of p sg] by auto
    show "waiting_ok (get t') w" if "w \<in># add_mset (AwaitChain g n (p\<lparr>ot_id := i\<rparr>)) W" for w
    proof (cases "w \<in># W")
      case True
      then show ?thesis unfolding assms(5) by (rule waiting_ok_other [OF f(5) free [OF True]])
    next
      case False
      with that show ?thesis by (simp add: assms(2,5))
    qed
    have "count (image_mset waiting_id W) i = 0" using free by (auto simp: count_eq_zero_iff)
    then show "count (image_mset waiting_id (add_mset (AwaitChain g n (p\<lparr>ot_id := i\<rparr>)) W)) j \<le> 1" for j
      using f(6) [of j] by auto
    show "record_ok (sub @ [(og_payload g, og_signature g)]) m" if "get t' j = Some m" for j m
    proof (cases "j = i")
      case True
      then have "m = p\<lparr>ot_id := i\<rparr>" using that by (simp add: assms(5))
      then show ?thesis by (simp add: assms(2) record_ok_def)
    next
      case False
      then have "get t j = Some m" using that by (simp add: assms(5))
      then show ?thesis by (intro record_ok_mono f(7))
    qed
  qed (use f(8,9) in \<open>simp_all add: fin assms(2) call_payload_def is_record_def\<close>)
qed

lemma flow_chain:
  assumes "flow M ps k C t e sub (add_mset (AwaitChain g n x) W) rej"
  shows "flow M ps (Suc k) (mset (called (FinalizationMsg f)) + C) t e sub
     (add_mset (AwaitUpdate (x\<lparr>ot_blockHash := Some b, ot_txIndex := Some i, ot_txHash := Some h, ot_status := Finalized\<rparr>)) W) rej"
  using assms unfolding flow_def
  by (auto simp: call_payload_def is_record_def)

lemma flow_rejected_wait:
  assumes "flow M ps k C t e sub (add_mset w W) rej"
  shows "flow M ps k C t e sub W (add_mset (waiting_payload w) rej)"
proof -
  note f = flowD [OF assms]
  show ?thesis
  proof (rule flowI [OF f(1-4) _ count_image_less [OF f(6)] f(7)])
    show "waiting_ok (get t) v" if "v \<in># W" for v by (rule f(5)) (simp add: that)
  qed (use f(8,9) in simp_all)
qed

lemma flow_updated:
  assumes "flow M ps k C t e sub (add_mset (AwaitUpdate x) W) rej" "inv t'" "get t' = (get t)(ot_id x \<mapsto> x)"
  shows "flow M ps k C t' e sub W rej"
proof -
  note f = flowD [OF assms(1)]
  have "waiting_ok (get t) (AwaitUpdate x)" by (rule f(5)) simp
  then obtain m b i h where m: "get t (ot_id x) = Some m" "ot_status m = Signed"
    and x: "x = m\<lparr>ot_blockHash := Some b, ot_txIndex := Some i, ot_txHash := Some h, ot_status := Finalized\<rparr>"
    unfolding waiting_ok.simps by blast
  have free: "waiting_id w \<noteq> ot_id x" if "w \<in># W" for w
  proof
    assume "waiting_id w = ot_id x"
    then have "ot_id x \<in># image_mset waiting_id W" using that by (metis image_eqI set_image_mset)
    then have "0 < count (image_mset waiting_id W) (ot_id x)" by (simp only: count_greater_zero_iff)
    moreover have "Suc (count (image_mset waiting_id W) (ot_id x)) \<le> 1" using f(6) [of "ot_id x"] by (simp del: One_nat_def)
    ultimately show False by linarith
  qed
  have fin: "finalized (get t') = add_mset (ot_payload x) (finalized (get t))"
    unfolding assms(3) by (rule finalized_update [OF m _ finite_records [OF f(1)]]) (simp add: x)
  show ?thesis
  proof (rule flowI [OF assms(2) f(2) f(3) f(4)])
    show "waiting_ok (get t') w" if "w \<in># W" for w
      unfolding assms(3) by (rule waiting_ok_other [OF f(5) free [OF that]]) (simp add: that)
    show "count (image_mset waiting_id W) j \<le> 1" for j by (rule count_image_less [OF f(6)])
    show "record_ok sub r" if "get t' j = Some r" for j r
    proof (cases "j = ot_id x")
      case True
      then have "r = x" using that by (simp add: assms(3))
      moreover have "record_ok sub m" by (rule f(7) [OF m(1)])
      ultimately show ?thesis by (simp add: record_ok_def x)
    next
      case False
      with that show ?thesis by (intro f(7) [of j]) (simp add: assms(3))
    qed
  qed (use f(8,9) in \<open>simp_all add: fin\<close>)
qed

section \<open>The steps\<close>

definition deps_ok :: "('t, 'e) offline_deps \<Rightarrow> bool" where
  "deps_ok D \<longleftrightarrow> od_txs D = T \<and> od_events D = E \<and> models_valid D"

definition flow_state :: "manager \<Rightarrow> transaction_payload list \<Rightarrow> ('t, 'e) offline_state \<Rightarrow> bool" where
  "flow_state M ps s \<longleftrightarrow> lm_listeners (of_messages s) = offline_listeners
     \<and> flow M ps (lm_id (of_messages s)) (mset (lm_calls (of_messages s))) (of_txs s) (of_events s) (of_submitted s)
         (mset (of_waiting s)) (mset (map snd (of_rejected s)))"

lemma flow_state_start: "inv t \<Longrightarrow> einv e \<Longrightarrow> get t = Map.empty \<Longrightarrow> bodies e = {#} \<Longrightarrow> flow_state M [] (offline_start t e)"
  by (simp add: flow_state_def flow_def finalized_def)

lemma step_begin:
  assumes "deps_ok D" "flow_state (od_manager D) ps s"
  shows "flow_state (od_manager D) (ps @ begun_by (Begin i P md)) (offline_step D (Begin i P md) s)"
proof (cases "pr_toSignablePayload P (object_put ''internalTxId'' i md)")
  case (Inl e)
  then show ?thesis using assms(2) by (simp add: beginTransaction_def andThen_def eff_simps)
next
  case (Inr p)
  let ?r = "\<lparr>rq_id = i, rq_payload = p\<rparr>"
  have "offline_step D (Begin i P md) s = sent (RequestMsg ?r) s"
    using assms Inr by (simp add: beginTransaction_def andThen_def eff_simps sendMessage_sent deps_ok_def flow_state_def)
  moreover have "flow_state (od_manager D) (ps @ [p]) (sent (RequestMsg ?r) s)"
    using assms(2) flow_begin [where r = ?r] unfolding flow_state_def sent_def by (simp add: add.commute)
  ultimately show ?thesis using Inr by simp
qed

text \<open>The turn of a call that has been taken out of the pending ones.\<close>

definition flow_without :: "manager \<Rightarrow> transaction_payload list \<Rightarrow> offline_listener \<times> offline_message \<Rightarrow> ('t, 'e) offline_state \<Rightarrow> bool" where
  "flow_without M ps c s \<longleftrightarrow> lm_listeners (of_messages s) = offline_listeners
     \<and> flow M ps (lm_id (of_messages s)) (add_mset c (mset (lm_calls (of_messages s)))) (of_txs s) (of_events s) (of_submitted s)
         (mset (of_waiting s)) (mset (map snd (of_rejected s)))"

lemma step_sign:
  assumes "deps_ok D" "flow_without (od_manager D) ps (AutoSign, RequestMsg r) s"
  shows "flow_state (od_manager D) ps (unhandled AutoSign [rq_payload r] (autoSign D r) s)"
proof (cases "signing_signPayload (od_manager D) (tp_payload (rq_payload r))")
  case (Inl e)
  then show ?thesis using assms(2) flow_rejected_call
    by (fastforce simp: autoSign_def andThen_def eff_simps unhandled_def flow_state_def flow_without_def is_record_def call_payload_def)
next
  case (Inr sg)
  let ?g = "\<lparr>og_id = rq_id r, og_signature = sg, og_payload = rq_payload r\<rparr>"
  have "unhandled AutoSign [rq_payload r] (autoSign D r) s = sent (SignatureMsg ?g) s"
    using assms Inr by (simp add: autoSign_def andThen_def eff_simps unhandled_def sendMessage_sent deps_ok_def flow_without_def)
  moreover have "flow_state (od_manager D) ps (sent (SignatureMsg ?g) s)"
    using assms(2) flow_signed [OF _ Inr, where g = ?g] unfolding flow_state_def flow_without_def sent_def
    by (simp add: add.commute)
  ultimately show ?thesis by simp
qed

lemma step_submit:
  assumes "deps_ok D" "flow_without (od_manager D) ps (SubmitSignature, SignatureMsg g) s"
  shows "flow_state (od_manager D) ps (unhandled SubmitSignature [og_payload g] (submit_begin D g) s)"
proof -
  let ?p = "\<lparr>ot_id = og_id g, ot_payload = og_payload g, ot_signature = og_signature g, ot_status = Signed,
        ot_address = sp_address (tp_payload (og_payload g)), ot_nonce = parseInt16 (sp_nonce (tp_payload (og_payload g))),
        ot_blockHash = None, ot_txIndex = None, ot_txHash = None\<rparr>"
  note f = assms(2) [unfolded flow_without_def]
  obtain i t' where c: "ox_createTx T ?p (of_txs s) = (Inr (?p\<lparr>ot_id := i\<rparr>), t')" "inv t'" "get (of_txs s) i = None"
      "get t' = (get (of_txs s))(i \<mapsto> ?p\<lparr>ot_id := i\<rparr>)"
    using createTx [OF flowD(1), OF conjunct2 [OF f], of ?p] by blast
  have "unhandled SubmitSignature [og_payload g] (submit_begin D g) s =
      s\<lparr>of_txs := t', of_submitted := of_submitted s @ [(og_payload g, og_signature g)],
        of_waiting := of_waiting s @ [AwaitChain g (parseInt16 (sp_nonce (tp_payload (og_payload g)))) (?p\<lparr>ot_id := i\<rparr>)]\<rparr>"
    using assms(1) c(1) by (simp add: unhandled_def submit_begin_def Let_def andThen_def zoom_def eff_simps deps_ok_def)
  then show ?thesis
    using f flow_created [OF conjunct2 [OF f] refl c(2-4)] unfolding flow_state_def by simp
qed

lemma step_record:
  assumes "deps_ok D" "flow_without (od_manager D) ps (RecordEvent, m) s"
  shows "flow_state (od_manager D) ps (unhandled RecordEvent [] (Offline.recordEvent D m) s)"
proof -
  note f = assms(2) [unfolded flow_without_def]
  obtain v e' where r: "oe_recordEvent E m (of_events s) = (Inr v, e')" "einv e'" "bodies e' = add_mset m (bodies (of_events s))"
    using recordEvent [OF flowD(2), OF conjunct2 [OF f], of m] by blast
  then have "unhandled RecordEvent [] (Offline.recordEvent D m) s = s\<lparr>of_events := e'\<rparr>"
    using assms(1) by (simp add: unhandled_def Offline.recordEvent_def andThen_def zoom_def eff_simps deps_ok_def)
  then show ?thesis using f flow_recorded [OF conjunct2 [OF f] r(2,3)] unfolding flow_state_def by simp
qed

lemma step_call:
  assumes "deps_ok D" "flow_state (od_manager D) ps s"
  shows "flow_state (od_manager D) ps (offline_step D (RunListener n) s)"
proof (cases "n < length (lm_calls (of_messages s))")
  case True
  obtain l m where c: "lm_calls (of_messages s) ! n = (l, m)" by (cases "lm_calls (of_messages s) ! n")
  let ?s = "s\<lparr>of_messages := (of_messages s)\<lparr>lm_calls := drop_nth n (lm_calls (of_messages s))\<rparr>\<rparr>"
  have w: "flow_without (od_manager D) ps (l, m) ?s"
    using assms(2) mset_drop_nth [OF True] by (simp add: flow_state_def flow_without_def c)
  have ok: "call_ok (od_manager D) ps (l, m)"
    using flowD(3) [OF conjunct2 [OF w [unfolded flow_without_def]]] by simp
  have step: "offline_step D (RunListener n) s =
      unhandled l (if l = RecordEvent then [] else message_payload m) (listener_body D l m) ?s"
    using True by (simp add: c)
  show ?thesis
  proof (cases l)
    case AutoSign
    with ok obtain r where "m = RequestMsg r" by auto
    with step_sign [OF assms(1)] w AutoSign show ?thesis unfolding step by simp
  next
    case SubmitSignature
    with ok obtain g where "m = SignatureMsg g" by auto
    with step_submit [OF assms(1)] w SubmitSignature show ?thesis unfolding step by simp
  next
    case RecordEvent
    with step_record [OF assms(1)] w show ?thesis unfolding step by simp
  qed
qed (use assms(2) in simp)

lemma step_chain:
  assumes "deps_ok D" "flow_state (od_manager D) ps s"
  shows "flow_state (od_manager D) ps (offline_step D (ChainAnswer n answer) s)"
proof (cases "n < length (of_waiting s) \<and> (\<exists>g k t. of_waiting s ! n = AwaitChain g k t)")
  case True
  then obtain g k t where w: "of_waiting s ! n = AwaitChain g k t" by blast
  let ?s = "s\<lparr>of_waiting := drop_nth n (of_waiting s)\<rparr>"
  note f = assms(2) [unfolded flow_state_def mset_drop_nth [OF conjunct1 [OF True]] w]
  have step: "offline_step D (ChainAnswer n answer) s = unhandled SubmitSignature [ot_payload t] (submit_finalized D g k t answer) ?s"
    using True by (simp add: w)
  show ?thesis
  proof (cases answer)
    case (Inl e)
    then show ?thesis using f flow_rejected_wait [OF conjunct2 [OF f]] unfolding step
      by (simp add: unhandled_def submit_finalized_def andThen_def eff_simps flow_state_def)
  next
    case (Inr r)
    let ?f = "\<lparr>fz_id = og_id g, fz_address = sp_address (tp_payload (og_payload g)), fz_nonce = k, fz_result = r\<rparr>"
    show ?thesis using f assms(1) Inr flow_chain [OF conjunct2 [OF f], where f = ?f] unfolding step
      by (simp add: unhandled_def submit_finalized_def andThen_def eff_simps sendMessage_sent deps_ok_def sent_def flow_state_def add.commute)
  qed
next
  case False
  then have "offline_step D (ChainAnswer n answer) s = s" by (auto split: waiting.splits)
  then show ?thesis using assms(2) by simp
qed

lemma step_update:
  assumes "deps_ok D" "flow_state (od_manager D) ps s"
  shows "flow_state (od_manager D) ps (offline_step D (RunUpdate n) s)"
proof (cases "n < length (of_waiting s) \<and> (\<exists>t. of_waiting s ! n = AwaitUpdate t)")
  case True
  then obtain t where w: "of_waiting s ! n = AwaitUpdate t" by blast
  let ?s = "s\<lparr>of_waiting := drop_nth n (of_waiting s)\<rparr>"
  note f = assms(2) [unfolded flow_state_def mset_drop_nth [OF conjunct1 [OF True]] w]
  have step: "offline_step D (RunUpdate n) s = unhandled SubmitSignature [ot_payload t] (updateTransaction D t) ?s"
    using True by (simp add: w)
  have "waiting_ok (get (of_txs s)) (AwaitUpdate t)" by (rule flowD(5) [OF conjunct2 [OF f]]) simp
  then obtain m where m: "get (of_txs s) (ot_id t) = Some m" unfolding waiting_ok.simps by blast
  obtain t' where u: "ox_updateTx T (ot_id t) (whole_model t) (of_txs s) = (Inr t, t')" "inv t'"
      "get t' = (get (of_txs s))(ot_id t \<mapsto> t)"
    using updateTx [OF flowD(1) [OF conjunct2 [OF f]] m, of "whole_model t"] by auto
  show ?thesis using f assms(1) u(1) flow_updated [OF conjunct2 [OF f] u(2,3)] unfolding step
    by (simp add: unhandled_def updateTransaction_def andThen_def zoom_def eff_simps deps_ok_def flow_state_def)
next
  case False
  then have "offline_step D (RunUpdate n) s = s" by (auto split: waiting.splits)
  then show ?thesis using assms(2) by simp
qed

lemma step_flow:
  assumes "deps_ok D" "flow_state (od_manager D) ps s"
  shows "flow_state (od_manager D) (ps @ begun_by inp) (offline_step D inp s)"
proof (cases inp)
  case (Begin i P md)
  show ?thesis unfolding Begin by (rule step_begin [OF assms])
next
  case (RunListener n)
  show ?thesis unfolding RunListener using step_call [OF assms] by simp
next
  case (ChainAnswer n answer)
  show ?thesis unfolding ChainAnswer using step_chain [OF assms] by simp
next
  case (RunUpdate n)
  show ?thesis unfolding RunUpdate using step_update [OF assms] by simp
qed

lemma run_flow:
  assumes "deps_ok D" "flow_state (od_manager D) ps s"
  shows "flow_state (od_manager D) (ps @ concat (map begun_by inputs)) (fold (offline_step D) inputs s)"
  using assms(2)
proof (induction inputs arbitrary: ps s)
  case (Cons inp inputs)
  from Cons.IH [OF step_flow [OF assms(1) Cons.prems], of inp] show ?case by simp
qed simp

end

end
