(* ===== verification/Offline_Properties.thy ===== *)
theory Offline_Properties
  imports Offline_Flow
begin

text \<open>
  The properties of offline transactions with the in-memory repositories, for every order of the
  inputs, and a run that shows their hypotheses hold.
\<close>

interpretation lo: offline_process local_offline_txs keyed_ok ks_objects local_offline_events keyed_ok event_bodies
  by unfold_locales

definition local_offline_deps ::
    "(message_model \<Rightarrow> offline_message \<Rightarrow> string option) \<Rightarrow> manager \<Rightarrow>
     (offline_tx keyed_store, offline_message offline_event keyed_store) offline_deps" where
  "local_offline_deps validate M =
     \<lparr>od_validate = validate, od_txs = local_offline_txs, od_events = local_offline_events, od_manager = M\<rparr>"

definition local_offline_run ::
    "(message_model \<Rightarrow> offline_message \<Rightarrow> string option) \<Rightarrow> manager \<Rightarrow> 'res offline_input list \<Rightarrow>
     (offline_tx keyed_store, offline_message offline_event keyed_store) offline_state" where
  "local_offline_run validate M inputs = offline_run (local_offline_deps validate M) inputs keyed_start keyed_start"

definition begun :: "'res offline_input list \<Rightarrow> transaction_payload list" where
  "begun inputs = concat (map begun_by inputs)"

lemma local_deps_ok: "\<forall>c m. model_fits c m \<longrightarrow> validate c m = None \<Longrightarrow> lo.deps_ok (local_offline_deps validate M)"
  by (simp add: lo.deps_ok_def local_offline_deps_def models_valid_def)

lemma local_start_flow: "lo.flow_state M [] (offline_start keyed_start keyed_start)"
  by (rule lo.flow_state_start [OF keyed_ok_start keyed_ok_start]) (simp_all add: keyed_start_def event_bodies_def)

lemma local_run_flow:
  assumes "\<forall>c m. model_fits c m \<longrightarrow> validate c m = None"
  shows "lo.flow_state M (begun inputs) (local_offline_run validate M inputs)"
  using lo.run_flow [OF local_deps_ok [OF assms, of M], of "[]" _ inputs] local_start_flow
  by (simp add: local_offline_run_def offline_run_def begun_def local_offline_deps_def)

lemmas local_run_facts = lo.flowD [OF conjunct2 [OF local_run_flow [unfolded lo.flow_state_def]]]

section \<open>How much work a request causes\<close>

fun call_weight :: "offline_listener \<times> offline_message \<Rightarrow> nat" where
  "call_weight (AutoSign, m) = 6"
| "call_weight (SubmitSignature, m) = 4"
| "call_weight (RecordEvent, m) = 1"

fun waiting_weight :: "waiting \<Rightarrow> nat" where
  "waiting_weight (AwaitChain g n t) = 3"
| "waiting_weight (AwaitUpdate t) = 1"

definition offline_weight :: "('t, 'e) offline_state \<Rightarrow> nat" where
  "offline_weight s = sum_list (map call_weight (lm_calls (of_messages s))) + sum_list (map waiting_weight (of_waiting s))"

text \<open>An input takes effect when it picks something that is pending.\<close>

fun effective :: "'res offline_input \<Rightarrow> ('t, 'e) offline_state \<Rightarrow> bool" where
  "effective (Begin i P md) s = False"
| "effective (RunListener n) s = (n < length (lm_calls (of_messages s)))"
| "effective (ChainAnswer n a) s = (n < length (of_waiting s) \<and> (case of_waiting s ! n of AwaitChain _ _ _ \<Rightarrow> True | _ \<Rightarrow> False))"
| "effective (RunUpdate n) s = (n < length (of_waiting s) \<and> (case of_waiting s ! n of AwaitUpdate _ \<Rightarrow> True | _ \<Rightarrow> False))"

fun effective_steps :: "('t, 'e) offline_deps \<Rightarrow> 'res offline_input list \<Rightarrow> ('t, 'e) offline_state \<Rightarrow> nat" where
  "effective_steps D [] s = 0"
| "effective_steps D (inp # inputs) s =
     (if effective inp s then 1 else 0) + effective_steps D inputs (offline_step D inp s)"

lemma sum_drop_nth: "n < length xs \<Longrightarrow> sum_list (map f xs) = f (xs ! n) + sum_list (map f (drop_nth n xs))" for f :: "'a \<Rightarrow> nat"
proof -
  assume "n < length xs"
  then have "sum_mset (image_mset f (mset xs)) = f (xs ! n) + sum_mset (image_mset f (mset (drop_nth n xs)))"
    by (subst mset_drop_nth) simp_all
  then show ?thesis by (simp add: sum_mset_sum_list [symmetric])
qed

lemma weight_sent: "offline_weight (sent m s) = offline_weight s + sum_list (map call_weight (called m))"
  by (simp add: offline_weight_def sent_def)

lemma weight_sign:
  assumes "lo.deps_ok D" "lm_listeners (of_messages s) = offline_listeners"
  shows "offline_weight (unhandled AutoSign ps (autoSign D r) s) \<le> offline_weight s + 5"
proof (cases "signing_signPayload (od_manager D) (tp_payload (rq_payload r))")
  case (Inl e)
  then show ?thesis by (simp add: autoSign_def andThen_def eff_simps unhandled_def offline_weight_def)
next
  case (Inr sg)
  let ?g = "\<lparr>og_id = rq_id r, og_signature = sg, og_payload = rq_payload r\<rparr>"
  have "unhandled AutoSign ps (autoSign D r) s = sent (SignatureMsg ?g) s"
    using assms Inr by (simp add: autoSign_def andThen_def eff_simps unhandled_def sendMessage_sent lo.deps_ok_def)
  then show ?thesis by (simp add: weight_sent)
qed

lemma weight_submit: "offline_weight (unhandled SubmitSignature ps (submit_begin D g) s) \<le> offline_weight s + 3"
  by (auto simp: submit_begin_def Let_def andThen_def zoom_def eff_simps unhandled_def offline_weight_def split: sum.splits prod.splits)

lemma weight_record: "offline_weight (unhandled RecordEvent ps (recordEvent D m) s) = offline_weight s"
  by (auto simp: recordEvent_def andThen_def zoom_def eff_simps unhandled_def offline_weight_def split: sum.splits prod.splits)

lemma weight_update: "offline_weight (unhandled SubmitSignature ps (updateTransaction D t) s) = offline_weight s"
  by (auto simp: updateTransaction_def andThen_def zoom_def eff_simps unhandled_def offline_weight_def split: sum.splits prod.splits)

lemma weight_chain:
  assumes "lo.deps_ok D" "lm_listeners (of_messages s) = offline_listeners"
  shows "offline_weight (unhandled SubmitSignature ps (submit_finalized D g k t answer) s) \<le> offline_weight s + 2"
  using assms
  by (cases answer) (simp_all add: submit_finalized_def andThen_def eff_simps unhandled_def sendMessage_sent lo.deps_ok_def
      offline_weight_def sent_def)

lemma weight_call:
  assumes "lo.deps_ok D" "lo.flow_state (od_manager D) ps s" "n < length (lm_calls (of_messages s))"
  shows "offline_weight (offline_step D (RunListener n) s) < offline_weight s"
proof -
  obtain l m where c: "lm_calls (of_messages s) ! n = (l, m)" by (cases "lm_calls (of_messages s) ! n")
  let ?s = "s\<lparr>of_messages := (of_messages s)\<lparr>lm_calls := drop_nth n (lm_calls (of_messages s))\<rparr>\<rparr>"
  have "(l, m) \<in># mset (lm_calls (of_messages s))" using assms(3) c by (metis nth_mem set_mset_mset)
  with assms(2) have ok: "call_ok (od_manager D) ps (l, m)" unfolding lo.flow_state_def by (blast dest: lo.flowD(3))
  have L: "lm_listeners (of_messages ?s) = offline_listeners" using assms(2) by (simp add: lo.flow_state_def)
  have w: "offline_weight s = call_weight (l, m) + offline_weight ?s"
    using sum_drop_nth [OF assms(3), of call_weight] by (simp add: offline_weight_def c)
  have step: "offline_step D (RunListener n) s =
      unhandled l (if l = RecordEvent then [] else message_payload m) (listener_body D l m) ?s"
    using assms(3) by (simp add: c)
  show ?thesis
  proof (cases l)
    case AutoSign
    with ok obtain r where "m = RequestMsg r" by auto
    with AutoSign w show ?thesis unfolding step using weight_sign [OF assms(1) L, of "[rq_payload r]" r] by simp
  next
    case SubmitSignature
    with ok obtain g where "m = SignatureMsg g" by auto
    with SubmitSignature w show ?thesis unfolding step using weight_submit [of "[og_payload g]" D g ?s] by simp
  next
    case RecordEvent
    with w show ?thesis unfolding step by (simp add: weight_record)
  qed
qed

lemma weight_step:
  assumes "lo.deps_ok D" "lo.flow_state (od_manager D) ps s"
  shows "offline_weight (offline_step D inp s) + (if effective inp s then 1 else 0) \<le> offline_weight s + 7 * length (begun_by inp)"
proof (cases inp)
  case (Begin i P md)
  show ?thesis
  proof (cases "pr_toSignablePayload P (object_put ''internalTxId'' i md)")
    case (Inl e)
    then show ?thesis by (simp add: Begin beginTransaction_def andThen_def eff_simps)
  next
    case (Inr p)
    then have "offline_step D inp s = sent (RequestMsg \<lparr>rq_id = i, rq_payload = p\<rparr>) s"
      using assms by (simp add: Begin beginTransaction_def andThen_def eff_simps sendMessage_sent lo.deps_ok_def lo.flow_state_def)
    then show ?thesis by (simp add: Begin Inr weight_sent)
  qed
next
  case (RunListener n)
  then show ?thesis using weight_call [OF assms, of n] by (cases "n < length (lm_calls (of_messages s))") simp_all
next
  case (ChainAnswer n a)
  show ?thesis
  proof (cases "effective inp s")
    case True
    then obtain g k t where w: "n < length (of_waiting s)" "of_waiting s ! n = AwaitChain g k t"
      by (auto simp: ChainAnswer split: waiting.splits)
    let ?s = "s\<lparr>of_waiting := drop_nth n (of_waiting s)\<rparr>"
    have "offline_weight s = 3 + offline_weight ?s"
      using sum_drop_nth [OF w(1), of waiting_weight] by (simp add: offline_weight_def w(2))
    moreover have "lm_listeners (of_messages ?s) = offline_listeners" using assms(2) by (simp add: lo.flow_state_def)
    note weight_chain [OF assms(1) this, of "[ot_payload t]" g k t a]
    ultimately show ?thesis using True by (simp add: ChainAnswer w)
  next
    case False
    then show ?thesis by (auto simp: ChainAnswer split: waiting.splits)
  qed
next
  case (RunUpdate n)
  show ?thesis
  proof (cases "effective inp s")
    case True
    then obtain t where w: "n < length (of_waiting s)" "of_waiting s ! n = AwaitUpdate t"
      by (auto simp: RunUpdate split: waiting.splits)
    let ?s = "s\<lparr>of_waiting := drop_nth n (of_waiting s)\<rparr>"
    have "offline_weight s = 1 + offline_weight ?s"
      using sum_drop_nth [OF w(1), of waiting_weight] by (simp add: offline_weight_def w(2))
    then show ?thesis using True by (simp add: RunUpdate w weight_update)
  next
    case False
    then show ?thesis by (auto simp: RunUpdate split: waiting.splits)
  qed
qed

lemma weight_run:
  assumes "lo.deps_ok D" "lo.flow_state (od_manager D) ps s"
  shows "offline_weight (fold (offline_step D) inputs s) + effective_steps D inputs s
     \<le> offline_weight s + 7 * length (concat (map begun_by inputs))"
  using assms(2)
proof (induction inputs arbitrary: ps s)
  case (Cons inp inputs)
  note weight_step [OF assms(1) Cons.prems, of inp]
  with Cons.IH [OF lo.step_flow [OF assms(1) Cons.prems, of inp]] show ?case by simp
qed simp

section \<open>Properties\<close>

definition in_flight :: "('t, 'e) offline_state \<Rightarrow> transaction_payload multiset" where
  "in_flight s = \<Sum>\<^sub># (image_mset call_payload (mset (lm_calls (of_messages s)))) + image_mset waiting_payload (mset (of_waiting s))"

text \<open>
  C14: only requested transactions reach the chain. Whatever the order of the work, each payload handed to
  the chain is the payload of a transaction that was begun, and the signature handed over
  with it is the one the signing service gave for exactly that payload.
\<close>

theorem offline_submissions_authorised:
  assumes "\<forall>c m. model_fits c m \<longrightarrow> validate c m = None"
    and "(p, sg) \<in> set (of_submitted (local_offline_run validate M inputs))"
  shows "p \<in> set (begun inputs) \<and> signing_signPayload M (tp_payload p) = Inr sg"
  by (rule local_run_facts(4) [OF assms])

text \<open>
  C15: no transaction is lost and none is processed twice. The transactions begun are, each as often as it
  was begun, those still in progress, those recorded as finalized, and those whose processing failed.
\<close>

theorem offline_transactions_conserved:
  assumes "\<forall>c m. model_fits c m \<longrightarrow> validate c m = None"
  shows "mset (begun inputs) = in_flight (local_offline_run validate M inputs)
     + finalized (ks_objects (of_txs (local_offline_run validate M inputs)))
     + mset (map snd (of_rejected (local_offline_run validate M inputs)))"
  using local_run_facts(8) [OF assms] by (simp add: in_flight_def)

text \<open>
  C16: the records of offline transactions. A record names a payload and signature that were handed to the
  chain, has the address of the payload and its nonce read as hexadecimal, and it has a
  block, a position and a hash exactly when it is finalized.
\<close>

theorem offline_records_correct:
  assumes "\<forall>c m. model_fits c m \<longrightarrow> validate c m = None"
    and "ks_objects (of_txs (local_offline_run validate M inputs)) i = Some r"
  shows "(ot_payload r, ot_signature r) \<in> set (of_submitted (local_offline_run validate M inputs))
     \<and> ot_address r = sp_address (tp_payload (ot_payload r))
     \<and> (\<forall>n. sp_nonce (tp_payload (ot_payload r)) = ''0x'' @ nat_to_hex n \<longrightarrow> ot_nonce r = Num (int n))
     \<and> (ot_status r = Finalized \<longleftrightarrow> ot_blockHash r \<noteq> None) \<and> (ot_status r = Finalized \<longleftrightarrow> ot_txIndex r \<noteq> None)
     \<and> (ot_status r = Finalized \<longleftrightarrow> ot_txHash r \<noteq> None)"
  using local_run_facts(7) [OF assms] by (auto simp: record_ok_def parseInt16_hex simp del: append.simps)

text \<open>
  the transcript is complete: the messages published are those recorded and those whose recording
  is pending, and their number is the number of identifiers the message service has used.
\<close>

theorem offline_messages_recorded:
  assumes "\<forall>c m. model_fits c m \<longrightarrow> validate c m = None"
  shows "lm_id (of_messages (local_offline_run validate M inputs)) =
     1 + size (event_bodies (of_events (local_offline_run validate M inputs)))
       + length (filter is_record (lm_calls (of_messages (local_offline_run validate M inputs))))"
  using local_run_facts(9) [OF assms] by (simp flip: size_mset add: mset_filter)

text \<open>
  C17: processing ends. A transaction causes at most seven steps of the process, whatever the order in which
  they are taken: once no new ones are begun, nothing is pending after that many steps.
\<close>

theorem offline_work_bounded:
  assumes "\<forall>c m. model_fits c m \<longrightarrow> validate c m = None"
  shows "effective_steps (local_offline_deps validate M) inputs (offline_start keyed_start keyed_start)
     + offline_weight (local_offline_run validate M inputs) \<le> 7 * length (begun inputs)"
  using weight_run [OF local_deps_ok [OF assms] local_start_flow, of M inputs]
  by (simp add: local_offline_run_def offline_run_def begun_def offline_weight_def add.commute)

section \<open>A run\<close>

definition demo_validate :: "message_model \<Rightarrow> offline_message \<Rightarrow> string option" where
  "demo_validate c m = (case (c, m) of
      (OfflineRequestModel, RequestMsg r) \<Rightarrow> None | (OfflineSignatureModel, SignatureMsg g) \<Rightarrow> None
    | (AnyModel, m) \<Rightarrow> None | _ \<Rightarrow> Some ''invalid'')"

lemma demo_validate_ok: "\<forall>c m. model_fits c m \<longrightarrow> demo_validate c m = None"
proof (intro allI impI)
  fix c m
  assume "model_fits c m"
  then show "demo_validate c m = None" by (cases c) (auto simp: demo_validate_def split: offline_message.splits)
qed

definition demo_payload :: transaction_payload where
  "demo_payload = \<lparr>tp_payload = \<lparr>sp_address = ''5abc'', sp_nonce = ''0x1f'', sp_rest = ''''\<rparr>, tp_method = ''0x00'',
     tp_metadata = [], tp_multiSig = None\<rparr>"

definition demo_offline_tx :: sdk_transaction where
  "demo_offline_tx = \<lparr>tx_kind_of = None, tx_status = Idle, tx_txHash = None, tx_blockHash = None, tx_blockNumber = None,
     tx_error = None, tx_multiSig = None\<rparr>"

definition demo_procedure :: "unit procedure" where
  "demo_procedure = \<lparr>pr_tx = demo_offline_tx, pr_supportsSubsidy = True, pr_totalFees = Inl NotAnError,
     pr_toSignablePayload = (\<lambda>md. Inr demo_payload), pr_run = Inl NotAnError, pr_runAsProposal = Inl NotAnError\<rparr>"

definition demo_inputs :: "unit offline_input list" where
  "demo_inputs = [Begin ''uuid'' demo_procedure [], RunListener 0, RunListener 1,
     ChainAnswer 0 (Inr \<lparr>sr_blockHash = ''b'', sr_transactionHash = ''h'', sr_transactionIndex = 3\<rparr>), RunUpdate 0]"

definition demo_signer :: manager where
  "demo_signer = demo_manager"

abbreviation demo_run :: "(offline_tx keyed_store, offline_message offline_event keyed_store) offline_state" where
  "demo_run \<equiv> local_offline_run demo_validate demo_signer demo_inputs"

lemma demo_submitted: "of_submitted demo_run = [(demo_payload, ''sig'')]"
  by code_simp

lemma demo_record: "ks_objects (of_txs demo_run) ''1'' = Some \<lparr>ot_id = ''1'', ot_payload = demo_payload, ot_signature = ''sig'',
   ot_status = Finalized, ot_address = ''5abc'', ot_nonce = Num 31, ot_blockHash = Some ''b'', ot_txIndex = Some ''3'', ot_txHash = Some ''h''\<rparr>"
  by code_simp

theorem offline_submissions_authorised_witness:
  "demo_payload \<in> set (begun demo_inputs) \<and> signing_signPayload demo_signer (tp_payload demo_payload) = Inr ''sig''"
  by (rule offline_submissions_authorised [OF demo_validate_ok]) (simp add: demo_submitted)

theorem offline_transactions_conserved_witness:
  "mset (begun demo_inputs) = in_flight demo_run + finalized (ks_objects (of_txs demo_run)) + mset (map snd (of_rejected demo_run))"
  by (rule offline_transactions_conserved [OF demo_validate_ok])

theorem offline_records_correct_witness:
  "\<exists>r. ks_objects (of_txs demo_run) ''1'' = Some r \<and> ot_status r = Finalized \<and> ot_txHash r \<noteq> None"
  using offline_records_correct [OF demo_validate_ok demo_record] demo_record by simp

theorem offline_messages_recorded_witness:
  "lm_id (of_messages demo_run) = 1 + size (event_bodies (of_events demo_run)) + length (filter is_record (lm_calls (of_messages demo_run)))"
  by (rule offline_messages_recorded [OF demo_validate_ok])

theorem offline_work_bounded_witness:
  "effective_steps (local_offline_deps demo_validate demo_signer) demo_inputs (offline_start keyed_start keyed_start)
     + offline_weight demo_run \<le> 7 * length (begun demo_inputs)"
  by (rule offline_work_bounded [OF demo_validate_ok])

end
