(* ===== verification/Submit_Properties.thy ===== *)
theory Submit_Properties
  imports Submit Webhook_Properties Offline_Properties
begin

text \<open>
  The properties of submitting a transaction: which calls are made on the SDK and what is answered in each
  mode, which errors reach the controller, and how the submission with a callback relates to the
  process of \<open>Webhooks\<close>.
\<close>

section \<open>Lemmas\<close>

lemma submit_ok_runs:
  "submit_ok mode cs r \<Longrightarrow> length (runs cs) \<le> 1 \<and> (mode \<in> {DryRun, OfflineMode, AMQP} \<longrightarrow> runs cs = [])
     \<and> (mode \<in> {SubmitMode, SubmitWithCallback} \<and> (\<exists>x. r = Inr x) \<longrightarrow> length (runs cs) = 1)"
  by (cases mode; cases r; cases "projr r") (auto simp: submit_ok_other)

lemma rethrowing_error: "rethrowing m s = (Inl e, s') \<Longrightarrow> \<exists>e0. e = thrown e0"
  by (auto simp: rethrowing_def tryCatch_def eff_simps split: prod.splits sum.splits)

lemma process_error: "processTransaction mth args po opts s = (Inl e, s') \<Longrightarrow> \<exists>e0. e = thrown e0"
  unfolding processTransaction_def by (rule rethrowing_error)

lemma thrown_shape: "(\<exists>a. thrown e = AppErr a) \<or> (\<exists>w. thrown e = IllTyped w)"
  using thrown_is_AppErr [of e] by (cases e) auto

section \<open>Properties\<close>

text \<open>
  C11: the chain is only touched when the request asks for it. Whatever the method, the state and the outcome, a
  submission runs the transaction at most once; a dry run, an offline request and a request put on the queue never
  run it, and a submission that returns normally in one of the other modes has run it exactly once.
\<close>

theorem submit_runs_by_mode:
  assumes "submit G mth args opts uuid seen s = (r, s')"
  shows "\<exists>cs. gw_calls s' = gw_calls s @ cs \<and> length (runs cs) \<le> 1
     \<and> (op_processMode opts \<in> {DryRun, OfflineMode, AMQP} \<longrightarrow> runs cs = [])
     \<and> (op_processMode opts \<in> {SubmitMode, SubmitWithCallback} \<and> (\<exists>x. r = Inr x) \<longrightarrow> length (runs cs) = 1)"
proof -
  obtain cs where cs: "gw_calls s' = gw_calls s @ cs" "submit_ok (op_processMode opts) cs r"
    by (rule makesE [OF makes_submit assms])
  with submit_ok_runs [OF cs(2)] show ?thesis by (intro exI [of _ cs]) simp
qed

text \<open>
  C12: what a request is answered with. A successful submission answers an offline request with the payload, a
  queued request with a receipt, a request with a callback with a notification, a dry run with no
  transactions, and a plain submission with exactly one transaction; the model of the controller is made
  accordingly.
\<close>

theorem submit_answers_by_mode:
  assumes "submit G mth args opts uuid seen s = (Inr x, s')"
  shows "case op_processMode opts of
      OfflineMode \<Rightarrow> \<exists>d p. handleServiceResult x resolver = TransactionPayloadResultModel p d
    | AMQP \<Rightarrow> \<exists>r. handleServiceResult x resolver = OfflineReceiptModel r
    | SubmitWithCallback \<Rightarrow> \<exists>n. handleServiceResult x resolver = NotificationPayloadModel n
    | DryRun \<Rightarrow> (\<exists>d p. x = ProposalResult p [] d) \<or> (\<exists>d. x = DirectResult None [] d)
    | SubmitMode \<Rightarrow> (\<exists>p m d. x = ProposalResult p [m] d) \<or> (\<exists>r m d. x = DirectResult (Some r) [m] d)"
proof -
  obtain cs where "submit_ok (op_processMode opts) cs (Inr x)" by (rule makesE [OF makes_submit assms])
  then show ?thesis
    by (cases "op_processMode opts"; cases x) (auto simp: length_Suc_conv)
qed

text \<open>What can go wrong in \<open>processTransaction\<close>, before translation.\<close>

definition process_failures :: "('args, 'res) sdk_method \<Rightarrow> 'args \<Rightarrow> procedure_opts \<Rightarrow> transaction_options \<Rightarrow> exn set" where
  "process_failures mth args po opts =
     (case m_call mth (if m_noArgs mth then None else Some args) po of
        Inl e \<Rightarrow> {e}
      | Inr P \<Rightarrow> (case pr_totalFees P of
          Inl e \<Rightarrow> {e}
        | Inr f \<Rightarrow> (case op_processMode opts of
            DryRun \<Rightarrow> {}
          | OfflineMode \<Rightarrow> {e. pr_toSignablePayload P (case op_metadata opts of None \<Rightarrow> [] | Some md \<Rightarrow> md) = Inl e}
          | _ \<Rightarrow> if tx_multiSig (pr_tx P) = None
              then {e. pr_run P = Inl e} \<union> {e. \<exists>r tx'. pr_run P = Inr (r, tx') \<and> tx_kind_of tx' = None
                  \<and> e = AppErr (appInternalError ''Unsupported transaction details received. Please report this issue to the Polymesh team'')}
              else {e. pr_runAsProposal P = Inl e} \<union> {e. \<exists>p tx'. pr_runAsProposal P = Inr (p, tx') \<and> tx_kind_of tx' = None
                  \<and> e = AppErr (appInternalError ''Unsupported transaction details received. Please report this issue to the Polymesh team'')})))"

lemma prepareProcedure_eq:
  "prepareProcedure mth args po s = (case m_call mth (if m_noArgs mth then None else Some args) po of Inl e \<Rightarrow> Inl (thrown e) | Inr P \<Rightarrow> Inr P,
     s\<lparr>gw_calls := gw_calls s @ [PrepareCall]\<rparr>)"
  by (simp add: prepareProcedure_def rethrowing_def tryCatch_def sdk_def throw_def split: sum.split)

lemma processPrepared_error:
  assumes "m_call mth (if m_noArgs mth then None else Some args) po = Inr P" "pr_totalFees P = Inr f"
    and "processPrepared P d opts s = (Inl e, s')"
  shows "e \<in> process_failures mth args po opts"
  using assms
  by (cases "op_processMode opts"; cases "tx_multiSig (pr_tx P)"; cases "pr_run P"; cases "pr_runAsProposal P")
    (auto simp: process_failures_def processPrepared_def andThen_def sdk_def lift_result_def ret_def assembleTransactionResponse_def
      split: option.splits sum.splits)

lemma processTransaction_error:
  assumes "processTransaction mth args po opts s = (Inl e, s')"
  shows "\<exists>e0 \<in> process_failures mth args po opts. e = thrown e0"
proof (cases "m_call mth (if m_noArgs mth then None else Some args) po")
  case (Inl e0)
  with assms show ?thesis
    by (simp add: processTransaction_def rethrowing_def tryCatch_def andThen_def prepareProcedure_eq throw_def process_failures_def thrown_idem)
next
  case (Inr P)
  show ?thesis
  proof (cases "pr_totalFees P")
    case (Inl e0)
    with Inr assms show ?thesis
      by (simp add: processTransaction_def rethrowing_def tryCatch_def andThen_def prepareProcedure_eq throw_def sdk_def process_failures_def)
  next
    case fees: (Inr f)
    let ?s = "s\<lparr>gw_calls := gw_calls s @ [PrepareCall, TotalFeesCall]\<rparr>"
    obtain r t where run: "processPrepared P (transaction_details P f) opts ?s = (r, t)" by fastforce
    with Inr fees assms obtain e0 where "r = Inl e0" "e = thrown e0"
      by (cases r) (auto simp: processTransaction_def rethrowing_def tryCatch_def andThen_def prepareProcedure_eq throw_def sdk_def)
    with processPrepared_error [OF Inr fees run [unfolded \<open>r = Inl e0\<close>]] show ?thesis by blast
  qed
qed

text \<open>
  C13: the errors of a plain submission, a dry run or an offline request. A failure to find the signing account reaches the controller as it is.
  Otherwise the error is what \<open>handleSdkError\<close> makes of one of the failures that the mode can have: of preparing the transaction, of its fees,
  and then, by mode, of its payload or of its run. No other error occurs, and a failure that is an exception of the source becomes an application error.
\<close>

theorem submit_errors_translated:
  fixes G and mth :: "('args, 'res) sdk_method"
  assumes "op_processMode opts \<in> {SubmitMode, DryRun, OfflineMode}" "submit G mth args opts uuid seen s = (Inl e, s')"
  shows "getSigningAccount (gd_signing G) (od_manager (gd_offline G)) (op_signer opts) s = (Inl e, s')
     \<or> (\<exists>account s1. getSigningAccount (gd_signing G) (od_manager (gd_offline G)) (op_signer opts) s = (Inr account, s1)
        \<and> (\<exists>e0 \<in> process_failures mth args \<lparr>po_signingAccount = account, po_mortality = op_mortality opts, po_nonce = op_nonce opts\<rparr> opts.
             e = thrown e0 \<and> ((\<forall>w. e0 \<noteq> IllTyped w) \<longrightarrow> (\<exists>a. e = AppErr a))))"
proof -
  obtain r s1 where account: "getSigningAccount (gd_signing G) (od_manager (gd_offline G)) (op_signer opts) s = (r, s1)" by fastforce
  show ?thesis
  proof (cases r)
    case (Inl e1)
    with account assms(2) show ?thesis by (simp add: submit_def andThen_def)
  next
    case (Inr acc)
    let ?po = "\<lparr>po_signingAccount = acc, po_mortality = op_mortality opts, po_nonce = op_nonce opts\<rparr>"
    from assms account Inr have run: "andThen (rethrowing (prepareProcedure mth args ?po)) (\<lambda>_. processTransaction mth args ?po opts) s1 = (Inl e, s')"
      by (auto simp: submit_def andThen_def Let_def split: prod.splits sum.splits)
    have "\<exists>e0 \<in> process_failures mth args ?po opts. e = thrown e0"
    proof (cases "m_call mth (if m_noArgs mth then None else Some args) ?po")
      case (Inl e0)
      with run show ?thesis
        by (simp add: andThen_def rethrowing_def tryCatch_def prepareProcedure_eq throw_def process_failures_def thrown_idem)
    next
      case (Inr P)
      with run have "processTransaction mth args ?po opts (s1\<lparr>gw_calls := gw_calls s1 @ [PrepareCall]\<rparr>) = (Inl e, s')"
        by (simp add: andThen_def rethrowing_def tryCatch_def prepareProcedure_eq)
      then show ?thesis by (rule processTransaction_error)
    qed
    with account Inr thrown_is_AppErr show ?thesis by blast
  qed
qed

text \<open>
  a queued request is the exception: when the SDK refuses to make the payload, its error reaches the
  controller as it is, because the promise is returned from the \<open>try\<close> without being awaited.
\<close>

theorem amqp_errors_untranslated:
  assumes "op_processMode opts = AMQP" "isAddress (od_manager (gd_offline G)) (op_signer opts)"
    and "\<And>a po. m_call mth a po = Inr P" "\<And>md. pr_toSignablePayload P md = Inl e"
  shows "fst (submit G mth args opts uuid seen s) = Inl e"
  using assms
  by (simp add: submit_def getSigningAccount_def prepareProcedure_def rethrowing_def tryCatch_def andThen_def sdk_def
      beginTransaction_def zoom_def eff_simps Let_def)

text \<open>
  The options of a request. Options that are given are taken as they are, and the deprecated fields next to them are
  ignored: the error for mixing the two never occurs. Without options a signer is needed, and a request
  that ends up with a callback has a callback address.
\<close>

theorem extract_options_spec:
  "case tb_options params of
     Some options \<Rightarrow> extractTxOptions params = Inr (options, tb_args params)
   | None \<Rightarrow>
       if present (tb_signer params)
       then \<exists>opts. extractTxOptions params = Inr (opts, tb_args params) \<and> tb_signer params = Some (op_signer opts)
          \<and> op_webhookUrl opts = tb_webhookUrl params
          \<and> (op_processMode opts = DryRun \<longleftrightarrow> tb_dryRun params = Some True)
          \<and> (op_processMode opts = SubmitWithCallback \<longleftrightarrow> tb_dryRun params \<noteq> Some True \<and> present (op_webhookUrl opts))
          \<and> op_processMode opts \<in> {SubmitMode, SubmitWithCallback, DryRun}
       else \<exists>m. extractTxOptions params = Inl (AppErr (appValidationError m))"
  by (cases "tb_options params"; cases "tb_signer params")
    (auto simp: extractTxOptions_def deprecatedParams_def present_def Let_def)

text \<open>
  The status code of an accepted callback. A request whose options are extracted to a submission with a
  callback is answered with 202 when it uses the deprecated fields; when it uses the options, which the
  interceptor does not look at, it is answered with 201.
\<close>

theorem callback_status_code:
  assumes "extractTxOptions params = Inr (opts, args)" "op_processMode opts = SubmitWithCallback"
  shows "(tb_options params = None \<longrightarrow> webhookResponseCode 201 params = 202)
     \<and> (tb_options params \<noteq> None \<and> tb_webhookUrl params = None \<longrightarrow> webhookResponseCode 201 params = 201)"
  using assms
  by (cases "tb_options params")
    (auto simp: extractTxOptions_def deprecatedParams_def webhookResponseCode_def present_def Let_def split: if_splits)

section \<open>Witnesses\<close>

definition demo_options :: "process_mode \<Rightarrow> transaction_options" where
  "demo_options mode = \<lparr>op_signer = ''alice'', op_processMode = mode, op_mortality = None, op_nonce = None,
     op_webhookUrl = Some ''https://hook'', op_metadata = None\<rparr>"

definition demo_fees :: total_fees where
  "demo_fees = \<lparr>tf_fees = \<lparr>fee_protocol = BN 1, fee_gas = BN 1, fee_total = BN 2\<rparr>, tf_balance = BN 10, tf_type = ''Caller'', tf_address = ''5m''\<rparr>"

definition demo_prepared :: "nat procedure" where
  "demo_prepared = \<lparr>pr_tx = Webhook_Properties.demo_tx, pr_supportsSubsidy = True, pr_totalFees = Inr demo_fees,
     pr_toSignablePayload = (\<lambda>md. Inl (PolymeshErr ValidationError ''bad'')), pr_run = Inr (7, Webhook_Properties.demo_tx),
     pr_runAsProposal = Inl NotAnError\<rparr>"

definition demo_method :: "(unit, nat) sdk_method" where
  "demo_method = \<lparr>m_noArgs = False, m_call = (\<lambda>a po. Inr demo_prepared)\<rparr>"

definition demo_addresses :: manager where
  "demo_addresses = demo_manager\<lparr>mg_isValidAddress := (\<lambda>a. True)\<rparr>"

definition demo_gateway_deps ::
    "(local_subs, local_notifs, list_registry, offline_tx keyed_store, offline_message offline_event keyed_store) gateway_deps" where
  "demo_gateway_deps = \<lparr>gd_webhooks = local_deps demo_config, gd_offline = local_offline_deps demo_validate demo_addresses,
     gd_signing = LocalService, gd_secret = ''legit''\<rparr>"

definition demo_gateway ::
    "(local_subs, local_notifs, list_registry, offline_tx keyed_store, offline_message offline_event keyed_store) gateway" where
  "demo_gateway = \<lparr>gw_book = Map.empty, gw_world = demo0, gw_offline = offline_start keyed_start keyed_start, gw_calls = []\<rparr>"

abbreviation demo_submit where
  "demo_submit mode \<equiv> submit demo_gateway_deps demo_method () (demo_options mode) ''uuid'' Webhook_Properties.demo_tx demo_gateway"

theorem submit_runs_by_mode_witness:
  "\<exists>cs. gw_calls (snd (demo_submit DryRun)) = gw_calls demo_gateway @ cs \<and> runs cs = []"
proof -
  have "demo_submit DryRun = (fst (demo_submit DryRun), snd (demo_submit DryRun))" by simp
  from submit_runs_by_mode [OF this] show ?thesis by (auto simp: demo_options_def)
qed

lemma demo_submit_ok: "\<exists>x s'. demo_submit SubmitMode = (Inr x, s')"
  by (simp add: submit_def demo_gateway_deps_def local_offline_deps_def demo_addresses_def getSigningAccount_def isAddress_def
      demo_options_def demo_method_def demo_prepared_def prepareProcedure_def rethrowing_def tryCatch_def andThen_def sdk_def
      processTransaction_def processPrepared_def Webhook_Properties.demo_tx_def assembleTransactionResponse_def eff_simps Let_def)

theorem submit_answers_by_mode_witness:
  "\<exists>x s'. demo_submit SubmitMode = (Inr x, s') \<and>
     ((\<exists>p m d. x = ProposalResult p [m] d) \<or> (\<exists>r m d. x = DirectResult (Some r) [m] d))"
proof -
  obtain x s' where "demo_submit SubmitMode = (Inr x, s')" using demo_submit_ok by blast
  with submit_answers_by_mode [OF this] show ?thesis by (auto simp: demo_options_def)
qed

definition demo_failing :: "(unit, nat) sdk_method" where
  "demo_failing = \<lparr>m_noArgs = True, m_call = (\<lambda>a po. Inl (PolymeshErr ValidationError ''bad''))\<rparr>"

theorem submit_errors_translated_witness:
  "fst (submit demo_gateway_deps demo_failing () (demo_options DryRun) ''uuid'' Webhook_Properties.demo_tx demo_gateway)
     = Inl (AppErr (appValidationError ''bad''))"
proof -
  let ?r = "submit demo_gateway_deps demo_failing () (demo_options DryRun) ''uuid'' Webhook_Properties.demo_tx demo_gateway"
  note demo = demo_gateway_deps_def local_offline_deps_def demo_addresses_def getSigningAccount_def isAddress_def demo_options_def demo_failing_def
  have "\<exists>e s'. ?r = (Inl e, s')"
    by (simp add: submit_def demo prepareProcedure_def rethrowing_def tryCatch_def andThen_def sdk_def eff_simps Let_def)
  then obtain e s' where r: "?r = (Inl e, s')" by blast
  from submit_errors_translated [OF _ r] have "e = AppErr (appValidationError ''bad'')"
    by (auto simp: demo process_failures_def eff_simps thrown_def)
  with r show ?thesis by simp
qed

theorem amqp_errors_untranslated_witness: "fst (demo_submit AMQP) = Inl (PolymeshErr ValidationError ''bad'')"
  by (rule amqp_errors_untranslated [where P = demo_prepared])
    (simp_all add: demo_options_def demo_gateway_deps_def local_offline_deps_def demo_addresses_def isAddress_def demo_method_def demo_prepared_def)

definition demo_params :: "unit transaction_base" where
  "demo_params = \<lparr>tb_options = Some (demo_options SubmitWithCallback), tb_signer = Some ''bob'', tb_webhookUrl = None, tb_dryRun = Some True, tb_args = ()\<rparr>"

theorem callback_status_code_witness: "webhookResponseCode 201 demo_params = 201"
proof -
  have "extractTxOptions demo_params = Inr (demo_options SubmitWithCallback, ())"
    by (simp add: extractTxOptions_def deprecatedParams_def demo_params_def)
  from callback_status_code [OF this] show ?thesis by (simp add: demo_options_def demo_params_def)
qed

theorem extract_options_spec_witness:
  "extractTxOptions demo_params = Inr (demo_options SubmitWithCallback, ())"
  using extract_options_spec [of demo_params] by (simp add: demo_params_def)

end
