(* ===== verification/Js_Values.thy ===== *)
theory Js_Values
  imports Sdk Js_Numeric
begin

text \<open>
  JavaScript values as the requests and responses carry them, and the transformations of
  \<open>common/decorators/transformation.ts\<close> and \<open>portfolios/decorators/transformation.ts\<close>, which are applied
  to the fields of a request before it is validated and to the fields of a model before it is sent.

  An object is the list of its own enumerable properties in order. A \<open>JInstance\<close> is an object of the named class; a
  \<open>JDate\<close> holds what its \<open>toISOString\<close> gives, \<open>None\<close> when the date is invalid; a \<open>JEntity\<close> is an SDK entity and
  holds what its \<open>toHuman\<close> gives. What the package \<open>bignumber.js\<close> does is the parameter \<open>bignumber\<close>.
\<close>

section \<open>Values\<close>

datatype js_value =
    JUndefined
  | JNull
  | JBool bool
  | JNumber js_real
  | JString string
  | JBig big_number
  | JDate "string option"
  | JArray "js_value list"
  | JObject "(string \<times> js_value) list"
  | JInstance string "(string \<times> js_value) list"
  | JEntity js_value

text \<open>\<open>typeof v === 'object'\<close>, which holds of \<open>null\<close> too.\<close>

fun typeof_object :: "js_value \<Rightarrow> bool" where
  "typeof_object JUndefined = False"
| "typeof_object (JBool _) = False"
| "typeof_object (JNumber _) = False"
| "typeof_object (JString _) = False"
| "typeof_object _ = True"

fun truthy :: "js_value \<Rightarrow> bool" where
  "truthy JUndefined = False"
| "truthy JNull = False"
| "truthy (JBool b) = b"
| "truthy (JNumber x) = (x \<noteq> JNaN \<and> x \<noteq> JRat 0)"
| "truthy (JString s) = (s \<noteq> '''')"
| "truthy _ = True"

fun is_string :: "js_value \<Rightarrow> bool" where
  "is_string (JString _) = True" | "is_string _ = False"

fun is_big :: "js_value \<Rightarrow> bool" where
  "is_big (JBig _) = True" | "is_big _ = False"

text \<open>\<open>v.k\<close> for the fields the source names, none of which is on a prototype.\<close>

fun own_properties :: "js_value \<Rightarrow> (string \<times> js_value) list" where
  "own_properties (JObject es) = es"
| "own_properties (JInstance _ es) = es"
| "own_properties _ = []"

definition field :: "js_value \<Rightarrow> string \<Rightarrow> js_value" where
  "field v k = (case map_of (own_properties v) k of Some x \<Rightarrow> x | None \<Rightarrow> JUndefined)"

text \<open>\<open>obj.k = v\<close>: an existing property keeps its place.\<close>

fun put_property :: "string \<Rightarrow> 'v \<Rightarrow> (string \<times> 'v) list \<Rightarrow> (string \<times> 'v) list" where
  "put_property k v [] = [(k, v)]"
| "put_property k v ((k', v') # es) = (if k' = k then (k, v) # es else (k', v') # put_property k v es)"

lemma map_of_put_property [simp]: "map_of (put_property k v es) = (map_of es)(k \<mapsto> v)"
  by (induction es) (auto simp: fun_upd_twist)

lemma put_property_same: "map_of es k = Some v \<Longrightarrow> put_property k v es = es"
  by (induction es) auto

lemma put_property_twice [simp]: "put_property k v (put_property k w es) = put_property k v es"
  by (induction es) auto

lemma set_put_property: "set (put_property k v es) \<subseteq> insert (k, v) (set es)"
  by (induction es) (auto split: if_splits)

lemma field_simps [simp]:
  "field (JObject es) k = (case map_of es k of Some x \<Rightarrow> x | None \<Rightarrow> JUndefined)"
  "field (JInstance c es) k = (case map_of es k of Some x \<Rightarrow> x | None \<Rightarrow> JUndefined)"
  by (simp_all add: field_def)

section \<open>Numbers\<close>

text \<open>
  \<open>bn_new\<close>: the constructor \<open>new BigNumber(v)\<close>; \<open>bn_text\<close>: \<open>toString\<close>; \<open>bn_nan_object\<close>: the own properties of
  the number that is not a number, which are primitive values.
\<close>

record bignumber =
  bn_new :: "js_value \<Rightarrow> big_number"
  bn_text :: "big_number \<Rightarrow> string"
  bn_nan_object :: "(string \<times> js_value) list"

fun ToBigNumber :: "bignumber \<Rightarrow> js_value \<Rightarrow> js_value" where
  "ToBigNumber B (JArray vs) = JArray (map (\<lambda>val. JBig (bn_new B val)) vs)"
| "ToBigNumber B v = JBig (bn_new B v)"

text \<open>
  \<open>FromBigNumber\<close> on the values of its declared type, or \<open>null\<close> and \<open>undefined\<close>; another value has a \<open>toString\<close> of its own.
\<close>

fun big_toString :: "bignumber \<Rightarrow> js_value \<Rightarrow> js_value result" where
  "big_toString B (JBig b) = Inr (JString (bn_text B b))"
| "big_toString B (JString s) = Inr (JString s)"
| "big_toString B JUndefined = Inl js_type_error"
| "big_toString B JNull = Inl js_type_error"
| "big_toString B _ = Inl (IllTyped ''BigNumber'')"

fun sequence :: "'a result list \<Rightarrow> 'a list result" where
  "sequence [] = Inr []"
| "sequence (Inl e # rs) = Inl e"
| "sequence (Inr a # rs) = (case sequence rs of Inl e \<Rightarrow> Inl e | Inr as \<Rightarrow> Inr (a # as))"

fun FromBigNumber :: "bignumber \<Rightarrow> js_value \<Rightarrow> js_value result" where
  "FromBigNumber B (JArray vs) = (case sequence (map (big_toString B) vs) of Inl e \<Rightarrow> Inl e | Inr rs \<Rightarrow> Inr (JArray rs))"
| "FromBigNumber B JUndefined = Inr JUndefined"
| "FromBigNumber B JNull = Inr JUndefined"
| "FromBigNumber B v = big_toString B v"

text \<open>\<open>(value || new BigNumber(0)).toString()\<close>\<close>

definition FromPortfolioId :: "bignumber \<Rightarrow> js_value \<Rightarrow> js_value result" where
  "FromPortfolioId B v = big_toString B (if truthy v then v else JBig (bn_new B (JNumber (JRat 0))))"

lemma sequence_Inr [simp]: "sequence (map (\<lambda>x. Inr (f x)) xs) = Inr (map f xs)"
  by (induction xs) auto

lemma sequence_Inr_iff: "sequence rs = Inr as \<longleftrightarrow> rs = map Inr as"
proof (induction rs arbitrary: as)
  case Nil
  then show ?case by auto
next
  case (Cons r rs)
  show ?case
  proof (cases r)
    case (Inl e)
    then show ?thesis by (cases as) auto
  next
    case (Inr a)
    have "sequence (r # rs) = Inr as \<longleftrightarrow> (\<exists>bs. sequence rs = Inr bs \<and> as = a # bs)"
      using Inr by (auto split: sum.splits)
    also have "\<dots> \<longleftrightarrow> (\<exists>bs. rs = map Inr bs \<and> as = a # bs)" using Cons.IH by simp
    also have "\<dots> \<longleftrightarrow> r # rs = map Inr as" using Inr by (cases as) auto
    finally show ?thesis .
  qed
qed

section \<open>Entities\<close>

fun FromEntity :: "js_value \<Rightarrow> js_value result" where
  "FromEntity (JEntity h) = Inr h"
| "FromEntity JUndefined = Inl js_type_error"
| "FromEntity JNull = Inl js_type_error"
| "FromEntity _ = Inr JUndefined"

fun toHumanObject :: "bignumber \<Rightarrow> js_value \<Rightarrow> js_value result" where
  "toHumanObject B (JEntity h) = Inr h"
| "toHumanObject B (JArray vs) = (case sequence (map (toHumanObject B) vs) of Inl e \<Rightarrow> Inl e | Inr rs \<Rightarrow> Inr (JArray rs))"
| "toHumanObject B (JDate (Some t)) = Inr (JString t)"
| "toHumanObject B (JDate None) = Inl (PlainErr ''Invalid time value'')"
| "toHumanObject B (JBig b) = Inr (if b \<noteq> BNNaN then JString (bn_text B b) else JObject (bn_nan_object B))"
| "toHumanObject B (JObject es) = (case sequence (map (\<lambda>(k, v). toHumanObject B v) es) of
      Inl e \<Rightarrow> Inl e | Inr rs \<Rightarrow> Inr (JObject (zip (map fst es) rs)))"
| "toHumanObject B (JInstance c es) = (case sequence (map (\<lambda>(k, v). toHumanObject B v) es) of
      Inl e \<Rightarrow> Inl e | Inr rs \<Rightarrow> Inr (JObject (zip (map fst es) rs)))"
| "toHumanObject B v = Inr v"

definition FromEntityObject :: "bignumber \<Rightarrow> js_value \<Rightarrow> js_value result" where
  "FromEntityObject B v = toHumanObject B v"

text \<open>A value that can be sent as JSON as it is: no entity, date, big number or object of a class is left in it.\<close>

fun plain :: "js_value \<Rightarrow> bool" where
  "plain (JArray vs) = list_all plain vs"
| "plain (JObject es) = list_all (\<lambda>(k, v). plain v) es"
| "plain (JBig _) = False"
| "plain (JDate _) = False"
| "plain (JInstance _ _) = False"
| "plain (JEntity _) = False"
| "plain _ = True"

text \<open>The \<open>toHuman\<close> values of the entities in a value are plain.\<close>

fun humans_plain :: "js_value \<Rightarrow> bool" where
  "humans_plain (JEntity h) = plain h"
| "humans_plain (JArray vs) = list_all humans_plain vs"
| "humans_plain (JObject es) = list_all (\<lambda>(k, v). humans_plain v) es"
| "humans_plain (JInstance _ es) = list_all (\<lambda>(k, v). humans_plain v) es"
| "humans_plain _ = True"

lemma toHumanObject_fields:
  assumes "\<And>k v r. (k, v) \<in> set es \<Longrightarrow> toHumanObject B v = Inr r \<Longrightarrow> P r"
    and "sequence (map (\<lambda>(k, v). toHumanObject B v) es) = Inr rs"
  shows "list_all (\<lambda>(k, v). P v) (zip (map fst es) rs)"
proof -
  from assms(2) have eq: "map (\<lambda>(k, v). toHumanObject B v) es = map Inr rs" by (simp add: sequence_Inr_iff)
  have "P v" if "(k, v) \<in> set (zip (map fst es) rs)" for k v
  proof -
    from that obtain i where i: "i < length es" "i < length rs" "v = rs ! i" by (auto simp: in_set_zip)
    then have "toHumanObject B (snd (es ! i)) = Inr v"
      using arg_cong [OF eq, of "\<lambda>l. l ! i"] by (simp add: case_prod_beta)
    then show ?thesis using assms(1) [of "fst (es ! i)" "snd (es ! i)"] i by simp
  qed
  then show ?thesis by (auto simp: list_all_iff)
qed

lemma toHumanObject_plain:
  "\<lbrakk>humans_plain v; list_all (\<lambda>(k, x). plain x) (bn_nan_object B); toHumanObject B v = Inr r\<rbrakk> \<Longrightarrow> plain r"
proof (induction v arbitrary: r)
  case (JArray vs)
  then obtain rs where "r = JArray rs" "map (toHumanObject B) vs = map Inr rs"
    by (auto simp: sequence_Inr_iff split: sum.splits)
  moreover have "plain x" if x: "x \<in> set rs" for x
  proof -
    have "Inr x \<in> set (map (toHumanObject B) vs)" using x calculation(2) by simp
    then obtain v where "v \<in> set vs" "toHumanObject B v = Inr x" by auto
    with JArray show ?thesis by (auto simp: list_all_iff)
  qed
  ultimately show ?case by (auto simp: list_all_iff)
next
  case (JObject es)
  then obtain rs where rs: "r = JObject (zip (map fst es) rs)" "sequence (map (\<lambda>(k, v). toHumanObject B v) es) = Inr rs"
    by (auto split: sum.splits)
  have "list_all (\<lambda>(k, v). plain v) (zip (map fst es) rs)"
    by (rule toHumanObject_fields [OF _ rs(2)]) (use JObject in \<open>fastforce simp: list_all_iff\<close>)
  with rs show ?case by simp
next
  case (JInstance c es)
  then obtain rs where rs: "r = JObject (zip (map fst es) rs)" "sequence (map (\<lambda>(k, v). toHumanObject B v) es) = Inr rs"
    by (auto split: sum.splits)
  have "list_all (\<lambda>(k, v). plain v) (zip (map fst es) rs)"
    by (rule toHumanObject_fields [OF _ rs(2)]) (use JInstance in \<open>fastforce simp: list_all_iff\<close>)
  with rs show ?case by simp
next
  case (JDate d)
  then show ?case by (cases d) auto
qed (auto split: if_splits)

lemma toHumanObject_id: "plain v \<Longrightarrow> toHumanObject B v = Inr v"
proof (induction v)
  case (JArray vs)
  then have "map (toHumanObject B) vs = map Inr vs" by (auto simp: list_all_iff)
  then have "sequence (map (toHumanObject B) vs) = Inr vs" by (simp add: sequence_Inr_iff)
  then show ?case by simp
next
  case (JObject es)
  then have "map (\<lambda>(k, v). toHumanObject B v) es = map Inr (map snd es)" by (fastforce simp: list_all_iff)
  then have "sequence (map (\<lambda>(k, v). toHumanObject B v) es) = Inr (map snd es)" by (simp only: sequence_Inr_iff)
  then show ?case by (simp add: zip_map_fst_snd)
qed auto

section \<open>Trusted claim types\<close>

text \<open>\<open>claimTypes\<close>: the values of the SDK's enumeration \<open>ClaimType\<close>.\<close>

definition transformToTrustedFor :: "bignumber \<Rightarrow> string list \<Rightarrow> js_value \<Rightarrow> js_value" where
  "transformToTrustedFor B claimTypes value =
     (let custom = (\<lambda>n. JObject [(''type'', JString ''Custom''), (''customClaimTypeId'', JBig n)])
      in if (case value of JString s \<Rightarrow> s \<in> set claimTypes | _ \<Rightarrow> False) then value
         else if typeof_object value \<and> value \<noteq> JNull \<and> field value ''type'' = JString ''Custom''
                 \<and> field value ''customClaimTypeId'' \<noteq> JUndefined
         then (case field value ''customClaimTypeId'' of
                 JBig n \<Rightarrow> custom n
               | JString s \<Rightarrow> custom (bn_new B (JString s))
               | JNumber x \<Rightarrow> custom (bn_new B (JNumber x))
               | _ \<Rightarrow> value)
         else value)"

text \<open>\<open>each\<close> is the option of the decorator, true by default.\<close>

fun ToTrustedFor :: "bignumber \<Rightarrow> string list \<Rightarrow> bool \<Rightarrow> js_value \<Rightarrow> js_value" where
  "ToTrustedFor B claimTypes each JNull = JNull"
| "ToTrustedFor B claimTypes each JUndefined = JUndefined"
| "ToTrustedFor B claimTypes each (JArray vs) =
     (if each then JArray (map (transformToTrustedFor B claimTypes) vs) else transformToTrustedFor B claimTypes (JArray vs))"
| "ToTrustedFor B claimTypes each v = transformToTrustedFor B claimTypes v"

end
