(* ===== verification/Validation.thy ===== *)
theory Validation
  imports Js_Values
begin

text \<open>
  The validation of requests: the decorators of \<open>common/decorators/validation.ts\<close> and of the
  \<open>decorators\<close> directories of the claims, identities, corporate actions and permission groups, and the classes that
  describe permissions, with the permissions made from them.

  A decorator is the predicate its validator computes on the value of the field. The predicates of the package
  \<open>class-validator\<close> and of the SDK are the parameter \<open>validators\<close>, the enumerations of the SDK the parameter \<open>enums\<close>.
  A field is accepted when all its validators accept it; a condition (\<open>ValidateIf\<close>) that does not
  hold skips them.
\<close>

section \<open>What the source uses of the packages\<close>

record validators =
  vd_isUppercase :: "js_value \<Rightarrow> bool"
  vd_maxLength :: "js_value \<Rightarrow> nat \<Rightarrow> bool"
  vd_length :: "js_value \<Rightarrow> nat \<Rightarrow> nat option \<Rightarrow> bool"
  vd_isHexadecimal :: "js_value \<Rightarrow> bool"
  vd_matches :: "js_value \<Rightarrow> string \<Rightarrow> bool"
  vd_isHexUuid :: "js_value \<Rightarrow> bool"
  vd_isUuid :: "js_value \<Rightarrow> bool"

record enums =
  en_ClaimType :: "string list"
  en_TxTags :: "(string \<times> string list) list"
  en_ModuleName :: "string list"
  en_PermissionGroupType :: "string list"
  en_PermissionType :: "string list"
  en_AgentTxGroup :: "string list"
  en_CaCheckpointType :: "string list"

text \<open>\<open>IsEnum\<close>, \<open>IsArray\<close> and \<open>ArrayNotEmpty\<close>; \<open>each\<close> applies a validator to the elements of an array.\<close>

fun isEnum :: "string list \<Rightarrow> js_value \<Rightarrow> bool" where
  "isEnum vs (JString s) = (s \<in> set vs)" | "isEnum vs _ = False"

fun isArray :: "js_value \<Rightarrow> bool" where
  "isArray (JArray _) = True" | "isArray _ = False"

fun arrayNotEmpty :: "js_value \<Rightarrow> bool" where
  "arrayNotEmpty (JArray vs) = (vs \<noteq> [])" | "arrayNotEmpty _ = False"

fun each :: "(js_value \<Rightarrow> bool) \<Rightarrow> js_value \<Rightarrow> bool" where
  "each p (JArray vs) = list_all p vs" | "each p _ = False"

text \<open>\<open>ValidateNested\<close>: objects are validated by their class, arrays element by element.\<close>

fun validateNested :: "(js_value \<Rightarrow> bool) \<Rightarrow> js_value \<Rightarrow> bool" where
  "validateNested cls JUndefined = True"
| "validateNested cls JNull = True"
| "validateNested cls (JArray vs) = list_all (validateNested cls) vs"
| "validateNested cls (JObject es) = cls (JObject es)"
| "validateNested cls (JInstance c es) = cls (JInstance c es)"
| "validateNested cls _ = False"

definition isOptional :: "(js_value \<Rightarrow> bool) \<Rightarrow> js_value \<Rightarrow> bool" where
  "isOptional p v \<longleftrightarrow> v = JUndefined \<or> v = JNull \<or> p v"

section \<open>Identities and assets\<close>

definition MAX_TICKER_LENGTH :: nat where "MAX_TICKER_LENGTH = 12"
definition DID_LENGTH :: nat where "DID_LENGTH = 66"
definition CDD_ID_LENGTH :: nat where "CDD_ID_LENGTH = 34"

definition hex_digit :: "char \<Rightarrow> bool" where
  "hex_digit c \<longleftrightarrow> (let n = of_char c :: nat in 48 \<le> n \<and> n \<le> 57 \<or> 97 \<le> n \<and> n \<le> 102 \<or> 65 \<le> n \<and> n \<le> 70)"

fun IsDid :: "js_value \<Rightarrow> bool" where
  "IsDid (JString value) =
     (if length value = 0 then False
      else if take 2 value \<noteq> ''0x'' then False
      else if length value \<noteq> DID_LENGTH then False
      else let hexValue = drop 2 value in hexValue \<noteq> [] \<and> list_all hex_digit hexValue)"
| "IsDid _ = False"

definition IsTicker :: "validators \<Rightarrow> js_value \<Rightarrow> bool" where
  "IsTicker V v \<longleftrightarrow> vd_maxLength V v MAX_TICKER_LENGTH \<and> vd_isUppercase V v"

definition isAssetId :: "validators \<Rightarrow> js_value \<Rightarrow> bool" where
  "isAssetId V v \<longleftrightarrow> vd_isHexUuid V v \<or> vd_isUuid V v"

definition isTicker :: "validators \<Rightarrow> js_value \<Rightarrow> bool" where
  "isTicker V v \<longleftrightarrow> vd_maxLength V v MAX_TICKER_LENGTH \<and> vd_isUppercase V v"

definition IsAsset :: "validators \<Rightarrow> js_value \<Rightarrow> bool" where
  "IsAsset V v \<longleftrightarrow> isAssetId V v \<or> isTicker V v"

definition IsCddId :: "validators \<Rightarrow> js_value \<Rightarrow> bool" where
  "IsCddId V v \<longleftrightarrow> vd_isHexadecimal V v \<and> vd_matches V v ''^0x.+'' \<and> vd_length V v CDD_ID_LENGTH None"

text \<open>\<open>property\<close> names the field that holds the type of the scope.\<close>

definition IsValidScopeValue :: "validators \<Rightarrow> string \<Rightarrow> js_value \<Rightarrow> js_value \<Rightarrow> bool" where
  "IsValidScopeValue V property obj v =
     (let scopeType = field obj property
      in if scopeType = JString ''Asset'' then is_string v \<and> (isAssetId V v \<or> isTicker V v)
         else if scopeType = JString ''Identity''
         then vd_isHexadecimal V v \<and> is_string v \<and> vd_matches V v ''^0x.+'' \<and> vd_length V v DID_LENGTH None
         else scopeType \<noteq> JString ''Custom'')"

text \<open>\<open>isNumericString\<close> and \<open>GetCustomClaimTypePipe.transform\<close>\<close>

definition isNumericString :: "string \<Rightarrow> bool" where
  "isNumericString value \<longleftrightarrow> js_Number value \<noteq> JNaN"

definition getCustomClaimTypePipe :: "bignumber \<Rightarrow> string \<Rightarrow> js_value" where
  "getCustomClaimTypePipe B value =
     (if isNumericString value then JObject [(''identifier'', JBig (bn_new B (JString value)))]
      else JObject [(''identifier'', JString value)])"

section \<open>Numbers\<close>

fun IsBigNumber :: "int option \<Rightarrow> int option \<Rightarrow> js_value \<Rightarrow> bool" where
  "IsBigNumber mn mx (JArray vs) = list_all is_big vs"
| "IsBigNumber mn mx (JBig n) =
     (if n = BNNaN then False
      else if (case mn of Some m \<Rightarrow> bn_lt n (BN (of_int m)) | None \<Rightarrow> False) then False
      else if (case mx of Some m \<Rightarrow> bn_gt n (BN (of_int m)) | None \<Rightarrow> False) then False
      else True)"
| "IsBigNumber mn mx _ = False"

definition int_to_string :: "int \<Rightarrow> string" where
  "int_to_string i = (if i < 0 then ''-'' @ nat_to_string (nat (- i)) else nat_to_string (nat i))"

definition IsBigNumber_message :: "int option \<Rightarrow> int option \<Rightarrow> string \<Rightarrow> string" where
  "IsBigNumber_message mn mx property = property @ '' must be a number'' @
     (case (mn, mx) of
        (Some a, Some b) \<Rightarrow> '' that is between '' @ int_to_string a @ '' and '' @ int_to_string b
      | (Some a, None) \<Rightarrow> '' that is at least '' @ int_to_string a
      | (None, Some b) \<Rightarrow> '' that is at most '' @ int_to_string b
      | (None, None) \<Rightarrow> '''')"

section \<open>Transaction tags and claim types\<close>

definition getTxTags :: "enums \<Rightarrow> string list" where
  "getTxTags E = concat (map snd (en_TxTags E))"

definition getTxTagsWithModuleNames :: "enums \<Rightarrow> string list" where
  "getTxTagsWithModuleNames E = en_ModuleName E @ getTxTags E"

fun IsTxTag :: "enums \<Rightarrow> js_value \<Rightarrow> bool" where
  "IsTxTag E (JString value) = List.member (getTxTags E) value" | "IsTxTag E _ = False"

fun IsTxTagOrModuleName :: "enums \<Rightarrow> js_value \<Rightarrow> bool" where
  "IsTxTagOrModuleName E (JString value) = List.member (getTxTagsWithModuleNames E) value"
| "IsTxTagOrModuleName E _ = False"

definition IsTrustedForClaimType :: "enums \<Rightarrow> js_value \<Rightarrow> bool" where
  "IsTrustedForClaimType E value = (case value of
      JNull \<Rightarrow> True
    | JString s \<Rightarrow> List.member (filter (\<lambda>claimType. claimType \<noteq> ''Custom'') (en_ClaimType E)) s
    | _ \<Rightarrow>
        if typeof_object value \<and> field value ''type'' = JString ''Custom'' \<and> field value ''customClaimTypeId'' \<noteq> JUndefined
        then is_big (field value ''customClaimTypeId'')
        else False)"

section \<open>Fields that exclude each other\<close>

abbreviation given :: "js_value \<Rightarrow> bool" where
  "given v \<equiv> v \<noteq> JUndefined \<and> v \<noteq> JNull"

definition getFailedConstraints :: "string list \<Rightarrow> js_value \<Rightarrow> string list" where
  "getFailedConstraints constraints obj = filter (\<lambda>p. given (field obj p)) constraints"

definition IsNotSiblingOf :: "string list \<Rightarrow> js_value \<Rightarrow> js_value \<Rightarrow> bool" where
  "IsNotSiblingOf props obj v = (if given v then getFailedConstraints props obj = [] else True)"

fun join_text :: "string \<Rightarrow> string list \<Rightarrow> string" where
  "join_text sep [] = ''''"
| "join_text sep [s] = s"
| "join_text sep (s # t # ss) = s @ sep @ join_text sep (t # ss)"

definition IsNotSiblingOf_message :: "string \<Rightarrow> string list \<Rightarrow> js_value \<Rightarrow> string" where
  "IsNotSiblingOf_message property constraints obj =
     property @ '' cannot exist alongside the following defined properties: ''
       @ join_text '', '' (getFailedConstraints constraints obj)"

definition incompatibleSiblingsNotPresent :: "string list \<Rightarrow> js_value \<Rightarrow> js_value \<Rightarrow> bool" where
  "incompatibleSiblingsNotPresent incompatibleSiblings obj v \<longleftrightarrow>
     v \<noteq> JUndefined \<or> list_all (\<lambda>p. field obj p = JUndefined) incompatibleSiblings"

text \<open>The field \<open>k\<close> under \<open>IncompatibleWith\<close> and its other validators.\<close>

definition incompatibleWith :: "string list \<Rightarrow> (js_value \<Rightarrow> bool) list \<Rightarrow> js_value \<Rightarrow> string \<Rightarrow> bool" where
  "incompatibleWith incompatibleSiblings others obj k =
     (let v = field obj k
      in if incompatibleSiblingsNotPresent incompatibleSiblings obj v
         then IsNotSiblingOf incompatibleSiblings obj v \<and> list_all (\<lambda>p. p v) others
         else True)"

section \<open>Permissions\<close>

text \<open>The classes \<open>TransactionPermissionsDto\<close> and \<open>CreatePermissionGroupDto\<close>.\<close>

definition validTransactionPermissions :: "enums \<Rightarrow> js_value \<Rightarrow> bool" where
  "validTransactionPermissions E obj \<longleftrightarrow>
     isEnum (en_PermissionType E) (field obj ''type'')
     \<and> isArray (field obj ''values'') \<and> arrayNotEmpty (field obj ''values'')
     \<and> each (IsTxTagOrModuleName E) (field obj ''values'')
     \<and> isOptional (\<lambda>v. isArray v \<and> arrayNotEmpty v \<and> each (IsTxTag E) v) (field obj ''exceptions'')"

text \<open>The two fields the class of a permission group declares itself; the options it inherits have rules of their own.\<close>

definition validCreatePermissionGroup :: "enums \<Rightarrow> js_value \<Rightarrow> bool" where
  "validCreatePermissionGroup E obj \<longleftrightarrow>
     incompatibleWith [''transactionGroups''] [validateNested (validTransactionPermissions E)] obj ''transactions''
     \<and> incompatibleWith [''transactions''] [isArray, each (isEnum (en_AgentTxGroup E))] obj ''transactionGroups''"

text \<open>A method is only found on an object of its class: the objects the transformation made.\<close>

fun toTransactionPermissions :: "js_value \<Rightarrow> js_value result" where
  "toTransactionPermissions (JInstance c es) = Inr (JObject
     [(''values'', field (JInstance c es) ''values''), (''type'', field (JInstance c es) ''type''),
      (''exceptions'', field (JInstance c es) ''exceptions'')])"
| "toTransactionPermissions _ = Inl js_type_error"

definition toPermissionGroupPermissions :: "js_value \<Rightarrow> js_value result" where
  "toPermissionGroupPermissions input =
     (let transactions = field input ''transactions''; transactionGroups = field input ''transactionGroups''
      in if truthy transactions
         then (case toTransactionPermissions transactions of
                 Inl e \<Rightarrow> Inl e | Inr p \<Rightarrow> Inr (JObject [(''transactions'', p)]))
         else if truthy transactionGroups then Inr (JObject [(''transactionGroups'', transactionGroups)])
         else Inr (JObject []))"

definition IsPermissionsLike :: "js_value \<Rightarrow> bool" where
  "IsPermissionsLike value =
     (if typeof_object value \<and> truthy value
      then \<not> (''transactions'' \<in> fst ` set (own_properties value) \<and> ''transactionGroups'' \<in> fst ` set (own_properties value))
      else False)"

definition ToGroupPermissions :: "bignumber \<Rightarrow> enums \<Rightarrow> (js_value \<Rightarrow> js_value) \<Rightarrow> js_value \<Rightarrow> js_value" where
  "ToGroupPermissions B E plainToClass value = (case value of
      JString s \<Rightarrow> if s \<in> set (en_PermissionGroupType E) then value else JBig (bn_new B value)
    | _ \<Rightarrow> plainToClass value)"

definition IsGroupPermissions :: "enums \<Rightarrow> js_value \<Rightarrow> bool" where
  "IsGroupPermissions E value = (case value of
      JString s \<Rightarrow> s \<in> set (en_PermissionGroupType E)
    | JInstance c es \<Rightarrow> c = ''GroupPermissionsDto'' \<and> validCreatePermissionGroup E value
    | JBig n \<Rightarrow> n \<noteq> BNNaN
    | _ \<Rightarrow> False)"

section \<open>Checkpoints of corporate actions\<close>

text \<open>\<open>newDate\<close>: \<open>new Date(s)\<close>, whose \<open>getTime\<close> is \<open>NaN\<close> exactly when it has no ISO text.\<close>

definition ToCaCheckpoint :: "(string \<Rightarrow> string option) \<Rightarrow> (js_value \<Rightarrow> js_value) \<Rightarrow> js_value \<Rightarrow> js_value" where
  "ToCaCheckpoint newDate plainToClass value = (case value of
      JString s \<Rightarrow> JDate (newDate s) | _ \<Rightarrow> plainToClass value)"

definition IsCaCheckpoint :: "enums \<Rightarrow> js_value \<Rightarrow> bool" where
  "IsCaCheckpoint E value = (case value of
      JDate d \<Rightarrow> d \<noteq> None
    | JInstance c es \<Rightarrow> c = ''CorporateActionCheckpointDto''
        \<and> isEnum (en_CaCheckpointType E) (field value ''type'') \<and> IsBigNumber None None (field value ''id'')
    | _ \<Rightarrow> False)"

section \<open>Portfolios and lists\<close>

text \<open>The portfolio \<open>0\<close> is the default portfolio, which has no number.\<close>

definition toPortfolioId :: "big_number \<Rightarrow> big_number option" where
  "toPortfolioId portfolio = (if bn_eq portfolio (BN 0) then None else Some portfolio)"

definition toPortfolioLike :: "string \<Rightarrow> big_number \<Rightarrow> js_value" where
  "toPortfolioLike did portfolio = (case toPortfolioId portfolio of
      Some portfolioId \<Rightarrow> JObject [(''identity'', JString did), (''id'', JBig portfolioId)]
    | None \<Rightarrow> JString did)"

fun toArray :: "js_value \<Rightarrow> js_value" where
  "toArray (JArray vs) = JArray vs"
| "toArray (JString s) = JArray (map JString (filter (\<lambda>p. p \<noteq> '''') (map trim (split_on CHR '','' s))))"
| "toArray _ = JUndefined"

section \<open>Properties\<close>

lemma hex_digit_printable: "hex_digit c \<Longrightarrow> c \<notin> {CHR 0x0A, CHR 0x0D}"
  by (auto simp: hex_digit_def Let_def)

text \<open>
  The documented behaviour of the predicates on text: \<open>isHexadecimal\<close> is the pattern \<open>(0x|0h)?[0-9A-F]+\<close> whatever the case,
  \<open>length\<close> without a maximum only bounds from below, and \<open>matches\<close> applies the pattern, where a dot is no line break.
\<close>

definition hexadecimal_text :: "string \<Rightarrow> bool" where
  "hexadecimal_text s =
     (let r = (if take 2 s \<in> {''0x'', ''0X'', ''0h'', ''0H''} then drop 2 s else s) in r \<noteq> [] \<and> list_all hex_digit r)"

definition text_after_0x :: "string \<Rightarrow> bool" where
  "text_after_0x s \<longleftrightarrow> take 2 s = ''0x'' \<and> drop 2 s \<noteq> [] \<and> hd (drop 2 s) \<notin> {CHR 0x0A, CHR 0x0D}"

definition validators_documented :: "validators \<Rightarrow> bool" where
  "validators_documented V \<longleftrightarrow>
     (\<forall>s. vd_isHexadecimal V (JString s) = hexadecimal_text s)
     \<and> (\<forall>s n. vd_length V (JString s) n None = (n \<le> length s))
     \<and> (\<forall>s. vd_matches V (JString s) ''^0x.+'' = text_after_0x s)"

lemma hex_after_0x:
  "hexadecimal_text s \<and> text_after_0x s \<longleftrightarrow> (\<exists>h. s = ''0x'' @ h \<and> h \<noteq> [] \<and> list_all hex_digit h)"
proof (cases "take 2 s = ''0x''")
  case True
  then obtain h where s: "s = ''0x'' @ h" by (metis append_take_drop_id)
  have "h \<noteq> [] \<Longrightarrow> list_all hex_digit h \<Longrightarrow> hd h \<notin> {CHR 0x0A, CHR 0x0D}"
    by (rule hex_digit_printable) (cases h; simp)
  with s show ?thesis by (simp add: hexadecimal_text_def text_after_0x_def) blast
qed (auto simp: text_after_0x_def)

lemma IsDid_iff:
  "IsDid v \<longleftrightarrow> (\<exists>h. v = JString (''0x'' @ h) \<and> length h = 64 \<and> list_all hex_digit h)"
proof (cases v)
  case (JString s)
  show ?thesis
  proof (cases "take 2 s = ''0x''")
    case True
    then obtain h where s: "s = ''0x'' @ h" by (metis append_take_drop_id)
    have "IsDid v \<longleftrightarrow> length h = 64 \<and> list_all hex_digit h" using JString s by (auto simp: DID_LENGTH_def Let_def)
    moreover have "v = JString (''0x'' @ h') \<longleftrightarrow> h' = h" for h' using JString s by auto
    ultimately show ?thesis by blast
  next
    case False
    then have "v \<noteq> JString (''0x'' @ h)" for h using JString by auto
    with False JString show ?thesis by simp
  qed
qed auto

lemma identity_scope_iff:
  assumes "validators_documented V" "field obj p = JString ''Identity''"
  shows "IsValidScopeValue V p obj (JString s) \<longleftrightarrow>
    (\<exists>h. s = ''0x'' @ h \<and> 64 \<le> length h \<and> list_all hex_digit h)"
proof -
  have "IsValidScopeValue V p obj (JString s) \<longleftrightarrow> (hexadecimal_text s \<and> text_after_0x s) \<and> 66 \<le> length s"
  proof -
    have "vd_isHexadecimal V (JString s) = hexadecimal_text s" "vd_length V (JString s) DID_LENGTH None = (66 \<le> length s)"
      "vd_matches V (JString s) ''^0x.+'' = text_after_0x s"
      using assms(1) unfolding validators_documented_def DID_LENGTH_def by blast+
    then show ?thesis unfolding IsValidScopeValue_def Let_def assms(2) by simp
  qed
  also have "\<dots> \<longleftrightarrow> (\<exists>h. s = ''0x'' @ h \<and> h \<noteq> [] \<and> list_all hex_digit h) \<and> 66 \<le> length s" by (simp only: hex_after_0x)
  also have "\<dots> \<longleftrightarrow> (\<exists>h. s = ''0x'' @ h \<and> 64 \<le> length h \<and> list_all hex_digit h)"
  proof
    assume "(\<exists>h. s = ''0x'' @ h \<and> h \<noteq> [] \<and> list_all hex_digit h) \<and> 66 \<le> length s"
    then obtain h where h: "s = ''0x'' @ h" "list_all hex_digit h" "66 \<le> length s" by blast
    then have "64 \<le> length h" by simp
    with h show "\<exists>h. s = ''0x'' @ h \<and> 64 \<le> length h \<and> list_all hex_digit h" by blast
  next
    assume "\<exists>h. s = ''0x'' @ h \<and> 64 \<le> length h \<and> list_all hex_digit h"
    then obtain h where h: "s = ''0x'' @ h" "list_all hex_digit h" "64 \<le> length h" by blast
    then have "h \<noteq> []" "66 \<le> length s" by auto
    with h show "(\<exists>h. s = ''0x'' @ h \<and> h \<noteq> [] \<and> list_all hex_digit h) \<and> 66 \<le> length s" by blast
  qed
  finally show ?thesis .
qed

text \<open>
  identifiers of identities. \<open>IsDid\<close> accepts exactly the prefix \<open>0x\<close> followed by 64 hexadecimal digits. The value of a
  scope of type Identity is checked less strictly: every identifier is accepted, and so is any longer hexadecimal
  text, because the length is only bounded from below.
\<close>

theorem did_validation:
  assumes "validators_documented V" "field obj p = JString ''Identity''"
  shows "(IsDid v \<longleftrightarrow> (\<exists>h. v = JString (''0x'' @ h) \<and> length h = 64 \<and> list_all hex_digit h))
    \<and> (IsDid v \<longrightarrow> IsValidScopeValue V p obj v)
    \<and> (IsValidScopeValue V p obj (JString s) \<and> \<not> IsDid (JString s) \<longleftrightarrow>
         (\<exists>h. s = ''0x'' @ h \<and> 64 < length h \<and> list_all hex_digit h))"
proof (intro conjI)
  show "IsDid v \<longleftrightarrow> (\<exists>h. v = JString (''0x'' @ h) \<and> length h = 64 \<and> list_all hex_digit h)" by (rule IsDid_iff)
  show "IsDid v \<longrightarrow> IsValidScopeValue V p obj v"
  proof
    assume "IsDid v"
    then obtain h where h: "v = JString (''0x'' @ h)" "length h = 64" "list_all hex_digit h" unfolding IsDid_iff by blast
    then have "64 \<le> length h" by simp
    with h show "IsValidScopeValue V p obj v" using identity_scope_iff [OF assms] by blast
  qed
  show "IsValidScopeValue V p obj (JString s) \<and> \<not> IsDid (JString s) \<longleftrightarrow>
         (\<exists>h. s = ''0x'' @ h \<and> 64 < length h \<and> list_all hex_digit h)"
  proof -
    have "IsDid (JString s) \<longleftrightarrow> (\<exists>h. s = ''0x'' @ h \<and> length h = 64 \<and> list_all hex_digit h)" by (simp only: IsDid_iff js_value.inject)
    moreover have "h = h'" if "s = ''0x'' @ h" "s = ''0x'' @ h'" for h h' using that by simp
    ultimately show ?thesis unfolding identity_scope_iff [OF assms] by (metis le_neq_implies_less less_imp_le less_irrefl)
  qed
qed

definition demo_validators :: validators where
  "demo_validators = \<lparr>vd_isUppercase = (\<lambda>v. case v of JString s \<Rightarrow> \<not> list_ex (\<lambda>c. 97 \<le> (of_char c :: nat) \<and> (of_char c :: nat) \<le> 122) s | _ \<Rightarrow> False),
     vd_maxLength = (\<lambda>v n. case v of JString s \<Rightarrow> length s \<le> n | _ \<Rightarrow> False),
     vd_length = (\<lambda>v n m. case v of JString s \<Rightarrow> n \<le> length s \<and> (case m of None \<Rightarrow> True | Some k \<Rightarrow> length s \<le> k) | _ \<Rightarrow> False),
     vd_isHexadecimal = (\<lambda>v. case v of JString s \<Rightarrow> hexadecimal_text s | _ \<Rightarrow> False),
     vd_matches = (\<lambda>v pat. case v of JString s \<Rightarrow> text_after_0x s | _ \<Rightarrow> False),
     vd_isHexUuid = (\<lambda>v. case v of JString s \<Rightarrow> take 2 s = ''0x'' \<and> length s = 34 \<and> list_all hex_digit (drop 2 s) | _ \<Rightarrow> False),
     vd_isUuid = (\<lambda>v. False)\<rparr>"

lemma demo_validators_documented: "validators_documented demo_validators"
  by (simp add: validators_documented_def demo_validators_def)

theorem did_validation_witness:
  "IsDid (JString (''0x'' @ replicate 64 CHR ''a''))
   \<and> IsValidScopeValue demo_validators ''type'' (JObject [(''type'', JString ''Identity'')]) (JString (''0x'' @ replicate 70 CHR ''b''))"
proof -
  let ?o = "JObject [(''type'', JString ''Identity'')]"
  have o: "field ?o ''type'' = JString ''Identity''" by simp
  have hex: "hex_digit (CHR ''a'')" "hex_digit (CHR ''b'')" by (simp_all add: hex_digit_def)
  note claim = did_validation [OF demo_validators_documented o]
  show ?thesis
  proof
    show "IsDid (JString (''0x'' @ replicate 64 CHR ''a''))"
      by (rule claim [THEN conjunct1, THEN iffD2]) (use hex in \<open>auto simp: list_all_iff\<close>)
    show "IsValidScopeValue demo_validators ''type'' ?o (JString (''0x'' @ replicate 70 CHR ''b''))"
      using claim [of "JNull" "''0x'' @ replicate 70 CHR ''b''"] hex by (auto simp: list_all_iff)
  qed
qed

text \<open>
  bounds of numbers in requests. A single value of a request passes \<open>ToBigNumber\<close> and \<open>IsBigNumber\<close> with bounds exactly
  when it is a number within them. An array passes whatever its elements are: neither the bounds nor
  \<open>NaN\<close> are looked at.
\<close>

theorem big_number_bounds:
  "(\<not> isArray v \<longrightarrow> (IsBigNumber mn mx (ToBigNumber B v) \<longleftrightarrow> bn_new B v \<noteq> BNNaN
       \<and> (\<forall>m. mn = Some m \<longrightarrow> bn_lte (BN (of_int m)) (bn_new B v))
       \<and> (\<forall>m. mx = Some m \<longrightarrow> bn_lte (bn_new B v) (BN (of_int m)))))
   \<and> IsBigNumber mn mx (ToBigNumber B (JArray vs))"
proof -
  have lt: "n \<noteq> BNNaN \<Longrightarrow> \<not> bn_lt n (BN m) \<longleftrightarrow> bn_lte (BN m) n" for n m
    by (cases n) (auto simp: bn_lte_def)
  have gt: "n \<noteq> BNNaN \<Longrightarrow> \<not> bn_gt n (BN m) \<longleftrightarrow> bn_lte n (BN m)" for n m
    by (cases n) (auto simp: bn_lte_def bn_gt_def)
  have "\<not> isArray v \<Longrightarrow> ToBigNumber B v = JBig (bn_new B v)" by (cases v) auto
  then show ?thesis using lt gt by (auto simp: list_all_iff split: option.splits)
qed

text \<open>A concrete library for the witnesses: numbers are read as the language reads them.\<close>

fun real_to_big :: "js_real \<Rightarrow> big_number" where
  "real_to_big JNaN = BNNaN" | "real_to_big (JInf b) = BNInf b" | "real_to_big (JRat r) = BN r"

fun demo_bn_new :: "js_value \<Rightarrow> big_number" where
  "demo_bn_new (JString s) = (if trim s = '''' then BNNaN else real_to_big (js_Number s))"
| "demo_bn_new (JNumber x) = real_to_big x"
| "demo_bn_new (JBig n) = n"
| "demo_bn_new _ = BNNaN"

definition demo_bignumber :: bignumber where
  "demo_bignumber = \<lparr>bn_new = demo_bn_new,
     bn_text = (\<lambda>n. case n of BN r \<Rightarrow> if r = 7 then ''7'' else ''0'' | BNInf b \<Rightarrow> if b then ''Infinity'' else ''-Infinity'' | BNNaN \<Rightarrow> ''NaN''),
     bn_nan_object = [(''s'', JNull), (''e'', JNull), (''c'', JNull)]\<rparr>"

lemma demo_numbers:
  "bn_new demo_bignumber (JString ''7'') = BN 7" "bn_new demo_bignumber (JString ''x'') = BNNaN"
  "bn_new demo_bignumber (JString ''NaN'') = BNNaN"
  by (simp_all add: demo_bignumber_def js_Number_def trim_def is_space_def Let_def strip_sign_def
      unsigned_decimal_def digit_value_def exponent_def rat_pow10_def)

theorem big_number_bounds_witness:
  "IsBigNumber (Some 0) (Some 30) (ToBigNumber demo_bignumber (JString ''7''))
   \<and> \<not> IsBigNumber (Some 10) None (ToBigNumber demo_bignumber (JString ''7''))
   \<and> IsBigNumber (Some 0) (Some 30) (ToBigNumber demo_bignumber (JArray [JString ''x'']))"
  using big_number_bounds [of "JString ''7''" "Some 0" "Some 30" demo_bignumber "[JString ''x'']"]
    big_number_bounds [of "JString ''7''" "Some 10" None demo_bignumber "[]"]
  by (simp add: demo_numbers bn_lte_def del: ToBigNumber.simps IsBigNumber.simps)

text \<open>
  responses are plain. Whatever a model holds, when the \<open>toHuman\<close> values of its entities are plain, \<open>FromEntityObject\<close>
  gives a value without entities, dates, big numbers or objects of classes, and leaves such a value alone.
\<close>

theorem responses_plain:
  assumes "humans_plain v" "list_all (\<lambda>(k, x). plain x) (bn_nan_object B)" "FromEntityObject B v = Inr r"
  shows "plain r \<and> FromEntityObject B r = Inr r"
  using toHumanObject_plain [OF assms(1,2)] assms(3) toHumanObject_id by (simp add: FromEntityObject_def)

theorem responses_plain_witness:
  "plain (JObject [(''asset'', JString ''TICKER''), (''amounts'', JArray [JString ''7'', JObject [(''s'', JNull), (''e'', JNull), (''c'', JNull)]]),
     (''at'', JString ''2021-01-01T00:00:00.000Z'')])"
  using responses_plain [of "JInstance ''Model'' [(''asset'', JEntity (JString ''TICKER'')), (''amounts'', JArray [JBig (BN 7), JBig BNNaN]),
      (''at'', JDate (Some ''2021-01-01T00:00:00.000Z''))]" demo_bignumber]
  by (simp add: FromEntityObject_def demo_bignumber_def)

lemma incompatible_pair:
  "validCreatePermissionGroup E obj \<longleftrightarrow>
     (let T = field obj ''transactions''; G = field obj ''transactionGroups''
      in \<not> given T \<and> isArray G \<and> each (isEnum (en_AgentTxGroup E)) G
       \<or> T = JNull \<and> G = JUndefined
       \<or> given T \<and> validateNested (validTransactionPermissions E) T \<and> G = JUndefined)"
proof -
  have array: "isArray v \<Longrightarrow> given v" for v by (cases v) auto
  have T: "incompatibleWith [''transactionGroups''] [p] obj ''transactions'' \<longleftrightarrow>
      (if field obj ''transactions'' = JUndefined then given (field obj ''transactionGroups'') \<or> field obj ''transactionGroups'' = JNull \<or> p JUndefined
       else (given (field obj ''transactions'') \<longrightarrow> \<not> given (field obj ''transactionGroups'')) \<and> p (field obj ''transactions''))" for p
    by (auto simp: incompatibleWith_def incompatibleSiblingsNotPresent_def IsNotSiblingOf_def getFailedConstraints_def Let_def)
  have G: "incompatibleWith [''transactions''] [isArray, q] obj ''transactionGroups'' \<longleftrightarrow>
      (if field obj ''transactionGroups'' = JUndefined then field obj ''transactions'' \<noteq> JUndefined
       else (given (field obj ''transactionGroups'') \<longrightarrow> \<not> given (field obj ''transactions''))
          \<and> isArray (field obj ''transactionGroups'') \<and> q (field obj ''transactionGroups''))" for q
    by (auto simp: incompatibleWith_def incompatibleSiblingsNotPresent_def IsNotSiblingOf_def getFailedConstraints_def Let_def)
  show ?thesis unfolding validCreatePermissionGroup_def T G Let_def
    using array [of "field obj ''transactionGroups''"]
    by (cases "field obj ''transactions'' = JUndefined"; cases "field obj ''transactions'' = JNull"; cases "field obj ''transactionGroups'' = JUndefined")
      auto
qed

text \<open>
  C24: requests that create a permission group. A request is accepted exactly when it gives transaction groups and no
  transactions, or transactions and no groups, or \<open>null\<close> transactions and no groups. The SDK is
  then given exactly one of the two; in the last case it is given neither, and a list of transaction
  permissions is accepted but ends in a \<open>TypeError\<close>.
\<close>

theorem permission_group_requests:
  fixes E obj
  defines "T \<equiv> field obj ''transactions''" and "G \<equiv> field obj ''transactionGroups''"
  shows "(validCreatePermissionGroup E obj \<longleftrightarrow>
       \<not> given T \<and> isArray G \<and> each (isEnum (en_AgentTxGroup E)) G \<or> T = JNull \<and> G = JUndefined
       \<or> given T \<and> validateNested (validTransactionPermissions E) T \<and> G = JUndefined)
    \<and> (validCreatePermissionGroup E obj \<longrightarrow> toPermissionGroupPermissions obj =
         (if isArray G then Inr (JObject [(''transactionGroups'', G)])
          else if T = JNull then Inr (JObject [])
          else if isArray T then Inl js_type_error
          else case toTransactionPermissions T of Inl e \<Rightarrow> Inl e | Inr p \<Rightarrow> Inr (JObject [(''transactions'', p)])))"
proof
  show *: "validCreatePermissionGroup E obj \<longleftrightarrow>
       \<not> given T \<and> isArray G \<and> each (isEnum (en_AgentTxGroup E)) G \<or> T = JNull \<and> G = JUndefined
       \<or> given T \<and> validateNested (validTransactionPermissions E) T \<and> G = JUndefined"
    unfolding T_def G_def incompatible_pair Let_def ..
  show "validCreatePermissionGroup E obj \<longrightarrow> toPermissionGroupPermissions obj =
         (if isArray G then Inr (JObject [(''transactionGroups'', G)])
          else if T = JNull then Inr (JObject [])
          else if isArray T then Inl js_type_error
          else case toTransactionPermissions T of Inl e \<Rightarrow> Inl e | Inr p \<Rightarrow> Inr (JObject [(''transactions'', p)]))"
    unfolding * toPermissionGroupPermissions_def T_def [symmetric] G_def [symmetric] Let_def
    by (cases T; cases G) auto
qed

theorem permission_group_requests_witness:
  "validCreatePermissionGroup \<lparr>en_ClaimType = [], en_TxTags = [(''asset'', [''asset.issue''])], en_ModuleName = [''asset''],
       en_PermissionGroupType = [], en_PermissionType = [''Include''], en_AgentTxGroup = [], en_CaCheckpointType = []\<rparr>
     (JObject [(''transactions'', JNull)])
   \<and> toPermissionGroupPermissions (JObject [(''transactions'', JNull)]) = Inr (JObject [])"
  using permission_group_requests [of "\<lparr>en_ClaimType = [], en_TxTags = [(''asset'', [''asset.issue''])], en_ModuleName = [''asset''],
       en_PermissionGroupType = [], en_PermissionType = [''Include''], en_AgentTxGroup = [], en_CaCheckpointType = []\<rparr>"
     "JObject [(''transactions'', JNull)]"]
  by simp

end
