(* ===== verification/Transfer_Restrictions.thy ===== *)
theory Transfer_Restrictions
  imports Validation
begin

text \<open>
  Transfer restrictions and statistics: the helpers of \<open>assets/assets.util.ts\<close>, and the transformer and the validator of
  statistics in \<open>common/decorators\<close>.

  The restrictions of the chain and of a request are datatypes with one constructor per
  \<open>TransferRestrictionType\<close>; statistics are the values of the request, because the source rewrites them field by field.
\<close>

section \<open>Restrictions\<close>

text \<open>
  An identity of the SDK, of which the source reads the identifier. The country code of a jurisdiction may be missing (\<open>undefined\<close>) or \<open>null\<close>,
  which the source tells apart.
\<close>

datatype country_code = NoCode | NullCode | CountryCode string

record sdk_identity = idn_did :: string

datatype stat_claim = Accredited bool | Affiliate bool | Jurisdiction country_code | OtherClaim string

record 'max claim_value =
  cv_min :: big_number
  cv_max :: 'max
  cv_issuer :: sdk_identity
  cv_claim :: stat_claim

text \<open>What the chain reports, and what the SDK is given (\<open>TransferRestrictionParams['restrictions']\<close>).\<close>

datatype transfer_restriction =
    ActiveCount big_number
  | ActivePercentage big_number
  | ActiveClaimCount "big_number option claim_value"
  | ActiveClaimPercentage "big_number claim_value"

datatype restriction =
    CountInput big_number
  | PercentageInput big_number
  | ClaimCountInput "big_number option claim_value"
  | ClaimPercentageInput "big_number claim_value"

definition normalizeExistingRestrictions :: "transfer_restriction list \<Rightarrow> restriction list" where
  "normalizeExistingRestrictions restrictions = map (\<lambda>r. case r of
       ActiveCount v \<Rightarrow> CountInput v
     | ActivePercentage v \<Rightarrow> PercentageInput v
     | ActiveClaimCount v \<Rightarrow> ClaimCountInput v
     | ActiveClaimPercentage v \<Rightarrow> ClaimPercentageInput v) restrictions"

fun isSameStatClaim :: "stat_claim \<Rightarrow> stat_claim \<Rightarrow> bool" where
  "isSameStatClaim (Accredited a) (Accredited b) = (a = b)"
| "isSameStatClaim (Affiliate a) (Affiliate b) = (a = b)"
| "isSameStatClaim (Jurisdiction a) (Jurisdiction b) = (a = b)"
| "isSameStatClaim _ _ = False"

fun same_max :: "big_number option \<Rightarrow> big_number option \<Rightarrow> bool" where
  "same_max None None = True"
| "same_max (Some a) (Some b) = bn_eq a b"
| "same_max _ _ = False"

fun isSameRestriction :: "restriction \<Rightarrow> restriction \<Rightarrow> bool" where
  "isSameRestriction (CountInput a) (CountInput b) = bn_eq a b"
| "isSameRestriction (PercentageInput a) (PercentageInput b) = bn_eq a b"
| "isSameRestriction (ClaimCountInput a) (ClaimCountInput b) \<longleftrightarrow>
     bn_eq (cv_min a) (cv_min b) \<and> same_max (cv_max a) (cv_max b)
     \<and> idn_did (cv_issuer a) = idn_did (cv_issuer b) \<and> isSameStatClaim (cv_claim a) (cv_claim b)"
| "isSameRestriction (ClaimPercentageInput a) (ClaimPercentageInput b) \<longleftrightarrow>
     bn_eq (cv_min a) (cv_min b) \<and> bn_eq (cv_max a) (cv_max b)
     \<and> idn_did (cv_issuer a) = idn_did (cv_issuer b) \<and> isSameStatClaim (cv_claim a) (cv_claim b)"
| "isSameRestriction _ _ = False"

section \<open>Restrictions of a request\<close>

record 'max claim_restriction_dto =
  cd_min :: big_number
  cd_max :: 'max
  cd_issuer :: string
  cd_claim :: stat_claim

datatype restriction_dto =
    CountDto big_number
  | PercentageDto big_number
  | ClaimCountDto "big_number option claim_restriction_dto"
  | ClaimPercentageDto "big_number claim_restriction_dto"
  | OtherDto string

fun toInputStatClaim :: "stat_claim \<Rightarrow> stat_claim result" where
  "toInputStatClaim (Accredited a) = Inr (Accredited a)"
| "toInputStatClaim (Affiliate a) = Inr (Affiliate a)"
| "toInputStatClaim (Jurisdiction c) = Inr (Jurisdiction c)"
| "toInputStatClaim (OtherClaim t) = Inl (PlainErr (''Unsupported stat claim type: '' @ t))"

definition claim_input :: "(string \<Rightarrow> sdk_identity result) \<Rightarrow> 'max claim_restriction_dto \<Rightarrow> 'max claim_value result" where
  "claim_input resolveIdentity r = (case resolveIdentity (cd_issuer r) of
      Inl e \<Rightarrow> Inl e
    | Inr issuer \<Rightarrow> (case toInputStatClaim (cd_claim r) of
          Inl e \<Rightarrow> Inl e
        | Inr claim \<Rightarrow> Inr \<lparr>cv_min = cd_min r, cv_max = cd_max r, cv_issuer = issuer, cv_claim = claim\<rparr>))"

fun toRestriction :: "(string \<Rightarrow> sdk_identity result) \<Rightarrow> restriction_dto \<Rightarrow> restriction result" where
  "toRestriction resolveIdentity (CountDto c) = Inr (CountInput c)"
| "toRestriction resolveIdentity (PercentageDto p) = Inr (PercentageInput p)"
| "toRestriction resolveIdentity (ClaimCountDto r) =
     (case claim_input resolveIdentity r of Inl e \<Rightarrow> Inl e | Inr v \<Rightarrow> Inr (ClaimCountInput v))"
| "toRestriction resolveIdentity (ClaimPercentageDto r) =
     (case claim_input resolveIdentity r of Inl e \<Rightarrow> Inl e | Inr v \<Rightarrow> Inr (ClaimPercentageInput v))"
| "toRestriction resolveIdentity (OtherDto t) = Inl (PlainErr ''Unsupported transfer restriction type'')"

text \<open>When several restrictions fail, the error is the one of the first in the list.\<close>

definition transferRestrictionsDtoToRestrictions ::
    "restriction_dto list \<Rightarrow> (string \<Rightarrow> sdk_identity result) \<Rightarrow> restriction list result" where
  "transferRestrictionsDtoToRestrictions input resolveIdentity = sequence (map (toRestriction resolveIdentity) input)"

section \<open>Statistics\<close>

definition converted_keys :: "string list" where
  "converted_keys = [''accredited'', ''nonAccredited'', ''affiliate'', ''nonAffiliate'']"

fun to_big_if_string :: "bignumber \<Rightarrow> js_value \<Rightarrow> js_value" where
  "to_big_if_string B (JString s) = JBig (bn_new B (JString s))"
| "to_big_if_string B v = v"

text \<open>\<open>{...v}\<close>: the own properties of an object; a text and a list have their elements under their indices.\<close>

fun spread :: "js_value \<Rightarrow> (string \<times> js_value) list" where
  "spread (JString s) = map (\<lambda>i. (nat_to_string i, JString [s ! i])) [0..<length s]"
| "spread (JArray vs) = map (\<lambda>i. (nat_to_string i, vs ! i)) [0..<length vs]"
| "spread v = own_properties v"

text \<open>The object of a scoped count, in the service.\<close>

definition convert_value :: "bignumber \<Rightarrow> (string \<times> js_value) list \<Rightarrow> (string \<times> js_value) list" where
  "convert_value B es = map (\<lambda>(key, val). (key, if List.member converted_keys key then to_big_if_string B val else val)) es"

text \<open>
  \<open>{...item, count: ...}\<close>: in the service the field is always written, even when it was absent. Reading a field of
  \<open>null\<close> or \<open>undefined\<close> throws.
\<close>

definition ensure_item :: "bignumber \<Rightarrow> js_value \<Rightarrow> js_value result" where
  "ensure_item B item =
     (if \<not> given item then Inl js_type_error
      else Inr (JObject (put_property ''count'' (to_big_if_string B (field item ''count'')) (spread item))))"

text \<open>The converted \<open>value\<close> of a scoped count, or \<open>None\<close> when it stays as it is.\<close>

definition ensure_value :: "bignumber \<Rightarrow> js_value \<Rightarrow> js_value option result" where
  "ensure_value B value = (case value of
      JArray items \<Rightarrow> (case sequence (map (ensure_item B) items) of Inl e \<Rightarrow> Inl e | Inr rs \<Rightarrow> Inr (Some (JArray rs)))
    | _ \<Rightarrow> if truthy value \<and> typeof_object value
           then Inr (Some (JObject (convert_value B (own_properties value)))) else Inr None)"

definition put_value :: "js_value option \<Rightarrow> (string \<times> js_value) list \<Rightarrow> (string \<times> js_value) list" where
  "put_value w es = (case w of Some v \<Rightarrow> put_property ''value'' v es | None \<Rightarrow> es)"

definition ensure_stat :: "bignumber \<Rightarrow> js_value \<Rightarrow> js_value result" where
  "ensure_stat B stat =
     (if typeof_object stat \<and> stat \<noteq> JNull \<and> ''type'' \<in> fst ` set (own_properties stat)
      then let es = own_properties stat;
               es1 = (if field stat ''type'' = JString ''Count'' \<and> is_string (field stat ''count'')
                      then put_property ''count'' (to_big_if_string B (field stat ''count'')) es else es)
           in if field stat ''type'' = JString ''ScopedCount''
              then (case ensure_value B (field stat ''value'') of Inl e \<Rightarrow> Inl e | Inr w \<Rightarrow> Inr (JObject (put_value w es1)))
              else Inr (JObject es1)
      else Inr stat)"

definition ensureStatsBigNumberConversion :: "bignumber \<Rightarrow> js_value list \<Rightarrow> js_value list result" where
  "ensureStatsBigNumberConversion B stats = sequence (map (ensure_stat B) stats)"

text \<open>
  The transformer of a request. \<open>plainToInstance c es\<close> gives the properties of the object of class \<open>c\<close> that
  \<open>class-transformer\<close> makes from the properties \<open>es\<close>; \<open>Object.assign\<close> then writes \<open>es\<close> over them.
\<close>

definition object_assign :: "(string \<times> js_value) list \<Rightarrow> (string \<times> js_value) list \<Rightarrow> (string \<times> js_value) list" where
  "object_assign target source = foldl (\<lambda>t (k, v). put_property k v t) target source"

type_synonym transformer = "string \<Rightarrow> (string \<times> js_value) list \<Rightarrow> (string \<times> js_value) list"

definition instance_of :: "transformer \<Rightarrow> string \<Rightarrow> (string \<times> js_value) list \<Rightarrow> js_value" where
  "instance_of plainToInstance cls es = JInstance cls (object_assign (plainToInstance cls es) es)"

text \<open>The object of a scoped count, in the transformer, which has a copy of the conversion of its own.\<close>

definition transform_properties :: "bignumber \<Rightarrow> (string \<times> js_value) list \<Rightarrow> (string \<times> js_value) list" where
  "transform_properties B es = map (\<lambda>(key, val). (key,
     if is_string val \<and> List.member [''accredited'', ''nonAccredited'', ''affiliate'', ''nonAffiliate''] key then JBig (bn_new B val) else val)) es"

text \<open>The properties with \<open>count\<close> converted when it is a text or a number.\<close>

definition convert_count :: "bignumber \<Rightarrow> js_value \<Rightarrow> (string \<times> js_value) list" where
  "convert_count B v = (if is_string (field v ''count'') \<or> is_big (field v ''count'')
     then put_property ''count'' (to_big_if_string B (field v ''count'')) (spread v) else spread v)"

definition transform_item :: "bignumber \<Rightarrow> transformer \<Rightarrow> js_value \<Rightarrow> js_value result" where
  "transform_item B P item =
     (if \<not> given item then Inl js_type_error
      else Inr (instance_of P ''ClaimCountJurisdictionValueItemDto'' (convert_count B item)))"

definition transform_value :: "bignumber \<Rightarrow> transformer \<Rightarrow> js_value \<Rightarrow> js_value \<Rightarrow> js_value option result" where
  "transform_value B P claimType value = (case value of
      JArray items \<Rightarrow> (case sequence (map (transform_item B P) items) of Inl e \<Rightarrow> Inl e | Inr rs \<Rightarrow> Inr (Some (JArray rs)))
    | _ \<Rightarrow> if truthy value \<and> typeof_object value
           then let transformedValue = transform_properties B (own_properties value)
                in Inr (Some (if claimType = JString ''Accredited'' then instance_of P ''ClaimCountAccreditedValueDto'' transformedValue
                     else if claimType = JString ''Affiliate'' then instance_of P ''ClaimCountAffiliateValueDto'' transformedValue
                     else JObject transformedValue))
           else Inr None)"

definition transform_stat :: "bignumber \<Rightarrow> transformer \<Rightarrow> js_value \<Rightarrow> js_value result" where
  "transform_stat B P stat = (case stat of
      JObject es \<Rightarrow>
        (let type = field stat ''type''; claimType = field stat ''claimType''
         in if type = JString ''Count'' then Inr (instance_of P ''AddCountStatDto'' (convert_count B stat))
            else if type = JString ''Balance'' then Inr (instance_of P ''AddPercentageStatDto'' es)
            else if type = JString ''ScopedBalance'' then Inr (instance_of P ''AddClaimPercentageStatDto'' es)
            else if type = JString ''ScopedCount''
            then (case transform_value B P claimType (field stat ''value'') of
                    Inl e \<Rightarrow> Inl e
                  | Inr w \<Rightarrow> let transformed = put_value w es
                     in Inr (if claimType = JString ''Accredited'' then instance_of P ''AddClaimCountAccreditedStatDto'' transformed
                        else if claimType = JString ''Affiliate'' then instance_of P ''AddClaimCountAffiliateStatDto'' transformed
                        else if claimType = JString ''Jurisdiction'' then instance_of P ''AddClaimCountJurisdictionStatDto'' transformed
                        else stat))
            else Inr stat)
    | _ \<Rightarrow> Inr stat)"

fun TransformScopedCountStats :: "bignumber \<Rightarrow> transformer \<Rightarrow> js_value \<Rightarrow> js_value result" where
  "TransformScopedCountStats B P (JArray stats) =
     (case sequence (map (transform_stat B P) stats) of Inl e \<Rightarrow> Inl e | Inr rs \<Rightarrow> Inr (JArray rs))"
| "TransformScopedCountStats B P v = Inr v"

text \<open>The validator: making an object and assigning to it never throws, so only the type of the claim is checked.\<close>

fun every_scoped_stat :: "js_value list \<Rightarrow> bool result" where
  "every_scoped_stat [] = Inr True"
| "every_scoped_stat (stat # stats) =
     (if \<not> given stat then Inl js_type_error
      else if field stat ''type'' \<noteq> JString ''ScopedCount'' then every_scoped_stat stats
      else if List.member [JString ''Accredited'', JString ''Affiliate'', JString ''Jurisdiction''] (field stat ''claimType'')
      then every_scoped_stat stats
      else Inr False)"

fun IsScopedCountStat :: "js_value \<Rightarrow> bool result" where
  "IsScopedCountStat (JArray stats) = every_scoped_stat stats"
| "IsScopedCountStat _ = Inr False"

section \<open>Lemmas\<close>

text \<open>Sameness compares what identifies a restriction: numbers by value, issuers by identifier.\<close>

datatype restriction_key =
    CountKey big_number | PercentageKey big_number
  | ClaimCountKey big_number "big_number option" string stat_claim
  | ClaimPercentageKey big_number big_number string stat_claim

fun key_of :: "restriction \<Rightarrow> restriction_key" where
  "key_of (CountInput a) = CountKey a"
| "key_of (PercentageInput a) = PercentageKey a"
| "key_of (ClaimCountInput v) = ClaimCountKey (cv_min v) (cv_max v) (idn_did (cv_issuer v)) (cv_claim v)"
| "key_of (ClaimPercentageInput v) = ClaimPercentageKey (cv_min v) (cv_max v) (idn_did (cv_issuer v)) (cv_claim v)"

fun supported_claim :: "stat_claim \<Rightarrow> bool" where
  "supported_claim (OtherClaim _) = False" | "supported_claim _ = True"

text \<open>Every number of the restriction is a number and its claim is of a supported type.\<close>

fun proper :: "restriction \<Rightarrow> bool" where
  "proper (CountInput a) = (a \<noteq> BNNaN)"
| "proper (PercentageInput a) = (a \<noteq> BNNaN)"
| "proper (ClaimCountInput v) = (cv_min v \<noteq> BNNaN \<and> cv_max v \<noteq> Some BNNaN \<and> supported_claim (cv_claim v))"
| "proper (ClaimPercentageInput v) = (cv_min v \<noteq> BNNaN \<and> cv_max v \<noteq> BNNaN \<and> supported_claim (cv_claim v))"

lemma isSameStatClaim_iff: "isSameStatClaim a b \<longleftrightarrow> a = b \<and> supported_claim a"
  by (cases a; cases b) auto

lemma same_max_iff: "same_max a b \<longleftrightarrow> a = b \<and> a \<noteq> Some BNNaN"
  by (cases a; cases b) (auto simp: bn_eq_iff)

lemma isSameRestriction_iff: "isSameRestriction a b \<longleftrightarrow> key_of a = key_of b \<and> proper a"
  by (cases a; cases b) (auto simp: bn_eq_iff same_max_iff isSameStatClaim_iff)

lemma proper_key: "key_of a = key_of b \<Longrightarrow> proper a \<longleftrightarrow> proper b"
  by (cases a; cases b) auto

subsection \<open>Conversion of statistics\<close>

lemma to_big_idem [simp]: "to_big_if_string B (to_big_if_string B v) = to_big_if_string B v"
  by (cases v) auto

lemma convert_value_idem [simp]: "convert_value B (convert_value B es) = convert_value B es"
  by (auto simp: convert_value_def)

lemma keys_put_property: "map fst (put_property k v es) = (if k \<in> fst ` set es then map fst es else map fst es @ [k])"
  by (induction es) (auto simp: rev_image_eqI)

lemma key_put_property [simp]: "fst ` set (put_property k v es) = insert k (fst ` set es)"
proof -
  have "set (map fst (put_property k v es)) = insert k (set (map fst es))" by (auto simp: keys_put_property)
  then show ?thesis by simp
qed

lemma distinct_put_property: "distinct (map fst es) \<Longrightarrow> distinct (map fst (put_property k v es))"
  by (auto simp: keys_put_property)

lemma transform_properties_eq [simp]: "transform_properties B es = convert_value B es"
proof -
  have "(if is_string v \<and> p then JBig (bn_new B v) else v) = (if p then to_big_if_string B v else v)" for v and p :: bool by (cases v) auto
  then show ?thesis by (simp add: transform_properties_def convert_value_def converted_keys_def)
qed

lemma index_not_count: "nat_to_string i \<noteq> ''count''"
proof
  assume "nat_to_string i = ''count''"
  then have "CHR ''c'' \<in> set (nat_to_string i)" by simp
  then obtain d where "d < 10" "CHR ''c'' = digit_char d" using nat_to_string_char by blast
  then have "(of_char (CHR ''c'') :: nat) = of_char (digit_char d)" by simp
  with \<open>d < 10\<close> show False by (simp add: digit_char_def of_char_of)
qed

lemma spread_count [simp]: "map_of (spread v) ''count'' = map_of (own_properties v) ''count''"
  by (cases v) (auto simp: map_of_eq_None_iff index_not_count [symmetric])

lemma distinct_spread: "distinct (map fst (own_properties v)) \<Longrightarrow> distinct (map fst (spread v))"
  by (cases v) (simp_all add: comp_def distinct_map inj_on_def)

lemma spread_object [simp]: "v = JObject es \<or> v = JInstance c es \<Longrightarrow> spread v = es"
  by auto

lemma keys_convert_value [simp]: "map fst (convert_value B es) = map fst es"
  by (auto simp: convert_value_def)

lemma object_assign_self:
  assumes "map fst ts = map fst es" and "distinct (map fst es)"
  shows "object_assign ts es = es"
proof -
  have put: "put_property k v (as @ (k, w) # bs) = as @ (k, v) # bs" if "k \<notin> set (map fst as)"
    for k and v w :: js_value and as bs
    using that by (induction as) auto
  have "foldl (\<lambda>t (k, v). put_property k v t) (done @ ts') es' = done @ es'"
    if "map fst ts' = map fst es'" "distinct (map fst (done @ es'))" for "done" :: "(string \<times> js_value) list" and ts' es'
    using that
  proof (induction es' arbitrary: "done" ts')
    case Nil
    then show ?case by simp
  next
    case (Cons e es')
    obtain k v where e: "e = (k, v)" by (cases e)
    from Cons.prems(1) e obtain w ts'' where ts': "ts' = (k, w) # ts''" "map fst ts'' = map fst es'" by (cases ts') auto
    have "k \<notin> set (map fst done)" using Cons.prems(2) e by auto
    then have "put_property k v (done @ ts') = (done @ [(k, v)]) @ ts''" using ts' put by simp
    then show ?case using Cons.IH [of ts'' "done @ [(k, v)]"] Cons.prems(2) ts'(2) e by simp
  qed
  from this [of ts es "[]"] show ?thesis using assms by (simp add: object_assign_def)
qed

text \<open>
  \<open>class-transformer\<close> keeps the properties of the plain object and their order: the classes declare no
  initial values.
\<close>

definition keeps_keys :: "transformer \<Rightarrow> bool" where
  "keeps_keys P \<longleftrightarrow> (\<forall>cls es. map fst (P cls es) = map fst es)"

lemma instance_of_eq: "keeps_keys P \<Longrightarrow> distinct (map fst es) \<Longrightarrow> instance_of P cls es = JInstance cls es"
  by (simp add: instance_of_def keeps_keys_def object_assign_self)

text \<open>The objects of the language have distinct property names.\<close>

definition distinct_properties :: "js_value \<Rightarrow> bool" where
  "distinct_properties v \<longleftrightarrow> distinct (map fst (own_properties v))"

fun wf_value :: "js_value \<Rightarrow> bool" where
  "wf_value (JArray items) = list_all distinct_properties items"
| "wf_value v = distinct_properties v"

definition wf_stat :: "js_value \<Rightarrow> bool" where
  "wf_stat v \<longleftrightarrow> distinct_properties v \<and> wf_value (field v ''value'')"

text \<open>A step of the transformer followed by one of the service.\<close>

definition bindr :: "'a result \<Rightarrow> ('a \<Rightarrow> 'b result) \<Rightarrow> 'b result" where
  "bindr r f = (case r of Inl e \<Rightarrow> Inl e | Inr a \<Rightarrow> f a)"

lemma bindr_simps [simp]: "bindr (Inl e) f = Inl e" "bindr (Inr a) f = f a"
  by (simp_all add: bindr_def)

lemma field_own: "field v k = (case map_of (own_properties v) k of Some x \<Rightarrow> x | None \<Rightarrow> JUndefined)"
  by (simp add: field_def)

lemma field_count: "field (JInstance c (convert_count B v)) k =
    (if k = ''count'' then to_big_if_string B (field v ''count'') else field (JObject (spread v)) k)"
  by (cases "field v ''count''") (auto simp: convert_count_def field_own)

lemma convert_count_put: "put_property ''count'' (to_big_if_string B (field v ''count'')) (convert_count B v)
    = put_property ''count'' (to_big_if_string B (field v ''count'')) (spread v)"
  by (simp add: convert_count_def)

lemma convert_count_string: "convert_count B v =
    (if is_string (field v ''count'') then put_property ''count'' (to_big_if_string B (field v ''count'')) (spread v)
     else spread v)"
proof (cases "is_big (field v ''count'')")
  case True
  then obtain n where n: "field v ''count'' = JBig n" by (cases "field v ''count''") auto
  then have "map_of (spread v) ''count'' = Some (JBig n)" by (auto simp: field_own split: option.splits)
  with n show ?thesis by (simp add: convert_count_def put_property_same)
qed (simp add: convert_count_def)

lemma convert_count_distinct: "distinct_properties v \<Longrightarrow> distinct (map fst (convert_count B v))"
  by (simp add: convert_count_def distinct_properties_def distinct_put_property distinct_spread)

lemma transform_item_ensure:
  assumes "keeps_keys P" "distinct_properties item"
  shows "bindr (transform_item B P item) (ensure_item B) = ensure_item B item"
proof (cases "given item")
  case True
  have "transform_item B P item = Inr (JInstance ''ClaimCountJurisdictionValueItemDto'' (convert_count B item))"
    using True instance_of_eq [OF assms(1) convert_count_distinct [OF assms(2)]] by (simp add: transform_item_def)
  then show ?thesis using True
    by (simp add: ensure_item_def field_count convert_count_put del: field_simps)
qed (simp add: transform_item_def ensure_item_def)

text \<open>When all errors are the same, doing two steps element by element or list by list is the same.\<close>

lemma sequence_error:
  assumes "sequence (map f xs) = Inl e" and "\<And>x e. x \<in> set xs \<Longrightarrow> f x = Inl e \<Longrightarrow> P e"
  shows "P e"
  using assms
proof (induction xs)
  case (Cons x xs)
  show ?case
  proof (cases "f x")
    case (Inl e')
    then show ?thesis using Cons.prems by auto
  next
    case (Inr a)
    then have "sequence (map f xs) = Inl e" using Cons.prems(1) by (auto split: sum.splits)
    with Cons show ?thesis by auto
  qed
qed simp

lemma bindr_sequence:
  assumes "\<And>x. x \<in> set xs \<Longrightarrow> bindr (f x) g = h x"
    and "\<And>x e. x \<in> set xs \<Longrightarrow> f x = Inl e \<Longrightarrow> e = e0" and "\<And>x e. x \<in> set xs \<Longrightarrow> h x = Inl e \<Longrightarrow> e = e0"
  shows "bindr (sequence (map f xs)) (\<lambda>ys. sequence (map g ys)) = sequence (map h xs)"
  using assms
proof (induction xs)
  case Nil
  then show ?case by simp
next
  case (Cons x xs)
  have IH: "bindr (sequence (map f xs)) (\<lambda>ys. sequence (map g ys)) = sequence (map h xs)"
    by (rule Cons.IH) (blast intro: Cons.prems list.set_intros(2))+
  have hx: "bindr (f x) g = h x" using Cons.prems(1) by simp
  show ?case
  proof (cases "f x")
    case (Inl e)
    with hx have "h x = Inl e" by simp
    with Inl show ?thesis by simp
  next
    case (Inr y)
    with hx have gy: "g y = h x" by simp
    show ?thesis
    proof (cases "sequence (map f xs)")
      case (Inl e)
      have e: "e = e0" by (rule sequence_error [OF Inl]) (blast intro: Cons.prems(2) list.set_intros(2))
      with IH Inl have hs: "sequence (map h xs) = Inl e0" by simp
      have "e' = e0" if "h x = Inl e'" for e' using that by (blast intro: Cons.prems(3) list.set_intros(1))
      with Inl Inr e hs show ?thesis by (cases "h x") auto
    next
      case (Inr ys)
      with IH gy \<open>f x = Inr y\<close> show ?thesis by (cases "h x") simp_all
    qed
  qed
qed

lemma item_errors:
  "ensure_item B item = Inl e \<Longrightarrow> e = js_type_error" "transform_item B P item = Inl e \<Longrightarrow> e = js_type_error"
  by (auto simp: ensure_item_def transform_item_def split: if_splits)

lemma transform_items_ensure:
  assumes "keeps_keys P" "list_all distinct_properties items"
  shows "bindr (sequence (map (transform_item B P) items)) (\<lambda>ys. sequence (map (ensure_item B) ys)) = sequence (map (ensure_item B) items)"
  by (rule bindr_sequence [of items "transform_item B P" "ensure_item B" "ensure_item B" js_type_error])
    (use transform_item_ensure [OF assms(1)] assms(2) item_errors in \<open>auto simp: list_all_iff\<close>)

lemma ensure_value_errors: "ensure_value B v = Inl e \<Longrightarrow> e = js_type_error"
  by (auto simp: ensure_value_def item_errors split: js_value.splits sum.splits if_splits elim!: sequence_error)

lemma ensure_errors: "ensure_stat B v = Inl e \<Longrightarrow> e = js_type_error"
  by (auto simp: ensure_stat_def Let_def dest: ensure_value_errors split: sum.splits if_splits)

lemma transform_value_errors: "transform_value B P c v = Inl e \<Longrightarrow> e = js_type_error"
  by (auto simp: transform_value_def Let_def item_errors split: js_value.splits sum.splits if_splits elim!: sequence_error)

lemma transform_errors: "transform_stat B P v = Inl e \<Longrightarrow> e = js_type_error"
  by (auto simp: transform_stat_def Let_def dest: transform_value_errors split: js_value.splits sum.splits if_splits)

text \<open>The value of a scoped count: \<open>None\<close> stands for no change on both sides.\<close>

lemma transform_value_object:
  assumes "\<not> isArray v"
  shows "transform_value B P c v = (if truthy v \<and> typeof_object v
      then Inr (Some (if c = JString ''Accredited'' then instance_of P ''ClaimCountAccreditedValueDto'' (convert_value B (own_properties v))
        else if c = JString ''Affiliate'' then instance_of P ''ClaimCountAffiliateValueDto'' (convert_value B (own_properties v))
        else JObject (convert_value B (own_properties v)))) else Inr None)"
    "ensure_value B v = (if truthy v \<and> typeof_object v then Inr (Some (JObject (convert_value B (own_properties v)))) else Inr None)"
  using assms by (cases v; simp add: transform_value_def ensure_value_def Let_def)+

lemma transform_value_ensure:
  assumes "keeps_keys P" "wf_value v"
  shows "bindr (transform_value B P c v) (\<lambda>w. ensure_value B (case w of Some x \<Rightarrow> x | None \<Rightarrow> v)) = ensure_value B v"
proof (cases "isArray v")
  case True
  then obtain items where v: "v = JArray items" by (cases v) auto
  with assms have "list_all distinct_properties items" by simp
  note * = transform_items_ensure [OF assms(1) this, of B]
  show ?thesis
  proof (cases "sequence (map (transform_item B P) items)")
    case (Inl e)
    with * have "sequence (map (ensure_item B) items) = Inl e" by simp
    with Inl v show ?thesis by (simp add: transform_value_def ensure_value_def)
  next
    case (Inr ys)
    with * have "sequence (map (ensure_item B) ys) = sequence (map (ensure_item B) items)" by simp
    with Inr v show ?thesis by (simp add: transform_value_def ensure_value_def)
  qed
next
  case False
  show ?thesis
  proof (cases "truthy v \<and> typeof_object v")
    case True
    have "distinct (map fst (convert_value B (own_properties v)))"
      using assms(2) False by (cases v) (simp_all add: distinct_properties_def)
    note inst = instance_of_eq [OF assms(1) this]
    have "ensure_value B (JInstance cls (convert_value B (own_properties v))) = ensure_value B v"
      "ensure_value B (JObject (convert_value B (own_properties v))) = ensure_value B v" for cls
      using True by (simp_all add: transform_value_object(2) [OF False]) (simp_all add: ensure_value_def)
    with True show ?thesis by (simp add: transform_value_object(1) [OF False] inst)
  next
    case False': False
    then have "transform_value B P c v = Inr None" unfolding transform_value_object(1) [OF False] by simp
    then show ?thesis by simp
  qed
qed

lemma ensure_stat_eq:
  assumes "v = JObject es \<or> v = JInstance c es" "''type'' \<in> fst ` set es"
  shows "ensure_stat B v =
    (if field v ''type'' = JString ''Count'' \<and> is_string (field v ''count'')
     then Inr (JObject (put_property ''count'' (to_big_if_string B (field v ''count'')) es))
     else if field v ''type'' = JString ''ScopedCount''
     then bindr (ensure_value B (field v ''value'')) (\<lambda>w. Inr (JObject (put_value w es)))
     else Inr (JObject es))"
  using assms by (auto simp: ensure_stat_def Let_def bindr_def split: sum.splits)

lemma field_instance: "field (JInstance c es) k = field (JObject es) k"
  by simp

lemma map_of_put_value: "map_of (put_value w es) k = (if k = ''value'' \<and> w \<noteq> None then w else map_of es k)"
  by (cases w) (auto simp: put_value_def)

lemma map_of_type: "field (JObject es) ''type'' \<noteq> JUndefined \<Longrightarrow> ''type'' \<in> fst ` set es"
  by (auto split: option.splits dest: map_of_SomeD intro: rev_image_eqI)

lemma keys_put_value: "''type'' \<in> fst ` set es \<Longrightarrow> ''type'' \<in> fst ` set (put_value w es)"
  by (cases w) (simp_all add: put_value_def)

lemma ensure_value_again:
  assumes "bindr (transform_value B P c v) (\<lambda>w. ensure_value B (case w of Some x \<Rightarrow> x | None \<Rightarrow> v)) = ensure_value B v"
    and "transform_value B P c v = Inr w" and "v = field (JObject es) ''value''"
  shows "bindr (ensure_value B (field (JObject (put_value w es)) ''value'')) (\<lambda>u. Inr (JObject (put_value u (put_value w es))))
    = bindr (ensure_value B v) (\<lambda>u. Inr (JObject (put_value u es)))"
proof -
  have f: "field (JObject (put_value w es)) ''value'' = (case w of Some x \<Rightarrow> x | None \<Rightarrow> v)"
    using assms(3) by (cases w) (auto simp: put_value_def)
  have e: "ensure_value B (case w of Some x \<Rightarrow> x | None \<Rightarrow> v) = ensure_value B v" using assms(1,2) by simp
  show ?thesis
  proof (cases w)
    case None
    then show ?thesis using f e by (simp add: put_value_def)
  next
    case (Some x)
    have "ensure_value B v \<noteq> Inr None"
    proof -
      have "isArray v \<or> truthy v \<and> typeof_object v"
        using assms(2) Some transform_value_object(1) [of v B P c] by (cases "isArray v") (auto split: if_splits)
      then show ?thesis
        by (cases v) (auto simp: ensure_value_def split: sum.splits)
    qed
    then have "put_value u (put_value w es) = put_value u es" if "ensure_value B v = Inr u" for u
      using that Some by (cases u) (simp_all add: put_value_def)
    then show ?thesis unfolding f e by (cases "ensure_value B v") auto
  qed
qed

lemma transform_stat_ensure:
  assumes P: "keeps_keys P" and wf: "wf_stat v"
  shows "bindr (transform_stat B P v) (ensure_stat B) = ensure_stat B v"
proof (cases v)
  case (JObject es)
  have d: "distinct (map fst es)" using wf JObject by (simp add: wf_stat_def distinct_properties_def)
  let ?t = "field v ''type''"
  consider (count) "?t = JString ''Count''" | (balance) "?t \<in> {JString ''Balance'', JString ''ScopedBalance''}"
    | (scoped) "?t = JString ''ScopedCount''" | (other) "transform_stat B P v = Inr v"
  proof -
    have "transform_stat B P v = Inr v"
      if "?t \<noteq> JString ''Count''" "?t \<noteq> JString ''Balance''" "?t \<noteq> JString ''ScopedBalance''" "?t \<noteq> JString ''ScopedCount''"
      using that JObject by (simp add: transform_stat_def Let_def del: field_simps)
    then show ?thesis using that by blast
  qed
  then show ?thesis
  proof cases
    case count
    let ?cc = "convert_count B v"
    have t: "transform_stat B P v = Inr (JInstance ''AddCountStatDto'' ?cc)"
      using count JObject instance_of_eq [OF P convert_count_distinct [of v B]] wf
      by (simp add: transform_stat_def Let_def wf_stat_def del: field_simps)
    have ty: "''type'' \<in> fst ` set es" by (rule map_of_type) (use count JObject in simp)
    then have "''type'' \<in> fst ` set ?cc" using JObject by (simp add: convert_count_def del: field_simps)
    note inst = ensure_stat_eq [OF disjI2 [OF refl] this]
    have "field (JInstance c ?cc) ''type'' = field v ''type''" for c unfolding field_count using JObject by simp
    moreover have "\<not> is_string (field (JInstance c ?cc) ''count'')" for c
      unfolding field_count by (cases "field v ''count''") simp_all
    ultimately have f: "field (JInstance c ?cc) ''type'' = JString ''Count''" "\<not> is_string (field (JInstance c ?cc) ''count'')" for c
      using count by simp_all
    have "ensure_stat B (JInstance ''AddCountStatDto'' ?cc) = Inr (JObject ?cc)"
      by (simp add: inst f del: field_simps)
    also have "\<dots> = ensure_stat B v"
      using count JObject by (simp add: convert_count_string ensure_stat_eq [OF disjI1 [OF refl] ty] del: field_simps)
    finally show ?thesis using t by simp
  next
    case balance
    have "transform_stat B P v \<in> {Inr (JInstance ''AddPercentageStatDto'' es), Inr (JInstance ''AddClaimPercentageStatDto'' es)}"
      using balance JObject instance_of_eq [OF P d] by (auto simp: transform_stat_def Let_def)
    moreover have "''type'' \<in> fst ` set es" by (rule map_of_type) (use balance JObject in auto)
    moreover from this have "ensure_stat B (JInstance c es) = ensure_stat B v" for c
      unfolding JObject by (simp only: ensure_stat_eq [OF disjI2 [OF refl]] ensure_stat_eq [OF disjI1 [OF refl]] field_instance)
    ultimately show ?thesis by auto
  next
    case scoped
    note again = ensure_value_again [OF transform_value_ensure [OF P, of "field v ''value''"], of B "field v ''claimType''"]
    have ty: "''type'' \<in> fst ` set es" by (rule map_of_type) (use scoped JObject in simp)
    have ev: "ensure_stat B v = bindr (ensure_value B (field v ''value'')) (\<lambda>w. Inr (JObject (put_value w es)))"
      using scoped by (simp add: ensure_stat_eq [OF disjI1 [OF JObject] ty] del: field_simps)
    show ?thesis
    proof (cases "transform_value B P (field v ''claimType'') (field v ''value'')")
      case (Inl e)
      with transform_value_ensure [OF P, of "field v ''value''" B "field v ''claimType''"] wf
      have "ensure_value B (field v ''value'') = Inl e" by (simp add: wf_stat_def)
      with Inl ev scoped JObject show ?thesis by (simp add: transform_stat_def Let_def del: field_simps)
    next
      case (Inr w)
      have dw: "distinct (map fst (put_value w es))" using d by (cases w) (simp_all add: put_value_def distinct_put_property)
      have "transform_stat B P v = Inr v \<or> (\<exists>c. transform_stat B P v = Inr (JInstance c (put_value w es)))"
        using scoped Inr JObject instance_of_eq [OF P dw] by (simp add: transform_stat_def Let_def del: field_simps)
      then show ?thesis
      proof (elim disjE exE)
        fix c assume t: "transform_stat B P v = Inr (JInstance c (put_value w es))"
        have "field (JInstance c (put_value w es)) ''type'' = JString ''ScopedCount''"
          using scoped JObject by (simp add: map_of_put_value)
        then have "ensure_stat B (JInstance c (put_value w es)) =
            bindr (ensure_value B (field (JObject (put_value w es)) ''value'')) (\<lambda>u. Inr (JObject (put_value u (put_value w es))))"
          by (simp add: ensure_stat_eq [OF disjI2 [OF refl] keys_put_value [OF ty]] field_instance del: field_simps)
        also have "\<dots> = ensure_stat B v"
          unfolding ev by (rule again) (use wf Inr JObject in \<open>simp_all add: wf_stat_def\<close>)
        finally show ?thesis using t by simp
      qed simp
    qed
  qed simp
qed (auto simp: transform_stat_def)

lemma map_of_convert_value: "map_of (convert_value B es) k =
    map_option (\<lambda>v. if List.member converted_keys k then to_big_if_string B v else v) (map_of es k)"
  by (induction es) (auto simp: convert_value_def)

section \<open>Properties\<close>

text \<open>
  What a converted statistic is, field by field: a text becomes a number exactly in the count of a \<open>Count\<close>, in the
  four counts of a scoped count (\<open>accredited\<close>, \<open>nonAccredited\<close>, \<open>affiliate\<close>, \<open>nonAffiliate\<close>) and in the
  count of each object of a scoped count by jurisdiction; everything else is as it was.
\<close>

definition number_of_text :: "bignumber \<Rightarrow> js_value \<Rightarrow> js_value" where
  "number_of_text B v = (case v of JString s \<Rightarrow> JBig (bn_new B (JString s)) | _ \<Rightarrow> v)"

definition is_object :: "js_value \<Rightarrow> bool" where
  "is_object v \<longleftrightarrow> (case v of JObject _ \<Rightarrow> True | JInstance _ _ \<Rightarrow> True | _ \<Rightarrow> False)"

definition fields_converted :: "bignumber \<Rightarrow> string set \<Rightarrow> js_value \<Rightarrow> js_value \<Rightarrow> bool" where
  "fields_converted B keys v w \<longleftrightarrow> (\<forall>k. field w k = (if k \<in> keys then number_of_text B (field v k) else field v k))"

definition scoped_value_converted :: "bignumber \<Rightarrow> js_value \<Rightarrow> js_value \<Rightarrow> bool" where
  "scoped_value_converted B v w \<longleftrightarrow>
     (is_object v \<longrightarrow> fields_converted B {''accredited'', ''nonAccredited'', ''affiliate'', ''nonAffiliate''} v w)
   \<and> (\<forall>items. v = JArray items \<longrightarrow> (\<exists>ws. w = JArray ws \<and> length ws = length items
        \<and> (\<forall>j < length items. is_object (items ! j) \<longrightarrow> fields_converted B {''count''} (items ! j) (ws ! j))))
   \<and> (v \<in> {JUndefined, JNull} \<or> is_string v \<longrightarrow> w = v)"

definition statistic_converted :: "bignumber \<Rightarrow> js_value \<Rightarrow> js_value \<Rightarrow> bool" where
  "statistic_converted B v w \<longleftrightarrow>
     (\<forall>k. k \<notin> {''count'', ''value''} \<longrightarrow> field w k = field v k)
   \<and> field w ''count'' = (if field v ''type'' = JString ''Count'' then number_of_text B (field v ''count'') else field v ''count'')
   \<and> (if field v ''type'' = JString ''ScopedCount'' then scoped_value_converted B (field v ''value'') (field w ''value'')
      else field w ''value'' = field v ''value'')"

lemma number_of_text_eq: "number_of_text B v = to_big_if_string B v"
  by (cases v) (simp_all add: number_of_text_def)

lemma number_of_undefined [simp]: "number_of_text B JUndefined = JUndefined"
  by (simp add: number_of_text_def)

lemma convert_value_fields:
  "fields_converted B {''accredited'', ''nonAccredited'', ''affiliate'', ''nonAffiliate''} v (JObject (convert_value B (own_properties v)))"
  by (auto simp: fields_converted_def field_own map_of_convert_value converted_keys_def number_of_text_eq split: option.split)

lemma ensure_item_fields:
  assumes "ensure_item B v = Inr w" and "is_object v"
  shows "fields_converted B {''count''} v w"
proof -
  have "spread v = own_properties v" using assms(2) by (cases v) (simp_all add: is_object_def)
  with assms(1) have "w = JObject (put_property ''count'' (to_big_if_string B (field v ''count'')) (own_properties v))"
    by (simp add: ensure_item_def split: if_splits)
  then show ?thesis by (simp add: fields_converted_def field_own number_of_text_eq)
qed

lemma ensure_value_fields:
  assumes "ensure_value B v = Inr w"
  shows "scoped_value_converted B v (case w of Some x \<Rightarrow> x | None \<Rightarrow> v)"
proof (cases "isArray v")
  case True
  then obtain items where v: "v = JArray items" by (cases v) auto
  with assms obtain rs where rs: "sequence (map (ensure_item B) items) = Inr rs" "w = Some (JArray rs)"
    by (auto simp: ensure_value_def split: sum.splits)
  then have rs': "map (ensure_item B) items = map Inr rs" by (simp add: sequence_Inr_iff)
  then have len: "length rs = length items" by (metis length_map)
  have "ensure_item B (items ! j) = Inr (rs ! j)" if "j < length items" for j
    using that len arg_cong [OF rs', of "\<lambda>l. l ! j"] by simp
  then show ?thesis using v rs(2) len ensure_item_fields by (auto simp: scoped_value_converted_def is_object_def)
next
  case False
  note w = assms [unfolded transform_value_object(2) [OF False]]
  show ?thesis
  proof (cases "is_object v")
    case True
    then have "truthy v \<and> typeof_object v" using False by (cases v) (simp_all add: is_object_def)
    with w have "w = Some (JObject (convert_value B (own_properties v)))" by simp
    with True False show ?thesis
      using convert_value_fields [of B v] by (cases v) (simp_all add: scoped_value_converted_def is_object_def)
  next
    case no: False
    show ?thesis using w no False by (cases v) (auto simp: scoped_value_converted_def is_object_def)
  qed
qed

lemma ensure_stat_fields:
  assumes "ensure_stat B v = Inr r" and "is_object v" and "field v ''type'' \<noteq> JUndefined"
  shows "statistic_converted B v r"
proof -
  obtain c es where v: "v = JObject es \<or> v = JInstance c es" using assms(2) by (cases v) (auto simp: is_object_def)
  then have own: "own_properties v = es" by auto
  have f: "field v k = (case map_of es k of Some x \<Rightarrow> x | None \<Rightarrow> JUndefined)" for k by (simp add: field_own own)
  have ty: "''type'' \<in> fst ` set es" by (rule map_of_type) (use assms(3) in \<open>simp add: f\<close>)
  note r = assms(1) [unfolded ensure_stat_eq [OF v ty]]
  show ?thesis
  proof (cases "field v ''type'' = JString ''ScopedCount''")
    case True
    with r obtain w where w: "ensure_value B (field v ''value'') = Inr w" "r = JObject (put_value w es)"
      by (auto simp: bindr_def split: sum.splits)
    have "field r ''value'' = (case w of Some x \<Rightarrow> x | None \<Rightarrow> field v ''value'')"
      by (cases w) (simp_all add: w(2) own field_own put_value_def)
    moreover have "field r k = field v k" if "k \<noteq> ''value''" for k
      using that by (simp add: w(2) own field_own map_of_put_value)
    ultimately show ?thesis using True ensure_value_fields [OF w(1)] by (simp add: statistic_converted_def)
  next
    case scoped: False
    show ?thesis
    proof (cases "field v ''type'' = JString ''Count'' \<and> is_string (field v ''count'')")
      case True
      with r have "r = JObject (put_property ''count'' (to_big_if_string B (field v ''count'')) es)" by simp
      then show ?thesis using True by (simp add: statistic_converted_def own field_own number_of_text_eq)
    next
      case False
      with r scoped have "r = JObject es" by (simp split: if_splits)
      then have "field r k = field v k" for k by (simp add: own field_own)
      moreover have "number_of_text B (field v ''count'') = field v ''count''" if "\<not> is_string (field v ''count'')"
        using that by (cases "field v ''count''") (simp_all add: number_of_text_def)
      ultimately show ?thesis using False scoped by (auto simp: statistic_converted_def)
    qed
  qed
qed

text \<open>
  C25: statistics reach the SDK converted. Whether or not the transformer of the request has already made objects of
  classes out of the statistics, the service gives the SDK the same plain objects (or fails alike): one for each
  statistic of the request, in order, with its texts converted to numbers exactly where \<open>statistic_converted\<close> says,
  for counts and for the counts of claims.
\<close>

theorem statistics_converted:
  assumes "keeps_keys P" and "list_all wf_stat stats"
  shows "bindr (TransformScopedCountStats B P (JArray stats))
      (\<lambda>v. case v of JArray ts \<Rightarrow> ensureStatsBigNumberConversion B ts | _ \<Rightarrow> Inl js_type_error)
    = ensureStatsBigNumberConversion B stats
   \<and> (\<forall>rs. ensureStatsBigNumberConversion B stats = Inr rs \<longrightarrow> length rs = length stats
        \<and> (\<forall>i < length stats. is_object (stats ! i) \<and> field (stats ! i) ''type'' \<noteq> JUndefined
             \<longrightarrow> statistic_converted B (stats ! i) (rs ! i)))"
proof (intro conjI allI impI)
  have "bindr (sequence (map (transform_stat B P) stats)) (\<lambda>ts. sequence (map (ensure_stat B) ts)) = sequence (map (ensure_stat B) stats)"
    by (rule bindr_sequence [of stats "transform_stat B P" "ensure_stat B" "ensure_stat B" js_type_error])
      (use assms transform_stat_ensure transform_errors ensure_errors in \<open>auto simp: list_all_iff\<close>)
  then show "bindr (TransformScopedCountStats B P (JArray stats))
      (\<lambda>v. case v of JArray ts \<Rightarrow> ensureStatsBigNumberConversion B ts | _ \<Rightarrow> Inl js_type_error)
    = ensureStatsBigNumberConversion B stats"
    unfolding ensureStatsBigNumberConversion_def [of B stats] TransformScopedCountStats.simps
    by (elim subst) (simp add: ensureStatsBigNumberConversion_def bindr_def split: sum.splits)
next
  fix rs
  assume "ensureStatsBigNumberConversion B stats = Inr rs"
  then have rs: "map (ensure_stat B) stats = map Inr rs" by (simp add: ensureStatsBigNumberConversion_def sequence_Inr_iff)
  then show len: "length rs = length stats" by (metis length_map)
  fix i
  assume i: "i < length stats" and v: "is_object (stats ! i) \<and> field (stats ! i) ''type'' \<noteq> JUndefined"
  have "ensure_stat B (stats ! i) = Inr (rs ! i)" using i len arg_cong [OF rs, of "\<lambda>l. l ! i"] by simp
  then show "statistic_converted B (stats ! i) (rs ! i)" using v ensure_stat_fields by blast
qed

definition demo_stats :: "js_value list" where
  "demo_stats = [JObject [(''type'', JString ''Count''), (''count'', JString ''7'')],
     JObject [(''type'', JString ''ScopedCount''), (''claimType'', JString ''Accredited''),
       (''value'', JObject [(''accredited'', JString ''7''), (''nonAccredited'', JString ''8'')])],
     JObject [(''type'', JString ''ScopedCount''), (''claimType'', JString ''Jurisdiction''),
       (''value'', JArray [JObject [(''countryCode'', JString ''Af''), (''count'', JString ''7'')]])]]"

theorem statistics_converted_witness:
  "bindr (TransformScopedCountStats demo_bignumber (\<lambda>cls es. es) (JArray demo_stats))
      (\<lambda>v. case v of JArray ts \<Rightarrow> ensureStatsBigNumberConversion demo_bignumber ts | _ \<Rightarrow> Inl js_type_error)
    = ensureStatsBigNumberConversion demo_bignumber demo_stats
   \<and> (\<exists>rs. ensureStatsBigNumberConversion demo_bignumber demo_stats = Inr rs \<and> length rs = 3
        \<and> statistic_converted demo_bignumber (demo_stats ! 0) (rs ! 0) \<and> statistic_converted demo_bignumber (demo_stats ! 1) (rs ! 1)
        \<and> statistic_converted demo_bignumber (demo_stats ! 2) (rs ! 2))"
proof -
  have "list_all wf_stat demo_stats" by (simp add: demo_stats_def wf_stat_def distinct_properties_def)
  note * = statistics_converted [OF _ this, of "\<lambda>cls es. es" demo_bignumber]
  have "\<exists>rs. ensureStatsBigNumberConversion demo_bignumber demo_stats = Inr rs"
    by (simp add: demo_stats_def ensureStatsBigNumberConversion_def ensure_stat_def ensure_value_def ensure_item_def)
  then obtain rs where rs: "ensureStatsBigNumberConversion demo_bignumber demo_stats = Inr rs" by blast
  have "length demo_stats = 3" "\<forall>i < 3. is_object (demo_stats ! i) \<and> field (demo_stats ! i) ''type'' \<noteq> JUndefined"
    by (simp_all add: demo_stats_def is_object_def numeral_3_eq_3 All_less_Suc)
  then show ?thesis using * rs by (simp add: keeps_keys_def)
qed

text \<open>
  when two restrictions are the same. \<open>isSameRestriction\<close> decides equality of what identifies a restriction (its type, its
  numbers by value, the identifier of its issuer and its claim), except that a restriction with \<open>NaN\<close> or an unsupported claim is not even the same
  as itself; it is symmetric and transitive.
\<close>

theorem restriction_sameness:
  "(isSameRestriction a b \<longleftrightarrow> key_of a = key_of b \<and> proper a)
   \<and> (isSameRestriction a b \<longleftrightarrow> isSameRestriction b a)
   \<and> (isSameRestriction a b \<and> isSameRestriction b c \<longrightarrow> isSameRestriction a c)
   \<and> (isSameRestriction a a \<longleftrightarrow> proper a)"
  using isSameRestriction_iff proper_key by metis

theorem restriction_sameness_witness:
  "isSameRestriction (ClaimCountInput \<lparr>cv_min = BN 1, cv_max = None, cv_issuer = \<lparr>idn_did = ''0x01''\<rparr>, cv_claim = Jurisdiction NoCode\<rparr>)
     (ClaimCountInput \<lparr>cv_min = BN 1, cv_max = None, cv_issuer = \<lparr>idn_did = ''0x01''\<rparr>, cv_claim = Jurisdiction NoCode\<rparr>)
   \<and> \<not> isSameRestriction (CountInput (BN 1)) (PercentageInput (BN 1))"
  using restriction_sameness [of "ClaimCountInput \<lparr>cv_min = BN 1, cv_max = None, cv_issuer = \<lparr>idn_did = ''0x01''\<rparr>, cv_claim = Jurisdiction NoCode\<rparr>"]
    restriction_sameness [of "CountInput (BN 1)" "PercentageInput (BN 1)"]
  by simp

end
