(* ===== verification/Assets.thy ===== *)
theory Assets
  imports Submit_Properties Transfer_Restrictions
begin

text \<open>
  \<open>AssetsService\<close> (\<open>assets/assets.service.ts\<close>) and the part of \<open>IdentitiesService\<close> it uses. An asset of the SDK is a record of what
  its methods answer; a method that prepares a transaction is an \<open>sdk_method\<close> and goes through
  \<open>submit\<close>. Arguments the service passes on unread are values of the request (\<open>js_value\<close>).
\<close>

section \<open>The SDK\<close>

type_synonym sdk_op = "(js_value, js_value) sdk_method"

datatype asset_ref = ByAssetId string | ByTicker string

record venue_filtering =
  vf_isEnabled :: bool
  vf_allowedVenues :: "big_number list"

record asset =
  as_id :: string
  as_documents_get :: "big_number \<Rightarrow> string option \<Rightarrow> js_value result"
  as_documents_set :: sdk_op
  as_setVenueFiltering :: sdk_op
  as_getVenueFilteringDetails :: "venue_filtering result"
  as_transferOwnership :: sdk_op
  as_freeze :: sdk_op
  as_unfreeze :: sdk_op
  as_getRequiredMediators :: "sdk_identity list result"
  as_addRequiredMediators :: sdk_op
  as_removeRequiredMediators :: sdk_op
  as_preApprove :: sdk_op
  as_removePreApproval :: sdk_op
  as_linkTicker :: sdk_op
  as_unlinkTicker :: sdk_op

record fungible_asset = asset +
  fa_assetHolders_get :: "big_number \<Rightarrow> string option \<Rightarrow> js_value result"
  fa_issue :: sdk_op
  fa_redeem :: sdk_op
  fa_controllerTransfer :: sdk_op
  fa_getOperationHistory :: "js_value result"
  fa_getRestrictions :: "transfer_restriction list result"
  fa_getValues :: "js_value result"
  fa_setRestrictions :: "(restriction list, js_value) sdk_method"
  fa_getStats :: "js_value result"
  fa_setStats :: "(js_value list, js_value) sdk_method"

record polymesh_api =
  api_getAsset :: "asset_ref \<Rightarrow> asset result"
  api_getFungibleAsset :: "asset_ref \<Rightarrow> fungible_asset result"
  api_isIdentityValid :: "string \<Rightarrow> bool result"
  api_getAssets :: "string \<Rightarrow> js_value result"
  api_createAsset :: sdk_op
  api_getIdentity :: "string \<Rightarrow> sdk_identity result"

text \<open>What a service works with: the submission of transactions (with the identifier and the transaction object of this request) and the SDK.\<close>

record ('s, 'n, 'r, 't, 'e) service_env =
  sv_gateway :: "('s, 'n, 'r, 't, 'e) gateway_deps"
  sv_uuid :: string
  sv_seen :: sdk_transaction
  sv_validators :: validators
  sv_bignumber :: bignumber
  sv_api :: polymesh_api

type_synonym ('s, 'n, 'r, 't, 'e, 'a) service = "(exn, ('s, 'n, 'r, 't, 'e) gateway, 'a) eff"

definition submit_in ::
    "('s, 'n, 'r, 't, 'e) service_env \<Rightarrow> ('args, 'res) sdk_method \<Rightarrow> 'args \<Rightarrow> transaction_options \<Rightarrow>
     ('s, 'n, 'r, 't, 'e, 'res submit_response) service" where
  "submit_in V mth args options = submit (sv_gateway V) mth args options (sv_uuid V) (sv_seen V)"

definition identities_findOne :: "polymesh_api \<Rightarrow> string \<Rightarrow> sdk_identity result" where
  "identities_findOne A did = rethrow_sdk (api_getIdentity A did)"

section \<open>Finding assets\<close>

definition asset_ref :: "validators \<Rightarrow> string \<Rightarrow> asset_ref" where
  "asset_ref V asset = (if isAssetId V (JString asset) then ByAssetId asset else ByTicker asset)"

definition assets_findOne :: "('s, 'n, 'r, 't, 'e) service_env \<Rightarrow> string \<Rightarrow> ('s, 'n, 'r, 't, 'e, asset) service" where
  "assets_findOne V asset = lift_result (rethrow_sdk (api_getAsset (sv_api V) (asset_ref (sv_validators V) asset)))"

definition assets_findFungible :: "('s, 'n, 'r, 't, 'e) service_env \<Rightarrow> string \<Rightarrow> ('s, 'n, 'r, 't, 'e, fungible_asset) service" where
  "assets_findFungible V asset = lift_result (rethrow_sdk (api_getFungibleAsset (sv_api V) (asset_ref (sv_validators V) asset)))"

definition assets_findAllByOwner :: "('s, 'n, 'r, 't, 'e) service_env \<Rightarrow> string \<Rightarrow> ('s, 'n, 'r, 't, 'e, js_value) service" where
  "assets_findAllByOwner V owner =
     andThen (lift_result (api_isIdentityValid (sv_api V) owner)) (\<lambda>isDidValid.
     if \<not> isDidValid then throw (AppErr (appNotFoundError owner ''identity''))
     else lift_result (api_getAssets (sv_api V) owner))"

definition assets_findHolders ::
    "('s, 'n, 'r, 't, 'e) service_env \<Rightarrow> string \<Rightarrow> big_number \<Rightarrow> string option \<Rightarrow> ('s, 'n, 'r, 't, 'e, js_value) service" where
  "assets_findHolders V assetInput pageSize start =
     andThen (assets_findFungible V assetInput) (\<lambda>asset. lift_result (fa_assetHolders_get asset pageSize start))"

definition assets_findDocuments ::
    "('s, 'n, 'r, 't, 'e) service_env \<Rightarrow> string \<Rightarrow> big_number \<Rightarrow> string option \<Rightarrow> ('s, 'n, 'r, 't, 'e, js_value) service" where
  "assets_findDocuments V assetInput pageSize start =
     andThen (assets_findOne V assetInput) (\<lambda>asset. lift_result (as_documents_get asset pageSize start))"

section \<open>Transactions on an asset\<close>

type_synonym ('s, 'n, 'r, 't, 'e, 'args) asset_command =
  "('s, 'n, 'r, 't, 'e) service_env \<Rightarrow> string \<Rightarrow> 'args transaction_base \<Rightarrow> ('s, 'n, 'r, 't, 'e, js_value submit_response) service"

definition setDocuments :: "('s, 'n, 'r, 't, 'e, js_value) asset_command" where
  "setDocuments V assetInput params =
     andThen (assets_findOne V assetInput) (\<lambda>asset.
     andThen (lift_result (extractTxOptions params)) (\<lambda>(options, args).
     submit_in V (as_documents_set asset) args options))"

text \<open>The commands below first read the options; \<open>on_asset\<close> and \<open>on_fungible\<close> name this common order.\<close>

definition on_asset ::
    "('s, 'n, 'r, 't, 'e) service_env \<Rightarrow> string \<Rightarrow> 'args transaction_base \<Rightarrow>
     (asset \<Rightarrow> 'args \<Rightarrow> transaction_options \<Rightarrow> ('s, 'n, 'r, 't, 'e, 'a) service) \<Rightarrow> ('s, 'n, 'r, 't, 'e, 'a) service" where
  "on_asset V assetInput params k =
     andThen (lift_result (extractTxOptions params)) (\<lambda>(options, args).
     andThen (assets_findOne V assetInput) (\<lambda>asset. k asset args options))"

definition on_fungible ::
    "('s, 'n, 'r, 't, 'e) service_env \<Rightarrow> string \<Rightarrow> 'args transaction_base \<Rightarrow>
     (fungible_asset \<Rightarrow> 'args \<Rightarrow> transaction_options \<Rightarrow> ('s, 'n, 'r, 't, 'e, 'a) service) \<Rightarrow> ('s, 'n, 'r, 't, 'e, 'a) service" where
  "on_fungible V assetInput params k =
     andThen (lift_result (extractTxOptions params)) (\<lambda>(options, args).
     andThen (assets_findFungible V assetInput) (\<lambda>asset. k asset args options))"

definition enableVenueFiltering :: "('s, 'n, 'r, 't, 'e, js_value) asset_command" where
  "enableVenueFiltering V assetInput params = on_asset V assetInput params (\<lambda>asset _ options.
     submit_in V (as_setVenueFiltering asset) (JObject [(''enabled'', JBool True)]) options)"

definition disableVenueFiltering :: "('s, 'n, 'r, 't, 'e, js_value) asset_command" where
  "disableVenueFiltering V assetInput params = on_asset V assetInput params (\<lambda>asset _ options.
     submit_in V (as_setVenueFiltering asset) (JObject [(''enabled'', JBool False)]) options)"

definition allowVenues :: "('s, 'n, 'r, 't, 'e, js_value) asset_command" where
  "allowVenues V assetInput params = on_asset V assetInput params (\<lambda>asset args options.
     submit_in V (as_setVenueFiltering asset) (JObject [(''allowedVenues'', field args ''venues'')]) options)"

definition disallowVenues :: "('s, 'n, 'r, 't, 'e, js_value) asset_command" where
  "disallowVenues V assetInput params = on_asset V assetInput params (\<lambda>asset args options.
     submit_in V (as_setVenueFiltering asset) (JObject [(''disallowedVenues'', field args ''venues'')]) options)"

definition getVenueFilteringDetails ::
    "('s, 'n, 'r, 't, 'e) service_env \<Rightarrow> string \<Rightarrow> ('s, 'n, 'r, 't, 'e, bool \<times> big_number list \<times> big_number list) service" where
  "getVenueFilteringDetails V assetInput =
     andThen (assets_findOne V assetInput) (\<lambda>asset. rethrowing
       (andThen (lift_result (as_getVenueFilteringDetails asset)) (\<lambda>d.
        ret (vf_isEnabled d, vf_allowedVenues d, []))))"

definition assets_createAsset ::
    "('s, 'n, 'r, 't, 'e) service_env \<Rightarrow> js_value transaction_base \<Rightarrow> ('s, 'n, 'r, 't, 'e, js_value submit_response) service" where
  "assets_createAsset V params =
     andThen (lift_result (extractTxOptions params)) (\<lambda>(options, args).
     submit_in V (api_createAsset (sv_api V)) args options)"

definition issue :: "('s, 'n, 'r, 't, 'e, js_value) asset_command" where
  "issue V assetInput params = on_fungible V assetInput params (\<lambda>asset args options.
     submit_in V (fa_issue asset) args options)"

definition transferOwnership :: "('s, 'n, 'r, 't, 'e, js_value) asset_command" where
  "transferOwnership V assetInput params = on_asset V assetInput params (\<lambda>asset args options.
     submit_in V (as_transferOwnership asset) args options)"

text \<open>The portfolio the tokens are redeemed from: \<open>undefined\<close> for the default portfolio.\<close>

definition redeem_args :: "js_value \<Rightarrow> js_value result" where
  "redeem_args args = (case field args ''from'' of
      JBig n \<Rightarrow> Inr (JObject (put_property ''from''
        (case toPortfolioId n of Some i \<Rightarrow> JBig i | None \<Rightarrow> JUndefined) (own_properties args)))
    | _ \<Rightarrow> Inl js_type_error)"

definition redeem :: "('s, 'n, 'r, 't, 'e, js_value) asset_command" where
  "redeem V assetInput params = on_fungible V assetInput params (\<lambda>asset args options.
     andThen (lift_result (redeem_args args)) (\<lambda>a. submit_in V (fa_redeem asset) a options))"

definition freeze :: "('s, 'n, 'r, 't, 'e, js_value) asset_command" where
  "freeze V assetInput params = on_asset V assetInput params (\<lambda>asset _ options.
     submit_in V (as_freeze asset) (JObject []) options)"

definition unfreeze :: "('s, 'n, 'r, 't, 'e, js_value) asset_command" where
  "unfreeze V assetInput params = on_asset V assetInput params (\<lambda>asset _ options.
     submit_in V (as_unfreeze asset) (JObject []) options)"

record controller_transfer_args =
  ct_origin_did :: string
  ct_origin_id :: big_number
  ct_amount :: js_value

definition controllerTransfer :: "('s, 'n, 'r, 't, 'e, controller_transfer_args) asset_command" where
  "controllerTransfer V assetInput params = on_fungible V assetInput params (\<lambda>asset args options.
     submit_in V (fa_controllerTransfer asset)
       (JObject [(''originPortfolio'', toPortfolioLike (ct_origin_did args) (ct_origin_id args)), (''amount'', ct_amount args)]) options)"

definition getOperationHistory :: "('s, 'n, 'r, 't, 'e) service_env \<Rightarrow> string \<Rightarrow> ('s, 'n, 'r, 't, 'e, js_value) service" where
  "getOperationHistory V assetInput =
     andThen (assets_findFungible V assetInput) (\<lambda>asset. lift_result (fa_getOperationHistory asset))"

definition getRequiredMediators :: "('s, 'n, 'r, 't, 'e) service_env \<Rightarrow> string \<Rightarrow> ('s, 'n, 'r, 't, 'e, sdk_identity list) service" where
  "getRequiredMediators V assetInput =
     andThen (assets_findOne V assetInput) (\<lambda>asset. lift_result (rethrow_sdk (as_getRequiredMediators asset)))"

definition addRequiredMediators :: "('s, 'n, 'r, 't, 'e, js_value) asset_command" where
  "addRequiredMediators V assetInput params = on_asset V assetInput params (\<lambda>asset args options.
     submit_in V (as_addRequiredMediators asset) (JObject [(''mediators'', field args ''mediators'')]) options)"

definition removeRequiredMediators :: "('s, 'n, 'r, 't, 'e, js_value) asset_command" where
  "removeRequiredMediators V assetInput params = on_asset V assetInput params (\<lambda>asset args options.
     submit_in V (as_removeRequiredMediators asset) (JObject [(''mediators'', field args ''mediators'')]) options)"

definition preApprove :: "('s, 'n, 'r, 't, 'e, js_value) asset_command" where
  "preApprove V assetInput params = on_asset V assetInput params (\<lambda>asset _ options.
     submit_in V (as_preApprove asset) (JObject []) options)"

definition removePreApproval :: "('s, 'n, 'r, 't, 'e, js_value) asset_command" where
  "removePreApproval V assetInput params = on_asset V assetInput params (\<lambda>asset _ options.
     submit_in V (as_removePreApproval asset) (JObject []) options)"

definition linkTickerToAsset :: "('s, 'n, 'r, 't, 'e, js_value) asset_command" where
  "linkTickerToAsset V assetInput params = on_asset V assetInput params (\<lambda>asset args options.
     submit_in V (as_linkTicker asset) args options)"

definition unlinkTickerFromAsset :: "('s, 'n, 'r, 't, 'e, js_value) asset_command" where
  "unlinkTickerFromAsset V assetInput params = on_asset V assetInput params (\<lambda>asset _ options.
     submit_in V (as_unlinkTicker asset) (JObject []) options)"

section \<open>Transfer restrictions\<close>

definition getTransferRestrictions ::
    "('s, 'n, 'r, 't, 'e) service_env \<Rightarrow> string \<Rightarrow> ('s, 'n, 'r, 't, 'e, transfer_restriction list) service" where
  "getTransferRestrictions V assetInput =
     andThen (assets_findFungible V assetInput) (\<lambda>asset. lift_result (fa_getRestrictions asset))"

definition getTransferRestrictionValues :: "('s, 'n, 'r, 't, 'e) service_env \<Rightarrow> string \<Rightarrow> ('s, 'n, 'r, 't, 'e, js_value) service" where
  "getTransferRestrictionValues V assetInput =
     andThen (assets_findFungible V assetInput) (\<lambda>asset. lift_result (fa_getValues asset))"

definition setTransferRestrictions :: "('s, 'n, 'r, 't, 'e, restriction_dto list) asset_command" where
  "setTransferRestrictions V assetInput params = on_fungible V assetInput params (\<lambda>asset args options.
     andThen (lift_result (transferRestrictionsDtoToRestrictions args (identities_findOne (sv_api V)))) (\<lambda>restrictions.
     submit_in V (fa_setRestrictions asset) restrictions options))"

definition addTransferRestrictions :: "('s, 'n, 'r, 't, 'e, restriction_dto list) asset_command" where
  "addTransferRestrictions V assetInput params = on_fungible V assetInput params (\<lambda>asset args options.
     andThen (lift_result (fa_getRestrictions asset)) (\<lambda>currentValueRestrictions.
     let currentRestrictions = normalizeExistingRestrictions currentValueRestrictions
     in andThen (lift_result (transferRestrictionsDtoToRestrictions args (identities_findOne (sv_api V)))) (\<lambda>newRestrictions.
        let duplicates = filter (\<lambda>nr. list_ex (\<lambda>er. isSameRestriction er nr) currentRestrictions) newRestrictions
        in if duplicates \<noteq> []
           then throw (AppErr (appValidationError ''One or more transfer restrictions already exist''))
           else submit_in V (fa_setRestrictions asset) (currentRestrictions @ newRestrictions) options)))"

definition removeTransferRestrictions ::
    "('s, 'n, 'r, 't, 'e) service_env \<Rightarrow> string \<Rightarrow> transaction_options \<Rightarrow> ('s, 'n, 'r, 't, 'e, js_value submit_response) service" where
  "removeTransferRestrictions V assetInput options =
     andThen (assets_findFungible V assetInput) (\<lambda>asset. submit_in V (fa_setRestrictions asset) [] options)"

definition getStats :: "('s, 'n, 'r, 't, 'e) service_env \<Rightarrow> string \<Rightarrow> ('s, 'n, 'r, 't, 'e, js_value) service" where
  "getStats V assetInput = andThen (assets_findFungible V assetInput) (\<lambda>asset. lift_result (fa_getStats asset))"

definition setStats :: "('s, 'n, 'r, 't, 'e, js_value list) asset_command" where
  "setStats V assetInput params = on_fungible V assetInput params (\<lambda>asset args options.
     andThen (lift_result (ensureStatsBigNumberConversion (sv_bignumber V) args)) (\<lambda>stats.
     submit_in V (fa_setStats asset) stats options))"

section \<open>Lemmas\<close>

text \<open>
  \<open>touches params m\<close>: with the options of \<open>params\<close>, the computation \<open>m\<close> runs at most one transaction, and none in a mode
  that must not touch the chain.
\<close>

definition touches :: "'args transaction_base \<Rightarrow> ('s, 'n, 'r, 't, 'e, 'a) service \<Rightarrow> bool" where
  "touches params m \<longleftrightarrow> makes (\<lambda>cs r. length (runs cs) \<le> 1
     \<and> (\<forall>options args. extractTxOptions params = Inr (options, args) \<and> op_processMode options \<in> {DryRun, OfflineMode, AMQP}
          \<longrightarrow> runs cs = [])) m"

lemma touches_submit:
  "extractTxOptions params = Inr (options, args0) \<Longrightarrow> touches params (submit_in V mth args options)"
  unfolding touches_def submit_in_def by (rule makes_mono [OF makes_submit]) (auto dest: submit_ok_runs)

lemma touches_throw: "touches params (throw e)"
  unfolding touches_def by (rule makes_mono [OF makes_simple(2)]) simp

lemma touches_lift:
  assumes "\<And>x. r = Inr x \<Longrightarrow> touches params (k x)"
  shows "touches params (andThen (lift_result r) k)"
proof (cases r)
  case (Inl e)
  then have "andThen (lift_result r) k = throw e" by (simp add: fun_eq_iff andThen_def eff_simps)
  then show ?thesis by (simp add: touches_throw)
next
  case (Inr x)
  then have "andThen (lift_result r) k = k x" by (simp add: fun_eq_iff andThen_def eff_simps)
  then show ?thesis using assms Inr by simp
qed

lemma touches_on:
  assumes "\<And>asset args options. extractTxOptions params = Inr (options, args) \<Longrightarrow> touches params (k asset args options)"
  shows "touches params (on_asset V i params k)"
  unfolding on_asset_def assets_findOne_def split_beta
  by (intro touches_lift assms) simp

lemma touches_on_fungible:
  assumes "\<And>asset args options. extractTxOptions params = Inr (options, args) \<Longrightarrow> touches params (k asset args options)"
  shows "touches params (on_fungible V i params k)"
  unfolding on_fungible_def assets_findFungible_def split_beta
  by (intro touches_lift assms) simp

definition asset_commands :: "('s, 'n, 'r, 't, 'e, js_value) asset_command list" where
  "asset_commands = [setDocuments, enableVenueFiltering, disableVenueFiltering, allowVenues, disallowVenues, issue,
     transferOwnership, redeem, freeze, unfreeze, addRequiredMediators, removeRequiredMediators, preApprove,
     removePreApproval, linkTickerToAsset, unlinkTickerFromAsset]"

lemmas command_defs = enableVenueFiltering_def disableVenueFiltering_def allowVenues_def disallowVenues_def issue_def
  transferOwnership_def redeem_def freeze_def unfreeze_def addRequiredMediators_def removeRequiredMediators_def
  preApprove_def removePreApproval_def linkTickerToAsset_def unlinkTickerFromAsset_def

lemma touches_setDocuments: "touches params (setDocuments V i params)"
proof -
  have "touches params (submit_in V mth (snd x) (fst x))" if "extractTxOptions params = Inr x" for x mth
    using touches_submit [of params "fst x" "snd x" V mth "snd x"] that by simp
  then show ?thesis unfolding setDocuments_def assets_findOne_def split_beta by (intro touches_lift)
qed

lemma touches_each:
  "touches params (enableVenueFiltering V i params)" "touches params (disableVenueFiltering V i params)"
  "touches params (allowVenues V i params)" "touches params (disallowVenues V i params)"
  "touches params (issue V i params)" "touches params (transferOwnership V i params)"
  "touches params (redeem V i params)" "touches params (freeze V i params)"
  "touches params (unfreeze V i params)" "touches params (addRequiredMediators V i params)"
  "touches params (removeRequiredMediators V i params)" "touches params (preApprove V i params)"
  "touches params (removePreApproval V i params)" "touches params (linkTickerToAsset V i params)"
  "touches params (unlinkTickerFromAsset V i params)"
  unfolding command_defs
  by ((rule touches_on touches_on_fungible; (rule touches_lift)?; erule touches_submit)+)

lemma touches_commands: "cmd \<in> set asset_commands \<Longrightarrow> touches params (cmd V i params)"
  unfolding asset_commands_def list.set insert_iff empty_iff
  by (elim disjE; (simp only: touches_each touches_setDocuments)?)

lemma lookup_fails:
  assumes "extractTxOptions params = Inr (options, args)"
    and "api_getAsset (sv_api V) (asset_ref (sv_validators V) i) = Inl e"
    and "api_getFungibleAsset (sv_api V) (asset_ref (sv_validators V) i) = Inl e"
    and "cmd \<in> set asset_commands"
  shows "cmd V i params s = (Inl (thrown e), s)"
proof -
  have f: "assets_findOne V i s = (Inl (thrown e), s)" "assets_findFungible V i s = (Inl (thrown e), s)"
    using assms(2,3) by (simp_all add: assets_findOne_def assets_findFungible_def rethrow_sdk_def eff_simps)
  have "on_asset V i params k s = (Inl (thrown e), s)" "on_fungible V i params k' s = (Inl (thrown e), s)"
    "setDocuments V i params s = (Inl (thrown e), s)" for k k'
    using assms(1) f by (simp_all add: on_asset_def on_fungible_def setDocuments_def andThen_def eff_simps)
  then show ?thesis using assms(4) unfolding asset_commands_def list.set insert_iff empty_iff
    by (auto simp: command_defs)
qed

section \<open>Properties\<close>

text \<open>
  commands on an asset. Each of the sixteen commands runs at most one transaction and none in a dry run, an offline request or a
  queued request; when the SDK does not find the asset, the command fails with the translated error and leaves everything as it was: nothing is prepared, subscribed, queued or
  signed.
\<close>

theorem asset_commands_safe:
  assumes "cmd \<in> set asset_commands" and "cmd V i params s = (r, s')"
  shows "(\<exists>cs. gw_calls s' = gw_calls s @ cs \<and> length (runs cs) \<le> 1
      \<and> (\<forall>options args. extractTxOptions params = Inr (options, args) \<and> op_processMode options \<in> {DryRun, OfflineMode, AMQP}
           \<longrightarrow> runs cs = []))
    \<and> (\<forall>options args e. extractTxOptions params = Inr (options, args)
          \<and> api_getAsset (sv_api V) (asset_ref (sv_validators V) i) = Inl e
          \<and> api_getFungibleAsset (sv_api V) (asset_ref (sv_validators V) i) = Inl e
         \<longrightarrow> r = Inl (thrown e) \<and> s' = s)"
proof
  obtain cs where "gw_calls s' = gw_calls s @ cs" "length (runs cs) \<le> 1
      \<and> (\<forall>options args. extractTxOptions params = Inr (options, args) \<and> op_processMode options \<in> {DryRun, OfflineMode, AMQP}
           \<longrightarrow> runs cs = [])"
    by (rule makesE [OF touches_commands [OF assms(1), unfolded touches_def] assms(2)])
  then show "\<exists>cs. gw_calls s' = gw_calls s @ cs \<and> length (runs cs) \<le> 1
      \<and> (\<forall>options args. extractTxOptions params = Inr (options, args) \<and> op_processMode options \<in> {DryRun, OfflineMode, AMQP}
           \<longrightarrow> runs cs = [])" by blast
  show "\<forall>options args e. extractTxOptions params = Inr (options, args)
          \<and> api_getAsset (sv_api V) (asset_ref (sv_validators V) i) = Inl e
          \<and> api_getFungibleAsset (sv_api V) (asset_ref (sv_validators V) i) = Inl e
         \<longrightarrow> r = Inl (thrown e) \<and> s' = s"
    using lookup_fails [OF _ _ _ assms(1)] assms(2) by fastforce
qed

text \<open>How a restriction of the chain is sent back, and how a restriction of the request is sent.\<close>

fun sent_back :: "transfer_restriction \<Rightarrow> restriction \<Rightarrow> bool" where
  "sent_back (ActiveCount n) r \<longleftrightarrow> r = CountInput n"
| "sent_back (ActivePercentage p) r \<longleftrightarrow> r = PercentageInput p"
| "sent_back (ActiveClaimCount v) r \<longleftrightarrow> r = ClaimCountInput v"
| "sent_back (ActiveClaimPercentage v) r \<longleftrightarrow> r = ClaimPercentageInput v"

definition requested_claim :: "polymesh_api \<Rightarrow> 'max claim_restriction_dto \<Rightarrow> 'max claim_value \<Rightarrow> bool" where
  "requested_claim A d v \<longleftrightarrow> cv_min v = cd_min d \<and> cv_max v = cd_max d \<and> cv_claim v = cd_claim d \<and> supported_claim (cd_claim d)
     \<and> api_getIdentity A (cd_issuer d) = Inr (cv_issuer v)"

fun requested :: "polymesh_api \<Rightarrow> restriction_dto \<Rightarrow> restriction \<Rightarrow> bool" where
  "requested A (CountDto n) r \<longleftrightarrow> r = CountInput n"
| "requested A (PercentageDto p) r \<longleftrightarrow> r = PercentageInput p"
| "requested A (ClaimCountDto d) r \<longleftrightarrow> (\<exists>v. r = ClaimCountInput v \<and> requested_claim A d v)"
| "requested A (ClaimPercentageDto d) r \<longleftrightarrow> (\<exists>v. r = ClaimPercentageInput v \<and> requested_claim A d v)"
| "requested A (OtherDto t) r \<longleftrightarrow> False"

lemma sent_back_normalized: "list_all2 sent_back current (normalizeExistingRestrictions current)"
  by (induction current) (auto simp: normalizeExistingRestrictions_def split: transfer_restriction.split)


lemma sent_back_set: "(\<exists>er \<in> set current. sent_back er x) \<longleftrightarrow> x \<in> set (normalizeExistingRestrictions current)"
proof -
  have "sent_back er x \<longleftrightarrow> x = (case er of ActiveCount v \<Rightarrow> CountInput v | ActivePercentage v \<Rightarrow> PercentageInput v
      | ActiveClaimCount v \<Rightarrow> ClaimCountInput v | ActiveClaimPercentage v \<Rightarrow> ClaimPercentageInput v)" for er
    by (cases er) simp_all
  then show ?thesis by (auto simp: normalizeExistingRestrictions_def)
qed

lemma requested_claim_input: "requested_claim A d v \<Longrightarrow> claim_input (identities_findOne A) d = Inr v"
  by (cases "cd_claim d") (auto simp: requested_claim_def claim_input_def identities_findOne_def rethrow_sdk_def)

lemma requested_restriction: "requested A d r \<Longrightarrow> toRestriction (identities_findOne A) d = Inr r"
  by (cases d) (auto dest: requested_claim_input)

lemma requested_restrictions:
  "list_all2 (requested A) args new \<Longrightarrow> transferRestrictionsDtoToRestrictions args (identities_findOne A) = Inr new"
  by (induction rule: list_all2_induct) (simp_all add: transferRestrictionsDtoToRestrictions_def requested_restriction)

text \<open>
  C35: adding transfer restrictions. When the restrictions of the request are the restrictions \<open>new\<close>, their issuers found and their claims
  supported, then adding them either fails, with everything as it was, because one is the same as a restriction the chain already
  has (\<open>restriction_sameness\<close>), or submits exactly the existing restrictions, each with the type and the values the chain reports, followed by the new
  ones. New ones that are the same among themselves are not detected.
\<close>

theorem restrictions_added:
  assumes "extractTxOptions params = Inr (options, args)"
    and "api_getFungibleAsset (sv_api V) (asset_ref (sv_validators V) i) = Inr asset"
    and "fa_getRestrictions asset = Inr current"
    and "list_all2 (requested (sv_api V)) args new"
  shows "if \<exists>nr \<in> set new. \<exists>er \<in> set current. \<exists>x. sent_back er x \<and> key_of x = key_of nr \<and> proper nr
    then addTransferRestrictions V i params s = (Inl (AppErr (appValidationError ''One or more transfer restrictions already exist'')), s)
    else \<exists>existing. addTransferRestrictions V i params s = submit_in V (fa_setRestrictions asset) (existing @ new) options s
       \<and> list_all2 sent_back current existing
       \<and> (sorted_wrt (\<lambda>a b. \<not> isSameRestriction a b) existing \<and> sorted_wrt (\<lambda>a b. \<not> isSameRestriction a b) new
          \<longrightarrow> sorted_wrt (\<lambda>a b. \<not> isSameRestriction a b) (existing @ new))"
proof -
  let ?cur = "normalizeExistingRestrictions current"
  let ?dups = "filter (\<lambda>nr. list_ex (\<lambda>er. isSameRestriction er nr) ?cur) new"
  have "?dups \<noteq> [] \<longleftrightarrow> (\<exists>nr \<in> set new. \<exists>x \<in> set ?cur. key_of x = key_of nr \<and> proper nr)"
    by (auto simp: filter_empty_conv list_ex_iff isSameRestriction_iff dest: proper_key)
  then have dups: "?dups \<noteq> [] \<longleftrightarrow> (\<exists>nr \<in> set new. \<exists>er \<in> set current. \<exists>x. sent_back er x \<and> key_of x = key_of nr \<and> proper nr)"
    using sent_back_set [of current] by blast
  have run: "addTransferRestrictions V i params s =
      (if ?dups \<noteq> [] then throw (AppErr (appValidationError ''One or more transfer restrictions already exist''))
       else submit_in V (fa_setRestrictions asset) (?cur @ new) options) s"
    using assms(1-3) requested_restrictions [OF assms(4)]
    by (simp add: addTransferRestrictions_def on_fungible_def assets_findFungible_def rethrow_sdk_def andThen_def eff_simps Let_def)
  show ?thesis
  proof (cases "?dups = []")
    case False
    then show ?thesis using dups run by (simp add: eff_simps)
  next
    case True
    have "sorted_wrt (\<lambda>a b. \<not> isSameRestriction a b) (?cur @ new)"
      if "sorted_wrt (\<lambda>a b. \<not> isSameRestriction a b) ?cur" "sorted_wrt (\<lambda>a b. \<not> isSameRestriction a b) new"
      using that True by (auto simp: sorted_wrt_append filter_empty_conv list_ex_iff)
    with True dups run sent_back_normalized [of current] show ?thesis by (auto intro!: exI [of _ ?cur])
  qed
qed

section \<open>Witnesses\<close>

definition demo_op :: "('args, js_value) sdk_method" where
  "demo_op = \<lparr>m_noArgs = False, m_call = (\<lambda>a po. Inl (PolymeshErr ValidationError ''bad''))\<rparr>"

definition demo_asset :: fungible_asset where
  "demo_asset = \<lparr>as_id = ''0xaa'', as_documents_get = (\<lambda>n st. Inr JNull), as_documents_set = demo_op, as_setVenueFiltering = demo_op,
     as_getVenueFilteringDetails = Inr \<lparr>vf_isEnabled = False, vf_allowedVenues = []\<rparr>, as_transferOwnership = demo_op,
     as_freeze = demo_op, as_unfreeze = demo_op, as_getRequiredMediators = Inr [], as_addRequiredMediators = demo_op,
     as_removeRequiredMediators = demo_op, as_preApprove = demo_op, as_removePreApproval = demo_op, as_linkTicker = demo_op,
     as_unlinkTicker = demo_op, fa_assetHolders_get = (\<lambda>n st. Inr JNull), fa_issue = demo_op, fa_redeem = demo_op,
     fa_controllerTransfer = demo_op, fa_getOperationHistory = Inr JNull, fa_getRestrictions = Inr [ActiveCount (BN 7)],
     fa_getValues = Inr JNull, fa_setRestrictions = demo_op, fa_getStats = Inr JNull, fa_setStats = demo_op\<rparr>"

definition demo_api :: polymesh_api where
  "demo_api = \<lparr>api_getAsset = (\<lambda>r. if r = ByTicker ''TICK'' then Inr (asset.truncate demo_asset) else Inl (PolymeshErr DataUnavailable ''no asset'')),
     api_getFungibleAsset = (\<lambda>r. if r = ByTicker ''TICK'' then Inr demo_asset else Inl (PolymeshErr DataUnavailable ''no asset'')),
     api_isIdentityValid = (\<lambda>d. Inr True), api_getAssets = (\<lambda>d. Inr (JArray [])), api_createAsset = demo_op,
     api_getIdentity = (\<lambda>d. Inr \<lparr>idn_did = d\<rparr>)\<rparr>"

definition demo_env ::
    "(local_subs, local_notifs, list_registry, offline_tx keyed_store, offline_message offline_event keyed_store) service_env" where
  "demo_env = \<lparr>sv_gateway = demo_gateway_deps, sv_uuid = ''uuid'', sv_seen = Webhook_Properties.demo_tx,
     sv_validators = demo_validators, sv_bignumber = demo_bignumber, sv_api = demo_api\<rparr>"

definition demo_request :: "'args \<Rightarrow> 'args transaction_base" where
  "demo_request args = \<lparr>tb_options = Some (demo_options SubmitMode), tb_signer = None, tb_webhookUrl = None, tb_dryRun = None, tb_args = args\<rparr>"

lemma demo_request_options: "extractTxOptions (demo_request args) = Inr (demo_options SubmitMode, args)"
  by (simp add: extractTxOptions_def deprecatedParams_def demo_request_def)

lemma demo_lookup:
  "asset_ref demo_validators ''NONE'' = ByTicker ''NONE''" "asset_ref demo_validators ''TICK'' = ByTicker ''TICK''"
  by (simp_all add: asset_ref_def isAssetId_def demo_validators_def)

theorem asset_commands_safe_witness:
  "freeze demo_env ''NONE'' (demo_request JNull) demo_gateway
     = (Inl (AppErr (appNotFoundError ''no asset'' '''')), demo_gateway)"
proof -
  obtain r s' where run: "freeze demo_env ''NONE'' (demo_request JNull) demo_gateway = (r, s')" by (cases "freeze demo_env ''NONE'' (demo_request JNull) demo_gateway")
  have "freeze \<in> set asset_commands" by (simp add: asset_commands_def)
  from asset_commands_safe [OF this run, THEN conjunct2, rule_format, of "demo_options SubmitMode" JNull "PolymeshErr DataUnavailable ''no asset''"]
  have "r = Inl (thrown (PolymeshErr DataUnavailable ''no asset'')) \<and> s' = demo_gateway"
    by (simp add: demo_request_options demo_env_def demo_api_def demo_lookup)
  with run show ?thesis by (simp add: thrown_def)
qed

theorem restrictions_added_witness:
  "addTransferRestrictions demo_env ''TICK'' (demo_request [CountDto (BN 7)]) demo_gateway
     = (Inl (AppErr (appValidationError ''One or more transfer restrictions already exist'')), demo_gateway)
   \<and> addTransferRestrictions demo_env ''TICK'' (demo_request [PercentageDto (BN 5)]) demo_gateway
        = submit_in demo_env demo_op [CountInput (BN 7), PercentageInput (BN 5)] (demo_options SubmitMode) demo_gateway"
proof -
  have found: "api_getFungibleAsset (sv_api demo_env) (asset_ref (sv_validators demo_env) ''TICK'') = Inr demo_asset"
    "fa_getRestrictions demo_asset = Inr [ActiveCount (BN 7)]" "fa_setRestrictions demo_asset = demo_op"
    by (simp_all add: demo_env_def demo_api_def demo_lookup demo_asset_def)
  have new: "list_all2 (requested (sv_api demo_env)) [CountDto (BN 7)] [CountInput (BN 7)]"
    "list_all2 (requested (sv_api demo_env)) [PercentageDto (BN 5)] [PercentageInput (BN 5)]"
    by simp_all
  show ?thesis
    using restrictions_added [OF demo_request_options found(1,2) new(1), of demo_gateway]
      restrictions_added [OF demo_request_options found(1,2) new(2), of demo_gateway] found(3)
    by (auto simp: list_all2_Cons1)
qed

end
