(* ===== verification/Identities.thy ===== *)
theory Identities
  imports Assets
begin

text \<open>
  \<open>IdentitiesService\<close>, \<open>AccountsService\<close> and \<open>AuthorizationsService\<close>, and the classes of permissions of a request
  with what they are turned into (\<open>identities/dto\<close>). The entities of the SDK are records of what their methods answer, as in
  \<open>Assets\<close>.
\<close>

section \<open>Permissions of a request\<close>

fun portfolio_of_dto :: "js_value \<Rightarrow> js_value result" where
  "portfolio_of_dto (JInstance c es) = (case (field (JInstance c es) ''did'', field (JInstance c es) ''id'') of
      (JString did, JBig n) \<Rightarrow> Inr (toPortfolioLike did n)
    | _ \<Rightarrow> Inl js_type_error)"
| "portfolio_of_dto _ = Inl js_type_error"

fun toAssetPermissions :: "js_value \<Rightarrow> js_value result" where
  "toAssetPermissions (JInstance c es) = Inr (JObject
     [(''values'', field (JInstance c es) ''values''), (''type'', field (JInstance c es) ''type'')])"
| "toAssetPermissions _ = Inl js_type_error"

fun toPortfolioPermissions :: "js_value \<Rightarrow> js_value result" where
  "toPortfolioPermissions (JInstance c es) = (case field (JInstance c es) ''values'' of
      JArray vs \<Rightarrow> bindr (sequence (map portfolio_of_dto vs)) (\<lambda>ps.
        Inr (JObject [(''values'', JArray ps), (''type'', field (JInstance c es) ''type'')]))
    | _ \<Rightarrow> Inl js_type_error)"
| "toPortfolioPermissions _ = Inl js_type_error"

text \<open>\<open>v === null ? null : v?.f()\<close>\<close>

definition null_or :: "(js_value \<Rightarrow> js_value result) \<Rightarrow> js_value \<Rightarrow> js_value result" where
  "null_or f v = (if given v then f v else Inr v)"

definition toPermissionsLike :: "js_value \<Rightarrow> js_value result" where
  "toPermissionsLike this =
     bindr (null_or toAssetPermissions (field this ''assets'')) (\<lambda>assets.
     bindr (null_or toPortfolioPermissions (field this ''portfolios'')) (\<lambda>portfolios.
     let permissionsLike = [(''assets'', assets), (''portfolios'', portfolios)];
         transactions = field this ''transactions''; transactionGroups = field this ''transactionGroups''
     in if transactions = JNull then Inr (JObject (permissionsLike @ [(''transactions'', JNull)]))
        else if truthy transactions
        then bindr (toTransactionPermissions transactions) (\<lambda>t. Inr (JObject (permissionsLike @ [(''transactions'', t)])))
        else if truthy transactionGroups
        then Inr (JObject (permissionsLike @ [(''transactionGroups'', transactionGroups)]))
        else Inr (JObject permissionsLike)))"

text \<open>\<open>permissions?.toPermissionsLike()\<close>\<close>

definition optional_permissions :: "js_value \<Rightarrow> js_value result" where
  "optional_permissions v = (if given v then (case v of JInstance c es \<Rightarrow> toPermissionsLike v | _ \<Rightarrow> Inl js_type_error)
     else Inr JUndefined)"

section \<open>The SDK\<close>

record auth_request =
  ar_authId :: big_number
  ar_accept :: sdk_op
  ar_remove :: sdk_op

record portfolio =
  pf_id :: "big_number option"
  pf_owner :: string
  pf_moveFunds :: sdk_op
  pf_modifyName :: sdk_op
  pf_setCustodian :: sdk_op
  pf_quitCustody :: sdk_op
  pf_getTransactionHistory :: "js_value \<Rightarrow> js_value result"
  pf_createdAt :: "js_value result"
  pf_getAssetBalances :: "js_value list result"
  pf_getCustodian :: "string result"
  pf_getName :: "string result"

record identity =
  ie_did :: string
  ie_getTrustingAssets :: "js_value result"
  ie_getHeldAssets :: "js_value \<Rightarrow> js_value result"
  ie_preApprovedAssets :: "js_value \<Rightarrow> js_value result"
  ie_isAssetPreApproved :: "string \<Rightarrow> bool result"
  ie_getPendingDistributions :: "js_value result"
  ie_assetPermissions_get :: "js_value result"
  ie_getInstructions :: "js_value result"
  ie_getVenues :: "js_value result"
  ie_authorizations_getReceived :: "js_value \<Rightarrow> js_value result"
  ie_authorizations_getSent :: "js_value result"
  ie_authorizations_getOne :: "big_number \<Rightarrow> auth_request result"
  ie_getPortfolios :: "js_value result"
  ie_getPortfolio :: "big_number option \<Rightarrow> portfolio result"
  ie_portfolios_delete :: sdk_op
  ie_getCustodiedPortfolios :: "js_value \<Rightarrow> js_value result"

record account =
  ac_address :: string
  ac_getIdentity :: "identity option result"
  ac_getTransactionHistory :: "js_value \<Rightarrow> js_value result"
  ac_getPermissions :: "js_value result"
  ac_getMultiSig :: "js_value result option result"
  ac_getOffChainReceipts :: "js_value result"
  ac_authorizations_getOne :: "big_number \<Rightarrow> auth_request result"

record identity_api =
  ia_getIdentity :: "string \<Rightarrow> identity result"
  ia_getAccount :: "string \<Rightarrow> account result"
  ia_getAccountBalance :: "string \<Rightarrow> js_value result"
  ia_inviteAccount :: sdk_op
  ia_registerIdentity :: sdk_op
  ia_rotatePrimaryKey :: sdk_op
  ia_attestPrimaryKeyRotation :: sdk_op
  ia_createPortfolio :: sdk_op
  ia_transferPolyx :: sdk_op
  ia_freezeSecondaryAccounts :: sdk_op
  ia_unfreezeSecondaryAccounts :: sdk_op
  ia_revokePermissions :: sdk_op
  ia_modifyPermissions :: sdk_op

type_synonym ('s, 'n, 'r, 't, 'e, 'args) command =
  "('s, 'n, 'r, 't, 'e) service_env \<Rightarrow> identity_api \<Rightarrow> 'args transaction_base \<Rightarrow> ('s, 'n, 'r, 't, 'e, js_value submit_response) service"

text \<open>A command that reads the options and submits a method of the SDK with arguments made from the request.\<close>

definition submit_request ::
    "('s, 'n, 'r, 't, 'e) service_env \<Rightarrow> 'args transaction_base \<Rightarrow> sdk_op \<Rightarrow> ('args \<Rightarrow> js_value result) \<Rightarrow>
     ('s, 'n, 'r, 't, 'e, js_value submit_response) service" where
  "submit_request V params mth f =
     andThen (lift_result (extractTxOptions params)) (\<lambda>(options, args).
     andThen (lift_result (f args)) (\<lambda>a. submit_in V mth a options))"

section \<open>Identities\<close>

definition identity_findOne :: "identity_api \<Rightarrow> string \<Rightarrow> ('s, 'n, 'r, 't, 'e, identity) service" where
  "identity_findOne A did = lift_result (rethrow_sdk (ia_getIdentity A did))"

definition findTrustingAssets :: "identity_api \<Rightarrow> string \<Rightarrow> ('s, 'n, 'r, 't, 'e, js_value) service" where
  "findTrustingAssets A did = andThen (identity_findOne A did) (\<lambda>identity. lift_result (ie_getTrustingAssets identity))"

definition findHeldAssets :: "identity_api \<Rightarrow> string \<Rightarrow> js_value \<Rightarrow> js_value \<Rightarrow> ('s, 'n, 'r, 't, 'e, js_value) service" where
  "findHeldAssets A did pageSize start = andThen (identity_findOne A did) (\<lambda>identity.
     lift_result (ie_getHeldAssets identity (JObject [(''size'', pageSize), (''start'', start)])))"

definition addSecondaryAccount :: "('s, 'n, 'r, 't, 'e, js_value) command" where
  "addSecondaryAccount V A params = submit_request V params (ia_inviteAccount A) (\<lambda>args.
     bindr (optional_permissions (field args ''permissions'')) (\<lambda>permissions.
     Inr (JObject [(''targetAccount'', field args ''secondaryAccount''), (''permissions'', permissions), (''expiry'', field args ''expiry'')])))"

definition secondary_account :: "js_value \<Rightarrow> js_value result" where
  "secondary_account v = (if \<not> given v then Inl js_type_error else
     bindr (optional_permissions (field v ''permissions'')) (\<lambda>permissions.
     Inr (JObject [(''secondaryAccount'', field v ''secondaryAccount''), (''permissions'', permissions)])))"

definition registerDid :: "('s, 'n, 'r, 't, 'e, js_value) command" where
  "registerDid V A params = submit_request V params (ia_registerIdentity A) (\<lambda>args.
     bindr (case field args ''secondaryAccounts'' of
              JArray vs \<Rightarrow> bindr (sequence (map secondary_account vs)) (\<lambda>rs. Inr (JArray rs))
            | v \<Rightarrow> if given v then Inl js_type_error else Inr JUndefined) (\<lambda>secondaryAccounts.
     Inr (JObject [(''targetAccount'', field args ''targetAccount''), (''secondaryAccounts'', secondaryAccounts),
       (''createCdd'', field args ''createCdd''), (''expiry'', field args ''expiry'')])))"

definition rotatePrimaryKey :: "('s, 'n, 'r, 't, 'e, js_value) command" where
  "rotatePrimaryKey V A params = submit_request V params (ia_rotatePrimaryKey A) Inr"

definition attestPrimaryKeyRotation :: "string \<Rightarrow> ('s, 'n, 'r, 't, 'e, js_value) command" where
  "attestPrimaryKeyRotation did V A params = andThen (identity_findOne A did) (\<lambda>identity.
     submit_request V params (ia_attestPrimaryKeyRotation A) (\<lambda>args. Inr (JObject
       [(''identity'', JEntity (JString (ie_did identity))), (''targetAccount'', field args ''targetAccount''), (''expiry'', field args ''expiry'')])))"

definition getPreApprovedAssets :: "identity_api \<Rightarrow> string \<Rightarrow> js_value \<Rightarrow> js_value \<Rightarrow> ('s, 'n, 'r, 't, 'e, js_value) service" where
  "getPreApprovedAssets A did pageSize start = andThen (identity_findOne A did) (\<lambda>identity.
     lift_result (ie_preApprovedAssets identity (JObject [(''size'', pageSize), (''start'', start)])))"

definition isAssetPreApproved :: "identity_api \<Rightarrow> string \<Rightarrow> string \<Rightarrow> ('s, 'n, 'r, 't, 'e, bool) service" where
  "isAssetPreApproved A did asset = andThen (identity_findOne A did) (\<lambda>identity. lift_result (ie_isAssetPreApproved identity asset))"

definition getPendingDistributions :: "identity_api \<Rightarrow> string \<Rightarrow> ('s, 'n, 'r, 't, 'e, js_value) service" where
  "getPendingDistributions A did = andThen (identity_findOne A did) (\<lambda>identity. lift_result (ie_getPendingDistributions identity))"

definition findDidExternalAgentOf :: "identity_api \<Rightarrow> string \<Rightarrow> ('s, 'n, 'r, 't, 'e, js_value) service" where
  "findDidExternalAgentOf A did = andThen (identity_findOne A did) (\<lambda>identity. lift_result (ie_assetPermissions_get identity))"

section \<open>Accounts\<close>

definition accounts_findOne :: "identity_api \<Rightarrow> string \<Rightarrow> ('s, 'n, 'r, 't, 'e, account) service" where
  "accounts_findOne A address = lift_result (rethrow_sdk (ia_getAccount A address))"

definition accounts_getIdentity :: "identity_api \<Rightarrow> string \<Rightarrow> ('s, 'n, 'r, 't, 'e, identity option) service" where
  "accounts_getIdentity A address = andThen (accounts_findOne A address) (\<lambda>account. lift_result (ac_getIdentity account))"

definition getAccountBalance :: "identity_api \<Rightarrow> string \<Rightarrow> ('s, 'n, 'r, 't, 'e, js_value) service" where
  "getAccountBalance A address = lift_result (ia_getAccountBalance A address)"

definition transferPolyx :: "('s, 'n, 'r, 't, 'e, js_value) command" where
  "transferPolyx V A params = submit_request V params (ia_transferPolyx A) Inr"

definition accounts_getTransactionHistory :: "identity_api \<Rightarrow> string \<Rightarrow> js_value \<Rightarrow> ('s, 'n, 'r, 't, 'e, js_value) service" where
  "accounts_getTransactionHistory A address filters =
     andThen (accounts_findOne A address) (\<lambda>account. lift_result (ac_getTransactionHistory account filters))"

definition accounts_getPermissions :: "identity_api \<Rightarrow> string \<Rightarrow> ('s, 'n, 'r, 't, 'e, js_value) service" where
  "accounts_getPermissions A address =
     andThen (accounts_findOne A address) (\<lambda>account. lift_result (rethrow_sdk (ac_getPermissions account)))"

definition freezeSecondaryAccounts :: "('s, 'n, 'r, 't, 'e, js_value) command" where
  "freezeSecondaryAccounts V A params = submit_request V params (ia_freezeSecondaryAccounts A) (\<lambda>_. Inr JUndefined)"

definition unfreezeSecondaryAccounts :: "('s, 'n, 'r, 't, 'e, js_value) command" where
  "unfreezeSecondaryAccounts V A params = submit_request V params (ia_unfreezeSecondaryAccounts A) (\<lambda>_. Inr JUndefined)"

definition revokePermissions :: "('s, 'n, 'r, 't, 'e, js_value) command" where
  "revokePermissions V A params = submit_request V params (ia_revokePermissions A) Inr"

definition modified_account :: "js_value \<Rightarrow> js_value result" where
  "modified_account v = (case field v ''permissions'' of
      JInstance c es \<Rightarrow> bindr (toPermissionsLike (JInstance c es)) (\<lambda>permissions.
        Inr (JObject [(''account'', field v ''secondaryAccount''), (''permissions'', permissions)]))
    | _ \<Rightarrow> Inl js_type_error)"

definition modifyPermissions :: "('s, 'n, 'r, 't, 'e, js_value) command" where
  "modifyPermissions V A params = submit_request V params (ia_modifyPermissions A) (\<lambda>args.
     case field args ''secondaryAccounts'' of
       JArray vs \<Rightarrow> bindr (sequence (map modified_account vs)) (\<lambda>rs. Inr (JObject [(''secondaryAccounts'', JArray rs)]))
     | _ \<Rightarrow> Inl js_type_error)"

definition getMultiSigDetails :: "js_value result option \<Rightarrow> js_value result" where
  "getMultiSigDetails multiSig = (case multiSig of None \<Rightarrow> Inr JNull | Some details \<Rightarrow> details)"

definition accounts_getDetails :: "identity_api \<Rightarrow> string \<Rightarrow> ('s, 'n, 'r, 't, 'e, identity option \<times> js_value) service" where
  "accounts_getDetails A address = andThen (accounts_findOne A address) (\<lambda>account.
     andThen (lift_result (ac_getIdentity account)) (\<lambda>identity.
     andThen (lift_result (ac_getMultiSig account)) (\<lambda>multiSig.
     andThen (lift_result (getMultiSigDetails multiSig)) (\<lambda>multiSigDetails. ret (identity, multiSigDetails)))))"

definition fetchOffChainReceipts :: "identity_api \<Rightarrow> string \<Rightarrow> ('s, 'n, 'r, 't, 'e, js_value) service" where
  "fetchOffChainReceipts A address = andThen (accounts_findOne A address) (\<lambda>account. lift_result (ac_getOffChainReceipts account))"

section \<open>Authorizations\<close>

definition findPendingByDid :: "identity_api \<Rightarrow> string \<Rightarrow> js_value \<Rightarrow> js_value \<Rightarrow> ('s, 'n, 'r, 't, 'e, js_value) service" where
  "findPendingByDid A did includeExpired ty = andThen (identity_findOne A did) (\<lambda>identity.
     lift_result (ie_authorizations_getReceived identity (JObject [(''includeExpired'', includeExpired), (''type'', ty)])))"

definition findIssuedByDid :: "identity_api \<Rightarrow> string \<Rightarrow> ('s, 'n, 'r, 't, 'e, js_value) service" where
  "findIssuedByDid A did = andThen (identity_findOne A did) (\<lambda>identity. lift_result (ie_authorizations_getSent identity))"

text \<open>\<open>getOne\<close> is the method of the signatory, an identity or an account.\<close>

definition authorizations_findOne :: "(big_number \<Rightarrow> auth_request result) \<Rightarrow> big_number \<Rightarrow> ('s, 'n, 'r, 't, 'e, auth_request) service" where
  "authorizations_findOne getOne i = lift_result (rethrow_sdk (getOne i))"

definition findOneByDid :: "identity_api \<Rightarrow> string \<Rightarrow> big_number \<Rightarrow> ('s, 'n, 'r, 't, 'e, auth_request) service" where
  "findOneByDid A did i = andThen (identity_findOne A did) (\<lambda>identity.
     authorizations_findOne (ie_authorizations_getOne identity) i)"

definition is_not_found :: "exn \<Rightarrow> bool" where
  "is_not_found e = (case e of AppErr a \<Rightarrow> code a = NotFound | _ \<Rightarrow> False)"

definition getAuthRequest :: "identity_api \<Rightarrow> string \<Rightarrow> big_number \<Rightarrow> ('s, 'n, 'r, 't, 'e, auth_request) service" where
  "getAuthRequest A address i = andThen (accounts_findOne A address) (\<lambda>account.
     andThen (lift_result (ac_getIdentity account)) (\<lambda>identity.
     andThen (case identity of
         Some d \<Rightarrow> tryCatch (andThen (authorizations_findOne (ie_authorizations_getOne d) i) (\<lambda>r. ret (Some r)))
                    (\<lambda>e. if is_not_found e then ret None else throw e)
       | None \<Rightarrow> ret None) (\<lambda>authRequest.
     case authRequest of
       Some r \<Rightarrow> ret r
     | None \<Rightarrow> authorizations_findOne (ac_authorizations_getOne account) i)))"

text \<open>The address of a signing account, as \<open>getAuthRequest\<close> is given it.\<close>

definition on_auth_request ::
    "('s, 'n, 'r, 't, 'e) service_env \<Rightarrow> identity_api \<Rightarrow> 'args transaction_base \<Rightarrow> big_number \<Rightarrow> (auth_request \<Rightarrow> sdk_op) \<Rightarrow>
     ('s, 'n, 'r, 't, 'e, js_value submit_response) service" where
  "on_auth_request V A params i mth =
     andThen (lift_result (extractTxOptions params)) (\<lambda>(options, _).
     andThen (getSigningAccount (gd_signing (sv_gateway V)) (od_manager (gd_offline (sv_gateway V))) (op_signer options)) (\<lambda>account.
     andThen (case account of Address address \<Rightarrow> getAuthRequest A address i | _ \<Rightarrow> throw (IllTyped ''address'')) (\<lambda>request.
     submit_in V (mth request) (JObject []) options)))"

definition authorizations_accept :: "big_number \<Rightarrow> ('s, 'n, 'r, 't, 'e, 'args) command" where
  "authorizations_accept i V A params = on_auth_request V A params i ar_accept"

definition authorizations_remove :: "big_number \<Rightarrow> ('s, 'n, 'r, 't, 'e, 'args) command" where
  "authorizations_remove i V A params = on_auth_request V A params i ar_remove"

end
