(* ===== verification/Portfolios.thy ===== *)
theory Portfolios
  imports Identities
begin

text \<open>
  \<open>PortfoliosService\<close> (\<open>portfolios/portfolios.service.ts\<close>), the models made of a portfolio (\<open>portfolios.util.ts\<close>) and
  \<open>SettlementsService\<close> with \<open>settlements.util.ts\<close> and the legs of a request (\<open>settlements/dto\<close>).
\<close>

section \<open>Portfolios\<close>

definition portfolios_findAllByOwner :: "identity_api \<Rightarrow> string \<Rightarrow> ('s, 'n, 'r, 't, 'e, js_value) service" where
  "portfolios_findAllByOwner A did = andThen (identity_findOne A did) (\<lambda>identity. lift_result (ie_getPortfolios identity))"

definition portfolios_findOne :: "identity_api \<Rightarrow> string \<Rightarrow> big_number option \<Rightarrow> ('s, 'n, 'r, 't, 'e, portfolio) service" where
  "portfolios_findOne A did portfolioId = andThen (identity_findOne A did) (\<lambda>identity.
     if (case portfolioId of Some n \<Rightarrow> bn_gt n (BN 0) | None \<Rightarrow> False)
     then lift_result (rethrow_sdk (ie_getPortfolio identity portfolioId))
     else lift_result (rethrow_sdk (ie_getPortfolio identity None)))"

definition big_or_undefined :: "big_number option \<Rightarrow> js_value" where
  "big_or_undefined n = (case n of Some i \<Rightarrow> JBig i | None \<Rightarrow> JUndefined)"

record movement_args =
  mv_from :: big_number
  mv_to :: big_number
  mv_items :: "js_value list"

definition movement_item :: "js_value \<Rightarrow> js_value" where
  "movement_item v = JObject [(''asset'', field v ''asset''), (''amount'', field v ''amount''), (''memo'', field v ''memo''), (''nfts'', field v ''nfts'')]"

definition moveAssets :: "string \<Rightarrow> ('s, 'n, 'r, 't, 'e, movement_args) command" where
  "moveAssets owner V A params =
     andThen (lift_result (extractTxOptions params)) (\<lambda>(options, args).
     andThen (portfolios_findOne A owner (toPortfolioId (mv_from args))) (\<lambda>fromPortfolio.
     submit_in V (pf_moveFunds fromPortfolio)
       (JObject [(''to'', big_or_undefined (toPortfolioId (mv_to args))), (''items'', JArray (map movement_item (mv_items args)))]) options))"

definition portfolios_createPortfolio :: "('s, 'n, 'r, 't, 'e, js_value) command" where
  "portfolios_createPortfolio V A params = submit_request V params (ia_createPortfolio A) Inr"

definition deletePortfolio :: "string \<Rightarrow> big_number \<Rightarrow> ('s, 'n, 'r, 't, 'e, 'args) command" where
  "deletePortfolio did i V A params = andThen (identity_findOne A did) (\<lambda>identity.
     submit_request V params (ie_portfolios_delete identity) (\<lambda>_. Inr (JObject [(''portfolio'', JBig i)])))"

definition getCustodiedPortfolios :: "identity_api \<Rightarrow> string \<Rightarrow> js_value \<Rightarrow> ('s, 'n, 'r, 't, 'e, js_value) service" where
  "getCustodiedPortfolios A did paginationOptions = andThen (identity_findOne A did) (\<lambda>identity.
     lift_result (ie_getCustodiedPortfolios identity paginationOptions))"

definition updatePortfolioName :: "string \<Rightarrow> big_number \<Rightarrow> ('s, 'n, 'r, 't, 'e, js_value) command" where
  "updatePortfolioName did i V A params =
     (if bn_lte i (BN 0) then throw (AppErr (appValidationError ''Default portfolio name cannot be modified''))
      else andThen (lift_result (extractTxOptions params)) (\<lambda>(options, args).
           andThen (portfolios_findOne A did (Some i)) (\<lambda>portfolio. submit_in V (pf_modifyName portfolio) args options)))"

definition setCustodian :: "string \<Rightarrow> big_number \<Rightarrow> ('s, 'n, 'r, 't, 'e, js_value) command" where
  "setCustodian did portfolioId V A params = andThen (portfolios_findOne A did (Some portfolioId)) (\<lambda>portfolio.
     submit_request V params (pf_setCustodian portfolio) (\<lambda>args. Inr (JObject
       [(''targetIdentity'', field args ''target''), (''expiry'', field args ''expiry'')])))"

definition portfolios_getTransactions ::
    "identity_api \<Rightarrow> string \<Rightarrow> big_number \<Rightarrow> js_value \<Rightarrow> js_value \<Rightarrow> ('s, 'n, 'r, 't, 'e, js_value) service" where
  "portfolios_getTransactions A did portfolioId account ticker = andThen (portfolios_findOne A did (Some portfolioId)) (\<lambda>portfolio.
     lift_result (pf_getTransactionHistory portfolio (JObject [(''account'', account), (''ticker'', ticker)])))"

definition quitCustody :: "string \<Rightarrow> big_number \<Rightarrow> ('s, 'n, 'r, 't, 'e, 'args) command" where
  "quitCustody did i V A params = andThen (portfolios_findOne A did (Some i)) (\<lambda>portfolio.
     submit_request V params (pf_quitCustody portfolio) (\<lambda>_. Inr (JObject [])))"

definition portfolios_createdAt :: "identity_api \<Rightarrow> string \<Rightarrow> big_number \<Rightarrow> ('s, 'n, 'r, 't, 'e, js_value) service" where
  "portfolios_createdAt A did portfolioId =
     (if bn_lte portfolioId (BN 0) then throw (AppErr (appValidationError ''Cannot get event details for Default Portfolio''))
      else andThen (portfolios_findOne A did (Some portfolioId)) (\<lambda>portfolio. lift_result (pf_createdAt portfolio)))"

text \<open>The model of a portfolio: the custodian is only shown when it is not the given identity.\<close>

record portfolio_model =
  pm_id :: "big_number option"
  pm_name :: string
  pm_assetBalances :: "js_value list"
  pm_owner :: string
  pm_custodian :: "string option"

definition asset_balance_model :: "js_value \<Rightarrow> js_value" where
  "asset_balance_model v = JInstance ''AssetBalanceModel'' [(''asset'', field v ''asset''), (''total'', field v ''total''),
     (''free'', field v ''free''), (''locked'', field v ''locked'')]"

definition createPortfolioModel :: "portfolio \<Rightarrow> string \<Rightarrow> portfolio_model result" where
  "createPortfolioModel portfolio did =
     bindr (pf_getAssetBalances portfolio) (\<lambda>assetBalances.
     bindr (pf_getCustodian portfolio) (\<lambda>custodian.
     bindr (if pf_id portfolio \<noteq> None then pf_getName portfolio else Inr ''default'') (\<lambda>name.
     Inr \<lparr>pm_id = pf_id portfolio, pm_name = name, pm_assetBalances = map asset_balance_model assetBalances,
          pm_owner = pf_owner portfolio, pm_custodian = (if custodian \<noteq> did then Some custodian else None)\<rparr>)))"

section \<open>Settlements\<close>

datatype leg_dto =
    OnChainLeg "big_number option" "big_number list option" "string \<times> big_number" "string \<times> big_number" string
  | OffChainLeg string string string big_number

definition portfolio_like :: "string \<times> big_number \<Rightarrow> js_value" where
  "portfolio_like p = toPortfolioLike (fst p) (snd p)"

fun toLeg :: "leg_dto \<Rightarrow> js_value result" where
  "toLeg (OnChainLeg (Some amount) nfts f t asset) = Inr (JObject [(''from'', portfolio_like f), (''to'', portfolio_like t),
     (''asset'', JString asset), (''amount'', JBig amount)])"
| "toLeg (OnChainLeg None (Some nfts) f t asset) = Inr (JObject [(''nfts'', JArray (map JBig nfts)), (''asset'', JString asset),
     (''from'', portfolio_like f), (''to'', portfolio_like t)])"
| "toLeg (OnChainLeg None None f t asset) = Inl (AppErr (appValidationError ''Either nfts/amount should be specific for a on-chain leg''))"
| "toLeg (OffChainLeg f t asset amount) = Inr (JObject [(''from'', JString f), (''to'', JString t), (''asset'', JString asset),
     (''offChainAmount'', JBig amount)])"

record venue =
  ve_details :: "js_value result"
  ve_getAllowedSigners :: "js_value result"
  ve_modify :: sdk_op
  ve_addSigners :: sdk_op
  ve_removeSigners :: sdk_op

record instruction =
  in_getAffirmations :: "js_value \<Rightarrow> js_value result"
  in_getOffChainAffirmations :: "js_value result"
  in_getOffChainAffirmationForLeg :: "big_number \<Rightarrow> js_value result"
  in_generateReceipt :: "js_value \<Rightarrow> js_value result"
  in_affirm :: sdk_op
  in_reject :: sdk_op
  in_executeManually :: sdk_op
  in_withdraw :: sdk_op
  in_affirmAsMediator :: sdk_op
  in_rejectAsMediator :: sdk_op
  in_withdrawAsMediator :: sdk_op

record settlements_api =
  sa_getInstruction :: "big_number \<Rightarrow> instruction result"
  sa_getVenue :: "big_number \<Rightarrow> venue result"
  sa_addInstruction :: sdk_op
  sa_createVenue :: sdk_op
  sa_canTransfer :: "asset \<Rightarrow> js_value \<Rightarrow> js_value result"

definition findGroupedInstructionsByDid :: "identity_api \<Rightarrow> string \<Rightarrow> ('s, 'n, 'r, 't, 'e, js_value) service" where
  "findGroupedInstructionsByDid A did = andThen (identity_findOne A did) (\<lambda>identity. lift_result (ie_getInstructions identity))"

definition findInstruction :: "settlements_api \<Rightarrow> big_number \<Rightarrow> ('s, 'n, 'r, 't, 'e, instruction) service" where
  "findInstruction S i = lift_result (rethrow_sdk (sa_getInstruction S i))"

definition findVenue :: "settlements_api \<Rightarrow> big_number \<Rightarrow> ('s, 'n, 'r, 't, 'e, venue) service" where
  "findVenue S i = lift_result (rethrow_sdk (sa_getVenue S i))"

record create_instruction_args =
  ci_rest :: "(string \<times> js_value) list"
  ci_legs :: "leg_dto list"

text \<open>\<open>{ ...args, legs, venueId }\<close>\<close>

definition instruction_params :: "create_instruction_args \<Rightarrow> big_number option \<Rightarrow> js_value result" where
  "instruction_params args venueId = bindr (sequence (map toLeg (ci_legs args))) (\<lambda>legs.
     Inr (JObject (put_property ''venueId'' (big_or_undefined venueId) (put_property ''legs'' (JArray legs) (ci_rest args)))))"

definition createInstruction ::
    "('s, 'n, 'r, 't, 'e) service_env \<Rightarrow> settlements_api \<Rightarrow> big_number option \<Rightarrow> create_instruction_args transaction_base \<Rightarrow>
     ('s, 'n, 'r, 't, 'e, js_value submit_response) service" where
  "createInstruction V S venueId params =
     andThen (lift_result (extractTxOptions params)) (\<lambda>(options, args).
     andThen (case venueId of Some v \<Rightarrow> andThen (findVenue S v) (\<lambda>_. ret ()) | None \<Rightarrow> ret ()) (\<lambda>_.
     andThen (lift_result (instruction_params args venueId)) (\<lambda>p. submit_in V (sa_addInstruction S) p options)))"

definition findVenuesByOwner :: "identity_api \<Rightarrow> string \<Rightarrow> ('s, 'n, 'r, 't, 'e, js_value) service" where
  "findVenuesByOwner A did = andThen (identity_findOne A did) (\<lambda>identity. lift_result (ie_getVenues identity))"

definition findVenueDetails :: "settlements_api \<Rightarrow> big_number \<Rightarrow> ('s, 'n, 'r, 't, 'e, js_value) service" where
  "findVenueDetails S i = andThen (findVenue S i) (\<lambda>venue. lift_result (ve_details venue))"

definition fetchAllowedSigners :: "settlements_api \<Rightarrow> big_number \<Rightarrow> ('s, 'n, 'r, 't, 'e, js_value) service" where
  "fetchAllowedSigners S i = andThen (findVenue S i) (\<lambda>venue. lift_result (ve_getAllowedSigners venue))"

definition findAffirmations :: "settlements_api \<Rightarrow> big_number \<Rightarrow> js_value \<Rightarrow> js_value \<Rightarrow> ('s, 'n, 'r, 't, 'e, js_value) service" where
  "findAffirmations S i pageSize start = andThen (findInstruction S i) (\<lambda>instruction.
     lift_result (in_getAffirmations instruction (JObject [(''size'', pageSize), (''start'', start)])))"

definition fetchOffChainAffirmations :: "settlements_api \<Rightarrow> big_number \<Rightarrow> ('s, 'n, 'r, 't, 'e, js_value) service" where
  "fetchOffChainAffirmations S i = andThen (findInstruction S i) (\<lambda>instruction. lift_result (in_getOffChainAffirmations instruction))"

definition fetchOffChainAffirmationForALeg :: "settlements_api \<Rightarrow> big_number \<Rightarrow> big_number \<Rightarrow> ('s, 'n, 'r, 't, 'e, js_value) service" where
  "fetchOffChainAffirmationForALeg S i legId = andThen (findInstruction S i) (\<lambda>instruction.
     lift_result (in_getOffChainAffirmationForLeg instruction legId))"

definition createVenue ::
    "('s, 'n, 'r, 't, 'e) service_env \<Rightarrow> settlements_api \<Rightarrow> js_value transaction_base \<Rightarrow> ('s, 'n, 'r, 't, 'e, js_value submit_response) service" where
  "createVenue V S params = submit_request V params (sa_createVenue S) Inr"

definition on_venue ::
    "('s, 'n, 'r, 't, 'e) service_env \<Rightarrow> settlements_api \<Rightarrow> big_number \<Rightarrow> 'args transaction_base \<Rightarrow> (venue \<Rightarrow> sdk_op) \<Rightarrow>
     ('args \<Rightarrow> js_value) \<Rightarrow> ('s, 'n, 'r, 't, 'e, js_value submit_response) service" where
  "on_venue V S i params mth f =
     andThen (lift_result (extractTxOptions params)) (\<lambda>(options, args).
     andThen (findVenue S i) (\<lambda>venue. submit_in V (mth venue) (f args) options))"

definition modifyVenue ::
    "('s, 'n, 'r, 't, 'e) service_env \<Rightarrow> settlements_api \<Rightarrow> big_number \<Rightarrow> js_value transaction_base \<Rightarrow>
     ('s, 'n, 'r, 't, 'e, js_value submit_response) service" where
  "modifyVenue V S venueId params = on_venue V S venueId params ve_modify (\<lambda>args. args)"

definition updateVenueSigners ::
    "('s, 'n, 'r, 't, 'e) service_env \<Rightarrow> settlements_api \<Rightarrow> big_number \<Rightarrow> js_value transaction_base \<Rightarrow> bool \<Rightarrow>
     ('s, 'n, 'r, 't, 'e, js_value submit_response) service" where
  "updateVenueSigners V S venueId params addSigners =
     on_venue V S venueId params (if addSigners then ve_addSigners else ve_removeSigners) (\<lambda>args. args)"

definition canTransfer ::
    "('s, 'n, 'r, 't, 'e) service_env \<Rightarrow> settlements_api \<Rightarrow> js_value \<Rightarrow> js_value \<Rightarrow> string \<Rightarrow> big_number option \<Rightarrow> big_number list option \<Rightarrow>
     ('s, 'n, 'r, 't, 'e, js_value) service" where
  "canTransfer V S from_p to_p ticker transferAmount transferNfts = andThen (assets_findOne V ticker) (\<lambda>assetDetails.
     let amount = (case transferAmount of Some a \<Rightarrow> a | None \<Rightarrow> BN 0); nfts = (case transferNfts of Some ns \<Rightarrow> ns | None \<Rightarrow> [])
     in lift_result (sa_canTransfer S assetDetails (JObject [(''from'', from_p), (''to'', to_p), (''amount'', JBig amount),
          (''nfts'', JArray (map JBig nfts))])))"

definition on_instruction ::
    "('s, 'n, 'r, 't, 'e) service_env \<Rightarrow> settlements_api \<Rightarrow> big_number \<Rightarrow> 'args transaction_base \<Rightarrow> (instruction \<Rightarrow> sdk_op) \<Rightarrow>
     (instruction \<Rightarrow> 'args \<Rightarrow> js_value result) \<Rightarrow> ('s, 'n, 'r, 't, 'e, js_value submit_response) service" where
  "on_instruction V S i params mth f =
     andThen (lift_result (extractTxOptions params)) (\<lambda>(options, args).
     andThen (findInstruction S i) (\<lambda>instruction.
     andThen (lift_result (f instruction args)) (\<lambda>a. submit_in V (mth instruction) a options)))"

text \<open>A receipt with a signature is taken as it is; otherwise the SDK generates one.\<close>

definition affirm_receipt :: "instruction \<Rightarrow> js_value \<Rightarrow> js_value result" where
  "affirm_receipt instruction receipt =
     (if \<not> given receipt \<or> \<not> given (field receipt ''signature'') then Inl js_type_error
      else if truthy (field (field receipt ''signature'') ''value'') then Inr receipt
      else in_generateReceipt instruction (JObject
        [(''legId'', field receipt ''legId''), (''uid'', field receipt ''uid''), (''signer'', field receipt ''signer''),
         (''signerKeyRingType'', field (field receipt ''signature'') ''type''), (''metadata'', field receipt ''metadata'')]))"

record affirm_args =
  af_portfolios :: "(string \<times> big_number) list option"
  af_receipts :: "js_value list option"

definition affirm_params :: "instruction \<Rightarrow> affirm_args \<Rightarrow> js_value result" where
  "affirm_params instruction args =
     (let ps = (case af_portfolios args of Some ps \<Rightarrow> [(''portfolios'', JArray (map portfolio_like ps))] | None \<Rightarrow> [])
      in case af_receipts args of
           None \<Rightarrow> Inr (JObject ps)
         | Some receipts \<Rightarrow> bindr (sequence (map (affirm_receipt instruction) receipts)) (\<lambda>rs.
             Inr (JObject (ps @ [(''receipts'', JArray rs)]))))"

type_synonym ('s, 'n, 'r, 't, 'e, 'args) instruction_command =
  "('s, 'n, 'r, 't, 'e) service_env \<Rightarrow> settlements_api \<Rightarrow> big_number \<Rightarrow> 'args transaction_base \<Rightarrow>
   ('s, 'n, 'r, 't, 'e, js_value submit_response) service"

definition affirmInstruction :: "('s, 'n, 'r, 't, 'e, affirm_args) instruction_command" where
  "affirmInstruction V S i params = on_instruction V S i params in_affirm affirm_params"

definition rejectInstruction :: "('s, 'n, 'r, 't, 'e, js_value) instruction_command" where
  "rejectInstruction V S i params = on_instruction V S i params in_reject (\<lambda>_ _. Inr (JObject []))"

definition executeInstruction :: "('s, 'n, 'r, 't, 'e, js_value) instruction_command" where
  "executeInstruction V S i params = on_instruction V S i params in_executeManually (\<lambda>_ args. Inr args)"

definition withdrawAffirmation :: "('s, 'n, 'r, 't, 'e, js_value) instruction_command" where
  "withdrawAffirmation V S i params = on_instruction V S i params in_withdraw (\<lambda>_ _. Inr (JObject []))"

definition affirmInstructionAsMediator :: "('s, 'n, 'r, 't, 'e, js_value) instruction_command" where
  "affirmInstructionAsMediator V S i params = on_instruction V S i params in_affirmAsMediator (\<lambda>_ args. Inr args)"

definition rejectInstructionAsMediator :: "('s, 'n, 'r, 't, 'e, js_value) instruction_command" where
  "rejectInstructionAsMediator V S i params = on_instruction V S i params in_rejectAsMediator (\<lambda>_ _. Inr (JObject []))"

definition withdrawAffirmationAsMediator :: "('s, 'n, 'r, 't, 'e, js_value) instruction_command" where
  "withdrawAffirmationAsMediator V S i params = on_instruction V S i params in_withdrawAsMediator (\<lambda>_ _. Inr (JObject []))"

section \<open>Lemmas\<close>

lemma touches_read:
  assumes "\<And>x. touches params (k x)"
  shows "touches params (andThen (lift_result r) k)"
  by (rule touches_lift) (rule assms)

lemma touches_after:
  assumes "makes (\<lambda>cs r. cs = []) m" "\<And>x. touches params (k x)"
  shows "touches params (andThen m k)"
  unfolding touches_def by (rule makes_andThen [OF assms(1) assms(2) [unfolded touches_def]]) auto

lemma touches_options:
  assumes "\<And>options args. extractTxOptions params = Inr (options, args) \<Longrightarrow> touches params (k (options, args))"
  shows "touches params (andThen (lift_result (extractTxOptions params)) k)"
  by (rule touches_lift) (use assms in auto)

lemma andThen_lift: "andThen (lift_result (Inr x)) k = k x" "andThen (lift_result (Inl e)) k = throw e"
  by (simp_all add: fun_eq_iff andThen_def eff_simps)

lemma touches_request: "touches params (submit_request V params mth f)"
  unfolding submit_request_def
  by (rule touches_options) (auto intro!: touches_read touches_submit)

lemma touches_on_venue: "touches params (on_venue V S i params mth f)"
  unfolding on_venue_def findVenue_def by (rule touches_options) (auto intro!: touches_read touches_submit)

lemma touches_on_instruction: "touches params (on_instruction V S i params mth f)"
  unfolding on_instruction_def findInstruction_def by (rule touches_options) (auto intro!: touches_read touches_submit)

lemma makes_read: "makes (\<lambda>cs r. cs = []) (lift_result r)"
  by (rule makes_mono [OF makes_simple(3)]) simp

lemma makes_reads: "makes (\<lambda>cs r. cs = []) m \<Longrightarrow> (\<And>x. makes (\<lambda>cs r. cs = []) (k x)) \<Longrightarrow> makes (\<lambda>cs r. cs = []) (andThen m k)"
  by (rule makes_andThen [where P = "\<lambda>cs r. cs = []" and Q = "\<lambda>_ cs r. cs = []"]) auto

lemma makes_ret: "makes (\<lambda>cs r. cs = []) (ret x)" "makes (\<lambda>cs r. cs = []) (throw e)"
  by (rule makes_mono [OF makes_simple(1)] makes_mono [OF makes_simple(2)]; simp)+

lemma makes_try: "makes (\<lambda>cs r. cs = []) m \<Longrightarrow> (\<And>e. makes (\<lambda>cs r. cs = []) (h e)) \<Longrightarrow> makes (\<lambda>cs r. cs = []) (tryCatch m h)"
  by (rule makes_tryCatch [where P = "\<lambda>cs r. cs = []" and Q = "\<lambda>_ cs r. cs = []"]) auto

lemma makes_portfolio: "makes (\<lambda>cs r. cs = []) (portfolios_findOne A did n)"
  unfolding portfolios_findOne_def identity_findOne_def by (intro makes_reads makes_read) (auto intro: makes_read)

lemma makes_auth_request: "makes (\<lambda>cs r. cs = []) (getAuthRequest A address i)"
  unfolding getAuthRequest_def accounts_findOne_def authorizations_findOne_def
  by (intro makes_reads makes_read) (auto intro!: makes_reads makes_read makes_try makes_ret split: option.split)

lemma makes_account: "makes (\<lambda>cs r. cs = []) (getSigningAccount S M signer)"
  by (simp add: getSigningAccount_def makes_zoom makes_ret)

lemma touches_on_auth: "touches params (on_auth_request V A params i mth)"
  unfolding on_auth_request_def
  by (rule touches_options) (auto intro!: touches_after makes_account makes_auth_request makes_ret touches_submit split: account_ref.split)

text \<open>The commands of the services on identities, accounts, authorizations, portfolios and settlements.\<close>

definition service_commands ::
    "('s, 'n, 'r, 't, 'e) service_env \<Rightarrow> identity_api \<Rightarrow> settlements_api \<Rightarrow> string \<Rightarrow> big_number \<Rightarrow> js_value transaction_base \<Rightarrow>
     ('s, 'n, 'r, 't, 'e, js_value submit_response) service list" where
  "service_commands V A S did i params =
     [addSecondaryAccount V A params, registerDid V A params, rotatePrimaryKey V A params, attestPrimaryKeyRotation did V A params,
      transferPolyx V A params, freezeSecondaryAccounts V A params, unfreezeSecondaryAccounts V A params,
      revokePermissions V A params, modifyPermissions V A params, authorizations_accept i V A params, authorizations_remove i V A params,
      portfolios_createPortfolio V A params, deletePortfolio did i V A params, updatePortfolioName did i V A params,
      setCustodian did i V A params, quitCustody did i V A params, createVenue V S params, modifyVenue V S i params,
      updateVenueSigners V S i params True, updateVenueSigners V S i params False, rejectInstruction V S i params,
      executeInstruction V S i params, withdrawAffirmation V S i params, affirmInstructionAsMediator V S i params,
      rejectInstructionAsMediator V S i params, withdrawAffirmationAsMediator V S i params]"

lemmas request_defs = addSecondaryAccount_def registerDid_def rotatePrimaryKey_def transferPolyx_def freezeSecondaryAccounts_def
  unfreezeSecondaryAccounts_def revokePermissions_def modifyPermissions_def portfolios_createPortfolio_def createVenue_def

lemmas entity_defs = attestPrimaryKeyRotation_def deletePortfolio_def setCustodian_def quitCustody_def

lemmas instruction_defs = modifyVenue_def updateVenueSigners_def rejectInstruction_def executeInstruction_def withdrawAffirmation_def
  affirmInstructionAsMediator_def rejectInstructionAsMediator_def withdrawAffirmationAsMediator_def

lemma touches_updateName: "touches params (updatePortfolioName did i V A params)"
  unfolding updatePortfolioName_def
  by (auto intro!: touches_throw touches_options touches_after makes_portfolio touches_submit)

lemma touches_entity:
  "touches params (attestPrimaryKeyRotation did V A params)" "touches params (deletePortfolio did i V A params)"
  "touches params (setCustodian did i V A params)" "touches params (quitCustody did i V A params)"
  unfolding entity_defs identity_findOne_def
  by (auto intro!: touches_after makes_read makes_portfolio touches_request)

lemma touches_service: "m \<in> set (service_commands V A S did i params) \<Longrightarrow> touches params m"
  unfolding service_commands_def list.set insert_iff empty_iff
  by (elim disjE; (simp only: request_defs instruction_defs authorizations_accept_def authorizations_remove_def
      touches_request touches_on_auth touches_on_venue touches_on_instruction touches_updateName touches_entity)?)

lemma touches_others:
  "touches ps (moveAssets owner V A ps)" "touches qs (createInstruction V S venueId qs)" "touches rs (affirmInstruction V S i rs)"
proof -
  show "touches ps (moveAssets owner V A ps)" unfolding moveAssets_def
    by (rule touches_options) (auto intro!: touches_after makes_portfolio touches_submit)
  show "touches qs (createInstruction V S venueId qs)" unfolding createInstruction_def findVenue_def
    by (rule touches_options) (auto intro!: touches_after makes_read makes_reads makes_ret touches_submit split: option.split)
  show "touches rs (affirmInstruction V S i rs)" unfolding affirmInstruction_def by (rule touches_on_instruction)
qed

text \<open>The same request with other arguments.\<close>

definition with_args :: "'a transaction_base \<Rightarrow> 'b \<Rightarrow> 'b transaction_base" where
  "with_args params args = \<lparr>tb_options = tb_options params, tb_signer = tb_signer params, tb_webhookUrl = tb_webhookUrl params,
     tb_dryRun = tb_dryRun params, tb_args = args\<rparr>"

lemma extract_with_args: "extractTxOptions params = Inr (options, args) \<Longrightarrow> extractTxOptions (with_args params b) = Inr (options, b)"
  by (auto simp: extractTxOptions_def deprecatedParams_def with_args_def Let_def split: option.splits if_splits)

lemma touches_with_args: "touches (with_args params b) m \<Longrightarrow> touches params m"
  unfolding touches_def by (rule makes_mono, assumption) (blast dest: extract_with_args)

lemmas touches_others_args = touches_others [THEN touches_with_args]

lemma findOne_not_positive:
  assumes "\<not> bn_gt n (BN 0)"
  shows "portfolios_findOne A did (Some n) = portfolios_findOne A did (Some (BN 0))"
    "portfolios_findOne A did (toPortfolioId n) = portfolios_findOne A did (toPortfolioId (BN 0))"
  using assms by (simp_all add: portfolios_findOne_def toPortfolioId_def bn_gt_def)

section \<open>Properties\<close>

text \<open>
  Commands of the services. Every command on identities, accounts, authorizations, portfolios and settlements runs at
  most one transaction, and none in a dry run, an offline request or a queued request. Moving assets, creating an instruction
  and affirming one do so too, whatever is read from the SDK on the way.
\<close>

theorem service_commands_safe:
  assumes "m \<in> set (service_commands V A S did i params) \<union> {moveAssets did V A (with_args params move),
      createInstruction V S venueId (with_args params creation), affirmInstruction V S i (with_args params affirmation)}"
    and "m s = (r, s')"
  shows "\<exists>cs. gw_calls s' = gw_calls s @ cs \<and> length (runs cs) \<le> 1
      \<and> (\<forall>options args. extractTxOptions params = Inr (options, args) \<and> op_processMode options \<in> {DryRun, OfflineMode, AMQP}
           \<longrightarrow> runs cs = [])"
proof -
  from assms(1) consider "m \<in> set (service_commands V A S did i params)" | "m = moveAssets did V A (with_args params move)"
    | "m = createInstruction V S venueId (with_args params creation)" | "m = affirmInstruction V S i (with_args params affirmation)"
    by blast
  then have "touches params m"
  proof cases
    case 1
    then show ?thesis by (rule touches_service)
  qed (simp_all only: touches_others_args)
  note touches_makes = this [unfolded touches_def]
  obtain cs where "gw_calls s' = gw_calls s @ cs" "length (runs cs) \<le> 1
      \<and> (\<forall>options args. extractTxOptions params = Inr (options, args) \<and> op_processMode options \<in> {DryRun, OfflineMode, AMQP}
           \<longrightarrow> runs cs = [])"
    by (rule makesE [OF touches_makes assms(2)])
  then show ?thesis by blast
qed

text \<open>
  which portfolio a number names. A portfolio number that is not positive, \<open>NaN\<close> included, names the default portfolio: moving assets from it,
  quitting its custody and setting its custodian do what they do with the number \<open>0\<close>. Only renaming and the creation event reject such a number.
\<close>

theorem portfolio_numbers:
  assumes "\<not> bn_gt n (BN 0)"
  shows "moveAssets did V A (with_args params (move\<lparr>mv_from := n\<rparr>)) s = moveAssets did V A (with_args params (move\<lparr>mv_from := BN 0\<rparr>)) s
    \<and> quitCustody did n V A params s = quitCustody did (BN 0) V A params s
    \<and> setCustodian did n V A cparams s = setCustodian did (BN 0) V A cparams s
    \<and> (n \<noteq> BNNaN \<longrightarrow> updatePortfolioName did n V A cparams s
          = (Inl (AppErr (appValidationError ''Default portfolio name cannot be modified'')), s)
        \<and> portfolios_createdAt A did n s = (Inl (AppErr (appValidationError ''Cannot get event details for Default Portfolio'')), s))"
proof -
  note find = findOne_not_positive [OF assms]
  have "moveAssets did V A (with_args params (move\<lparr>mv_from := n\<rparr>)) = moveAssets did V A (with_args params (move\<lparr>mv_from := BN 0\<rparr>))"
  proof (cases "extractTxOptions params")
    case (Inl e)
    have "extractTxOptions (with_args params b) = Inl e" for b :: movement_args
      using Inl by (auto simp: extractTxOptions_def deprecatedParams_def with_args_def Let_def split: option.splits if_splits)
    then show ?thesis by (simp only: moveAssets_def andThen_lift)
  next
    case (Inr x)
    then have "extractTxOptions (with_args params b) = Inr (fst x, b)" for b :: movement_args by (intro extract_with_args [of _ _ "snd x"]) simp
    then show ?thesis by (simp add: moveAssets_def andThen_lift find(2))
  qed
  moreover have "n \<noteq> BNNaN \<Longrightarrow> bn_lte n (BN 0)" using assms by (cases n) (auto simp: bn_lte_def bn_gt_def)
  ultimately show ?thesis
    by (simp add: find(1) quitCustody_def setCustodian_def updatePortfolioName_def portfolios_createdAt_def eff_simps)
qed

text \<open>
  which authorization request is accepted or removed. The request is looked up for the identity of the signing account and,
  only when there is no identity or it has no such request, for the account itself; any other
  failure of the first lookup is reported and not hidden by the second.
\<close>

theorem auth_request_lookup:
  fixes i :: big_number
  assumes "ia_getAccount A address = Inr account" and "ac_getIdentity account = Inr identity"
  defines "own \<equiv> rethrow_sdk (ac_authorizations_getOne account i)"
  shows "getAuthRequest A address i s = (case identity of
      None \<Rightarrow> (own, s)
    | Some d \<Rightarrow> (case ie_authorizations_getOne d i of
         Inr r \<Rightarrow> (Inr r, s)
       | Inl e \<Rightarrow> if is_not_found (thrown e) then (own, s) else (Inl (thrown e), s)))"
proof -
  have "accounts_findOne A address s = (Inr account, s)" using assms(1) by (simp add: accounts_findOne_def rethrow_sdk_def eff_simps)
  then show ?thesis
    using assms(2)
    by (cases identity; cases "ie_authorizations_getOne (the identity) i")
      (simp_all add: getAuthRequest_def authorizations_findOne_def own_def rethrow_sdk_def andThen_def tryCatch_def eff_simps)
qed

section \<open>Witnesses\<close>

definition demo_auth :: auth_request where
  "demo_auth = \<lparr>ar_authId = BN 7, ar_accept = demo_op, ar_remove = demo_op\<rparr>"

definition demo_portfolio :: "big_number option \<Rightarrow> portfolio" where
  "demo_portfolio i = \<lparr>pf_id = i, pf_owner = ''0x01'', pf_moveFunds = demo_op, pf_modifyName = demo_op, pf_setCustodian = demo_op,
     pf_quitCustody = demo_op, pf_getTransactionHistory = (\<lambda>v. Inr v), pf_createdAt = Inr JNull, pf_getAssetBalances = Inr [],
     pf_getCustodian = Inr ''0x01'', pf_getName = Inr ''savings''\<rparr>"

definition demo_identity :: identity where
  "demo_identity = \<lparr>ie_did = ''0x01'', ie_getTrustingAssets = Inr JNull, ie_getHeldAssets = Inr, ie_preApprovedAssets = Inr,
     ie_isAssetPreApproved = (\<lambda>a. Inr True), ie_getPendingDistributions = Inr JNull, ie_assetPermissions_get = Inr JNull,
     ie_getInstructions = Inr JNull, ie_getVenues = Inr JNull, ie_authorizations_getReceived = Inr, ie_authorizations_getSent = Inr JNull,
     ie_authorizations_getOne = (\<lambda>i. Inl (PolymeshErr DataUnavailable ''none'')), ie_getPortfolios = Inr JNull,
     ie_getPortfolio = (\<lambda>i. Inr (demo_portfolio i)), ie_portfolios_delete = demo_op, ie_getCustodiedPortfolios = Inr\<rparr>"

definition demo_account :: account where
  "demo_account = \<lparr>ac_address = ''5m'', ac_getIdentity = Inr (Some demo_identity), ac_getTransactionHistory = Inr,
     ac_getPermissions = Inr JNull, ac_getMultiSig = Inr None, ac_getOffChainReceipts = Inr JNull,
     ac_authorizations_getOne = (\<lambda>i. Inr demo_auth)\<rparr>"

definition demo_identities :: identity_api where
  "demo_identities = \<lparr>ia_getIdentity = (\<lambda>d. Inr demo_identity), ia_getAccount = (\<lambda>a. Inr demo_account), ia_getAccountBalance = (\<lambda>a. Inr JNull),
     ia_inviteAccount = demo_op, ia_registerIdentity = demo_op, ia_rotatePrimaryKey = demo_op, ia_attestPrimaryKeyRotation = demo_op,
     ia_createPortfolio = demo_op, ia_transferPolyx = demo_op, ia_freezeSecondaryAccounts = demo_op, ia_unfreezeSecondaryAccounts = demo_op,
     ia_revokePermissions = demo_op, ia_modifyPermissions = demo_op\<rparr>"

definition demo_settlements :: settlements_api where
  "demo_settlements = \<lparr>sa_getInstruction = (\<lambda>i. Inl NotAnError), sa_getVenue = (\<lambda>i. Inl NotAnError), sa_addInstruction = demo_op,
     sa_createVenue = demo_op, sa_canTransfer = (\<lambda>a v. Inr v)\<rparr>"

theorem service_commands_safe_witness:
  "\<exists>cs. gw_calls (snd (quitCustody ''0x01'' (BN 1) demo_env demo_identities (demo_request JNull) demo_gateway)) = gw_calls demo_gateway @ cs
     \<and> length (runs cs) \<le> 1"
proof -
  let ?m = "quitCustody ''0x01'' (BN 1) demo_env demo_identities (demo_request JNull)"
  have "?m \<in> set (service_commands demo_env demo_identities demo_settlements ''0x01'' (BN 1) (demo_request JNull))"
    by (simp add: service_commands_def)
  then have "?m \<in> set (service_commands demo_env demo_identities demo_settlements ''0x01'' (BN 1) (demo_request JNull))
      \<union> {moveAssets ''0x01'' demo_env demo_identities (with_args (demo_request JNull) undefined),
        createInstruction demo_env demo_settlements None (with_args (demo_request JNull) undefined),
        affirmInstruction demo_env demo_settlements (BN 1) (with_args (demo_request JNull) undefined)}" by blast
  moreover have "?m demo_gateway = (fst (?m demo_gateway), snd (?m demo_gateway))" by simp
  ultimately obtain cs where "gw_calls (snd (?m demo_gateway)) = gw_calls demo_gateway @ cs" "length (runs cs) \<le> 1"
    using service_commands_safe [where m = ?m] by blast
  then show ?thesis by blast
qed

theorem portfolio_numbers_witness:
  "quitCustody ''0x01'' (BN (- 3)) demo_env demo_identities (demo_request JNull) demo_gateway
     = quitCustody ''0x01'' (BN 0) demo_env demo_identities (demo_request JNull) demo_gateway
   \<and> fst (updatePortfolioName ''0x01'' (BN (- 3)) demo_env demo_identities (demo_request JNull) demo_gateway)
     = Inl (AppErr (appValidationError ''Default portfolio name cannot be modified''))"
proof -
  have n: "\<not> bn_gt (BN (- 3)) (BN 0)" by (simp add: bn_gt_def)
  show ?thesis
    using portfolio_numbers [OF n, of "''0x01''" demo_env demo_identities "demo_request JNull" _ demo_gateway "demo_request JNull"] by simp
qed

theorem auth_request_lookup_witness:
  "getAuthRequest demo_identities ''5m'' (BN 7) demo_gateway = (Inr demo_auth, demo_gateway)"
  by (subst auth_request_lookup [where account = demo_account and identity = "Some demo_identity"])
    (simp_all add: demo_identities_def demo_account_def demo_identity_def thrown_def is_not_found_def appNotFoundError_def rethrow_sdk_def)

end
