(* ===== verification/Agents.thy ===== *)
theory Agents
  imports Portfolios
begin

text \<open>
  The services on what belongs to an asset: \<open>PermissionGroupsService\<close>, \<open>CheckpointsService\<close>, \<open>ComplianceRequirementsService\<close>,
  \<open>TrustedClaimIssuersService\<close>, and \<open>ClaimsService\<close>. The methods of the SDK these services use on an asset or an identity are
  functions of that entity. A date is its time in milliseconds.
\<close>

section \<open>Permission groups\<close>

text \<open>\<open>gr_value\<close> is the group as an argument of a transaction.\<close>

record permission_group =
  gr_value :: js_value
  gr_exists :: "bool result"
  gr_getPermissions :: "js_value result"
  gr_setPermissions :: sdk_op

record permissions_api =
  pa_getGroup :: "asset \<Rightarrow> js_value \<Rightarrow> permission_group result"
  pa_getGroups :: "asset \<Rightarrow> ((js_value \<times> permission_group) list \<times> (big_number \<times> permission_group) list) result"
  pa_createGroup :: "asset \<Rightarrow> sdk_op"
  pa_inviteAgent :: "asset \<Rightarrow> sdk_op"
  pa_removeAgent :: "asset \<Rightarrow> sdk_op"
  pa_setGroup :: "identity \<Rightarrow> sdk_op"
  pa_checkPermissions :: "identity \<Rightarrow> js_value \<Rightarrow> js_value result"
  pa_waive :: "identity \<Rightarrow> sdk_op"

definition groups_findOne ::
    "('s, 'n, 'r, 't, 'e) service_env \<Rightarrow> permissions_api \<Rightarrow> string \<Rightarrow> big_number \<Rightarrow> ('s, 'n, 'r, 't, 'e, permission_group) service" where
  "groups_findOne V G assetInput i = andThen (assets_findOne V assetInput) (\<lambda>asset.
     andThen (lift_result (pa_getGroup G asset (JObject [(''id'', JBig i)]))) (\<lambda>group.
     andThen (lift_result (gr_exists group)) (\<lambda>found.
     if \<not> found then throw (AppErr (appNotFoundError (bn_text (sv_bignumber V) i) ''Custom permission group''))
     else ret group)))"

definition createPermissionGroup ::
    "('s, 'n, 'r, 't, 'e) service_env \<Rightarrow> permissions_api \<Rightarrow> string \<Rightarrow> js_value transaction_base \<Rightarrow>
     ('s, 'n, 'r, 't, 'e, js_value submit_response) service" where
  "createPermissionGroup V G assetId params = on_asset V assetId params (\<lambda>asset args options.
     andThen (lift_result (toPermissionGroupPermissions args)) (\<lambda>p.
     submit_in V (pa_createGroup G asset) (JObject [(''permissions'', p)]) options))"

definition getPermissionGroups ::
    "('s, 'n, 'r, 't, 'e) service_env \<Rightarrow> permissions_api \<Rightarrow> string \<Rightarrow> ('s, 'n, 'r, 't, 'e, js_value list) service" where
  "getPermissionGroups V G assetInput = andThen (assets_findOne V assetInput) (\<lambda>asset.
     andThen (lift_result (pa_getGroups G asset)) (\<lambda>groups.
     andThen (lift_result (sequence (map (\<lambda>(ty, group). bindr (gr_getPermissions group)
        (\<lambda>p. Inr (JObject [(''type'', ty), (''permissions'', p)]))) (fst groups)))) (\<lambda>knownGroups.
     andThen (lift_result (sequence (map (\<lambda>(i, group). bindr (gr_getPermissions group)
        (\<lambda>p. Inr (JObject [(''id'', JBig i), (''permissions'', p)]))) (snd groups)))) (\<lambda>customGroups.
     ret (knownGroups @ customGroups)))))"

text \<open>\<open>Promise.all\<close> over the asset and an identity.\<close>

definition asset_and_identity ::
    "('s, 'n, 'r, 't, 'e) service_env \<Rightarrow> identity_api \<Rightarrow> string \<Rightarrow> string \<Rightarrow> ('s, 'n, 'r, 't, 'e, asset \<times> identity) service" where
  "asset_and_identity V A assetInput did = andThen (assets_findOne V assetInput) (\<lambda>asset.
     andThen (identity_findOne A did) (\<lambda>identity. ret (asset, identity)))"

definition identity_value :: "identity \<Rightarrow> js_value" where
  "identity_value d = JEntity (JString (ie_did d))"

text \<open>The group a request names by number or type, or the permissions it gives.\<close>

definition named_group :: "permissions_api \<Rightarrow> asset \<Rightarrow> js_value \<Rightarrow> js_value result" where
  "named_group G asset permissions = (case permissions of
      JBig n \<Rightarrow> bindr (pa_getGroup G asset (JObject [(''id'', JBig n)])) (\<lambda>g. Inr (gr_value g))
    | JString ty \<Rightarrow> bindr (pa_getGroup G asset (JObject [(''type'', JString ty)])) (\<lambda>g. Inr (gr_value g))
    | _ \<Rightarrow> toPermissionGroupPermissions permissions)"

record agent_args =
  ag_target :: string
  ag_permissions :: js_value

type_synonym ('s, 'n, 'r, 't, 'e, 'args) agent_command =
  "('s, 'n, 'r, 't, 'e) service_env \<Rightarrow> identity_api \<Rightarrow> permissions_api \<Rightarrow> string \<Rightarrow> 'args transaction_base \<Rightarrow>
   ('s, 'n, 'r, 't, 'e, js_value submit_response) service"

definition inviteAgentToGroup :: "('s, 'n, 'r, 't, 'e, agent_args) agent_command" where
  "inviteAgentToGroup V A G assetInput params =
     andThen (lift_result (extractTxOptions params)) (\<lambda>(options, args).
     andThen (asset_and_identity V A assetInput (ag_target args)) (\<lambda>(asset, target).
     andThen (lift_result (named_group G asset (ag_permissions args))) (\<lambda>permissions.
     submit_in V (pa_inviteAgent G asset) (JObject [(''target'', identity_value target), (''permissions'', permissions)]) options)))"

text \<open>The group of an assignment: given permissions become a group of the asset, and no permissions at all become \<open>transactions: null\<close>.\<close>

definition assigned_group :: "permissions_api \<Rightarrow> asset \<Rightarrow> string \<Rightarrow> js_value \<Rightarrow> js_value result" where
  "assigned_group G asset assetInput permissions = (case permissions of
      JBig n \<Rightarrow> named_group G asset permissions
    | JString ty \<Rightarrow> named_group G asset permissions
    | _ \<Rightarrow> bindr (toPermissionGroupPermissions permissions) (\<lambda>p.
        let keys = map fst (own_properties p)
        in Inr (JObject ((''asset'', JString assetInput) #
             (if List.member keys ''transactions'' then [(''transactions'', field p ''transactions'')]
              else if List.member keys ''transactionGroups'' then [(''transactionGroups'', field p ''transactionGroups'')]
              else [(''transactions'', JNull)])))))"

definition assignAgentToGroup :: "('s, 'n, 'r, 't, 'e, agent_args) agent_command" where
  "assignAgentToGroup V A G assetInput params =
     andThen (lift_result (extractTxOptions params)) (\<lambda>(options, args).
     andThen (asset_and_identity V A assetInput (ag_target args)) (\<lambda>(asset, identity).
     andThen (lift_result (assigned_group G asset assetInput (ag_permissions args))) (\<lambda>group.
     submit_in V (pa_setGroup G identity) (JObject [(''group'', group)]) options)))"

definition removeAgentFromAsset :: "('s, 'n, 'r, 't, 'e, agent_args) agent_command" where
  "removeAgentFromAsset V A G assetInput params =
     andThen (lift_result (extractTxOptions params)) (\<lambda>(options, args).
     andThen (asset_and_identity V A assetInput (ag_target args)) (\<lambda>(asset, target).
     submit_in V (pa_removeAgent G asset) (JObject [(''target'', identity_value target)]) options))"

definition getGroupPermissions ::
    "('s, 'n, 'r, 't, 'e) service_env \<Rightarrow> permissions_api \<Rightarrow> string \<Rightarrow> big_number \<Rightarrow> ('s, 'n, 'r, 't, 'e, js_value) service" where
  "getGroupPermissions V G assetInput i = andThen (groups_findOne V G assetInput i) (\<lambda>group.
     andThen (lift_result (gr_getPermissions group)) (\<lambda>permissions.
     ret (JObject [(''id'', JBig i), (''permissions'', permissions)])))"

definition groups_modifyPermissions ::
    "('s, 'n, 'r, 't, 'e) service_env \<Rightarrow> permissions_api \<Rightarrow> string \<Rightarrow> big_number \<Rightarrow> js_value transaction_base \<Rightarrow>
     ('s, 'n, 'r, 't, 'e, js_value submit_response) service" where
  "groups_modifyPermissions V G assetInput groupId params = andThen (groups_findOne V G assetInput groupId) (\<lambda>group.
     submit_request V params (gr_setPermissions group) (\<lambda>args.
       bindr (toPermissionGroupPermissions args) (\<lambda>p. Inr (JObject [(''permissions'', p)]))))"

definition checkPermissions ::
    "('s, 'n, 'r, 't, 'e) service_env \<Rightarrow> identity_api \<Rightarrow> permissions_api \<Rightarrow> string \<Rightarrow> string \<Rightarrow> js_value \<Rightarrow> ('s, 'n, 'r, 't, 'e, js_value) service" where
  "checkPermissions V A G assetInput target transactions = andThen (asset_and_identity V A assetInput target) (\<lambda>(asset, identity).
     lift_result (pa_checkPermissions G identity (JObject [(''asset'', JEntity (JString (as_id asset))),
       (''transactions'', if given transactions then transactions else JNull)])))"

text \<open>Here the arguments are the \<open>identity\<close> of the agent alone.\<close>

definition abdicateAgent :: "('s, 'n, 'r, 't, 'e, string) agent_command" where
  "abdicateAgent V A G assetInput params =
     andThen (lift_result (extractTxOptions params)) (\<lambda>(options, args).
     andThen (asset_and_identity V A assetInput args) (\<lambda>(_, identity).
     submit_in V (pa_waive G identity) (JObject [(''asset'', JString assetInput)]) options))"

section \<open>Checkpoints\<close>

record checkpoint =
  cp_value :: js_value
  cp_balance :: "string \<Rightarrow> big_number result"
  cp_allBalances :: "js_value \<Rightarrow> js_value result"
  cp_createdAt :: "int result"
  cp_totalSupply :: "big_number result"

record checkpoint_schedule =
  sh_value :: js_value
  sh_getCheckpoints :: "checkpoint list result"
  sh_pendingPoints :: "int list"

record checkpoints_api =
  ck_get :: "fungible_asset \<Rightarrow> js_value \<Rightarrow> js_value result"
  ck_getOne :: "fungible_asset \<Rightarrow> big_number \<Rightarrow> checkpoint result"
  ck_create :: "fungible_asset \<Rightarrow> sdk_op"
  ck_schedules_get :: "fungible_asset \<Rightarrow> js_value result"
  ck_schedules_getOne :: "fungible_asset \<Rightarrow> big_number \<Rightarrow> checkpoint_schedule result"
  ck_schedules_create :: "fungible_asset \<Rightarrow> sdk_op"
  ck_schedules_remove :: "fungible_asset \<Rightarrow> sdk_op"
  ck_schedules_maxComplexity :: "fungible_asset \<Rightarrow> big_number result"

definition checkpoints_findAllByAsset ::
    "('s, 'n, 'r, 't, 'e) service_env \<Rightarrow> checkpoints_api \<Rightarrow> string \<Rightarrow> js_value \<Rightarrow> js_value \<Rightarrow> ('s, 'n, 'r, 't, 'e, js_value) service" where
  "checkpoints_findAllByAsset V C asset pageSize start = andThen (assets_findFungible V asset) (\<lambda>fungibleAsset.
     lift_result (ck_get C fungibleAsset (JObject [(''start'', start), (''size'', pageSize)])))"

definition checkpoints_findOne ::
    "('s, 'n, 'r, 't, 'e) service_env \<Rightarrow> checkpoints_api \<Rightarrow> string \<Rightarrow> big_number \<Rightarrow> ('s, 'n, 'r, 't, 'e, checkpoint) service" where
  "checkpoints_findOne V C asset i = andThen (assets_findFungible V asset) (\<lambda>fungibleAsset.
     lift_result (rethrow_sdk (ck_getOne C fungibleAsset i)))"

definition findSchedulesByAsset ::
    "('s, 'n, 'r, 't, 'e) service_env \<Rightarrow> checkpoints_api \<Rightarrow> string \<Rightarrow> ('s, 'n, 'r, 't, 'e, js_value) service" where
  "findSchedulesByAsset V C asset = andThen (assets_findFungible V asset) (\<lambda>fungibleAsset.
     lift_result (ck_schedules_get C fungibleAsset))"

definition findScheduleById ::
    "('s, 'n, 'r, 't, 'e) service_env \<Rightarrow> checkpoints_api \<Rightarrow> string \<Rightarrow> big_number \<Rightarrow> ('s, 'n, 'r, 't, 'e, checkpoint_schedule) service" where
  "findScheduleById V C asset i = andThen (assets_findFungible V asset) (\<lambda>fungibleAsset.
     lift_result (rethrow_sdk (ck_schedules_getOne C fungibleAsset i)))"

definition createByAsset ::
    "('s, 'n, 'r, 't, 'e) service_env \<Rightarrow> checkpoints_api \<Rightarrow> string \<Rightarrow> js_value transaction_base \<Rightarrow> ('s, 'n, 'r, 't, 'e, js_value submit_response) service" where
  "createByAsset V C asset params = on_fungible V asset params (\<lambda>fungibleAsset _ options.
     submit_in V (ck_create C fungibleAsset) (JObject []) options)"

definition createScheduleByAsset ::
    "('s, 'n, 'r, 't, 'e) service_env \<Rightarrow> checkpoints_api \<Rightarrow> string \<Rightarrow> js_value transaction_base \<Rightarrow> ('s, 'n, 'r, 't, 'e, js_value submit_response) service" where
  "createScheduleByAsset V C asset params = on_fungible V asset params (\<lambda>fungibleAsset args options.
     submit_in V (ck_schedules_create C fungibleAsset) args options)"

definition getAssetBalance ::
    "('s, 'n, 'r, 't, 'e) service_env \<Rightarrow> checkpoints_api \<Rightarrow> string \<Rightarrow> string \<Rightarrow> big_number \<Rightarrow> ('s, 'n, 'r, 't, 'e, js_value) service" where
  "getAssetBalance V C asset did checkpointId = andThen (checkpoints_findOne V C asset checkpointId) (\<lambda>checkpoint.
     andThen (lift_result (cp_balance checkpoint did)) (\<lambda>balance.
     ret (JInstance ''IdentityBalanceModel'' [(''identity'', JString did), (''balance'', JBig balance)])))"

definition getHolders ::
    "('s, 'n, 'r, 't, 'e) service_env \<Rightarrow> checkpoints_api \<Rightarrow> string \<Rightarrow> big_number \<Rightarrow> js_value \<Rightarrow> js_value \<Rightarrow> ('s, 'n, 'r, 't, 'e, js_value) service" where
  "getHolders V C asset checkpointId pageSize start = andThen (checkpoints_findOne V C asset checkpointId) (\<lambda>checkpoint.
     lift_result (cp_allBalances checkpoint (JObject [(''start'', start), (''size'', pageSize)])))"

definition deleteScheduleByAsset ::
    "('s, 'n, 'r, 't, 'e) service_env \<Rightarrow> checkpoints_api \<Rightarrow> string \<Rightarrow> big_number \<Rightarrow> js_value transaction_base \<Rightarrow>
     ('s, 'n, 'r, 't, 'e, js_value submit_response) service" where
  "deleteScheduleByAsset V C asset i params = on_fungible V asset params (\<lambda>fungibleAsset _ options.
     submit_in V (ck_schedules_remove C fungibleAsset) (JObject [(''schedule'', JBig i)]) options)"

definition findCheckpointsByScheduleId ::
    "('s, 'n, 'r, 't, 'e) service_env \<Rightarrow> checkpoints_api \<Rightarrow> string \<Rightarrow> big_number \<Rightarrow>
     ('s, 'n, 'r, 't, 'e, (checkpoint \<times> int \<times> big_number) list) service" where
  "findCheckpointsByScheduleId V C asset i = andThen (findScheduleById V C asset i) (\<lambda>schedule.
     andThen (lift_result (sh_getCheckpoints schedule)) (\<lambda>checkpoints.
     lift_result (sequence (map (\<lambda>checkpoint. bindr (cp_createdAt checkpoint) (\<lambda>createdAt.
       bindr (cp_totalSupply checkpoint) (\<lambda>totalSupply. Inr (checkpoint, createdAt, totalSupply)))) checkpoints))))"

definition getComplexityForAsset ::
    "('s, 'n, 'r, 't, 'e) service_env \<Rightarrow> checkpoints_api \<Rightarrow> string \<Rightarrow> ('s, 'n, 'r, 't, 'e, js_value \<times> big_number) service" where
  "getComplexityForAsset V C asset = andThen (assets_findFungible V asset) (\<lambda>fungibleAsset.
     andThen (lift_result (ck_schedules_get C fungibleAsset)) (\<lambda>schedules.
     andThen (lift_result (ck_schedules_maxComplexity C fungibleAsset)) (\<lambda>maxComplexity. ret (schedules, maxComplexity))))"

definition in_period :: "int option \<Rightarrow> int option \<Rightarrow> int \<Rightarrow> bool" where
  "in_period start until date \<longleftrightarrow> (case start of None \<Rightarrow> True | Some s \<Rightarrow> date \<ge> s) \<and> (case until of None \<Rightarrow> True | Some e \<Rightarrow> date \<le> e)"

definition getComplexityForPeriod ::
    "('s, 'n, 'r, 't, 'e) service_env \<Rightarrow> checkpoints_api \<Rightarrow> string \<Rightarrow> big_number \<Rightarrow> int option \<Rightarrow> int option \<Rightarrow>
     ('s, 'n, 'r, 't, 'e, big_number) service" where
  "getComplexityForPeriod V C asset i start until = andThen (findScheduleById V C asset i) (\<lambda>schedule.
     andThen (lift_result (sh_getCheckpoints schedule)) (\<lambda>checkpoints.
     andThen (lift_result (sequence (map cp_createdAt checkpoints))) (\<lambda>pastCheckpoints.
     let allCheckpoints = sh_pendingPoints schedule @ pastCheckpoints;
         checkpointsInPeriod = filter (in_period start until) allCheckpoints
     in ret (BN (of_nat (length checkpointsInPeriod))))))"

section \<open>Compliance\<close>

record compliance_api =
  cr_get :: "asset \<Rightarrow> js_value result"
  cr_set :: "asset \<Rightarrow> sdk_op"
  cr_pause :: "asset \<Rightarrow> sdk_op"
  cr_unpause :: "asset \<Rightarrow> sdk_op"
  cr_remove :: "asset \<Rightarrow> sdk_op"
  cr_reset :: "asset \<Rightarrow> sdk_op"
  cr_add :: "asset \<Rightarrow> sdk_op"
  cr_modify :: "asset \<Rightarrow> sdk_op"
  cr_arePaused :: "asset \<Rightarrow> bool result"
  ti_get :: "asset \<Rightarrow> js_value result"
  ti_set :: "asset \<Rightarrow> sdk_op"
  ti_add :: "asset \<Rightarrow> sdk_op"
  ti_remove :: "asset \<Rightarrow> sdk_op"

type_synonym ('s, 'n, 'r, 't, 'e) compliance_command =
  "('s, 'n, 'r, 't, 'e) service_env \<Rightarrow> compliance_api \<Rightarrow> string \<Rightarrow> js_value transaction_base \<Rightarrow> ('s, 'n, 'r, 't, 'e, js_value submit_response) service"

definition findComplianceRequirements :: "('s, 'n, 'r, 't, 'e) service_env \<Rightarrow> compliance_api \<Rightarrow> string \<Rightarrow> ('s, 'n, 'r, 't, 'e, js_value) service" where
  "findComplianceRequirements V R ticker = andThen (assets_findOne V ticker) (\<lambda>asset. lift_result (cr_get R asset))"

definition setRequirements :: "('s, 'n, 'r, 't, 'e) compliance_command" where
  "setRequirements V R ticker params = on_asset V ticker params (\<lambda>asset args options. submit_in V (cr_set R asset) args options)"

definition pauseRequirements :: "('s, 'n, 'r, 't, 'e) compliance_command" where
  "pauseRequirements V R ticker params = on_asset V ticker params (\<lambda>asset _ options. submit_in V (cr_pause R asset) (JObject []) options)"

definition unpauseRequirements :: "('s, 'n, 'r, 't, 'e) compliance_command" where
  "unpauseRequirements V R ticker params = on_asset V ticker params (\<lambda>asset _ options. submit_in V (cr_unpause R asset) (JObject []) options)"

definition requirements_deleteOne :: "big_number \<Rightarrow> ('s, 'n, 'r, 't, 'e) compliance_command" where
  "requirements_deleteOne i V R ticker params = on_asset V ticker params (\<lambda>asset _ options.
     submit_in V (cr_remove R asset) (JObject [(''requirement'', JBig i)]) options)"

definition requirements_deleteAll :: "('s, 'n, 'r, 't, 'e) compliance_command" where
  "requirements_deleteAll V R ticker params = on_asset V ticker params (\<lambda>asset _ options. submit_in V (cr_reset R asset) JUndefined options)"

definition requirements_add :: "('s, 'n, 'r, 't, 'e) compliance_command" where
  "requirements_add V R ticker params = on_asset V ticker params (\<lambda>asset args options. submit_in V (cr_add R asset) args options)"

text \<open>\<open>{ id, ...args }\<close>\<close>

definition requirements_modify :: "big_number \<Rightarrow> ('s, 'n, 'r, 't, 'e) compliance_command" where
  "requirements_modify i V R ticker params = on_asset V ticker params (\<lambda>asset args options.
     submit_in V (cr_modify R asset) (JObject (object_assign [(''id'', JBig i)] (own_properties args))) options)"

definition arePaused :: "('s, 'n, 'r, 't, 'e) service_env \<Rightarrow> compliance_api \<Rightarrow> string \<Rightarrow> ('s, 'n, 'r, 't, 'e, bool) service" where
  "arePaused V R ticker = andThen (assets_findOne V ticker) (\<lambda>asset. lift_result (cr_arePaused R asset))"

definition trusted_find :: "('s, 'n, 'r, 't, 'e) service_env \<Rightarrow> compliance_api \<Rightarrow> string \<Rightarrow> ('s, 'n, 'r, 't, 'e, js_value) service" where
  "trusted_find V R ticker = andThen (assets_findOne V ticker) (\<lambda>asset. lift_result (ti_get R asset))"

definition trusted_set :: "('s, 'n, 'r, 't, 'e) compliance_command" where
  "trusted_set V R ticker params = on_asset V ticker params (\<lambda>asset args options. submit_in V (ti_set R asset) args options)"

definition trusted_add :: "('s, 'n, 'r, 't, 'e) compliance_command" where
  "trusted_add V R ticker params = on_asset V ticker params (\<lambda>asset args options. submit_in V (ti_add R asset) args options)"

definition trusted_remove :: "('s, 'n, 'r, 't, 'e) compliance_command" where
  "trusted_remove V R ticker params = on_asset V ticker params (\<lambda>asset args options. submit_in V (ti_remove R asset) args options)"

section \<open>Claims\<close>

record identities_with_claims =
  iw_data :: "js_value list option"
  iw_next :: js_value
  iw_count :: js_value

record claims_api =
  cl_getIssuedClaims :: "js_value \<Rightarrow> js_value result"
  cl_getIdentitiesWithClaims :: "js_value \<Rightarrow> identities_with_claims result"
  cl_addClaims :: sdk_op
  cl_editClaims :: sdk_op
  cl_revokeClaims :: sdk_op
  cl_getClaimScopes :: "js_value \<Rightarrow> js_value result"
  cl_getCddClaims :: "js_value \<Rightarrow> js_value result"
  cl_getCustomClaimTypeByName :: "string \<Rightarrow> js_value result"
  cl_getCustomClaimTypeById :: "big_number \<Rightarrow> js_value result"
  cl_registerCustomClaimType :: sdk_op
  cl_getAllCustomClaimTypes :: "js_value \<Rightarrow> js_value result"

definition claims_findIssuedByDid :: "claims_api \<Rightarrow> string \<Rightarrow> js_value \<Rightarrow> js_value \<Rightarrow> js_value \<Rightarrow> ('s, 'n, 'r, 't, 'e, js_value) service" where
  "claims_findIssuedByDid L target includeExpired pageSize start = lift_result (cl_getIssuedClaims L (JObject
     [(''target'', JString target), (''includeExpired'', includeExpired), (''size'', pageSize), (''start'', start)]))"

text \<open>\<open>data?.[0].claims || []\<close>: only a missing list is guarded against, not an empty one.\<close>

definition first_claims :: "js_value list option \<Rightarrow> js_value result" where
  "first_claims items = (case items of
      None \<Rightarrow> Inr (JArray [])
    | Some [] \<Rightarrow> Inl js_type_error
    | Some (d # _) \<Rightarrow> if \<not> given d then Inl js_type_error
        else Inr (if truthy (field d ''claims'') then field d ''claims'' else JArray []))"

definition findAssociatedByDid ::
    "claims_api \<Rightarrow> string \<Rightarrow> js_value \<Rightarrow> js_value \<Rightarrow> js_value \<Rightarrow> js_value \<Rightarrow> js_value \<Rightarrow> ('s, 'n, 'r, 't, 'e, js_value) service" where
  "findAssociatedByDid L target scope claimTypes includeExpired pageSize start =
     andThen (lift_result (cl_getIdentitiesWithClaims L (JObject [(''targets'', JArray [JString target]), (''scope'', scope),
       (''claimTypes'', claimTypes), (''includeExpired'', includeExpired), (''size'', pageSize), (''start'', start)]))) (\<lambda>w.
     andThen (lift_result (first_claims (iw_data w))) (\<lambda>claims.
     ret (JObject [(''data'', claims), (''next'', iw_next w), (''count'', iw_count w)])))"

type_synonym ('s, 'n, 'r, 't, 'e) claims_command =
  "('s, 'n, 'r, 't, 'e) service_env \<Rightarrow> claims_api \<Rightarrow> js_value transaction_base \<Rightarrow> ('s, 'n, 'r, 't, 'e, js_value submit_response) service"

definition addClaimsOnDid :: "('s, 'n, 'r, 't, 'e) claims_command" where
  "addClaimsOnDid V L params = submit_request V params (cl_addClaims L) Inr"

definition editClaimsOnDid :: "('s, 'n, 'r, 't, 'e) claims_command" where
  "editClaimsOnDid V L params = submit_request V params (cl_editClaims L) Inr"

definition revokeClaimsFromDid :: "('s, 'n, 'r, 't, 'e) claims_command" where
  "revokeClaimsFromDid V L params = submit_request V params (cl_revokeClaims L) Inr"

definition findClaimScopesByDid :: "claims_api \<Rightarrow> string \<Rightarrow> ('s, 'n, 'r, 't, 'e, js_value) service" where
  "findClaimScopesByDid L target = lift_result (cl_getClaimScopes L (JObject [(''target'', JString target)]))"

text \<open>\<open>includeExpired\<close> is true unless it is given.\<close>

definition findCddClaimsByDid :: "claims_api \<Rightarrow> string \<Rightarrow> js_value \<Rightarrow> ('s, 'n, 'r, 't, 'e, js_value) service" where
  "findCddClaimsByDid L target includeExpired = lift_result (cl_getCddClaims L (JObject [(''target'', JString target),
     (''includeExpired'', if includeExpired = JUndefined then JBool True else includeExpired)]))"

definition getCustomClaimTypeByName :: "claims_api \<Rightarrow> string \<Rightarrow> ('s, 'n, 'r, 't, 'e, js_value) service" where
  "getCustomClaimTypeByName L name = lift_result (cl_getCustomClaimTypeByName L name)"

definition getCustomClaimTypeById :: "claims_api \<Rightarrow> big_number \<Rightarrow> ('s, 'n, 'r, 't, 'e, js_value) service" where
  "getCustomClaimTypeById L i = lift_result (cl_getCustomClaimTypeById L i)"

definition registerCustomClaimType :: "('s, 'n, 'r, 't, 'e) claims_command" where
  "registerCustomClaimType V L params = submit_request V params (cl_registerCustomClaimType L) Inr"

definition getRegisteredCustomClaimTypes :: "claims_api \<Rightarrow> js_value \<Rightarrow> js_value \<Rightarrow> js_value \<Rightarrow> ('s, 'n, 'r, 't, 'e, js_value) service" where
  "getRegisteredCustomClaimTypes L pageSize start dids = lift_result (cl_getAllCustomClaimTypes L (JObject
     [(''size'', pageSize), (''start'', start), (''dids'', dids)]))"

end
