(* ===== verification/Actions.thy ===== *)
theory Actions
  imports Agents
begin

text \<open>
  \<open>CorporateActionsService\<close>, \<open>MultiSigsService\<close>, \<open>NftsService\<close>, \<open>MetadataService\<close>, \<open>SubsidyService\<close>,
  \<open>TickerReservationsService\<close>, \<open>OfferingsService\<close> and \<open>NetworkService\<close>, over the entities of the SDK they use.
\<close>

section \<open>Corporate actions\<close>

record distribution =
  di_value :: js_value
  di_details :: js_value
  di_pay :: sdk_op
  di_linkDocuments :: sdk_op
  di_claim :: sdk_op
  di_reclaimFunds :: sdk_op
  di_modifyCheckpoint :: sdk_op
  di_getPaymentHistory :: "js_value \<Rightarrow> js_value result"

record corporate_api =
  ca_getDefaultConfig :: "fungible_asset \<Rightarrow> js_value result"
  ca_setDefaultConfig :: "fungible_asset \<Rightarrow> sdk_op"
  ca_distributions_get :: "fungible_asset \<Rightarrow> distribution list result"
  ca_distributions_getOne :: "fungible_asset \<Rightarrow> big_number \<Rightarrow> distribution result"
  ca_configureDividendDistribution :: "fungible_asset \<Rightarrow> sdk_op"
  ca_remove :: "fungible_asset \<Rightarrow> sdk_op"

type_synonym ('s, 'n, 'r, 't, 'e, 'args) corporate_command =
  "('s, 'n, 'r, 't, 'e) service_env \<Rightarrow> corporate_api \<Rightarrow> string \<Rightarrow> 'args transaction_base \<Rightarrow> ('s, 'n, 'r, 't, 'e, js_value submit_response) service"

definition findDefaultConfigByAsset :: "('s, 'n, 'r, 't, 'e) service_env \<Rightarrow> corporate_api \<Rightarrow> string \<Rightarrow> ('s, 'n, 'r, 't, 'e, js_value) service" where
  "findDefaultConfigByAsset V C asset = andThen (assets_findFungible V asset) (\<lambda>fungibleAsset. lift_result (ca_getDefaultConfig C fungibleAsset))"

definition updateDefaultConfigByAsset :: "('s, 'n, 'r, 't, 'e, js_value) corporate_command" where
  "updateDefaultConfigByAsset V C asset params = on_fungible V asset params (\<lambda>fungibleAsset args options.
     submit_in V (ca_setDefaultConfig C fungibleAsset) args options)"

definition findDistributionsByAsset ::
    "('s, 'n, 'r, 't, 'e) service_env \<Rightarrow> corporate_api \<Rightarrow> string \<Rightarrow> ('s, 'n, 'r, 't, 'e, distribution list) service" where
  "findDistributionsByAsset V C asset = andThen (assets_findFungible V asset) (\<lambda>fungibleAsset. lift_result (ca_distributions_get C fungibleAsset))"

definition findDistribution ::
    "('s, 'n, 'r, 't, 'e) service_env \<Rightarrow> corporate_api \<Rightarrow> string \<Rightarrow> big_number \<Rightarrow> ('s, 'n, 'r, 't, 'e, distribution) service" where
  "findDistribution V C asset i = andThen (assets_findFungible V asset) (\<lambda>fungibleAsset.
     lift_result (rethrow_sdk (ca_distributions_getOne C fungibleAsset i)))"

record dividend_args =
  dv_originPortfolio :: big_number
  dv_rest :: "(string \<times> js_value) list"

definition createDividendDistribution :: "('s, 'n, 'r, 't, 'e, dividend_args) corporate_command" where
  "createDividendDistribution V C asset params = on_fungible V asset params (\<lambda>fungibleAsset args options.
     submit_in V (ca_configureDividendDistribution C fungibleAsset)
       (JObject (put_property ''originPortfolio'' (big_or_undefined (toPortfolioId (dv_originPortfolio args))) (dv_rest args))) options)"

definition corporate_remove :: "big_number \<Rightarrow> ('s, 'n, 'r, 't, 'e, js_value) corporate_command" where
  "corporate_remove corporateAction V C asset params = on_fungible V asset params (\<lambda>fungibleAsset _ options.
     submit_in V (ca_remove C fungibleAsset) (JObject [(''corporateAction'', JBig corporateAction)]) options)"

text \<open>The commands on a distribution read the options, then look it up.\<close>

definition on_distribution ::
    "('s, 'n, 'r, 't, 'e) service_env \<Rightarrow> corporate_api \<Rightarrow> string \<Rightarrow> big_number \<Rightarrow> 'args transaction_base \<Rightarrow> (distribution \<Rightarrow> sdk_op) \<Rightarrow>
     ('args \<Rightarrow> js_value result) \<Rightarrow> ('s, 'n, 'r, 't, 'e, js_value submit_response) service" where
  "on_distribution V C asset i params mth f =
     andThen (lift_result (extractTxOptions params)) (\<lambda>(options, args).
     andThen (findDistribution V C asset i) (\<lambda>distribution.
     andThen (lift_result (f args)) (\<lambda>a. submit_in V (mth distribution) a options)))"

definition payDividends :: "big_number \<Rightarrow> ('s, 'n, 'r, 't, 'e, js_value) corporate_command" where
  "payDividends i V C asset params = on_distribution V C asset i params di_pay Inr"

fun toAssetDocument :: "js_value \<Rightarrow> js_value result" where
  "toAssetDocument (JInstance c es) = Inr (JObject es)"
| "toAssetDocument _ = Inl js_type_error"

definition documents_params :: "js_value \<Rightarrow> js_value result" where
  "documents_params args = (case field args ''documents'' of
      JArray ds \<Rightarrow> bindr (sequence (map toAssetDocument ds)) (\<lambda>rs. Inr (JObject [(''documents'', JArray rs)]))
    | _ \<Rightarrow> Inl js_type_error)"

definition linkDocuments :: "big_number \<Rightarrow> ('s, 'n, 'r, 't, 'e, js_value) corporate_command" where
  "linkDocuments i V C asset params = on_distribution V C asset i params di_linkDocuments documents_params"

definition claimDividends :: "big_number \<Rightarrow> ('s, 'n, 'r, 't, 'e, js_value) corporate_command" where
  "claimDividends i V C asset params = on_distribution V C asset i params di_claim (\<lambda>_. Inr JUndefined)"

definition reclaimRemainingFunds :: "big_number \<Rightarrow> ('s, 'n, 'r, 't, 'e, js_value) corporate_command" where
  "reclaimRemainingFunds i V C asset params = on_distribution V C asset i params di_reclaimFunds (\<lambda>_. Inr JUndefined)"

definition modifyCheckpoint :: "big_number \<Rightarrow> ('s, 'n, 'r, 't, 'e, js_value) corporate_command" where
  "modifyCheckpoint i V C asset params = on_distribution V C asset i params di_modifyCheckpoint Inr"

definition getPaymentHistory ::
    "('s, 'n, 'r, 't, 'e) service_env \<Rightarrow> corporate_api \<Rightarrow> string \<Rightarrow> big_number \<Rightarrow> js_value \<Rightarrow> js_value \<Rightarrow> ('s, 'n, 'r, 't, 'e, js_value) service" where
  "getPaymentHistory V C asset i pageSize start = andThen (findDistribution V C asset i) (\<lambda>distribution.
     lift_result (di_getPaymentHistory distribution (JObject [(''size'', pageSize), (''start'', start)])))"

section \<open>Multi-signature accounts\<close>

record msig_proposal =
  mp_value :: js_value
  mp_approve :: sdk_op
  mp_reject :: sdk_op

record multi_sig =
  mg_getProposal :: "big_number \<Rightarrow> msig_proposal result"
  mg_modify :: sdk_op
  mg_setAdmin :: sdk_op
  mg_removePayer :: sdk_op
  mg_getAdmin :: "identity option result"
  mg_getPayer :: "identity option result"
  mg_getProposals :: "msig_proposal list result"
  mg_getHistoricalProposals :: "js_value \<Rightarrow> js_value result"

text \<open>\<open>ma_multiSig\<close>: the multi-signature account an account is, \<open>None\<close> when \<open>isMultiSigAccount\<close> does not hold of it.\<close>

record multi_sig_api =
  ma_multiSig :: "account \<Rightarrow> multi_sig option"
  ma_createMultiSigAccount :: sdk_op

definition account_value :: "account \<Rightarrow> js_value" where
  "account_value a = JEntity (JString (ac_address a))"

definition multiSigs_findOne :: "identity_api \<Rightarrow> multi_sig_api \<Rightarrow> string \<Rightarrow> ('s, 'n, 'r, 't, 'e, multi_sig) service" where
  "multiSigs_findOne A M multiSigAddress =
     andThen (tryCatch (accounts_findOne A multiSigAddress) (\<lambda>e. throw (thrown e))) (\<lambda>account.
     case ma_multiSig M account of
       None \<Rightarrow> throw (AppErr (appValidationError (''account is not a multi sig: '' @ [CHR 0x22] @ multiSigAddress @ [CHR 0x22])))
     | Some multiSig \<Rightarrow> ret multiSig)"

definition findProposal :: "identity_api \<Rightarrow> multi_sig_api \<Rightarrow> string \<Rightarrow> big_number \<Rightarrow> ('s, 'n, 'r, 't, 'e, msig_proposal) service" where
  "findProposal A M multiSigAddress i = andThen (multiSigs_findOne A M multiSigAddress) (\<lambda>multiSig.
     lift_result (rethrow_sdk (mg_getProposal multiSig i)))"

record create_multi_sig_args =
  cm_requiredSignatures :: big_number
  cm_signers :: "string list"

type_synonym ('s, 'n, 'r, 't, 'e, 'args) multi_sig_command =
  "('s, 'n, 'r, 't, 'e) service_env \<Rightarrow> identity_api \<Rightarrow> multi_sig_api \<Rightarrow> 'args transaction_base \<Rightarrow> ('s, 'n, 'r, 't, 'e, js_value submit_response) service"

definition multiSigs_create :: "('s, 'n, 'r, 't, 'e, create_multi_sig_args) multi_sig_command" where
  "multiSigs_create V A M params =
     andThen (lift_result (extractTxOptions params)) (\<lambda>(options, args).
     andThen (lift_result (sequence (map (\<lambda>address. rethrow_sdk (ia_getAccount A address)) (cm_signers args)))) (\<lambda>signerAccounts.
     submit_in V (ma_createMultiSigAccount M) (JObject [(''signers'', JArray (map account_value signerAccounts)),
       (''requiredSignatures'', JBig (cm_requiredSignatures args))]) options))"

text \<open>Here the accounts are read from the SDK without the service of accounts: an error of the SDK is not translated.\<close>

definition multiSigs_modify :: "string \<Rightarrow> ('s, 'n, 'r, 't, 'e, string list) multi_sig_command" where
  "multiSigs_modify multiSigAddress V A M params =
     andThen (lift_result (extractTxOptions params)) (\<lambda>(options, signers).
     andThen (lift_result (sequence (map (ia_getAccount A) signers))) (\<lambda>signerAccounts.
     andThen (multiSigs_findOne A M multiSigAddress) (\<lambda>multiSig.
     submit_in V (mg_modify multiSig) (JObject [(''signers'', JArray (map account_value signerAccounts))]) options)))"

definition on_proposal ::
    "('s, 'n, 'r, 't, 'e) service_env \<Rightarrow> identity_api \<Rightarrow> multi_sig_api \<Rightarrow> string \<Rightarrow> big_number \<Rightarrow> 'args transaction_base \<Rightarrow> (msig_proposal \<Rightarrow> sdk_op) \<Rightarrow>
     ('s, 'n, 'r, 't, 'e, js_value submit_response) service" where
  "on_proposal V A M multiSigAddress proposalId txParams mth =
     andThen (lift_result (extractTxOptions txParams)) (\<lambda>(options, _).
     andThen (findProposal A M multiSigAddress proposalId) (\<lambda>proposal. submit_in V (mth proposal) (JObject []) options))"

definition multiSigs_approve :: "string \<Rightarrow> big_number \<Rightarrow> ('s, 'n, 'r, 't, 'e, js_value) multi_sig_command" where
  "multiSigs_approve multiSigAddress proposalId V A M txParams = on_proposal V A M multiSigAddress proposalId txParams mp_approve"

definition multiSigs_reject :: "string \<Rightarrow> big_number \<Rightarrow> ('s, 'n, 'r, 't, 'e, js_value) multi_sig_command" where
  "multiSigs_reject multiSigAddress proposalId V A M txParams = on_proposal V A M multiSigAddress proposalId txParams mp_reject"

definition getAdmin :: "identity_api \<Rightarrow> multi_sig_api \<Rightarrow> string \<Rightarrow> ('s, 'n, 'r, 't, 'e, identity option) service" where
  "getAdmin A M multiSigAddress = andThen (multiSigs_findOne A M multiSigAddress) (\<lambda>multiSig. lift_result (rethrow_sdk (mg_getAdmin multiSig)))"

definition getPayer :: "identity_api \<Rightarrow> multi_sig_api \<Rightarrow> string \<Rightarrow> ('s, 'n, 'r, 't, 'e, identity option) service" where
  "getPayer A M multiSigAddress = andThen (multiSigs_findOne A M multiSigAddress) (\<lambda>multiSig. lift_result (rethrow_sdk (mg_getPayer multiSig)))"

definition on_multi_sig ::
    "('s, 'n, 'r, 't, 'e) service_env \<Rightarrow> identity_api \<Rightarrow> multi_sig_api \<Rightarrow> string \<Rightarrow> 'args transaction_base \<Rightarrow> (multi_sig \<Rightarrow> sdk_op) \<Rightarrow>
     ('args \<Rightarrow> js_value) \<Rightarrow> ('s, 'n, 'r, 't, 'e, js_value submit_response) service" where
  "on_multi_sig V A M multiSigAddress txParams mth f =
     andThen (lift_result (extractTxOptions txParams)) (\<lambda>(options, args).
     andThen (multiSigs_findOne A M multiSigAddress) (\<lambda>multiSig. submit_in V (mth multiSig) (f args) options))"

definition setAdmin :: "string \<Rightarrow> ('s, 'n, 'r, 't, 'e, js_value) multi_sig_command" where
  "setAdmin multiSigAddress V A M txParams = on_multi_sig V A M multiSigAddress txParams mg_setAdmin (\<lambda>args. args)"

definition removeAdmin :: "string \<Rightarrow> ('s, 'n, 'r, 't, 'e, js_value) multi_sig_command" where
  "removeAdmin multiSigAddress V A M txParams =
     on_multi_sig V A M multiSigAddress txParams mg_setAdmin (\<lambda>_. JObject [(''admin'', JNull)])"

definition removePayer :: "string \<Rightarrow> ('s, 'n, 'r, 't, 'e, js_value) multi_sig_command" where
  "removePayer multiSigAddress V A M txParams = on_multi_sig V A M multiSigAddress txParams mg_removePayer (\<lambda>_. JObject [])"

definition getProposals :: "identity_api \<Rightarrow> multi_sig_api \<Rightarrow> string \<Rightarrow> ('s, 'n, 'r, 't, 'e, msig_proposal list) service" where
  "getProposals A M multiSigAddress = andThen (multiSigs_findOne A M multiSigAddress) (\<lambda>multiSig.
     lift_result (rethrow_sdk (mg_getProposals multiSig)))"

definition getHistoricalProposals ::
    "identity_api \<Rightarrow> multi_sig_api \<Rightarrow> string \<Rightarrow> js_value \<Rightarrow> js_value \<Rightarrow> ('s, 'n, 'r, 't, 'e, js_value) service" where
  "getHistoricalProposals A M multiSigAddress pageSize start = andThen (multiSigs_findOne A M multiSigAddress) (\<lambda>multiSig.
     lift_result (mg_getHistoricalProposals multiSig (JObject [(''size'', pageSize), (''start'', start)])))"

section \<open>NFTs\<close>

record nft =
  nf_id :: big_number
  nf_getMetadata :: "js_value list result"
  nf_getImageUri :: "js_value result"
  nf_getTokenUri :: "js_value result"
  nf_redeem :: sdk_op

record nft_collection =
  nc_getNft :: "big_number \<Rightarrow> nft result"
  nc_collectionKeys :: "js_value list result"
  nc_issue :: sdk_op

record nft_api =
  na_getNftCollection :: "asset_ref \<Rightarrow> nft_collection result"
  na_createNftCollection :: sdk_op

type_synonym ('s, 'n, 'r, 't, 'e, 'args) nft_command =
  "('s, 'n, 'r, 't, 'e) service_env \<Rightarrow> nft_api \<Rightarrow> 'args transaction_base \<Rightarrow> ('s, 'n, 'r, 't, 'e, js_value submit_response) service"

definition findCollection :: "('s, 'n, 'r, 't, 'e) service_env \<Rightarrow> nft_api \<Rightarrow> string \<Rightarrow> ('s, 'n, 'r, 't, 'e, nft_collection) service" where
  "findCollection V N collection = lift_result (rethrow_sdk (na_getNftCollection N (asset_ref (sv_validators V) collection)))"

definition findNft :: "('s, 'n, 'r, 't, 'e) service_env \<Rightarrow> nft_api \<Rightarrow> string \<Rightarrow> big_number \<Rightarrow> ('s, 'n, 'r, 't, 'e, nft) service" where
  "findNft V N collection i = andThen (findCollection V N collection) (\<lambda>nftCollection. lift_result (rethrow_sdk (nc_getNft nftCollection i)))"

definition nft_metadata_key_model :: "js_value \<Rightarrow> js_value" where
  "nft_metadata_key_model v = JInstance ''NftMetadataKeyModel'' (own_properties v)"

text \<open>\<open>{ ...model, key }\<close>\<close>

definition nft_metadata_model :: "js_value \<Rightarrow> js_value" where
  "nft_metadata_model model = JInstance ''NftMetadataModel''
     (put_property ''key'' (nft_metadata_key_model (field model ''key'')) (own_properties model))"

definition nftDetails :: "('s, 'n, 'r, 't, 'e) service_env \<Rightarrow> nft_api \<Rightarrow> string \<Rightarrow> big_number \<Rightarrow> ('s, 'n, 'r, 't, 'e, js_value) service" where
  "nftDetails V N collection i = andThen (findNft V N collection i) (\<lambda>nft.
     andThen (lift_result (nf_getMetadata nft)) (\<lambda>metadata.
     andThen (lift_result (nf_getImageUri nft)) (\<lambda>imageUri.
     andThen (lift_result (nf_getTokenUri nft)) (\<lambda>tokenUri.
     ret (JInstance ''NftModel'' [(''id'', JBig (nf_id nft)), (''collection'', JString collection),
       (''metadata'', JArray (map nft_metadata_model metadata)), (''imageUri'', imageUri), (''tokenUri'', tokenUri)])))))"

definition getCollectionKeys :: "('s, 'n, 'r, 't, 'e) service_env \<Rightarrow> nft_api \<Rightarrow> string \<Rightarrow> ('s, 'n, 'r, 't, 'e, js_value list) service" where
  "getCollectionKeys V N collection = andThen (findCollection V N collection) (\<lambda>nftCollection.
     andThen (lift_result (nc_collectionKeys nftCollection)) (\<lambda>keys.
     ret (map (\<lambda>key. JInstance ''CollectionKeyModel'' (own_properties key)) keys)))"

definition createNftCollection :: "('s, 'n, 'r, 't, 'e, js_value) nft_command" where
  "createNftCollection V N params = submit_request V params (na_createNftCollection N) Inr"

definition issueNft :: "string \<Rightarrow> ('s, 'n, 'r, 't, 'e, js_value) nft_command" where
  "issueNft collection V N params =
     andThen (lift_result (extractTxOptions params)) (\<lambda>(options, args).
     andThen (findCollection V N collection) (\<lambda>nftCollection. submit_in V (nc_issue nftCollection) args options))"

text \<open>The arguments are \<open>from\<close>, the number of a portfolio.\<close>

definition redeemNft :: "string \<Rightarrow> big_number \<Rightarrow> ('s, 'n, 'r, 't, 'e, big_number) nft_command" where
  "redeemNft collection i V N params =
     andThen (lift_result (extractTxOptions params)) (\<lambda>(options, from_id).
     andThen (findNft V N collection i) (\<lambda>nft.
     submit_in V (nf_redeem nft) (JObject [(''from'', big_or_undefined (toPortfolioId from_id))]) options))"

section \<open>Metadata\<close>

record metadata_entry =
  me_value :: js_value
  me_set :: sdk_op
  me_clear :: sdk_op
  me_remove :: sdk_op

record metadata_api =
  md_getGlobalMetadataKeys :: "js_value result"
  md_get :: "asset \<Rightarrow> metadata_entry list result"
  md_getOne :: "asset \<Rightarrow> string \<Rightarrow> big_number \<Rightarrow> metadata_entry result"
  md_register :: "asset \<Rightarrow> sdk_op"

record metadata_params =
  mt_asset :: string
  mt_type :: string
  mt_id :: big_number

definition findGlobalKeys :: "metadata_api \<Rightarrow> ('s, 'n, 'r, 't, 'e, js_value) service" where
  "findGlobalKeys D = lift_result (md_getGlobalMetadataKeys D)"

definition metadata_findAll :: "('s, 'n, 'r, 't, 'e) service_env \<Rightarrow> metadata_api \<Rightarrow> string \<Rightarrow> ('s, 'n, 'r, 't, 'e, metadata_entry list) service" where
  "metadata_findAll V D asset = andThen (assets_findOne V asset) (\<lambda>a. lift_result (md_get D a))"

definition metadata_findOne :: "('s, 'n, 'r, 't, 'e) service_env \<Rightarrow> metadata_api \<Rightarrow> metadata_params \<Rightarrow> ('s, 'n, 'r, 't, 'e, metadata_entry) service" where
  "metadata_findOne V D p = andThen (assets_findOne V (mt_asset p)) (\<lambda>a. lift_result (rethrow_sdk (md_getOne D a (mt_type p) (mt_id p))))"

definition metadata_create ::
    "('s, 'n, 'r, 't, 'e) service_env \<Rightarrow> metadata_api \<Rightarrow> string \<Rightarrow> js_value transaction_base \<Rightarrow> ('s, 'n, 'r, 't, 'e, js_value submit_response) service" where
  "metadata_create V D asset params = on_asset V asset params (\<lambda>a args options. submit_in V (md_register D a) args options)"

definition on_entry ::
    "('s, 'n, 'r, 't, 'e) service_env \<Rightarrow> metadata_api \<Rightarrow> metadata_params \<Rightarrow> 'args transaction_base \<Rightarrow> (metadata_entry \<Rightarrow> sdk_op) \<Rightarrow>
     ('args \<Rightarrow> js_value) \<Rightarrow> ('s, 'n, 'r, 't, 'e, js_value submit_response) service" where
  "on_entry V D p opts mth f =
     andThen (lift_result (extractTxOptions opts)) (\<lambda>(options, args).
     andThen (metadata_findOne V D p) (\<lambda>entry. submit_in V (mth entry) (f args) options))"

type_synonym ('s, 'n, 'r, 't, 'e) metadata_command =
  "('s, 'n, 'r, 't, 'e) service_env \<Rightarrow> metadata_api \<Rightarrow> metadata_params \<Rightarrow> js_value transaction_base \<Rightarrow> ('s, 'n, 'r, 't, 'e, js_value submit_response) service"

definition metadata_setValue :: "('s, 'n, 'r, 't, 'e) metadata_command" where
  "metadata_setValue V D p body = on_entry V D p body me_set (\<lambda>args. args)"

definition metadata_clearValue :: "('s, 'n, 'r, 't, 'e) metadata_command" where
  "metadata_clearValue V D p opts = on_entry V D p opts me_clear (\<lambda>_. JUndefined)"

definition metadata_removeKey :: "('s, 'n, 'r, 't, 'e) metadata_command" where
  "metadata_removeKey V D p opts = on_entry V D p opts me_remove (\<lambda>_. JUndefined)"

section \<open>Subsidies\<close>

record subsidy =
  sb_beneficiary :: string
  sb_subsidizer :: string
  sb_quit :: sdk_op
  sb_setAllowance :: sdk_op
  sb_increaseAllowance :: sdk_op
  sb_decreaseAllowance :: sdk_op
  sb_getAllowance :: "big_number result"

record subsidy_api =
  sy_getSubsidizer :: "account \<Rightarrow> js_value result"
  sy_getSubsidy :: "string \<Rightarrow> string \<Rightarrow> subsidy"
  sy_subsidizeAccount :: sdk_op

datatype allowance_operation = SetAllowance | IncreaseAllowance | DecreaseAllowance

type_synonym ('s, 'n, 'r, 't, 'e, 'args) subsidy_command =
  "('s, 'n, 'r, 't, 'e) service_env \<Rightarrow> subsidy_api \<Rightarrow> 'args transaction_base \<Rightarrow> ('s, 'n, 'r, 't, 'e, js_value submit_response) service"

definition getSubsidy :: "identity_api \<Rightarrow> subsidy_api \<Rightarrow> string \<Rightarrow> ('s, 'n, 'r, 't, 'e, js_value) service" where
  "getSubsidy A Y address = andThen (accounts_findOne A address) (\<lambda>account. lift_result (sy_getSubsidizer Y account))"

definition subsidy_findOne :: "subsidy_api \<Rightarrow> string \<Rightarrow> string \<Rightarrow> subsidy" where
  "subsidy_findOne Y beneficiary subsidizer = sy_getSubsidy Y beneficiary subsidizer"

definition subsidizeAccount :: "('s, 'n, 'r, 't, 'e, js_value) subsidy_command" where
  "subsidizeAccount V Y params = submit_request V params (sy_subsidizeAccount Y) Inr"

text \<open>The address of the signing account of a request.\<close>

definition signing_address :: "('s, 'n, 'r, 't, 'e) service_env \<Rightarrow> string \<Rightarrow> ('s, 'n, 'r, 't, 'e, string) service" where
  "signing_address V signer =
     andThen (getSigningAccount (gd_signing (sv_gateway V)) (od_manager (gd_offline (sv_gateway V))) signer) (\<lambda>account.
     case account of Address address \<Rightarrow> ret address | _ \<Rightarrow> throw (IllTyped ''address''))"

record quit_args =
  qu_beneficiary :: "string option"
  qu_subsidizer :: "string option"

definition quit_subsidy :: "subsidy_api \<Rightarrow> quit_args \<Rightarrow> string \<Rightarrow> subsidy result" where
  "quit_subsidy Y args address =
     (if present (qu_beneficiary args) \<and> present (qu_subsidizer args)
      then Inl (AppErr (appValidationError ''Only beneficiary or subsidizer should be provided''))
      else if present (qu_beneficiary args) then Inr (subsidy_findOne Y (the (qu_beneficiary args)) address)
      else if present (qu_subsidizer args) then Inr (subsidy_findOne Y address (the (qu_subsidizer args)))
      else Inl (AppErr (appValidationError ''Either beneficiary or subsidizer should be provided'')))"

definition subsidy_quit :: "('s, 'n, 'r, 't, 'e, quit_args) subsidy_command" where
  "subsidy_quit V Y params =
     andThen (lift_result (extractTxOptions params)) (\<lambda>(options, args).
     andThen (signing_address V (op_signer options)) (\<lambda>address.
     andThen (lift_result (quit_subsidy Y args address)) (\<lambda>subsidy.
     submit_in V (sb_quit subsidy) (JObject []) options)))"

record allowance_args =
  al_beneficiary :: string
  al_allowance :: big_number

fun allowance_procedure :: "allowance_operation \<Rightarrow> subsidy \<Rightarrow> sdk_op" where
  "allowance_procedure SetAllowance subsidy = sb_setAllowance subsidy"
| "allowance_procedure IncreaseAllowance subsidy = sb_increaseAllowance subsidy"
| "allowance_procedure DecreaseAllowance subsidy = sb_decreaseAllowance subsidy"

definition modifyAllowance :: "allowance_operation \<Rightarrow> ('s, 'n, 'r, 't, 'e, allowance_args) subsidy_command" where
  "modifyAllowance operation V Y params =
     andThen (lift_result (extractTxOptions params)) (\<lambda>(options, args).
     andThen (signing_address V (op_signer options)) (\<lambda>address.
     let subsidy = subsidy_findOne Y (al_beneficiary args) address
     in submit_in V (allowance_procedure operation subsidy) (JObject [(''allowance'', JBig (al_allowance args))]) options))"

definition getAllowance :: "subsidy_api \<Rightarrow> string \<Rightarrow> string \<Rightarrow> ('s, 'n, 'r, 't, 'e, big_number) service" where
  "getAllowance Y beneficiary subsidizer = lift_result (rethrow_sdk (sb_getAllowance (subsidy_findOne Y beneficiary subsidizer)))"

section \<open>Reserved tickers\<close>

record ticker_reservation =
  tr_details :: "js_value result"
  tr_transferOwnership :: sdk_op
  tr_extend :: sdk_op

record ticker_api =
  tk_getTickerReservation :: "string \<Rightarrow> ticker_reservation result"
  tk_getTickerReservations :: "string \<Rightarrow> ticker_reservation list result"
  tk_reserveTicker :: sdk_op

type_synonym ('s, 'n, 'r, 't, 'e) ticker_command =
  "('s, 'n, 'r, 't, 'e) service_env \<Rightarrow> ticker_api \<Rightarrow> string \<Rightarrow> js_value transaction_base \<Rightarrow> ('s, 'n, 'r, 't, 'e, js_value submit_response) service"

definition tickers_findOne :: "ticker_api \<Rightarrow> string \<Rightarrow> ('s, 'n, 'r, 't, 'e, ticker_reservation) service" where
  "tickers_findOne T ticker = lift_result (tk_getTickerReservation T ticker)"

definition reserve :: "('s, 'n, 'r, 't, 'e) ticker_command" where
  "reserve V T ticker params = submit_request V params (tk_reserveTicker T) (\<lambda>_. Inr (JObject [(''ticker'', JString ticker)]))"

definition tickers_transferOwnership :: "('s, 'n, 'r, 't, 'e) ticker_command" where
  "tickers_transferOwnership V T ticker params =
     andThen (lift_result (extractTxOptions params)) (\<lambda>(options, args).
     andThen (tickers_findOne T ticker) (\<lambda>reservation. submit_in V (tr_transferOwnership reservation) args options))"

definition tickers_extend :: "('s, 'n, 'r, 't, 'e) ticker_command" where
  "tickers_extend V T ticker params =
     andThen (lift_result (extractTxOptions params)) (\<lambda>(options, _).
     andThen (tickers_findOne T ticker) (\<lambda>reservation. submit_in V (tr_extend reservation) (JObject []) options))"

definition tickers_findAllByOwner :: "ticker_api \<Rightarrow> string \<Rightarrow> ('s, 'n, 'r, 't, 'e, ticker_reservation list) service" where
  "tickers_findAllByOwner T owner = lift_result (tk_getTickerReservations T owner)"

section \<open>Offerings\<close>

record offering =
  oi_id :: big_number
  oi_details :: js_value
  oi_getInvestments :: "js_value \<Rightarrow> js_value result"

record offering_api =
  oa_get :: "fungible_asset \<Rightarrow> js_value \<Rightarrow> offering list result"

definition offerings_findAllByAsset ::
    "('s, 'n, 'r, 't, 'e) service_env \<Rightarrow> offering_api \<Rightarrow> string \<Rightarrow> js_value \<Rightarrow> ('s, 'n, 'r, 't, 'e, offering list) service" where
  "offerings_findAllByAsset V F ticker stoStatus = andThen (assets_findFungible V ticker) (\<lambda>asset.
     lift_result (oa_get F asset (JObject [(''status'', stoStatus)])))"

definition offerings_findOne ::
    "('s, 'n, 'r, 't, 'e) service_env \<Rightarrow> offering_api \<Rightarrow> string \<Rightarrow> big_number \<Rightarrow> ('s, 'n, 'r, 't, 'e, offering) service" where
  "offerings_findOne V F ticker i = andThen (offerings_findAllByAsset V F ticker JUndefined) (\<lambda>offerings.
     case find (\<lambda>offering. bn_eq (oi_id offering) i) offerings of
       None \<Rightarrow> throw (AppErr (appNotFoundError (bn_text (sv_bignumber V) i) (''Asset '' @ [CHR 0x22] @ ticker @ [CHR 0x22] @ '' Offering'')))
     | Some offering \<Rightarrow> ret offering)"

definition findInvestmentsByAsset ::
    "('s, 'n, 'r, 't, 'e) service_env \<Rightarrow> offering_api \<Rightarrow> string \<Rightarrow> big_number \<Rightarrow> js_value \<Rightarrow> js_value \<Rightarrow> ('s, 'n, 'r, 't, 'e, js_value) service" where
  "findInvestmentsByAsset V F ticker i pageSize start = andThen (offerings_findOne V F ticker i) (\<lambda>offering.
     lift_result (oi_getInvestments offering (JObject [(''size'', pageSize), (''start'', start)])))"

section \<open>Network\<close>

record network_api =
  nw_getNetworkProperties :: "js_value result"
  nw_getLatestBlock :: "big_number result"
  nw_getTreasuryAccount :: account
  nw_getTreasuryBalance :: "big_number result"
  nw_getProtocolFees :: "js_value \<Rightarrow> js_value result"
  nw_getTransactionByHash :: "string \<Rightarrow> js_value result"
  nw_submitTransaction :: "js_value \<Rightarrow> js_value \<Rightarrow> js_value result"
  nw_getMiddlewareMetadata :: "js_value result"
  nw_hexStripPrefix :: "string \<Rightarrow> string"

definition getNetworkProperties :: "network_api \<Rightarrow> ('s, 'n, 'r, 't, 'e, js_value) service" where
  "getNetworkProperties W = lift_result (nw_getNetworkProperties W)"

definition getLatestBlock :: "network_api \<Rightarrow> ('s, 'n, 'r, 't, 'e, big_number) service" where
  "getLatestBlock W = lift_result (nw_getLatestBlock W)"

definition getTreasuryAccount :: "network_api \<Rightarrow> account" where
  "getTreasuryAccount W = nw_getTreasuryAccount W"

definition getTreasuryBalance :: "network_api \<Rightarrow> ('s, 'n, 'r, 't, 'e, big_number) service" where
  "getTreasuryBalance W = lift_result (nw_getTreasuryBalance W)"

definition getProtocolFees :: "network_api \<Rightarrow> string list \<Rightarrow> string option \<Rightarrow> ('s, 'n, 'r, 't, 'e, js_value) service" where
  "getProtocolFees W tags blockHash =
     (let args = (''tags'', JArray (map JString tags)) # (if present blockHash then [(''blockHash'', JString (the blockHash))] else [])
      in lift_result (nw_getProtocolFees W (JObject args)))"

definition getTransactionByHash :: "network_api \<Rightarrow> string \<Rightarrow> ('s, 'n, 'r, 't, 'e, js_value) service" where
  "getTransactionByHash W hash = lift_result (nw_getTransactionByHash W (nw_hexStripPrefix W hash))"

text \<open>\<open>const { k, ...rest } = v\<close>\<close>

definition rest_without :: "string list \<Rightarrow> js_value \<Rightarrow> (string \<times> js_value) list" where
  "rest_without ks v = filter (\<lambda>(k, _). \<not> List.member ks k) (own_properties v)"

definition network_submitTransaction :: "network_api \<Rightarrow> js_value \<Rightarrow> ('s, 'n, 'r, 't, 'e, js_value) service" where
  "network_submitTransaction W transaction =
     andThen (lift_result (nw_submitTransaction W
       (JObject (put_property ''multiSig'' JNull (rest_without [''signature''] transaction))) (field transaction ''signature''))) (\<lambda>r.
     ret (JInstance ''SubmitResultModel'' (own_properties r)))"

definition getMiddlewareMetadata :: "network_api \<Rightarrow> ('s, 'n, 'r, 't, 'e, js_value) service" where
  "getMiddlewareMetadata W = lift_result (nw_getMiddlewareMetadata W)"

end
