(* ===== verification/Commands.thy ===== *)
theory Commands
  imports Actions
begin

text \<open>
  What the commands of all services over the SDK have in common: each either fails and leaves everything as it was, or is one
  submission with the options of the request. \<open>quiet\<close> says that a computation changes nothing, \<open>submits\<close> that it is a command of that
  kind; both are closed under the ways the services put computations together.
\<close>

section \<open>Computations that change nothing\<close>

named_theorems quiet_intros
named_theorems submits_intros

definition quiet :: "('e, 's, 'a) eff \<Rightarrow> bool" where
  "quiet m \<longleftrightarrow> (\<forall>s. \<exists>r. m s = (r, s))"

lemma quietE:
  assumes "quiet m"
  obtains (error) e where "m s = (Inl e, s)" | (answer) a where "m s = (Inr a, s)"
proof -
  obtain r where "m s = (r, s)" using assms by (auto simp: quiet_def)
  then show ?thesis using that by (cases r) auto
qed

lemma quiet_lift [quiet_intros]: "quiet (lift_result r)"
  by (simp add: quiet_def eff_simps)

lemma quiet_ret [quiet_intros]: "quiet (ret a)"
  by (simp add: quiet_def eff_simps)

lemma quiet_throw [quiet_intros]: "quiet (throw e)"
  by (simp add: quiet_def eff_simps)

lemma quiet_andThen [quiet_intros]:
  assumes "quiet m" "\<And>x. quiet (k x)"
  shows "quiet (andThen m k)"
  unfolding quiet_def
proof
  fix s
  from assms(1) show "\<exists>r. andThen m k s = (r, s)"
  proof (cases rule: quietE [where s = s])
    case (answer a)
    then show ?thesis using assms(2) by (simp add: eff_simps quiet_def)
  qed (simp add: eff_simps)
qed

lemma quiet_tryCatch [quiet_intros]:
  assumes "quiet m" "\<And>e. quiet (h e)"
  shows "quiet (tryCatch m h)"
  unfolding quiet_def
proof
  fix s
  from assms(1) show "\<exists>r. tryCatch m h s = (r, s)"
  proof (cases rule: quietE [where s = s])
    case (error e)
    then show ?thesis using assms(2) by (simp add: eff_simps quiet_def)
  qed (simp add: eff_simps)
qed

lemma quiet_if [quiet_intros]: "quiet m \<Longrightarrow> quiet m' \<Longrightarrow> quiet (if b then m else m')"
  by simp

lemma quiet_handle: "quiet (getAddressByHandle S M signer)"
  by (cases S) (auto simp: quiet_def eff_simps local_getAddressByHandle_def split: js_property.split)

lemma quiet_book:
  assumes "quiet m"
  shows "quiet (zoom gw_book (\<lambda>x s. s\<lparr>gw_book := x\<rparr>) m)"
  unfolding quiet_def
proof
  fix s
  obtain r where "m (gw_book s) = (r, gw_book s)" using assms by (auto simp: quiet_def)
  then show "\<exists>r. zoom gw_book (\<lambda>x s. s\<lparr>gw_book := x\<rparr>) m s = (r, s)" by (simp add: eff_simps)
qed

lemma quiet_signing [quiet_intros]: "quiet (getSigningAccount S M signer)"
  by (simp add: getSigningAccount_def quiet_book quiet_handle quiet_ret)

section \<open>Lookups\<close>

lemma quiet_lookups [quiet_intros]:
  "quiet (assets_findOne V i)" "quiet (assets_findFungible V i)" "quiet (identity_findOne A did)" "quiet (accounts_findOne A address)"
  "quiet (authorizations_findOne getOne n)" "quiet (findVenue S n)" "quiet (findInstruction S n)" "quiet (findCollection V N i)"
  "quiet (tickers_findOne T i)"
  by (simp_all add: assets_findOne_def assets_findFungible_def identity_findOne_def accounts_findOne_def authorizations_findOne_def
      findVenue_def findInstruction_def findCollection_def tickers_findOne_def quiet_lift)

lemma quiet_portfolio [quiet_intros]: "quiet (portfolios_findOne A did n)"
  unfolding portfolios_findOne_def by (intro quiet_intros)

lemma quiet_auth_request [quiet_intros]: "quiet (getAuthRequest A address n)"
  unfolding getAuthRequest_def by (auto intro!: quiet_intros split: option.split)

lemma quiet_group [quiet_intros]: "quiet (groups_findOne V G i n)"
  unfolding groups_findOne_def by (intro quiet_intros)

lemma quiet_pair [quiet_intros]: "quiet (asset_and_identity V A i did)"
  unfolding asset_and_identity_def by (intro quiet_intros)

lemma quiet_distribution [quiet_intros]: "quiet (findDistribution V C i n)"
  unfolding findDistribution_def by (intro quiet_intros)

lemma quiet_multi_sig [quiet_intros]: "quiet (multiSigs_findOne A M address)"
  unfolding multiSigs_findOne_def by (auto intro!: quiet_intros split: option.split)

lemma quiet_proposal [quiet_intros]: "quiet (findProposal A M address n)"
  unfolding findProposal_def by (intro quiet_intros)

lemma quiet_nft [quiet_intros]: "quiet (findNft V N i n)"
  unfolding findNft_def by (intro quiet_intros)

lemma quiet_entry [quiet_intros]: "quiet (metadata_findOne V D p)"
  unfolding metadata_findOne_def by (intro quiet_intros)

lemma quiet_address [quiet_intros]: "quiet (signing_address V signer)"
  unfolding signing_address_def by (auto intro!: quiet_intros split: account_ref.split)

section \<open>Commands\<close>

definition submits ::
    "('s, 'n, 'r, 't, 'e) service_env \<Rightarrow> 'args transaction_base \<Rightarrow> ('s, 'n, 'r, 't, 'e, js_value submit_response) service \<Rightarrow> bool" where
  "submits V params m \<longleftrightarrow> (\<forall>s. (\<exists>e. m s = (Inl e, s)) \<or>
     (\<exists>options args a. \<exists>mth :: sdk_op. extractTxOptions params = Inr (options, args) \<and> m s = submit_in V mth a options s))"

lemma submits_submit [submits_intros]:
  fixes mth :: sdk_op
  shows "extractTxOptions params = Inr (options, args) \<Longrightarrow> submits V params (submit_in V mth a options)"
  unfolding submits_def by blast

text \<open>A method over other arguments is one that is already given them.\<close>

definition given_args :: "('args, js_value) sdk_method \<Rightarrow> 'args \<Rightarrow> sdk_op" where
  "given_args mth a = \<lparr>m_noArgs = m_noArgs mth, m_call = (\<lambda>x. m_call mth (if m_noArgs mth then None else Some a))\<rparr>"

lemma submit_given_args: "submit_in V mth a options = submit_in V (given_args mth a) JNull options"
proof -
  have p: "prepareProcedure mth a = prepareProcedure (given_args mth a) JNull"
    by (simp add: fun_eq_iff prepareProcedure_def given_args_def)
  have "processTransaction mth a po o' s = processTransaction (given_args mth a) JNull po o' s" for po o' s
    unfolding processTransaction_def p ..
  then have q: "processTransaction mth a = processTransaction (given_args mth a) JNull" by blast
  show ?thesis unfolding submit_in_def submit_def p q ..
qed

lemma submits_submit_typed:
  fixes mth :: "('b, js_value) sdk_method"
  shows "extractTxOptions params = Inr (options, args) \<Longrightarrow> submits V params (submit_in V mth a options)"
  unfolding submit_given_args [of V mth a options] by (rule submits_submit)

lemma submits_andThen [submits_intros]:
  assumes "quiet m" "\<And>x. submits V params (k x)"
  shows "submits V params (andThen m k)"
  unfolding submits_def
proof
  fix s
  from assms(1) show "(\<exists>e. andThen m k s = (Inl e, s)) \<or>
     (\<exists>options args a. \<exists>mth :: sdk_op. extractTxOptions params = Inr (options, args) \<and> andThen m k s = submit_in V mth a options s)"
  proof (cases rule: quietE [where s = s])
    case (answer a)
    then show ?thesis using assms(2) [of a] by (simp add: eff_simps submits_def)
  qed (simp add: eff_simps)
qed

lemma submits_throw [submits_intros]: "submits V params (throw e)"
  by (simp add: submits_def eff_simps)

lemma submits_if [submits_intros]: "submits V params m \<Longrightarrow> submits V params m' \<Longrightarrow> submits V params (if b then m else m')"
  by simp

lemma submits_options [submits_intros]:
  assumes "\<And>options args. extractTxOptions params = Inr (options, args) \<Longrightarrow> submits V params (k (options, args))"
  shows "submits V params (andThen (lift_result (extractTxOptions params)) k)"
proof (cases "extractTxOptions params")
  case (Inl e)
  then show ?thesis by (simp add: andThen_lift submits_throw)
next
  case (Inr x)
  then show ?thesis using assms [of "fst x" "snd x"] by (simp add: andThen_lift)
qed

section \<open>The commands of the services\<close>

lemma submits_request [submits_intros]: "submits V params (submit_request V params mth f)"
  unfolding submit_request_def by (auto intro!: submits_options submits_andThen quiet_intros intro: submits_submit)

lemma submits_on_asset:
  assumes "\<And>asset args options. extractTxOptions params = Inr (options, args) \<Longrightarrow> submits V params (k asset args options)"
  shows "submits V params (on_asset V i params k)"
  unfolding on_asset_def by (auto intro!: submits_options submits_andThen quiet_intros assms)

lemma submits_on_fungible:
  assumes "\<And>asset args options. extractTxOptions params = Inr (options, args) \<Longrightarrow> submits V params (k asset args options)"
  shows "submits V params (on_fungible V i params k)"
  unfolding on_fungible_def by (auto intro!: submits_options submits_andThen quiet_intros assms)

lemma submits_asset_commands: "cmd \<in> set asset_commands \<Longrightarrow> submits V params (cmd V i params)"
  unfolding asset_commands_def list.set insert_iff empty_iff command_defs setDocuments_def
  by (elim disjE; (hypsubst | erule FalseE);
      (auto intro!: submits_on_asset submits_on_fungible submits_options submits_andThen quiet_intros intro: submits_submit))

lemma submits_entities [submits_intros]:
  "submits V params (on_auth_request V A params n mth1)" "submits V params (on_venue V S n params mth2 f2)"
  "submits V params (on_instruction V S n params mth3 f3)" "submits V params (on_distribution V C i n params mth4 f4)"
  "submits V params (on_proposal V A M i n params mth5)" "submits V params (on_multi_sig V A M i params mth6 f6)"
  "submits V params (on_entry V D p params mth7 f7)"
  unfolding on_auth_request_def on_venue_def on_instruction_def on_distribution_def on_proposal_def on_multi_sig_def on_entry_def
  by (auto intro!: submits_options submits_andThen quiet_intros intro: submits_submit split: account_ref.split)

lemma submits_entity_commands [submits_intros]:
  "submits V params (attestPrimaryKeyRotation did V A params)" "submits V params (deletePortfolio did i V A params)"
  "submits V params (setCustodian did i V A params)" "submits V params (quitCustody did i V A params)"
  "submits V params (updatePortfolioName did i V A params)"
  unfolding entity_defs updatePortfolioName_def
  by (auto intro!: submits_if submits_throw submits_request submits_options submits_andThen quiet_intros intro: submits_submit)

lemma submits_service_commands: "m \<in> set (service_commands V A S did i params) \<Longrightarrow> submits V params m"
  unfolding service_commands_def list.set insert_iff empty_iff request_defs instruction_defs authorizations_accept_def authorizations_remove_def
  by (elim disjE; (hypsubst | erule FalseE); rule submits_intros)

text \<open>The SDK the services share, and what the requests that are more than a list of fields carry.\<close>

record sdk_services =
  xs_identities :: identity_api
  xs_settlements :: settlements_api
  xs_permissions :: permissions_api
  xs_checkpoints :: checkpoints_api
  xs_compliance :: compliance_api
  xs_claims :: claims_api
  xs_corporate :: corporate_api
  xs_multiSigs :: multi_sig_api
  xs_nfts :: nft_api
  xs_metadata :: metadata_api
  xs_subsidies :: subsidy_api
  xs_tickers :: ticker_api

record request_bodies =
  rb_transfer :: controller_transfer_args
  rb_restrictions :: "restriction_dto list"
  rb_stats :: "js_value list"
  rb_agent :: agent_args
  rb_movement :: movement_args
  rb_instruction :: create_instruction_args
  rb_affirmation :: affirm_args
  rb_dividend :: dividend_args
  rb_multiSig :: create_multi_sig_args
  rb_signers :: "string list"
  rb_quit :: quit_args
  rb_allowance :: allowance_args

definition agent_commands ::
    "('s, 'n, 'r, 't, 'e) service_env \<Rightarrow> sdk_services \<Rightarrow> string \<Rightarrow> string \<Rightarrow> big_number \<Rightarrow> request_bodies \<Rightarrow> js_value transaction_base \<Rightarrow>
     ('s, 'n, 'r, 't, 'e, js_value submit_response) service list" where
  "agent_commands V X i did n B params =
     (let A = xs_identities X; G = xs_permissions X; C = xs_checkpoints X; R = xs_compliance X; L = xs_claims X
      in [createPermissionGroup V G i params, groups_modifyPermissions V G i n params,
          inviteAgentToGroup V A G i (with_args params (rb_agent B)), assignAgentToGroup V A G i (with_args params (rb_agent B)),
          removeAgentFromAsset V A G i (with_args params (rb_agent B)), abdicateAgent V A G i (with_args params did),
          createByAsset V C i params, createScheduleByAsset V C i params, deleteScheduleByAsset V C i n params,
          setRequirements V R i params, pauseRequirements V R i params, unpauseRequirements V R i params,
          requirements_deleteOne n V R i params, requirements_deleteAll V R i params, requirements_add V R i params,
          requirements_modify n V R i params, trusted_set V R i params, trusted_add V R i params, trusted_remove V R i params,
          addClaimsOnDid V L params, editClaimsOnDid V L params, revokeClaimsFromDid V L params, registerCustomClaimType V L params])"

definition action_commands ::
    "('s, 'n, 'r, 't, 'e) service_env \<Rightarrow> sdk_services \<Rightarrow> string \<Rightarrow> string \<Rightarrow> big_number \<Rightarrow> request_bodies \<Rightarrow> js_value transaction_base \<Rightarrow>
     ('s, 'n, 'r, 't, 'e, js_value submit_response) service list" where
  "action_commands V X i address n B params =
     (let A = xs_identities X; C = xs_corporate X; M = xs_multiSigs X; N = xs_nfts X; D = xs_metadata X; Y = xs_subsidies X;
          T = xs_tickers X; p = \<lparr>mt_asset = i, mt_type = address, mt_id = n\<rparr>
      in [updateDefaultConfigByAsset V C i params, createDividendDistribution V C i (with_args params (rb_dividend B)),
          corporate_remove n V C i params, payDividends n V C i params, linkDocuments n V C i params, claimDividends n V C i params,
          reclaimRemainingFunds n V C i params, modifyCheckpoint n V C i params,
          multiSigs_create V A M (with_args params (rb_multiSig B)), multiSigs_modify address V A M (with_args params (rb_signers B)),
          multiSigs_approve address n V A M params, multiSigs_reject address n V A M params, setAdmin address V A M params,
          removeAdmin address V A M params, removePayer address V A M params,
          createNftCollection V N params, issueNft i V N params, redeemNft i n V N (with_args params n),
          metadata_create V D i params, metadata_setValue V D p params, metadata_clearValue V D p params, metadata_removeKey V D p params,
          subsidizeAccount V Y params, subsidy_quit V Y (with_args params (rb_quit B)), modifyAllowance SetAllowance V Y (with_args params (rb_allowance B)),
          modifyAllowance IncreaseAllowance V Y (with_args params (rb_allowance B)),
          modifyAllowance DecreaseAllowance V Y (with_args params (rb_allowance B)),
          reserve V T i params, tickers_transferOwnership V T i params, tickers_extend V T i params])"

text \<open>The body of a removal of all restrictions is nothing but the options.\<close>

definition restriction_commands ::
    "('s, 'n, 'r, 't, 'e) service_env \<Rightarrow> string \<Rightarrow> request_bodies \<Rightarrow> js_value transaction_base \<Rightarrow>
     ('s, 'n, 'r, 't, 'e, js_value submit_response) service list" where
  "restriction_commands V i B params =
     [controllerTransfer V i (with_args params (rb_transfer B)), setTransferRestrictions V i (with_args params (rb_restrictions B)),
      addTransferRestrictions V i (with_args params (rb_restrictions B)), setStats V i (with_args params (rb_stats B))] @
     (case extractTxOptions params of Inl e \<Rightarrow> [] | Inr (options, args) \<Rightarrow> [removeTransferRestrictions V i options])"

definition api_commands ::
    "('s, 'n, 'r, 't, 'e) service_env \<Rightarrow> sdk_services \<Rightarrow> string \<Rightarrow> string \<Rightarrow> big_number \<Rightarrow> request_bodies \<Rightarrow> js_value transaction_base \<Rightarrow>
     ('s, 'n, 'r, 't, 'e, js_value submit_response) service list" where
  "api_commands V X i did n B params =
     map (\<lambda>cmd. cmd V i params) asset_commands @ service_commands V (xs_identities X) (xs_settlements X) did n params @
     [assets_createAsset V params, moveAssets did V (xs_identities X) (with_args params (rb_movement B)),
      createInstruction V (xs_settlements X) None (with_args params (rb_instruction B)),
      createInstruction V (xs_settlements X) (Some n) (with_args params (rb_instruction B)),
      affirmInstruction V (xs_settlements X) n (with_args params (rb_affirmation B))] @
     agent_commands V X i did n B params @ action_commands V X i did n B params @ restriction_commands V i B params"

lemma submits_with_args: "submits V (with_args params b) m \<Longrightarrow> submits V params m"
  unfolding submits_def
proof
  fix s
  assume m: "\<forall>s. (\<exists>e. m s = (Inl e, s)) \<or>
     (\<exists>options args a. \<exists>mth :: sdk_op. extractTxOptions (with_args params b) = Inr (options, args) \<and> m s = submit_in V mth a options s)"
  have "extractTxOptions (with_args params b) = Inr (options, args) \<Longrightarrow> extractTxOptions params = Inr (options, tb_args params)" for options args
    by (auto simp: extractTxOptions_def deprecatedParams_def with_args_def Let_def split: option.splits if_splits)
  with m [rule_format, of s] show "(\<exists>e. m s = (Inl e, s)) \<or>
     (\<exists>options args a. \<exists>mth :: sdk_op. extractTxOptions params = Inr (options, args) \<and> m s = submit_in V mth a options s)" by blast
qed

lemmas agent_defs = createPermissionGroup_def groups_modifyPermissions_def inviteAgentToGroup_def assignAgentToGroup_def
  removeAgentFromAsset_def abdicateAgent_def createByAsset_def createScheduleByAsset_def deleteScheduleByAsset_def setRequirements_def
  pauseRequirements_def unpauseRequirements_def requirements_deleteOne_def requirements_deleteAll_def requirements_add_def
  requirements_modify_def trusted_set_def trusted_add_def trusted_remove_def addClaimsOnDid_def editClaimsOnDid_def revokeClaimsFromDid_def
  registerCustomClaimType_def

lemmas action_defs = updateDefaultConfigByAsset_def createDividendDistribution_def corporate_remove_def payDividends_def linkDocuments_def
  claimDividends_def reclaimRemainingFunds_def modifyCheckpoint_def multiSigs_create_def multiSigs_modify_def multiSigs_approve_def
  multiSigs_reject_def setAdmin_def removeAdmin_def removePayer_def createNftCollection_def issueNft_def redeemNft_def metadata_create_def
  metadata_setValue_def metadata_clearValue_def metadata_removeKey_def subsidizeAccount_def subsidy_quit_def modifyAllowance_def reserve_def
  tickers_transferOwnership_def tickers_extend_def Let_def

lemma submits_agent_single:
  "submits V ps (inviteAgentToGroup V A G i ps)" "submits V ps (assignAgentToGroup V A G i ps)"
  "submits V ps (removeAgentFromAsset V A G i ps)" "submits V qs (abdicateAgent V A G i qs)"
  unfolding agent_defs by (auto intro!: submits_options submits_andThen quiet_intros intro: submits_submit)

lemma submits_single:
  "submits V p1 (moveAssets did V A p1)" "submits V p2 (createInstruction V S venueId p2)" "submits V p3 (affirmInstruction V S n p3)"
  "submits V p4 (createDividendDistribution V C i p4)" "submits V p5 (multiSigs_create V A M p5)" "submits V p6 (multiSigs_modify did V A M p6)"
  "submits V p7 (redeemNft i n V N p7)" "submits V p8 (subsidy_quit V Y p8)" "submits V p9 (modifyAllowance oper V Y p9)"
  unfolding action_defs moveAssets_def createInstruction_def affirmInstruction_def
  by (auto intro!: submits_entities submits_on_fungible submits_options submits_andThen quiet_intros intro: submits_submit split: option.split)

lemma submits_createAsset: "submits V params (assets_createAsset V params)"
  unfolding assets_createAsset_def by (auto intro!: submits_options intro: submits_submit)

lemma submits_restrictions:
  "submits V p1 (controllerTransfer V i p1)" "submits V p2 (setTransferRestrictions V i p2)" "submits V p2 (addTransferRestrictions V i p2)"
  "submits V p3 (setStats V i p3)"
  unfolding controllerTransfer_def setTransferRestrictions_def addTransferRestrictions_def setStats_def Let_def
  by (auto intro!: submits_on_fungible submits_andThen submits_if submits_throw quiet_intros intro: submits_submit_typed)

lemma submits_removal: "extractTxOptions params = Inr (options, args) \<Longrightarrow> submits V params (removeTransferRestrictions V i options)"
  unfolding removeTransferRestrictions_def by (intro submits_andThen quiet_intros) (rule submits_submit_typed)

lemma submits_restriction_commands:
  assumes "m \<in> set (restriction_commands V i B params)"
  shows "submits V params m"
proof (cases "extractTxOptions params")
  case (Inl e)
  with assms show ?thesis using submits_restrictions [THEN submits_with_args] by (auto simp: restriction_commands_def)
next
  case (Inr x)
  then obtain options args where x: "extractTxOptions params = Inr (options, args)" by (cases x) simp
  with assms show ?thesis using submits_restrictions [THEN submits_with_args] submits_removal [OF x]
    by (auto simp: restriction_commands_def)
qed

lemmas submits_bodies = submits_agent_single [THEN submits_with_args] submits_single [THEN submits_with_args]

lemma submits_agent_commands: "m \<in> set (agent_commands V X i did n B params) \<Longrightarrow> submits V params m"
  unfolding agent_commands_def Let_def list.set insert_iff empty_iff
  by (elim disjE; (hypsubst | erule FalseE);
      (rule submits_bodies | (unfold agent_defs, rule submits_request) | (unfold agent_defs,
       auto intro!: submits_on_asset submits_on_fungible submits_request submits_andThen quiet_intros intro: submits_submit)))

lemma submits_action_commands: "m \<in> set (action_commands V X i did n B params) \<Longrightarrow> submits V params m"
  unfolding action_commands_def Let_def list.set insert_iff empty_iff
  by (elim disjE; (hypsubst | erule FalseE);
      (rule submits_bodies | (unfold action_defs, rule submits_request submits_entities) | (unfold action_defs,
       auto intro!: submits_on_asset submits_on_fungible submits_options submits_andThen quiet_intros intro: submits_submit)))

lemma submits_commands:
  assumes "m \<in> set (api_commands V X i did n B params)"
  shows "submits V params m"
proof -
  from assms consider "m \<in> (\<lambda>cmd. cmd V i params) ` set asset_commands" | "m \<in> set (service_commands V (xs_identities X) (xs_settlements X) did n params)"
    | "m \<in> {assets_createAsset V params, moveAssets did V (xs_identities X) (with_args params (rb_movement B)),
        createInstruction V (xs_settlements X) None (with_args params (rb_instruction B)),
        createInstruction V (xs_settlements X) (Some n) (with_args params (rb_instruction B)),
        affirmInstruction V (xs_settlements X) n (with_args params (rb_affirmation B))}"
    | "m \<in> set (agent_commands V X i did n B params)" | "m \<in> set (action_commands V X i did n B params)"
    | "m \<in> set (restriction_commands V i B params)"
    unfolding api_commands_def by auto
  then show ?thesis
  proof cases
    case 1
    then show ?thesis using submits_asset_commands by auto
  next
    case 3
    then show ?thesis using submits_bodies submits_createAsset by auto
  qed (simp_all only: submits_service_commands submits_agent_commands submits_action_commands submits_restriction_commands)
qed

lemma submits_runs:
  assumes "submits V params m"
  shows "\<exists>cs. gw_calls (snd (m s)) = gw_calls s @ cs \<and> length (runs cs) \<le> 1
        \<and> (\<forall>options args. extractTxOptions params = Inr (options, args) \<and> op_processMode options \<in> {DryRun, OfflineMode, AMQP}
             \<longrightarrow> runs cs = [])"
proof (cases "\<exists>e. m s = (Inl e, s)")
  case True
  then show ?thesis by (auto simp: runs_def)
next
  case False
  with assms obtain options args a and mth :: sdk_op
    where opt: "extractTxOptions params = Inr (options, args)" and eq: "m s = submit_in V mth a options s"
    unfolding submits_def by blast
  have run: "submit_in V mth a options s = (fst (m s), snd (m s))" using eq by simp
  obtain cs where "gw_calls (snd (m s)) = gw_calls s @ cs" "length (runs cs) \<le> 1
      \<and> (\<forall>options args. extractTxOptions params = Inr (options, args) \<and> op_processMode options \<in> {DryRun, OfflineMode, AMQP}
           \<longrightarrow> runs cs = [])"
    by (rule makesE [OF touches_submit [OF opt, unfolded touches_def] run])
  then show ?thesis by blast
qed

section \<open>Properties\<close>

text \<open>
  C26: commands of the services. Each of the commands on assets, their transfer restrictions and statistics, identities, accounts, authorizations, portfolios, settlements,
  permission groups, checkpoints, compliance, claims, corporate actions, multi-signature accounts, NFTs, metadata, subsidies and tickers
  either fails and leaves everything as it was, nothing prepared, subscribed, queued or signed, or is one submission with the options of the request. So it
  runs at most one transaction, and none in a dry run, an offline request or a queued request.
\<close>

theorem commands_are_submissions:
  assumes "m \<in> set (api_commands V X i did n B params)"
  shows "((\<exists>e. m s = (Inl e, s)) \<or>
      (\<exists>options args a. \<exists>mth :: sdk_op. extractTxOptions params = Inr (options, args) \<and> m s = submit_in V mth a options s))
    \<and> (\<exists>cs. gw_calls (snd (m s)) = gw_calls s @ cs \<and> length (runs cs) \<le> 1
        \<and> (\<forall>options args. extractTxOptions params = Inr (options, args) \<and> op_processMode options \<in> {DryRun, OfflineMode, AMQP}
             \<longrightarrow> runs cs = []))"
  using submits_commands [OF assms, unfolded submits_def, rule_format, of s] submits_runs [OF submits_commands [OF assms], of s] by blast

section \<open>Witnesses\<close>

definition demo_permissions :: permissions_api where
  "demo_permissions = \<lparr>pa_getGroup = (\<lambda>_ _. Inl NotAnError), pa_getGroups = (\<lambda>_. Inr ([], [])), pa_createGroup = (\<lambda>_. demo_op),
     pa_inviteAgent = (\<lambda>_. demo_op), pa_removeAgent = (\<lambda>_. demo_op), pa_setGroup = (\<lambda>_. demo_op), pa_checkPermissions = (\<lambda>_. Inr),
     pa_waive = (\<lambda>_. demo_op)\<rparr>"

definition demo_checkpoints :: checkpoints_api where
  "demo_checkpoints = \<lparr>ck_get = (\<lambda>_. Inr), ck_getOne = (\<lambda>_ _. Inl NotAnError), ck_create = (\<lambda>_. demo_op), ck_schedules_get = (\<lambda>_. Inr (JArray [])),
     ck_schedules_getOne = (\<lambda>_ _. Inl NotAnError), ck_schedules_create = (\<lambda>_. demo_op), ck_schedules_remove = (\<lambda>_. demo_op),
     ck_schedules_maxComplexity = (\<lambda>_. Inr (BN 20))\<rparr>"

definition demo_compliance :: compliance_api where
  "demo_compliance = \<lparr>cr_get = (\<lambda>_. Inr (JArray [])), cr_set = (\<lambda>_. demo_op), cr_pause = (\<lambda>_. demo_op), cr_unpause = (\<lambda>_. demo_op),
     cr_remove = (\<lambda>_. demo_op), cr_reset = (\<lambda>_. demo_op), cr_add = (\<lambda>_. demo_op), cr_modify = (\<lambda>_. demo_op), cr_arePaused = (\<lambda>_. Inr False),
     ti_get = (\<lambda>_. Inr (JArray [])), ti_set = (\<lambda>_. demo_op), ti_add = (\<lambda>_. demo_op), ti_remove = (\<lambda>_. demo_op)\<rparr>"

definition demo_claims :: claims_api where
  "demo_claims = \<lparr>cl_getIssuedClaims = Inr, cl_getIdentitiesWithClaims = (\<lambda>_. Inr \<lparr>iw_data = Some [], iw_next = JNull, iw_count = JNull\<rparr>),
     cl_addClaims = demo_op, cl_editClaims = demo_op, cl_revokeClaims = demo_op, cl_getClaimScopes = Inr, cl_getCddClaims = Inr,
     cl_getCustomClaimTypeByName = (\<lambda>_. Inr JNull), cl_getCustomClaimTypeById = (\<lambda>_. Inr JNull), cl_registerCustomClaimType = demo_op,
     cl_getAllCustomClaimTypes = Inr\<rparr>"

definition demo_corporate :: corporate_api where
  "demo_corporate = \<lparr>ca_getDefaultConfig = (\<lambda>_. Inr JNull), ca_setDefaultConfig = (\<lambda>_. demo_op), ca_distributions_get = (\<lambda>_. Inr []),
     ca_distributions_getOne = (\<lambda>_ _. Inl NotAnError), ca_configureDividendDistribution = (\<lambda>_. demo_op), ca_remove = (\<lambda>_. demo_op)\<rparr>"

definition demo_subsidy :: "string \<Rightarrow> string \<Rightarrow> subsidy" where
  "demo_subsidy beneficiary subsidizer = \<lparr>sb_beneficiary = beneficiary, sb_subsidizer = subsidizer, sb_quit = demo_op,
     sb_setAllowance = demo_op, sb_increaseAllowance = demo_op, sb_decreaseAllowance = demo_op, sb_getAllowance = Inr (BN 5)\<rparr>"

definition demo_services :: sdk_services where
  "demo_services = \<lparr>xs_identities = demo_identities, xs_settlements = demo_settlements, xs_permissions = demo_permissions,
     xs_checkpoints = demo_checkpoints, xs_compliance = demo_compliance, xs_claims = demo_claims, xs_corporate = demo_corporate,
     xs_multiSigs = \<lparr>ma_multiSig = (\<lambda>_. None), ma_createMultiSigAccount = demo_op\<rparr>,
     xs_nfts = \<lparr>na_getNftCollection = (\<lambda>_. Inl NotAnError), na_createNftCollection = demo_op\<rparr>,
     xs_metadata = \<lparr>md_getGlobalMetadataKeys = Inr JNull, md_get = (\<lambda>_. Inr []), md_getOne = (\<lambda>_ _ _. Inl NotAnError), md_register = (\<lambda>_. demo_op)\<rparr>,
     xs_subsidies = \<lparr>sy_getSubsidizer = (\<lambda>_. Inr JNull), sy_getSubsidy = demo_subsidy, sy_subsidizeAccount = demo_op\<rparr>,
     xs_tickers = \<lparr>tk_getTickerReservation = (\<lambda>_. Inl NotAnError), tk_getTickerReservations = (\<lambda>_. Inr []), tk_reserveTicker = demo_op\<rparr>\<rparr>"

definition demo_bodies :: request_bodies where
  "demo_bodies = \<lparr>rb_transfer = \<lparr>ct_origin_did = ''0x01'', ct_origin_id = BN 0, ct_amount = JBig (BN 5)\<rparr>,
     rb_restrictions = [CountDto (BN 7)], rb_stats = [JObject [(''type'', JString ''Balance'')]], rb_agent = \<lparr>ag_target = ''0x01'', ag_permissions = JNull\<rparr>, rb_movement = \<lparr>mv_from = BN 0, mv_to = BN 1, mv_items = []\<rparr>,
     rb_instruction = \<lparr>ci_rest = [], ci_legs = []\<rparr>, rb_affirmation = \<lparr>af_portfolios = None, af_receipts = None\<rparr>,
     rb_dividend = \<lparr>dv_originPortfolio = BN 0, dv_rest = []\<rparr>, rb_multiSig = \<lparr>cm_requiredSignatures = BN 1, cm_signers = [''5m'']\<rparr>,
     rb_signers = [''5m''], rb_quit = \<lparr>qu_beneficiary = Some ''5b'', qu_subsidizer = None\<rparr>,
     rb_allowance = \<lparr>al_beneficiary = ''5b'', al_allowance = BN 10\<rparr>\<rparr>"

theorem commands_are_submissions_witness:
  "length (runs (gw_calls (snd (reserve demo_env (xs_tickers demo_services) ''ACME'' (demo_request JNull) demo_gateway)))) \<le> length (runs (gw_calls demo_gateway)) + 1"
proof -
  let ?m = "reserve demo_env (xs_tickers demo_services) ''ACME'' (demo_request JNull)"
  have "?m \<in> set (api_commands demo_env demo_services ''ACME'' ''0x01'' (BN 1) demo_bodies (demo_request JNull))"
    by (simp only: api_commands_def action_commands_def Let_def set_append list.set Un_iff insert_iff refl simp_thms)
  from conjunct2 [OF commands_are_submissions [OF this, of demo_gateway]] obtain cs
    where cs: "gw_calls (snd (?m demo_gateway)) = gw_calls demo_gateway @ cs" "length (runs cs) \<le> 1" by blast
  show ?thesis unfolding cs(1) using cs(2) by (simp add: runs_def)
qed

end
