(* ===== verification/Models.thy ===== *)
theory Models
  imports Commands
begin

text \<open>
  The models the controllers answer with, made from entities and values of the SDK: \<open>accounts.util.ts\<close>, \<open>assets.util.ts\<close>,
  \<open>authorizations.util.ts\<close>, \<open>corporate-actions.util.ts\<close>, \<open>identities.util.ts\<close>, \<open>metadata.util.ts\<close>, \<open>offerings.util.ts\<close>,
  \<open>portfolios.util.ts\<close>, \<open>settlements.util.ts\<close>, \<open>subsidy.util.ts\<close>, \<open>ticker-reservations.util.ts\<close> and the constructors of
  \<open>assets/models\<close> that do more than assigning.

  An entity of the SDK is a \<open>JInstance\<close>; what its methods answer is the parameter \<open>en_call\<close>. Anything else has no such method, so calling one is a
  \<open>TypeError\<close>: the empty object that stands for the result of a dry run too. Awaiting several promises at once is modelled in order: of
  several failures the first in the text is reported.
\<close>

section \<open>Reading values\<close>

record sdk_entities =
  en_call :: "js_value \<Rightarrow> string \<Rightarrow> js_value result"
  en_isAccount :: "js_value \<Rightarrow> bool"
  en_isOffChainLeg :: "js_value \<Rightarrow> bool"
  en_isFungibleAsset :: "js_value \<Rightarrow> bool"

fun meth :: "sdk_entities \<Rightarrow> js_value \<Rightarrow> string \<Rightarrow> js_value result" where
  "meth E (JInstance c es) k = en_call E (JInstance c es) k"
| "meth E _ k = Inl js_type_error"

text \<open>\<open>v.k\<close> and \<open>const { k } = v\<close>, which fail on \<open>undefined\<close> and \<open>null\<close>.\<close>

definition get :: "js_value \<Rightarrow> string \<Rightarrow> js_value result" where
  "get v k = (if given v then Inr (field v k) else Inl js_type_error)"

definition picks :: "js_value \<Rightarrow> string list \<Rightarrow> (string \<times> js_value) list result" where
  "picks v ks = (if given v then Inr (map (\<lambda>k. (k, field v k)) ks) else Inl js_type_error)"

text \<open>\<open>v.map(f)\<close>\<close>

fun js_map :: "(js_value \<Rightarrow> js_value result) \<Rightarrow> js_value \<Rightarrow> js_value result" where
  "js_map f (JArray vs) = bindr (sequence (map f vs)) (\<lambda>rs. Inr (JArray rs))"
| "js_map f _ = Inl js_type_error"

definition model_of :: "string \<Rightarrow> js_value \<Rightarrow> js_value result" where
  "model_of cls v = Inr (JInstance cls (own_properties v))"

text \<open>A constructor that takes \<open>ks\<close> out of its argument, gives them to \<open>super\<close> and assigns the rest.\<close>

definition derived_model :: "string \<Rightarrow> string list \<Rightarrow> (string \<times> js_value) list \<Rightarrow> js_value" where
  "derived_model cls ks es = JInstance cls (map (\<lambda>k. (k, field (JObject es) k)) ks @ rest_without ks (JObject es))"

definition key_in :: "string \<Rightarrow> js_value \<Rightarrow> bool" where
  "key_in k v \<longleftrightarrow> List.member (map fst (own_properties v)) k"

section \<open>Identities and accounts\<close>

definition createPortfolioIdentifierModel :: "sdk_entities \<Rightarrow> js_value \<Rightarrow> js_value result" where
  "createPortfolioIdentifierModel E portfolio = bindr (meth E portfolio ''toHuman'') (model_of ''PortfolioIdentifierModel'')"

definition createPermissionsModel :: "sdk_entities \<Rightarrow> js_value \<Rightarrow> js_value result" where
  "createPermissionsModel E permissions =
     bindr (picks permissions [''assets'', ''portfolios'', ''transactions'', ''transactionGroups'']) (\<lambda>_.
     let assets = field permissions ''assets''; portfolios = field permissions ''portfolios'';
         transactions = field permissions ''transactions''
     in bindr (if truthy assets
               then bindr (js_map (\<lambda>v. meth E v ''toHuman'') (field assets ''values'')) (\<lambda>vs.
                 Inr (JInstance ''AssetPermissionsModel'' [(''type'', field assets ''type''), (''values'', vs)]))
               else Inr JNull) (\<lambda>assetPermissions.
        bindr (if truthy portfolios
               then bindr (js_map (createPortfolioIdentifierModel E) (field portfolios ''values'')) (\<lambda>vs.
                 Inr (JInstance ''PortfolioPermissionsModel'' [(''type'', field portfolios ''type''), (''values'', vs)]))
               else Inr JNull) (\<lambda>portfolioPermissions.
        Inr (JInstance ''PermissionsModel'' [(''assets'', assetPermissions), (''portfolios'', portfolioPermissions),
          (''transactions'', if truthy transactions
             then derived_model ''TransactionPermissionsModel'' [''type''] (own_properties transactions) else JNull),
          (''transactionGroups'', if truthy transactions then field permissions ''transactionGroups'' else JArray [])]))))"

definition account_model :: "js_value \<Rightarrow> js_value" where
  "account_model address = JInstance ''AccountModel'' [(''signerType'', JString ''Account''), (''address'', address)]"

definition identity_signer_model :: "js_value \<Rightarrow> js_value" where
  "identity_signer_model did = JInstance ''IdentitySignerModel'' [(''signerType'', JString ''Identity''), (''did'', did)]"

definition createPermissionedAccountModel :: "sdk_entities \<Rightarrow> js_value \<Rightarrow> js_value result" where
  "createPermissionedAccountModel E permissionedAccount =
     bindr (get permissionedAccount ''account'') (\<lambda>a. bindr (get a ''address'') (\<lambda>address.
     bindr (createPermissionsModel E (field permissionedAccount ''permissions'')) (\<lambda>permissions.
     Inr (JInstance ''PermissionedAccountModel'' [(''account'', account_model address), (''permissions'', permissions)]))))"

definition createIdentityModel :: "sdk_entities \<Rightarrow> js_value \<Rightarrow> js_value result" where
  "createIdentityModel E identity =
     bindr (meth E identity ''getPrimaryAccount'') (\<lambda>primaryAccount.
     bindr (meth E identity ''areSecondaryAccountsFrozen'') (\<lambda>secondaryAccountsFrozen.
     bindr (meth E identity ''getSecondaryAccounts'') (\<lambda>r. bindr (get r ''data'') (\<lambda>secondaryAccounts.
     bindr (createPermissionedAccountModel E primaryAccount) (\<lambda>primary.
     bindr (js_map (createPermissionedAccountModel E) secondaryAccounts) (\<lambda>secondary.
     Inr (JInstance ''IdentityModel'' [(''did'', field identity ''did''), (''primaryAccount'', primary),
       (''secondaryAccountsFrozen'', secondaryAccountsFrozen), (''secondaryAccounts'', secondary)])))))))"

definition createSignerModel :: "sdk_entities \<Rightarrow> js_value \<Rightarrow> js_value result" where
  "createSignerModel E signer =
     (if en_isAccount E signer then bindr (get signer ''address'') (\<lambda>address. Inr (account_model address))
      else bindr (get signer ''did'') (\<lambda>did. Inr (identity_signer_model did)))"

definition createAuthorizationRequestModel :: "sdk_entities \<Rightarrow> js_value \<Rightarrow> js_value result" where
  "createAuthorizationRequestModel E authorizationRequest =
     bindr (get authorizationRequest ''authId'') (\<lambda>i.
     bindr (createSignerModel E (field authorizationRequest ''target'')) (\<lambda>target.
     Inr (JInstance ''AuthorizationRequestModel'' [(''id'', i), (''expiry'', field authorizationRequest ''expiry''),
       (''data'', field authorizationRequest ''data''), (''issuer'', field authorizationRequest ''issuer''), (''target'', target)])))"

section \<open>Assets\<close>

definition createAssetDetailsModel :: "sdk_entities \<Rightarrow> js_value \<Rightarrow> js_value result" where
  "createAssetDetailsModel E asset =
     bindr (meth E asset ''details'') (\<lambda>details.
     bindr (meth E asset ''getIdentifiers'') (\<lambda>securityIdentifiers.
     bindr (if en_isFungibleAsset E asset then meth E asset ''currentFundingRound'' else Inr JNull) (\<lambda>fundingRound.
     bindr (meth E asset ''isFrozen'') (\<lambda>isFrozen.
     bindr (get details ''fullAgents'') (\<lambda>fullAgents.
     bindr (js_map (\<lambda>agent. get agent ''did'') fullAgents) (\<lambda>agents.
     Inr (JInstance ''AssetDetailsModel'' [(''ticker'', field details ''ticker''), (''owner'', field details ''owner''),
       (''assetId'', field asset ''id''), (''assetType'', field details ''assetType''), (''name'', field details ''name''),
       (''totalSupply'', field details ''totalSupply''), (''isDivisible'', field details ''isDivisible''),
       (''securityIdentifiers'', securityIdentifiers), (''fundingRound'', fundingRound), (''isFrozen'', isFrozen), (''agents'', agents)])))))))"

definition createGroupPermissionsModel :: "js_value \<Rightarrow> js_value result" where
  "createGroupPermissionsModel permissions =
     bindr (get permissions ''transactions'') (\<lambda>transactions.
     Inr (JInstance ''GroupPermissionsModel''
       [(''transactions'', if truthy transactions
           then derived_model ''TransactionPermissionsModel'' [''type''] (own_properties transactions) else JNull),
        (''transactionGroups'', if truthy transactions then field permissions ''transactionGroups'' else JArray [])]))"

definition stat_claim_issuer_model :: "js_value \<Rightarrow> js_value result" where
  "stat_claim_issuer_model model =
     bindr (get (field model ''issuer'') ''did'') (\<lambda>did.
     let claimType = field model ''claimType''
     in Inr (JInstance ''StatClaimIssuerModel'' [(''issuer'', did), (''claimType'',
          if is_string claimType then claimType
          else if truthy claimType \<and> typeof_object claimType \<and> key_in ''type'' claimType then field claimType ''type''
          else JString ''Unknown'')]))"

definition asset_stat_model :: "js_value \<Rightarrow> js_value result" where
  "asset_stat_model model =
     bindr (get model ''type'') (\<lambda>ty.
     if truthy (field model ''claimIssuer'')
     then bindr (stat_claim_issuer_model (field model ''claimIssuer'')) (\<lambda>claimIssuer.
       Inr (JInstance ''AssetStatModel'' [(''type'', ty), (''claimIssuer'', claimIssuer)]))
     else Inr (JInstance ''AssetStatModel'' [(''type'', ty)]))"

text \<open>\<open>String(x)\<close> on the types a custom claim type can have there.\<close>

fun serialized_id :: "bignumber \<Rightarrow> js_value \<Rightarrow> js_value result" where
  "serialized_id B (JBig n) = Inr (JString (bn_text B n))"
| "serialized_id B (JString s) = Inr (JString s)"
| "serialized_id B _ = Inl (IllTyped ''customClaimTypeId'')"

definition serializeClaimType :: "bignumber \<Rightarrow> js_value \<Rightarrow> js_value result" where
  "serializeClaimType B claimType =
     (if typeof_object claimType \<and> claimType \<noteq> JNull \<and> key_in ''type'' claimType \<and> field claimType ''type'' = JString ''Custom''
         \<and> key_in ''customClaimTypeId'' claimType
      then bindr (serialized_id B (field claimType ''customClaimTypeId'')) (\<lambda>s.
        Inr (JObject [(''type'', JString ''Custom''), (''customClaimTypeId'', s)]))
      else Inr claimType)"

definition claim_value_breakdown :: "bignumber \<Rightarrow> js_value \<Rightarrow> js_value result" where
  "claim_value_breakdown B v =
     bindr (big_toString B (field v ''withClaim'')) (\<lambda>w. bindr (big_toString B (field v ''withoutClaim'')) (\<lambda>n.
     Inr (JInstance ''TransferRestrictionClaimValueBreakdownModel'' [(''withClaim'', w), (''withoutClaim'', n)])))"

definition jurisdiction_breakdown :: "bignumber \<Rightarrow> js_value \<Rightarrow> js_value result" where
  "jurisdiction_breakdown B v =
     bindr (get v ''countryCode'') (\<lambda>c. bindr (big_toString B (field v ''value'')) (\<lambda>n.
     Inr (JInstance ''TransferRestrictionJurisdictionBreakdownModel'' [(''countryCode'', c), (''value'', n)])))"

definition claim_details_model :: "bignumber \<Rightarrow> js_value \<Rightarrow> js_value result" where
  "claim_details_model B model =
     bindr (get (field model ''issuer'') ''did'') (\<lambda>issuer.
     bindr (serializeClaimType B (field model ''claimType'')) (\<lambda>claimType.
     let val = field model ''value''
     in bindr (if truthy val
               then bindr (case val of JArray _ \<Rightarrow> js_map (jurisdiction_breakdown B) val | _ \<Rightarrow> claim_value_breakdown B val) (\<lambda>v. Inr [(''value'', v)])
               else Inr []) (\<lambda>rest.
        Inr (JInstance ''TransferRestrictionClaimDetailsModel'' ([(''issuer'', issuer), (''claimType'', claimType)] @ rest)))))"

definition restriction_value_model :: "bignumber \<Rightarrow> js_value \<Rightarrow> js_value result" where
  "restriction_value_model B model =
     bindr (get model ''type'') (\<lambda>ty.
     bindr (if truthy (field model ''claim'')
            then bindr (claim_details_model B (field model ''claim'')) (\<lambda>c. Inr [(''claim'', c)]) else Inr []) (\<lambda>rest.
     Inr (JInstance ''TransferRestrictionsValueModel'' ([(''type'', ty), (''value'', field model ''value'')] @ rest))))"

definition toStatClaimModel :: "js_value \<Rightarrow> js_value result" where
  "toStatClaimModel claim =
     bindr (get claim ''type'') (\<lambda>ty. Inr
       (if ty = JString ''Accredited'' then JInstance ''StatAccreditedClaimModel'' [(''type'', ty), (''accredited'', field claim ''accredited'')]
        else if ty = JString ''Affiliate'' then JInstance ''StatAffiliateClaimModel'' [(''type'', ty), (''affiliate'', field claim ''affiliate'')]
        else if ty = JString ''Jurisdiction'' then JInstance ''StatJurisdictionClaimModel'' [(''type'', ty), (''countryCode'', field claim ''countryCode'')]
        else claim))"

definition toClaimRestrictionValueModel :: "js_value \<Rightarrow> js_value result" where
  "toClaimRestrictionValueModel v =
     bindr (get v ''min'') (\<lambda>min. bindr (toStatClaimModel (field v ''claim'')) (\<lambda>claim.
     Inr (JInstance ''TransferRestrictionClaimValueModel'' [(''min'', min), (''max'', field v ''max''), (''issuer'', field v ''issuer''), (''claim'', claim)])))"

definition toTransferRestrictionModel :: "js_value \<Rightarrow> js_value result" where
  "toTransferRestrictionModel restriction =
     bindr (get restriction ''type'') (\<lambda>ty.
     let common = [(''type'', ty), (''exemptedIds'', field restriction ''exemptedIds'')]; val = field restriction ''value''
     in if ty = JString ''Count'' then Inr (JInstance ''TransferRestrictionCountModel'' (common @ [(''value'', val)]))
        else if ty = JString ''Percentage'' then Inr (JInstance ''TransferRestrictionPercentageModel'' (common @ [(''value'', val)]))
        else if ty = JString ''ClaimCount'' then bindr (toClaimRestrictionValueModel val) (\<lambda>v.
          Inr (JInstance ''TransferRestrictionClaimCountModel'' (common @ [(''value'', v)])))
        else if ty = JString ''ClaimPercentage'' then bindr (toClaimRestrictionValueModel val) (\<lambda>v.
          Inr (JInstance ''TransferRestrictionClaimPercentageModel'' (common @ [(''value'', v)])))
        else Inr restriction)"

definition transfer_restrictions_model :: "js_value \<Rightarrow> js_value result" where
  "transfer_restrictions_model model =
     bindr (get model ''paused'') (\<lambda>paused. bindr (js_map toTransferRestrictionModel (field model ''restrictions'')) (\<lambda>rs.
     Inr (JInstance ''TransferRestrictionsModel'' [(''paused'', paused), (''restrictions'', rs)])))"

definition agent_operation_model :: "js_value \<Rightarrow> js_value result" where
  "agent_operation_model v =
     bindr (get v ''identity'') (\<lambda>identity. bindr (get identity ''did'') (\<lambda>did.
     bindr (js_map (model_of ''EventIdentifierModel'') (field v ''history'')) (\<lambda>history.
     Inr (JInstance ''AgentOperationModel'' [(''did'', did), (''history'', history)]))))"

section \<open>Metadata, subsidies, tickers, offerings and dividends\<close>

definition createMetadataDetailsModel :: "sdk_entities \<Rightarrow> js_value \<Rightarrow> js_value result" where
  "createMetadataDetailsModel E metadataEntry =
     bindr (get metadataEntry ''asset'') (\<lambda>asset. bindr (get asset ''id'') (\<lambda>assetId.
     bindr (meth E metadataEntry ''details'') (\<lambda>details.
     bindr (meth E metadataEntry ''value'') (\<lambda>valueDetails.
     bindr (get details ''name'') (\<lambda>name.
     let lockStatus = field valueDetails ''lockStatus'';
         metadataValue = (if truthy valueDetails
           then JInstance ''MetadataValueModel'' [(''value'', field valueDetails ''value''), (''expiry'', field valueDetails ''expiry''),
             (''lockStatus'', lockStatus), (''lockedUntil'', if lockStatus = JString ''LockedUntil'' then field valueDetails ''lockedUntil'' else JUndefined)]
           else JNull)
     in Inr (JInstance ''MetadataDetailsModel'' [(''id'', field metadataEntry ''id''), (''type'', field metadataEntry ''type''),
          (''asset'', assetId), (''name'', name), (''specs'', field details ''specs''), (''value'', metadataValue)]))))))"

definition createSubsidyModel :: "js_value \<Rightarrow> js_value result" where
  "createSubsidyModel s =
     bindr (get s ''subsidy'') (\<lambda>subsidy. bindr (get subsidy ''beneficiary'') (\<lambda>b. bindr (get b ''address'') (\<lambda>beneficiaryAddress.
     bindr (get (field subsidy ''subsidizer'') ''address'') (\<lambda>subsidizerAddress.
     Inr (JInstance ''SubsidyModel'' [(''beneficiary'', account_model beneficiaryAddress), (''subsidizer'', account_model subsidizerAddress),
       (''allowance'', field s ''allowance'')])))))"

definition createTickerReservationModel :: "sdk_entities \<Rightarrow> js_value \<Rightarrow> js_value result" where
  "createTickerReservationModel E tickerReservation =
     bindr (meth E tickerReservation ''details'') (\<lambda>d.
     bindr (picks d [''owner'', ''expiryDate'', ''status'']) (\<lambda>es. Inr (JInstance ''TickerReservationModel'' es)))"

definition createOfferingDetailsModel :: "sdk_entities \<Rightarrow> js_value \<Rightarrow> js_value result" where
  "createOfferingDetailsModel E offeringWithDetails =
     bindr (get offeringWithDetails ''offering'') (\<lambda>offering. bindr (get offering ''id'') (\<lambda>i.
     bindr (get (field offeringWithDetails ''details'') ''tiers'') (\<lambda>tiers.
     bindr (js_map (model_of ''TierModel'') tiers) (\<lambda>tierModels.
     let details = field offeringWithDetails ''details''
     in bindr (createPortfolioIdentifierModel E (field details ''offeringPortfolio'')) (\<lambda>offeringPortfolio.
        bindr (createPortfolioIdentifierModel E (field details ''raisingPortfolio'')) (\<lambda>raisingPortfolio.
        Inr (JInstance ''OfferingDetailsModel'' (object_assign
          [(''id'', i), (''tiers'', tierModels), (''offeringPortfolio'', offeringPortfolio), (''raisingPortfolio'', raisingPortfolio)]
          (rest_without [''tiers'', ''raisingPortfolio'', ''offeringPortfolio''] details)))))))))"

definition corporate_action_keys :: "string list" where
  "corporate_action_keys = [''id'', ''asset'', ''declarationDate'', ''description'', ''targets'', ''taxWithholdings'', ''defaultTaxWithholding'']"

definition dividend_fields :: "sdk_entities \<Rightarrow> js_value \<Rightarrow> (string \<times> js_value) list result" where
  "dividend_fields E distribution =
     bindr (get distribution ''asset'') (\<lambda>asset. bindr (get asset ''id'') (\<lambda>assetId.
     bindr (createPortfolioIdentifierModel E (field distribution ''origin'')) (\<lambda>origin.
     Inr ([(''origin'', origin)] @ map (\<lambda>k. (k, field distribution k)) [''currency'', ''perShare'', ''maxAmount'', ''expiryDate'', ''paymentDate'', ''id'']
       @ [(''asset'', assetId)] @ map (\<lambda>k. (k, field distribution k)) [''declarationDate'', ''description'', ''targets'', ''defaultTaxWithholding'', ''taxWithholdings'']))))"

definition createDividendDistributionModel :: "sdk_entities \<Rightarrow> js_value \<Rightarrow> js_value result" where
  "createDividendDistributionModel E distribution =
     bindr (dividend_fields E distribution) (\<lambda>es. Inr (derived_model ''DividendDistributionModel'' corporate_action_keys es))"

text \<open>
  \<open>{ ...model, ...details }\<close>, given to a constructor that passes all but \<open>remainingFunds\<close> and \<open>fundsReclaimed\<close> to the one above.
\<close>

definition createDividendDistributionDetailsModel :: "sdk_entities \<Rightarrow> js_value \<Rightarrow> js_value \<Rightarrow> js_value result" where
  "createDividendDistributionDetailsModel E distribution details =
     bindr (createDividendDistributionModel E distribution) (\<lambda>m.
     let es = object_assign (own_properties m) (own_properties details);
         base = rest_without [''remainingFunds'', ''fundsReclaimed''] (JObject es)
     in Inr (JInstance ''DividendDistributionDetailsModel''
          (own_properties (derived_model ''DividendDistributionModel'' corporate_action_keys base) @
           [(''remainingFunds'', field (JObject es) ''remainingFunds''), (''fundsReclaimed'', field (JObject es) ''fundsReclaimed'')])))"

section \<open>Instructions\<close>

definition leg_model :: "sdk_entities \<Rightarrow> js_value \<Rightarrow> js_value result" where
  "leg_model E leg =
     (if en_isOffChainLeg E leg
      then Inr (derived_model ''OffChainLegModel'' [''asset'', ''type''] (put_property ''type'' (JString ''offChain'') (own_properties leg)))
      else bindr (get leg ''asset'') (\<lambda>asset. bindr (get asset ''id'') (\<lambda>i.
           bindr (createPortfolioIdentifierModel E (field leg ''from'')) (\<lambda>f.
           bindr (createPortfolioIdentifierModel E (field leg ''to'')) (\<lambda>t.
           let common = [(''asset'', i), (''type'', JString ''onChain''), (''from'', f), (''to'', t)]
           in if key_in ''amount'' leg then Inr (JInstance ''LegModel'' (common @ [(''amount'', field leg ''amount'')]))
              else bindr (js_map (\<lambda>n. get n ''id'') (field leg ''nfts'')) (\<lambda>nfts. Inr (JInstance ''LegModel'' (common @ [(''nfts'', nfts)]))))))))"

text \<open>Every model is an object, so the filter that follows keeps all of them.\<close>

definition legsToLegModel :: "sdk_entities \<Rightarrow> js_value \<Rightarrow> js_value result" where
  "legsToLegModel E legs = (case legs of
      JArray [] \<Rightarrow> Inr (JArray [])
    | JArray ls \<Rightarrow> bindr (sequence (map (leg_model E) ls)) (\<lambda>ms. Inr (JArray (filter truthy ms)))
    | _ \<Rightarrow> Inl js_type_error)"

definition mediator_model :: "js_value \<Rightarrow> js_value result" where
  "mediator_model mediator =
     bindr (get mediator ''status'') (\<lambda>st. bindr (get (field mediator ''identity'') ''did'') (\<lambda>did.
     Inr (JObject [(''status'', st), (''identity'', did), (''expiry'', field mediator ''expiry'')])))"

text \<open>\<open>if (v !== null) params = { ...params, k: v }\<close>\<close>

definition unless_null :: "string \<Rightarrow> js_value \<Rightarrow> (string \<times> js_value) list" where
  "unless_null k v = (if v = JNull then [] else [(k, v)])"

definition createInstructionModel :: "sdk_entities \<Rightarrow> js_value \<Rightarrow> js_value result" where
  "createInstructionModel E instruction =
     bindr (meth E instruction ''details'') (\<lambda>details.
     bindr (meth E instruction ''getLegs'') (\<lambda>legsResultSet.
     bindr (meth E instruction ''getStatus'') (\<lambda>instructionStatus.
     bindr (meth E instruction ''getMediators'') (\<lambda>mediators.
     bindr (get details ''status'') (\<lambda>st.
     bindr (get legsResultSet ''data'') (\<lambda>ls. bindr (legsToLegModel E ls) (\<lambda>legs.
     bindr (js_map mediator_model mediators) (\<lambda>mediatorModels.
     let ty = field details ''type''; venue = field details ''venue''
     in bindr (if venue = JNull then Inr [] else bindr (get venue ''id'') (\<lambda>i. Inr [(''venue'', i)])) (\<lambda>venues.
        bindr (get instructionStatus ''status'') (\<lambda>current.
        Inr (JInstance ''InstructionModel''
          ([(''status'', st), (''type'', ty), (''legs'', legs), (''mediators'', mediatorModels)] @ venues @
           unless_null ''createdAt'' (field details ''createdAt'') @ unless_null ''valueDate'' (field details ''valueDate'') @
           unless_null ''tradeDate'' (field details ''tradeDate'') @ unless_null ''memo'' (field details ''memo'') @
           (if ty = JString ''SettleOnBlock'' then [(''endBlock'', field details ''endBlock'')] else []) @
           (if ty = JString ''SettleManual'' then [(''endAfterBlock'', field details ''endAfterBlock'')] else []) @
           (if current \<noteq> JString ''Pending''
            then [(''eventIdentifier'', JInstance ''EventIdentifierModel'' (own_properties (field instructionStatus ''eventIdentifier'')))]
            else [])))))))))))))"

end
