(* ===== verification/Controllers.thy ===== *)
theory Controllers
  imports Models
begin

text \<open>
  The controllers of accounts, assets, authorizations, checkpoints, claims, compliance and identities: each handler calls services and
  makes the response of what they answer. \<open>respond\<close> is \<open>handleServiceResult\<close> with a resolver that may look up more, which is what the
  controllers give it. The result of a dry run is an empty object, on which a resolver that calls a method fails.

  A query handler answers the value to be serialized. \<open>NotFoundReply\<close> and \<open>NoContent\<close> are the responses a handler gives without a value:
  throwing a \<open>NotFoundException\<close> of Nest, and the status 204.
\<close>

section \<open>Responses\<close>

datatype created = Created string "tx_model list" details "(string \<times> js_value) list"

type_synonym ('s, 'n, 'r, 't, 'e) resolver = "js_value \<Rightarrow> tx_model list \<Rightarrow> details \<Rightarrow> ('s, 'n, 'r, 't, 'e, created) service"

definition resolved_result :: "js_value option \<Rightarrow> js_value" where
  "resolved_result r = (case r of Some v \<Rightarrow> v | None \<Rightarrow> JObject [])"

fun respond ::
    "js_value submit_response \<Rightarrow> ('s, 'n, 'r, 't, 'e) resolver option \<Rightarrow> ('s, 'n, 'r, 't, 'e, created transaction_response) service" where
  "respond (DirectResult r ts d) (Some f) = andThen (f (resolved_result r) ts d) (\<lambda>m. ret (ResolvedModel m))"
| "respond r _ = ret (handleServiceResult r None)"

type_synonym ('s, 'n, 'r, 't, 'e) handled = "('s, 'n, 'r, 't, 'e, created transaction_response) service"

definition answer :: "('s, 'n, 'r, 't, 'e, js_value submit_response) service \<Rightarrow> ('s, 'n, 'r, 't, 'e) handled" where
  "answer m = andThen m (\<lambda>r. respond r None)"

definition answer_with ::
    "('s, 'n, 'r, 't, 'e) resolver \<Rightarrow> ('s, 'n, 'r, 't, 'e, js_value submit_response) service \<Rightarrow> ('s, 'n, 'r, 't, 'e) handled" where
  "answer_with f m = andThen m (\<lambda>r. respond r (Some f))"

text \<open>A resolver that makes a model of the result, for the field \<open>k\<close> of the class \<open>cls\<close>.\<close>

definition resolve_as :: "string \<Rightarrow> string \<Rightarrow> (js_value \<Rightarrow> js_value result) \<Rightarrow> ('s, 'n, 'r, 't, 'e) resolver" where
  "resolve_as cls k f r ts d = andThen (lift_result (f r)) (\<lambda>v. ret (Created cls ts d [(k, v)]))"

definition authorizationRequestResolver :: "sdk_entities \<Rightarrow> ('s, 'n, 'r, 't, 'e) resolver" where
  "authorizationRequestResolver E =
     resolve_as ''CreatedAuthorizationRequestModel'' ''authorizationRequest'' (createAuthorizationRequestModel E)"

definition createIdentityResolver :: "sdk_entities \<Rightarrow> ('s, 'n, 'r, 't, 'e) resolver" where
  "createIdentityResolver E = resolve_as ''CreatedIdentityModel'' ''identity'' (createIdentityModel E)"

datatype reply = Answer js_value | NotFoundReply string | NoContent

type_synonym ('s, 'n, 'r, 't, 'e) queried = "('s, 'n, 'r, 't, 'e, js_value) service"

definition made_of :: "(js_value \<Rightarrow> js_value result) \<Rightarrow> ('s, 'n, 'r, 't, 'e) queried \<Rightarrow> ('s, 'n, 'r, 't, 'e) queried" where
  "made_of f m = andThen m (\<lambda>v. lift_result (f v))"

definition results_model :: "js_value \<Rightarrow> js_value" where
  "results_model results = JInstance ''ResultsModel'' [(''results'', results)]"

definition results_of :: "(js_value \<Rightarrow> js_value result) \<Rightarrow> js_value \<Rightarrow> js_value result" where
  "results_of f v = bindr (js_map f v) (\<lambda>rs. Inr (results_model rs))"

definition page_model :: "js_value \<Rightarrow> js_value \<Rightarrow> js_value \<Rightarrow> js_value" where
  "page_model results n_total next_page = JInstance ''PaginatedResultsModel'' [(''results'', results), (''total'', n_total), (''next'', next_page)]"

definition paginated :: "(js_value \<Rightarrow> js_value result) \<Rightarrow> js_value \<Rightarrow> js_value result" where
  "paginated f r = bindr (get r ''data'') (\<lambda>items. bindr (js_map f items) (\<lambda>results.
     Inr (page_model results (field r ''count'') (field r ''next''))))"

definition pick_model :: "string \<Rightarrow> string list \<Rightarrow> js_value \<Rightarrow> js_value result" where
  "pick_model cls ks v = bindr (picks v ks) (\<lambda>es. Inr (JInstance cls es))"

definition identity_balance :: "js_value \<Rightarrow> js_value result" where
  "identity_balance v = bindr (get v ''identity'') (\<lambda>identity. bindr (get identity ''did'') (\<lambda>did.
     Inr (JInstance ''IdentityBalanceModel'' [(''identity'', did), (''balance'', field v ''balance'')])))"

text \<open>What the entities the services hand on look like to a model, and a time in milliseconds as a date.\<close>

record entity_views =
  vw_asset :: "asset \<Rightarrow> js_value"
  vw_identity :: "identity \<Rightarrow> js_value"
  vw_auth_request :: "auth_request \<Rightarrow> js_value"
  vw_ticker :: "ticker_reservation \<Rightarrow> js_value"
  vw_restrictions :: "transfer_restriction list \<Rightarrow> js_value"
  vw_date :: "int \<Rightarrow> js_value"
  vw_unbound :: "js_value \<Rightarrow> string \<Rightarrow> js_value result"

section \<open>Assets\<close>

definition ctl_getGlobalMetadataKeys :: "metadata_api \<Rightarrow> ('s, 'n, 'r, 't, 'e) queried" where
  "ctl_getGlobalMetadataKeys D = made_of (js_map (model_of ''GlobalMetadataModel'')) (findGlobalKeys D)"

definition ctl_getDetails ::
    "('s, 'n, 'r, 't, 'e) service_env \<Rightarrow> sdk_entities \<Rightarrow> entity_views \<Rightarrow> string \<Rightarrow> ('s, 'n, 'r, 't, 'e) queried" where
  "ctl_getDetails V E W i = andThen (assets_findOne V i) (\<lambda>a. lift_result (createAssetDetailsModel E (vw_asset W a)))"

definition ctl_getHolders ::
    "('s, 'n, 'r, 't, 'e) service_env \<Rightarrow> string \<Rightarrow> big_number \<Rightarrow> string option \<Rightarrow> ('s, 'n, 'r, 't, 'e) queried" where
  "ctl_getHolders V i pageSize start = made_of (paginated identity_balance) (assets_findHolders V i pageSize start)"

definition ctl_getDocuments ::
    "('s, 'n, 'r, 't, 'e) service_env \<Rightarrow> string \<Rightarrow> big_number \<Rightarrow> string option \<Rightarrow> ('s, 'n, 'r, 't, 'e) queried" where
  "ctl_getDocuments V i pageSize start =
     made_of (paginated (pick_model ''AssetDocumentModel'' [''name'', ''uri'', ''contentHash'', ''type'', ''filedAt'']))
       (assets_findDocuments V i pageSize start)"

type_synonym ('s, 'n, 'r, 't, 'e, 'args) asset_handler =
  "('s, 'n, 'r, 't, 'e) service_env \<Rightarrow> string \<Rightarrow> 'args transaction_base \<Rightarrow> ('s, 'n, 'r, 't, 'e) handled"

definition ctl_setDocuments :: "('s, 'n, 'r, 't, 'e, js_value) asset_handler" where
  "ctl_setDocuments V i params = answer (setDocuments V i params)"

definition ctl_enableVenueFiltering :: "('s, 'n, 'r, 't, 'e, js_value) asset_handler" where
  "ctl_enableVenueFiltering V i params = answer (enableVenueFiltering V i params)"

definition ctl_disableVenueFiltering :: "('s, 'n, 'r, 't, 'e, js_value) asset_handler" where
  "ctl_disableVenueFiltering V i params = answer (disableVenueFiltering V i params)"

definition ctl_allowVenues :: "('s, 'n, 'r, 't, 'e, js_value) asset_handler" where
  "ctl_allowVenues V i params = answer (allowVenues V i params)"

definition ctl_disallowVenues :: "('s, 'n, 'r, 't, 'e, js_value) asset_handler" where
  "ctl_disallowVenues V i params = answer (disallowVenues V i params)"

definition ctl_getVenueFilteringDetails :: "('s, 'n, 'r, 't, 'e) service_env \<Rightarrow> string \<Rightarrow> ('s, 'n, 'r, 't, 'e) queried" where
  "ctl_getVenueFilteringDetails V i = andThen (getVenueFilteringDetails V i) (\<lambda>(isEnabled, allowedVenues, disallowedVenues).
     ret (JInstance ''VenueFilteringDetailsModel'' [(''isEnabled'', JBool isEnabled), (''allowedVenues'', JArray (map JBig allowedVenues)),
       (''disallowedVenues'', JArray (map JBig disallowedVenues))]))"

definition ctl_issue :: "('s, 'n, 'r, 't, 'e, js_value) asset_handler" where
  "ctl_issue V i params = answer (issue V i params)"

definition ctl_createAsset ::
    "('s, 'n, 'r, 't, 'e) service_env \<Rightarrow> js_value transaction_base \<Rightarrow> ('s, 'n, 'r, 't, 'e) handled" where
  "ctl_createAsset V params = answer_with (resolve_as ''CreatedAssetModel'' ''asset'' Inr) (assets_createAsset V params)"

definition ctl_transferOwnership :: "sdk_entities \<Rightarrow> ('s, 'n, 'r, 't, 'e, js_value) asset_handler" where
  "ctl_transferOwnership E V i params = answer_with (authorizationRequestResolver E) (transferOwnership V i params)"

definition ctl_redeem :: "('s, 'n, 'r, 't, 'e, js_value) asset_handler" where
  "ctl_redeem V i params = answer (redeem V i params)"

definition ctl_freeze :: "('s, 'n, 'r, 't, 'e, js_value) asset_handler" where
  "ctl_freeze V i params = answer (freeze V i params)"

definition ctl_unfreeze :: "('s, 'n, 'r, 't, 'e, js_value) asset_handler" where
  "ctl_unfreeze V i params = answer (unfreeze V i params)"

definition ctl_controllerTransfer :: "('s, 'n, 'r, 't, 'e, controller_transfer_args) asset_handler" where
  "ctl_controllerTransfer V i params = answer (controllerTransfer V i params)"

definition ctl_getOperationHistory :: "('s, 'n, 'r, 't, 'e) service_env \<Rightarrow> string \<Rightarrow> ('s, 'n, 'r, 't, 'e) queried" where
  "ctl_getOperationHistory V i = made_of (js_map agent_operation_model) (getOperationHistory V i)"

definition ctl_getRequiredMediators :: "('s, 'n, 'r, 't, 'e) service_env \<Rightarrow> string \<Rightarrow> ('s, 'n, 'r, 't, 'e) queried" where
  "ctl_getRequiredMediators V i = andThen (getRequiredMediators V i) (\<lambda>mediatorIdentities.
     ret (JInstance ''RequiredMediatorsModel'' [(''mediators'', JArray (map (\<lambda>d. JString (idn_did d)) mediatorIdentities))]))"

definition ctl_addRequiredMediators :: "('s, 'n, 'r, 't, 'e, js_value) asset_handler" where
  "ctl_addRequiredMediators V i params = answer (addRequiredMediators V i params)"

definition ctl_removeRequiredMediators :: "('s, 'n, 'r, 't, 'e, js_value) asset_handler" where
  "ctl_removeRequiredMediators V i params = answer (removeRequiredMediators V i params)"

definition ctl_preApprove :: "('s, 'n, 'r, 't, 'e, js_value) asset_handler" where
  "ctl_preApprove V i params = answer (preApprove V i params)"

definition ctl_removePreApproval :: "('s, 'n, 'r, 't, 'e, js_value) asset_handler" where
  "ctl_removePreApproval V i params = answer (removePreApproval V i params)"

definition ctl_linkTicker :: "('s, 'n, 'r, 't, 'e, js_value) asset_handler" where
  "ctl_linkTicker V i params = answer (linkTickerToAsset V i params)"

definition ctl_unlinkTicker :: "('s, 'n, 'r, 't, 'e, js_value) asset_handler" where
  "ctl_unlinkTicker V i params = answer (unlinkTickerFromAsset V i params)"

definition ctl_getTransferRestrictions ::
    "('s, 'n, 'r, 't, 'e) service_env \<Rightarrow> entity_views \<Rightarrow> string \<Rightarrow> ('s, 'n, 'r, 't, 'e) queried" where
  "ctl_getTransferRestrictions V W i =
     andThen (getTransferRestrictions V i) (\<lambda>rs. lift_result (transfer_restrictions_model (vw_restrictions W rs)))"

definition ctl_getTransferRestrictionValues ::
    "('s, 'n, 'r, 't, 'e) service_env \<Rightarrow> string \<Rightarrow> ('s, 'n, 'r, 't, 'e) queried" where
  "ctl_getTransferRestrictionValues V i =
     made_of (js_map (restriction_value_model (sv_bignumber V))) (getTransferRestrictionValues V i)"

definition ctl_setTransferRestrictions :: "('s, 'n, 'r, 't, 'e, restriction_dto list) asset_handler" where
  "ctl_setTransferRestrictions V i params = answer (setTransferRestrictions V i params)"

definition ctl_addTransferRestrictions :: "('s, 'n, 'r, 't, 'e, restriction_dto list) asset_handler" where
  "ctl_addTransferRestrictions V i params = answer (addTransferRestrictions V i params)"

definition ctl_removeTransferRestrictions ::
    "('s, 'n, 'r, 't, 'e) service_env \<Rightarrow> string \<Rightarrow> transaction_options \<Rightarrow> ('s, 'n, 'r, 't, 'e) handled" where
  "ctl_removeTransferRestrictions V i options = answer (removeTransferRestrictions V i options)"

definition ctl_getStats :: "('s, 'n, 'r, 't, 'e) service_env \<Rightarrow> string \<Rightarrow> ('s, 'n, 'r, 't, 'e) queried" where
  "ctl_getStats V i = made_of (js_map asset_stat_model) (getStats V i)"

definition ctl_setStats :: "('s, 'n, 'r, 't, 'e, js_value list) asset_handler" where
  "ctl_setStats V i params = answer (setStats V i params)"

section \<open>Identities\<close>

type_synonym ('s, 'n, 'r, 't, 'e, 'args) handler =
  "('s, 'n, 'r, 't, 'e) service_env \<Rightarrow> sdk_entities \<Rightarrow> identity_api \<Rightarrow> 'args transaction_base \<Rightarrow> ('s, 'n, 'r, 't, 'e) handled"

definition ctl_registerIdentity :: "('s, 'n, 'r, 't, 'e, js_value) handler" where
  "ctl_registerIdentity V E A params = answer_with (createIdentityResolver E) (registerDid V A params)"

definition ctl_getIdentityDetails ::
    "sdk_entities \<Rightarrow> entity_views \<Rightarrow> identity_api \<Rightarrow> string \<Rightarrow> ('s, 'n, 'r, 't, 'e) queried" where
  "ctl_getIdentityDetails E W A did = andThen (identity_findOne A did) (\<lambda>d. lift_result (createIdentityModel E (vw_identity W d)))"

text \<open>The method \<open>isExpired\<close> is taken off its request before it is called.\<close>

definition still_pending :: "entity_views \<Rightarrow> js_value \<Rightarrow> js_value \<Rightarrow> js_value \<Rightarrow> bool result" where
  "still_pending W includeExpired ty request =
     bindr (get (field request ''data'') ''type'') (\<lambda>authType.
     bindr (if truthy includeExpired then Inr True
            else bindr (vw_unbound W request ''isExpired'') (\<lambda>x. Inr (\<not> truthy x))) (\<lambda>current.
     Inr (current \<and> (\<not> truthy ty \<or> ty = authType))))"

fun filter_result :: "('a \<Rightarrow> bool result) \<Rightarrow> 'a list \<Rightarrow> 'a list result" where
  "filter_result f [] = Inr []"
| "filter_result f (x # xs) = bindr (f x) (\<lambda>b. bindr (filter_result f xs) (\<lambda>ys. Inr (if b then x # ys else ys)))"

definition pending_sent :: "entity_views \<Rightarrow> js_value \<Rightarrow> js_value \<Rightarrow> js_value \<Rightarrow> js_value result" where
  "pending_sent W includeExpired ty issued =
     bindr (get issued ''data'') (\<lambda>sent. case sent of
       JArray rs \<Rightarrow> bindr (filter_result (still_pending W includeExpired ty) rs) (\<lambda>rs'. Inr (JArray rs'))
     | _ \<Rightarrow> Inl js_type_error)"

definition ctl_getPendingAuthorizations ::
    "sdk_entities \<Rightarrow> entity_views \<Rightarrow> identity_api \<Rightarrow> string \<Rightarrow> js_value \<Rightarrow> js_value \<Rightarrow> ('s, 'n, 'r, 't, 'e) queried" where
  "ctl_getPendingAuthorizations E W A did ty includeExpired =
     andThen (findPendingByDid A did includeExpired ty) (\<lambda>pending.
     andThen (findIssuedByDid A did) (\<lambda>issued.
     andThen (lift_result (pending_sent W includeExpired ty issued)) (\<lambda>sent.
     andThen (lift_result (js_map (createAuthorizationRequestModel E) pending)) (\<lambda>received.
     andThen (lift_result (js_map (createAuthorizationRequestModel E) sent)) (\<lambda>sentModels.
     ret (JInstance ''PendingAuthorizationsModel'' [(''received'', received), (''sent'', sentModels)]))))))"

definition ctl_getPendingAuthorization ::
    "sdk_entities \<Rightarrow> entity_views \<Rightarrow> identity_api \<Rightarrow> string \<Rightarrow> big_number \<Rightarrow> ('s, 'n, 'r, 't, 'e) queried" where
  "ctl_getPendingAuthorization E W A did i = andThen (findOneByDid A did i) (\<lambda>r.
     lift_result (createAuthorizationRequestModel E (vw_auth_request W r)))"

definition ctl_getAssets :: "('s, 'n, 'r, 't, 'e) service_env \<Rightarrow> string \<Rightarrow> ('s, 'n, 'r, 't, 'e) queried" where
  "ctl_getAssets V did = andThen (assets_findAllByOwner V did) (\<lambda>results. ret (results_model results))"

text \<open>\<open>new BigNumber(start || 0)\<close>\<close>

definition start_number :: "bignumber \<Rightarrow> js_value \<Rightarrow> js_value" where
  "start_number B start = JBig (bn_new B (if truthy start then start else JNumber (JRat 0)))"

definition ctl_getHeldAssets ::
    "('s, 'n, 'r, 't, 'e) service_env \<Rightarrow> identity_api \<Rightarrow> string \<Rightarrow> js_value \<Rightarrow> js_value \<Rightarrow> ('s, 'n, 'r, 't, 'e) queried" where
  "ctl_getHeldAssets V A did pageSize start =
     made_of (paginated (\<lambda>v. get v ''id'')) (findHeldAssets A did pageSize (start_number (sv_bignumber V) start))"

definition ctl_getPendingInstructions :: "identity_api \<Rightarrow> string \<Rightarrow> ('s, 'n, 'r, 't, 'e) queried" where
  "ctl_getPendingInstructions A did = made_of (\<lambda>v. bindr (get v ''pending'') (results_of (\<lambda>x. get x ''id''))) (findGroupedInstructionsByDid A did)"

definition ctl_getVenues :: "identity_api \<Rightarrow> string \<Rightarrow> ('s, 'n, 'r, 't, 'e) queried" where
  "ctl_getVenues A did = andThen (findVenuesByOwner A did) (\<lambda>results. ret (results_model results))"

definition claim_model :: "js_value \<Rightarrow> js_value result" where
  "claim_model = pick_model ''ClaimModel'' [''issuedAt'', ''expiry'', ''claim'', ''target'', ''issuer'']"

text \<open>The fields of the page come in another order than in \<open>paginated\<close>.\<close>

definition ctl_getIssuedClaims ::
    "('s, 'n, 'r, 't, 'e) service_env \<Rightarrow> claims_api \<Rightarrow> string \<Rightarrow> js_value \<Rightarrow> js_value \<Rightarrow> js_value \<Rightarrow> ('s, 'n, 'r, 't, 'e) queried" where
  "ctl_getIssuedClaims V L did pageSize start includeExpired =
     made_of (\<lambda>r. bindr (get r ''data'') (\<lambda>items. bindr (js_map claim_model items) (\<lambda>claimsData.
         Inr (JInstance ''PaginatedResultsModel'' [(''results'', claimsData), (''next'', field r ''next''), (''total'', field r ''count'')]))))
       (claims_findIssuedByDid L did includeExpired pageSize (start_number (sv_bignumber V) start))"

definition ctl_getAssociatedClaims ::
    "('s, 'n, 'r, 't, 'e) service_env \<Rightarrow> claims_api \<Rightarrow> string \<Rightarrow> js_value \<Rightarrow> js_value \<Rightarrow> js_value \<Rightarrow> js_value \<Rightarrow> ('s, 'n, 'r, 't, 'e) queried" where
  "ctl_getAssociatedClaims V L did pageSize start claimTypes includeExpired =
     made_of (\<lambda>r. bindr (get r ''data'') (results_of claim_model))
       (findAssociatedByDid L did JUndefined claimTypes includeExpired pageSize (start_number (sv_bignumber V) start))"

definition ctl_getTrustingAssets :: "identity_api \<Rightarrow> string \<Rightarrow> ('s, 'n, 'r, 't, 'e) queried" where
  "ctl_getTrustingAssets A did = andThen (findTrustingAssets A did) (\<lambda>results. ret (results_model results))"

definition ctl_addSecondaryAccount :: "('s, 'n, 'r, 't, 'e, js_value) handler" where
  "ctl_addSecondaryAccount V E A params = answer_with (authorizationRequestResolver E) (addSecondaryAccount V A params)"

definition ctl_getTickerReservations :: "entity_views \<Rightarrow> ticker_api \<Rightarrow> string \<Rightarrow> ('s, 'n, 'r, 't, 'e) queried" where
  "ctl_getTickerReservations W T did = andThen (tickers_findAllByOwner T did) (\<lambda>rs. ret (results_model (JArray (map (vw_ticker W) rs))))"

text \<open>Here the answer is a plain object with the results.\<close>

definition ctl_getCddClaims :: "claims_api \<Rightarrow> string \<Rightarrow> js_value \<Rightarrow> ('s, 'n, 'r, 't, 'e) queried" where
  "ctl_getCddClaims L did includeExpired =
     made_of (\<lambda>v. bindr (js_map (model_of ''ClaimModel'') v) (\<lambda>rs. Inr (JObject [(''results'', rs)]))) (findCddClaimsByDid L did includeExpired)"

definition ctl_getClaimScopes :: "claims_api \<Rightarrow> string \<Rightarrow> ('s, 'n, 'r, 't, 'e) queried" where
  "ctl_getClaimScopes L did = made_of (results_of (model_of ''ClaimScopeModel'')) (findClaimScopesByDid L did)"

definition ctl_getGroupedInstructions :: "identity_api \<Rightarrow> string \<Rightarrow> ('s, 'n, 'r, 't, 'e) queried" where
  "ctl_getGroupedInstructions A did = made_of (model_of ''GroupedInstructionModel'') (findGroupedInstructionsByDid A did)"

definition ctl_rotatePrimaryKey :: "('s, 'n, 'r, 't, 'e, js_value) handler" where
  "ctl_rotatePrimaryKey V E A params = answer_with (authorizationRequestResolver E) (rotatePrimaryKey V A params)"

definition ctl_attestPrimaryKeyRotation :: "string \<Rightarrow> ('s, 'n, 'r, 't, 'e, js_value) handler" where
  "ctl_attestPrimaryKeyRotation did V E A params =
     answer_with (authorizationRequestResolver E) (attestPrimaryKeyRotation did V A params)"

definition ctl_getIsAssetPreApproved :: "identity_api \<Rightarrow> string \<Rightarrow> string \<Rightarrow> ('s, 'n, 'r, 't, 'e) queried" where
  "ctl_getIsAssetPreApproved A did asset = andThen (isAssetPreApproved A did asset) (\<lambda>isPreApproved.
     ret (JInstance ''PreApprovedModel'' [(''asset'', JString asset), (''did'', JString did), (''isPreApproved'', JBool isPreApproved)]))"

definition ctl_getPreApprovedAssets ::
    "identity_api \<Rightarrow> string \<Rightarrow> js_value \<Rightarrow> js_value \<Rightarrow> ('s, 'n, 'r, 't, 'e) queried" where
  "ctl_getPreApprovedAssets A did pageSize start =
     made_of (paginated (\<lambda>v. bindr (get v ''id'') (\<lambda>i.
         Inr (JInstance ''PreApprovedModel'' [(''asset'', i), (''did'', JString did), (''isPreApproved'', JBool True)]))))
       (getPreApprovedAssets A did pageSize start)"

definition distribution_details :: "sdk_entities \<Rightarrow> js_value \<Rightarrow> js_value result" where
  "distribution_details E v = bindr (get v ''distribution'') (\<lambda>d. createDividendDistributionDetailsModel E d (field v ''details''))"

definition ctl_getPendingDistributions :: "sdk_entities \<Rightarrow> identity_api \<Rightarrow> string \<Rightarrow> ('s, 'n, 'r, 't, 'e) queried" where
  "ctl_getPendingDistributions E A did = made_of (results_of (distribution_details E)) (getPendingDistributions A did)"

definition ctl_getAssetPermissions :: "identity_api \<Rightarrow> string \<Rightarrow> ('s, 'n, 'r, 't, 'e) queried" where
  "ctl_getAssetPermissions A did = made_of (results_of (model_of ''AssetWithGroupModel'')) (findDidExternalAgentOf A did)"

section \<open>Accounts\<close>

definition ctl_getTreasuryBalance :: "network_api \<Rightarrow> ('s, 'n, 'r, 't, 'e) queried" where
  "ctl_getTreasuryBalance N = andThen (getTreasuryBalance N) (\<lambda>b. ret (JInstance ''TreasuryBalanceModel'' [(''balance'', JBig b)]))"

definition signer_of :: "identity option \<Rightarrow> reply" where
  "signer_of identity = (case identity of
      None \<Rightarrow> NotFoundReply ''No DID is associated with the given account''
    | Some d \<Rightarrow> Answer (identity_signer_model (JString (ie_did d))))"

definition ctl_getIdentity :: "identity_api \<Rightarrow> string \<Rightarrow> ('s, 'n, 'r, 't, 'e, reply) service" where
  "ctl_getIdentity A account = andThen (accounts_getIdentity A account) (\<lambda>identity. ret (signer_of identity))"

definition ctl_getAccountBalance :: "identity_api \<Rightarrow> string \<Rightarrow> ('s, 'n, 'r, 't, 'e) queried" where
  "ctl_getAccountBalance A account = made_of (model_of ''BalanceModel'') (getAccountBalance A account)"

definition ctl_transferPolyx :: "('s, 'n, 'r, 't, 'e, js_value) handler" where
  "ctl_transferPolyx V E A params = answer (transferPolyx V A params)"

definition extrinsic_model :: "js_value \<Rightarrow> js_value result" where
  "extrinsic_model v = bindr (get v ''txTag'') (\<lambda>transactionTag.
     Inr (JInstance ''ExtrinsicModel'' (put_property ''transactionTag'' transactionTag (rest_without [''txTag''] v))))"

definition ctl_getTransactionHistory :: "identity_api \<Rightarrow> string \<Rightarrow> js_value \<Rightarrow> ('s, 'n, 'r, 't, 'e) queried" where
  "ctl_getTransactionHistory A account filters = made_of (paginated extrinsic_model) (accounts_getTransactionHistory A account filters)"

definition ctl_getPermissions :: "sdk_entities \<Rightarrow> identity_api \<Rightarrow> string \<Rightarrow> ('s, 'n, 'r, 't, 'e) queried" where
  "ctl_getPermissions E A account = made_of (createPermissionsModel E) (accounts_getPermissions A account)"

definition ctl_getAccountSubsidy :: "identity_api \<Rightarrow> subsidy_api \<Rightarrow> string \<Rightarrow> ('s, 'n, 'r, 't, 'e, reply) service" where
  "ctl_getAccountSubsidy A Y account = andThen (getSubsidy A Y account) (\<lambda>r.
     if truthy r then andThen (lift_result (createSubsidyModel r)) (\<lambda>m. ret (Answer m)) else ret NoContent)"

definition ctl_freezeSecondaryAccounts :: "('s, 'n, 'r, 't, 'e, js_value) handler" where
  "ctl_freezeSecondaryAccounts V E A params = answer (freezeSecondaryAccounts V A params)"

definition ctl_unfreezeSecondaryAccounts :: "('s, 'n, 'r, 't, 'e, js_value) handler" where
  "ctl_unfreezeSecondaryAccounts V E A params = answer (unfreezeSecondaryAccounts V A params)"

definition ctl_revokePermissions :: "('s, 'n, 'r, 't, 'e, js_value) handler" where
  "ctl_revokePermissions V E A params = answer (revokePermissions V A params)"

definition ctl_modifyPermissions :: "('s, 'n, 'r, 't, 'e, js_value) handler" where
  "ctl_modifyPermissions V E A params = answer (modifyPermissions V A params)"

definition ctl_getTreasuryAccount :: "network_api \<Rightarrow> js_value" where
  "ctl_getTreasuryAccount N = account_model (JString (ac_address (getTreasuryAccount N)))"

definition multi_sig_details_model :: "sdk_entities \<Rightarrow> js_value \<Rightarrow> js_value result" where
  "multi_sig_details_model E d = bindr (get d ''signers'') (\<lambda>ss. bindr (js_map (createSignerModel E) ss) (\<lambda>signers.
     Inr (JInstance ''MultiSigDetailsModel'' [(''signers'', signers), (''requiredSignatures'', field d ''requiredSignatures'')])))"

definition ctl_getAccountDetails ::
    "sdk_entities \<Rightarrow> entity_views \<Rightarrow> identity_api \<Rightarrow> string \<Rightarrow> ('s, 'n, 'r, 't, 'e) queried" where
  "ctl_getAccountDetails E W A account = andThen (accounts_getDetails A account) (\<lambda>(identity, multiSigDetails).
     andThen (case identity of Some d \<Rightarrow> lift_result (createIdentityModel E (vw_identity W d)) | None \<Rightarrow> ret JUndefined) (\<lambda>identityModel.
     andThen (if truthy multiSigDetails then lift_result (multi_sig_details_model E multiSigDetails) else ret JUndefined) (\<lambda>multiSigModel.
     ret (JInstance ''AccountDetailsModel'' [(''identity'', identityModel), (''multiSig'', multiSigModel)]))))"

definition ctl_getOffChainReceipts :: "('s, 'n, 'r, 't, 'e) service_env \<Rightarrow> identity_api \<Rightarrow> string \<Rightarrow> ('s, 'n, 'r, 't, 'e) queried" where
  "ctl_getOffChainReceipts V A account = made_of (results_of (big_toString (sv_bignumber V))) (fetchOffChainReceipts A account)"

section \<open>Authorizations\<close>

definition ctl_accept :: "big_number \<Rightarrow> ('s, 'n, 'r, 't, 'e, js_value) handler" where
  "ctl_accept i V E A params = answer (authorizations_accept i V A params)"

definition ctl_remove :: "big_number \<Rightarrow> ('s, 'n, 'r, 't, 'e, js_value) handler" where
  "ctl_remove i V E A params = answer (authorizations_remove i V A params)"

end
