(* ===== verification/More_Controllers.thy ===== *)
theory More_Controllers
  imports Controllers
begin

text \<open>
  The controllers of checkpoints, claims, compliance, corporate actions, metadata, multi-signature accounts, the network, NFTs, offerings,
  permission groups, portfolios, settlements, venues, signing, subsidies, tickers and transactions.
\<close>

section \<open>Checkpoints\<close>

definition checkpoint_details :: "js_value \<Rightarrow> js_value \<Rightarrow> js_value \<Rightarrow> js_value" where
  "checkpoint_details i createdAt totalSupply =
     JInstance ''CheckpointDetailsModel'' [(''id'', i), (''createdAt'', createdAt), (''totalSupply'', totalSupply)]"

definition ctl_getCheckpoints ::
    "('s, 'n, 'r, 't, 'e) service_env \<Rightarrow> checkpoints_api \<Rightarrow> string \<Rightarrow> js_value \<Rightarrow> js_value \<Rightarrow> ('s, 'n, 'r, 't, 'e) queried" where
  "ctl_getCheckpoints V C asset pageSize start =
     made_of (paginated (\<lambda>v. bindr (get v ''checkpoint'') (\<lambda>c. bindr (get c ''id'') (\<lambda>i.
         Inr (checkpoint_details i (field v ''createdAt'') (field v ''totalSupply''))))))
       (checkpoints_findAllByAsset V C asset pageSize start)"

type_synonym ('s, 'n, 'r, 't, 'e) checkpoint_handler =
  "('s, 'n, 'r, 't, 'e) service_env \<Rightarrow> checkpoints_api \<Rightarrow> string \<Rightarrow> js_value transaction_base \<Rightarrow> ('s, 'n, 'r, 't, 'e) handled"

definition ctl_createCheckpoint :: "('s, 'n, 'r, 't, 'e) checkpoint_handler" where
  "ctl_createCheckpoint V C asset params =
     answer_with (resolve_as ''CreatedCheckpointModel'' ''checkpoint'' Inr) (createByAsset V C asset params)"

text \<open>\<open>{ schedule: { id, pendingPoints, expiryDate }, details }\<close>\<close>

definition schedule_model :: "string \<Rightarrow> js_value \<Rightarrow> js_value result" where
  "schedule_model asset v =
     bindr (get v ''schedule'') (\<lambda>schedule. bindr (get schedule ''id'') (\<lambda>i.
     Inr (JInstance ''CheckpointScheduleModel'' (object_assign
       [(''id'', i), (''asset'', JString asset), (''pendingPoints'', field schedule ''pendingPoints''), (''expiryDate'', field schedule ''expiryDate'')]
       (own_properties (field v ''details''))))))"

definition ctl_getSchedules :: "('s, 'n, 'r, 't, 'e) service_env \<Rightarrow> checkpoints_api \<Rightarrow> string \<Rightarrow> ('s, 'n, 'r, 't, 'e) queried" where
  "ctl_getSchedules V C asset = made_of (results_of (schedule_model asset)) (findSchedulesByAsset V C asset)"

text \<open>Here the identifier is the one of the request.\<close>

definition ctl_getSchedule ::
    "('s, 'n, 'r, 't, 'e) service_env \<Rightarrow> checkpoints_api \<Rightarrow> string \<Rightarrow> big_number \<Rightarrow> ('s, 'n, 'r, 't, 'e) queried" where
  "ctl_getSchedule V C asset i = andThen (findScheduleById V C asset i) (\<lambda>s.
     andThen (lift_result (get (sh_value s) ''schedule'')) (\<lambda>schedule.
     andThen (lift_result (get schedule ''pendingPoints'')) (\<lambda>pendingPoints.
     ret (JInstance ''CheckpointScheduleModel'' (object_assign
       [(''id'', JBig i), (''asset'', JString asset), (''pendingPoints'', pendingPoints), (''expiryDate'', field schedule ''expiryDate'')]
       (own_properties (field (sh_value s) ''details'')))))))"

text \<open>The schedule that was created is looked up by the number of the result; another value than a number is not modelled.\<close>

definition createdScheduleResolver :: "('s, 'n, 'r, 't, 'e) service_env \<Rightarrow> checkpoints_api \<Rightarrow> string \<Rightarrow> ('s, 'n, 'r, 't, 'e) resolver" where
  "createdScheduleResolver V C asset r ts d = andThen (lift_result (get r ''id'')) (\<lambda>i.
     case i of
       JBig createdScheduleId \<Rightarrow> andThen (findScheduleById V C asset createdScheduleId) (\<lambda>s.
         andThen (lift_result (schedule_model asset (sh_value s))) (\<lambda>schedule.
         ret (Created ''CreatedCheckpointScheduleModel'' ts d [(''schedule'', schedule)])))
     | _ \<Rightarrow> throw (IllTyped ''id''))"

definition ctl_createSchedule :: "('s, 'n, 'r, 't, 'e) checkpoint_handler" where
  "ctl_createSchedule V C asset params = answer_with (createdScheduleResolver V C asset) (createScheduleByAsset V C asset params)"

definition ctl_getCheckpointHolders ::
    "('s, 'n, 'r, 't, 'e) service_env \<Rightarrow> checkpoints_api \<Rightarrow> string \<Rightarrow> big_number \<Rightarrow> js_value \<Rightarrow> js_value \<Rightarrow> ('s, 'n, 'r, 't, 'e) queried" where
  "ctl_getCheckpointHolders V C asset i pageSize start = made_of (paginated identity_balance) (getHolders V C asset i pageSize start)"

definition ctl_getAssetBalance ::
    "('s, 'n, 'r, 't, 'e) service_env \<Rightarrow> checkpoints_api \<Rightarrow> string \<Rightarrow> string \<Rightarrow> big_number \<Rightarrow> ('s, 'n, 'r, 't, 'e) queried" where
  "ctl_getAssetBalance V C asset did i = getAssetBalance V C asset did i"

definition ctl_deleteSchedule :: "big_number \<Rightarrow> ('s, 'n, 'r, 't, 'e) checkpoint_handler" where
  "ctl_deleteSchedule i V C asset params = answer (deleteScheduleByAsset V C asset i params)"

definition ctl_getCheckpointsBySchedule ::
    "('s, 'n, 'r, 't, 'e) service_env \<Rightarrow> entity_views \<Rightarrow> checkpoints_api \<Rightarrow> string \<Rightarrow> big_number \<Rightarrow> ('s, 'n, 'r, 't, 'e) queried" where
  "ctl_getCheckpointsBySchedule V W C asset i = andThen (findCheckpointsByScheduleId V C asset i) (\<lambda>cs.
     lift_result (bindr (sequence (map (\<lambda>(c, createdAt, totalSupply). bindr (get (cp_value c) ''id'') (\<lambda>k.
       Inr (checkpoint_details k (vw_date W createdAt) (JBig totalSupply)))) cs)) (\<lambda>ms. Inr (JArray ms))))"

definition schedule_complexity :: "big_number \<Rightarrow> js_value \<Rightarrow> js_value result" where
  "schedule_complexity maxComplexity v = bindr (get v ''schedule'') (\<lambda>schedule. bindr (get schedule ''id'') (\<lambda>i.
     case field schedule ''pendingPoints'' of
       JArray ps \<Rightarrow> Inr (JInstance ''ScheduleComplexityModel'' [(''id'', i), (''maxComplexity'', JBig maxComplexity),
         (''currentComplexity'', JBig (BN (of_nat (length ps))))])
     | _ \<Rightarrow> Inl js_type_error))"

definition ctl_getComplexity :: "('s, 'n, 'r, 't, 'e) service_env \<Rightarrow> checkpoints_api \<Rightarrow> string \<Rightarrow> ('s, 'n, 'r, 't, 'e) queried" where
  "ctl_getComplexity V C asset = andThen (getComplexityForAsset V C asset) (\<lambda>(schedules, maxComplexity).
     lift_result (js_map (schedule_complexity maxComplexity) schedules))"

definition ctl_getPeriodComplexity ::
    "('s, 'n, 'r, 't, 'e) service_env \<Rightarrow> checkpoints_api \<Rightarrow> string \<Rightarrow> big_number \<Rightarrow> int option \<Rightarrow> int option \<Rightarrow> ('s, 'n, 'r, 't, 'e) queried" where
  "ctl_getPeriodComplexity V C asset i start until = andThen (getComplexityForPeriod V C asset i start until) (\<lambda>complexity.
     ret (JInstance ''PeriodComplexityModel'' [(''complexity'', JBig complexity)]))"

definition ctl_getCheckpoint ::
    "('s, 'n, 'r, 't, 'e) service_env \<Rightarrow> entity_views \<Rightarrow> checkpoints_api \<Rightarrow> string \<Rightarrow> big_number \<Rightarrow> ('s, 'n, 'r, 't, 'e) queried" where
  "ctl_getCheckpoint V W C asset i = andThen (checkpoints_findOne V C asset i) (\<lambda>c.
     andThen (lift_result (cp_createdAt c)) (\<lambda>createdAt. andThen (lift_result (cp_totalSupply c)) (\<lambda>totalSupply.
     ret (checkpoint_details (JBig i) (vw_date W createdAt) (JBig totalSupply)))))"

section \<open>Claims\<close>

type_synonym ('s, 'n, 'r, 't, 'e) claims_handler =
  "('s, 'n, 'r, 't, 'e) service_env \<Rightarrow> claims_api \<Rightarrow> js_value transaction_base \<Rightarrow> ('s, 'n, 'r, 't, 'e) handled"

definition ctl_addClaims :: "('s, 'n, 'r, 't, 'e) claims_handler" where
  "ctl_addClaims V L args = answer (addClaimsOnDid V L args)"

definition ctl_editClaims :: "('s, 'n, 'r, 't, 'e) claims_handler" where
  "ctl_editClaims V L args = answer (editClaimsOnDid V L args)"

definition ctl_revokeClaims :: "('s, 'n, 'r, 't, 'e) claims_handler" where
  "ctl_revokeClaims V L args = answer (revokeClaimsFromDid V L args)"

definition ctl_registerCustomClaimType :: "('s, 'n, 'r, 't, 'e) claims_handler" where
  "ctl_registerCustomClaimType V L args = answer (registerCustomClaimType V L args)"

definition custom_claim_type_did :: "js_value \<Rightarrow> js_value result" where
  "custom_claim_type_did v = bindr (get v ''did'') (\<lambda>did.
     Inr (JInstance ''CustomClaimTypeWithDid'' (put_property ''did'' did (own_properties v))))"

definition ctl_getCustomClaimTypes ::
    "('s, 'n, 'r, 't, 'e) service_env \<Rightarrow> claims_api \<Rightarrow> js_value \<Rightarrow> js_value \<Rightarrow> js_value \<Rightarrow> ('s, 'n, 'r, 't, 'e) queried" where
  "ctl_getCustomClaimTypes V L pageSize start dids = made_of (paginated custom_claim_type_did)
     (getRegisteredCustomClaimTypes L pageSize
       (JBig (bn_new (sv_bignumber V) (if given start then start else JNumber (JRat 0)))) dids)"

definition ctl_getCustomClaimType :: "claims_api \<Rightarrow> js_value \<Rightarrow> ('s, 'n, 'r, 't, 'e, reply) service" where
  "ctl_getCustomClaimType L identifier =
     andThen (case identifier of
         JBig n \<Rightarrow> getCustomClaimTypeById L n
       | JString s \<Rightarrow> getCustomClaimTypeByName L s
       | _ \<Rightarrow> throw (IllTyped ''identifier'')) (\<lambda>r.
     ret (if truthy r then Answer (JInstance ''CustomClaimTypeModel'' (own_properties r)) else NotFoundReply ''Custom claim type not found''))"

section \<open>Compliance\<close>

definition trusted_issuer :: "js_value \<Rightarrow> js_value result" where
  "trusted_issuer v = bindr (get v ''identity'') (\<lambda>identity. bindr (get identity ''did'') (\<lambda>did.
     Inr (JInstance ''TrustedClaimIssuerModel'' [(''did'', did), (''trustedFor'', field v ''trustedFor'')])))"

definition ctl_getComplianceRequirements :: "('s, 'n, 'r, 't, 'e) service_env \<Rightarrow> compliance_api \<Rightarrow> string \<Rightarrow> ('s, 'n, 'r, 't, 'e) queried" where
  "ctl_getComplianceRequirements V R asset = made_of (\<lambda>v.
       bindr (get v ''requirements'') (\<lambda>requirements.
       bindr (js_map (pick_model ''RequirementModel'' [''id'', ''conditions'']) requirements) (\<lambda>rs.
       bindr (js_map trusted_issuer (field v ''defaultTrustedClaimIssuers'')) (\<lambda>issuers.
       Inr (JInstance ''ComplianceRequirementsModel'' [(''requirements'', rs), (''defaultTrustedClaimIssuers'', issuers)])))))
     (findComplianceRequirements V R asset)"

type_synonym ('s, 'n, 'r, 't, 'e) compliance_handler =
  "('s, 'n, 'r, 't, 'e) service_env \<Rightarrow> compliance_api \<Rightarrow> string \<Rightarrow> js_value transaction_base \<Rightarrow> ('s, 'n, 'r, 't, 'e) handled"

definition ctl_setRequirements :: "('s, 'n, 'r, 't, 'e) compliance_handler" where
  "ctl_setRequirements V R asset params = answer (setRequirements V R asset params)"

definition ctl_pauseRequirements :: "('s, 'n, 'r, 't, 'e) compliance_handler" where
  "ctl_pauseRequirements V R asset params = answer (pauseRequirements V R asset params)"

definition ctl_unpauseRequirements :: "('s, 'n, 'r, 't, 'e) compliance_handler" where
  "ctl_unpauseRequirements V R asset params = answer (unpauseRequirements V R asset params)"

definition ctl_deleteRequirement :: "big_number \<Rightarrow> ('s, 'n, 'r, 't, 'e) compliance_handler" where
  "ctl_deleteRequirement i V R asset params = answer (requirements_deleteOne i V R asset params)"

definition ctl_deleteRequirements :: "('s, 'n, 'r, 't, 'e) compliance_handler" where
  "ctl_deleteRequirements V R asset params = answer (requirements_deleteAll V R asset params)"

definition ctl_addRequirement :: "('s, 'n, 'r, 't, 'e) compliance_handler" where
  "ctl_addRequirement V R asset params = answer (requirements_add V R asset params)"

definition ctl_modifyComplianceRequirement :: "big_number \<Rightarrow> ('s, 'n, 'r, 't, 'e) compliance_handler" where
  "ctl_modifyComplianceRequirement i V R asset params = answer (requirements_modify i V R asset params)"

definition ctl_areRequirementsPaused :: "('s, 'n, 'r, 't, 'e) service_env \<Rightarrow> compliance_api \<Rightarrow> string \<Rightarrow> ('s, 'n, 'r, 't, 'e) queried" where
  "ctl_areRequirementsPaused V R asset = andThen (arePaused V R asset) (\<lambda>paused.
     ret (JInstance ''ComplianceStatusModel'' [(''arePaused'', JBool paused)]))"

definition ctl_getTrustedClaimIssuers :: "('s, 'n, 'r, 't, 'e) service_env \<Rightarrow> compliance_api \<Rightarrow> string \<Rightarrow> ('s, 'n, 'r, 't, 'e) queried" where
  "ctl_getTrustedClaimIssuers V R asset = made_of (results_of trusted_issuer) (trusted_find V R asset)"

definition ctl_setTrustedClaimIssuers :: "('s, 'n, 'r, 't, 'e) compliance_handler" where
  "ctl_setTrustedClaimIssuers V R asset params = answer (trusted_set V R asset params)"

definition ctl_addTrustedClaimIssuers :: "('s, 'n, 'r, 't, 'e) compliance_handler" where
  "ctl_addTrustedClaimIssuers V R asset params = answer (trusted_add V R asset params)"

definition ctl_removeTrustedClaimIssuers :: "('s, 'n, 'r, 't, 'e) compliance_handler" where
  "ctl_removeTrustedClaimIssuers V R asset params = answer (trusted_remove V R asset params)"

section \<open>Corporate actions\<close>

definition ctl_getDefaultConfig :: "('s, 'n, 'r, 't, 'e) service_env \<Rightarrow> corporate_api \<Rightarrow> string \<Rightarrow> ('s, 'n, 'r, 't, 'e) queried" where
  "ctl_getDefaultConfig V C asset = made_of (\<lambda>v.
       bindr (get v ''targets'') (\<lambda>targets.
       bindr (js_map (model_of ''TaxWithholdingModel'') (field v ''taxWithholdings'')) (\<lambda>taxWithholdings.
       Inr (JInstance ''CorporateActionDefaultConfigModel''
         [(''targets'', JInstance ''CorporateActionTargetsModel'' (own_properties targets)),
          (''defaultTaxWithholding'', field v ''defaultTaxWithholding''), (''taxWithholdings'', taxWithholdings)]))))
     (findDefaultConfigByAsset V C asset)"

definition details_of_distribution :: "sdk_entities \<Rightarrow> distribution \<Rightarrow> js_value result" where
  "details_of_distribution E d = createDividendDistributionDetailsModel E (di_value d) (di_details d)"

definition ctl_getDividendDistributions ::
    "('s, 'n, 'r, 't, 'e) service_env \<Rightarrow> sdk_entities \<Rightarrow> corporate_api \<Rightarrow> string \<Rightarrow> ('s, 'n, 'r, 't, 'e) queried" where
  "ctl_getDividendDistributions V E C asset = andThen (findDistributionsByAsset V C asset) (\<lambda>ds.
     lift_result (bindr (sequence (map (details_of_distribution E) ds)) (\<lambda>ms. Inr (results_model (JArray ms)))))"

definition ctl_getDividendDistribution ::
    "('s, 'n, 'r, 't, 'e) service_env \<Rightarrow> sdk_entities \<Rightarrow> corporate_api \<Rightarrow> string \<Rightarrow> big_number \<Rightarrow> ('s, 'n, 'r, 't, 'e) queried" where
  "ctl_getDividendDistribution V E C asset i = andThen (findDistribution V C asset i) (\<lambda>d. lift_result (details_of_distribution E d))"

type_synonym ('s, 'n, 'r, 't, 'e, 'args) corporate_handler =
  "('s, 'n, 'r, 't, 'e) service_env \<Rightarrow> sdk_entities \<Rightarrow> corporate_api \<Rightarrow> string \<Rightarrow> 'args transaction_base \<Rightarrow> ('s, 'n, 'r, 't, 'e) handled"

definition ctl_updateDefaultConfig :: "('s, 'n, 'r, 't, 'e, js_value) corporate_handler" where
  "ctl_updateDefaultConfig V E C asset params = answer (updateDefaultConfigByAsset V C asset params)"

definition ctl_createDividendDistribution :: "('s, 'n, 'r, 't, 'e, dividend_args) corporate_handler" where
  "ctl_createDividendDistribution V E C asset params =
     answer_with (resolve_as ''CreatedDividendDistributionModel'' ''dividendDistribution'' (createDividendDistributionModel E))
       (createDividendDistribution V C asset params)"

definition ctl_deleteCorporateAction :: "big_number \<Rightarrow> ('s, 'n, 'r, 't, 'e, js_value) corporate_handler" where
  "ctl_deleteCorporateAction i V E C asset params = answer (corporate_remove i V C asset params)"

definition ctl_payDividends :: "big_number \<Rightarrow> ('s, 'n, 'r, 't, 'e, js_value) corporate_handler" where
  "ctl_payDividends i V E C asset params = answer (payDividends i V C asset params)"

definition ctl_linkDocuments :: "big_number \<Rightarrow> ('s, 'n, 'r, 't, 'e, js_value) corporate_handler" where
  "ctl_linkDocuments i V E C asset params = answer (linkDocuments i V C asset params)"

definition ctl_claimDividends :: "big_number \<Rightarrow> ('s, 'n, 'r, 't, 'e, js_value) corporate_handler" where
  "ctl_claimDividends i V E C asset params = answer (claimDividends i V C asset params)"

definition ctl_reclaimRemainingFunds :: "big_number \<Rightarrow> ('s, 'n, 'r, 't, 'e, js_value) corporate_handler" where
  "ctl_reclaimRemainingFunds i V E C asset params = answer (reclaimRemainingFunds i V C asset params)"

definition ctl_modifyDistributionCheckpoint :: "big_number \<Rightarrow> ('s, 'n, 'r, 't, 'e, js_value) corporate_handler" where
  "ctl_modifyDistributionCheckpoint i V E C asset params = answer (modifyCheckpoint i V C asset params)"

definition payment_model :: "js_value \<Rightarrow> js_value result" where
  "payment_model v = bindr (get v ''target'') (\<lambda>target. bindr (get target ''did'') (\<lambda>did.
     Inr (JInstance ''DistributionPaymentModel'' (object_assign [(''did'', did)] (rest_without [''target''] v)))))"

text \<open>This page has no total.\<close>

definition ctl_getPaymentHistory ::
    "('s, 'n, 'r, 't, 'e) service_env \<Rightarrow> corporate_api \<Rightarrow> string \<Rightarrow> big_number \<Rightarrow> js_value \<Rightarrow> js_value \<Rightarrow> ('s, 'n, 'r, 't, 'e) queried" where
  "ctl_getPaymentHistory V C asset i pageSize start = made_of (\<lambda>r.
       bindr (get r ''data'') (\<lambda>items. bindr (js_map payment_model items) (\<lambda>ms.
       Inr (JInstance ''PaginatedResultsModel'' [(''results'', ms), (''next'', field r ''next'')]))))
     (getPaymentHistory V C asset i pageSize (start_number (sv_bignumber V) start))"

section \<open>Metadata\<close>

definition metadata_entry_model :: "js_value \<Rightarrow> js_value result" where
  "metadata_entry_model v = bindr (get v ''asset'') (\<lambda>asset. bindr (get asset ''id'') (\<lambda>assetId.
     Inr (JInstance ''MetadataEntryModel'' [(''asset'', assetId), (''id'', field v ''id''), (''type'', field v ''type'')])))"

definition ctl_getMetadata :: "('s, 'n, 'r, 't, 'e) service_env \<Rightarrow> metadata_api \<Rightarrow> string \<Rightarrow> ('s, 'n, 'r, 't, 'e) queried" where
  "ctl_getMetadata V D asset = andThen (metadata_findAll V D asset) (\<lambda>es.
     lift_result (bindr (sequence (map (\<lambda>e. metadata_entry_model (me_value e)) es)) (\<lambda>ms. Inr (results_model (JArray ms)))))"

definition ctl_getSingleMetadata ::
    "('s, 'n, 'r, 't, 'e) service_env \<Rightarrow> sdk_entities \<Rightarrow> metadata_api \<Rightarrow> metadata_params \<Rightarrow> ('s, 'n, 'r, 't, 'e) queried" where
  "ctl_getSingleMetadata V E D p = andThen (metadata_findOne V D p) (\<lambda>e. lift_result (createMetadataDetailsModel E (me_value e)))"

definition ctl_createMetadata ::
    "('s, 'n, 'r, 't, 'e) service_env \<Rightarrow> metadata_api \<Rightarrow> string \<Rightarrow> js_value transaction_base \<Rightarrow> ('s, 'n, 'r, 't, 'e) handled" where
  "ctl_createMetadata V D asset params =
     answer_with (resolve_as ''CreatedMetadataEntryModel'' ''metadata'' metadata_entry_model) (metadata_create V D asset params)"

type_synonym ('s, 'n, 'r, 't, 'e) metadata_handler =
  "('s, 'n, 'r, 't, 'e) service_env \<Rightarrow> metadata_api \<Rightarrow> metadata_params \<Rightarrow> js_value transaction_base \<Rightarrow> ('s, 'n, 'r, 't, 'e) handled"

definition ctl_setMetadata :: "('s, 'n, 'r, 't, 'e) metadata_handler" where
  "ctl_setMetadata V D p body = answer (metadata_setValue V D p body)"

definition ctl_clearMetadata :: "('s, 'n, 'r, 't, 'e) metadata_handler" where
  "ctl_clearMetadata V D p params = answer (metadata_clearValue V D p params)"

definition ctl_removeLocalMetadata :: "('s, 'n, 'r, 't, 'e) metadata_handler" where
  "ctl_removeLocalMetadata V D p params = answer (metadata_removeKey V D p params)"

end
