(* ===== verification/Other_Controllers.thy ===== *)
theory Other_Controllers
  imports More_Controllers
begin

text \<open>
  The controllers of multi-signature accounts, the network, NFTs, offerings, permission groups, portfolios, settlements, venues,
  subsidies, tickers and transactions.
\<close>

section \<open>Multi-signature accounts\<close>

type_synonym ('s, 'n, 'r, 't, 'e, 'args) multi_sig_handler =
  "('s, 'n, 'r, 't, 'e) service_env \<Rightarrow> identity_api \<Rightarrow> multi_sig_api \<Rightarrow> 'args transaction_base \<Rightarrow> ('s, 'n, 'r, 't, 'e) handled"

definition ctl_createMultiSig :: "('s, 'n, 'r, 't, 'e, create_multi_sig_args) multi_sig_handler" where
  "ctl_createMultiSig V A M params =
     answer_with (resolve_as ''MultiSigCreatedModel'' ''multiSigAddress'' (\<lambda>r. get r ''address'')) (multiSigs_create V A M params)"

definition ctl_modifyMultiSig :: "string \<Rightarrow> ('s, 'n, 'r, 't, 'e, string list) multi_sig_handler" where
  "ctl_modifyMultiSig address V A M params = answer (multiSigs_modify address V A M params)"

definition proposal_model :: "js_value \<Rightarrow> js_value \<Rightarrow> js_value \<Rightarrow> js_value" where
  "proposal_model address i d = JInstance ''MultiSigProposalModel'' [(''multiSigAddress'', address), (''proposalId'', i),
     (''details'', JInstance ''MultiSigProposalDetailsModel'' (own_properties d))]"

definition ctl_getProposal ::
    "sdk_entities \<Rightarrow> identity_api \<Rightarrow> multi_sig_api \<Rightarrow> string \<Rightarrow> big_number \<Rightarrow> ('s, 'n, 'r, 't, 'e) queried" where
  "ctl_getProposal E A M address i = andThen (findProposal A M address i) (\<lambda>p.
     andThen (lift_result (meth E (mp_value p) ''details'')) (\<lambda>d.
     andThen (lift_result (get (field (mp_value p) ''multiSig'') ''address'')) (\<lambda>multiSigAddress.
     ret (proposal_model multiSigAddress (field (mp_value p) ''id'') d))))"

definition ctl_approveProposal :: "string \<Rightarrow> big_number \<Rightarrow> ('s, 'n, 'r, 't, 'e, js_value) multi_sig_handler" where
  "ctl_approveProposal address i V A M body = answer (multiSigs_approve address i V A M body)"

definition ctl_rejectProposal :: "string \<Rightarrow> big_number \<Rightarrow> ('s, 'n, 'r, 't, 'e, js_value) multi_sig_handler" where
  "ctl_rejectProposal address i V A M body = answer (multiSigs_reject address i V A M body)"

definition ctl_getAdmin :: "identity_api \<Rightarrow> multi_sig_api \<Rightarrow> string \<Rightarrow> ('s, 'n, 'r, 't, 'e, reply) service" where
  "ctl_getAdmin A M address = andThen (getAdmin A M address) (\<lambda>identity. ret (signer_of identity))"

definition ctl_setAdmin :: "string \<Rightarrow> ('s, 'n, 'r, 't, 'e, js_value) multi_sig_handler" where
  "ctl_setAdmin address V A M body = answer (setAdmin address V A M body)"

definition ctl_removeAdmin :: "string \<Rightarrow> ('s, 'n, 'r, 't, 'e, js_value) multi_sig_handler" where
  "ctl_removeAdmin address V A M body = answer (removeAdmin address V A M body)"

definition ctl_getPayer :: "identity_api \<Rightarrow> multi_sig_api \<Rightarrow> string \<Rightarrow> ('s, 'n, 'r, 't, 'e, reply) service" where
  "ctl_getPayer A M address = andThen (getPayer A M address) (\<lambda>identity. ret (signer_of identity))"

definition ctl_removePayer :: "string \<Rightarrow> ('s, 'n, 'r, 't, 'e, js_value) multi_sig_handler" where
  "ctl_removePayer address V A M body = answer (removePayer address V A M body)"

definition proposal_of :: "sdk_entities \<Rightarrow> string \<Rightarrow> js_value \<Rightarrow> js_value result" where
  "proposal_of E address p = bindr (meth E p ''details'') (\<lambda>d. Inr (proposal_model (JString address) (field p ''id'') d))"

definition ctl_getProposals ::
    "sdk_entities \<Rightarrow> identity_api \<Rightarrow> multi_sig_api \<Rightarrow> string \<Rightarrow> ('s, 'n, 'r, 't, 'e) queried" where
  "ctl_getProposals E A M address = andThen (getProposals A M address) (\<lambda>ps.
     lift_result (bindr (sequence (map (\<lambda>p. proposal_of E address (mp_value p)) ps)) (\<lambda>ms. Inr (JArray ms))))"

text \<open>The page of the request is not passed on.\<close>

definition ctl_getHistoricalProposals ::
    "sdk_entities \<Rightarrow> identity_api \<Rightarrow> multi_sig_api \<Rightarrow> string \<Rightarrow> ('s, 'n, 'r, 't, 'e) queried" where
  "ctl_getHistoricalProposals E A M address =
     made_of (paginated (\<lambda>v. bindr (get v ''proposal'') (proposal_of E address)))
       (getHistoricalProposals A M address JUndefined JUndefined)"

section \<open>Network and transactions\<close>

definition ctl_getNetworkProperties :: "network_api \<Rightarrow> ('s, 'n, 'r, 't, 'e) queried" where
  "ctl_getNetworkProperties N = made_of (model_of ''NetworkPropertiesModel'') (getNetworkProperties N)"

definition ctl_getProtocolFees :: "network_api \<Rightarrow> string list \<Rightarrow> string option \<Rightarrow> ('s, 'n, 'r, 't, 'e) queried" where
  "ctl_getProtocolFees N tags blockHash = made_of (js_map (\<lambda>v. bindr (get v ''tag'') (\<lambda>tag.
       Inr (JInstance ''ProtocolFeeModel'' [(''tag'', tag), (''fee'', field v ''fees'')]))))
     (getProtocolFees N tags blockHash)"

definition ctl_getLatestBlock :: "network_api \<Rightarrow> ('s, 'n, 'r, 't, 'e) queried" where
  "ctl_getLatestBlock N = andThen (getLatestBlock N) (\<lambda>b. ret (JInstance ''NetworkBlockModel'' [(''id'', JBig b)]))"

definition ctl_getMiddleWareMetaData :: "network_api \<Rightarrow> ('s, 'n, 'r, 't, 'e, reply) service" where
  "ctl_getMiddleWareMetaData N = andThen (getMiddlewareMetadata N) (\<lambda>m.
     ret (if truthy m then Answer (JInstance ''MiddlewareMetadataModel'' (own_properties m)) else NotFoundReply ''Middleware metadata not found''))"

definition extrinsic_details_model :: "js_value \<Rightarrow> js_value result" where
  "extrinsic_details_model v = bindr (get v ''fee'') (\<lambda>fee.
     bindr (extrinsic_model (JObject (rest_without [''fee''] v))) (\<lambda>m.
     Inr (JInstance ''ExtrinsicDetailsModel'' (own_properties m @ [(''fee'', JInstance ''FeesModel'' (own_properties fee))]))))"

definition ctl_getTransactionByHash :: "network_api \<Rightarrow> string \<Rightarrow> ('s, 'n, 'r, 't, 'e, reply) service" where
  "ctl_getTransactionByHash N hash = andThen (getTransactionByHash N hash) (\<lambda>r.
     if truthy r then andThen (lift_result (extrinsic_details_model r)) (\<lambda>m. ret (Answer m))
     else ret (NotFoundReply ''Transaction doesn't exists for given hash''))"

definition ctl_submitTransaction :: "network_api \<Rightarrow> js_value \<Rightarrow> ('s, 'n, 'r, 't, 'e) queried" where
  "ctl_submitTransaction N transaction = network_submitTransaction N transaction"

section \<open>NFTs\<close>

definition ctl_getCollectionKeys :: "('s, 'n, 'r, 't, 'e) service_env \<Rightarrow> nft_api \<Rightarrow> string \<Rightarrow> ('s, 'n, 'r, 't, 'e, js_value list) service" where
  "ctl_getCollectionKeys V N asset = getCollectionKeys V N asset"

definition ctl_getNftDetails :: "('s, 'n, 'r, 't, 'e) service_env \<Rightarrow> nft_api \<Rightarrow> string \<Rightarrow> big_number \<Rightarrow> ('s, 'n, 'r, 't, 'e) queried" where
  "ctl_getNftDetails V N asset i = nftDetails V N asset i"

type_synonym ('s, 'n, 'r, 't, 'e, 'args) nft_handler =
  "('s, 'n, 'r, 't, 'e) service_env \<Rightarrow> nft_api \<Rightarrow> 'args transaction_base \<Rightarrow> ('s, 'n, 'r, 't, 'e) handled"

definition ctl_createNftCollection :: "('s, 'n, 'r, 't, 'e, js_value) nft_handler" where
  "ctl_createNftCollection V N params =
     answer_with (resolve_as ''CreatedNftCollectionModel'' ''collection'' Inr) (createNftCollection V N params)"

definition ctl_issueNft :: "string \<Rightarrow> ('s, 'n, 'r, 't, 'e, js_value) nft_handler" where
  "ctl_issueNft asset V N params = answer (issueNft asset V N params)"

definition ctl_redeemNft :: "string \<Rightarrow> big_number \<Rightarrow> ('s, 'n, 'r, 't, 'e, big_number) nft_handler" where
  "ctl_redeemNft asset i V N params = answer (redeemNft asset i V N params)"

section \<open>Offerings\<close>

definition offering_value :: "offering \<Rightarrow> js_value" where
  "offering_value o1 = JObject [(''offering'', JInstance ''Offering'' [(''id'', JBig (oi_id o1))]), (''details'', oi_details o1)]"

text \<open>\<open>filters\<close>: the object of \<open>timing\<close>, \<open>balance\<close> and \<open>sale\<close>.\<close>

definition ctl_getOfferings ::
    "('s, 'n, 'r, 't, 'e) service_env \<Rightarrow> sdk_entities \<Rightarrow> offering_api \<Rightarrow> string \<Rightarrow> js_value \<Rightarrow> js_value \<Rightarrow> js_value \<Rightarrow> ('s, 'n, 'r, 't, 'e) queried" where
  "ctl_getOfferings V E F asset timing balance sale =
     andThen (offerings_findAllByAsset V F asset (JObject [(''timing'', timing), (''balance'', balance), (''sale'', sale)])) (\<lambda>os.
     lift_result (bindr (sequence (map (\<lambda>o1. createOfferingDetailsModel E (offering_value o1)) os)) (\<lambda>ms. Inr (results_model (JArray ms)))))"

definition ctl_getInvestments ::
    "('s, 'n, 'r, 't, 'e) service_env \<Rightarrow> offering_api \<Rightarrow> string \<Rightarrow> big_number \<Rightarrow> js_value \<Rightarrow> js_value \<Rightarrow> ('s, 'n, 'r, 't, 'e) queried" where
  "ctl_getInvestments V F asset i pageSize start =
     made_of (paginated (pick_model ''InvestmentModel'' [''investor'', ''soldAmount'', ''investedAmount'']))
       (findInvestmentsByAsset V F asset i pageSize (start_number (sv_bignumber V) start))"

section \<open>Permission groups\<close>

definition group_with_permissions_model :: "js_value \<Rightarrow> js_value result" where
  "group_with_permissions_model v = bindr (get v ''permissions'') (\<lambda>permissions.
     bindr (createGroupPermissionsModel permissions) (\<lambda>m.
     Inr (JInstance ''PermissionGroupWithPermissionsModel'' [(''permissions'', m), (''id'', field v ''id''), (''type'', field v ''type'')])))"

definition ctl_createGroup ::
    "('s, 'n, 'r, 't, 'e) service_env \<Rightarrow> permissions_api \<Rightarrow> string \<Rightarrow> js_value transaction_base \<Rightarrow> ('s, 'n, 'r, 't, 'e) handled" where
  "ctl_createGroup V G asset params =
     answer_with (resolve_as ''CreatedCustomPermissionGroupModel'' ''id'' (\<lambda>r. get r ''id'')) (createPermissionGroup V G asset params)"

definition ctl_getPermissionGroupsWithPermissions ::
    "('s, 'n, 'r, 't, 'e) service_env \<Rightarrow> permissions_api \<Rightarrow> string \<Rightarrow> ('s, 'n, 'r, 't, 'e) queried" where
  "ctl_getPermissionGroupsWithPermissions V G asset = andThen (getPermissionGroups V G asset) (\<lambda>gs.
     lift_result (results_of group_with_permissions_model (JArray gs)))"

type_synonym ('s, 'n, 'r, 't, 'e, 'args) agent_handler =
  "('s, 'n, 'r, 't, 'e) service_env \<Rightarrow> sdk_entities \<Rightarrow> identity_api \<Rightarrow> permissions_api \<Rightarrow> string \<Rightarrow> 'args transaction_base \<Rightarrow> ('s, 'n, 'r, 't, 'e) handled"

definition ctl_inviteAgent :: "('s, 'n, 'r, 't, 'e, agent_args) agent_handler" where
  "ctl_inviteAgent V E A G asset params = answer_with (authorizationRequestResolver E) (inviteAgentToGroup V A G asset params)"

definition ctl_assignAgentToGroup :: "('s, 'n, 'r, 't, 'e, agent_args) agent_handler" where
  "ctl_assignAgentToGroup V E A G asset params = answer (assignAgentToGroup V A G asset params)"

definition ctl_removeAgent :: "('s, 'n, 'r, 't, 'e, agent_args) agent_handler" where
  "ctl_removeAgent V E A G asset params = answer (removeAgentFromAsset V A G asset params)"

definition ctl_abdicateAgent :: "('s, 'n, 'r, 't, 'e, string) agent_handler" where
  "ctl_abdicateAgent V E A G asset body = answer (abdicateAgent V A G asset body)"

definition ctl_checkPermissions ::
    "('s, 'n, 'r, 't, 'e) service_env \<Rightarrow> identity_api \<Rightarrow> permissions_api \<Rightarrow> string \<Rightarrow> string \<Rightarrow> js_value \<Rightarrow> ('s, 'n, 'r, 't, 'e) queried" where
  "ctl_checkPermissions V A G asset target transactions =
     made_of (model_of ''CheckPermissionsResultModel'') (checkPermissions V A G asset target transactions)"

definition ctl_getGroupPermissions ::
    "('s, 'n, 'r, 't, 'e) service_env \<Rightarrow> permissions_api \<Rightarrow> string \<Rightarrow> big_number \<Rightarrow> ('s, 'n, 'r, 't, 'e) queried" where
  "ctl_getGroupPermissions V G asset i = made_of group_with_permissions_model (getGroupPermissions V G asset i)"

definition ctl_setPermissions ::
    "('s, 'n, 'r, 't, 'e) service_env \<Rightarrow> permissions_api \<Rightarrow> string \<Rightarrow> big_number \<Rightarrow> js_value transaction_base \<Rightarrow> ('s, 'n, 'r, 't, 'e) handled" where
  "ctl_setPermissions V G asset i body = answer (groups_modifyPermissions V G asset i body)"

section \<open>Portfolios\<close>

text \<open>The portfolios of an owner, as entities with their methods.\<close>

definition ctl_getPortfolios ::
    "identity_api \<Rightarrow> (js_value \<Rightarrow> portfolio list) \<Rightarrow> string \<Rightarrow> ('s, 'n, 'r, 't, 'e, portfolio_model list) service" where
  "ctl_getPortfolios A entities did = andThen (portfolios_findAllByOwner A did) (\<lambda>ps.
     lift_result (sequence (map (\<lambda>p. createPortfolioModel p did) (entities ps))))"

definition ctl_moveAssets :: "string \<Rightarrow> ('s, 'n, 'r, 't, 'e, movement_args) handler" where
  "ctl_moveAssets did V E A params = answer (moveAssets did V A params)"

definition ctl_createPortfolio :: "('s, 'n, 'r, 't, 'e, js_value) handler" where
  "ctl_createPortfolio V E A params =
     answer_with (resolve_as ''CreatedPortfolioModel'' ''portfolio'' (createPortfolioIdentifierModel E)) (portfolios_createPortfolio V A params)"

definition ctl_deletePortfolio :: "string \<Rightarrow> big_number \<Rightarrow> ('s, 'n, 'r, 't, 'e, js_value) handler" where
  "ctl_deletePortfolio did i V E A params = answer (deletePortfolio did i V A params)"

definition ctl_modifyPortfolioName :: "string \<Rightarrow> big_number \<Rightarrow> ('s, 'n, 'r, 't, 'e, js_value) handler" where
  "ctl_modifyPortfolioName did i V E A params = answer (updatePortfolioName did i V A params)"

definition ctl_getCustodiedPortfolios ::
    "sdk_entities \<Rightarrow> identity_api \<Rightarrow> string \<Rightarrow> js_value \<Rightarrow> js_value \<Rightarrow> ('s, 'n, 'r, 't, 'e) queried" where
  "ctl_getCustodiedPortfolios E A did pageSize start = made_of (paginated (createPortfolioIdentifierModel E))
     (getCustodiedPortfolios A did (JObject [(''size'', pageSize), (''start'', start)]))"

definition ctl_getPortfolio ::
    "identity_api \<Rightarrow> string \<Rightarrow> big_number \<Rightarrow> ('s, 'n, 'r, 't, 'e, portfolio_model) service" where
  "ctl_getPortfolio A did i = andThen (portfolios_findOne A did (Some i)) (\<lambda>p. lift_result (createPortfolioModel p did))"

definition ctl_setCustodian :: "string \<Rightarrow> big_number \<Rightarrow> ('s, 'n, 'r, 't, 'e, js_value) handler" where
  "ctl_setCustodian did i V E A params = answer (setCustodian did i V A params)"

definition ctl_getPortfolioTransactions ::
    "identity_api \<Rightarrow> string \<Rightarrow> big_number \<Rightarrow> js_value \<Rightarrow> js_value \<Rightarrow> ('s, 'n, 'r, 't, 'e) queried" where
  "ctl_getPortfolioTransactions A did i account asset =
     made_of (results_of (model_of ''HistoricSettlementModel'')) (portfolios_getTransactions A did i account asset)"

definition ctl_quitCustody :: "string \<Rightarrow> big_number \<Rightarrow> ('s, 'n, 'r, 't, 'e, js_value) handler" where
  "ctl_quitCustody did i V E A params = answer (quitCustody did i V A params)"

definition ctl_createdAt :: "identity_api \<Rightarrow> string \<Rightarrow> big_number \<Rightarrow> ('s, 'n, 'r, 't, 'e, reply) service" where
  "ctl_createdAt A did i = andThen (portfolios_createdAt A did i) (\<lambda>r.
     ret (if truthy r then Answer (JInstance ''EventIdentifierModel'' (own_properties r))
          else NotFoundReply ''Portfolio data hasn't yet been processed by the middleware''))"

section \<open>Settlements\<close>

definition ctl_getInstruction ::
    "sdk_entities \<Rightarrow> (instruction \<Rightarrow> js_value) \<Rightarrow> settlements_api \<Rightarrow> big_number \<Rightarrow> ('s, 'n, 'r, 't, 'e) queried" where
  "ctl_getInstruction E entity S i = andThen (findInstruction S i) (\<lambda>n. lift_result (createInstructionModel E (entity n)))"

type_synonym ('s, 'n, 'r, 't, 'e, 'args) instruction_handler =
  "('s, 'n, 'r, 't, 'e) service_env \<Rightarrow> settlements_api \<Rightarrow> big_number \<Rightarrow> 'args transaction_base \<Rightarrow> ('s, 'n, 'r, 't, 'e) handled"

definition ctl_affirmInstruction :: "('s, 'n, 'r, 't, 'e, affirm_args) instruction_handler" where
  "ctl_affirmInstruction V S i params = answer (affirmInstruction V S i params)"

definition ctl_rejectInstruction :: "('s, 'n, 'r, 't, 'e, js_value) instruction_handler" where
  "ctl_rejectInstruction V S i params = answer (rejectInstruction V S i params)"

definition ctl_withdrawAffirmation :: "('s, 'n, 'r, 't, 'e, js_value) instruction_handler" where
  "ctl_withdrawAffirmation V S i params = answer (withdrawAffirmation V S i params)"

definition ctl_affirmInstructionAsMediator :: "('s, 'n, 'r, 't, 'e, js_value) instruction_handler" where
  "ctl_affirmInstructionAsMediator V S i params = answer (affirmInstructionAsMediator V S i params)"

definition ctl_rejectInstructionAsMediator :: "('s, 'n, 'r, 't, 'e, js_value) instruction_handler" where
  "ctl_rejectInstructionAsMediator V S i params = answer (rejectInstructionAsMediator V S i params)"

definition ctl_withdrawAffirmationAsMediator :: "('s, 'n, 'r, 't, 'e, js_value) instruction_handler" where
  "ctl_withdrawAffirmationAsMediator V S i params = answer (withdrawAffirmationAsMediator V S i params)"

text \<open>\<open>data?.map(f) ?? []\<close>\<close>

definition affirmations_page :: "js_value \<Rightarrow> js_value result" where
  "affirmations_page r = bindr (get r ''data'') (\<lambda>items.
     bindr (if given items then js_map (pick_model ''InstructionAffirmationModel'' [''identity'', ''status'']) items else Inr (JArray [])) (\<lambda>ms.
     Inr (page_model ms (field r ''count'') (field r ''next''))))"

definition ctl_getAffirmations ::
    "settlements_api \<Rightarrow> big_number \<Rightarrow> js_value \<Rightarrow> js_value \<Rightarrow> ('s, 'n, 'r, 't, 'e) queried" where
  "ctl_getAffirmations S i pageSize start = made_of affirmations_page (findAffirmations S i pageSize start)"

definition ctl_getOffChainAffirmations :: "settlements_api \<Rightarrow> big_number \<Rightarrow> ('s, 'n, 'r, 't, 'e) queried" where
  "ctl_getOffChainAffirmations S i =
     made_of (results_of (pick_model ''OffChainAffirmationModel'' [''legId'', ''status''])) (fetchOffChainAffirmations S i)"

definition ctl_getOffChainAffirmationForLeg :: "settlements_api \<Rightarrow> big_number \<Rightarrow> big_number \<Rightarrow> ('s, 'n, 'r, 't, 'e) queried" where
  "ctl_getOffChainAffirmationForLeg S i legId = andThen (fetchOffChainAffirmationForALeg S i legId) (\<lambda>st.
     ret (JInstance ''OffChainAffirmationModel'' [(''legId'', JBig legId), (''status'', st)]))"

definition ctl_validateLeg ::
    "('s, 'n, 'r, 't, 'e) service_env \<Rightarrow> settlements_api \<Rightarrow> string \<Rightarrow> big_number option \<Rightarrow> big_number list option \<Rightarrow> string \<times> big_number \<Rightarrow>
     string \<times> big_number \<Rightarrow> ('s, 'n, 'r, 't, 'e) queried" where
  "ctl_validateLeg V S asset amount nfts from_p to_p = made_of (model_of ''TransferBreakdownModel'')
     (canTransfer V S (portfolio_like from_p) (portfolio_like to_p) asset amount nfts)"

definition ctl_executeInstruction :: "('s, 'n, 'r, 't, 'e, js_value) instruction_handler" where
  "ctl_executeInstruction V S i body = answer (executeInstruction V S i body)"

definition createdInstructionResolver :: "sdk_entities \<Rightarrow> ('s, 'n, 'r, 't, 'e) resolver" where
  "createdInstructionResolver E r ts d =
     andThen (lift_result (meth E r ''getLegsFromChain'')) (\<lambda>v. andThen (lift_result (get v ''data'')) (\<lambda>legs.
     andThen (lift_result (legsToLegModel E legs)) (\<lambda>ms.
     ret (Created ''CreatedInstructionModel'' ts d [(''instruction'', r), (''legs'', ms)]))))"

definition ctl_addInstruction ::
    "('s, 'n, 'r, 't, 'e) service_env \<Rightarrow> sdk_entities \<Rightarrow> settlements_api \<Rightarrow> create_instruction_args transaction_base \<Rightarrow> ('s, 'n, 'r, 't, 'e) handled" where
  "ctl_addInstruction V E S params = answer_with (createdInstructionResolver E) (createInstruction V S None params)"

section \<open>Venues\<close>

definition ctl_getVenueDetails :: "settlements_api \<Rightarrow> big_number \<Rightarrow> ('s, 'n, 'r, 't, 'e) queried" where
  "ctl_getVenueDetails S i = made_of (model_of ''VenueDetailsModel'') (findVenueDetails S i)"

definition ctl_getAllowedSigners :: "settlements_api \<Rightarrow> big_number \<Rightarrow> ('s, 'n, 'r, 't, 'e) queried" where
  "ctl_getAllowedSigners S i = made_of (results_of (\<lambda>v. get v ''address'')) (fetchAllowedSigners S i)"

definition ctl_createVenue ::
    "('s, 'n, 'r, 't, 'e) service_env \<Rightarrow> settlements_api \<Rightarrow> js_value transaction_base \<Rightarrow> ('s, 'n, 'r, 't, 'e) handled" where
  "ctl_createVenue V S params = answer_with (resolve_as ''CreatedVenueModel'' ''venue'' Inr) (createVenue V S params)"

definition ctl_modifyVenue :: "('s, 'n, 'r, 't, 'e, js_value) instruction_handler" where
  "ctl_modifyVenue V S i params = answer (modifyVenue V S i params)"

definition ctl_addVenueSigners :: "('s, 'n, 'r, 't, 'e, js_value) instruction_handler" where
  "ctl_addVenueSigners V S i params = answer (updateVenueSigners V S i params True)"

definition ctl_removeVenueSigners :: "('s, 'n, 'r, 't, 'e, js_value) instruction_handler" where
  "ctl_removeVenueSigners V S i params = answer (updateVenueSigners V S i params False)"

definition ctl_createInstruction ::
    "('s, 'n, 'r, 't, 'e) service_env \<Rightarrow> sdk_entities \<Rightarrow> settlements_api \<Rightarrow> big_number \<Rightarrow> create_instruction_args transaction_base \<Rightarrow>
     ('s, 'n, 'r, 't, 'e) handled" where
  "ctl_createInstruction V E S i params = answer_with (createdInstructionResolver E) (createInstruction V S (Some i) params)"

section \<open>Subsidies and tickers\<close>

definition ctl_getSubsidy :: "subsidy_api \<Rightarrow> string \<Rightarrow> string \<Rightarrow> ('s, 'n, 'r, 't, 'e) queried" where
  "ctl_getSubsidy Y beneficiary subsidizer = andThen (getAllowance Y beneficiary subsidizer) (\<lambda>allowance.
     ret (JInstance ''SubsidyModel'' [(''beneficiary'', account_model (JString beneficiary)), (''subsidizer'', account_model (JString subsidizer)),
       (''allowance'', JBig allowance)]))"

type_synonym ('s, 'n, 'r, 't, 'e, 'args) subsidy_handler =
  "('s, 'n, 'r, 't, 'e) service_env \<Rightarrow> sdk_entities \<Rightarrow> subsidy_api \<Rightarrow> 'args transaction_base \<Rightarrow> ('s, 'n, 'r, 't, 'e) handled"

definition ctl_subsidizeAccount :: "('s, 'n, 'r, 't, 'e, js_value) subsidy_handler" where
  "ctl_subsidizeAccount V E Y params = answer_with (authorizationRequestResolver E) (subsidizeAccount V Y params)"

definition ctl_setAllowance :: "('s, 'n, 'r, 't, 'e, allowance_args) subsidy_handler" where
  "ctl_setAllowance V E Y params = answer (modifyAllowance SetAllowance V Y params)"

definition ctl_increaseAllowance :: "('s, 'n, 'r, 't, 'e, allowance_args) subsidy_handler" where
  "ctl_increaseAllowance V E Y params = answer (modifyAllowance IncreaseAllowance V Y params)"

definition ctl_decreaseAllowance :: "('s, 'n, 'r, 't, 'e, allowance_args) subsidy_handler" where
  "ctl_decreaseAllowance V E Y params = answer (modifyAllowance DecreaseAllowance V Y params)"

definition ctl_quitSubsidy :: "('s, 'n, 'r, 't, 'e, quit_args) subsidy_handler" where
  "ctl_quitSubsidy V E Y params = answer (subsidy_quit V Y params)"

type_synonym ('s, 'n, 'r, 't, 'e) ticker_handler =
  "('s, 'n, 'r, 't, 'e) service_env \<Rightarrow> sdk_entities \<Rightarrow> ticker_api \<Rightarrow> string \<Rightarrow> js_value transaction_base \<Rightarrow> ('s, 'n, 'r, 't, 'e) handled"

definition ctl_reserve :: "('s, 'n, 'r, 't, 'e) ticker_handler" where
  "ctl_reserve V E T ticker params = answer (reserve V T ticker params)"

definition ctl_getTickerDetails ::
    "sdk_entities \<Rightarrow> entity_views \<Rightarrow> ticker_api \<Rightarrow> string \<Rightarrow> ('s, 'n, 'r, 't, 'e) queried" where
  "ctl_getTickerDetails E W T ticker = andThen (tickers_findOne T ticker) (\<lambda>r. lift_result (createTickerReservationModel E (vw_ticker W r)))"

definition ctl_transferTicker :: "('s, 'n, 'r, 't, 'e) ticker_handler" where
  "ctl_transferTicker V E T ticker params =
     answer_with (resolve_as ''CreatedAuthorizationRequestModel'' ''authorizationRequest'' (createAuthorizationRequestModel E))
       (tickers_transferOwnership V T ticker params)"

definition ctl_extendReservation :: "('s, 'n, 'r, 't, 'e) ticker_handler" where
  "ctl_extendReservation V E T ticker params =
     answer_with (resolve_as ''ExtendedTickerReservationModel'' ''tickerReservation'' (createTickerReservationModel E))
       (tickers_extend V T ticker params)"

end
