(* ===== verification/Handlers.thy ===== *)
theory Handlers
  imports Other_Controllers
begin

text \<open>
  What the handlers of the controllers add to the commands of the services: nothing but the response. The handlers are listed with
  their commands: those that answer with the transactions alone, those whose model keeps the result as it is or reads one of its
  fields, and those whose model asks the result for more.
\<close>

section \<open>The handlers with their commands\<close>

type_synonym ('s, 'n, 'r, 't, 'e) handler_list =
  "('s, 'n, 'r, 't, 'e) service_env \<Rightarrow> sdk_entities \<Rightarrow> sdk_services \<Rightarrow> string \<Rightarrow> string \<Rightarrow> big_number \<Rightarrow> request_bodies \<Rightarrow> js_value transaction_base \<Rightarrow>
   (('s, 'n, 'r, 't, 'e, js_value submit_response) service \<times> ('s, 'n, 'r, 't, 'e) handled) list"

definition asset_handlers :: "('s, 'n, 'r, 't, 'e) handler_list" where
  "asset_handlers V E X i did n B params =
     [(setDocuments V i params, ctl_setDocuments V i params), (enableVenueFiltering V i params, ctl_enableVenueFiltering V i params),
      (disableVenueFiltering V i params, ctl_disableVenueFiltering V i params), (allowVenues V i params, ctl_allowVenues V i params),
      (disallowVenues V i params, ctl_disallowVenues V i params), (issue V i params, ctl_issue V i params),
      (redeem V i params, ctl_redeem V i params), (freeze V i params, ctl_freeze V i params), (unfreeze V i params, ctl_unfreeze V i params),
      (addRequiredMediators V i params, ctl_addRequiredMediators V i params),
      (removeRequiredMediators V i params, ctl_removeRequiredMediators V i params), (preApprove V i params, ctl_preApprove V i params),
      (removePreApproval V i params, ctl_removePreApproval V i params), (linkTickerToAsset V i params, ctl_linkTicker V i params),
      (unlinkTickerFromAsset V i params, ctl_unlinkTicker V i params)]"

definition identity_handlers :: "('s, 'n, 'r, 't, 'e) handler_list" where
  "identity_handlers V E X i did n B params =
     (let A = xs_identities X; S = xs_settlements X in
     [(transferPolyx V A params, ctl_transferPolyx V E A params),
      (freezeSecondaryAccounts V A params, ctl_freezeSecondaryAccounts V E A params),
      (unfreezeSecondaryAccounts V A params, ctl_unfreezeSecondaryAccounts V E A params),
      (revokePermissions V A params, ctl_revokePermissions V E A params), (modifyPermissions V A params, ctl_modifyPermissions V E A params),
      (authorizations_accept n V A params, ctl_accept n V E A params), (authorizations_remove n V A params, ctl_remove n V E A params),
      (moveAssets did V A (with_args params (rb_movement B)), ctl_moveAssets did V E A (with_args params (rb_movement B))),
      (deletePortfolio did n V A params, ctl_deletePortfolio did n V E A params),
      (updatePortfolioName did n V A params, ctl_modifyPortfolioName did n V E A params),
      (setCustodian did n V A params, ctl_setCustodian did n V E A params), (quitCustody did n V A params, ctl_quitCustody did n V E A params),
      (modifyVenue V S n params, ctl_modifyVenue V S n params), (updateVenueSigners V S n params True, ctl_addVenueSigners V S n params),
      (updateVenueSigners V S n params False, ctl_removeVenueSigners V S n params),
      (affirmInstruction V S n (with_args params (rb_affirmation B)), ctl_affirmInstruction V S n (with_args params (rb_affirmation B))),
      (rejectInstruction V S n params, ctl_rejectInstruction V S n params), (executeInstruction V S n params, ctl_executeInstruction V S n params),
      (withdrawAffirmation V S n params, ctl_withdrawAffirmation V S n params),
      (affirmInstructionAsMediator V S n params, ctl_affirmInstructionAsMediator V S n params),
      (rejectInstructionAsMediator V S n params, ctl_rejectInstructionAsMediator V S n params),
      (withdrawAffirmationAsMediator V S n params, ctl_withdrawAffirmationAsMediator V S n params)])"

definition agent_handlers :: "('s, 'n, 'r, 't, 'e) handler_list" where
  "agent_handlers V E X i did n B params =
     (let A = xs_identities X; G = xs_permissions X; C = xs_checkpoints X; R = xs_compliance X; L = xs_claims X in
     [(groups_modifyPermissions V G i n params, ctl_setPermissions V G i n params),
      (assignAgentToGroup V A G i (with_args params (rb_agent B)), ctl_assignAgentToGroup V E A G i (with_args params (rb_agent B))),
      (removeAgentFromAsset V A G i (with_args params (rb_agent B)), ctl_removeAgent V E A G i (with_args params (rb_agent B))),
      (abdicateAgent V A G i (with_args params did), ctl_abdicateAgent V E A G i (with_args params did)),
      (deleteScheduleByAsset V C i n params, ctl_deleteSchedule n V C i params),
      (setRequirements V R i params, ctl_setRequirements V R i params), (pauseRequirements V R i params, ctl_pauseRequirements V R i params),
      (unpauseRequirements V R i params, ctl_unpauseRequirements V R i params),
      (requirements_deleteOne n V R i params, ctl_deleteRequirement n V R i params),
      (requirements_deleteAll V R i params, ctl_deleteRequirements V R i params), (requirements_add V R i params, ctl_addRequirement V R i params),
      (requirements_modify n V R i params, ctl_modifyComplianceRequirement n V R i params),
      (trusted_set V R i params, ctl_setTrustedClaimIssuers V R i params), (trusted_add V R i params, ctl_addTrustedClaimIssuers V R i params),
      (trusted_remove V R i params, ctl_removeTrustedClaimIssuers V R i params),
      (addClaimsOnDid V L params, ctl_addClaims V L params), (editClaimsOnDid V L params, ctl_editClaims V L params),
      (revokeClaimsFromDid V L params, ctl_revokeClaims V L params), (registerCustomClaimType V L params, ctl_registerCustomClaimType V L params)])"

definition action_handlers :: "('s, 'n, 'r, 't, 'e) handler_list" where
  "action_handlers V E X i address n B params =
     (let A = xs_identities X; C = xs_corporate X; M = xs_multiSigs X; N = xs_nfts X; D = xs_metadata X; Y = xs_subsidies X;
          T = xs_tickers X; p = \<lparr>mt_asset = i, mt_type = address, mt_id = n\<rparr> in
     [(updateDefaultConfigByAsset V C i params, ctl_updateDefaultConfig V E C i params),
      (corporate_remove n V C i params, ctl_deleteCorporateAction n V E C i params), (payDividends n V C i params, ctl_payDividends n V E C i params),
      (linkDocuments n V C i params, ctl_linkDocuments n V E C i params), (claimDividends n V C i params, ctl_claimDividends n V E C i params),
      (reclaimRemainingFunds n V C i params, ctl_reclaimRemainingFunds n V E C i params),
      (modifyCheckpoint n V C i params, ctl_modifyDistributionCheckpoint n V E C i params),
      (multiSigs_modify address V A M (with_args params (rb_signers B)), ctl_modifyMultiSig address V A M (with_args params (rb_signers B))),
      (multiSigs_approve address n V A M params, ctl_approveProposal address n V A M params),
      (multiSigs_reject address n V A M params, ctl_rejectProposal address n V A M params),
      (setAdmin address V A M params, ctl_setAdmin address V A M params), (removeAdmin address V A M params, ctl_removeAdmin address V A M params),
      (removePayer address V A M params, ctl_removePayer address V A M params),
      (issueNft i V N params, ctl_issueNft i V N params), (redeemNft i n V N (with_args params n), ctl_redeemNft i n V N (with_args params n)),
      (metadata_setValue V D p params, ctl_setMetadata V D p params), (metadata_clearValue V D p params, ctl_clearMetadata V D p params),
      (metadata_removeKey V D p params, ctl_removeLocalMetadata V D p params),
      (subsidy_quit V Y (with_args params (rb_quit B)), ctl_quitSubsidy V E Y (with_args params (rb_quit B))),
      (modifyAllowance SetAllowance V Y (with_args params (rb_allowance B)), ctl_setAllowance V E Y (with_args params (rb_allowance B))),
      (modifyAllowance IncreaseAllowance V Y (with_args params (rb_allowance B)), ctl_increaseAllowance V E Y (with_args params (rb_allowance B))),
      (modifyAllowance DecreaseAllowance V Y (with_args params (rb_allowance B)), ctl_decreaseAllowance V E Y (with_args params (rb_allowance B))),
      (reserve V T i params, ctl_reserve V E T i params)])"

definition restriction_handlers :: "('s, 'n, 'r, 't, 'e) handler_list" where
  "restriction_handlers V E X i did n B params =
     [(controllerTransfer V i (with_args params (rb_transfer B)), ctl_controllerTransfer V i (with_args params (rb_transfer B))),
      (setTransferRestrictions V i (with_args params (rb_restrictions B)), ctl_setTransferRestrictions V i (with_args params (rb_restrictions B))),
      (addTransferRestrictions V i (with_args params (rb_restrictions B)), ctl_addTransferRestrictions V i (with_args params (rb_restrictions B))),
      (setStats V i (with_args params (rb_stats B)), ctl_setStats V i (with_args params (rb_stats B)))] @
     (case extractTxOptions params of Inl e \<Rightarrow> []
      | Inr (options, args) \<Rightarrow> [(removeTransferRestrictions V i options, ctl_removeTransferRestrictions V i options)])"

definition plain_handlers :: "('s, 'n, 'r, 't, 'e) handler_list" where
  "plain_handlers V E X i did n B params = asset_handlers V E X i did n B params @ identity_handlers V E X i did n B params @
     agent_handlers V E X i did n B params @ action_handlers V E X i did n B params @ restriction_handlers V E X i did n B params"

text \<open>Models that keep the result, or read one of its fields.\<close>

definition field_handlers :: "('s, 'n, 'r, 't, 'e) handler_list" where
  "field_handlers V E X i did n B params =
     [(assets_createAsset V params, ctl_createAsset V params), (createVenue V (xs_settlements X) params, ctl_createVenue V (xs_settlements X) params),
      (createByAsset V (xs_checkpoints X) i params, ctl_createCheckpoint V (xs_checkpoints X) i params),
      (createNftCollection V (xs_nfts X) params, ctl_createNftCollection V (xs_nfts X) params),
      (createPermissionGroup V (xs_permissions X) i params, ctl_createGroup V (xs_permissions X) i params),
      (multiSigs_create V (xs_identities X) (xs_multiSigs X) (with_args params (rb_multiSig B)),
       ctl_createMultiSig V (xs_identities X) (xs_multiSigs X) (with_args params (rb_multiSig B)))]"

text \<open>Models that ask the result for more.\<close>

definition detail_handlers :: "('s, 'n, 'r, 't, 'e) handler_list" where
  "detail_handlers V E X i did n B params =
     (let A = xs_identities X; T = xs_tickers X; S = xs_settlements X in
     [(registerDid V A params, ctl_registerIdentity V E A params), (addSecondaryAccount V A params, ctl_addSecondaryAccount V E A params),
      (rotatePrimaryKey V A params, ctl_rotatePrimaryKey V E A params),
      (attestPrimaryKeyRotation did V A params, ctl_attestPrimaryKeyRotation did V E A params),
      (transferOwnership V i params, ctl_transferOwnership E V i params),
      (portfolios_createPortfolio V A params, ctl_createPortfolio V E A params),
      (inviteAgentToGroup V A (xs_permissions X) i (with_args params (rb_agent B)), ctl_inviteAgent V E A (xs_permissions X) i (with_args params (rb_agent B))),
      (createDividendDistribution V (xs_corporate X) i (with_args params (rb_dividend B)),
       ctl_createDividendDistribution V E (xs_corporate X) i (with_args params (rb_dividend B))),
      (metadata_create V (xs_metadata X) i params, ctl_createMetadata V (xs_metadata X) i params),
      (createInstruction V S None (with_args params (rb_instruction B)), ctl_addInstruction V E S (with_args params (rb_instruction B))),
      (createInstruction V S (Some n) (with_args params (rb_instruction B)), ctl_createInstruction V E S n (with_args params (rb_instruction B))),
      (subsidizeAccount V (xs_subsidies X) params, ctl_subsidizeAccount V E (xs_subsidies X) params),
      (tickers_transferOwnership V T i params, ctl_transferTicker V E T i params), (tickers_extend V T i params, ctl_extendReservation V E T i params)])"

text \<open>
  The model of a created schedule asks its service for the schedule, by the number of the result. After a dry run that number is
  \<open>undefined\<close>, and what the service answers is up to the SDK.
\<close>

definition schedule_handlers :: "('s, 'n, 'r, 't, 'e) handler_list" where
  "schedule_handlers V E X i did n B params =
     [(createScheduleByAsset V (xs_checkpoints X) i params, ctl_createSchedule V (xs_checkpoints X) i params)]"

section \<open>Shapes\<close>

lemmas ctl_plain_defs = ctl_setDocuments_def ctl_enableVenueFiltering_def ctl_disableVenueFiltering_def ctl_allowVenues_def
  ctl_disallowVenues_def ctl_issue_def ctl_redeem_def ctl_freeze_def ctl_unfreeze_def ctl_addRequiredMediators_def
  ctl_removeRequiredMediators_def ctl_preApprove_def ctl_removePreApproval_def ctl_linkTicker_def ctl_unlinkTicker_def
  ctl_transferPolyx_def ctl_freezeSecondaryAccounts_def ctl_unfreezeSecondaryAccounts_def ctl_revokePermissions_def ctl_modifyPermissions_def
  ctl_accept_def ctl_remove_def ctl_moveAssets_def ctl_deletePortfolio_def ctl_modifyPortfolioName_def ctl_setCustodian_def ctl_quitCustody_def
  ctl_modifyVenue_def ctl_addVenueSigners_def ctl_removeVenueSigners_def ctl_affirmInstruction_def ctl_rejectInstruction_def
  ctl_executeInstruction_def ctl_withdrawAffirmation_def ctl_affirmInstructionAsMediator_def ctl_rejectInstructionAsMediator_def
  ctl_withdrawAffirmationAsMediator_def ctl_setPermissions_def ctl_assignAgentToGroup_def ctl_removeAgent_def ctl_abdicateAgent_def
  ctl_deleteSchedule_def ctl_setRequirements_def ctl_pauseRequirements_def ctl_unpauseRequirements_def ctl_deleteRequirement_def
  ctl_deleteRequirements_def ctl_addRequirement_def ctl_modifyComplianceRequirement_def ctl_setTrustedClaimIssuers_def
  ctl_addTrustedClaimIssuers_def ctl_removeTrustedClaimIssuers_def ctl_addClaims_def ctl_editClaims_def ctl_revokeClaims_def
  ctl_registerCustomClaimType_def ctl_updateDefaultConfig_def ctl_deleteCorporateAction_def ctl_payDividends_def ctl_linkDocuments_def
  ctl_claimDividends_def ctl_reclaimRemainingFunds_def ctl_modifyDistributionCheckpoint_def ctl_modifyMultiSig_def ctl_approveProposal_def
  ctl_rejectProposal_def ctl_setAdmin_def ctl_removeAdmin_def ctl_removePayer_def ctl_issueNft_def ctl_redeemNft_def ctl_setMetadata_def
  ctl_clearMetadata_def ctl_removeLocalMetadata_def ctl_quitSubsidy_def ctl_setAllowance_def ctl_increaseAllowance_def
  ctl_decreaseAllowance_def ctl_reserve_def

lemma restriction_shape: "(m, h) \<in> set (restriction_handlers V E X i did n B params) \<Longrightarrow> h = answer m"
  by (auto simp: restriction_handlers_def ctl_controllerTransfer_def ctl_setTransferRestrictions_def ctl_addTransferRestrictions_def
      ctl_setStats_def ctl_removeTransferRestrictions_def split: sum.splits)

lemma listed_shape:
  "(m, h) \<in> set (asset_handlers V E X i did n B params) \<union> set (identity_handlers V E X i did n B params)
     \<union> set (agent_handlers V E X i did n B params) \<union> set (action_handlers V E X i did n B params) \<Longrightarrow> h = answer m"
  unfolding asset_handlers_def identity_handlers_def agent_handlers_def action_handlers_def Let_def
    list.set Un_iff insert_iff empty_iff prod.inject ctl_plain_defs
  by (elim disjE conjE; (hypsubst | erule FalseE); rule refl)

lemma plain_shape: "(m, h) \<in> set (plain_handlers V E X i did n B params) \<Longrightarrow> h = answer m"
  unfolding plain_handlers_def set_append
  using listed_shape [of m h V E X i did n B params] restriction_shape [of m h V E X i did n B params] by blast

lemma quiet_resolve_as: "quiet (resolve_as cls k f r ts d)"
  unfolding resolve_as_def by (intro quiet_intros)

lemma quiet_instruction_resolver: "quiet (createdInstructionResolver E r ts d)"
  unfolding createdInstructionResolver_def by (intro quiet_intros)

lemma field_shape:
  "(m, h) \<in> set (field_handlers V E X i did n B params) \<Longrightarrow>
     \<exists>cls k f. h = answer_with (resolve_as cls k f) m \<and> (\<forall>es. \<exists>v. f (JObject es) = Inr v)"
  unfolding field_handlers_def list.set insert_iff empty_iff prod.inject
    ctl_createAsset_def ctl_createVenue_def ctl_createCheckpoint_def ctl_createNftCollection_def ctl_createGroup_def ctl_createMultiSig_def
  by (elim disjE conjE; (hypsubst | erule FalseE); intro exI conjI, rule refl) (auto simp: get_def simp del: field_simps)

text \<open>What these resolvers do with the empty object.\<close>

definition fails_on_empty :: "('s, 'n, 'r, 't, 'e) resolver \<Rightarrow> bool" where
  "fails_on_empty f \<longleftrightarrow> (\<forall>r ts d. quiet (f r ts d)) \<and> (\<forall>ts d s. f (JObject []) ts d s = (Inl js_type_error, s))"

lemma fails_resolve_as: "f (JObject []) = Inl js_type_error \<Longrightarrow> fails_on_empty (resolve_as cls k f)"
  by (simp add: fails_on_empty_def quiet_resolve_as) (simp add: resolve_as_def andThen_lift eff_simps)

lemma empty_models:
  "createIdentityModel E (JObject []) = Inl js_type_error" "createPortfolioIdentifierModel E (JObject []) = Inl js_type_error"
  "createTickerReservationModel E (JObject []) = Inl js_type_error" "metadata_entry_model (JObject []) = Inl js_type_error"
  "createDividendDistributionModel E (JObject []) = Inl js_type_error"
  "\<not> en_isAccount E JUndefined \<Longrightarrow> createAuthorizationRequestModel E (JObject []) = Inl js_type_error"
  by (simp_all add: createIdentityModel_def createPortfolioIdentifierModel_def createTickerReservationModel_def metadata_entry_model_def
      createDividendDistributionModel_def dividend_fields_def createAuthorizationRequestModel_def createSignerModel_def get_def)

lemma fails_instruction: "fails_on_empty (createdInstructionResolver E)"
  by (simp add: fails_on_empty_def quiet_instruction_resolver) (simp add: createdInstructionResolver_def andThen_lift eff_simps)

lemma detail_shape:
  "\<not> en_isAccount E JUndefined \<Longrightarrow> (m, h) \<in> set (detail_handlers V E X i did n B params) \<Longrightarrow>
     \<exists>f. h = answer_with f m \<and> fails_on_empty f"
  unfolding detail_handlers_def Let_def list.set insert_iff empty_iff prod.inject
    ctl_registerIdentity_def ctl_addSecondaryAccount_def ctl_rotatePrimaryKey_def ctl_attestPrimaryKeyRotation_def ctl_transferOwnership_def
    ctl_createPortfolio_def ctl_inviteAgent_def ctl_createDividendDistribution_def ctl_createMetadata_def ctl_addInstruction_def
    ctl_createInstruction_def ctl_subsidizeAccount_def ctl_transferTicker_def ctl_extendReservation_def
    authorizationRequestResolver_def createIdentityResolver_def
  by (elim disjE conjE; (hypsubst | erule FalseE); intro exI conjI, rule refl)
    (simp_all only: fails_instruction fails_resolve_as empty_models not_False_eq_True)

lemma detail_quiet:
  "(m, h) \<in> set (detail_handlers V E X i did n B params) \<Longrightarrow> \<exists>f. h = answer_with f m \<and> (\<forall>r ts d. quiet (f r ts d))"
  unfolding detail_handlers_def Let_def list.set insert_iff empty_iff prod.inject
    ctl_registerIdentity_def ctl_addSecondaryAccount_def ctl_rotatePrimaryKey_def ctl_attestPrimaryKeyRotation_def ctl_transferOwnership_def
    ctl_createPortfolio_def ctl_inviteAgent_def ctl_createDividendDistribution_def ctl_createMetadata_def ctl_addInstruction_def
    ctl_createInstruction_def ctl_subsidizeAccount_def ctl_transferTicker_def ctl_extendReservation_def
    authorizationRequestResolver_def createIdentityResolver_def
  by (elim disjE conjE; (hypsubst | erule FalseE); intro exI conjI, rule refl)
    (simp_all only: quiet_instruction_resolver quiet_resolve_as simp_thms)

definition api_handlers :: "('s, 'n, 'r, 't, 'e) handler_list" where
  "api_handlers V E X i did n B params =
     plain_handlers V E X i did n B params @ field_handlers V E X i did n B params @ detail_handlers V E X i did n B params @
     schedule_handlers V E X i did n B params"

lemma quiet_schedule_resolver: "quiet (createdScheduleResolver V C asset r ts d)"
proof -
  have "quiet (findScheduleById V C asset j)" for j unfolding findScheduleById_def by (intro quiet_intros)
  then show ?thesis
    unfolding createdScheduleResolver_def by (auto intro!: quiet_intros split: js_value.split)
qed

lemma schedule_shape:
  "(m, h) \<in> set (schedule_handlers V E X i did n B params) \<Longrightarrow> h = answer_with (createdScheduleResolver V (xs_checkpoints X) i) m"
  by (simp add: schedule_handlers_def ctl_createSchedule_def)

lemma handler_shape:
  assumes "(m, h) \<in> set (api_handlers V E X i did n B params)"
  obtains "h = answer m" | f where "h = answer_with f m" "\<And>r ts d. quiet (f r ts d)"
proof -
  from assms consider "(m, h) \<in> set (plain_handlers V E X i did n B params)" | "(m, h) \<in> set (field_handlers V E X i did n B params)"
    | "(m, h) \<in> set (detail_handlers V E X i did n B params)" | "(m, h) \<in> set (schedule_handlers V E X i did n B params)"
    by (auto simp: api_handlers_def)
  then show ?thesis
  proof cases
    case 4
    then show ?thesis using schedule_shape quiet_schedule_resolver that(2) by blast
  next
    case 1
    then show ?thesis using plain_shape that(1) by blast
  next
    case 2
    then show ?thesis using field_shape quiet_resolve_as that(2) by blast
  next
    case 3
    then show ?thesis using detail_quiet that(2) by blast
  qed
qed

lemma answer_run:
  "answer m s = (case m s of (Inl e, s') \<Rightarrow> (Inl e, s') | (Inr x, s') \<Rightarrow> (Inr (handleServiceResult x None), s'))"
proof (cases "m s")
  case (Pair r s')
  have "respond x None = ret (handleServiceResult x None)" for x by (cases x) simp_all
  with Pair show ?thesis by (cases r) (simp_all add: answer_def eff_simps)
qed

lemma answer_with_run:
  "answer_with f m s = (case m s of (Inl e, s') \<Rightarrow> (Inl e, s')
     | (Inr (DirectResult r ts d), s') \<Rightarrow> andThen (f (resolved_result r) ts d) (\<lambda>x. ret (ResolvedModel x)) s'
     | (Inr x, s') \<Rightarrow> (Inr (handleServiceResult x None), s'))"
proof (cases "m s")
  case (Pair r s')
  then show ?thesis
  proof (cases r)
    case (Inr x)
    with Pair show ?thesis by (cases x) (simp_all add: answer_with_def eff_simps)
  qed (simp add: answer_with_def eff_simps)
qed

lemma asset_handler_commands: "(m, h) \<in> set (asset_handlers V E X i did n B params) \<Longrightarrow> m \<in> set (api_commands V X i did n B params)"
  unfolding asset_handlers_def api_commands_def asset_commands_def list.map set_append list.set Un_iff insert_iff empty_iff prod.inject
  by (elim disjE conjE; (hypsubst | erule FalseE); simp only: refl simp_thms)

lemma identity_handler_commands: "(m, h) \<in> set (identity_handlers V E X i did n B params) \<Longrightarrow> m \<in> set (api_commands V X i did n B params)"
  unfolding identity_handlers_def api_commands_def service_commands_def Let_def set_append list.set Un_iff insert_iff empty_iff prod.inject
  by (elim disjE conjE; (hypsubst | erule FalseE); simp only: refl simp_thms)

lemma agent_handler_commands: "(m, h) \<in> set (agent_handlers V E X i did n B params) \<Longrightarrow> m \<in> set (api_commands V X i did n B params)"
  unfolding agent_handlers_def api_commands_def agent_commands_def Let_def set_append list.set Un_iff insert_iff empty_iff prod.inject
  by (elim disjE conjE; (hypsubst | erule FalseE); simp only: refl simp_thms)

lemma action_handler_commands: "(m, h) \<in> set (action_handlers V E X i did n B params) \<Longrightarrow> m \<in> set (api_commands V X i did n B params)"
  unfolding action_handlers_def api_commands_def action_commands_def Let_def set_append list.set Un_iff insert_iff empty_iff prod.inject
  by (elim disjE conjE; (hypsubst | erule FalseE); simp only: refl simp_thms)

lemma restriction_handler_commands: "(m, h) \<in> set (restriction_handlers V E X i did n B params) \<Longrightarrow> m \<in> set (api_commands V X i did n B params)"
  by (auto simp: restriction_handlers_def api_commands_def restriction_commands_def split: sum.splits)

lemma schedule_handler_commands: "(m, h) \<in> set (schedule_handlers V E X i did n B params) \<Longrightarrow> m \<in> set (api_commands V X i did n B params)"
  by (simp add: schedule_handlers_def api_commands_def agent_commands_def Let_def)

lemma resolving_handler_commands:
  "(m, h) \<in> set (field_handlers V E X i did n B params) \<union> set (detail_handlers V E X i did n B params) \<Longrightarrow> m \<in> set (api_commands V X i did n B params)"
  unfolding field_handlers_def detail_handlers_def api_commands_def asset_commands_def service_commands_def agent_commands_def action_commands_def
    Let_def list.map set_append list.set Un_iff insert_iff empty_iff prod.inject
  by (elim disjE conjE; (hypsubst | erule FalseE); simp only: refl simp_thms)

lemma handler_commands: "(m, h) \<in> set (api_handlers V E X i did n B params) \<Longrightarrow> m \<in> set (api_commands V X i did n B params)"
  unfolding api_handlers_def plain_handlers_def set_append
  by (elim UnE; (erule asset_handler_commands identity_handler_commands agent_handler_commands action_handler_commands
      restriction_handler_commands schedule_handler_commands
      | (rule resolving_handler_commands, erule UnI1) | (rule resolving_handler_commands, erule UnI2)))

lemma dry_run_result:
  assumes "submits V params m" "extractTxOptions params = Inr (options, args)" "op_processMode options = DryRun"
    and "m s = (Inr (DirectResult r ts d), s')"
  shows "r = None \<and> ts = []"
proof -
  from assms(1,4) obtain options' args' a and mth :: sdk_op
    where "extractTxOptions params = Inr (options', args')" "submit_in V mth a options' s = (Inr (DirectResult r ts d), s')"
    unfolding submits_def by (metis prod.inject sum.distinct(1))
  with assms(2,3) submit_answers_by_mode [of "sv_gateway V" mth a options' "sv_uuid V" "sv_seen V" s "DirectResult r ts d" s']
  show ?thesis by (auto simp: submit_in_def)
qed

section \<open>Properties\<close>

text \<open>
  What a handler adds. Each handler of the controllers leaves everything as its command leaves it. It passes on the error of its command,
  answers a payload, a notification, a receipt and a proposal with their models, and only for a transaction that was run or simulated
  directly does it make a model of its own, if it has one.
\<close>

lemma handlers_only_answer:
  assumes "(m, h) \<in> set (api_handlers V E X i did n B params)"
  shows "snd (h s) = snd (m s)
    \<and> (case fst (m s) of
         Inl e \<Rightarrow> fst (h s) = Inl e
       | Inr (PayloadResult d p) \<Rightarrow> fst (h s) = Inr (TransactionPayloadResultModel p d)
       | Inr (ProposalResult p ts d) \<Rightarrow> fst (h s) = Inr (TransactionQueueModel ts d (Some p))
       | Inr (OfflineResult receipt) \<Rightarrow> fst (h s) = Inr (OfflineReceiptModel receipt)
       | Inr (NotificationResult notification) \<Rightarrow> fst (h s) = Inr (NotificationPayloadModel notification)
       | Inr (DirectResult r ts d) \<Rightarrow> (m, h) \<in> set (plain_handlers V E X i did n B params) \<longrightarrow> fst (h s) = Inr (TransactionQueueModel ts d None))"
proof (cases rule: handler_shape [OF assms])
  case 1
  then show ?thesis by (cases "m s"; cases "fst (m s)") (auto simp: answer_run split: submit_response.split)
next
  case (2 f)
  have plain: "h = answer m" if "(m, h) \<in> set (plain_handlers V E X i did n B params)" by (rule plain_shape [OF that])
  have resolved: "snd (andThen (f r ts d) (\<lambda>x. ret (ResolvedModel x)) s1) = s1" for r ts d s1
    using quiet_andThen [OF 2(2) quiet_ret] by (metis quiet_def snd_conv)
  obtain r s1 where run: "m s = (r, s1)" by (cases "m s")
  show ?thesis
  proof (cases r)
    case (Inl e)
    then show ?thesis using run 2(1) by (simp add: answer_with_run)
  next
    case (Inr x)
    show ?thesis
    proof (cases x)
      case (DirectResult r ts d)
      have "h s = answer m s" if "(m, h) \<in> set (plain_handlers V E X i did n B params)" using plain [OF that] by simp
      then show ?thesis using run Inr DirectResult 2(1) resolved by (auto simp: answer_with_run answer_run)
    qed (use run Inr 2(1) in \<open>simp_all add: answer_with_run\<close>)
  qed
qed

text \<open>
  C27: dry runs of the handlers. When the simulation of a dry run succeeds for an account that is not a multi-signature account, the handlers that answer
  with the transactions alone answer, and so do those that keep the result or read one field of it. The handlers that ask the result for
  more fail with a \<open>TypeError\<close>, which the filter does not know, so the client sees an internal error in place of the fees and the status.
\<close>

theorem dry_run_answers:
  assumes "(m, h) \<in> set (api_handlers V E X i did n B params)" and "\<not> en_isAccount E JUndefined"
    and "extractTxOptions params = Inr (options, args)" "op_processMode options = DryRun"
    and "m s = (Inr (DirectResult r ts d), s')"
  shows "((m, h) \<in> set (plain_handlers V E X i did n B params) \<longrightarrow> h s = (Inr (TransactionQueueModel [] d None), s'))
    \<and> ((m, h) \<in> set (field_handlers V E X i did n B params) \<longrightarrow> (\<exists>cls k v. h s = (Inr (ResolvedModel (Created cls [] d [(k, v)])), s')))
    \<and> ((m, h) \<in> set (detail_handlers V E X i did n B params) \<longrightarrow> h s = (Inl js_type_error, s'))"
proof -
  have empty: "r = None" "ts = []"
    using dry_run_result [OF submits_commands [OF handler_commands [OF assms(1)]] assms(3,4,5)] by simp_all
  have "h s = (Inr (TransactionQueueModel [] d None), s')" if "h = answer m"
    using assms(5) empty that by (simp add: answer_run)
  moreover have "\<exists>v. h s = (Inr (ResolvedModel (Created cls [] d [(k, v)])), s')"
    if "h = answer_with (resolve_as cls k f) m" and total: "\<forall>es. \<exists>v. f (JObject es) = Inr v" for cls k f
  proof -
    obtain v where "f (JObject []) = Inr v" using total by blast
    then show ?thesis using assms(5) empty that(1)
      by (simp add: answer_with_run resolved_result_def resolve_as_def andThen_lift eff_simps)
  qed
  moreover have "h s = (Inl js_type_error, s')" if "h = answer_with f m" "fails_on_empty f" for f
    using assms(5) empty that by (simp add: answer_with_run resolved_result_def fails_on_empty_def eff_simps)
  ultimately show ?thesis using plain_shape field_shape detail_shape [OF assms(2)] by meson
qed

section \<open>Witnesses\<close>

definition demo_entities :: sdk_entities where
  "demo_entities = \<lparr>en_call = (\<lambda>v k. Inr JNull), en_isAccount = (\<lambda>v. False), en_isOffChainLeg = (\<lambda>v. False), en_isFungibleAsset = (\<lambda>v. True)\<rparr>"

definition demo_ready :: sdk_op where
  "demo_ready = \<lparr>m_noArgs = False, m_call = (\<lambda>a po. Inr \<lparr>pr_tx = Webhook_Properties.demo_tx, pr_supportsSubsidy = True, pr_totalFees = Inr demo_fees,
     pr_toSignablePayload = (\<lambda>md. Inl NotAnError), pr_run = Inr (JNull, Webhook_Properties.demo_tx), pr_runAsProposal = Inl NotAnError\<rparr>)\<rparr>"

definition demo_ready_services :: sdk_services where
  "demo_ready_services = demo_services\<lparr>xs_identities := demo_identities\<lparr>ia_createPortfolio := demo_ready\<rparr>\<rparr>"

definition demo_dry_run :: "js_value transaction_base" where
  "demo_dry_run = \<lparr>tb_options = Some (demo_options DryRun), tb_signer = None, tb_webhookUrl = None, tb_dryRun = None, tb_args = JNull\<rparr>"

lemma demo_dry_run_options: "extractTxOptions demo_dry_run = Inr (demo_options DryRun, JNull)"
  by (simp add: extractTxOptions_def deprecatedParams_def demo_dry_run_def)

lemma demo_dry_run_result:
  "\<exists>d s'. portfolios_createPortfolio demo_env (xs_identities demo_ready_services) demo_dry_run demo_gateway = (Inr (DirectResult None [] d), s')"
  by (simp add: portfolios_createPortfolio_def submit_request_def demo_dry_run_options submit_in_def submit_def demo_env_def demo_gateway_deps_def
      local_offline_deps_def demo_addresses_def getSigningAccount_def isAddress_def demo_options_def demo_ready_services_def demo_ready_def
      prepareProcedure_def rethrowing_def tryCatch_def andThen_def sdk_def processTransaction_def processPrepared_def
      Webhook_Properties.demo_tx_def eff_simps Let_def)

theorem dry_run_answers_witness:
  "fst (portfolios_createPortfolio demo_env (xs_identities demo_ready_services) demo_dry_run demo_gateway) \<noteq> Inl js_type_error
   \<and> fst (ctl_createPortfolio demo_env demo_entities (xs_identities demo_ready_services) demo_dry_run demo_gateway) = Inl js_type_error"
proof -
  let ?m = "portfolios_createPortfolio demo_env (xs_identities demo_ready_services) demo_dry_run"
  let ?h = "ctl_createPortfolio demo_env demo_entities (xs_identities demo_ready_services) demo_dry_run"
  obtain d s' where run: "?m demo_gateway = (Inr (DirectResult None [] d), s')" using demo_dry_run_result by blast
  have detail: "(?m, ?h) \<in> set (detail_handlers demo_env demo_entities demo_ready_services ''ACME'' ''0x01'' (BN 1) demo_bodies demo_dry_run)"
    by (simp only: detail_handlers_def Let_def list.set insert_iff refl simp_thms)
  then have "(?m, ?h) \<in> set (api_handlers demo_env demo_entities demo_ready_services ''ACME'' ''0x01'' (BN 1) demo_bodies demo_dry_run)"
    by (simp add: api_handlers_def)
  from dry_run_answers [OF this _ demo_dry_run_options _ run] detail run show ?thesis
    by (simp add: demo_entities_def demo_options_def)
qed

end
