(* ===== verification/Requests.thy ===== *)
theory Requests
  imports Submit Transfer_Restrictions
begin

text \<open>
  The classes of requests (\<open>dto\<close> directories): what a body, a query or the parameters of a path become and which of them are accepted. A class is
  given by its fields. Of each field: the declared type or the transforming decorator that makes its value, the condition under which it
  is looked at (\<open>ValidateIf\<close>, \<open>IsOptional\<close>), its validators, and its default.

  The pipe of \<open>main.ts\<close> transforms with implicit conversion to the declared types, drops what has no validator, and validates. The
  conversions, the enumerations of the SDK and the predicates with patterns are the parameter \<open>request_env\<close>; a type is named as the
  compiler names it in the metadata of a field: \<open>Object\<close> for a union. \<open>rq_whitelist\<close> holds for the pipe.
\<close>

section \<open>Fields and classes\<close>

record request_env =
  rq_validators :: validators
  rq_enums :: enums
  rq_numbers :: bignumber
  rq_enum :: "string \<Rightarrow> string list"
  rq_convert :: "string \<Rightarrow> js_value \<Rightarrow> js_value"
  rq_whitelist :: bool
  rq_createdAtDesc :: string
  rq_newDate :: "string \<Rightarrow> string option"
  rq_plainToInstance :: transformer
  rq_isUrl :: "js_value \<Rightarrow> bool"
  rq_isByteLength :: "nat \<Rightarrow> nat \<Rightarrow> js_value \<Rightarrow> bool"
  rq_isCddClaim :: "js_value \<Rightarrow> bool"
  rq_isSingleClaimCondition :: "js_value \<Rightarrow> bool"
  rq_isMultiClaimCondition :: "js_value \<Rightarrow> bool"

record field_spec =
  fd_name :: string
  fd_make :: "js_value \<Rightarrow> js_value result"
  fd_when :: "js_value \<Rightarrow> js_value \<Rightarrow> bool"
  fd_checks :: "(js_value \<Rightarrow> js_value \<Rightarrow> bool) list"
  fd_default :: "js_value option"

definition fld :: "request_env \<Rightarrow> string \<Rightarrow> string \<Rightarrow> (js_value \<Rightarrow> bool) list \<Rightarrow> field_spec" where
  "fld Q ty k checks = \<lparr>fd_name = k, fd_make = (\<lambda>v. Inr (rq_convert Q ty v)), fd_when = (\<lambda>_ _. True),
     fd_checks = map (\<lambda>p _ v. p v) checks, fd_default = None\<rparr>"

definition made :: "(js_value \<Rightarrow> js_value result) \<Rightarrow> field_spec \<Rightarrow> field_spec" where
  "made g f = f\<lparr>fd_make := g\<rparr>"

definition optional :: "field_spec \<Rightarrow> field_spec" where
  "optional f = f\<lparr>fd_when := (\<lambda>obj v. fd_when f obj v \<and> given v)\<rparr>"

definition only_if :: "(js_value \<Rightarrow> bool) \<Rightarrow> field_spec \<Rightarrow> field_spec" where
  "only_if c f = f\<lparr>fd_when := (\<lambda>obj v. fd_when f obj v \<and> c obj)\<rparr>"

definition with_default :: "js_value \<Rightarrow> field_spec \<Rightarrow> field_spec" where
  "with_default v f = f\<lparr>fd_default := Some v\<rparr>"

definition field_ok :: "js_value \<Rightarrow> field_spec \<Rightarrow> bool" where
  "field_ok obj f \<longleftrightarrow> (let v = field obj (fd_name f) in fd_when f obj v \<longrightarrow> list_all (\<lambda>p. p obj v) (fd_checks f))"

record dto =
  dt_class :: string
  dt_names :: "string list"
  dt_make :: "js_value \<Rightarrow> js_value result"
  dt_valid :: "js_value \<Rightarrow> bool"

text \<open>
  What the packages document about the pipe, which is no code of the repository: the object of a class is made property by property, the whitelist drops
  what the class does not list, and the defaults of the class are there before.
\<close>

definition field_named :: "field_spec list \<Rightarrow> string \<Rightarrow> field_spec option" where
  "field_named fs k = find (\<lambda>f. fd_name f = k) fs"

definition defaults :: "field_spec list \<Rightarrow> (string \<times> js_value) list" where
  "defaults fs = concat (map (\<lambda>f. case fd_default f of Some v \<Rightarrow> [(fd_name f, v)] | None \<Rightarrow> []) fs)"

definition make_property :: "bool \<Rightarrow> field_spec list \<Rightarrow> string \<times> js_value \<Rightarrow> (string \<times> js_value) list result" where
  "make_property whitelist fs e = (case field_named fs (fst e) of
      None \<Rightarrow> Inr (if whitelist then [] else [e])
    | Some f \<Rightarrow> bindr (fd_make f (snd e)) (\<lambda>x. Inr [(fst e, x)]))"

definition make_object :: "bool \<Rightarrow> string \<Rightarrow> field_spec list \<Rightarrow> (string \<times> js_value) list \<Rightarrow> js_value result" where
  "make_object whitelist c fs es = bindr (sequence (map (make_property whitelist fs) es)) (\<lambda>pss.
     Inr (JInstance c (object_assign (defaults fs) (concat pss))))"

fun make_with :: "((string \<times> js_value) list \<Rightarrow> js_value result) \<Rightarrow> js_value \<Rightarrow> js_value result" where
  "make_with mk (JArray vs) = bindr (sequence (map (make_with mk) vs)) (\<lambda>rs. Inr (JArray rs))"
| "make_with mk (JObject es) = mk es"
| "make_with mk v = Inr v"

definition class_dto :: "request_env \<Rightarrow> string \<Rightarrow> field_spec list \<Rightarrow> dto" where
  "class_dto Q c fs = \<lparr>dt_class = c, dt_names = map fd_name fs, dt_make = make_with (make_object (rq_whitelist Q) c fs), dt_valid = (\<lambda>obj. list_all (field_ok obj) fs)\<rparr>"

text \<open>The properties that the whitelist leaves of an object: those its class lists, and none of an object without a class. It reaches
  the values of the nested fields.\<close>

definition names_of :: "dto list \<Rightarrow> string \<Rightarrow> string list" where
  "names_of ds c = (case find (\<lambda>d. dt_class d = c) ds of Some d \<Rightarrow> dt_names d | None \<Rightarrow> [])"

fun whitelisted :: "dto list \<Rightarrow> string list \<Rightarrow> js_value \<Rightarrow> js_value" where
  "whitelisted ds nested (JArray vs) = JArray (map (whitelisted ds nested) vs)"
| "whitelisted ds nested (JObject es) = JObject []"
| "whitelisted ds nested (JInstance c es) = JInstance c
     (concat (map (\<lambda>(k, v). if k \<in> set (names_of ds c) then [(k, if k \<in> set nested then whitelisted ds nested v else v)] else []) es))"
| "whitelisted ds nested v = v"

text \<open>
  What is only transformed keeps what is not listed; \<open>plainToClass\<close> called by a decorator does not convert either. No decorator of
  the classes it is called with fails.
\<close>

definition unlisted :: "request_env \<Rightarrow> request_env" where
  "unlisted Q = Q\<lparr>rq_whitelist := False\<rparr>"

definition by_hand :: "request_env \<Rightarrow> request_env" where
  "by_hand Q = Q\<lparr>rq_whitelist := False, rq_convert := \<lambda>_ v. v\<rparr>"

definition plainToClass :: "dto \<Rightarrow> js_value \<Rightarrow> js_value" where
  "plainToClass d v = (case dt_make d v of Inr x \<Rightarrow> x | Inl _ \<Rightarrow> v)"

text \<open>A field of a class, \<open>ValidateNested\<close> or only \<open>Type\<close>.\<close>

definition typed :: "dto \<Rightarrow> string \<Rightarrow> field_spec" where
  "typed d k = \<lparr>fd_name = k, fd_make = dt_make d, fd_when = (\<lambda>_ _. True), fd_checks = [], fd_default = None\<rparr>"

definition also_checked :: "(js_value \<Rightarrow> bool) list \<Rightarrow> field_spec \<Rightarrow> field_spec" where
  "also_checked ps f = f\<lparr>fd_checks := fd_checks f @ map (\<lambda>p _ v. p v) ps\<rparr>"

definition nested :: "dto \<Rightarrow> string \<Rightarrow> field_spec" where
  "nested d k = also_checked [validateNested (dt_valid d)] (typed d k)"

text \<open>
  A class chosen by the property \<open>type\<close>. In a list the property of each element is read, which fails on \<open>null\<close>;
  an instance is validated as what it is.
\<close>

definition chosen :: "dto \<Rightarrow> (string \<times> dto) list \<Rightarrow> js_value \<Rightarrow> dto" where
  "chosen base subTypes v = (case field v ''type'' of
      JString s \<Rightarrow> (case map_of subTypes s of Some d \<Rightarrow> d | None \<Rightarrow> base) | _ \<Rightarrow> base)"

definition make_element :: "dto \<Rightarrow> (string \<times> dto) list \<Rightarrow> js_value \<Rightarrow> js_value result" where
  "make_element base subTypes v = (if given v then dt_make (chosen base subTypes v) v else Inl js_type_error)"

definition make_chosen :: "dto \<Rightarrow> (string \<times> dto) list \<Rightarrow> js_value \<Rightarrow> js_value result" where
  "make_chosen base subTypes v = (case v of
      JArray vs \<Rightarrow> bindr (sequence (map (make_element base subTypes) vs)) (\<lambda>rs. Inr (JArray rs))
    | _ \<Rightarrow> dt_make (chosen base subTypes v) v)"

definition valid_instance :: "dto list \<Rightarrow> js_value \<Rightarrow> bool" where
  "valid_instance ds v = (case v of
      JInstance c es \<Rightarrow> (case find (\<lambda>d. dt_class d = c) ds of Some d \<Rightarrow> dt_valid d v | None \<Rightarrow> True)
    | _ \<Rightarrow> True)"

definition discriminated :: "dto \<Rightarrow> (string \<times> dto) list \<Rightarrow> string \<Rightarrow> field_spec" where
  "discriminated base subTypes k = also_checked [validateNested (valid_instance (base # map snd subTypes))]
     (made (make_chosen base subTypes) (typed base k))"

section \<open>Validators\<close>

text \<open>\<open>each\<close> applies a validator to the elements of an array, and to any other value itself.\<close>

definition every :: "(js_value \<Rightarrow> bool) \<Rightarrow> js_value \<Rightarrow> bool" where
  "every p v = (case v of JArray vs \<Rightarrow> list_all p vs | _ \<Rightarrow> p v)"

fun isBoolean :: "js_value \<Rightarrow> bool" where
  "isBoolean (JBool _) = True" | "isBoolean _ = False"

fun isDate :: "js_value \<Rightarrow> bool" where
  "isDate (JDate (Some _)) = True" | "isDate _ = False"

fun isNumber :: "js_value \<Rightarrow> bool" where
  "isNumber (JNumber (JRat _)) = True" | "isNumber _ = False"

definition isObject :: "js_value \<Rightarrow> bool" where
  "isObject v \<longleftrightarrow> typeof_object v \<and> v \<noteq> JNull \<and> \<not> isArray v"

definition isNotEmpty :: "js_value \<Rightarrow> bool" where
  "isNotEmpty v \<longleftrightarrow> given v \<and> v \<noteq> JString ''''"

definition isNotEmptyObject :: "js_value \<Rightarrow> bool" where
  "isNotEmptyObject v \<longleftrightarrow> isObject v \<and> own_properties v \<noteq> []"

fun arrayMaxSize :: "nat \<Rightarrow> js_value \<Rightarrow> bool" where
  "arrayMaxSize n (JArray vs) = (length vs \<le> n)" | "arrayMaxSize n _ = False"

fun arrayMinSize :: "nat \<Rightarrow> js_value \<Rightarrow> bool" where
  "arrayMinSize n (JArray vs) = (n \<le> length vs)" | "arrayMinSize n _ = False"

section \<open>Kinds of fields\<close>

abbreviation str :: "request_env \<Rightarrow> string \<Rightarrow> field_spec" where
  "str Q k \<equiv> fld Q ''String'' k [is_string]"

abbreviation flag :: "request_env \<Rightarrow> string \<Rightarrow> field_spec" where
  "flag Q k \<equiv> fld Q ''Boolean'' k [isBoolean]"

abbreviation date :: "request_env \<Rightarrow> string \<Rightarrow> field_spec" where
  "date Q k \<equiv> fld Q ''Date'' k [isDate]"

abbreviation did_of :: "request_env \<Rightarrow> string \<Rightarrow> field_spec" where
  "did_of Q k \<equiv> fld Q ''String'' k [IsDid]"

abbreviation one_of :: "request_env \<Rightarrow> string \<Rightarrow> string \<Rightarrow> field_spec" where
  "one_of Q enum k \<equiv> fld Q ''String'' k [isEnum (rq_enum Q enum)]"

abbreviation asset_of :: "request_env \<Rightarrow> string \<Rightarrow> field_spec" where
  "asset_of Q k \<equiv> fld Q ''String'' k [IsAsset (rq_validators Q)]"

abbreviation ticker_of :: "request_env \<Rightarrow> string \<Rightarrow> field_spec" where
  "ticker_of Q k \<equiv> fld Q ''String'' k [IsTicker (rq_validators Q)]"

definition to_big :: "request_env \<Rightarrow> string \<Rightarrow> js_value \<Rightarrow> js_value result" where
  "to_big Q ty v = Inr (ToBigNumber (rq_numbers Q) (rq_convert Q ty v))"

abbreviation big_in :: "request_env \<Rightarrow> int option \<Rightarrow> int option \<Rightarrow> string \<Rightarrow> field_spec" where
  "big_in Q mn mx k \<equiv> made (to_big Q ''BigNumber'') (fld Q ''BigNumber'' k [IsBigNumber mn mx])"

abbreviation big :: "request_env \<Rightarrow> string \<Rightarrow> field_spec" where
  "big Q k \<equiv> big_in Q None None k"

abbreviation bigs :: "request_env \<Rightarrow> string \<Rightarrow> field_spec" where
  "bigs Q k \<equiv> made (to_big Q ''Array'') (fld Q ''Array'' k [IsBigNumber None None])"

abbreviation list_of :: "request_env \<Rightarrow> string \<Rightarrow> (js_value \<Rightarrow> bool) list \<Rightarrow> field_spec" where
  "list_of Q k checks \<equiv> fld Q ''Array'' k checks"

definition dates :: "request_env \<Rightarrow> js_value \<Rightarrow> js_value result" where
  "dates Q v = Inr (case v of JArray vs \<Rightarrow> JArray (map (rq_convert Q ''Date'') vs) | _ \<Rightarrow> rq_convert Q ''Date'' v)"

section \<open>Requests in common\<close>

definition MAX_MEMO_LENGTH :: nat where "MAX_MEMO_LENGTH = 32"

definition processModeValues :: "string list" where
  "processModeValues = [''submit'', ''submitWithCallback'', ''offline'', ''dryRun'', ''AMQP'']"

definition legTypeValues :: "string list" where
  "legTypeValues = [''offChain'', ''onChain'']"

definition MortalityDto :: "request_env \<Rightarrow> dto" where
  "MortalityDto Q = class_dto Q ''MortalityDto'' [optional (big Q ''lifetime''), flag Q ''immortal'']"

definition TransactionOptionsDto :: "request_env \<Rightarrow> dto" where
  "TransactionOptionsDto Q = class_dto Q ''TransactionOptionsDto''
     [str Q ''signer'',
      fld Q ''String'' ''processMode'' [isEnum processModeValues],
      optional (nested (MortalityDto Q) ''mortality''),
      optional (big Q ''nonce''),
      only_if (\<lambda>obj. field obj ''processMode'' = JString ''submitWithCallback'') (fld Q ''String'' ''webhookUrl'' [is_string, rq_isUrl Q]),
      only_if (\<lambda>obj. field obj ''processMode'' = JString ''offline'') (optional (fld Q ''Object'' ''metadata'' [isObject]))]"

definition TransactionBaseDto_fields :: "request_env \<Rightarrow> field_spec list" where
  "TransactionBaseDto_fields Q =
     [optional (nested (TransactionOptionsDto Q) ''options''),
      optional (str Q ''signer''),
      optional (fld Q ''String'' ''webhookUrl'' [is_string, rq_isUrl Q]),
      optional (flag Q ''dryRun'')]"

definition TransactionBaseDto :: "request_env \<Rightarrow> dto" where
  "TransactionBaseDto Q = class_dto Q ''TransactionBaseDto'' (TransactionBaseDto_fields Q)"

abbreviation transaction_dto :: "string \<Rightarrow> request_env \<Rightarrow> field_spec list \<Rightarrow> dto" where
  "transaction_dto c Q fs \<equiv> class_dto Q c (TransactionBaseDto_fields Q @ fs)"

definition IdParamsDto_fields :: "request_env \<Rightarrow> field_spec list" where
  "IdParamsDto_fields Q = [big Q ''id'']"

definition IdParamsDto :: "request_env \<Rightarrow> dto" where
  "IdParamsDto Q = class_dto Q ''IdParamsDto'' (IdParamsDto_fields Q)"

definition PaginatedParamsDto_fields :: "request_env \<Rightarrow> field_spec list" where
  "PaginatedParamsDto_fields Q =
     [with_default (JBig (bn_new (rq_numbers Q) (JNumber (JRat 10))))
        (only_if (\<lambda>obj. truthy (field obj ''start'')) (big_in Q None (Some 30) ''size'')),
      optional (fld Q ''Object'' ''start'' [])]"

definition PaginatedParamsDto :: "request_env \<Rightarrow> dto" where
  "PaginatedParamsDto Q = class_dto Q ''PaginatedParamsDto'' (PaginatedParamsDto_fields Q)"

definition DidDto :: "request_env \<Rightarrow> dto" where
  "DidDto Q = class_dto Q ''DidDto'' [did_of Q ''did'']"

definition IncludeExpiredFilterDto_fields :: "request_env \<Rightarrow> field_spec list" where
  "IncludeExpiredFilterDto_fields Q = [with_default (JBool True) (optional (flag Q ''includeExpired''))]"

definition IncludeExpiredFilterDto :: "request_env \<Rightarrow> dto" where
  "IncludeExpiredFilterDto Q = class_dto Q ''IncludeExpiredFilterDto'' (IncludeExpiredFilterDto_fields Q)"

definition TransferOwnershipDto :: "request_env \<Rightarrow> dto" where
  "TransferOwnershipDto Q = transaction_dto ''TransferOwnershipDto'' Q [did_of Q ''target'', optional (date Q ''expiry'')]"

section \<open>Permissions\<close>

definition PermissionTypeDto_fields :: "request_env \<Rightarrow> field_spec list" where
  "PermissionTypeDto_fields Q = [fld Q ''String'' ''type'' [isEnum (en_PermissionType (rq_enums Q))]]"

definition PortfolioDto :: "request_env \<Rightarrow> dto" where
  "PortfolioDto Q = class_dto Q ''PortfolioDto'' [did_of Q ''did'', big Q ''id'']"

definition AssetPermissionsDto :: "request_env \<Rightarrow> dto" where
  "AssetPermissionsDto Q = class_dto Q ''AssetPermissionsDto''
     (PermissionTypeDto_fields Q @ [list_of Q ''values'' [isArray, every (IsAsset (rq_validators Q))]])"

definition PortfolioPermissionsDto :: "request_env \<Rightarrow> dto" where
  "PortfolioPermissionsDto Q = class_dto Q ''PortfolioPermissionsDto''
     (PermissionTypeDto_fields Q @ [also_checked [isArray, arrayNotEmpty] (nested (PortfolioDto Q) ''values'')])"

definition TransactionPermissionsDto :: "request_env \<Rightarrow> dto" where
  "TransactionPermissionsDto Q = class_dto Q ''TransactionPermissionsDto'' (PermissionTypeDto_fields Q @
     [list_of Q ''values'' [isArray, arrayNotEmpty, every (IsTxTagOrModuleName (rq_enums Q))],
      optional (list_of Q ''exceptions'' [isArray, arrayNotEmpty, every (IsTxTag (rq_enums Q))])])"

definition PermissionsLikeDto :: "request_env \<Rightarrow> dto" where
  "PermissionsLikeDto Q = class_dto Q ''PermissionsLikeDto''
     [optional (nested (AssetPermissionsDto Q) ''assets''),
      optional (nested (PortfolioPermissionsDto Q) ''portfolios''),
      optional (nested (TransactionPermissionsDto Q) ''transactions''),
      optional (list_of Q ''transactionGroups'' [isArray, every (isEnum (rq_enum Q ''TxGroup''))])]"

definition PermissionedAccountDto :: "request_env \<Rightarrow> dto" where
  "PermissionedAccountDto Q = class_dto Q ''PermissionedAccountDto''
     [str Q ''secondaryAccount'', also_checked [IsPermissionsLike] (nested (PermissionsLikeDto Q) ''permissions'')]"

section \<open>Accounts, identities and authorizations\<close>

definition AccountParamsDto :: "request_env \<Rightarrow> dto" where
  "AccountParamsDto Q = class_dto Q ''AccountParamsDto'' [str Q ''account'']"

definition ModifyPermissionsDto :: "request_env \<Rightarrow> dto" where
  "ModifyPermissionsDto Q = transaction_dto ''ModifyPermissionsDto'' Q [nested (PermissionedAccountDto Q) ''secondaryAccounts'']"

definition RevokePermissionsDto :: "request_env \<Rightarrow> dto" where
  "RevokePermissionsDto Q = transaction_dto ''RevokePermissionsDto'' Q [list_of Q ''secondaryAccounts'' [every is_string]]"

definition TransactionHistoryFiltersDto :: "request_env \<Rightarrow> dto" where
  "TransactionHistoryFiltersDto Q = class_dto Q ''TransactionHistoryFiltersDto''
     [optional (big_in Q (Some 0) None ''blockNumber''),
      only_if (\<lambda>obj. \<not> truthy (field obj ''blockNumber'') \<and> truthy (field obj ''blockHash'')) (str Q ''blockHash''),
      optional (fld Q ''String'' ''tag'' [IsTxTag (rq_enums Q)]),
      optional (flag Q ''success''),
      optional (big Q ''size''),
      optional (big Q ''start''),
      with_default (JString (rq_createdAtDesc Q)) (one_of Q ''ExtrinsicsOrderBy'' ''orderBy'')]"

definition TransferPolyxDto :: "request_env \<Rightarrow> dto" where
  "TransferPolyxDto Q = transaction_dto ''TransferPolyxDto'' Q
     [str Q ''to'', big Q ''amount'',
      optional (fld Q ''String'' ''memo'' [is_string, \<lambda>v. vd_maxLength (rq_validators Q) v MAX_MEMO_LENGTH])]"

definition AddSecondaryAccountParamsDto :: "request_env \<Rightarrow> dto" where
  "AddSecondaryAccountParamsDto Q = transaction_dto ''AddSecondaryAccountParamsDto'' Q
     [str Q ''secondaryAccount'',
      optional (also_checked [IsPermissionsLike] (nested (PermissionsLikeDto Q) ''permissions'')),
      optional (date Q ''expiry'')]"

definition RegisterIdentityDto :: "request_env \<Rightarrow> dto" where
  "RegisterIdentityDto Q = transaction_dto ''RegisterIdentityDto'' Q
     [str Q ''targetAccount'', optional (nested (PermissionedAccountDto Q) ''secondaryAccounts''),
      flag Q ''createCdd'', optional (date Q ''expiry'')]"

definition RotatePrimaryKeyParamsDto :: "request_env \<Rightarrow> dto" where
  "RotatePrimaryKeyParamsDto Q = transaction_dto ''RotatePrimaryKeyParamsDto'' Q [str Q ''targetAccount'', optional (date Q ''expiry'')]"

definition AuthorizationParamsDto :: "request_env \<Rightarrow> dto" where
  "AuthorizationParamsDto Q = class_dto Q ''AuthorizationParamsDto'' (IdParamsDto_fields Q @ [did_of Q ''did''])"

definition AuthorizationsFilterDto :: "request_env \<Rightarrow> dto" where
  "AuthorizationsFilterDto Q = class_dto Q ''AuthorizationsFilterDto''
     (IncludeExpiredFilterDto_fields Q @ [optional (one_of Q ''AuthorizationType'' ''type'')])"

definition CreateApiKeyDto :: "request_env \<Rightarrow> dto" where
  "CreateApiKeyDto Q = class_dto Q ''CreateApiKeyDto'' [str Q ''userName'']"

definition DeleteApiKeyDto :: "request_env \<Rightarrow> dto" where
  "DeleteApiKeyDto Q = class_dto Q ''DeleteApiKeyDto'' [str Q ''apiKey'']"

definition CreateUserDto :: "request_env \<Rightarrow> dto" where
  "CreateUserDto Q = class_dto Q ''CreateUserDto'' [fld Q ''String'' ''name'' [is_string, \<lambda>v. vd_length (rq_validators Q) v 3 (Some 127)]]"

definition AddLocalSignerDto :: "request_env \<Rightarrow> dto" where
  "AddLocalSignerDto Q = class_dto Q ''AddLocalSignerDto''
     [fld Q ''String'' ''handle'' [is_string, isNotEmpty], fld Q ''String'' ''mnemonic'' [is_string, isNotEmpty]]"

definition SignerDetailsDto :: "request_env \<Rightarrow> dto" where
  "SignerDetailsDto Q = class_dto Q ''SignerDetailsDto'' [str Q ''signer'']"

section \<open>Portfolios, subsidies, tickers, metadata and the network\<close>

text \<open>An amount or the numbers of NFTs, in movements and legs: each is validated only when the other is not given.\<close>

definition amount_or_nfts :: "request_env \<Rightarrow> field_spec list" where
  "amount_or_nfts Q =
     [only_if (\<lambda>obj. \<not> truthy (field obj ''nfts'')) (big Q ''amount''),
      only_if (\<lambda>obj. \<not> truthy (field obj ''amount'')) (bigs Q ''nfts'')]"

definition PortfolioMovementDto :: "request_env \<Rightarrow> dto" where
  "PortfolioMovementDto Q = class_dto Q ''PortfolioMovementDto''
     ([asset_of Q ''asset''] @ amount_or_nfts Q @ [optional (fld Q ''String'' ''memo'' [is_string, rq_isByteLength Q 0 32])])"

definition AssetMovementDto :: "request_env \<Rightarrow> dto" where
  "AssetMovementDto Q = transaction_dto ''AssetMovementDto'' Q [big Q ''from'', big Q ''to'', nested (PortfolioMovementDto Q) ''items'']"

definition CreatePortfolioDto :: "request_env \<Rightarrow> dto" where
  "CreatePortfolioDto Q = transaction_dto ''CreatePortfolioDto'' Q [str Q ''name'']"

definition GetTransactionsDto :: "request_env \<Rightarrow> dto" where
  "GetTransactionsDto Q = class_dto Q ''GetTransactionsDto'' [optional (str Q ''account''), optional (asset_of Q ''asset'')]"

definition ModifyPortfolioDto :: "request_env \<Rightarrow> dto" where
  "ModifyPortfolioDto Q = transaction_dto ''ModifyPortfolioDto'' Q [str Q ''name'']"

definition SetCustodianDto :: "request_env \<Rightarrow> dto" where
  "SetCustodianDto Q = transaction_dto ''SetCustodianDto'' Q [did_of Q ''target'', optional (date Q ''expiry'')]"

definition CreateSubsidyDto :: "request_env \<Rightarrow> dto" where
  "CreateSubsidyDto Q = transaction_dto ''CreateSubsidyDto'' Q [str Q ''beneficiary'', big Q ''allowance'']"

definition ModifyAllowanceDto :: "request_env \<Rightarrow> dto" where
  "ModifyAllowanceDto Q = transaction_dto ''ModifyAllowanceDto'' Q [str Q ''beneficiary'', big Q ''allowance'']"

definition QuitSubsidyDto :: "request_env \<Rightarrow> dto" where
  "QuitSubsidyDto Q = transaction_dto ''QuitSubsidyDto'' Q
     [only_if (\<lambda>obj. \<not> truthy (field obj ''subsidizer'') \<or> truthy (field obj ''beneficiary'')) (str Q ''beneficiary''),
      only_if (\<lambda>obj. \<not> truthy (field obj ''beneficiary'') \<or> truthy (field obj ''subsidizer'')) (str Q ''subsidizer'')]"

definition SubsidyParamsDto :: "request_env \<Rightarrow> dto" where
  "SubsidyParamsDto Q = class_dto Q ''SubsidyParamsDto'' [str Q ''beneficiary'', str Q ''subsidizer'']"

definition ReserveTickerDto :: "request_env \<Rightarrow> dto" where
  "ReserveTickerDto Q = transaction_dto ''ReserveTickerDto'' Q [ticker_of Q ''ticker'']"

definition MetadataSpecDto :: "request_env \<Rightarrow> dto" where
  "MetadataSpecDto Q = class_dto Q ''MetadataSpecDto''
     [optional (str Q ''url''), optional (str Q ''description''), optional (str Q ''typedef'')]"

definition MetadataValueDetailsDto :: "request_env \<Rightarrow> dto" where
  "MetadataValueDetailsDto Q = class_dto Q ''MetadataValueDetailsDto''
     [optional (fld Q ''Object'' ''expiry'' [isDate]),
      one_of Q ''MetadataLockStatus'' ''lockStatus'',
      only_if (\<lambda>obj. field obj ''lockStatus'' = JString ''LockedUntil'') (date Q ''lockedUntil'')]"

definition CreateMetadataDto :: "request_env \<Rightarrow> dto" where
  "CreateMetadataDto Q = transaction_dto ''CreateMetadataDto'' Q
     [str Q ''name'', nested (MetadataSpecDto Q) ''specs'',
      only_if (\<lambda>obj. truthy (field obj ''value'') \<or> truthy (field obj ''details'')) (str Q ''value''),
      optional (nested (MetadataValueDetailsDto Q) ''details'')]"

definition MetadataParamsDto :: "request_env \<Rightarrow> dto" where
  "MetadataParamsDto Q = class_dto Q ''MetadataParamsDto'' (IdParamsDto_fields Q @ [asset_of Q ''asset'', one_of Q ''MetadataType'' ''type''])"

definition SetMetadataDto :: "request_env \<Rightarrow> dto" where
  "SetMetadataDto Q = transaction_dto ''SetMetadataDto'' Q
     [only_if (\<lambda>obj. truthy (field obj ''value'')) (str Q ''value''),
      only_if (\<lambda>obj. truthy (field obj ''details'')) (nested (MetadataValueDetailsDto Q) ''details'')]"

definition ProtocolFeesQueryDto :: "request_env \<Rightarrow> dto" where
  "ProtocolFeesQueryDto Q = class_dto Q ''ProtocolFeesQueryDto''
     [made (\<lambda>v. Inr (toArray (rq_convert Q ''Array'' v))) (list_of Q ''tags'' [isArray, arrayNotEmpty, every (IsTxTag (rq_enums Q))]),
      optional (str Q ''blockHash'')]"

end
