(* ===== verification/More_Requests.thy ===== *)
theory More_Requests
  imports Requests
begin

text \<open>
  The classes of requests, continued: assets and their transfer restrictions, checkpoints, claims, compliance, corporate actions,
  multi-sigs, NFTs, offerings, agents and their groups, settlements, and the payloads of offline transactions.
\<close>

definition MAX_CONTENT_HASH_LENGTH :: nat where "MAX_CONTENT_HASH_LENGTH = 130"
definition TRANSACTION_HASH_LENGTH :: nat where "TRANSACTION_HASH_LENGTH = 66"

abbreviation hex :: "request_env \<Rightarrow> string \<Rightarrow> field_spec" where
  "hex Q k \<equiv> fld Q ''String'' k [vd_isHexadecimal (rq_validators Q)]"

abbreviation hex_of_length :: "request_env \<Rightarrow> nat \<Rightarrow> string \<Rightarrow> field_spec" where
  "hex_of_length Q n k \<equiv> fld Q ''String'' k [vd_isHexadecimal (rq_validators Q), \<lambda>v. vd_length (rq_validators Q) v n None]"

abbreviation dids :: "request_env \<Rightarrow> string \<Rightarrow> field_spec" where
  "dids Q k \<equiv> list_of Q k [every IsDid]"

abbreviation texts :: "request_env \<Rightarrow> string \<Rightarrow> field_spec" where
  "texts Q k \<equiv> list_of Q k [every is_string]"

section \<open>Assets\<close>

definition AssetDocumentDto :: "request_env \<Rightarrow> dto" where
  "AssetDocumentDto Q = class_dto Q ''AssetDocumentDto''
     [str Q ''name'', str Q ''uri'',
      optional (fld Q ''String'' ''contentHash'' [vd_isHexadecimal (rq_validators Q),
        \<lambda>v. vd_matches (rq_validators Q) v ''^0x.+'', \<lambda>v. vd_maxLength (rq_validators Q) v MAX_CONTENT_HASH_LENGTH]),
      optional (str Q ''type''), optional (date Q ''filedAt'')]"

definition AssetParamsDto_fields :: "request_env \<Rightarrow> field_spec list" where
  "AssetParamsDto_fields Q = [asset_of Q ''asset'']"

definition AssetParamsDto :: "request_env \<Rightarrow> dto" where
  "AssetParamsDto Q = class_dto Q ''AssetParamsDto'' (AssetParamsDto_fields Q)"

definition TickerParamsDto :: "request_env \<Rightarrow> dto" where
  "TickerParamsDto Q = class_dto Q ''TickerParamsDto'' [ticker_of Q ''ticker'']"

definition SecurityIdentifierDto :: "request_env \<Rightarrow> dto" where
  "SecurityIdentifierDto Q = class_dto Q ''SecurityIdentifierDto'' [one_of Q ''SecurityIdentifierType'' ''type'', str Q ''value'']"

definition ControllerTransferDto :: "request_env \<Rightarrow> dto" where
  "ControllerTransferDto Q = transaction_dto ''ControllerTransferDto'' Q [nested (PortfolioDto Q) ''origin'', big Q ''amount'']"

definition CreateAssetDto :: "request_env \<Rightarrow> dto" where
  "CreateAssetDto Q = transaction_dto ''CreateAssetDto'' Q
     [str Q ''name'', optional (ticker_of Q ''ticker''), optional (big Q ''initialSupply''), flag Q ''isDivisible'', str Q ''assetType'',
      optional (nested (SecurityIdentifierDto Q) ''securityIdentifiers''), optional (str Q ''fundingRound''),
      optional (nested (AssetDocumentDto Q) ''documents'')]"

definition IssueDto :: "request_env \<Rightarrow> dto" where
  "IssueDto Q = transaction_dto ''IssueDto'' Q [big Q ''amount'']"

definition LinkTickerDto :: "request_env \<Rightarrow> dto" where
  "LinkTickerDto Q = transaction_dto ''LinkTickerDto'' Q [ticker_of Q ''ticker'']"

definition RedeemTokensDto :: "request_env \<Rightarrow> dto" where
  "RedeemTokensDto Q = transaction_dto ''RedeemTokensDto'' Q [big Q ''amount'', big Q ''from'']"

definition RequiredMediatorsDto :: "request_env \<Rightarrow> dto" where
  "RequiredMediatorsDto Q = transaction_dto ''RequiredMediatorsDto'' Q [dids Q ''mediators'']"

definition SetAssetDocumentsDto :: "request_env \<Rightarrow> dto" where
  "SetAssetDocumentsDto Q = transaction_dto ''SetAssetDocumentsDto'' Q [nested (AssetDocumentDto Q) ''documents'']"

definition VenueIdsDto :: "request_env \<Rightarrow> dto" where
  "VenueIdsDto Q = transaction_dto ''VenueIdsDto'' Q [also_checked [arrayNotEmpty] (bigs Q ''venues'')]"

section \<open>Transfer restrictions and statistics\<close>

definition StatClaimBaseDto_fields :: "request_env \<Rightarrow> field_spec list" where
  "StatClaimBaseDto_fields Q = [fld Q ''String'' ''type'' [isEnum (en_ClaimType (rq_enums Q))]]"

definition StatAccreditedClaimDto :: "request_env \<Rightarrow> dto" where
  "StatAccreditedClaimDto Q = class_dto Q ''StatAccreditedClaimDto'' (StatClaimBaseDto_fields Q @ [flag Q ''accredited''])"

definition StatAffiliateClaimDto :: "request_env \<Rightarrow> dto" where
  "StatAffiliateClaimDto Q = class_dto Q ''StatAffiliateClaimDto'' (StatClaimBaseDto_fields Q @ [flag Q ''affiliate''])"

definition StatJurisdictionClaimDto :: "request_env \<Rightarrow> dto" where
  "StatJurisdictionClaimDto Q = class_dto Q ''StatJurisdictionClaimDto''
     (StatClaimBaseDto_fields Q @ [optional (one_of Q ''CountryCode'' ''countryCode'')])"

definition StatClaimDto :: "request_env \<Rightarrow> dto" where
  "StatClaimDto Q = class_dto Q ''StatClaimDto'' (StatClaimBaseDto_fields Q)"

definition TransferRestrictionBaseDto_fields :: "request_env \<Rightarrow> field_spec list" where
  "TransferRestrictionBaseDto_fields Q = [one_of Q ''TransferRestrictionType'' ''type'']"

definition TransferRestrictionBaseDto :: "request_env \<Rightarrow> dto" where
  "TransferRestrictionBaseDto Q = class_dto Q ''TransferRestrictionBaseDto'' (TransferRestrictionBaseDto_fields Q)"

definition TransferRestrictionCountInputDto :: "request_env \<Rightarrow> dto" where
  "TransferRestrictionCountInputDto Q = class_dto Q ''TransferRestrictionCountInputDto''
     (TransferRestrictionBaseDto_fields Q @ [big Q ''count''])"

definition TransferRestrictionPercentageInputDto :: "request_env \<Rightarrow> dto" where
  "TransferRestrictionPercentageInputDto Q = class_dto Q ''TransferRestrictionPercentageInputDto''
     (TransferRestrictionBaseDto_fields Q @ [big_in Q (Some 0) (Some 100) ''percentage''])"

definition TransferRestrictionClaimBaseInputDto_fields :: "request_env \<Rightarrow> field_spec list" where
  "TransferRestrictionClaimBaseInputDto_fields Q = TransferRestrictionBaseDto_fields Q @
     [did_of Q ''issuer'',
      discriminated (StatClaimDto Q)
        [(''Accredited'', StatAccreditedClaimDto Q), (''Affiliate'', StatAffiliateClaimDto Q), (''Jurisdiction'', StatJurisdictionClaimDto Q)]
        ''claim'']"

definition TransferRestrictionClaimCountInputDto :: "request_env \<Rightarrow> dto" where
  "TransferRestrictionClaimCountInputDto Q = class_dto Q ''TransferRestrictionClaimCountInputDto''
     (TransferRestrictionClaimBaseInputDto_fields Q @ [big Q ''min'', big Q ''max''])"

definition TransferRestrictionClaimPercentageInputDto :: "request_env \<Rightarrow> dto" where
  "TransferRestrictionClaimPercentageInputDto Q = class_dto Q ''TransferRestrictionClaimPercentageInputDto''
     (TransferRestrictionClaimBaseInputDto_fields Q @ [big_in Q (Some 0) (Some 100) ''min'', big_in Q (Some 0) (Some 100) ''max''])"

definition SetTransferRestrictionsDto :: "request_env \<Rightarrow> dto" where
  "SetTransferRestrictionsDto Q = transaction_dto ''SetTransferRestrictionsDto'' Q
     [discriminated (TransferRestrictionBaseDto Q)
        [(''Count'', TransferRestrictionCountInputDto Q), (''Percentage'', TransferRestrictionPercentageInputDto Q),
         (''ClaimCount'', TransferRestrictionClaimCountInputDto Q), (''ClaimPercentage'', TransferRestrictionClaimPercentageInputDto Q)]
        ''restrictions'']"

text \<open>
  The classes of statistics. Their objects are made by the transformer of the list, which writes the given properties over what the
  classes make of them; what the validator then drops is left to the whitelist.
\<close>

definition AssetStatBaseDto_fields :: "request_env \<Rightarrow> field_spec list" where
  "AssetStatBaseDto_fields Q = [one_of Q ''StatType'' ''type'']"

definition AddCountStatDto :: "request_env \<Rightarrow> dto" where
  "AddCountStatDto Q = class_dto Q ''AddCountStatDto'' (AssetStatBaseDto_fields Q @ [big Q ''count''])"

definition AddPercentageStatDto :: "request_env \<Rightarrow> dto" where
  "AddPercentageStatDto Q = class_dto Q ''AddPercentageStatDto'' (AssetStatBaseDto_fields Q)"

definition AddClaimCountStatBaseDto_fields :: "request_env \<Rightarrow> field_spec list" where
  "AddClaimCountStatBaseDto_fields Q =
     AssetStatBaseDto_fields Q @ [did_of Q ''issuer'', fld Q ''String'' ''claimType'' [isEnum (en_ClaimType (rq_enums Q))]]"

definition ClaimCountAccreditedValueDto :: "request_env \<Rightarrow> dto" where
  "ClaimCountAccreditedValueDto Q = class_dto Q ''ClaimCountAccreditedValueDto'' [big Q ''accredited'', big Q ''nonAccredited'']"

definition ClaimCountAffiliateValueDto :: "request_env \<Rightarrow> dto" where
  "ClaimCountAffiliateValueDto Q = class_dto Q ''ClaimCountAffiliateValueDto'' [big Q ''affiliate'', big Q ''nonAffiliate'']"

definition ClaimCountJurisdictionValueItemDto :: "request_env \<Rightarrow> dto" where
  "ClaimCountJurisdictionValueItemDto Q = class_dto Q ''ClaimCountJurisdictionValueItemDto''
     [optional (one_of Q ''CountryCode'' ''countryCode''), big Q ''count'']"

text \<open>The values of a count by claim: what is no object of its class has no validators.\<close>

definition claim_count_values :: "request_env \<Rightarrow> dto list" where
  "claim_count_values Q = [ClaimCountAccreditedValueDto Q, ClaimCountAffiliateValueDto Q, ClaimCountJurisdictionValueItemDto Q]"

definition claim_count_value :: "request_env \<Rightarrow> dto \<Rightarrow> field_spec" where
  "claim_count_value Q d = also_checked [validateNested (valid_instance (claim_count_values Q))] (typed d ''value'')"

definition AddClaimCountAccreditedStatDto :: "request_env \<Rightarrow> dto" where
  "AddClaimCountAccreditedStatDto Q = class_dto Q ''AddClaimCountAccreditedStatDto''
     (AddClaimCountStatBaseDto_fields Q @ [claim_count_value Q (ClaimCountAccreditedValueDto Q)])"

definition AddClaimCountAffiliateStatDto :: "request_env \<Rightarrow> dto" where
  "AddClaimCountAffiliateStatDto Q = class_dto Q ''AddClaimCountAffiliateStatDto''
     (AddClaimCountStatBaseDto_fields Q @ [claim_count_value Q (ClaimCountAffiliateValueDto Q)])"

definition AddClaimCountJurisdictionStatDto :: "request_env \<Rightarrow> dto" where
  "AddClaimCountJurisdictionStatDto Q = class_dto Q ''AddClaimCountJurisdictionStatDto''
     (AddClaimCountStatBaseDto_fields Q @ [claim_count_value Q (ClaimCountJurisdictionValueItemDto Q)])"

definition AddClaimPercentageStatDto :: "request_env \<Rightarrow> dto" where
  "AddClaimPercentageStatDto Q = class_dto Q ''AddClaimPercentageStatDto'' (AssetStatBaseDto_fields Q @
     [did_of Q ''issuer'', fld Q ''Object'' ''claimType'' [IsTrustedForClaimType (rq_enums Q)]])"

definition stat_classes :: "request_env \<Rightarrow> dto list" where
  "stat_classes Q = [AddCountStatDto Q, AddPercentageStatDto Q, AddClaimCountAccreditedStatDto Q, AddClaimCountAffiliateStatDto Q,
     AddClaimCountJurisdictionStatDto Q, AddClaimPercentageStatDto Q]"

text \<open>
  The implicit conversion to the declared type \<open>Array\<close> applies to each element of a list. What it makes of a plain object is up to
  \<open>class-transformer\<close>: an object of another class than \<open>Object\<close> is left alone by the transformer of the list.
\<close>

definition convert_elements :: "request_env \<Rightarrow> js_value \<Rightarrow> js_value" where
  "convert_elements Q v = (case v of JArray vs \<Rightarrow> JArray (map (rq_convert Q ''Array'') vs) | _ \<Rightarrow> rq_convert Q ''Array'' v)"

definition make_stats :: "request_env \<Rightarrow> js_value \<Rightarrow> js_value result" where
  "make_stats Q v = bindr (TransformScopedCountStats (rq_numbers Q) (rq_plainToInstance Q) (convert_elements Q v))
     (\<lambda>stats. Inr (whitelisted (stat_classes Q @ claim_count_values Q) [''value''] stats))"

definition SetStatsDto :: "request_env \<Rightarrow> dto" where
  "SetStatsDto Q = transaction_dto ''SetStatsDto'' Q
     [made (make_stats Q) (list_of Q ''stats'' [validateNested (valid_instance (stat_classes Q))])]"

section \<open>Checkpoints\<close>

definition CheckPointBalanceParamsDto :: "request_env \<Rightarrow> dto" where
  "CheckPointBalanceParamsDto Q = class_dto Q ''CheckPointBalanceParamsDto'' (IdParamsDto_fields Q @ [asset_of Q ''asset'', did_of Q ''did''])"

definition CheckpointParamsDto :: "request_env \<Rightarrow> dto" where
  "CheckpointParamsDto Q = class_dto Q ''CheckpointParamsDto'' (IdParamsDto_fields Q @ [asset_of Q ''asset''])"

definition CreateCheckpointScheduleDto :: "request_env \<Rightarrow> dto" where
  "CreateCheckpointScheduleDto Q = transaction_dto ''CreateCheckpointScheduleDto'' Q
     [made (dates Q) (list_of Q ''points'' [isArray, every isDate])]"

definition PeriodQueryDto :: "request_env \<Rightarrow> dto" where
  "PeriodQueryDto Q = class_dto Q ''PeriodQueryDto'' [optional (date Q ''start''), optional (date Q ''end'')]"

section \<open>Claims\<close>

definition ScopeDto :: "request_env \<Rightarrow> dto" where
  "ScopeDto Q = class_dto Q ''ScopeDto''
     [one_of Q ''ScopeType'' ''type'',
      (fld Q ''String'' ''value'' [])\<lparr>fd_checks := [IsValidScopeValue (rq_validators Q) ''type'']\<rparr>]"

definition TrustedClaimIssuerDto :: "request_env \<Rightarrow> dto" where
  "TrustedClaimIssuerDto Q = class_dto Q ''TrustedClaimIssuerDto''
     [made (\<lambda>v. Inr (ToTrustedFor (rq_numbers Q) (en_ClaimType (rq_enums Q)) True (rq_convert Q ''Object'' v)))
        (fld Q ''Object'' ''trustedFor'' [every (IsTrustedForClaimType (rq_enums Q))]),
      did_of Q ''identity'']"

definition ClaimDto :: "request_env \<Rightarrow> dto" where
  "ClaimDto Q = class_dto Q ''ClaimDto''
     [fld Q ''String'' ''type'' [isEnum (en_ClaimType (rq_enums Q))],
      only_if (\<lambda>claim. \<not> rq_isCddClaim Q claim
          \<and> \<not> (field claim ''type'' = JString ''Custom'' \<and> field claim ''scope'' = JUndefined))
        (also_checked [isNotEmptyObject] (nested (ScopeDto Q) ''scope'')),
      only_if (\<lambda>claim. field claim ''type'' = JString ''Jurisdiction'') (one_of Q ''CountryCode'' ''code''),
      only_if (\<lambda>claim. field claim ''type'' = JString ''Custom'')
        (made (to_big Q ''BigNumber'') (fld Q ''BigNumber'' ''customClaimTypeId'' [])),
      only_if (\<lambda>claim. field claim ''type'' = JString ''CustomerDueDiligence'')
        (fld Q ''String'' ''cddId'' [IsCddId (rq_validators Q)]),
      optional (nested (TrustedClaimIssuerDto Q) ''trustedClaimIssuers'')]"

definition ClaimTargetDto :: "request_env \<Rightarrow> dto" where
  "ClaimTargetDto Q = class_dto Q ''ClaimTargetDto''
     [did_of Q ''target'', nested (ClaimDto Q) ''claim'', optional (date Q ''expiry'')]"

definition ClaimsFilterDto :: "request_env \<Rightarrow> dto" where
  "ClaimsFilterDto Q = class_dto Q ''ClaimsFilterDto''
     (IncludeExpiredFilterDto_fields Q @ [optional (list_of Q ''claimTypes'' [every (isEnum (en_ClaimType (rq_enums Q)))])])"

definition GetCustomClaimTypesDto :: "request_env \<Rightarrow> dto" where
  "GetCustomClaimTypesDto Q = class_dto Q ''GetCustomClaimTypesDto'' (PaginatedParamsDto_fields Q @ [optional (dids Q ''dids'')])"

definition ModifyClaimsDto :: "request_env \<Rightarrow> dto" where
  "ModifyClaimsDto Q = transaction_dto ''ModifyClaimsDto'' Q [also_checked [isNotEmpty] (nested (ClaimTargetDto Q) ''claims'')]"

definition RegisterCustomClaimTypeDto :: "request_env \<Rightarrow> dto" where
  "RegisterCustomClaimTypeDto Q = transaction_dto ''RegisterCustomClaimTypeDto'' Q [str Q ''name'']"

definition ProofScopeIdCddIdMatchDto :: "request_env \<Rightarrow> dto" where
  "ProofScopeIdCddIdMatchDto Q = class_dto Q ''ProofScopeIdCddIdMatchDto''
     [list_of Q ''challengeResponses'' [isArray, arrayMinSize 2, arrayMaxSize 2, every is_string],
      str Q ''subtractExpressionsRes'', str Q ''blindedScopeDidHash'']"

definition ScopeClaimProofDto :: "request_env \<Rightarrow> dto" where
  "ScopeClaimProofDto Q = class_dto Q ''ScopeClaimProofDto''
     [str Q ''proofScopeIdWellFormed'', typed (ProofScopeIdCddIdMatchDto (unlisted Q)) ''proofScopeIdCddIdMatch'']"

section \<open>Compliance\<close>

definition ConditionDto :: "request_env \<Rightarrow> dto" where
  "ConditionDto Q = class_dto Q ''ConditionDto''
     [one_of Q ''ConditionTarget'' ''target'', one_of Q ''ConditionType'' ''type'',
      optional (nested (TrustedClaimIssuerDto Q) ''trustedClaimIssuers''),
      only_if (rq_isSingleClaimCondition Q) (also_checked [isNotEmptyObject] (nested (ClaimDto Q) ''claim'')),
      only_if (rq_isMultiClaimCondition Q) (also_checked [isNotEmpty] (nested (ClaimDto Q) ''claims'')),
      only_if (\<lambda>c. field c ''type'' = JString ''IsIdentity'') (did_of Q ''identity'')]"

definition RemoveTrustedClaimIssuersDto :: "request_env \<Rightarrow> dto" where
  "RemoveTrustedClaimIssuersDto Q = transaction_dto ''RemoveTrustedClaimIssuersDto'' Q [list_of Q ''claimIssuers'' [isNotEmpty, every IsDid]]"

definition RequirementParamsDto :: "request_env \<Rightarrow> dto" where
  "RequirementParamsDto Q = class_dto Q ''RequirementParamsDto'' (AssetParamsDto_fields Q @ [big Q ''id''])"

definition RequirementDto :: "request_env \<Rightarrow> dto" where
  "RequirementDto Q = transaction_dto ''RequirementDto'' Q [also_checked [isNotEmpty] (nested (ConditionDto Q) ''conditions'')]"

definition SetRequirementsDto :: "request_env \<Rightarrow> dto" where
  "SetRequirementsDto Q = transaction_dto ''SetRequirementsDto'' Q
     [also_checked [isNotEmpty, every isArray] (nested (ConditionDto Q) ''requirements'')]"

definition SetTrustedClaimIssuersDto :: "request_env \<Rightarrow> dto" where
  "SetTrustedClaimIssuersDto Q = transaction_dto ''SetTrustedClaimIssuersDto'' Q
     [also_checked [isNotEmpty] (nested (TrustedClaimIssuerDto Q) ''claimIssuers'')]"

section \<open>Corporate actions\<close>

definition CorporateActionCheckpointDto :: "request_env \<Rightarrow> dto" where
  "CorporateActionCheckpointDto Q = class_dto Q ''CorporateActionCheckpointDto''
     [fld Q ''String'' ''type'' [isEnum (en_CaCheckpointType (rq_enums Q))], big Q ''id'']"

definition CorporateActionTargetsDto :: "request_env \<Rightarrow> dto" where
  "CorporateActionTargetsDto Q = class_dto Q ''CorporateActionTargetsDto'' [one_of Q ''TargetTreatment'' ''treatment'', dids Q ''identities'']"

definition TaxWithholdingDto :: "request_env \<Rightarrow> dto" where
  "TaxWithholdingDto Q = class_dto Q ''TaxWithholdingDto'' [did_of Q ''identity'', big Q ''percentage'']"

text \<open>Each of the three fields is validated when it is given, and when neither of the others is.\<close>

definition one_at_least :: "string \<Rightarrow> string \<Rightarrow> string \<Rightarrow> field_spec \<Rightarrow> field_spec" where
  "one_at_least k a b = only_if (\<lambda>obj. truthy (field obj k) \<or> (\<not> truthy (field obj a) \<and> \<not> truthy (field obj b)))"

definition CorporateActionDefaultConfigDto :: "request_env \<Rightarrow> dto" where
  "CorporateActionDefaultConfigDto Q = transaction_dto ''CorporateActionDefaultConfigDto'' Q
     [one_at_least ''targets'' ''taxWithholdings'' ''defaultTaxWithholding'' (nested (CorporateActionTargetsDto Q) ''targets''),
      one_at_least ''defaultTaxWithholding'' ''targets'' ''taxWithholdings'' (big Q ''defaultTaxWithholding''),
      one_at_least ''taxWithholdings'' ''targets'' ''defaultTaxWithholding'' (nested (TaxWithholdingDto Q) ''taxWithholdings'')]"

definition ca_checkpoint :: "request_env \<Rightarrow> field_spec" where
  "ca_checkpoint Q = made (\<lambda>v. Inr (ToCaCheckpoint (rq_newDate Q) (plainToClass (CorporateActionCheckpointDto (by_hand Q)))
       (rq_convert Q ''Object'' v))) (fld Q ''Object'' ''checkpoint'' [IsCaCheckpoint (rq_enums Q)])"

definition DividendDistributionDto :: "request_env \<Rightarrow> dto" where
  "DividendDistributionDto Q = transaction_dto ''DividendDistributionDto'' Q
     [str Q ''description'', optional (date Q ''declarationDate''), optional (nested (CorporateActionTargetsDto Q) ''targets''),
      optional (big Q ''defaultTaxWithholding''), optional (nested (TaxWithholdingDto Q) ''taxWithholdings''),
      ca_checkpoint Q, big Q ''originPortfolio'', ticker_of Q ''currency'', big Q ''perShare'', big Q ''maxAmount'',
      date Q ''paymentDate'', optional (date Q ''expiryDate'')]"

definition LinkDocumentsDto :: "request_env \<Rightarrow> dto" where
  "LinkDocumentsDto Q = transaction_dto ''LinkDocumentsDto'' Q [nested (AssetDocumentDto Q) ''documents'']"

definition ModifyDistributionCheckpointDto :: "request_env \<Rightarrow> dto" where
  "ModifyDistributionCheckpointDto Q = transaction_dto ''ModifyDistributionCheckpointDto'' Q [ca_checkpoint Q]"

definition PayDividendsDto :: "request_env \<Rightarrow> dto" where
  "PayDividendsDto Q = transaction_dto ''PayDividendsDto'' Q [dids Q ''targets'']"

section \<open>Mock identities\<close>

definition CreateMockIdentityDto :: "request_env \<Rightarrow> dto" where
  "CreateMockIdentityDto Q = class_dto Q ''CreateMockIdentityDto'' [str Q ''address'', big_in Q (Some 0) None ''initialPolyx'']"

definition CreateTestAccountsDto :: "request_env \<Rightarrow> dto" where
  "CreateTestAccountsDto Q = class_dto Q ''CreateTestAccountsDto''
     [optional (str Q ''signer''), also_checked [isArray] (nested (CreateMockIdentityDto Q) ''accounts'')]"

definition CreateTestAdminsDto :: "request_env \<Rightarrow> dto" where
  "CreateTestAdminsDto Q = class_dto Q ''CreateTestAdminsDto'' [also_checked [isArray] (nested (CreateMockIdentityDto Q) ''accounts'')]"

definition WebHookDto :: "request_env \<Rightarrow> dto" where
  "WebHookDto Q = class_dto Q ''WebHookDto'' [str Q ''text'']"

section \<open>Multi-sigs\<close>

definition CreateMultiSigDto :: "request_env \<Rightarrow> dto" where
  "CreateMultiSigDto Q = transaction_dto ''CreateMultiSigDto'' Q
     [big Q ''requiredSignatures'', list_of Q ''signers'' [arrayMaxSize 50, every is_string]]"

definition ModifyMultiSigDto :: "request_env \<Rightarrow> dto" where
  "ModifyMultiSigDto Q = transaction_dto ''ModifyMultiSigDto'' Q [big Q ''requiredSignatures'', texts Q ''signers'']"

definition MultiSigParamsDto :: "request_env \<Rightarrow> dto" where
  "MultiSigParamsDto Q = class_dto Q ''MultiSigParamsDto'' [str Q ''multiSigAddress'']"

definition MultiSigProposalParamsDto :: "request_env \<Rightarrow> dto" where
  "MultiSigProposalParamsDto Q = class_dto Q ''MultiSigProposalParamsDto'' [str Q ''multiSigAddress'', big Q ''proposalId'']"

definition SetMultiSigAdminDto :: "request_env \<Rightarrow> dto" where
  "SetMultiSigAdminDto Q = transaction_dto ''SetMultiSigAdminDto'' Q [did_of Q ''admin'']"

section \<open>NFTs and offerings\<close>

definition CollectionKeyDto :: "request_env \<Rightarrow> dto" where
  "CollectionKeyDto Q = class_dto Q ''CollectionKeyDto''
     [one_of Q ''MetadataType'' ''type'',
      only_if (\<lambda>k. field k ''type'' = JString ''Global'') (big Q ''id''),
      only_if (\<lambda>k. field k ''type'' = JString ''Local'') (typed (MetadataSpecDto (unlisted Q)) ''spec''),
      only_if (\<lambda>k. field k ''type'' = JString ''Local'') (str Q ''name'')]"

definition CreateNftCollectionDto :: "request_env \<Rightarrow> dto" where
  "CreateNftCollectionDto Q = transaction_dto ''CreateNftCollectionDto'' Q
     [str Q ''name'', optional (ticker_of Q ''ticker''), one_of Q ''KnownNftType'' ''nftType'',
      optional (nested (SecurityIdentifierDto Q) ''securityIdentifiers''), optional (nested (AssetDocumentDto Q) ''documents''),
      nested (CollectionKeyDto Q) ''collectionKeys'']"

definition MetadataValueDto :: "request_env \<Rightarrow> dto" where
  "MetadataValueDto Q = class_dto Q ''MetadataValueDto'' [one_of Q ''MetadataType'' ''type'', big Q ''id'', str Q ''value'']"

definition IssueNftDto :: "request_env \<Rightarrow> dto" where
  "IssueNftDto Q = transaction_dto ''IssueNftDto'' Q [nested (MetadataValueDto Q) ''metadata'']"

definition NftParamsDto :: "request_env \<Rightarrow> dto" where
  "NftParamsDto Q = class_dto Q ''NftParamsDto'' [asset_of Q ''asset'', big Q ''id'']"

definition RedeemNftDto :: "request_env \<Rightarrow> dto" where
  "RedeemNftDto Q = transaction_dto ''RedeemNftDto'' Q [big Q ''from'']"

definition OfferingStatusFilterDto :: "request_env \<Rightarrow> dto" where
  "OfferingStatusFilterDto Q = class_dto Q ''OfferingStatusFilterDto''
     [optional (one_of Q ''OfferingTimingStatus'' ''timing''), optional (one_of Q ''OfferingBalanceStatus'' ''balance''),
      optional (one_of Q ''OfferingSaleStatus'' ''sale'')]"

section \<open>Agents and their groups\<close>

definition AbdicateAgentDto :: "request_env \<Rightarrow> dto" where
  "AbdicateAgentDto Q = transaction_dto ''AbdicateAgentDto'' Q [did_of Q ''identity'']"

text \<open>\<open>IncompatibleWith\<close>: a validator on the siblings, and a condition under which the field is validated.\<close>

definition IncompatibleWith :: "string list \<Rightarrow> field_spec \<Rightarrow> field_spec" where
  "IncompatibleWith siblings f = f\<lparr>fd_checks := IsNotSiblingOf siblings # fd_checks f,
     fd_when := (\<lambda>obj v. fd_when f obj v \<and> incompatibleSiblingsNotPresent siblings obj v)\<rparr>"

definition CreatePermissionGroupDto_fields :: "request_env \<Rightarrow> field_spec list" where
  "CreatePermissionGroupDto_fields Q =
     [IncompatibleWith [''transactionGroups''] (nested (TransactionPermissionsDto Q) ''transactions''),
      IncompatibleWith [''transactions'']
        (list_of Q ''transactionGroups'' [isArray, every (isEnum (en_AgentTxGroup (rq_enums Q)))])]"

definition CreatePermissionGroupDto :: "request_env \<Rightarrow> dto" where
  "CreatePermissionGroupDto Q = transaction_dto ''CreatePermissionGroupDto'' Q (CreatePermissionGroupDto_fields Q)"

definition GroupPermissionsDto :: "request_env \<Rightarrow> dto" where
  "GroupPermissionsDto Q = class_dto Q ''GroupPermissionsDto'' (CreatePermissionGroupDto_fields Q)"

definition group_permissions :: "request_env \<Rightarrow> field_spec" where
  "group_permissions Q = made (\<lambda>v. Inr (ToGroupPermissions (rq_numbers Q) (rq_enums Q) (plainToClass (GroupPermissionsDto (by_hand Q)))
       (rq_convert Q ''Object'' v))) (fld Q ''Object'' ''permissions'' [IsGroupPermissions (rq_enums Q)])"

definition AssignAgentToGroupDto :: "request_env \<Rightarrow> dto" where
  "AssignAgentToGroupDto Q = transaction_dto ''AssignAgentToGroupDto'' Q [did_of Q ''target'', group_permissions Q]"

definition CheckPermissionsDto :: "request_env \<Rightarrow> dto" where
  "CheckPermissionsDto Q = class_dto Q ''CheckPermissionsDto''
     [did_of Q ''target'',
      optional (made (\<lambda>v. let value = rq_convert Q ''Array'' v
                         in Inr (if \<not> given value then value else if isArray value then value else JArray [value]))
        (list_of Q ''transactions'' [isArray, arrayNotEmpty, every (IsTxTag (rq_enums Q))]))]"

definition GetPermissionGroupDto :: "request_env \<Rightarrow> dto" where
  "GetPermissionGroupDto Q = class_dto Q ''GetPermissionGroupDto'' (AssetParamsDto_fields Q @ IdParamsDto_fields Q)"

definition InviteAgentToGroupDto :: "request_env \<Rightarrow> dto" where
  "InviteAgentToGroupDto Q = transaction_dto ''InviteAgentToGroupDto'' Q [did_of Q ''target'', group_permissions Q]"

definition RemoveAgentFromGroupDto :: "request_env \<Rightarrow> dto" where
  "RemoveAgentFromGroupDto Q = transaction_dto ''RemoveAgentFromGroupDto'' Q [did_of Q ''target'']"

section \<open>Settlements\<close>

definition AffirmAsMediatorDto :: "request_env \<Rightarrow> dto" where
  "AffirmAsMediatorDto Q = transaction_dto ''AffirmAsMediatorDto'' Q [optional (date Q ''expiry'')]"

definition OffChainSignatureDto :: "request_env \<Rightarrow> dto" where
  "OffChainSignatureDto Q = class_dto Q ''OffChainSignatureDto'' [one_of Q ''SignerKeyRingType'' ''type'', optional (hex Q ''value'')]"

definition OffChainAffirmationReceiptDto :: "request_env \<Rightarrow> dto" where
  "OffChainAffirmationReceiptDto Q = class_dto Q ''OffChainAffirmationReceiptDto''
     [big Q ''uid'', big Q ''legId'', str Q ''signer'', nested (OffChainSignatureDto Q) ''signature'', optional (str Q ''metadata'')]"

definition AffirmInstructionDto :: "request_env \<Rightarrow> dto" where
  "AffirmInstructionDto Q = transaction_dto ''AffirmInstructionDto'' Q
     [optional (nested (PortfolioDto Q) ''portfolios''), optional (nested (OffChainAffirmationReceiptDto Q) ''receipts'')]"

definition leg_type :: "request_env \<Rightarrow> field_spec" where
  "leg_type Q = fld Q ''String'' ''type'' [isEnum legTypeValues]"

definition AssetLegTypeDto :: "request_env \<Rightarrow> dto" where
  "AssetLegTypeDto Q = class_dto Q ''AssetLegTypeDto'' [leg_type Q]"

definition LegDto :: "request_env \<Rightarrow> dto" where
  "LegDto Q = class_dto Q ''LegDto'' (amount_or_nfts Q @
     [nested (PortfolioDto Q) ''from'', nested (PortfolioDto Q) ''to'', asset_of Q ''asset'',
      with_default (JString ''onChain'') (leg_type Q)])"

definition OffChainLegDto :: "request_env \<Rightarrow> dto" where
  "OffChainLegDto Q = class_dto Q ''OffChainLegDto''
     [did_of Q ''from'', did_of Q ''to'', big Q ''offChainAmount'', with_default (JString ''offChain'') (leg_type Q), ticker_of Q ''asset'']"

definition legs_field :: "request_env \<Rightarrow> field_spec" where
  "legs_field Q = discriminated (AssetLegTypeDto Q) [(''offChain'', OffChainLegDto Q), (''onChain'', LegDto Q)] ''legs''"

definition CreateInstructionDto :: "request_env \<Rightarrow> dto" where
  "CreateInstructionDto Q = transaction_dto ''CreateInstructionDto'' Q
     [legs_field Q, optional (date Q ''tradeDate''), optional (date Q ''valueDate''), optional (big Q ''endBlock''),
      optional (big Q ''endAfterBlock''), optional (fld Q ''String'' ''memo'' [is_string, rq_isByteLength Q 0 32]),
      optional (dids Q ''mediators'')]"

definition CreateVenueDto :: "request_env \<Rightarrow> dto" where
  "CreateVenueDto Q = transaction_dto ''CreateVenueDto'' Q
     [str Q ''description'', one_of Q ''VenueType'' ''type'', optional (list_of Q ''signers'' [isArray, every is_string])]"

definition ExecuteInstructionDto :: "request_env \<Rightarrow> dto" where
  "ExecuteInstructionDto Q = transaction_dto ''ExecuteInstructionDto'' Q [optional (flag Q ''skipAffirmationCheck'')]"

definition LegIdParamsDto :: "request_env \<Rightarrow> dto" where
  "LegIdParamsDto Q = class_dto Q ''LegIdParamsDto'' (IdParamsDto_fields Q @ [big Q ''legId''])"

definition LegValidationParamsDto :: "request_env \<Rightarrow> dto" where
  "LegValidationParamsDto Q = class_dto Q ''LegValidationParamsDto'' (amount_or_nfts Q @
     [did_of Q ''fromDid'', big Q ''fromPortfolio'', did_of Q ''toDid'', big Q ''toPortfolio'', asset_of Q ''asset''])"

definition ModifyVenueDto :: "request_env \<Rightarrow> dto" where
  "ModifyVenueDto Q = transaction_dto ''ModifyVenueDto'' Q
     [only_if (\<lambda>obj. \<not> truthy (field obj ''type'') \<or> truthy (field obj ''description'')) (str Q ''description''),
      only_if (\<lambda>obj. truthy (field obj ''type'') \<or> \<not> truthy (field obj ''description'')) (one_of Q ''VenueType'' ''type'')]"

definition UpdateVenueSignersDto :: "request_env \<Rightarrow> dto" where
  "UpdateVenueSignersDto Q = transaction_dto ''UpdateVenueSignersDto'' Q [texts Q ''signers'']"

section \<open>Payloads\<close>

definition PayloadDto :: "request_env \<Rightarrow> dto" where
  "PayloadDto Q = class_dto Q ''PayloadDto''
     [hex Q ''specVersion'', hex Q ''transactionVersion'', str Q ''address'', hex_of_length Q 66 ''blockHash'', hex Q ''blockNumber'',
      hex Q ''era'', hex_of_length Q 66 ''genesisHash'', hex Q ''method'', hex Q ''nonce'', texts Q ''signedExtensions'', hex Q ''tip'',
      fld Q ''Number'' ''version'' [isNumber]]"

definition RawPayloadDto :: "request_env \<Rightarrow> dto" where
  "RawPayloadDto Q = class_dto Q ''RawPayloadDto'' [str Q ''address'', hex Q ''data'', str Q ''type'']"

definition TransactionHashParamsDto :: "request_env \<Rightarrow> dto" where
  "TransactionHashParamsDto Q = class_dto Q ''TransactionHashParamsDto'' [hex_of_length Q TRANSACTION_HASH_LENGTH ''hash'']"

definition TransactionDto :: "request_env \<Rightarrow> dto" where
  "TransactionDto Q = class_dto Q ''TransactionDto''
     [hex Q ''signature'', hex Q ''method'', nested (PayloadDto Q) ''payload'', nested (RawPayloadDto Q) ''rawPayload'',
      fld Q ''Object'' ''metadata'' [isObject]]"

end
