(* ===== verification/Request_Properties.thy ===== *)
theory Request_Properties
  imports Actions More_Requests
begin

text \<open>
  What an accepted request is: only what its class lists, and, for the requests with conditions between their fields, which values reach
  the services and what they then do.
\<close>

section \<open>Making the object of a request\<close>

text \<open>A body or a query is accepted as an object when the object can be made and is valid.\<close>

definition accepted :: "dto \<Rightarrow> js_value \<Rightarrow> js_value \<Rightarrow> bool" where
  "accepted d v b \<longleftrightarrow> dt_make d v = Inr b \<and> dt_valid d b"

text \<open>What a request can hold: JSON.\<close>

fun json :: "js_value \<Rightarrow> bool" where
  "json (JArray vs) = list_all json vs"
| "json (JObject es) = (distinct (map fst es) \<and> list_all (\<lambda>(k, v). json v) es)"
| "json JNull = True"
| "json (JBool _) = True"
| "json (JNumber (JRat _)) = True"
| "json (JString _) = True"
| "json _ = False"

lemma bindr_Inr: "bindr r f = Inr b \<longleftrightarrow> (\<exists>a. r = Inr a \<and> f a = Inr b)"
  by (cases r) auto

lemma map_of_object_assign: "distinct (map fst s) \<Longrightarrow>
    map_of (object_assign t s) k = (case map_of s k of Some v \<Rightarrow> Some v | None \<Rightarrow> map_of t k)"
proof (induction s arbitrary: t)
  case (Cons e s)
  obtain k' v where e: "e = (k', v)" by fastforce
  have "map_of s k' = None" using Cons.prems by (simp add: e map_of_eq_None_iff)
  then show ?case using Cons.IH [of "put_property k' v t"] Cons.prems by (simp add: e object_assign_def split: option.split)
qed (simp add: object_assign_def)

lemma names_object_assign: "fst ` set (object_assign t s) \<subseteq> fst ` set t \<union> fst ` set s"
proof (induction s arbitrary: t)
  case (Cons e s)
  have "fst ` set (put_property (fst e) (snd e) t) \<subseteq> insert (fst e) (fst ` set t)"
    using set_put_property [of "fst e" "snd e" t] by auto
  with Cons.IH [of "put_property (fst e) (snd e) t"] show ?case by (auto simp: object_assign_def split_beta)
qed (simp add: object_assign_def)

lemma sequence_members:
  assumes "sequence (map f xs) = Inr ys"
  shows "x \<in> set xs \<Longrightarrow> \<exists>y \<in> set ys. f x = Inr y" and "y \<in> set ys \<Longrightarrow> \<exists>x \<in> set xs. f x = Inr y"
proof -
  have eq: "f ` set xs = Inr ` set ys" using assms by (metis sequence_Inr_iff set_map)
  show "\<exists>y \<in> set ys. f x = Inr y" if "x \<in> set xs"
  proof -
    have "f x \<in> Inr ` set ys" using that by (simp flip: eq)
    then show ?thesis by (rule imageE) blast
  qed
  show "\<exists>x \<in> set xs. f x = Inr y" if "y \<in> set ys"
  proof -
    have "Inr y \<in> f ` set xs" using that by (simp add: eq)
    then show ?thesis by (rule imageE) (rule bexI, rule sym)
  qed
qed

lemma field_named_fd_name: "field_named fs k = Some f \<Longrightarrow> f \<in> set fs \<and> fd_name f = k"
  by (auto simp: field_named_def find_Some_iff)

lemma names_defaults: "fst ` set (defaults fs) \<subseteq> fd_name ` set fs"
  by (auto simp: defaults_def split: option.splits)

lemma make_property_names: "make_property True fs e = Inr ps \<Longrightarrow> fst ` set ps \<subseteq> fd_name ` set fs"
  by (force simp: make_property_def bindr_Inr split: option.splits dest!: field_named_fd_name)

definition made_property :: "bool \<Rightarrow> field_spec list \<Rightarrow> string \<Rightarrow> js_value option \<Rightarrow> js_value option" where
  "made_property w fs k v = (case v of None \<Rightarrow> None
     | Some x \<Rightarrow> (case field_named fs k of None \<Rightarrow> if w then None else Some x
        | Some f \<Rightarrow> (case fd_make f x of Inr y \<Rightarrow> Some y | Inl _ \<Rightarrow> None)))"

lemma make_property_map:
  assumes "make_property w fs (k, v) = Inr ps"
  shows "ps = [] \<and> made_property w fs k (Some v) = None \<or> (\<exists>x. ps = [(k, x)] \<and> made_property w fs k (Some v) = Some x)"
  using assms by (cases "field_named fs k") (auto simp: make_property_def made_property_def bindr_Inr)

lemma made_properties:
  assumes "sequence (map (make_property w fs) es) = Inr pss" "distinct (map fst es)"
  shows "distinct (map fst (concat pss)) \<and> fst ` set (concat pss) \<subseteq> fst ` set es \<and> map_of (concat pss) k = made_property w fs k (map_of es k)"
  using assms
proof (induction es arbitrary: pss)
  case (Cons e es)
  obtain k' v where e: "e = (k', v)" by fastforce
  from Cons.prems(1) have "pss \<noteq> [] \<and> make_property w fs (k', v) = Inr (hd pss) \<and> sequence (map (make_property w fs) es) = Inr (tl pss)"
    by (cases pss) (auto simp: e sequence_Inr_iff)
  then obtain ps qss where ps: "make_property w fs (k', v) = Inr ps"
    and qss: "sequence (map (make_property w fs) es) = Inr qss" and pss: "pss = ps # qss" by (metis list.collapse)
  have IH: "distinct (map fst (concat qss))" "fst ` set (concat qss) \<subseteq> fst ` set es"
      "map_of (concat qss) k = made_property w fs k (map_of es k)"
    using Cons.IH [OF qss] Cons.prems(2) by simp_all
  have fresh: "k' \<notin> fst ` set (concat qss)" using IH(2) Cons.prems(2) by (auto simp: e)
  have absent: "map_of (concat qss) k' = None" using fresh by (simp only: map_of_eq_None_iff not_False_eq_True)
  from make_property_map [OF ps] show ?case
  proof
    assume ps_nil: "ps = [] \<and> made_property w fs k' (Some v) = None"
    with IH absent show ?thesis by (cases "k = k'") (auto simp: pss e)
  next
    assume "\<exists>x. ps = [(k', x)] \<and> made_property w fs k' (Some v) = Some x"
    then obtain x where x: "pss = [(k', x)] # qss" "made_property w fs k' (Some v) = Some x" using pss by blast
    have "concat pss = (k', x) # concat qss" by (simp add: x(1))
    with IH fresh x(2) show ?thesis by (simp only: e) auto
  qed
qed (simp add: made_property_def)

lemma make_object_field:
  assumes "make_object w c fs es = Inr b" "distinct (map fst es)"
  shows "field b k = (case made_property w fs k (map_of es k) of Some x \<Rightarrow> x
           | None \<Rightarrow> (case map_of (defaults fs) k of Some x \<Rightarrow> x | None \<Rightarrow> JUndefined))"
proof -
  from assms(1) obtain pss where pss: "sequence (map (make_property w fs) es) = Inr pss"
    and b: "b = JInstance c (object_assign (defaults fs) (concat pss))" by (auto simp: make_object_def bindr_Inr)
  have names: "distinct (map fst (concat pss))" and "map_of (concat pss) k = made_property w fs k (map_of es k)"
    using made_properties [OF pss assms(2), of k] by simp_all
  then show ?thesis by (simp only: b field_simps map_of_object_assign [OF names]) (simp split: option.split)
qed

text \<open>A field that is given holds what its transformation makes; one that is not given holds its default.\<close>

lemma make_object_given:
  assumes "make_object w c fs es = Inr b" "distinct (map fst es)" "map_of es k = Some v" "field_named fs k = Some f"
  shows "fd_make f v = Inr (field b k)"
proof -
  from assms(1) obtain pss where pss: "sequence (map (make_property w fs) es) = Inr pss" by (auto simp: make_object_def bindr_Inr)
  have "(k, v) \<in> set es" using assms(3) by (rule map_of_SomeD)
  then have "\<exists>ps. make_property w fs (k, v) = Inr ps" using sequence_members(1) [OF pss] by blast
  then obtain x where x: "fd_make f v = Inr x" using assms(4) by (auto simp: make_property_def bindr_Inr)
  then show ?thesis using make_object_field [OF assms(1,2), of k] assms(3,4) by (simp add: made_property_def)
qed

lemma make_object_absent:
  assumes "make_object w c fs es = Inr b" "distinct (map fst es)" "map_of es k = None" "map_of (defaults fs) k = None"
  shows "field b k = JUndefined"
  using make_object_field [OF assms(1,2), of k] assms(3,4) by (simp add: made_property_def)

text \<open>
  Whatever the request, an accepted body is an object of its class that holds no property its class does not list.
\<close>

lemma accepted_fields_listed:
  assumes "rq_whitelist Q" "accepted (class_dto Q c fs) (JObject es) b"
  shows "\<exists>ps. b = JInstance c ps \<and> fst ` set ps \<subseteq> fd_name ` set fs"
proof -
  from assms obtain pss where pss: "sequence (map (make_property True fs) es) = Inr pss"
    and b: "b = JInstance c (object_assign (defaults fs) (concat pss))"
    by (auto simp: accepted_def class_dto_def make_object_def bindr_Inr)
  have "fst ` set ps \<subseteq> fd_name ` set fs" if ps: "ps \<in> set pss" for ps
  proof -
    obtain e where "make_property True fs e = Inr ps" using sequence_members(2) [OF pss ps] by blast
    then show ?thesis by (rule make_property_names)
  qed
  then have "fst ` set (concat pss) \<subseteq> fd_name ` set fs" by (simp add: image_Union UN_subset_iff)
  then have "fst ` set (object_assign (defaults fs) (concat pss)) \<subseteq> fd_name ` set fs"
    by (intro order_trans [OF names_object_assign] Un_least names_defaults)
  then show ?thesis using b by simp
qed

lemma accepted_object: "accepted (class_dto Q c fs) (JObject es) b \<longleftrightarrow>
    make_object (rq_whitelist Q) c fs es = Inr b \<and> list_all (field_ok b) fs"
  by (simp add: accepted_def class_dto_def)

named_theorems field_defs

declare fld_def [field_defs] made_def [field_defs] optional_def [field_defs] only_if_def [field_defs] with_default_def [field_defs]
  typed_def [field_defs] also_checked_def [field_defs] nested_def [field_defs] field_ok_def [field_defs]

section \<open>Texts of queries\<close>

text \<open>The documented conversion to a Boolean: \<open>Boolean(value)\<close>.\<close>

definition converts_booleans :: "request_env \<Rightarrow> bool" where
  "converts_booleans Q \<longleftrightarrow> (\<forall>v. rq_convert Q ''Boolean'' v = (if given v then JBool (truthy v) else v))"

text \<open>
  C31: A query is text. Whatever non-empty text the flag of a query is given, \<open>false\<close> included, it is read as true.
\<close>

theorem query_flags:
  assumes "converts_booleans Q" "distinct (map fst es)" "map_of es k = Some (JString s)"
    and "(d, k) \<in> {(IncludeExpiredFilterDto Q, ''includeExpired''), (ClaimsFilterDto Q, ''includeExpired''),
           (AuthorizationsFilterDto Q, ''includeExpired''), (TransactionHistoryFiltersDto Q, ''success'')}"
    and "accepted d (JObject es) b"
  shows "field b k = JBool (s \<noteq> '''')"
proof -
  have flag: "field b k = JBool (s \<noteq> '''')"
    if d: "d = class_dto Q c fs" and f: "\<exists>f. field_named fs k = Some f \<and> fd_make f = (\<lambda>v. Inr (rq_convert Q ''Boolean'' v))" for c fs
  proof -
    from f obtain f where f: "field_named fs k = Some f" "fd_make f = (\<lambda>v. Inr (rq_convert Q ''Boolean'' v))" by blast
    have "make_object (rq_whitelist Q) c fs es = Inr b" using assms(5) d by (simp add: accepted_object)
    from make_object_given [OF this assms(2,3) f(1)] f(2) assms(1) show ?thesis by (simp add: converts_booleans_def)
  qed
  note defs = IncludeExpiredFilterDto_fields_def field_named_def field_defs
  from assms(4) consider "d = IncludeExpiredFilterDto Q" "k = ''includeExpired''" | "d = ClaimsFilterDto Q" "k = ''includeExpired''"
    | "d = AuthorizationsFilterDto Q" "k = ''includeExpired''" | "d = TransactionHistoryFiltersDto Q" "k = ''success''" by blast
  then show ?thesis
  proof cases
    case 1
    show ?thesis by (rule flag [OF 1(1) [unfolded IncludeExpiredFilterDto_def]]) (simp add: 1 defs)
  next
    case 2
    show ?thesis by (rule flag [OF 2(1) [unfolded ClaimsFilterDto_def]]) (simp add: 2 defs)
  next
    case 3
    show ?thesis by (rule flag [OF 3(1) [unfolded AuthorizationsFilterDto_def]]) (simp add: 3 defs)
  next
    case 4
    show ?thesis by (rule flag [OF 4(1) [unfolded TransactionHistoryFiltersDto_def]]) (simp add: 4 defs)
  qed
qed

section \<open>Pages\<close>

text \<open>
  C30: The size of a page is at most 30 when a page after the first is asked for; of the first page any size is accepted, even text that is
  no number.
\<close>

theorem page_size:
  assumes "rq_convert Q ''BigNumber'' (JString t) = JString t" "rq_convert Q ''Object'' (JString s) = JString s" "s \<noteq> ''''"
  shows "(accepted (PaginatedParamsDto Q) (JObject [(''size'', JString t)]) b \<longleftrightarrow>
            b = JInstance ''PaginatedParamsDto'' [(''size'', JBig (bn_new (rq_numbers Q) (JString t)))])
     \<and> ((\<exists>b. accepted (PaginatedParamsDto Q) (JObject [(''size'', JString t), (''start'', JString s)]) b) \<longleftrightarrow>
            bn_lte (bn_new (rq_numbers Q) (JString t)) (BN 30))"
  using assms
  by (cases "bn_new (rq_numbers Q) (JString t)")
    (auto simp: bn_lte_def bn_gt_def PaginatedParamsDto_def PaginatedParamsDto_fields_def accepted_object make_object_def make_property_def field_named_def
      defaults_def object_assign_def to_big_def field_defs)

section \<open>Amounts and NFTs\<close>

lemma to_big_truthy: "to_big Q ty v = Inr x \<Longrightarrow> truthy x"
  by (cases "rq_convert Q ty v") (auto simp: to_big_def)

lemma given_iff_truthy:
  assumes "make_object w c fs es = Inr b" "distinct (map fst es)" "map_of (defaults fs) k = None"
    and "\<exists>f. field_named fs k = Some f \<and> fd_make f = to_big Q ty"
  shows "truthy (field b k) \<longleftrightarrow> map_of es k \<noteq> None"
proof (cases "map_of es k")
  case None
  then show ?thesis using make_object_absent [OF assms(1,2) None assms(3)] by simp
next
  case (Some v)
  from assms(4) obtain f where "field_named fs k = Some f" "fd_make f = to_big Q ty" by blast
  with make_object_given [OF assms(1,2) Some] have "to_big Q ty v = Inr (field b k)" by metis
  then show ?thesis using Some to_big_truthy by simp
qed

text \<open>
  C29: What moves between portfolios is validated by what the item names: an amount alone or a list of NFTs alone must be numbers, one of them
  must be there, and when both are there neither is looked at.
\<close>

theorem movement_validation:
  assumes "distinct (map fst es)" "dt_make (PortfolioMovementDto Q) (JObject es) = Inr b"
  shows "dt_valid (PortfolioMovementDto Q) b \<longleftrightarrow>
     IsAsset (rq_validators Q) (field b ''asset'')
     \<and> (given (field b ''memo'') \<longrightarrow> is_string (field b ''memo'') \<and> rq_isByteLength Q 0 32 (field b ''memo''))
     \<and> (case (map_of es ''amount'', map_of es ''nfts'') of
          (Some _, Some _) \<Rightarrow> True
        | (Some _, None) \<Rightarrow> IsBigNumber None None (field b ''amount'')
        | (None, Some _) \<Rightarrow> IsBigNumber None None (field b ''nfts'')
        | (None, None) \<Rightarrow> False)"
proof -
  have obj: "make_object (rq_whitelist Q) ''PortfolioMovementDto'' ([asset_of Q ''asset''] @ amount_or_nfts Q
      @ [optional (fld Q ''String'' ''memo'' [is_string, rq_isByteLength Q 0 32])]) es = Inr b" (is "make_object _ _ ?fs _ = _")
    using assms(2) by (simp add: PortfolioMovementDto_def class_dto_def)
  have named: "\<exists>f. field_named ?fs ''amount'' = Some f \<and> fd_make f = to_big Q ''BigNumber''"
      "\<exists>f. field_named ?fs ''nfts'' = Some f \<and> fd_make f = to_big Q ''Array''"
    by (simp_all add: field_named_def amount_or_nfts_def field_defs)
  have valid: "dt_valid (PortfolioMovementDto Q) b \<longleftrightarrow>
      IsAsset (rq_validators Q) (field b ''asset'')
     \<and> (given (field b ''memo'') \<longrightarrow> is_string (field b ''memo'') \<and> rq_isByteLength Q 0 32 (field b ''memo''))
     \<and> (\<not> truthy (field b ''nfts'') \<longrightarrow> IsBigNumber None None (field b ''amount''))
     \<and> (\<not> truthy (field b ''amount'') \<longrightarrow> IsBigNumber None None (field b ''nfts''))"
    by (auto simp: PortfolioMovementDto_def class_dto_def amount_or_nfts_def field_defs Let_def)
  have no_default: "map_of (defaults ?fs) k = None" for k
    by (simp add: defaults_def amount_or_nfts_def field_defs)
  have amount: "truthy (field b ''amount'') \<longleftrightarrow> map_of es ''amount'' \<noteq> None"
    "map_of es ''amount'' = None \<Longrightarrow> field b ''amount'' = JUndefined"
    using given_iff_truthy [OF obj assms(1) no_default named(1)] make_object_absent [OF obj assms(1) _ no_default] by blast+
  have nfts: "truthy (field b ''nfts'') \<longleftrightarrow> map_of es ''nfts'' \<noteq> None"
    "map_of es ''nfts'' = None \<Longrightarrow> field b ''nfts'' = JUndefined"
    using given_iff_truthy [OF obj assms(1) no_default named(2)] make_object_absent [OF obj assms(1) _ no_default] by blast+
  show ?thesis using amount nfts
    by (cases "map_of es ''amount''"; cases "map_of es ''nfts''") (simp_all add: valid)
qed

section \<open>Documents\<close>

lemma make_object_instance: "make_object w c fs es = Inr b \<Longrightarrow> \<exists>ps. b = JInstance c ps"
  by (auto simp: make_object_def bindr_Inr)

lemma made_isArray: "make_with (make_object w c fs) v = Inr r \<Longrightarrow> isArray r \<longleftrightarrow> isArray v"
  by (cases v) (auto simp: bindr_Inr dest!: make_object_instance)

lemma made_document:
  assumes "make_with (make_object w c fs) v = Inr r" "json v"
  shows "toAssetDocument r = (case v of JObject _ \<Rightarrow> Inr (JObject (own_properties r)) | _ \<Rightarrow> Inl js_type_error)"
  using assms by (cases v) (auto simp: bindr_Inr dest!: make_object_instance)

lemma sequence_map_error:
  assumes "x \<in> set xs" "f x = Inl e" "\<And>x e'. x \<in> set xs \<Longrightarrow> f x = Inl e' \<Longrightarrow> e' = e"
  shows "sequence (map f xs) = Inl e"
proof (cases "sequence (map f xs)")
  case (Inl e')
  then have "e' = e" using sequence_error [where P = "\<lambda>e'. e' = e"] assms(3) by metis
  with Inl show ?thesis by simp
next
  case (Inr ys)
  then show ?thesis using sequence_members(1) [OF Inr assms(1)] assms(2) by simp
qed

lemma made_documents:
  assumes "sequence (map (make_with (make_object w c fs)) vs) = Inr rs" "list_all json vs"
  shows "if \<exists>dss. vs = map JObject dss then \<exists>qs. sequence (map toAssetDocument rs) = Inr (map JObject qs)
         else sequence (map toAssetDocument rs) = Inl js_type_error"
proof -
  have eq: "map (make_with (make_object w c fs)) vs = map Inr rs" using assms(1) by (simp add: sequence_Inr_iff)
  have doc: "toAssetDocument (rs ! i) = (case vs ! i of JObject _ \<Rightarrow> Inr (JObject (own_properties (rs ! i))) | _ \<Rightarrow> Inl js_type_error)"
    and len: "length rs = length vs" if "i < length rs" for i
  proof -
    show len: "length rs = length vs" using arg_cong [OF eq, of length] by simp
    have "make_with (make_object w c fs) (vs ! i) = Inr (rs ! i)" using arg_cong [OF eq, of "\<lambda>xs. xs ! i"] that len by simp
    moreover have "json (vs ! i)" using assms(2) that len by (simp add: list_all_length)
    ultimately show "toAssetDocument (rs ! i) = (case vs ! i of JObject _ \<Rightarrow> Inr (JObject (own_properties (rs ! i))) | _ \<Rightarrow> Inl js_type_error)"
      by (rule made_document)
  qed
  have len: "length rs = length vs" using arg_cong [OF eq, of length] by simp
  show ?thesis
  proof (cases "\<exists>dss. vs = map JObject dss")
    case True
    then obtain dss where dss: "vs = map JObject dss" by blast
    have docs: "map toAssetDocument rs = map (\<lambda>r. Inr (JObject (own_properties r))) rs"
      by (rule nth_equalityI) (use doc dss len in auto)
    have "sequence (map toAssetDocument rs) = Inr (map JObject (map own_properties rs))"
      unfolding docs by (simp add: comp_def)
    then have "\<exists>qs. sequence (map toAssetDocument rs) = Inr (map JObject qs)" by blast
    with True show ?thesis by (simp only: if_True)
  next
    case False
    then have "\<exists>v \<in> set vs. \<forall>ds. v \<noteq> JObject ds" by (metis ex_map_conv)
    then obtain i where i: "i < length rs" "\<forall>ds. vs ! i \<noteq> JObject ds" using len by (metis in_set_conv_nth)
    have "toAssetDocument (rs ! i) = Inl js_type_error" using doc [OF i(1)] i(2) by (cases "vs ! i") auto
    moreover have "e' = js_type_error" if "toAssetDocument r = Inl e'" for r e' using that by (cases r) auto
    ultimately have "sequence (map toAssetDocument rs) = Inl js_type_error"
      using i(1) by (intro sequence_map_error [of "rs ! i"] nth_mem)
    with False show ?thesis by (simp only: if_False)
  qed
qed

lemma documents_params_not_list: "\<not> isArray (field b ''documents'') \<Longrightarrow> documents_params b = Inl js_type_error"
  by (cases "field b ''documents''") (simp_all add: documents_params_def)

text \<open>
  C28: A request to link documents may be accepted without a list of documents. The service then uses the documents exactly when they were
  a list of objects; otherwise it fails with a TypeError.
\<close>

theorem linked_documents:
  assumes "json (JObject es)" "accepted (LinkDocumentsDto Q) (JObject es) b"
  shows "if \<exists>dss. map_of es ''documents'' = Some (JArray (map JObject dss))
         then \<exists>rs. documents_params b = Inr (JObject [(''documents'', JArray (map JObject rs))])
         else documents_params b = Inl js_type_error"
proof -
  let ?fs = "TransactionBaseDto_fields Q @ [nested (AssetDocumentDto Q) ''documents'']"
  have obj: "make_object (rq_whitelist Q) ''LinkDocumentsDto'' ?fs es = Inr b"
    using assms(2) by (simp add: LinkDocumentsDto_def accepted_object)
  have es: "distinct (map fst es)" using assms(1) by simp
  show ?thesis
  proof (cases "map_of es ''documents''")
    case None
    have "map_of (defaults ?fs) ''documents'' = None" by (simp add: defaults_def TransactionBaseDto_fields_def field_defs)
    then have "field b ''documents'' = JUndefined" using make_object_absent [OF obj es None] by simp
    with None show ?thesis by (simp add: documents_params_not_list)
  next
    case (Some v)
    have json: "json v" using assms(1) map_of_SomeD [OF Some] by (auto simp: list_all_iff)
    obtain w c fs where made: "dt_make (AssetDocumentDto Q) = make_with (make_object w c fs)"
      by (simp add: AssetDocumentDto_def class_dto_def)
    have "field_named ?fs ''documents'' = Some (nested (AssetDocumentDto Q) ''documents'')"
      by (simp add: field_named_def TransactionBaseDto_fields_def field_defs)
    from make_object_given [OF obj es Some this]
    have v: "make_with (make_object w c fs) v = Inr (field b ''documents'')" by (simp add: field_defs made)
    show ?thesis
    proof (cases "isArray v")
      case False
      then have "\<not> isArray (field b ''documents'')" using made_isArray [OF v] by simp
      then show ?thesis using Some False by (auto simp: documents_params_not_list)
    next
      case True
      then obtain vs where JArray: "v = JArray vs" by (cases v) auto
      from v obtain rs where rs: "sequence (map (make_with (make_object w c fs)) vs) = Inr rs" "field b ''documents'' = JArray rs"
        by (auto simp: JArray bindr_Inr)
      have "list_all json vs" using json JArray by simp
      from made_documents [OF rs(1) this] show ?thesis
        using Some JArray rs(2) by (auto simp: documents_params_def split: if_splits)
    qed
  qed
qed

section \<open>Leaving a subsidy\<close>

fun text_of :: "js_value \<Rightarrow> string option" where
  "text_of (JString s) = Some s" | "text_of _ = None"

text \<open>
  The request to leave a subsidy is accepted with both accounts, and then fails in the service. With one of them the service finds the
  subsidy; a request that names neither is rejected unless both are given as empty texts.
\<close>

theorem quit_subsidy_requests:
  fixes Q es b
  defines "beneficiary \<equiv> field b ''beneficiary''" and "subsidizer \<equiv> field b ''subsidizer''"
  assumes "accepted (QuitSubsidyDto Q) (JObject es) b"
  shows "let result = quit_subsidy Y \<lparr>qu_beneficiary = text_of beneficiary, qu_subsidizer = text_of subsidizer\<rparr> address
    in if truthy beneficiary \<and> truthy subsidizer
       then result = Inl (AppErr (appValidationError ''Only beneficiary or subsidizer should be provided''))
       else if truthy beneficiary then \<exists>s. beneficiary = JString s \<and> result = Inr (sy_getSubsidy Y s address)
       else if truthy subsidizer then \<exists>s. subsidizer = JString s \<and> result = Inr (sy_getSubsidy Y address s)
       else beneficiary = JString '''' \<and> subsidizer = JString ''''
         \<and> result = Inl (AppErr (appValidationError ''Either beneficiary or subsidizer should be provided''))"
proof -
  have "(\<not> truthy subsidizer \<or> truthy beneficiary) \<longrightarrow> is_string beneficiary"
    "(\<not> truthy beneficiary \<or> truthy subsidizer) \<longrightarrow> is_string subsidizer"
    using assms(3) by (simp_all add: accepted_object QuitSubsidyDto_def field_defs beneficiary_def subsidizer_def Let_def)
  then show ?thesis
    by (cases beneficiary; cases subsidizer) (auto simp: quit_subsidy_def present_def subsidy_findOne_def Let_def)
qed

section \<open>Permission groups\<close>

lemma class_dto_simps [simp]:
  "dt_class (class_dto Q c fs) = c" "dt_names (class_dto Q c fs) = map fd_name fs" "dt_valid (class_dto Q c fs) obj = list_all (field_ok obj) fs"
  by (simp_all add: class_dto_def)

text \<open>The class of a request for a permission group accepts what the model of its two own fields accepts; the inherited options have rules of their own.\<close>

lemma transaction_permissions_valid: "dt_valid (TransactionPermissionsDto Q) obj = validTransactionPermissions (rq_enums Q) obj"
proof -
  have "isArray v \<and> every p v \<longleftrightarrow> isArray v \<and> each p v" for p v by (cases v) (auto simp: every_def)
  then show ?thesis
    by (auto simp: TransactionPermissionsDto_def PermissionTypeDto_fields_def field_defs Let_def validTransactionPermissions_def isOptional_def)
qed

lemma permission_group_fields: "list_all (field_ok obj) (CreatePermissionGroupDto_fields Q) = validCreatePermissionGroup (rq_enums Q) obj"
proof -
  have "isArray v \<and> every p v \<longleftrightarrow> isArray v \<and> each p v" for p v by (cases v) (auto simp: every_def)
  then show ?thesis
    by (simp add: CreatePermissionGroupDto_fields_def IncompatibleWith_def field_defs Let_def validCreatePermissionGroup_def incompatibleWith_def
        transaction_permissions_valid [abs_def])
qed

section \<open>Witnesses\<close>

text \<open>A transformer that converts as documented and enumerations with a few values.\<close>

definition demo_requests :: request_env where
  "demo_requests = \<lparr>rq_validators = demo_validators,
     rq_enums = \<lparr>en_ClaimType = [''Accredited'', ''Custom''], en_TxTags = [], en_ModuleName = [], en_PermissionGroupType = [],
       en_PermissionType = [], en_AgentTxGroup = [], en_CaCheckpointType = []\<rparr>,
     rq_numbers = demo_bignumber, rq_enum = (\<lambda>e. if e = ''StatType'' then [''ScopedBalance''] else []),
     rq_convert = (\<lambda>ty v. if ty = ''Boolean'' \<and> given v then JBool (truthy v) else v),
     rq_whitelist = True, rq_createdAtDesc = '''', rq_newDate = (\<lambda>_. None), rq_plainToInstance = (\<lambda>_ es. es),
     rq_isUrl = (\<lambda>_. False), rq_isByteLength = (\<lambda>_ _ _. False), rq_isCddClaim = (\<lambda>_. False),
     rq_isSingleClaimCondition = (\<lambda>_. False), rq_isMultiClaimCondition = (\<lambda>_. False)\<rparr>"

lemma demo_requests_simps [simp]:
  "rq_validators demo_requests = demo_validators" "rq_numbers demo_requests = demo_bignumber" "rq_whitelist demo_requests"
  "rq_convert demo_requests ty v = (if ty = ''Boolean'' \<and> given v then JBool (truthy v) else v)" "keeps_keys (rq_plainToInstance demo_requests)"
  "converts_booleans demo_requests"
  by (auto simp: demo_requests_def keeps_keys_def converts_booleans_def)

lemmas making = accepted_object make_object_def make_property_def field_named_def defaults_def object_assign_def field_defs
  TransactionBaseDto_fields_def

theorem query_flags_witness:
  "field (JInstance ''IncludeExpiredFilterDto'' [(''includeExpired'', JBool True)]) ''includeExpired'' = JBool (''false'' \<noteq> '''')"
  by (rule query_flags [of demo_requests "[(''includeExpired'', JString ''false'')]" _ _ "IncludeExpiredFilterDto demo_requests"])
    (simp_all add: making IncludeExpiredFilterDto_def IncludeExpiredFilterDto_fields_def)

theorem page_size_witness:
  "accepted (PaginatedParamsDto demo_requests) (JObject [(''size'', JString ''x'')]) (JInstance ''PaginatedParamsDto'' [(''size'', JBig BNNaN)])
   \<and> \<not> (\<exists>b. accepted (PaginatedParamsDto demo_requests) (JObject [(''size'', JString ''x''), (''start'', JString ''0'')]) b)"
  using page_size [of demo_requests "''x''" "''0''" "JInstance ''PaginatedParamsDto'' [(''size'', JBig BNNaN)]"]
  by (simp add: demo_numbers bn_lte_def)

theorem movement_validation_witness:
  "dt_valid (PortfolioMovementDto demo_requests)
     (JInstance ''PortfolioMovementDto'' [(''asset'', JString ''TKR''), (''amount'', JBig BNNaN), (''nfts'', JArray [])])"
proof -
  have "dt_make (PortfolioMovementDto demo_requests) (JObject [(''asset'', JString ''TKR''), (''amount'', JString ''x''), (''nfts'', JArray [])])
      = Inr (JInstance ''PortfolioMovementDto'' [(''asset'', JString ''TKR''), (''amount'', JBig BNNaN), (''nfts'', JArray [])])"
    by (simp add: PortfolioMovementDto_def class_dto_def amount_or_nfts_def to_big_def making demo_numbers)
  from movement_validation [OF _ this] show ?thesis
    by (simp add: IsAsset_def isTicker_def demo_validators_def MAX_TICKER_LENGTH_def)
qed

theorem linked_documents_witness: "documents_params (JInstance ''LinkDocumentsDto'' []) = Inl js_type_error"
proof -
  have "accepted (LinkDocumentsDto demo_requests) (JObject []) (JInstance ''LinkDocumentsDto'' [])"
    by (simp add: LinkDocumentsDto_def making)
  from linked_documents [OF _ this] show ?thesis by simp
qed

theorem quit_subsidy_requests_witness:
  "\<forall>Y. quit_subsidy Y \<lparr>qu_beneficiary = Some ''a'', qu_subsidizer = Some ''b''\<rparr> ''c''
   = Inl (AppErr (appValidationError ''Only beneficiary or subsidizer should be provided''))"
proof -
  let ?es = "[(''beneficiary'', JString ''a''), (''subsidizer'', JString ''b'')]"
  have "accepted (QuitSubsidyDto demo_requests) (JObject ?es) (JInstance ''QuitSubsidyDto'' ?es)"
    by (simp add: QuitSubsidyDto_def making)
  from quit_subsidy_requests [OF this, of _ "''c''"] show ?thesis by simp
qed

end
