(* ===== verification/Responses.thy ===== *)
theory Responses
  imports Validation Transfer_Restrictions
begin

text \<open>
  The answer to a request is serialized by the interceptor of \<open>main.ts\<close>: each object is copied property by property, and the decorators of its
  class say how a property is turned into what is sent (\<open>FromBigNumber\<close>, \<open>FromPortfolioId\<close>, \<open>FromEntity\<close>, \<open>FromEntityObject\<close>, \<open>Type\<close>).
  A class is given by its fields: name, declared type, decorator. The theory models the copying and shows for which classes every value of
  the declared types can be sent.

  A big number or an entity without a decorator is copied like any other object, with its private fields. It is left as it is here: a
  \<open>JBig\<close> or \<open>JEntity\<close> in the outcome is an object whose private fields are sent. Dates become text when the outcome is written out.
\<close>

section \<open>Fields and classes\<close>

datatype decorator = Undecorated | AsBig | AsPortfolioId | AsEntity | AsEntityObject | TypeOf string | OneOf "(string \<times> string) list"

text \<open>
  Declared types. \<open>TSdk\<close> is a value of the SDK that may hold entities, dates and big numbers; \<open>TPlain\<close> one that holds none; \<open>TAny\<close> any value (\<open>unknown\<close>); \<open>TModel\<close> an object
  of one of the classes or a literal with their fields, \<open>TInstance\<close> only the former.
\<close>

datatype vtype = TText | TBool | TNum | TDate | TBig | TEntity | TPlain | TSdk | TAny | TNull | TUndef
  | TModel "string list" | TInstance "string list" | TList vtype | TOr vtype vtype

type_synonym model_field = "string \<times> vtype \<times> decorator"
type_synonym models = "string \<Rightarrow> model_field list"

abbreviation f_text :: "string \<Rightarrow> model_field" where "f_text k \<equiv> (k, TText, Undecorated)"
abbreviation f_texts :: "string \<Rightarrow> model_field" where "f_texts k \<equiv> (k, TList TText, Undecorated)"
abbreviation f_flag :: "string \<Rightarrow> model_field" where "f_flag k \<equiv> (k, TBool, Undecorated)"
abbreviation f_num :: "string \<Rightarrow> model_field" where "f_num k \<equiv> (k, TNum, Undecorated)"
abbreviation f_date :: "string \<Rightarrow> model_field" where "f_date k \<equiv> (k, TDate, Undecorated)"
abbreviation f_big :: "string \<Rightarrow> model_field" where "f_big k \<equiv> (k, TBig, AsBig)"
abbreviation f_bigs :: "string \<Rightarrow> model_field" where "f_bigs k \<equiv> (k, TList TBig, AsBig)"
abbreviation f_entity :: "string \<Rightarrow> model_field" where "f_entity k \<equiv> (k, TEntity, AsEntity)"
abbreviation f_sdk :: "string \<Rightarrow> model_field" where "f_sdk k \<equiv> (k, TSdk, AsEntityObject)"
abbreviation f_model :: "string \<Rightarrow> string \<Rightarrow> model_field" where "f_model k c \<equiv> (k, TModel [c], TypeOf c)"
abbreviation f_models :: "string \<Rightarrow> string \<Rightarrow> model_field" where "f_models k c \<equiv> (k, TList (TModel [c]), TypeOf c)"

abbreviation opt :: "model_field \<Rightarrow> model_field" where "opt f \<equiv> (fst f, TOr TUndef (fst (snd f)), snd (snd f))"
abbreviation or_null :: "model_field \<Rightarrow> model_field" where "or_null f \<equiv> (fst f, TOr TNull (fst (snd f)), snd (snd f))"

definition decorator_of :: "models \<Rightarrow> string option \<Rightarrow> string \<Rightarrow> decorator" where
  "decorator_of T meta k = (case meta of None \<Rightarrow> Undecorated
     | Some c \<Rightarrow> (case map_of (T c) k of Some (_, d) \<Rightarrow> d | None \<Rightarrow> Undecorated))"

section \<open>Serialization\<close>

text \<open>
  The package that copies (\<open>class-transformer\<close>) is a parameter \<open>ip\<close>, told how the object it copies was declared: \<open>Own\<close>, by its own class;
  \<open>As c\<close>, by a property of type \<open>c\<close>, whose decorators then count whatever the class of the value; \<open>Among\<close>, by a property whose values have one
  of the given classes, the name of which is written into \<open>type\<close>.
\<close>

datatype target = Own | As string | Among "(string \<times> string) list"

type_synonym copier = "target \<Rightarrow> js_value \<Rightarrow> js_value result"

definition tagged :: "(string \<times> string) list \<Rightarrow> js_value \<Rightarrow> js_value result \<Rightarrow> js_value result" where
  "tagged subTypes v r = (case v of
      JInstance c _ \<Rightarrow> (case map_of subTypes c of
          Some name \<Rightarrow> bindr r (\<lambda>x. Inr (JObject (put_property ''type'' (JString name) (own_properties x))))
        | None \<Rightarrow> Inl js_type_error)
    | _ \<Rightarrow> Inl js_type_error)"

text \<open>What is sent for a property with a decorator: the functions of \<open>common/decorators/transformation.ts\<close>, or a copy.\<close>

definition copied_value :: "bignumber \<Rightarrow> copier \<Rightarrow> decorator \<Rightarrow> js_value \<Rightarrow> js_value result" where
  "copied_value B ip d v = (case d of
      Undecorated \<Rightarrow> ip Own v
    | AsBig \<Rightarrow> FromBigNumber B v
    | AsPortfolioId \<Rightarrow> FromPortfolioId B v
    | AsEntity \<Rightarrow> FromEntity v
    | AsEntityObject \<Rightarrow> FromEntityObject B v
    | TypeOf c \<Rightarrow> ip (As c) v
    | OneOf subTypes \<Rightarrow>
        if isArray v then ip (Among subTypes) v
        else if truthy v then tagged subTypes v (ip Own v) else Inr v)"

definition copied_object :: "bignumber \<Rightarrow> models \<Rightarrow> copier \<Rightarrow> string option \<Rightarrow> (string \<times> js_value) list \<Rightarrow> js_value result" where
  "copied_object B T ip meta es =
     bindr (sequence (map (\<lambda>(k, v). bindr (copied_value B ip (decorator_of T meta k) v) (\<lambda>r. Inr (k, r))) es)) (\<lambda>rs. Inr (JObject rs))"

text \<open>What the package documents: arrays and objects are copied element by element with the decorators of the class, other values are kept.\<close>

definition class_transformer :: "bignumber \<Rightarrow> models \<Rightarrow> copier \<Rightarrow> bool" where
  "class_transformer B T ip \<longleftrightarrow> (\<forall>t v. ip t v = (case v of
       JArray vs \<Rightarrow> bindr (sequence (map (\<lambda>x. case t of
           Among subTypes \<Rightarrow> tagged subTypes x (ip Own x) | _ \<Rightarrow> ip t x) vs)) (\<lambda>rs. Inr (JArray rs))
     | JObject es \<Rightarrow> copied_object B T ip (case t of As c \<Rightarrow> Some c | _ \<Rightarrow> None) es
     | JInstance c es \<Rightarrow> copied_object B T ip (Some (case t of As c' \<Rightarrow> c' | _ \<Rightarrow> c)) es
     | _ \<Rightarrow> Inr v))"

definition serialize :: "copier \<Rightarrow> js_value \<Rightarrow> js_value result" where
  "serialize ip v = ip Own v"

text \<open>The function these equations define.\<close>

fun instanceToPlain :: "bignumber \<Rightarrow> models \<Rightarrow> target \<Rightarrow> js_value \<Rightarrow> js_value result" where
  "instanceToPlain B T t (JArray vs) = bindr (sequence (map (\<lambda>v. case t of
       Among subTypes \<Rightarrow> tagged subTypes v (instanceToPlain B T Own v) | _ \<Rightarrow> instanceToPlain B T t v) vs)) (\<lambda>rs. Inr (JArray rs))"
| "instanceToPlain B T t (JObject es) = bindr (sequence (map (\<lambda>(k, v).
       bindr (case decorator_of T (case t of As c \<Rightarrow> Some c | _ \<Rightarrow> None) k of
           Undecorated \<Rightarrow> instanceToPlain B T Own v
         | AsBig \<Rightarrow> FromBigNumber B v
         | AsPortfolioId \<Rightarrow> FromPortfolioId B v
         | AsEntity \<Rightarrow> FromEntity v
         | AsEntityObject \<Rightarrow> FromEntityObject B v
         | TypeOf c \<Rightarrow> instanceToPlain B T (As c) v
         | OneOf subTypes \<Rightarrow>
             if isArray v then instanceToPlain B T (Among subTypes) v
             else if truthy v then tagged subTypes v (instanceToPlain B T Own v) else Inr v) (\<lambda>r. Inr (k, r))) es))
       (\<lambda>rs. Inr (JObject rs))"
| "instanceToPlain B T t (JInstance c es) = bindr (sequence (map (\<lambda>(k, v).
       bindr (case decorator_of T (Some (case t of As c' \<Rightarrow> c' | _ \<Rightarrow> c)) k of
           Undecorated \<Rightarrow> instanceToPlain B T Own v
         | AsBig \<Rightarrow> FromBigNumber B v
         | AsPortfolioId \<Rightarrow> FromPortfolioId B v
         | AsEntity \<Rightarrow> FromEntity v
         | AsEntityObject \<Rightarrow> FromEntityObject B v
         | TypeOf c' \<Rightarrow> instanceToPlain B T (As c') v
         | OneOf subTypes \<Rightarrow>
             if isArray v then instanceToPlain B T (Among subTypes) v
             else if truthy v then tagged subTypes v (instanceToPlain B T Own v) else Inr v) (\<lambda>r. Inr (k, r))) es))
       (\<lambda>rs. Inr (JObject rs))"
| "instanceToPlain B T t v = Inr v"

text \<open>What can be sent: dates and plain values.\<close>

fun sendable :: "js_value \<Rightarrow> bool" where
  "sendable (JArray vs) = list_all sendable vs"
| "sendable (JObject es) = list_all (\<lambda>(k, v). sendable v) es"
| "sendable (JBig _) = False"
| "sendable (JInstance _ _) = False"
| "sendable (JEntity _) = False"
| "sendable _ = True"

section \<open>Values of the declared types\<close>

definition sdk_value :: "bignumber \<Rightarrow> js_value \<Rightarrow> bool" where
  "sdk_value B v \<longleftrightarrow> humans_plain v \<and> (\<exists>r. toHumanObject B v = Inr r)"

lemma size_property: "(k, x) \<in> set es \<Longrightarrow> size x < Suc (size_list (size_prod (\<lambda>_. 0) size) es)"
  by (induction es) auto

text \<open>
  A property that a class does not declare may be there when it can be sent as it is, and a declared one may be absent.
\<close>

function conforms :: "bignumber \<Rightarrow> models \<Rightarrow> vtype \<Rightarrow> js_value \<Rightarrow> bool" where
  "conforms B T TText v = is_string v"
| "conforms B T TBool v = (case v of JBool _ \<Rightarrow> True | _ \<Rightarrow> False)"
| "conforms B T TNum v = (case v of JNumber _ \<Rightarrow> True | _ \<Rightarrow> False)"
| "conforms B T TDate v = (case v of JDate _ \<Rightarrow> True | _ \<Rightarrow> False)"
| "conforms B T TBig v = is_big v"
| "conforms B T TEntity v = (case v of JEntity h \<Rightarrow> plain h | _ \<Rightarrow> False)"
| "conforms B T TPlain v = plain v"
| "conforms B T TSdk v = sdk_value B v"
| "conforms B T TAny v = True"
| "conforms B T TNull v = (v = JNull)"
| "conforms B T TUndef v = (v = JUndefined)"
| "conforms B T (TList t) v = (case v of JArray vs \<Rightarrow> list_all (conforms B T t) vs | _ \<Rightarrow> False)"
| "conforms B T (TOr t u) v = (conforms B T t v \<or> conforms B T u v)"
| "conforms B T (TModel cs) v = (case v of
      JInstance c es \<Rightarrow> List.member cs c \<and> list_all (\<lambda>(k, x). case map_of (T c) k of Some (t, _) \<Rightarrow> conforms B T t x | None \<Rightarrow> sendable x) es
    | JObject es \<Rightarrow> list_ex (\<lambda>c. list_all (\<lambda>(k, x). case map_of (T c) k of Some (t, _) \<Rightarrow> conforms B T t x | None \<Rightarrow> sendable x) es) cs
    | _ \<Rightarrow> False)"
| "conforms B T (TInstance cs) v = (case v of
      JInstance c es \<Rightarrow> List.member cs c \<and> list_all (\<lambda>(k, x). case map_of (T c) k of Some (t, _) \<Rightarrow> conforms B T t x | None \<Rightarrow> sendable x) es
    | _ \<Rightarrow> False)"
  by pat_completeness auto

termination conforms
  by (relation "measures [\<lambda>(B, T, t, v). size v, \<lambda>(B, T, t, v). size t]")
    (auto dest: size_property size_list_estimation' simp: less_Suc_eq_le)

abbreviation typed_fields :: "bignumber \<Rightarrow> models \<Rightarrow> string \<Rightarrow> (string \<times> js_value) list \<Rightarrow> bool" where
  "typed_fields B T c es \<equiv>
     list_all (\<lambda>(k, x). case map_of (T c) k of Some (t, _) \<Rightarrow> conforms B T t x | None \<Rightarrow> sendable x) es"

section \<open>Which decorators fit which types\<close>

text \<open>
  \<open>P (Some m) c\<close>: objects of the class \<open>c\<close> are copied with the decorators of \<open>m\<close>; \<open>P None c\<close>: with none. The relation is checked as a whole, so that
  classes may refer to each other.
\<close>

type_synonym copied = "string option \<Rightarrow> string \<Rightarrow> bool"

fun dec_ok :: "copied \<Rightarrow> decorator \<Rightarrow> vtype \<Rightarrow> bool" where
  "dec_ok P d (TOr t u) = (dec_ok P d t \<and> dec_ok P d u)"
| "dec_ok P Undecorated (TList t) = dec_ok P Undecorated t"
| "dec_ok P Undecorated (TModel cs) = list_all (\<lambda>c. P None c \<and> P (Some c) c) cs"
| "dec_ok P Undecorated (TInstance cs) = list_all (\<lambda>c. P (Some c) c) cs"
| "dec_ok P Undecorated t = (t \<noteq> TBig \<and> t \<noteq> TEntity \<and> t \<noteq> TSdk \<and> t \<noteq> TAny)"
| "dec_ok P AsBig (TList t) = (t = TBig \<or> t = TText)"
| "dec_ok P AsBig t = (t = TBig \<or> t = TText \<or> t = TNull \<or> t = TUndef)"
| "dec_ok P AsPortfolioId t = (t = TBig \<or> t = TText \<or> t = TNull \<or> t = TUndef)"
| "dec_ok P AsEntity t = (t = TEntity)"
| "dec_ok P AsEntityObject t = (t = TSdk)"
| "dec_ok P (TypeOf m) (TList t) = dec_ok P (TypeOf m) t"
| "dec_ok P (TypeOf m) (TModel cs) = list_all (\<lambda>c. P (Some m) c) cs"
| "dec_ok P (TypeOf m) (TInstance cs) = list_all (\<lambda>c. P (Some m) c) cs"
| "dec_ok P (TypeOf m) t = (t = TNull \<or> t = TUndef)"
| "dec_ok P (OneOf subTypes) (TList t) =
     (case t of TInstance cs \<Rightarrow> list_all (\<lambda>c. List.member (map fst subTypes) c \<and> P (Some c) c) cs | _ \<Rightarrow> False)"
| "dec_ok P (OneOf subTypes) (TInstance cs) =
     list_all (\<lambda>c. List.member (map fst subTypes) c \<and> P (Some c) c) cs"
| "dec_ok P (OneOf subTypes) t = (t = TNull \<or> t = TUndef)"

definition pair_ok :: "copied \<Rightarrow> models \<Rightarrow> string option \<times> string \<Rightarrow> bool" where
  "pair_ok P T p \<longleftrightarrow> (case p of (meta, c) \<Rightarrow>
     list_all (\<lambda>(k, t, _). dec_ok P (decorator_of T meta k) t) (T c)
     \<and> list_all (\<lambda>(k, _, d). d = Undecorated \<or> List.member (map fst (T c)) k) (case meta of Some m \<Rightarrow> T m | None \<Rightarrow> []))"

section \<open>Lemmas\<close>

definition property_value :: "bignumber \<Rightarrow> models \<Rightarrow> decorator \<Rightarrow> js_value \<Rightarrow> js_value result" where
  "property_value B T d v = (case d of
      Undecorated \<Rightarrow> instanceToPlain B T Own v
    | AsBig \<Rightarrow> FromBigNumber B v
    | AsPortfolioId \<Rightarrow> FromPortfolioId B v
    | AsEntity \<Rightarrow> FromEntity v
    | AsEntityObject \<Rightarrow> FromEntityObject B v
    | TypeOf c \<Rightarrow> instanceToPlain B T (As c) v
    | OneOf subTypes \<Rightarrow>
        if isArray v then instanceToPlain B T (Among subTypes) v
        else if truthy v then tagged subTypes v (instanceToPlain B T Own v) else Inr v)"

definition copy_properties :: "bignumber \<Rightarrow> models \<Rightarrow> string option \<Rightarrow> (string \<times> js_value) list \<Rightarrow> js_value result" where
  "copy_properties B T meta es = bindr (sequence (map (\<lambda>(k, v). bindr (property_value B T (decorator_of T meta k) v) (\<lambda>r. Inr (k, r))) es))
     (\<lambda>rs. Inr (JObject rs))"

lemma instanceToPlain_object:
  "instanceToPlain B T t (JObject es) = copy_properties B T (case t of As c \<Rightarrow> Some c | _ \<Rightarrow> None) es"
  "instanceToPlain B T t (JInstance c es) = copy_properties B T (Some (case t of As c' \<Rightarrow> c' | _ \<Rightarrow> c)) es"
  unfolding instanceToPlain.simps copy_properties_def property_value_def by (rule refl)+

lemma sequence_all:
  assumes "\<And>x. x \<in> set xs \<Longrightarrow> \<exists>r. f x = Inr r \<and> Q r"
  shows "\<exists>rs. sequence (map f xs) = Inr rs \<and> list_all Q rs"
  using assms
proof (induction xs)
  case (Cons x xs)
  from Cons.prems [of x] obtain r where "f x = Inr r" "Q r" by auto
  moreover obtain rs where "sequence (map f xs) = Inr rs" "list_all Q rs" using Cons by fastforce
  ultimately show ?case by simp
qed simp

lemma sequence_same: "(\<And>x. x \<in> set xs \<Longrightarrow> f x = Inr x) \<Longrightarrow> sequence (map f xs) = Inr xs"
  by (induction xs) auto

lemma plain_sendable: "plain v \<Longrightarrow> sendable v"
  by (induction v rule: plain.induct) (auto simp: list_all_iff)

text \<open>What can be sent is copied as it is.\<close>

lemma instanceToPlain_sendable: "sendable v \<Longrightarrow> instanceToPlain B T Own v = Inr v"
proof (induction v rule: sendable.induct)
  case (1 vs)
  then have "sequence (map (instanceToPlain B T Own) vs) = Inr vs" by (intro sequence_same) (simp add: list_all_iff)
  then show ?case by simp
next
  case (2 es)
  have "property_value B T (decorator_of T None k) v = Inr v" if "(k, v) \<in> set es" for k v
    using 2 that by (fastforce simp: list_all_iff decorator_of_def property_value_def)
  then have "sequence (map (\<lambda>(k, v). bindr (property_value B T (decorator_of T None k) v) (\<lambda>r. Inr (k, r))) es) = Inr es"
    by (intro sequence_same) auto
  then show ?case by (simp add: instanceToPlain_object copy_properties_def del: instanceToPlain.simps)
qed simp_all

lemma big_text: "conforms B T t v \<Longrightarrow> t = TBig \<or> t = TText \<Longrightarrow> \<exists>s. big_toString B v = Inr (JString s)"
  by (cases v) auto

lemma FromBigNumber_sent:
  assumes "conforms B T t v" "dec_ok P AsBig t"
  shows "\<exists>r. FromBigNumber B v = Inr r \<and> sendable r"
  using assms
proof (induction t)
  case (TList t)
  then obtain vs where v: "v = JArray vs" "list_all (conforms B T t) vs" by (cases v) auto
  have "\<exists>r. big_toString B x = Inr r \<and> sendable r" if "x \<in> set vs" for x
  proof -
    have "conforms B T t x" using v(2) that by (simp add: list_all_iff)
    moreover have "t = TBig \<or> t = TText" using TList.prems(2) by simp
    ultimately show ?thesis using big_text by fastforce
  qed
  from sequence_all [of vs "big_toString B" sendable, OF this] v(1) show ?case by auto
qed (use big_text in \<open>(cases v; force)\<close>)+

lemma FromPortfolioId_sent:
  assumes "conforms B T t v" "dec_ok P AsPortfolioId t"
  shows "\<exists>r. FromPortfolioId B v = Inr r \<and> sendable r"
  using assms
proof (induction t)
  case (TOr t u)
  then show ?case unfolding conforms.simps dec_ok.simps by blast
qed (cases v; force simp: FromPortfolioId_def)+

lemma FromEntity_sent:
  assumes "conforms B T t v" "dec_ok P AsEntity t"
  shows "\<exists>r. FromEntity v = Inr r \<and> sendable r"
  using assms
proof (induction t)
  case (TOr t u)
  then show ?case unfolding conforms.simps dec_ok.simps by blast
qed (cases v; force simp: plain_sendable)+

lemma FromEntityObject_sent:
  assumes "conforms B T t v" "dec_ok P AsEntityObject t" "list_all (\<lambda>(k, x). plain x) (bn_nan_object B)"
  shows "\<exists>r. FromEntityObject B v = Inr r \<and> sendable r"
  using assms
proof (induction t)
  case (TOr t u)
  then show ?case unfolding conforms.simps dec_ok.simps by blast
next
  case TSdk
  then obtain r where "toHumanObject B v = Inr r" "humans_plain v" by (auto simp: sdk_value_def)
  then show ?case using toHumanObject_plain [OF _ TSdk(3)] plain_sendable by (auto simp: FromEntityObject_def)
qed simp_all

text \<open>An object whose properties can be sent is copied; the induction below supplies the properties.\<close>

lemma copy_sent:
  assumes P: "pair_ok P T (meta, c)"
    and es: "typed_fields B T c es"
    and IH: "\<And>k x t d. (k, x) \<in> set es \<Longrightarrow> conforms B T t x \<Longrightarrow> dec_ok P d t \<Longrightarrow> \<exists>r. property_value B T d x = Inr r \<and> sendable r"
  shows "\<exists>rs. copy_properties B T meta es = Inr (JObject rs) \<and> list_all (\<lambda>(k, v). sendable v) rs"
proof -
  have "\<exists>r. property_value B T (decorator_of T meta k) x = Inr r \<and> sendable r" if kx: "(k, x) \<in> set es" for k x
  proof (cases "map_of (T c) k")
    case None
    then have x: "sendable x" using es kx by (fastforce simp: list_all_iff)
    have "decorator_of T meta k = Undecorated"
    proof (cases meta)
      case (Some m)
      have "k \<notin> fst ` set (T c)" using None by (simp add: map_of_eq_None_iff)
      then have "\<And>t d. (k, t, d) \<in> set (T m) \<Longrightarrow> d = Undecorated"
        using P Some by (fastforce simp: pair_ok_def list_all_iff)
      then show ?thesis using Some by (auto simp: decorator_of_def split: option.split dest: map_of_SomeD)
    qed (simp add: decorator_of_def)
    then show ?thesis using x by (simp add: property_value_def instanceToPlain_sendable)
  next
    case (Some td)
    obtain t d where td: "td = (t, d)" by fastforce
    have "conforms B T t x" using es kx Some td by (fastforce simp: list_all_iff)
    moreover have "dec_ok P (decorator_of T meta k) t"
      using P map_of_SomeD [OF Some] td by (fastforce simp: pair_ok_def list_all_iff)
    ultimately show ?thesis using IH [OF kx] by blast
  qed
  then have "\<exists>rs. sequence (map (\<lambda>(k, v). bindr (property_value B T (decorator_of T meta k) v) (\<lambda>r. Inr (k, r))) es) = Inr rs
      \<and> list_all (\<lambda>(k, v). sendable v) rs"
    by (intro sequence_all) fastforce
  then show ?thesis by (auto simp: copy_properties_def)
qed

lemma sendable_put: "list_all (\<lambda>(k, v). sendable v) es \<Longrightarrow> sendable v \<Longrightarrow> list_all (\<lambda>(k, v). sendable v) (put_property k v es)"
  using set_put_property [of k v es] by (fastforce simp: list_all_iff)

section \<open>What can be sent\<close>

lemma tagged_sent:
  assumes "r = Inr (JObject rs)" "list_all (\<lambda>(k, v). sendable v) rs" "List.member (map fst subTypes) c"
  shows "\<exists>x. tagged subTypes (JInstance c es) r = Inr x \<and> sendable x"
proof -
  from assms(3) have "c \<in> fst ` set subTypes" by simp
  then obtain name where "map_of subTypes c = Some name" by (metis map_of_eq_None_iff not_None_eq)
  then show ?thesis using assms(1) sendable_put [OF assms(2)] by (simp add: tagged_def)
qed

text \<open>The assumption on a relation of copies: every pair in it is checked.\<close>

definition checked :: "copied \<Rightarrow> models \<Rightarrow> bool" where
  "checked P T \<longleftrightarrow> (\<forall>meta c. P meta c \<longrightarrow> pair_ok P T (meta, c))"

lemma checked_pair: "checked P T \<Longrightarrow> P meta c \<Longrightarrow> pair_ok P T (meta, c)"
  by (simp add: checked_def)

text \<open>What an induction on the size of the value provides for the properties and the elements of a value.\<close>

definition smaller_sent :: "bignumber \<Rightarrow> models \<Rightarrow> copied \<Rightarrow> js_value \<Rightarrow> bool" where
  "smaller_sent B T P v \<longleftrightarrow> (\<forall>x t d. size x < size v \<longrightarrow> conforms B T t x \<longrightarrow> dec_ok P d t \<longrightarrow>
     (\<exists>r. property_value B T d x = Inr r \<and> sendable r))"

lemma smaller_copied:
  assumes "checked P T" "smaller_sent B T P v" "P meta c" "v = JObject es \<or> v = JInstance c' es"
    and "typed_fields B T c es"
  shows "\<exists>rs. copy_properties B T meta es = Inr (JObject rs) \<and> list_all (\<lambda>(k, v). sendable v) rs"
proof (rule copy_sent [OF checked_pair [OF assms(1,3)] assms(5)])
  fix k x t d
  assume x: "(k, x) \<in> set es" "conforms B T t x" "dec_ok P d t"
  have "size x < size v" using size_property [OF x(1)] assms(4) by auto
  then show "\<exists>r. property_value B T d x = Inr r \<and> sendable r" using assms(2) x(2,3) by (simp add: smaller_sent_def)
qed

lemma smaller_object:
  assumes "checked P T" "smaller_sent B T P v" "v = JObject es \<or> v = JInstance c' es" "typed_fields B T c es" "P meta c"
  shows "\<exists>r. copy_properties B T meta es = Inr r \<and> sendable r"
  using smaller_copied [OF assms(1,2) _ assms(3,4)] assms(5) by fastforce

lemma TModel_cases:
  assumes "conforms B T (TModel cs) v"
  obtains c es where "List.member cs c" "v = JObject es \<or> v = JInstance c es"
    "typed_fields B T c es"
  using assms by (cases v) (auto simp: list_ex_iff)

lemma TInstance_cases:
  assumes "conforms B T (TInstance cs) v"
  obtains c es where "List.member cs c" "v = JInstance c es"
    "typed_fields B T c es"
  using assms by (cases v) auto

lemma base_sent:
  assumes "conforms B T t v" "t \<in> {TText, TBool, TNum, TDate, TPlain, TNull, TUndef}"
  shows "\<exists>r. instanceToPlain B T Own v = Inr r \<and> sendable r"
proof -
  have "sendable v"
  proof (cases "t = TPlain")
    case True
    then show ?thesis using assms(1) plain_sendable by simp
  qed (use assms in \<open>cases v; auto\<close>)
  then show ?thesis using instanceToPlain_sendable by blast
qed

lemma undecorated_sent:
  assumes "checked P T" "smaller_sent B T P v" "conforms B T t v" "dec_ok P Undecorated t"
  shows "\<exists>r. instanceToPlain B T Own v = Inr r \<and> sendable r"
  using assms(3,4)
proof (induction t)
  case (TOr t u)
  then show ?case unfolding conforms.simps dec_ok.simps by blast
next
  case (TList t)
  then obtain vs where v: "v = JArray vs" "\<And>x. x \<in> set vs \<Longrightarrow> conforms B T t x" by (cases v) (auto simp: list_all_iff)
  have "\<exists>r. instanceToPlain B T Own x = Inr r \<and> sendable r" if "x \<in> set vs" for x
  proof -
    have "size x < size v" using that by (simp add: v(1) size_list_estimation' less_Suc_eq_le)
    then show ?thesis using assms(2) v(2) [OF that] TList.prems(2) by (force simp: smaller_sent_def property_value_def)
  qed
  from sequence_all [of vs "instanceToPlain B T Own" sendable, OF this] show ?case by (auto simp: v(1))
next
  case (TModel cs)
  from TModel(1) obtain c es where c: "List.member cs c" "v = JObject es \<or> v = JInstance c es"
    "typed_fields B T c es" by (rule TModel_cases)
  have "P None c" "P (Some c) c" using TModel(2) c(1) by (auto simp: list_all_iff)
  with c(2) show ?case
    by (elim disjE) (simp_all add: instanceToPlain_object smaller_object [OF assms(1,2) c(2,3)] del: instanceToPlain.simps)
next
  case (TInstance cs)
  from TInstance(1) obtain c es where c: "List.member cs c" "v = JInstance c es"
    "typed_fields B T c es" by (rule TInstance_cases)
  have "P (Some c) c" using TInstance(2) c(1) by (auto simp: list_all_iff)
  then show ?case
    by (simp add: c(2) instanceToPlain_object smaller_object [OF assms(1,2) disjI2 [OF c(2)] c(3)] del: instanceToPlain.simps)
qed (erule base_sent, simp | simp)+

lemma typed_sent:
  assumes "checked P T" "smaller_sent B T P v" "conforms B T t v" "dec_ok P (TypeOf m) t"
  shows "\<exists>r. instanceToPlain B T (As m) v = Inr r \<and> sendable r"
  using assms(3,4)
proof (induction t)
  case (TOr t u)
  then show ?case unfolding conforms.simps dec_ok.simps by blast
next
  case (TList t)
  then obtain vs where v: "v = JArray vs" "\<And>x. x \<in> set vs \<Longrightarrow> conforms B T t x" by (cases v) (auto simp: list_all_iff)
  have "\<exists>r. instanceToPlain B T (As m) x = Inr r \<and> sendable r" if "x \<in> set vs" for x
  proof -
    have "size x < size v" using that by (simp add: v(1) size_list_estimation' less_Suc_eq_le)
    then show ?thesis using assms(2) v(2) [OF that] TList.prems(2) by (force simp: smaller_sent_def property_value_def)
  qed
  from sequence_all [of vs "instanceToPlain B T (As m)" sendable, OF this] show ?case by (auto simp: v(1))
next
  case (TModel cs)
  from TModel(1) obtain c es where c: "List.member cs c" "v = JObject es \<or> v = JInstance c es"
    "typed_fields B T c es" by (rule TModel_cases)
  have "P (Some m) c" using TModel(2) c(1) by (auto simp: list_all_iff)
  with c(2) show ?case
    by (elim disjE) (simp_all add: instanceToPlain_object smaller_object [OF assms(1,2) c(2,3)] del: instanceToPlain.simps)
next
  case (TInstance cs)
  from TInstance(1) obtain c es where c: "List.member cs c" "v = JInstance c es"
    "typed_fields B T c es" by (rule TInstance_cases)
  have "P (Some m) c" using TInstance(2) c(1) by (auto simp: list_all_iff)
  then show ?case
    by (simp add: c(2) instanceToPlain_object smaller_object [OF assms(1,2) disjI2 [OF c(2)] c(3)] del: instanceToPlain.simps)
qed (cases v; simp)+

lemma tagged_instance_sent:
  assumes "checked P T" "smaller_sent B T P v \<or> (\<exists>w. size v < size w \<and> smaller_sent B T P w)" "conforms B T (TInstance cs) v"
    and "list_all (\<lambda>c. List.member (map fst subTypes) c \<and> P (Some c) c) cs"
  shows "\<exists>r. tagged subTypes v (instanceToPlain B T Own v) = Inr r \<and> sendable r"
proof -
  have smaller: "smaller_sent B T P v" using assms(2) by (auto simp: smaller_sent_def)
  from assms(3) obtain c es where c: "List.member cs c" "v = JInstance c es" "typed_fields B T c es" by (rule TInstance_cases)
  have member: "P (Some c) c" "List.member (map fst subTypes) c" using assms(4) c(1) by (auto simp: list_all_iff)
  obtain rs where "copy_properties B T (Some c) es = Inr (JObject rs)" "list_all (\<lambda>(k, v). sendable v) rs"
    using smaller_copied [OF assms(1) smaller member(1) _ c(3)] c(2) by blast
  then show ?thesis using tagged_sent [OF _ _ member(2)] unfolding c(2) instanceToPlain_object by simp
qed

lemma one_of_sent:
  assumes "checked P T" "smaller_sent B T P v" "conforms B T t v" "dec_ok P (OneOf subTypes) t"
  shows "\<exists>r. property_value B T (OneOf subTypes) v = Inr r \<and> sendable r"
  using assms(3,4)
proof (induction t)
  case (TOr t u)
  then show ?case unfolding conforms.simps dec_ok.simps by blast
next
  case (TList t)
  then obtain cs where t: "t = TInstance cs" "list_all (\<lambda>c. List.member (map fst subTypes) c \<and> P (Some c) c) cs"
    by (cases t) auto
  from TList.prems(1) obtain vs where v: "v = JArray vs" "\<And>x. x \<in> set vs \<Longrightarrow> conforms B T t x" by (cases v) (auto simp: list_all_iff)
  have "\<exists>r. tagged subTypes x (instanceToPlain B T Own x) = Inr r \<and> sendable r" if "x \<in> set vs" for x
  proof -
    have "size x < size v" using that by (simp add: v(1) size_list_estimation' less_Suc_eq_le)
    then show ?thesis using tagged_instance_sent [OF assms(1) _ v(2) [OF that, unfolded t(1)] t(2)] assms(2) by blast
  qed
  from sequence_all [of vs "\<lambda>x. tagged subTypes x (instanceToPlain B T Own x)" sendable, OF this]
  show ?case by (auto simp: v(1) property_value_def)
next
  case (TInstance cs)
  then have "\<not> isArray v" "truthy v" by (cases v; simp)+
  then show ?case using tagged_instance_sent [OF assms(1) _ TInstance(1)] assms(2) TInstance(2)
    by (simp add: property_value_def)
qed (cases v; simp add: property_value_def)+

lemma property_sent:
  assumes "checked P T" "list_all (\<lambda>(k, x). plain x) (bn_nan_object B)"
  shows "conforms B T t v \<Longrightarrow> dec_ok P d t \<Longrightarrow> \<exists>r. property_value B T d v = Inr r \<and> sendable r"
proof (induction "size v" arbitrary: v t d rule: less_induct)
  case less
  have smaller: "smaller_sent B T P v" using less.hyps by (simp add: smaller_sent_def)
  note sent = undecorated_sent [OF assms(1) smaller less.prems(1)] typed_sent [OF assms(1) smaller less.prems(1)]
    FromBigNumber_sent [OF less.prems(1)] FromPortfolioId_sent [OF less.prems(1)] FromEntity_sent [OF less.prems(1)]
    FromEntityObject_sent [OF less.prems(1) _ assms(2)]
  show ?case
  proof (cases d)
    case (OneOf subTypes)
    then show ?thesis using one_of_sent [OF assms(1) smaller less.prems(1)] less.prems(2) by simp
  qed (use sent less.prems(2) in \<open>simp_all add: property_value_def\<close>)
qed

section \<open>The serializer\<close>

lemma property_value_copied: "property_value B T = copied_value B (instanceToPlain B T)"
  by (intro ext) (simp add: property_value_def copied_value_def)

lemma copy_properties_copied: "copy_properties B T = copied_object B T (instanceToPlain B T)"
  by (intro ext) (simp add: copy_properties_def copied_object_def property_value_copied)

lemma instanceToPlain_transformer: "class_transformer B T (instanceToPlain B T)"
  unfolding class_transformer_def
proof (intro allI)
  fix t v
  show "instanceToPlain B T t v = (case v of
       JArray vs \<Rightarrow> bindr (sequence (map (\<lambda>x. case t of
           Among subTypes \<Rightarrow> tagged subTypes x (instanceToPlain B T Own x) | _ \<Rightarrow> instanceToPlain B T t x) vs)) (\<lambda>rs. Inr (JArray rs))
     | JObject es \<Rightarrow> copied_object B T (instanceToPlain B T) (case t of As c \<Rightarrow> Some c | _ \<Rightarrow> None) es
     | JInstance c es \<Rightarrow> copied_object B T (instanceToPlain B T) (Some (case t of As c' \<Rightarrow> c' | _ \<Rightarrow> c)) es
     | _ \<Rightarrow> Inr v)"
    by (cases v) (simp_all add: instanceToPlain_object copy_properties_copied del: instanceToPlain.simps(2,3))
qed

lemma transformer_cong:
  assumes "\<And>t. ip t v = ip' t v"
  shows "copied_value B ip d v = copied_value B ip' d v"
  using assms by (simp add: copied_value_def split: decorator.split)

lemma transformer_object_cong:
  assumes "\<And>k x t. (k, x) \<in> set es \<Longrightarrow> ip t x = ip' t x"
  shows "copied_object B T ip meta es = copied_object B T ip' meta es"
proof -
  have "map (\<lambda>(k, v). bindr (copied_value B ip (decorator_of T meta k) v) (\<lambda>r. Inr (k, r))) es
      = map (\<lambda>(k, v). bindr (copied_value B ip' (decorator_of T meta k) v) (\<lambda>r. Inr (k, r))) es"
    using transformer_cong [of ip _ ip'] assms by (intro map_cong) auto
  then show ?thesis by (simp only: copied_object_def)
qed

text \<open>What the package documents determines it.\<close>

lemma transformer_unique:
  assumes "class_transformer B T ip" "class_transformer B T ip'"
  shows "ip t v = ip' t v"
proof (induction "size v" arbitrary: t v rule: less_induct)
  case less
  note laws = assms [unfolded class_transformer_def, rule_format, of t v]
  have object: "ip t x = ip' t x" if "v = JObject es \<or> v = JInstance c es" "(k, x) \<in> set es" for k x t c es
    using size_property [OF that(2)] that(1) by (intro less) auto
  show ?case
  proof (cases v)
    case (JArray vs)
    have "ip t x = ip' t x" if "x \<in> set vs" for x t
      using that by (intro less) (simp add: JArray size_list_estimation' less_Suc_eq_le)
    then have "map (\<lambda>x. case t of Among subTypes \<Rightarrow> tagged subTypes x (ip Own x) | _ \<Rightarrow> ip t x) vs
        = map (\<lambda>x. case t of Among subTypes \<Rightarrow> tagged subTypes x (ip' Own x) | _ \<Rightarrow> ip' t x) vs"
      by (intro map_cong) (auto split: target.split)
    then show ?thesis using laws by (simp only: JArray js_value.case)
  next
    case (JObject es)
    then have "copied_object B T ip meta es = copied_object B T ip' meta es" for meta
      using object by (intro transformer_object_cong) blast
    then show ?thesis using laws by (simp only: JObject js_value.case)
  next
    case (JInstance c es)
    then have "copied_object B T ip meta es = copied_object B T ip' meta es" for meta
      using object by (intro transformer_object_cong) blast
    then show ?thesis using laws by (simp only: JInstance js_value.case)
  qed (use laws in simp_all)
qed

lemma serialize_copied:
  assumes "class_transformer B T ip"
  shows "serialize ip v = instanceToPlain B T Own v"
  using transformer_unique [OF assms instanceToPlain_transformer] by (simp add: serialize_def)

text \<open>An object of a checked class whose properties have the declared types is serialized, and what is sent holds no private fields.\<close>

lemma serialize_sent:
  assumes "class_transformer B T ip" "checked P T" "list_all (\<lambda>(k, x). plain x) (bn_nan_object B)" "P (Some c) c"
    and "conforms B T (TInstance [c]) v"
  shows "\<exists>r. serialize ip v = Inr r \<and> sendable r"
  using property_sent [OF assms(2,3,5), of Undecorated] assms(4) by (simp add: property_value_def serialize_copied [OF assms(1)])

end
