(* ===== verification/Response_Models.thy ===== *)
theory Response_Models
  imports Responses
begin

text \<open>
  The classes of responses (the \<open>models\<close> directories), each as its fields: the declared type and the decorator. A field marked with a question mark
  in the source may be absent; \<open>opt\<close> allows it to be there and undefined, except under \<open>FromEntity\<close>, where the code leaves it out.
\<close>

definition AccountDetailsModel_fields :: "model_field list" where
  "AccountDetailsModel_fields = [opt (f_model ''identity'' ''IdentityModel''), opt (f_model ''multiSig'' ''MultiSigDetailsModel'')]"

definition PermissionTypeModel_fields :: "model_field list" where
  "PermissionTypeModel_fields = [f_text ''type'']"

definition AssetPermissionsModel_fields :: "model_field list" where
  "AssetPermissionsModel_fields = PermissionTypeModel_fields @ [f_texts ''values'']"

definition MultiSigDetailsModel_fields :: "model_field list" where
  "MultiSigDetailsModel_fields = [(''signers'', TList (TModel [''SignerModel'', ''AccountModel'', ''IdentitySignerModel'']), TypeOf ''SignerModel''),
     f_big ''requiredSignatures'']"

definition PermissionedAccountModel_fields :: "model_field list" where
  "PermissionedAccountModel_fields = [f_model ''account'' ''AccountModel'', f_model ''permissions'' ''PermissionsModel'']"

definition PermissionsModel_fields :: "model_field list" where
  "PermissionsModel_fields = [or_null (f_model ''assets'' ''AssetPermissionsModel''),
     or_null (f_model ''portfolios'' ''PortfolioPermissionsModel''),
     or_null (f_model ''transactions'' ''TransactionPermissionsModel''), f_texts ''transactionGroups'']"

definition PortfolioPermissionsModel_fields :: "model_field list" where
  "PortfolioPermissionsModel_fields = PermissionTypeModel_fields @ [f_models ''values'' ''PortfolioIdentifierModel'']"

definition TransactionPermissionsModel_fields :: "model_field list" where
  "TransactionPermissionsModel_fields = PermissionTypeModel_fields @ [f_texts ''values'', opt (f_texts ''exceptions'')]"

definition AgentOperationModel_fields :: "model_field list" where
  "AgentOperationModel_fields = [f_text ''did'', f_models ''history'' ''EventIdentifierModel'']"

definition BalanceModel_fields :: "model_field list" where
  "BalanceModel_fields = [f_big ''free'', f_big ''locked'', f_big ''total'']"

definition AssetBalanceModel_fields :: "model_field list" where
  "AssetBalanceModel_fields = BalanceModel_fields @ [f_entity ''asset'']"

definition AssetDetailsModel_fields :: "model_field list" where
  "AssetDetailsModel_fields = [opt (f_text ''ticker''), f_entity ''owner'', f_text ''assetId'', f_text ''assetType'', f_text ''name'',
     f_big ''totalSupply'', f_flag ''isDivisible'', f_sdk ''securityIdentifiers'', or_null (f_text ''fundingRound''),
     f_flag ''isFrozen'', f_texts ''agents'']"

definition AssetDocumentModel_fields :: "model_field list" where
  "AssetDocumentModel_fields = [f_text ''name'', f_text ''uri'', opt (f_text ''contentHash''), opt (f_text ''type''), opt (f_date ''filedAt'')]"

definition StatClaimIssuerModel_fields :: "model_field list" where
  "StatClaimIssuerModel_fields = [f_text ''issuer'', f_text ''claimType'']"

definition AssetStatModel_fields :: "model_field list" where
  "AssetStatModel_fields = [f_text ''type'', opt (''claimIssuer'', TInstance [''StatClaimIssuerModel''], Undecorated)]"

definition TransactionQueueModel_fields :: "model_field list" where
  "TransactionQueueModel_fields = [(''transactions'', TList (TInstance [''TransactionModel'', ''BatchTransactionModel'']), OneOf [(''TransactionModel'',
     ''single''), (''BatchTransactionModel'', ''batch'')]), f_model ''details'' ''TransactionDetailsModel'',
     f_entity ''proposal'']"

definition CreatedAssetModel_fields :: "model_field list" where
  "CreatedAssetModel_fields = TransactionQueueModel_fields @ [f_entity ''asset'']"

definition CreatedCustomPermissionGroupModel_fields :: "model_field list" where
  "CreatedCustomPermissionGroupModel_fields = TransactionQueueModel_fields @ [f_big ''id'']"

definition CreatedNftCollectionModel_fields :: "model_field list" where
  "CreatedNftCollectionModel_fields = TransactionQueueModel_fields @ [f_entity ''collection'']"

definition IdentityBalanceModel_fields :: "model_field list" where
  "IdentityBalanceModel_fields = [f_text ''identity'', f_big ''balance'']"

definition RequiredMediatorsModel_fields :: "model_field list" where
  "RequiredMediatorsModel_fields = [f_texts ''mediators'']"

definition StatClaimModel_fields :: "model_field list" where
  "StatClaimModel_fields = [f_text ''type'']"

definition StatAccreditedClaimModel_fields :: "model_field list" where
  "StatAccreditedClaimModel_fields = StatClaimModel_fields @ [f_flag ''accredited'']"

definition StatAffiliateClaimModel_fields :: "model_field list" where
  "StatAffiliateClaimModel_fields = StatClaimModel_fields @ [f_flag ''affiliate'']"

definition StatJurisdictionClaimModel_fields :: "model_field list" where
  "StatJurisdictionClaimModel_fields = StatClaimModel_fields @ [or_null (f_text ''countryCode'')]"

definition TransferRestrictionModel_fields :: "model_field list" where
  "TransferRestrictionModel_fields = [f_text ''type'', opt (f_texts ''exemptedIds'')]"

definition TransferRestrictionClaimCountModel_fields :: "model_field list" where
  "TransferRestrictionClaimCountModel_fields = TransferRestrictionModel_fields @ [f_model ''value'' ''TransferRestrictionClaimValueModel'']"

definition TransferRestrictionClaimPercentageModel_fields :: "model_field list" where
  "TransferRestrictionClaimPercentageModel_fields = TransferRestrictionModel_fields @ [f_model ''value'' ''TransferRestrictionClaimValueModel'']"

definition TransferRestrictionClaimValueModel_fields :: "model_field list" where
  "TransferRestrictionClaimValueModel_fields = [f_text ''type'', f_big ''min'', opt (f_big ''max''), f_entity ''issuer'', (''claim'',
     TInstance [''StatAccreditedClaimModel'', ''StatAffiliateClaimModel'', ''StatJurisdictionClaimModel''],
     OneOf [(''StatAccreditedClaimModel'', ''Accredited''), (''StatAffiliateClaimModel'', ''Affiliate''),
     (''StatJurisdictionClaimModel'', ''Jurisdiction'')])]"

definition TransferRestrictionCountModel_fields :: "model_field list" where
  "TransferRestrictionCountModel_fields = TransferRestrictionModel_fields @ [f_big ''value'']"

definition TransferRestrictionPercentageModel_fields :: "model_field list" where
  "TransferRestrictionPercentageModel_fields = TransferRestrictionModel_fields @ [f_big ''value'']"

definition TransferRestrictionClaimValueBreakdownModel_fields :: "model_field list" where
  "TransferRestrictionClaimValueBreakdownModel_fields = [f_text ''withClaim'', f_text ''withoutClaim'']"

definition TransferRestrictionJurisdictionBreakdownModel_fields :: "model_field list" where
  "TransferRestrictionJurisdictionBreakdownModel_fields = [or_null (f_text ''countryCode''), f_text ''value'']"

definition TransferRestrictionClaimDetailsModel_fields :: "model_field list" where
  "TransferRestrictionClaimDetailsModel_fields = [f_text ''issuer'', (''claimType'', TOr TText TSdk, Undecorated), opt (''value'',
     TOr (TInstance [''TransferRestrictionClaimValueBreakdownModel'']) (TList (TInstance [''TransferRestrictionJurisdictionBreakdownModel''])),
     Undecorated)]"

definition TransferRestrictionsValueModel_fields :: "model_field list" where
  "TransferRestrictionsValueModel_fields = [f_text ''type'', opt (f_model ''claim'' ''TransferRestrictionClaimDetailsModel''), f_big ''value'']"

definition TransferRestrictionsModel_fields :: "model_field list" where
  "TransferRestrictionsModel_fields = [f_flag ''paused'', (''restrictions'', TList (TInstance [''TransferRestrictionCountModel'',
     ''TransferRestrictionPercentageModel'', ''TransferRestrictionClaimCountModel'',
     ''TransferRestrictionClaimPercentageModel'']), OneOf [(''TransferRestrictionCountModel'', ''Count''),
     (''TransferRestrictionPercentageModel'', ''Percentage''), (''TransferRestrictionClaimCountModel'', ''ClaimCount''),
     (''TransferRestrictionClaimPercentageModel'', ''ClaimPercentage'')])]"

definition VenueFilteringDetailsModel_fields :: "model_field list" where
  "VenueFilteringDetailsModel_fields = [f_flag ''isEnabled'', f_bigs ''allowedVenues'', f_bigs ''disallowedVenues'']"

definition ApiKeyModel_fields :: "model_field list" where
  "ApiKeyModel_fields = [f_text ''userId'', f_text ''secret'']"

definition AuthorizationRequestModel_fields :: "model_field list" where
  "AuthorizationRequestModel_fields = [f_big ''id'', or_null (f_date ''expiry''), f_sdk ''data'', f_entity ''issuer'', (''target'', TModel [''SignerModel'',
     ''AccountModel'', ''IdentitySignerModel''], TypeOf ''SignerModel'')]"

definition CreatedAuthorizationRequestModel_fields :: "model_field list" where
  "CreatedAuthorizationRequestModel_fields = TransactionQueueModel_fields @ [f_model ''authorizationRequest'' ''AuthorizationRequestModel'']"

definition PendingAuthorizationsModel_fields :: "model_field list" where
  "PendingAuthorizationsModel_fields = [f_models ''received'' ''AuthorizationRequestModel'', f_models ''sent'' ''AuthorizationRequestModel'']"

definition CheckpointDetailsModel_fields :: "model_field list" where
  "CheckpointDetailsModel_fields = [f_big ''id'', f_date ''createdAt'', f_big ''totalSupply'']"

definition CheckpointScheduleModel_fields :: "model_field list" where
  "CheckpointScheduleModel_fields = [f_big ''id'', f_text ''asset'', or_null (f_date ''expiryDate''), (''pendingPoints'', TList TDate, Undecorated),
     f_big ''remainingCheckpoints'', f_date ''nextCheckpointDate'']"

definition CreatedCheckpointScheduleModel_fields :: "model_field list" where
  "CreatedCheckpointScheduleModel_fields = TransactionQueueModel_fields @ [f_model ''schedule'' ''CheckpointScheduleModel'']"

definition CreatedCheckpointModel_fields :: "model_field list" where
  "CreatedCheckpointModel_fields = TransactionQueueModel_fields @ [f_entity ''checkpoint'']"

definition PeriodComplexityModel_fields :: "model_field list" where
  "PeriodComplexityModel_fields = [f_big ''complexity'']"

definition ScheduleComplexityModel_fields :: "model_field list" where
  "ScheduleComplexityModel_fields = [f_big ''id'', f_big ''maxComplexity'', f_big ''currentComplexity'']"

definition CddClaimModel_fields :: "model_field list" where
  "CddClaimModel_fields = [f_text ''type'', f_text ''id'']"

definition ClaimScopeModel_fields :: "model_field list" where
  "ClaimScopeModel_fields = [or_null (f_model ''scope'' ''ScopeModel''), opt (f_text ''ticker'')]"

definition ClaimModel_fields :: "model_field list" where
  "ClaimModel_fields = [f_entity ''target'', f_entity ''issuer'', f_date ''issuedAt'', or_null (f_date ''expiry''), (''claim'', TSdk,
     Undecorated)]"

definition CustomClaimTypeModel_fields :: "model_field list" where
  "CustomClaimTypeModel_fields = [f_big ''id'', f_text ''name'']"

definition CustomClaimTypeWithDid_fields :: "model_field list" where
  "CustomClaimTypeWithDid_fields = CustomClaimTypeModel_fields @ [opt (f_text ''did'')]"

definition ScopeModel_fields :: "model_field list" where
  "ScopeModel_fields = [f_text ''type'', f_text ''value'']"

text \<open>The block of a transaction is declared as given, but \<open>assembleTransactionResponse\<close> only asserts that it is: it may be \<open>undefined\<close>.\<close>

definition TransactionIdentifierModel_fields :: "model_field list" where
  "TransactionIdentifierModel_fields = [opt (f_big ''blockNumber''), opt (f_text ''blockHash''), opt (f_text ''transactionHash''), f_text ''type'']"

definition BatchTransactionModel_fields :: "model_field list" where
  "BatchTransactionModel_fields = TransactionIdentifierModel_fields @ [opt (f_texts ''transactionTags'')]"

definition EventIdentifierModel_fields :: "model_field list" where
  "EventIdentifierModel_fields = [f_big ''blockNumber'', f_text ''blockHash'', f_date ''blockDate'', f_big ''eventIndex'']"

definition ExtrinsicModel_fields :: "model_field list" where
  "ExtrinsicModel_fields = [f_text ''blockHash'', f_big ''blockNumber'', f_big ''extrinsicIdx'', or_null (f_text ''address''),
     or_null (f_big ''nonce''), f_text ''transactionTag'', (''params'', TList TAny, Undecorated), f_flag ''success'',
     f_big ''specVersionId'', f_text ''extrinsicHash'']"

definition FeesModel_fields :: "model_field list" where
  "FeesModel_fields = [f_big ''protocol'', f_big ''gas'', f_big ''total'']"

definition NotificationPayloadModel_fields :: "model_field list" where
  "NotificationPayloadModel_fields = [f_num ''subscriptionId'', f_num ''nonce'', f_text ''type'', (''payload'', TAny, Undecorated)]"

definition ResultsModel_fields :: "model_field list" where
  "ResultsModel_fields = [f_sdk ''results'']"

definition PaginatedResultsModel_fields :: "model_field list" where
  "PaginatedResultsModel_fields = ResultsModel_fields @ [opt (f_big ''total''), (''next'', TOr TNull (TOr TText TBig), AsBig)]"

definition PayingAccountModel_fields :: "model_field list" where
  "PayingAccountModel_fields = [f_big ''balance'', f_text ''type'', f_text ''address'']"

definition PayloadModel_fields :: "model_field list" where
  "PayloadModel_fields = [f_text ''specVersion'', f_text ''transactionVersion'', f_text ''address'', f_text ''blockHash'',
     f_text ''blockNumber'', f_text ''era'', f_text ''genesisHash'', f_text ''method'', f_text ''nonce'',
     f_texts ''signedExtensions'', f_text ''tip'', f_num ''version'']"

definition RawPayloadModel_fields :: "model_field list" where
  "RawPayloadModel_fields = [f_text ''address'', f_text ''data'', f_text ''type'']"

definition TransactionDetailsModel_fields :: "model_field list" where
  "TransactionDetailsModel_fields = [f_text ''status'', f_model ''fees'' ''FeesModel'', f_flag ''supportsSubsidy'',
     f_model ''payingAccount'' ''PayingAccountModel'']"

definition TransactionPayloadResultModel_fields :: "model_field list" where
  "TransactionPayloadResultModel_fields = [f_model ''transactionPayload'' ''TransactionPayloadModel'', f_model ''details'' ''TransactionDetailsModel'']"

definition TransactionPayloadModel_fields :: "model_field list" where
  "TransactionPayloadModel_fields = [f_text ''method'', f_model ''payload'' ''PayloadModel'', f_model ''rawPayload'' ''RawPayloadModel'', (''metadata'',
     TPlain, Undecorated)]"

definition TransactionModel_fields :: "model_field list" where
  "TransactionModel_fields = TransactionIdentifierModel_fields @ [f_text ''transactionTag'']"

definition ComplianceRequirementsModel_fields :: "model_field list" where
  "ComplianceRequirementsModel_fields = [f_models ''requirements'' ''RequirementModel'', f_models ''defaultTrustedClaimIssuers'' ''TrustedClaimIssuerModel'']"

definition ComplianceStatusModel_fields :: "model_field list" where
  "ComplianceStatusModel_fields = [f_flag ''arePaused'']"

definition RequirementModel_fields :: "model_field list" where
  "RequirementModel_fields = [f_big ''id'', f_sdk ''conditions'']"

definition TrustedClaimIssuerModel_fields :: "model_field list" where
  "TrustedClaimIssuerModel_fields = [f_text ''did'', (''trustedFor'', TOr TNull (TList (TOr TText TSdk)), Undecorated)]"

definition CorporateActionDefaultConfigModel_fields :: "model_field list" where
  "CorporateActionDefaultConfigModel_fields = [f_model ''targets'' ''CorporateActionTargetsModel'', f_big ''defaultTaxWithholding'',
     f_models ''taxWithholdings'' ''TaxWithholdingModel'']"

definition CorporateActionTargetsModel_fields :: "model_field list" where
  "CorporateActionTargetsModel_fields = [f_text ''treatment'', f_sdk ''identities'']"

definition CorporateActionModel_fields :: "model_field list" where
  "CorporateActionModel_fields = [f_big ''id'', f_text ''asset'', f_date ''declarationDate'', f_text ''description'',
     f_model ''targets'' ''CorporateActionTargetsModel'', f_big ''defaultTaxWithholding'',
     f_models ''taxWithholdings'' ''TaxWithholdingModel'']"

definition CreatedDividendDistributionModel_fields :: "model_field list" where
  "CreatedDividendDistributionModel_fields = TransactionQueueModel_fields @ [f_model ''dividendDistribution'' ''DividendDistributionModel'']"

definition DistributionPaymentModel_fields :: "model_field list" where
  "DistributionPaymentModel_fields = [f_big ''blockNumber'', f_text ''blockHash'', f_date ''date'', f_text ''did'', f_big ''amount'',
     f_big ''withheldTax'']"

definition DividendDistributionModel_fields :: "model_field list" where
  "DividendDistributionModel_fields = CorporateActionModel_fields @ [f_model ''origin'' ''PortfolioIdentifierModel'', f_text ''currency'',
     f_big ''perShare'', f_big ''maxAmount'', or_null (f_date ''expiryDate''), f_date ''paymentDate'']"

definition DividendDistributionDetailsModel_fields :: "model_field list" where
  "DividendDistributionDetailsModel_fields = DividendDistributionModel_fields @ [f_big ''remainingFunds'', f_flag ''fundsReclaimed'']"

definition TaxWithholdingModel_fields :: "model_field list" where
  "TaxWithholdingModel_fields = [f_entity ''identity'', f_big ''percentage'']"

definition CoverageReportModel_fields :: "model_field list" where
  "CoverageReportModel_fields = [f_big ''coverage'', f_big ''total'', f_big ''totalUncovered'', f_texts ''uncoveredPaths'']"

definition AccountDataModel_fields :: "model_field list" where
  "AccountDataModel_fields = [f_text ''address'']"

definition SignerModel_fields :: "model_field list" where
  "SignerModel_fields = [f_text ''signerType'']"

definition AccountModel_fields :: "model_field list" where
  "AccountModel_fields = SignerModel_fields @ [f_text ''address'']"

definition AssetWithGroupModel_fields :: "model_field list" where
  "AssetWithGroupModel_fields = [f_entity ''asset'', f_entity ''group'']"

definition CreatedIdentityModel_fields :: "model_field list" where
  "CreatedIdentityModel_fields = TransactionQueueModel_fields @ [f_model ''identity'' ''IdentityModel'']"

definition IdentitySignerModel_fields :: "model_field list" where
  "IdentitySignerModel_fields = SignerModel_fields @ [f_text ''did'']"

definition IdentityModel_fields :: "model_field list" where
  "IdentityModel_fields = [f_text ''did'', f_model ''primaryAccount'' ''PermissionedAccountModel'',
     f_models ''secondaryAccounts'' ''PermissionedAccountModel'', f_flag ''secondaryAccountsFrozen'']"

definition PreApprovedModel_fields :: "model_field list" where
  "PreApprovedModel_fields = [f_text ''asset'', f_text ''did'', f_flag ''isPreApproved'']"

definition CreatedMetadataEntryModel_fields :: "model_field list" where
  "CreatedMetadataEntryModel_fields = TransactionQueueModel_fields @ [f_model ''metadata'' ''MetadataEntryModel'']"

definition GlobalMetadataModel_fields :: "model_field list" where
  "GlobalMetadataModel_fields = [f_big ''id'', f_text ''name'', f_model ''specs'' ''MetadataSpecModel'']"

definition MetadataEntryModel_fields :: "model_field list" where
  "MetadataEntryModel_fields = [f_text ''asset'', f_text ''type'', f_big ''id'']"

definition MetadataDetailsModel_fields :: "model_field list" where
  "MetadataDetailsModel_fields = MetadataEntryModel_fields @ [f_text ''name'', f_model ''specs'' ''MetadataSpecModel'',
     or_null (f_model ''value'' ''MetadataValueModel'')]"

definition MetadataSpecModel_fields :: "model_field list" where
  "MetadataSpecModel_fields = [opt (f_text ''url''), opt (f_text ''description''), opt (f_text ''typedef'')]"

definition MetadataValueModel_fields :: "model_field list" where
  "MetadataValueModel_fields = [opt (f_text ''value''), opt (or_null (f_date ''expiry'')), opt (f_text ''lockStatus''), opt (f_date ''lockedUntil'')]"

definition MultiSigCreatedModel_fields :: "model_field list" where
  "MultiSigCreatedModel_fields = TransactionQueueModel_fields @ [f_text ''multiSigAddress'']"

definition MultiSigProposalDetailsModel_fields :: "model_field list" where
  "MultiSigProposalDetailsModel_fields = [f_big ''approvalAmount'', f_big ''rejectionAmount'', f_text ''status'', or_null (f_date ''expiry''),
     f_flag ''autoClose'', f_text ''txTag'', (''args'', TPlain, Undecorated), f_sdk ''voted'']"

definition MultiSigProposalModel_fields :: "model_field list" where
  "MultiSigProposalModel_fields = [f_text ''multiSigAddress'', f_big ''proposalId'', (''details'', TInstance [''MultiSigProposalDetailsModel''],
     Undecorated)]"

definition MiddlewareMetadataModel_fields :: "model_field list" where
  "MiddlewareMetadataModel_fields = [f_text ''chain'', f_text ''genesisHash'', f_flag ''indexerHealthy'', f_big ''lastProcessedHeight'',
     f_date ''lastProcessedTimestamp'', f_text ''specName'', f_big ''targetHeight'', f_text ''sqVersion'']"

definition NetworkBlockModel_fields :: "model_field list" where
  "NetworkBlockModel_fields = [f_big ''id'']"

definition NetworkPropertiesModel_fields :: "model_field list" where
  "NetworkPropertiesModel_fields = [f_text ''name'', f_big ''version'', f_text ''genesisHash'']"

definition ProtocolFeeModel_fields :: "model_field list" where
  "ProtocolFeeModel_fields = [f_text ''tag'', f_big ''fee'']"

definition TreasuryBalanceModel_fields :: "model_field list" where
  "TreasuryBalanceModel_fields = [f_big ''balance'']"

definition CollectionKeyModel_fields :: "model_field list" where
  "CollectionKeyModel_fields = [f_text ''type'', f_big ''id'', f_text ''name'', (''specs'', TInstance [''MetadataSpecModel''], Undecorated)]"

definition NftMetadataKeyModel_fields :: "model_field list" where
  "NftMetadataKeyModel_fields = [f_text ''type'', f_big ''id'']"

definition NftMetadataModel_fields :: "model_field list" where
  "NftMetadataModel_fields = [f_text ''value'', (''key'', TInstance [''NftMetadataKeyModel''], Undecorated)]"

definition NftModel_fields :: "model_field list" where
  "NftModel_fields = [f_big ''id'', f_text ''collection'', (''metadata'', TList (TInstance [''NftMetadataModel'']), Undecorated),
     or_null (f_text ''imageUri''), or_null (f_text ''tokenUri'')]"

definition NotificationModel_fields :: "model_field list" where
  "NotificationModel_fields = [f_num ''id'', f_num ''subscriptionId'', f_num ''eventId'', f_num ''triesLeft'', f_text ''status'',
     f_date ''createdAt'', f_num ''nonce'']"

definition InvestmentModel_fields :: "model_field list" where
  "InvestmentModel_fields = [f_entity ''investor'', f_big ''soldAmount'', f_big ''investedAmount'']"

definition OfferingDetailsModel_fields :: "model_field list" where
  "OfferingDetailsModel_fields = [f_big ''id'', f_entity ''creator'', f_text ''name'', f_model ''offeringPortfolio'' ''PortfolioIdentifierModel'',
     f_model ''raisingPortfolio'' ''PortfolioIdentifierModel'', f_text ''raisingCurrency'',
     f_models ''tiers'' ''TierModel'', f_entity ''venue'', f_date ''start'', or_null (f_date ''end''), f_text ''status'',
     f_big ''minInvestment'', f_big ''totalAmount'', f_big ''totalRemaining'']"

definition TierModel_fields :: "model_field list" where
  "TierModel_fields = [f_big ''amount'', f_big ''price'', f_big ''remaining'']"

definition AnyModel_fields :: "model_field list" where
  "AnyModel_fields = [opt (''data'', TAny, Undecorated)]"

definition OfflineEventModel_fields :: "model_field list" where
  "OfflineEventModel_fields = [(''body'', TModel [''AnyModel''], Undecorated), f_text ''id'']"

definition OfflineSignatureModel_fields :: "model_field list" where
  "OfflineSignatureModel_fields = [f_text ''id'', f_text ''signature'', (''payload'', TPlain, Undecorated)]"

definition OfflineReceiptModel_fields :: "model_field list" where
  "OfflineReceiptModel_fields = [f_text ''id'', f_big ''deliveryId'', f_text ''topicName'', (''payload'', TPlain, Undecorated), (''metadata'', TPlain,
     Undecorated), or_null (f_text ''multiSig'')]"

definition OfflineRequestModel_fields :: "model_field list" where
  "OfflineRequestModel_fields = [f_text ''id'', (''payload'', TPlain, Undecorated)]"

definition OfflineTxModel_fields :: "model_field list" where
  "OfflineTxModel_fields = [f_text ''id'', (''payload'', TPlain, Undecorated), f_text ''signature'', f_text ''status'', f_text ''address'',
     f_num ''nonce'', opt (f_text ''blockHash''), opt (f_text ''txIndex''), opt (f_text ''txHash'')]"

definition CheckPermissionsResultModel_fields :: "model_field list" where
  "CheckPermissionsResultModel_fields = [opt (or_null (f_texts ''missingPermissions'')), f_flag ''result'', opt (f_text ''message'')]"

definition GroupPermissionsModel_fields :: "model_field list" where
  "GroupPermissionsModel_fields = [or_null (f_model ''transactions'' ''TransactionPermissionsModel''), f_texts ''transactionGroups'']"

definition PermissionGroupWithPermissionsModel_fields :: "model_field list" where
  "PermissionGroupWithPermissionsModel_fields = [opt (f_big ''id''), opt (f_text ''type''), f_model ''permissions'' ''GroupPermissionsModel'']"

definition CreatedPortfolioModel_fields :: "model_field list" where
  "CreatedPortfolioModel_fields = TransactionQueueModel_fields @ [f_model ''portfolio'' ''PortfolioIdentifierModel'']"

definition HistoricSettlementLegModel_fields :: "model_field list" where
  "HistoricSettlementLegModel_fields = [f_text ''direction'']"

definition HistoricSettlementModel_fields :: "model_field list" where
  "HistoricSettlementModel_fields = [f_big ''blockNumber'', f_text ''blockHash'', f_text ''status'', f_models ''accounts'' ''AccountDataModel'',
     f_models ''legs'' ''HistoricSettlementLegModel'']"

definition PortfolioIdentifierModel_fields :: "model_field list" where
  "PortfolioIdentifierModel_fields = [f_text ''did'', opt (''id'', TText, AsPortfolioId)]"

definition PortfolioModel_fields :: "model_field list" where
  "PortfolioModel_fields = [opt (''id'', TBig, AsPortfolioId), f_text ''name'', f_models ''assetBalances'' ''AssetBalanceModel'',
     f_entity ''custodian'', f_entity ''owner'']"

definition AssetLegModel_fields :: "model_field list" where
  "AssetLegModel_fields = [f_text ''asset'', f_text ''type'']"

definition CreatedInstructionModel_fields :: "model_field list" where
  "CreatedInstructionModel_fields = TransactionQueueModel_fields @ [f_entity ''instruction'', (''legs'', TList (TInstance [''LegModel'',
     ''OffChainLegModel'']), OneOf [(''OffChainLegModel'', ''offChain''), (''LegModel'', ''onChain'')])]"

definition CreatedVenueModel_fields :: "model_field list" where
  "CreatedVenueModel_fields = TransactionQueueModel_fields @ [f_entity ''venue'']"

definition GroupedInstructionModel_fields :: "model_field list" where
  "GroupedInstructionModel_fields = [f_sdk ''affirmed'', f_sdk ''pending'', f_sdk ''failed'']"

definition InstructionAffirmationModel_fields :: "model_field list" where
  "InstructionAffirmationModel_fields = [f_entity ''identity'', f_text ''status'']"

definition InstructionModel_fields :: "model_field list" where
  "InstructionModel_fields = [opt (f_big ''venue''), opt (f_date ''createdAt''), f_text ''status'', opt (f_date ''tradeDate''),
     opt (f_date ''valueDate''), f_text ''type'', opt (f_big ''endBlock''), opt (f_big ''endAfterBlock''),
     opt (f_model ''eventIdentifier'' ''EventIdentifierModel''), opt (f_text ''memo''), (''legs'',
     TList (TInstance [''LegModel'', ''OffChainLegModel'']), OneOf [(''OffChainLegModel'', ''offChain''), (''LegModel'',
     ''onChain'')]), (''mediators'', TList (TModel [''MediatorAffirmationModel'']), Undecorated)]"

definition LegModel_fields :: "model_field list" where
  "LegModel_fields = AssetLegModel_fields @ [f_model ''from'' ''PortfolioIdentifierModel'', f_model ''to'' ''PortfolioIdentifierModel'',
     opt (f_big ''amount''), opt (f_bigs ''nfts''), f_text ''type'']"

definition MediatorAffirmationModel_fields :: "model_field list" where
  "MediatorAffirmationModel_fields = [f_text ''status'', opt (f_date ''expiry'')]"

definition OffChainAffirmationModel_fields :: "model_field list" where
  "OffChainAffirmationModel_fields = [f_big ''legId'', f_text ''status'']"

definition OffChainLegModel_fields :: "model_field list" where
  "OffChainLegModel_fields = AssetLegModel_fields @ [f_entity ''from'', f_entity ''to'', f_big ''offChainAmount'', f_text ''type'']"

definition TransferBreakdownModel_fields :: "model_field list" where
  "TransferBreakdownModel_fields = [f_texts ''general'', f_sdk ''compliance'', f_sdk ''restrictions'', f_flag ''result'']"

definition VenueDetailsModel_fields :: "model_field list" where
  "VenueDetailsModel_fields = [f_entity ''owner'', f_text ''description'', f_text ''type'']"

definition SigningSignerModel_fields :: "model_field list" where
  "SigningSignerModel_fields = [f_text ''address'']"

definition SubscriptionModel_fields :: "model_field list" where
  "SubscriptionModel_fields = [f_num ''id'', f_text ''eventType'', f_text ''eventScope'', f_text ''webhookUrl'', f_date ''createdAt'',
     f_num ''ttl'', f_text ''status'', f_num ''triesLeft'', f_num ''nextNonce'', f_text ''legitimacySecret'']"

definition SubsidyModel_fields :: "model_field list" where
  "SubsidyModel_fields = [f_model ''beneficiary'' ''AccountModel'', f_model ''subsidizer'' ''AccountModel'', f_big ''allowance'']"

definition ExtendedTickerReservationModel_fields :: "model_field list" where
  "ExtendedTickerReservationModel_fields = TransactionQueueModel_fields @ [f_model ''tickerReservation'' ''TickerReservationModel'']"

definition TickerReservationModel_fields :: "model_field list" where
  "TickerReservationModel_fields = [or_null (f_entity ''owner''), or_null (f_date ''expiryDate''), f_text ''status'']"

definition ExtrinsicDetailsModel_fields :: "model_field list" where
  "ExtrinsicDetailsModel_fields = ExtrinsicModel_fields @ [f_model ''fee'' ''FeesModel'']"

definition SubmitResultModel_fields :: "model_field list" where
  "SubmitResultModel_fields = [f_text ''blockHash'', f_big ''transactionIndex'', f_text ''transactionHash'']"

definition UserModel_fields :: "model_field list" where
  "UserModel_fields = [f_text ''name'', f_text ''id'']"

definition response_models :: "(string \<times> model_field list) list" where
  "response_models =
     [(''AccountDetailsModel'', AccountDetailsModel_fields), (''PermissionTypeModel'', PermissionTypeModel_fields),
      (''AssetPermissionsModel'', AssetPermissionsModel_fields), (''MultiSigDetailsModel'', MultiSigDetailsModel_fields),
      (''PermissionedAccountModel'', PermissionedAccountModel_fields), (''PermissionsModel'', PermissionsModel_fields),
      (''PortfolioPermissionsModel'', PortfolioPermissionsModel_fields), (''TransactionPermissionsModel'',
      TransactionPermissionsModel_fields), (''AgentOperationModel'', AgentOperationModel_fields), (''BalanceModel'',
      BalanceModel_fields), (''AssetBalanceModel'', AssetBalanceModel_fields), (''AssetDetailsModel'',
      AssetDetailsModel_fields), (''AssetDocumentModel'', AssetDocumentModel_fields), (''StatClaimIssuerModel'',
      StatClaimIssuerModel_fields), (''AssetStatModel'', AssetStatModel_fields), (''TransactionQueueModel'',
      TransactionQueueModel_fields), (''CreatedAssetModel'', CreatedAssetModel_fields),
      (''CreatedCustomPermissionGroupModel'', CreatedCustomPermissionGroupModel_fields), (''CreatedNftCollectionModel'',
      CreatedNftCollectionModel_fields), (''IdentityBalanceModel'', IdentityBalanceModel_fields),
      (''RequiredMediatorsModel'', RequiredMediatorsModel_fields), (''StatClaimModel'', StatClaimModel_fields),
      (''StatAccreditedClaimModel'', StatAccreditedClaimModel_fields), (''StatAffiliateClaimModel'',
      StatAffiliateClaimModel_fields), (''StatJurisdictionClaimModel'', StatJurisdictionClaimModel_fields),
      (''TransferRestrictionModel'', TransferRestrictionModel_fields), (''TransferRestrictionClaimCountModel'',
      TransferRestrictionClaimCountModel_fields), (''TransferRestrictionClaimPercentageModel'',
      TransferRestrictionClaimPercentageModel_fields), (''TransferRestrictionClaimValueModel'',
      TransferRestrictionClaimValueModel_fields), (''TransferRestrictionCountModel'', TransferRestrictionCountModel_fields),
      (''TransferRestrictionPercentageModel'', TransferRestrictionPercentageModel_fields),
      (''TransferRestrictionClaimValueBreakdownModel'', TransferRestrictionClaimValueBreakdownModel_fields),
      (''TransferRestrictionJurisdictionBreakdownModel'', TransferRestrictionJurisdictionBreakdownModel_fields),
      (''TransferRestrictionClaimDetailsModel'', TransferRestrictionClaimDetailsModel_fields),
      (''TransferRestrictionsValueModel'', TransferRestrictionsValueModel_fields), (''TransferRestrictionsModel'',
      TransferRestrictionsModel_fields), (''VenueFilteringDetailsModel'', VenueFilteringDetailsModel_fields),
      (''ApiKeyModel'', ApiKeyModel_fields), (''AuthorizationRequestModel'', AuthorizationRequestModel_fields),
      (''CreatedAuthorizationRequestModel'', CreatedAuthorizationRequestModel_fields), (''PendingAuthorizationsModel'',
      PendingAuthorizationsModel_fields), (''CheckpointDetailsModel'', CheckpointDetailsModel_fields),
      (''CheckpointScheduleModel'', CheckpointScheduleModel_fields), (''CreatedCheckpointScheduleModel'',
      CreatedCheckpointScheduleModel_fields), (''CreatedCheckpointModel'', CreatedCheckpointModel_fields),
      (''PeriodComplexityModel'', PeriodComplexityModel_fields), (''ScheduleComplexityModel'',
      ScheduleComplexityModel_fields), (''CddClaimModel'', CddClaimModel_fields), (''ClaimScopeModel'',
      ClaimScopeModel_fields), (''ClaimModel'', ClaimModel_fields), (''CustomClaimTypeModel'', CustomClaimTypeModel_fields),
      (''CustomClaimTypeWithDid'', CustomClaimTypeWithDid_fields), (''ScopeModel'', ScopeModel_fields),
      (''TransactionIdentifierModel'', TransactionIdentifierModel_fields), (''BatchTransactionModel'',
      BatchTransactionModel_fields), (''EventIdentifierModel'', EventIdentifierModel_fields), (''ExtrinsicModel'',
      ExtrinsicModel_fields), (''FeesModel'', FeesModel_fields), (''NotificationPayloadModel'',
      NotificationPayloadModel_fields), (''ResultsModel'', ResultsModel_fields), (''PaginatedResultsModel'',
      PaginatedResultsModel_fields), (''PayingAccountModel'', PayingAccountModel_fields), (''PayloadModel'',
      PayloadModel_fields), (''RawPayloadModel'', RawPayloadModel_fields), (''TransactionDetailsModel'',
      TransactionDetailsModel_fields), (''TransactionPayloadResultModel'', TransactionPayloadResultModel_fields),
      (''TransactionPayloadModel'', TransactionPayloadModel_fields), (''TransactionModel'', TransactionModel_fields),
      (''ComplianceRequirementsModel'', ComplianceRequirementsModel_fields), (''ComplianceStatusModel'',
      ComplianceStatusModel_fields), (''RequirementModel'', RequirementModel_fields), (''TrustedClaimIssuerModel'',
      TrustedClaimIssuerModel_fields), (''CorporateActionDefaultConfigModel'', CorporateActionDefaultConfigModel_fields),
      (''CorporateActionTargetsModel'', CorporateActionTargetsModel_fields), (''CorporateActionModel'',
      CorporateActionModel_fields), (''CreatedDividendDistributionModel'', CreatedDividendDistributionModel_fields),
      (''DistributionPaymentModel'', DistributionPaymentModel_fields), (''DividendDistributionModel'',
      DividendDistributionModel_fields), (''DividendDistributionDetailsModel'', DividendDistributionDetailsModel_fields),
      (''TaxWithholdingModel'', TaxWithholdingModel_fields), (''CoverageReportModel'', CoverageReportModel_fields),
      (''AccountDataModel'', AccountDataModel_fields), (''SignerModel'', SignerModel_fields), (''AccountModel'',
      AccountModel_fields), (''AssetWithGroupModel'', AssetWithGroupModel_fields), (''CreatedIdentityModel'',
      CreatedIdentityModel_fields), (''IdentitySignerModel'', IdentitySignerModel_fields), (''IdentityModel'',
      IdentityModel_fields), (''PreApprovedModel'', PreApprovedModel_fields), (''CreatedMetadataEntryModel'',
      CreatedMetadataEntryModel_fields), (''GlobalMetadataModel'', GlobalMetadataModel_fields), (''MetadataEntryModel'',
      MetadataEntryModel_fields), (''MetadataDetailsModel'', MetadataDetailsModel_fields), (''MetadataSpecModel'',
      MetadataSpecModel_fields), (''MetadataValueModel'', MetadataValueModel_fields), (''MultiSigCreatedModel'',
      MultiSigCreatedModel_fields), (''MultiSigProposalDetailsModel'', MultiSigProposalDetailsModel_fields),
      (''MultiSigProposalModel'', MultiSigProposalModel_fields), (''MiddlewareMetadataModel'',
      MiddlewareMetadataModel_fields), (''NetworkBlockModel'', NetworkBlockModel_fields), (''NetworkPropertiesModel'',
      NetworkPropertiesModel_fields), (''ProtocolFeeModel'', ProtocolFeeModel_fields), (''TreasuryBalanceModel'',
      TreasuryBalanceModel_fields), (''CollectionKeyModel'', CollectionKeyModel_fields), (''NftMetadataKeyModel'',
      NftMetadataKeyModel_fields), (''NftMetadataModel'', NftMetadataModel_fields), (''NftModel'', NftModel_fields),
      (''NotificationModel'', NotificationModel_fields), (''InvestmentModel'', InvestmentModel_fields),
      (''OfferingDetailsModel'', OfferingDetailsModel_fields), (''TierModel'', TierModel_fields), (''AnyModel'',
      AnyModel_fields), (''OfflineEventModel'', OfflineEventModel_fields), (''OfflineSignatureModel'',
      OfflineSignatureModel_fields), (''OfflineReceiptModel'', OfflineReceiptModel_fields), (''OfflineRequestModel'',
      OfflineRequestModel_fields), (''OfflineTxModel'', OfflineTxModel_fields), (''CheckPermissionsResultModel'',
      CheckPermissionsResultModel_fields), (''GroupPermissionsModel'', GroupPermissionsModel_fields),
      (''PermissionGroupWithPermissionsModel'', PermissionGroupWithPermissionsModel_fields), (''CreatedPortfolioModel'',
      CreatedPortfolioModel_fields), (''HistoricSettlementLegModel'', HistoricSettlementLegModel_fields),
      (''HistoricSettlementModel'', HistoricSettlementModel_fields), (''PortfolioIdentifierModel'',
      PortfolioIdentifierModel_fields), (''PortfolioModel'', PortfolioModel_fields), (''AssetLegModel'',
      AssetLegModel_fields), (''CreatedInstructionModel'', CreatedInstructionModel_fields), (''CreatedVenueModel'',
      CreatedVenueModel_fields), (''GroupedInstructionModel'', GroupedInstructionModel_fields),
      (''InstructionAffirmationModel'', InstructionAffirmationModel_fields), (''InstructionModel'',
      InstructionModel_fields), (''LegModel'', LegModel_fields), (''MediatorAffirmationModel'',
      MediatorAffirmationModel_fields), (''OffChainAffirmationModel'', OffChainAffirmationModel_fields),
      (''OffChainLegModel'', OffChainLegModel_fields), (''TransferBreakdownModel'', TransferBreakdownModel_fields),
      (''VenueDetailsModel'', VenueDetailsModel_fields), (''signing/SignerModel'', SigningSignerModel_fields),
      (''SubscriptionModel'', SubscriptionModel_fields), (''SubsidyModel'', SubsidyModel_fields),
      (''ExtendedTickerReservationModel'', ExtendedTickerReservationModel_fields), (''TickerReservationModel'',
      TickerReservationModel_fields), (''ExtrinsicDetailsModel'', ExtrinsicDetailsModel_fields), (''SubmitResultModel'',
      SubmitResultModel_fields), (''UserModel'', UserModel_fields)]"

definition model_class :: models where
  "model_class c = (case map_of response_models c of Some fs \<Rightarrow> fs | None \<Rightarrow> [])"

text \<open>
  The classes with a declared type that admits what their decorators do not take: claims and claim types that may hold the number of a custom claim, the
  values declared \<open>unknown\<close> (parameters of an extrinsic, the result in a notification, the messages of the recorder), the owner of a ticker that may be
  \<open>null\<close>, and the classes that hold objects of one of these.
\<close>

definition unsafe_models :: "string list" where
  "unsafe_models = [''ClaimModel'', ''TrustedClaimIssuerModel'', ''ComplianceRequirementsModel'', ''TransferRestrictionClaimDetailsModel'',
     ''TransferRestrictionsValueModel'', ''ExtrinsicModel'', ''ExtrinsicDetailsModel'', ''NotificationPayloadModel'', ''AnyModel'', ''OfflineEventModel'',
     ''TickerReservationModel'', ''ExtendedTickerReservationModel'']"

definition safe_copies :: copied where
  "safe_copies meta c \<longleftrightarrow> (case meta of
      Some m \<Rightarrow> m = c \<and> \<not> List.member unsafe_models c \<or> m = ''SignerModel'' \<and> List.member [''AccountModel'', ''IdentitySignerModel''] c
    | None \<Rightarrow> c = ''MediatorAffirmationModel'')"

definition class_ok :: "string \<times> model_field list \<Rightarrow> bool" where
  "class_ok p \<longleftrightarrow> List.member unsafe_models (fst p)
     \<or> list_all (\<lambda>(k, t, _). dec_ok safe_copies (case map_of (snd p) k of Some (_, d) \<Rightarrow> d | None \<Rightarrow> Undecorated) t) (snd p)"

lemmas model_fields = AccountDetailsModel_fields_def PermissionTypeModel_fields_def AssetPermissionsModel_fields_def MultiSigDetailsModel_fields_def
  PermissionedAccountModel_fields_def PermissionsModel_fields_def PortfolioPermissionsModel_fields_def TransactionPermissionsModel_fields_def
  AgentOperationModel_fields_def BalanceModel_fields_def AssetBalanceModel_fields_def AssetDetailsModel_fields_def AssetDocumentModel_fields_def
  StatClaimIssuerModel_fields_def AssetStatModel_fields_def TransactionQueueModel_fields_def CreatedAssetModel_fields_def
  CreatedCustomPermissionGroupModel_fields_def CreatedNftCollectionModel_fields_def IdentityBalanceModel_fields_def RequiredMediatorsModel_fields_def
  StatClaimModel_fields_def StatAccreditedClaimModel_fields_def StatAffiliateClaimModel_fields_def StatJurisdictionClaimModel_fields_def
  TransferRestrictionModel_fields_def TransferRestrictionClaimCountModel_fields_def TransferRestrictionClaimPercentageModel_fields_def
  TransferRestrictionClaimValueModel_fields_def TransferRestrictionCountModel_fields_def TransferRestrictionPercentageModel_fields_def
  TransferRestrictionClaimValueBreakdownModel_fields_def TransferRestrictionJurisdictionBreakdownModel_fields_def
  TransferRestrictionClaimDetailsModel_fields_def TransferRestrictionsValueModel_fields_def TransferRestrictionsModel_fields_def
  VenueFilteringDetailsModel_fields_def ApiKeyModel_fields_def AuthorizationRequestModel_fields_def CreatedAuthorizationRequestModel_fields_def
  PendingAuthorizationsModel_fields_def CheckpointDetailsModel_fields_def CheckpointScheduleModel_fields_def CreatedCheckpointScheduleModel_fields_def
  CreatedCheckpointModel_fields_def PeriodComplexityModel_fields_def ScheduleComplexityModel_fields_def CddClaimModel_fields_def
  ClaimScopeModel_fields_def ClaimModel_fields_def CustomClaimTypeModel_fields_def CustomClaimTypeWithDid_fields_def ScopeModel_fields_def
  TransactionIdentifierModel_fields_def BatchTransactionModel_fields_def EventIdentifierModel_fields_def ExtrinsicModel_fields_def FeesModel_fields_def
  NotificationPayloadModel_fields_def ResultsModel_fields_def PaginatedResultsModel_fields_def PayingAccountModel_fields_def PayloadModel_fields_def
  RawPayloadModel_fields_def TransactionDetailsModel_fields_def TransactionPayloadResultModel_fields_def TransactionPayloadModel_fields_def
  TransactionModel_fields_def ComplianceRequirementsModel_fields_def ComplianceStatusModel_fields_def RequirementModel_fields_def
  TrustedClaimIssuerModel_fields_def CorporateActionDefaultConfigModel_fields_def CorporateActionTargetsModel_fields_def CorporateActionModel_fields_def
  CreatedDividendDistributionModel_fields_def DistributionPaymentModel_fields_def DividendDistributionModel_fields_def
  DividendDistributionDetailsModel_fields_def TaxWithholdingModel_fields_def CoverageReportModel_fields_def AccountDataModel_fields_def
  SignerModel_fields_def AccountModel_fields_def AssetWithGroupModel_fields_def CreatedIdentityModel_fields_def IdentitySignerModel_fields_def
  IdentityModel_fields_def PreApprovedModel_fields_def CreatedMetadataEntryModel_fields_def GlobalMetadataModel_fields_def MetadataEntryModel_fields_def
  MetadataDetailsModel_fields_def MetadataSpecModel_fields_def MetadataValueModel_fields_def MultiSigCreatedModel_fields_def
  MultiSigProposalDetailsModel_fields_def MultiSigProposalModel_fields_def MiddlewareMetadataModel_fields_def NetworkBlockModel_fields_def
  NetworkPropertiesModel_fields_def ProtocolFeeModel_fields_def TreasuryBalanceModel_fields_def CollectionKeyModel_fields_def
  NftMetadataKeyModel_fields_def NftMetadataModel_fields_def NftModel_fields_def NotificationModel_fields_def InvestmentModel_fields_def
  OfferingDetailsModel_fields_def TierModel_fields_def AnyModel_fields_def OfflineEventModel_fields_def OfflineSignatureModel_fields_def
  OfflineReceiptModel_fields_def OfflineRequestModel_fields_def OfflineTxModel_fields_def CheckPermissionsResultModel_fields_def
  GroupPermissionsModel_fields_def PermissionGroupWithPermissionsModel_fields_def CreatedPortfolioModel_fields_def HistoricSettlementLegModel_fields_def
  HistoricSettlementModel_fields_def PortfolioIdentifierModel_fields_def PortfolioModel_fields_def AssetLegModel_fields_def
  CreatedInstructionModel_fields_def CreatedVenueModel_fields_def GroupedInstructionModel_fields_def InstructionAffirmationModel_fields_def
  InstructionModel_fields_def LegModel_fields_def MediatorAffirmationModel_fields_def OffChainAffirmationModel_fields_def OffChainLegModel_fields_def
  TransferBreakdownModel_fields_def VenueDetailsModel_fields_def SigningSignerModel_fields_def SubscriptionModel_fields_def SubsidyModel_fields_def
  ExtendedTickerReservationModel_fields_def TickerReservationModel_fields_def ExtrinsicDetailsModel_fields_def SubmitResultModel_fields_def
  UserModel_fields_def

lemma response_models_ok: "list_all class_ok response_models"
  by (simp add: response_models_def class_ok_def unsafe_models_def safe_copies_def model_fields)

section \<open>The check\<close>

lemma model_class_lookup: "model_class c = [] \<or> (c, model_class c) \<in> set response_models"
  by (auto simp: model_class_def split: option.split dest: map_of_SomeD)

lemma class_pair_ok:
  assumes "\<not> List.member unsafe_models c"
  shows "pair_ok safe_copies model_class (Some c, c)"
  using model_class_lookup [of c]
proof
  assume "(c, model_class c) \<in> set response_models"
  then have "class_ok (c, model_class c)" using response_models_ok by (simp add: list_all_iff)
  then show ?thesis using assms
    by (fastforce simp: class_ok_def pair_ok_def decorator_of_def list_all_iff image_iff)
qed (simp add: pair_ok_def)

lemma special_pairs_ok:
  "pair_ok safe_copies model_class (Some ''SignerModel'', ''AccountModel'')"
  "pair_ok safe_copies model_class (Some ''SignerModel'', ''IdentitySignerModel'')"
  "pair_ok safe_copies model_class (None, ''MediatorAffirmationModel'')"
proof -
  have classes: "model_class ''SignerModel'' = SignerModel_fields" "model_class ''AccountModel'' = AccountModel_fields"
    "model_class ''IdentitySignerModel'' = IdentitySignerModel_fields" "model_class ''MediatorAffirmationModel'' = MediatorAffirmationModel_fields"
    by (simp_all add: model_class_def response_models_def)
  show "pair_ok safe_copies model_class (Some ''SignerModel'', ''AccountModel'')"
    "pair_ok safe_copies model_class (Some ''SignerModel'', ''IdentitySignerModel'')"
    "pair_ok safe_copies model_class (None, ''MediatorAffirmationModel'')"
    by (simp_all add: pair_ok_def decorator_of_def classes SignerModel_fields_def AccountModel_fields_def IdentitySignerModel_fields_def
        MediatorAffirmationModel_fields_def)
qed

lemma models_checked: "checked safe_copies model_class"
  unfolding checked_def
proof (intro allI impI)
  fix meta c
  assume "safe_copies meta c"
  then have "meta = Some c \<and> \<not> List.member unsafe_models c
      \<or> (meta, c) \<in> {(Some ''SignerModel'', ''AccountModel''), (Some ''SignerModel'', ''IdentitySignerModel''), (None, ''MediatorAffirmationModel'')}"
    by (cases meta) (auto simp: safe_copies_def)
  then show "pair_ok safe_copies model_class (meta, c)" using class_pair_ok special_pairs_ok by blast
qed

end
