(* ===== verification/Response_Properties.thy ===== *)
theory Response_Properties
  imports Other_Controllers Response_Models
begin

text \<open>
  Which answers can be sent. All classes of responses but twelve (\<open>unsafe_models\<close>) are safe: whatever values of the declared types their
  objects hold, the answer is made and holds no private fields of numbers or entities. For reserved tickers and for trusted claim issuers, the answers
  of the handlers are worked out: they fail, leak or do neither, depending on the model.
\<close>

section \<open>Safe classes\<close>

text \<open>
  C32: Every response of a class other than the twelve \<open>unsafe_models\<close> is serialized without error, and what is sent is plain: no number object, entity or
  instance is left in it.
\<close>

theorem responses_sent:
  assumes "class_transformer B model_class ip" "\<not> List.member unsafe_models c" "conforms B model_class (TInstance [c]) v"
    and "list_all (\<lambda>(k, x). plain x) (bn_nan_object B)"
  shows "\<exists>r. serialize ip v = Inr r \<and> sendable r"
proof (rule serialize_sent [OF assms(1) models_checked assms(4) _ assms(3)])
  show "safe_copies (Some c) c" using assms(2) by (simp add: safe_copies_def)
qed

theorem responses_sent_witness:
  "\<exists>r. serialize (instanceToPlain demo_bignumber model_class) (JInstance ''BatchTransactionModel'' [(''blockNumber'', JBig (BN 7)), (''blockHash'', JString ''0xab''),
     (''transactionHash'', JString ''0xcd''), (''transactionTags'', JArray [JString ''asset.issue''])]) = Inr r \<and> sendable r"
  by (rule responses_sent [where c = "''BatchTransactionModel''" and B = demo_bignumber])
    (simp_all add: instanceToPlain_transformer unsafe_models_def model_class_def response_models_def BatchTransactionModel_fields_def
       TransactionIdentifierModel_fields_def demo_bignumber_def)

section \<open>Tickers without an owner\<close>

lemma ticker_class: "model_class ''TickerReservationModel'' = TickerReservationModel_fields"
  by (simp add: model_class_def response_models_def)

lemma ticker_decorators:
  "decorator_of model_class (Some ''TickerReservationModel'') k = (if k = ''owner'' then AsEntity else Undecorated)"
  by (simp add: decorator_of_def ticker_class TickerReservationModel_fields_def)

text \<open>
  C33: The details of a reserved ticker are sent with the identifier of the owner. Those of a ticker that nobody owns are found and made
  into a response too, but the response cannot be sent: its owner is \<open>null\<close> and has no \<open>toHuman\<close>, a TypeError.
\<close>

theorem ticker_details_sent:
  assumes "class_transformer B model_class ip" "meth E tickerReservation ''details'' = Inr details" "given details"
    and "field details ''owner'' = (case owner of Some did \<Rightarrow> JEntity (JString did) | None \<Rightarrow> JNull)"
    and "sendable (field details ''expiryDate'')" "sendable (field details ''status'')"
  shows "bindr (createTickerReservationModel E tickerReservation) (serialize ip) =
    (case owner of None \<Rightarrow> Inl js_type_error
     | Some did \<Rightarrow> Inr (JObject [(''owner'', JString did), (''expiryDate'', field details ''expiryDate''), (''status'', field details ''status'')]))"
proof -
  have "createTickerReservationModel E tickerReservation = Inr (JInstance ''TickerReservationModel''
      [(''owner'', field details ''owner''), (''expiryDate'', field details ''expiryDate''), (''status'', field details ''status'')])"
    using assms(2,3) by (simp add: createTickerReservationModel_def picks_def del: field_simps)
  then show ?thesis using assms(4-6)
    by (simp add: serialize_copied [OF assms(1)] instanceToPlain_object copy_properties_def property_value_def ticker_decorators instanceToPlain_sendable
        split: option.split del: instanceToPlain.simps field_simps)
qed

definition ticker_demo :: "js_value \<Rightarrow> sdk_entities" where
  "ticker_demo owner = \<lparr>en_call = (\<lambda>v k. Inr (JObject [(''owner'', owner), (''expiryDate'', JNull), (''status'', JString ''Free'')])),
     en_isAccount = (\<lambda>v. False), en_isOffChainLeg = (\<lambda>v. False), en_isFungibleAsset = (\<lambda>v. False)\<rparr>"

theorem ticker_details_sent_witness:
  "bindr (createTickerReservationModel (ticker_demo JNull) (JInstance ''TickerReservation'' [])) (serialize (instanceToPlain demo_bignumber model_class))
     = Inl js_type_error
   \<and> bindr (createTickerReservationModel (ticker_demo (JEntity (JString ''0x1''))) (JInstance ''TickerReservation'' [])) (serialize (instanceToPlain demo_bignumber model_class))
     = Inr (JObject [(''owner'', JString ''0x1''), (''expiryDate'', JNull), (''status'', JString ''Free'')])"
  using ticker_details_sent [where E = "ticker_demo JNull" and tickerReservation = "JInstance ''TickerReservation'' []" and owner = None
      and details = "JObject [(''owner'', JNull), (''expiryDate'', JNull), (''status'', JString ''Free'')]" and B = demo_bignumber and ip = "instanceToPlain demo_bignumber model_class"]
    ticker_details_sent [where E = "ticker_demo (JEntity (JString ''0x1''))" and tickerReservation = "JInstance ''TickerReservation'' []"
      and owner = "Some ''0x1''" and B = demo_bignumber and ip = "instanceToPlain demo_bignumber model_class"
      and details = "JObject [(''owner'', JEntity (JString ''0x1'')), (''expiryDate'', JNull), (''status'', JString ''Free'')]"]
  by (simp add: ticker_demo_def instanceToPlain_transformer)

section \<open>Custom claims\<close>

text \<open>
  What the SDK answers about claim issuers: each with the claims it is trusted for, \<open>null\<close> for all. A claim is the name of a kind, or a custom kind with its
  number. The requirements have a number and conditions.
\<close>

fun trusted_claim :: "string + rat \<Rightarrow> js_value" where
  "trusted_claim (Inl kind) = JString kind"
| "trusted_claim (Inr n) = JObject [(''type'', JString ''Custom''), (''customClaimTypeId'', JBig (BN n))]"

fun trusted_for :: "(string + rat) list option \<Rightarrow> js_value" where
  "trusted_for None = JNull"
| "trusted_for (Some claims) = JArray (map trusted_claim claims)"

definition sdk_issuer :: "string \<times> (string + rat) list option \<Rightarrow> js_value" where
  "sdk_issuer i = JObject [(''identity'', JInstance ''Identity'' [(''did'', JString (fst i))]), (''trustedFor'', trusted_for (snd i))]"

definition sdk_requirement :: "big_number \<times> js_value \<Rightarrow> js_value" where
  "sdk_requirement q = JObject [(''id'', JBig (fst q)), (''conditions'', snd q)]"

text \<open>What is sent when the number of a custom claim becomes a text.\<close>

fun sent_claim :: "bignumber \<Rightarrow> string + rat \<Rightarrow> js_value" where
  "sent_claim B (Inl kind) = JString kind"
| "sent_claim B (Inr n) = JObject [(''type'', JString ''Custom''), (''customClaimTypeId'', JString (bn_text B (BN n)))]"

definition sent_issuer :: "bignumber \<Rightarrow> string \<times> (string + rat) list option \<Rightarrow> js_value" where
  "sent_issuer B i = JObject [(''did'', JString (fst i)),
     (''trustedFor'', case snd i of None \<Rightarrow> JNull | Some claims \<Rightarrow> JArray (map (sent_claim B) claims))]"

definition issuer_model :: "string \<times> (string + rat) list option \<Rightarrow> js_value" where
  "issuer_model i = JInstance ''TrustedClaimIssuerModel'' [(''did'', JString (fst i)), (''trustedFor'', trusted_for (snd i))]"

definition copied_issuer :: "string \<times> (string + rat) list option \<Rightarrow> js_value" where
  "copied_issuer i = JObject [(''did'', JString (fst i)), (''trustedFor'', trusted_for (snd i))]"

lemma custom_classes:
  "model_class ''TrustedClaimIssuerModel'' = TrustedClaimIssuerModel_fields" "model_class ''RequirementModel'' = RequirementModel_fields"
  "model_class ''ComplianceRequirementsModel'' = ComplianceRequirementsModel_fields" "model_class ''ResultsModel'' = ResultsModel_fields"
  by (simp_all add: model_class_def response_models_def)

lemma issuer_undecorated: "decorator_of model_class (Some ''TrustedClaimIssuerModel'') k = Undecorated"
  by (simp add: decorator_of_def custom_classes TrustedClaimIssuerModel_fields_def)

lemma trusted_issuers: "js_map trusted_issuer (JArray (map sdk_issuer issuers)) = Inr (JArray (map issuer_model issuers))"
proof -
  have "trusted_issuer (sdk_issuer i) = Inr (issuer_model i)" for i
    by (simp add: trusted_issuer_def sdk_issuer_def issuer_model_def get_def)
  then have "sequence (map trusted_issuer (map sdk_issuer issuers)) = Inr (map issuer_model issuers)" by (induction issuers) simp_all
  then show ?thesis by simp
qed

lemma trusted_for_copied: "instanceToPlain B model_class Own (trusted_for c) = Inr (trusted_for c)"
proof -
  have claim: "instanceToPlain B model_class Own (trusted_claim c) = Inr (trusted_claim c)" for c
    by (cases c) (simp_all add: decorator_of_def)
  have "sequence (map (instanceToPlain B model_class Own) (map trusted_claim cs)) = Inr (map trusted_claim cs)" for cs
    by (rule sequence_same) (use claim in auto)
  then show ?thesis by (cases c) simp_all
qed

lemma issuer_copied: "instanceToPlain B model_class (As ''TrustedClaimIssuerModel'') (issuer_model i) = Inr (copied_issuer i)"
  by (simp add: issuer_model_def instanceToPlain_object copy_properties_def issuer_undecorated property_value_def trusted_for_copied copied_issuer_def
      del: instanceToPlain.simps(2,3))

lemma issuers_copied:
  "instanceToPlain B model_class (As ''TrustedClaimIssuerModel'') (JArray (map issuer_model issuers)) = Inr (JArray (map copied_issuer issuers))"
proof -
  have "sequence (map (instanceToPlain B model_class (As ''TrustedClaimIssuerModel'')) (map issuer_model issuers)) = Inr (map copied_issuer issuers)"
    by (induction issuers) (simp_all add: issuer_copied)
  then show ?thesis by simp
qed

lemma claims_human: "sequence (map (toHumanObject B) (map trusted_claim cs)) = Inr (map (sent_claim B) cs)"
proof (induction cs)
  case (Cons c cs)
  have "toHumanObject B (trusted_claim c) = Inr (sent_claim B c)" by (cases c) simp_all
  with Cons show ?case by simp
qed simp

lemma issuers_human: "toHumanObject B (JArray (map issuer_model issuers)) = Inr (JArray (map (sent_issuer B) issuers))"
proof -
  have "toHumanObject B (trusted_for c) = Inr (case c of None \<Rightarrow> JNull | Some cs \<Rightarrow> JArray (map (sent_claim B) cs))" for c
    by (cases c) (simp_all add: claims_human del: map_map)
  then have "toHumanObject B (issuer_model i) = Inr (sent_issuer B i)" for i
    by (simp add: issuer_model_def sent_issuer_def)
  then have "sequence (map (toHumanObject B) (map issuer_model issuers)) = Inr (map (sent_issuer B) issuers)" by (induction issuers) simp_all
  then show ?thesis by simp
qed

lemma requirements_made:
  "js_map (pick_model ''RequirementModel'' [''id'', ''conditions'']) (JArray (map sdk_requirement reqs))
     = Inr (JArray (map (\<lambda>q. JInstance ''RequirementModel'' [(''id'', JBig (fst q)), (''conditions'', snd q)]) reqs))" (is "_ = Inr (JArray (map ?m reqs))")
proof -
  have "pick_model ''RequirementModel'' [''id'', ''conditions''] (sdk_requirement q) = Inr (?m q)" for q
    by (simp add: pick_model_def picks_def sdk_requirement_def)
  then have "sequence (map (pick_model ''RequirementModel'' [''id'', ''conditions'']) (map sdk_requirement reqs)) = Inr (map ?m reqs)"
    by (induction reqs) simp_all
  then show ?thesis by simp
qed

lemma requirements_sent:
  assumes "list_all (\<lambda>q. sdk_value B (snd q)) reqs" "list_all (\<lambda>(k, x). plain x) (bn_nan_object B)"
  shows "\<exists>r. instanceToPlain B model_class (As ''RequirementModel'')
      (JArray (map (\<lambda>q. JInstance ''RequirementModel'' [(''id'', JBig (fst q)), (''conditions'', snd q)]) reqs)) = Inr r \<and> sendable r"
    (is "\<exists>r. instanceToPlain B model_class ?c ?v = _ \<and> _")
proof -
  have "conforms B model_class (TList (TInstance [''RequirementModel''])) ?v"
    using assms(1) by (simp add: list_all_iff custom_classes RequirementModel_fields_def)
  moreover have "dec_ok safe_copies (TypeOf ''RequirementModel'') (TList (TInstance [''RequirementModel'']))"
    by (simp add: safe_copies_def unsafe_models_def)
  ultimately have "\<exists>r. property_value B model_class (TypeOf ''RequirementModel'') ?v = Inr r \<and> sendable r"
    by (rule property_sent [OF models_checked assms(2)])
  then show ?thesis by (simp only: property_value_def decorator.case)
qed

lemma copied_sendable: "sendable (copied_issuer i) \<longleftrightarrow> (\<forall>claims. snd i = Some claims \<longrightarrow> (\<forall>n. Inr n \<notin> set claims))"
proof -
  have "sendable (trusted_claim c) \<longleftrightarrow> (\<forall>n. c \<noteq> Inr n)" for c by (cases c) simp_all
  then show ?thesis by (cases "snd i") (auto simp: copied_issuer_def list_all_iff)
qed

text \<open>
  C34: Custom claims of trusted issuers. The compliance requirements of an asset are sent with the private fields of a number exactly when one of the
  default trusted issuers is trusted for a custom claim; the list of trusted claim issuers sends the same claims with their numbers as texts.
\<close>

theorem custom_claims_leak:
  assumes "class_transformer B model_class ip" "list_all (\<lambda>(k, x). plain x) (bn_nan_object B)"
    and "findComplianceRequirements V R asset s = (Inr (JObject [(''requirements'', JArray (map sdk_requirement reqs)),
      (''defaultTrustedClaimIssuers'', JArray (map sdk_issuer issuers))]), s)" "list_all (\<lambda>q. sdk_value B (snd q)) reqs"
    and "trusted_find V R asset s = (Inr (JArray (map sdk_issuer issuers)), s)"
  shows "(\<exists>m r. ctl_getComplianceRequirements V R asset s = (Inr m, s) \<and> serialize ip m = Inr r
        \<and> (sendable r \<longleftrightarrow> (\<forall>i \<in> set issuers. \<forall>claims. snd i = Some claims \<longrightarrow> (\<forall>n. Inr n \<notin> set claims))))
    \<and> (\<exists>m. ctl_getTrustedClaimIssuers V R asset s = (Inr m, s)
        \<and> serialize ip m = Inr (JObject [(''results'', JArray (map (sent_issuer B) issuers))]))"
proof
  let ?q = "JArray (map (\<lambda>q. JInstance ''RequirementModel'' [(''id'', JBig (fst q)), (''conditions'', snd q)]) reqs)"
  let ?m = "JInstance ''ComplianceRequirementsModel'' [(''requirements'', ?q), (''defaultTrustedClaimIssuers'', JArray (map issuer_model issuers))]"
  have run: "ctl_getComplianceRequirements V R asset s = (Inr ?m, s)"
    using assms(3) requirements_made [of reqs] trusted_issuers [of issuers]
    by (simp add: ctl_getComplianceRequirements_def made_of_def andThen_def eff_simps get_def del: js_map.simps)
  obtain r where r: "instanceToPlain B model_class (As ''RequirementModel'') ?q = Inr r" "sendable r"
    using requirements_sent [OF assms(4,2)] by blast
  have "serialize ip ?m = Inr (JObject [(''requirements'', r), (''defaultTrustedClaimIssuers'', JArray (map copied_issuer issuers))])" (is "_ = Inr ?r")
    unfolding serialize_copied [OF assms(1)] instanceToPlain_object copy_properties_def
    using r(1) by (simp add: decorator_of_def custom_classes ComplianceRequirementsModel_fields_def property_value_def issuers_copied del: instanceToPlain.simps)
  moreover have "sendable ?r \<longleftrightarrow> (\<forall>i \<in> set issuers. \<forall>claims. snd i = Some claims \<longrightarrow> (\<forall>n. Inr n \<notin> set claims))"
    using r(2) by (simp add: list_all_iff copied_sendable)
  ultimately show "\<exists>m r. ctl_getComplianceRequirements V R asset s = (Inr m, s) \<and> serialize ip m = Inr r
        \<and> (sendable r \<longleftrightarrow> (\<forall>i \<in> set issuers. \<forall>claims. snd i = Some claims \<longrightarrow> (\<forall>n. Inr n \<notin> set claims)))"
    using run by blast
next
  let ?m = "results_model (JArray (map issuer_model issuers))"
  have "ctl_getTrustedClaimIssuers V R asset s = (Inr ?m, s)"
    using assms(5) trusted_issuers [of issuers]
    by (simp add: ctl_getTrustedClaimIssuers_def made_of_def results_of_def andThen_def eff_simps del: js_map.simps)
  moreover have "serialize ip ?m = Inr (JObject [(''results'', JArray (map (sent_issuer B) issuers))])"
    unfolding serialize_copied [OF assms(1)] results_model_def instanceToPlain_object copy_properties_def
    by (simp add: decorator_of_def custom_classes ResultsModel_fields_def property_value_def FromEntityObject_def issuers_human
        del: instanceToPlain.simps toHumanObject.simps)
  ultimately show "\<exists>m. ctl_getTrustedClaimIssuers V R asset s = (Inr m, s)
        \<and> serialize ip m = Inr (JObject [(''results'', JArray (map (sent_issuer B) issuers))])" by blast
qed

definition custom_issuers :: "(string \<times> (string + rat) list option) list" where
  "custom_issuers = [(''0x1'', Some [Inl ''Accredited'', Inr 1]), (''0x2'', None)]"

definition custom_compliance :: compliance_api where
  "custom_compliance = demo_compliance\<lparr>cr_get := \<lambda>_. Inr (JObject [(''requirements'', JArray (map sdk_requirement [(BN 1, JArray [])])),
     (''defaultTrustedClaimIssuers'', JArray (map sdk_issuer custom_issuers))]), ti_get := \<lambda>_. Inr (JArray (map sdk_issuer custom_issuers))\<rparr>"

theorem custom_claims_leak_witness:
  "(\<exists>m r. ctl_getComplianceRequirements demo_env custom_compliance ''TICK'' demo_gateway = (Inr m, demo_gateway)
      \<and> serialize (instanceToPlain demo_bignumber model_class) m = Inr r \<and> \<not> sendable r)
   \<and> (\<exists>m. ctl_getTrustedClaimIssuers demo_env custom_compliance ''TICK'' demo_gateway = (Inr m, demo_gateway)
      \<and> serialize (instanceToPlain demo_bignumber model_class) m = Inr (JObject [(''results'', JArray (map (sent_issuer demo_bignumber) custom_issuers))]))"
proof -
  have found: "assets_findOne demo_env ''TICK'' demo_gateway = (Inr (asset.truncate demo_asset), demo_gateway)"
    by (simp add: assets_findOne_def rethrow_sdk_def eff_simps demo_env_def demo_api_def demo_lookup)
  have "findComplianceRequirements demo_env custom_compliance ''TICK'' demo_gateway = (Inr (JObject [(''requirements'', JArray (map sdk_requirement [(BN 1, JArray [])])),
     (''defaultTrustedClaimIssuers'', JArray (map sdk_issuer custom_issuers))]), demo_gateway)"
    "trusted_find demo_env custom_compliance ''TICK'' demo_gateway = (Inr (JArray (map sdk_issuer custom_issuers)), demo_gateway)"
    using found by (simp_all add: findComplianceRequirements_def trusted_find_def andThen_def eff_simps custom_compliance_def)
  note * = custom_claims_leak [OF instanceToPlain_transformer [of demo_bignumber] _ this(1) _ this(2)]
  have "list_all (\<lambda>(k, x). plain x) (bn_nan_object demo_bignumber)" "list_all (\<lambda>q. sdk_value demo_bignumber (snd q)) [(BN 1, JArray [])]"
    by (simp_all add: demo_bignumber_def sdk_value_def)
  from * [OF this] show ?thesis by (auto simp: custom_issuers_def)
qed

end
