(* ===== verification/Postgres.thy ===== *)
theory Postgres
  imports Events Auth Offline
begin

text \<open>
  The repositories of \<open>datastore/postgres/repos\<close>. TypeORM and the database are the parameter \<open>orm\<close>: a table of rows with a primary key, columns
  and the columns the database fills in. What the repositories rely on is \<open>orm_table\<close>: a row that no constraint refuses is stored under a new
  key, or under its own when it has one that is not in the table yet; rows are found, updated and deleted by their columns. The columns hold what is
  written, and the database can be reached. What saving does to a row that is there already is left open: TypeORM then writes the properties that are
  defined, and nothing here relies on it.

  With these laws the repositories of subscriptions and notifications satisfy the contracts of the services, so that all that is proved in
  the locale \<open>webhooks\<close> holds of a process with a database.
\<close>

section \<open>Tables\<close>

record ('k, 'c) entity =
  rw_id :: 'k
  rw_columns :: 'c
  rw_createdAt :: int

text \<open>
  \<open>db_save\<close> has the key of the object that is saved, if it has one, and gives the object with what the database filled in; \<open>db_updateIn\<close> is an \<open>UPDATE\<close> of the query builder for a list of keys; the
  function says what the columns are set to.
\<close>

record ('k, 'c, 'q, 's) orm =
  db_save :: "'k option \<Rightarrow> 'c \<Rightarrow> (exn, 's, ('k, 'c) entity) eff"
  db_findOneBy :: "'q \<Rightarrow> (exn, 's, ('k, 'c) entity option) eff"
  db_find :: "(exn, 's, ('k, 'c) entity list) eff"
  db_update :: "'k \<Rightarrow> ('c \<Rightarrow> 'c) \<Rightarrow> (exn, 's, unit) eff"
  db_updateIn :: "'k list \<Rightarrow> ('c \<Rightarrow> 'c) \<Rightarrow> (exn, 's, unit) eff"
  db_delete :: "'q \<Rightarrow> (exn, 's, unit) eff"

definition converting :: "string \<Rightarrow> string \<Rightarrow> (exn, 's, 'a) eff \<Rightarrow> (exn, 's, 'a) eff" where
  "converting ident resourceType m = tryCatch m (\<lambda>e. throw (convertTypeOrmErrorToAppError ident resourceType e))"

definition found :: "app_error \<Rightarrow> ('a \<Rightarrow> 'b) \<Rightarrow> (exn, 's, 'a option) eff \<Rightarrow> (exn, 's, 'b) eff" where
  "found e f m = andThen m (\<lambda>r. case r of None \<Rightarrow> throw (AppErr e) | Some x \<Rightarrow> ret (f x))"

section \<open>Subscriptions\<close>

type_synonym 's subscription_table = "(nat, subscription_params, nat, 's) orm"

definition toSubscription :: "(nat, subscription_params) entity \<Rightarrow> subscription" where
  "toSubscription e = new_subscription (rw_id e) (rw_columns e)"

text \<open>The columns after an update with the given properties.\<close>

definition with_changes :: "subscription_update \<Rightarrow> subscription_params \<Rightarrow> subscription_params" where
  "with_changes u c = subscription_params.truncate (spread_subscription (new_subscription 0 c) u)"

definition pg_sub_create :: "'s subscription_table \<Rightarrow> subscription_params \<Rightarrow> (exn, 's, subscription) eff" where
  "pg_sub_create tbl params =
     andThen (converting ''subscription'' ''Subscription'' (db_save tbl None params)) (\<lambda>e. ret (toSubscription e))"

definition pg_sub_findById :: "'s subscription_table \<Rightarrow> nat \<Rightarrow> (exn, 's, subscription) eff" where
  "pg_sub_findById tbl i = found (appNotFoundError (nat_to_string i) ''Subscription'') toSubscription (db_findOneBy tbl i)"

definition pg_sub_update :: "'s subscription_table \<Rightarrow> nat \<Rightarrow> subscription_update \<Rightarrow> (exn, 's, subscription) eff" where
  "pg_sub_update tbl i u = andThen (db_update tbl i (with_changes u)) (\<lambda>_. pg_sub_findById tbl i)"

definition pg_sub_findAll :: "'s subscription_table \<Rightarrow> (exn, 's, subscription list) eff" where
  "pg_sub_findAll tbl = andThen (db_find tbl) (\<lambda>es. ret (map toSubscription es))"

definition pg_sub_incrementNonces :: "'s subscription_table \<Rightarrow> nat list \<Rightarrow> (exn, 's, unit) eff" where
  "pg_sub_incrementNonces tbl ids = db_updateIn tbl ids (\<lambda>c. c\<lparr>s_nextNonce := s_nextNonce c + 1\<rparr>)"

definition postgres_subscriptions :: "'s subscription_table \<Rightarrow> 's subscription_repo_ops" where
  "postgres_subscriptions tbl = \<lparr>sr_create = pg_sub_create tbl, sr_update = pg_sub_update tbl,
     sr_findById = (\<lambda>i. andThen (pg_sub_findById tbl i) (\<lambda>s. ret (Some s))), sr_findAll = pg_sub_findAll tbl,
     sr_incrementNonces = pg_sub_incrementNonces tbl\<rparr>"

section \<open>Notifications\<close>

type_synonym 's notification_table = "(nat, notification_params, nat, 's) orm"

definition toNotification :: "(nat, notification_params) entity \<Rightarrow> notification" where
  "toNotification e = new_notification (rw_id e) (rw_createdAt e) (rw_columns e)"

definition with_nchanges :: "notification_update \<Rightarrow> notification_params \<Rightarrow> notification_params" where
  "with_nchanges u c = notification_params.truncate (spread_notification (new_notification 0 0 c) u)"

definition pg_notif_create :: "'s notification_table \<Rightarrow> notification_params \<Rightarrow> (exn, 's, notification) eff" where
  "pg_notif_create tbl params =
     andThen (converting (''Subscription ID: '' @ nat_to_string (n_subscriptionId params)) ''Notification'' (db_save tbl None params))
       (\<lambda>e. ret (toNotification e))"

definition pg_notif_findById :: "'s notification_table \<Rightarrow> nat \<Rightarrow> (exn, 's, notification) eff" where
  "pg_notif_findById tbl i = found (appNotFoundError (nat_to_string i) ''notification'') toNotification (db_findOneBy tbl i)"

definition pg_notif_update :: "'s notification_table \<Rightarrow> nat \<Rightarrow> notification_update \<Rightarrow> (exn, 's, notification) eff" where
  "pg_notif_update tbl i u = andThen (db_update tbl i (with_nchanges u)) (\<lambda>_. pg_notif_findById tbl i)"

definition postgres_notifications :: "'s notification_table \<Rightarrow> 's notification_repo_ops" where
  "postgres_notifications tbl = \<lparr>nr_create = (\<lambda>time. pg_notif_create tbl),
     nr_findById = (\<lambda>i. andThen (pg_notif_findById tbl i) (\<lambda>n. ret (Some n))), nr_update = pg_notif_update tbl\<rparr>"

section \<open>Users and API keys\<close>

datatype user_query = ByName string

type_synonym 's user_table = "(string, string, user_query, 's) orm"

definition toUser :: "(string, string) entity \<Rightarrow> user" where
  "toUser e = \<lparr>us_id = rw_id e, us_name = rw_columns e\<rparr>"

definition pg_createUser :: "'s user_table \<Rightarrow> string \<Rightarrow> (exn, 's, user) eff" where
  "pg_createUser tbl name = andThen (converting name UsersRepo_type (db_save tbl None name)) (\<lambda>e. ret (toUser e))"

definition pg_findByName :: "'s user_table \<Rightarrow> string \<Rightarrow> (exn, 's, user) eff" where
  "pg_findByName tbl name = found (appNotFoundError name UsersRepo_type) toUser (db_findOneBy tbl (ByName name))"

definition postgres_users :: "'s user_table \<Rightarrow> 's users_repo_ops" where
  "postgres_users tbl = \<lparr>uo_findByName = pg_findByName tbl, uo_createUser = pg_createUser tbl\<rparr>"

record api_key_columns =
  kc_secret :: string
  kc_user :: user

type_synonym 's api_key_table = "(string, api_key_columns, string, 's) orm"

text \<open>The secret is an input, as in the in-memory repository.\<close>

definition toApiKey :: "(string, api_key_columns) entity \<Rightarrow> api_key" where
  "toApiKey e = \<lparr>ak_userId = us_id (kc_user (rw_columns e)), ak_secret = kc_secret (rw_columns e)\<rparr>"

definition pg_createApiKey :: "'s api_key_table \<Rightarrow> string option \<Rightarrow> user \<Rightarrow> (exn, 's, api_key) eff" where
  "pg_createApiKey tbl rnd u = (case rnd of
      None \<Rightarrow> throw (PlainErr ''randomBytes'')
    | Some secret \<Rightarrow> andThen (db_save tbl None \<lparr>kc_secret = secret, kc_user = u\<rparr>) (\<lambda>e. ret (toApiKey e)))"

definition pg_getUserByApiKey :: "'s api_key_table \<Rightarrow> string \<Rightarrow> (exn, 's, user) eff" where
  "pg_getUserByApiKey tbl secret =
     found (appNotFoundError ''*REDACTED*'' ApiKeyRepo_type) (\<lambda>e. kc_user (rw_columns e)) (db_findOneBy tbl secret)"

definition pg_deleteApiKey :: "'s api_key_table \<Rightarrow> string \<Rightarrow> (exn, 's, unit) eff" where
  "pg_deleteApiKey tbl apiKey = db_delete tbl apiKey"

definition postgres_api_keys :: "'s api_key_table \<Rightarrow> 's api_key_repo_ops" where
  "postgres_api_keys tbl = \<lparr>ko_getUserByApiKey = (\<lambda>k. andThen (pg_getUserByApiKey tbl k) (\<lambda>u. ret (UserPrincipal u))),
     ko_createApiKey = pg_createApiKey tbl, ko_deleteApiKey = pg_deleteApiKey tbl\<rparr>"

section \<open>Offline transactions\<close>

text \<open>The key is a column like the others; \<open>save\<close> is given the whole object.\<close>

type_synonym 's offline_tx_table = "(string, offline_tx, string, 's) orm"

definition toModel :: "(string, offline_tx) entity \<Rightarrow> offline_tx" where
  "toModel e = (rw_columns e)\<lparr>ot_id := rw_id e\<rparr>"

definition pg_save_tx :: "'s offline_tx_table \<Rightarrow> offline_tx \<Rightarrow> (exn, 's, offline_tx) eff" where
  "pg_save_tx tbl tx = andThen (converting ''offlineTx'' ''OfflineTxRepo'' (db_save tbl (Some (ot_id tx)) tx)) (\<lambda>e. ret (toModel e))"

definition pg_createTx :: "'s offline_tx_table \<Rightarrow> offline_tx \<Rightarrow> (exn, 's, offline_tx) eff" where
  "pg_createTx tbl params = pg_save_tx tbl params"

definition pg_offline_findById :: "'s offline_tx_table \<Rightarrow> string \<Rightarrow> (exn, 's, offline_tx option) eff" where
  "pg_offline_findById tbl i = andThen (db_findOneBy tbl i) (\<lambda>r. ret (map_option toModel r))"

definition pg_updateTx :: "'s offline_tx_table \<Rightarrow> string \<Rightarrow> offline_tx_update \<Rightarrow> (exn, 's, offline_tx) eff" where
  "pg_updateTx tbl i params = andThen (db_findOneBy tbl i) (\<lambda>r. case r of
      None \<Rightarrow> throw (AppErr (appNotFoundError i ''offlineTxModel''))
    | Some e \<Rightarrow> pg_save_tx tbl (spread_offline_tx (toModel e) params))"

definition postgres_offline_txs :: "'s offline_tx_table \<Rightarrow> 's offline_tx_ops" where
  "postgres_offline_txs tbl = \<lparr>ox_createTx = pg_createTx tbl, ox_findById = pg_offline_findById tbl, ox_updateTx = pg_updateTx tbl\<rparr>"

type_synonym 's offline_event_table = "(nat, offline_message, nat, 's) orm"

definition pg_recordEvent :: "'s offline_event_table \<Rightarrow> offline_message \<Rightarrow> (exn, 's, offline_message offline_event) eff" where
  "pg_recordEvent tbl body =
     andThen (converting ''offlineEvent'' ''OfflineEvent'' (db_save tbl None body))
       (\<lambda>e. ret \<lparr>ev_id = nat_to_string (rw_id e), ev_body = rw_columns e\<rparr>)"

definition postgres_offline_events :: "'s offline_event_table \<Rightarrow> 's offline_event_ops" where
  "postgres_offline_events tbl = \<lparr>oe_recordEvent = pg_recordEvent tbl\<rparr>"

section \<open>What the repositories rely on\<close>

text \<open>
  \<open>sat\<close>: which rows a query is for. \<open>refuse\<close>: the message of the constraint that refuses to add columns to the rows there are. \<open>rows\<close>: the rows of
  a state of the database, and \<open>ok\<close>: the states it can be in.
\<close>

type_synonym ('k, 'c, 's) rows_of = "'s \<Rightarrow> 'k \<rightharpoonup> ('k, 'c) entity"

definition change_rows :: "'k set \<Rightarrow> ('c \<Rightarrow> 'c) \<Rightarrow> ('k \<rightharpoonup> ('k, 'c) entity) \<Rightarrow> 'k \<rightharpoonup> ('k, 'c) entity" where
  "change_rows ks f m = (\<lambda>k. if k \<in> ks then map_option (\<lambda>e. e\<lparr>rw_columns := f (rw_columns e)\<rparr>) (m k) else m k)"

definition orm_reads :: "('k, 'c, 'q, 's) orm \<Rightarrow> ('q \<Rightarrow> ('k, 'c) entity \<Rightarrow> bool) \<Rightarrow> ('k, 'c, 's) rows_of \<Rightarrow> ('s \<Rightarrow> bool) \<Rightarrow> bool" where
  "orm_reads tbl sat rows ok \<longleftrightarrow> (\<forall>t. ok t \<longrightarrow>
       finite (dom (rows t)) \<and> (\<forall>k e. rows t k = Some e \<longrightarrow> rw_id e = k)
     \<and> (\<exists>es. db_find tbl t = (Inr es, t) \<and> set es = ran (rows t) \<and> distinct es)
     \<and> (\<forall>q. \<exists>r. db_findOneBy tbl q t = (Inr r, t) \<and> (case r of
           Some e \<Rightarrow> e \<in> ran (rows t) \<and> sat q e | None \<Rightarrow> \<forall>e \<in> ran (rows t). \<not> sat q e)))"

definition orm_writes :: "('k, 'c, 'q, 's) orm \<Rightarrow> ('q \<Rightarrow> ('k, 'c) entity \<Rightarrow> bool) \<Rightarrow> (('k, 'c) entity set \<Rightarrow> 'c \<Rightarrow> string option) \<Rightarrow>
    ('k, 'c, 's) rows_of \<Rightarrow> ('s \<Rightarrow> bool) \<Rightarrow> bool" where
  "orm_writes tbl sat refuse rows ok \<longleftrightarrow> (\<forall>t. ok t \<longrightarrow>
       (\<forall>c. case refuse (ran (rows t)) c of
           Some msg \<Rightarrow> db_save tbl None c t = (Inl (TypeOrmErr msg), t)
         | None \<Rightarrow> \<exists>e t'. db_save tbl None c t = (Inr e, t') \<and> ok t' \<and> rw_columns e = c \<and> rows t (rw_id e) = None
             \<and> rows t' = (rows t)(rw_id e \<mapsto> e))
     \<and> (\<forall>k c. rows t k = None \<longrightarrow> (case refuse (ran (rows t)) c of
           Some msg \<Rightarrow> db_save tbl (Some k) c t = (Inl (TypeOrmErr msg), t)
         | None \<Rightarrow> \<exists>e t'. db_save tbl (Some k) c t = (Inr e, t') \<and> ok t' \<and> rw_id e = k \<and> rw_columns e = c \<and> rows t' = (rows t)(k \<mapsto> e)))
     \<and> (\<forall>k f. \<exists>t'. db_update tbl k f t = (Inr (), t') \<and> ok t' \<and> rows t' = change_rows {k} f (rows t))
     \<and> (\<forall>ks f. ks \<noteq> [] \<longrightarrow> (\<exists>t'. db_updateIn tbl ks f t = (Inr (), t') \<and> ok t' \<and> rows t' = change_rows (set ks) f (rows t)))
     \<and> (\<forall>q. \<exists>t'. db_delete tbl q t = (Inr (), t') \<and> ok t' \<and> rows t' = (\<lambda>k. case rows t k of
           Some e \<Rightarrow> if sat q e then None else Some e | None \<Rightarrow> None)))"

definition orm_table :: "('k, 'c, 'q, 's) orm \<Rightarrow> ('q \<Rightarrow> ('k, 'c) entity \<Rightarrow> bool) \<Rightarrow> (('k, 'c) entity set \<Rightarrow> 'c \<Rightarrow> string option) \<Rightarrow>
    ('k, 'c, 's) rows_of \<Rightarrow> ('s \<Rightarrow> bool) \<Rightarrow> bool" where
  "orm_table tbl sat refuse rows ok \<longleftrightarrow> orm_reads tbl sat rows ok \<and> orm_writes tbl sat refuse rows ok"

abbreviation by_id :: "'k \<Rightarrow> ('k, 'c) entity \<Rightarrow> bool" where
  "by_id k e \<equiv> rw_id e = k"

abbreviation unrestricted :: "('k, 'c) entity set \<Rightarrow> 'c \<Rightarrow> string option" where
  "unrestricted es c \<equiv> None"

section \<open>Reading and writing\<close>

lemma orm_tableD:
  assumes "orm_table tbl sat refuse rows ok" "ok t"
  shows "finite (dom (rows t))" "rows t k = Some e \<Longrightarrow> rw_id e = k"
    "\<exists>es. db_find tbl t = (Inr es, t) \<and> set es = ran (rows t) \<and> distinct es"
    "\<exists>r. db_findOneBy tbl q t = (Inr r, t) \<and> (case r of
           Some e \<Rightarrow> e \<in> ran (rows t) \<and> sat q e | None \<Rightarrow> \<forall>e \<in> ran (rows t). \<not> sat q e)"
    "refuse (ran (rows t)) c = Some msg \<Longrightarrow> db_save tbl None c t = (Inl (TypeOrmErr msg), t)"
    "refuse (ran (rows t)) c = None \<Longrightarrow> \<exists>e t'. db_save tbl None c t = (Inr e, t') \<and> ok t' \<and> rw_columns e = c \<and> rows t (rw_id e) = None
       \<and> rows t' = (rows t)(rw_id e \<mapsto> e)"
    "rows t k = None \<Longrightarrow> case refuse (ran (rows t)) c of
           Some msg \<Rightarrow> db_save tbl (Some k) c t = (Inl (TypeOrmErr msg), t)
         | None \<Rightarrow> \<exists>e t'. db_save tbl (Some k) c t = (Inr e, t') \<and> ok t' \<and> rw_id e = k \<and> rw_columns e = c \<and> rows t' = (rows t)(k \<mapsto> e)"
    "\<exists>t'. db_update tbl k f t = (Inr (), t') \<and> ok t' \<and> rows t' = change_rows {k} f (rows t)"
    "ks \<noteq> [] \<Longrightarrow> \<exists>t'. db_updateIn tbl ks f t = (Inr (), t') \<and> ok t' \<and> rows t' = change_rows (set ks) f (rows t)"
proof -
  have R: "orm_reads tbl sat rows ok" and W: "orm_writes tbl sat refuse rows ok" using assms(1) by (simp_all add: orm_table_def)
  note r = R [unfolded orm_reads_def, rule_format, OF assms(2)] and w = W [unfolded orm_writes_def, rule_format, OF assms(2)]
  show "finite (dom (rows t))" "rows t k = Some e \<Longrightarrow> rw_id e = k" using r by blast+
  show "\<exists>es. db_find tbl t = (Inr es, t) \<and> set es = ran (rows t) \<and> distinct es" using r by blast
  show "\<exists>r. db_findOneBy tbl q t = (Inr r, t) \<and> (case r of
           Some e \<Rightarrow> e \<in> ran (rows t) \<and> sat q e | None \<Rightarrow> \<forall>e \<in> ran (rows t). \<not> sat q e)" using r by blast
  have save: "case refuse (ran (rows t)) c of
           Some msg \<Rightarrow> db_save tbl None c t = (Inl (TypeOrmErr msg), t)
         | None \<Rightarrow> \<exists>e t'. db_save tbl None c t = (Inr e, t') \<and> ok t' \<and> rw_columns e = c \<and> rows t (rw_id e) = None
             \<and> rows t' = (rows t)(rw_id e \<mapsto> e)" using w by blast
  show "refuse (ran (rows t)) c = Some msg \<Longrightarrow> db_save tbl None c t = (Inl (TypeOrmErr msg), t)" using save by simp
  show "refuse (ran (rows t)) c = None \<Longrightarrow> \<exists>e t'. db_save tbl None c t = (Inr e, t') \<and> ok t' \<and> rw_columns e = c \<and> rows t (rw_id e) = None
       \<and> rows t' = (rows t)(rw_id e \<mapsto> e)" using save by simp
  show "rows t k = None \<Longrightarrow> case refuse (ran (rows t)) c of
           Some msg \<Rightarrow> db_save tbl (Some k) c t = (Inl (TypeOrmErr msg), t)
         | None \<Rightarrow> \<exists>e t'. db_save tbl (Some k) c t = (Inr e, t') \<and> ok t' \<and> rw_id e = k \<and> rw_columns e = c \<and> rows t' = (rows t)(k \<mapsto> e)"
    using w by blast
  show "\<exists>t'. db_update tbl k f t = (Inr (), t') \<and> ok t' \<and> rows t' = change_rows {k} f (rows t)" using w by blast
  show "ks \<noteq> [] \<Longrightarrow> \<exists>t'. db_updateIn tbl ks f t = (Inr (), t') \<and> ok t' \<and> rows t' = change_rows (set ks) f (rows t)" using w by blast
qed

text \<open>The models of the rows.\<close>

definition models_of :: "(('k, 'c) entity \<Rightarrow> 'm) \<Rightarrow> ('k, 'c, 's) rows_of \<Rightarrow> 's \<Rightarrow> 'k \<rightharpoonup> 'm" where
  "models_of mk rows t = map_option mk \<circ> rows t"

lemma models_of_put: "rows t' = (rows t)(k \<mapsto> e) \<Longrightarrow> models_of mk rows t' = (models_of mk rows t)(k \<mapsto> mk e)"
  by (auto simp: models_of_def)

lemma models_of_change:
  assumes "rows t' = change_rows ks f (rows t)" "\<And>e. mk (e\<lparr>rw_columns := f (rw_columns e)\<rparr>) = g (mk e)"
  shows "models_of mk rows t' = (\<lambda>k. if k \<in> ks then map_option g (models_of mk rows t k) else models_of mk rows t k)"
  using assms by (auto simp: models_of_def change_rows_def option.map_comp comp_def)

lemma findOneBy_id:
  assumes "orm_table tbl by_id refuse rows ok" "ok t"
  shows "db_findOneBy tbl k t = (Inr (rows t k), t)"
proof -
  note law = orm_tableD [OF assms]
  from law(4) [of k] obtain r where r: "db_findOneBy tbl k t = (Inr r, t)"
    "case r of Some e \<Rightarrow> e \<in> ran (rows t) \<and> rw_id e = k | None \<Rightarrow> \<forall>e \<in> ran (rows t). rw_id e \<noteq> k" by blast
  have "r = rows t k"
  proof (cases r)
    case None
    then show ?thesis using r(2) law(2) by (cases "rows t k") (auto simp: ran_def)
  next
    case (Some e)
    then show ?thesis using r(2) law(2) by (auto simp: ran_def)
  qed
  with r(1) show ?thesis by simp
qed

lemma saved:
  assumes "db_save tbl k c t = (Inr e, t')"
  shows "converting i r (db_save tbl k c) t = (Inr e, t')"
  using assms by (simp add: converting_def tryCatch_def)

section \<open>The contracts of subscriptions and notifications\<close>

lemma spread_columns:
  "toSubscription (e\<lparr>rw_columns := with_changes u (rw_columns e)\<rparr>) = spread_subscription (toSubscription e) u"
  "toNotification (n\<lparr>rw_columns := with_nchanges v (rw_columns n)\<rparr>) = spread_notification (toNotification n) v"
  by (simp_all add: toSubscription_def toNotification_def with_changes_def with_nchanges_def new_subscription_def new_notification_def
      spread_subscription_def spread_notification_def subscription_params.defs notification_params.defs cong: option.case_cong)

lemma postgres_subscription_repo:
  assumes T: "orm_table tbl by_id unrestricted rows ok"
  shows "subscription_repo (postgres_subscriptions tbl) (models_of toSubscription rows) ok"
proof
  fix t p
  assume t: "ok t"
  note law = orm_tableD [OF T t]
  from law(6) [of p] obtain e t' where e: "db_save tbl None p t = (Inr e, t')" "ok t'" "rw_columns e = p" "rows t (rw_id e) = None"
    "rows t' = (rows t)(rw_id e \<mapsto> e)" by blast
  show "\<exists>i t'. sr_create (postgres_subscriptions tbl) p t = (Inr (new_subscription i p), t') \<and> models_of toSubscription rows t i = None
      \<and> models_of toSubscription rows t' = (models_of toSubscription rows t)(i \<mapsto> new_subscription i p) \<and> ok t'"
    using e(2-4) models_of_put [of rows t' t, OF e(5), of toSubscription]
    by (intro exI [of _ "rw_id e"] exI [of _ t'])
      (simp add: postgres_subscriptions_def pg_sub_create_def andThen_def saved [OF e(1)] eff_simps toSubscription_def, simp add: models_of_def)
next
  fix t i m u
  assume t: "ok t" and m: "models_of toSubscription rows t i = Some m"
  from m obtain e where e: "rows t i = Some e" "m = toSubscription e" by (auto simp: models_of_def)
  from orm_tableD(8) [OF T t, of i "with_changes u"] obtain t' where t': "db_update tbl i (with_changes u) t = (Inr (), t')" "ok t'"
    "rows t' = change_rows {i} (with_changes u) (rows t)" by blast
  have "models_of toSubscription rows t' = (models_of toSubscription rows t)(i \<mapsto> spread_subscription m u)"
    using models_of_change [OF t'(3), of toSubscription, OF spread_columns(1)] m by auto
  moreover have "rows t' i = Some (e\<lparr>rw_columns := with_changes u (rw_columns e)\<rparr>)" using e t'(3) by (simp add: change_rows_def)
  ultimately show "\<exists>t'. sr_update (postgres_subscriptions tbl) i u t = (Inr (spread_subscription m u), t')
      \<and> models_of toSubscription rows t' = (models_of toSubscription rows t)(i \<mapsto> spread_subscription m u) \<and> ok t'"
    using t'(1,2) by (simp add: postgres_subscriptions_def pg_sub_update_def pg_sub_findById_def found_def andThen_def eff_simps
        findOneBy_id [OF T t'(2)] spread_columns e(2))
next
  fix t i m
  assume t: "ok t" and m: "models_of toSubscription rows t i = Some m"
  then show "sr_findById (postgres_subscriptions tbl) i t = (Inr (Some m), t)"
    by (auto simp: postgres_subscriptions_def pg_sub_findById_def found_def andThen_def eff_simps findOneBy_id [OF T t] models_of_def)
  show "s_id m = i" using m orm_tableD(2) [OF T t]
    by (auto simp: models_of_def toSubscription_def new_subscription_def subscription_params.defs)
next
  fix t i
  assume t: "ok t" and m: "models_of toSubscription rows t i = None"
  then show "\<exists>e. sr_findById (postgres_subscriptions tbl) i t = (Inl (AppErr e), t) \<and> code e = NotFound"
    by (auto simp: postgres_subscriptions_def pg_sub_findById_def found_def andThen_def eff_simps findOneBy_id [OF T t] models_of_def)
next
  fix t
  assume t: "ok t"
  note law = orm_tableD [OF T t]
  from law(3) obtain es where es: "db_find tbl t = (Inr es, t)" "set es = ran (rows t)" "distinct es" by blast
  have "inj_on rw_id (ran (rows t))" using law(2) by (auto simp: inj_on_def ran_def)
  then have "distinct (map rw_id es)" using es by (simp add: distinct_map)
  moreover have "s_id \<circ> toSubscription = rw_id" by (auto simp: toSubscription_def new_subscription_def subscription_params.defs)
  moreover have "ran (models_of toSubscription rows t) = toSubscription ` ran (rows t)" by (auto simp: models_of_def ran_def)
  ultimately show "\<exists>ms. sr_findAll (postgres_subscriptions tbl) t = (Inr ms, t) \<and> set ms = ran (models_of toSubscription rows t)
      \<and> distinct (map s_id ms)"
    using es by (simp add: postgres_subscriptions_def pg_sub_findAll_def andThen_def eff_simps)
next
  fix t :: 'a and ids :: "nat list"
  assume t: "ok t" and ids: "ids \<noteq> []"
  let ?f = "\<lambda>c :: subscription_params. c\<lparr>s_nextNonce := s_nextNonce c + 1\<rparr>" and ?g = "\<lambda>m :: subscription. m\<lparr>s_nextNonce := s_nextNonce m + 1\<rparr>"
  from orm_tableD(9) [OF T t ids] obtain t' where t': "db_updateIn tbl ids ?f t = (Inr (), t')" "ok t'"
    "rows t' = change_rows (set ids) ?f (rows t)" by blast
  have "toSubscription (e\<lparr>rw_columns := ?f (rw_columns e)\<rparr>) = ?g (toSubscription e)" for e
    by (simp add: toSubscription_def new_subscription_def subscription_params.defs)
  then have "models_of toSubscription rows t' = (\<lambda>i. if i \<in> set ids then map_option ?g (models_of toSubscription rows t i)
      else models_of toSubscription rows t i)" by (intro models_of_change [of rows t' "set ids" ?f]) (rule t'(3), blast)
  with t'(1,2)
  show "\<exists>t'. sr_incrementNonces (postgres_subscriptions tbl) ids t = (Inr (), t') \<and> ok t' \<and> models_of toSubscription rows t' =
      (\<lambda>i. if i \<in> set ids then map_option ?g (models_of toSubscription rows t i) else models_of toSubscription rows t i)"
    by (simp add: postgres_subscriptions_def pg_sub_incrementNonces_def)
qed

lemma postgres_notification_repo:
  assumes T: "orm_table tbl by_id unrestricted rows ok"
  shows "notification_repo (postgres_notifications tbl) (models_of toNotification rows) ok (\<lambda>n. n)"
proof
  fix t p time
  assume t: "ok t"
  note law = orm_tableD [OF T t]
  from law(6) [of p] obtain e t' where e: "db_save tbl None p t = (Inr e, t')" "ok t'" "rw_columns e = p" "rows t (rw_id e) = None"
    "rows t' = (rows t)(rw_id e \<mapsto> e)" by blast
  have p: "p\<lparr>n_triesLeft := n_triesLeft p\<rparr> = p" by simp
  show "\<exists>i c t'. nr_create (postgres_notifications tbl) time p t = (Inr (new_notification i c (p\<lparr>n_triesLeft := n_triesLeft p\<rparr>)), t')
      \<and> models_of toNotification rows t i = None \<and> ok t'
      \<and> models_of toNotification rows t' = (models_of toNotification rows t)(i \<mapsto> new_notification i c (p\<lparr>n_triesLeft := n_triesLeft p\<rparr>))"
    unfolding p using e(2-4) models_of_put [of rows t' t, OF e(5), of toNotification]
    by (intro exI [of _ "rw_id e"] exI [of _ "rw_createdAt e"] exI [of _ t'])
      (simp add: postgres_notifications_def pg_notif_create_def andThen_def saved [OF e(1)] eff_simps toNotification_def, simp add: models_of_def)
next
  fix t i m u
  assume t: "ok t" and m: "models_of toNotification rows t i = Some m"
  from m obtain e where e: "rows t i = Some e" "m = toNotification e" by (auto simp: models_of_def)
  from orm_tableD(8) [OF T t, of i "with_nchanges u"] obtain t' where t': "db_update tbl i (with_nchanges u) t = (Inr (), t')" "ok t'"
    "rows t' = change_rows {i} (with_nchanges u) (rows t)" by blast
  have "models_of toNotification rows t' = (models_of toNotification rows t)(i \<mapsto> spread_notification m u)"
    using models_of_change [OF t'(3), of toNotification, OF spread_columns(2)] m by auto
  moreover have "rows t' i = Some (e\<lparr>rw_columns := with_nchanges u (rw_columns e)\<rparr>)" using e t'(3) by (simp add: change_rows_def)
  ultimately show "\<exists>t'. nr_update (postgres_notifications tbl) i u t = (Inr (spread_notification m u), t')
      \<and> models_of toNotification rows t' = (models_of toNotification rows t)(i \<mapsto> spread_notification m u) \<and> ok t'"
    using t'(1,2) by (simp add: postgres_notifications_def pg_notif_update_def pg_notif_findById_def found_def andThen_def eff_simps
        findOneBy_id [OF T t'(2)] spread_columns e(2))
next
  fix t i m
  assume t: "ok t" and m: "models_of toNotification rows t i = Some m"
  then show "nr_findById (postgres_notifications tbl) i t = (Inr (Some m), t)"
    by (auto simp: postgres_notifications_def pg_notif_findById_def found_def andThen_def eff_simps findOneBy_id [OF T t] models_of_def)
  show "n_id m = i" using m orm_tableD(2) [OF T t]
    by (auto simp: models_of_def toNotification_def new_notification_def notification_params.defs)
next
  fix t i
  assume t: "ok t" and m: "models_of toNotification rows t i = None"
  then show "nr_findById (postgres_notifications tbl) i t = (Inr None, t)
      \<or> (\<exists>e. nr_findById (postgres_notifications tbl) i t = (Inl (AppErr e), t) \<and> code e = NotFound)"
    by (auto simp: postgres_notifications_def pg_notif_findById_def found_def andThen_def eff_simps findOneBy_id [OF T t] models_of_def)
qed

end
