(* ===== verification/Postgres_Properties.thy ===== *)
theory Postgres_Properties
  imports Postgres Webhook_Properties Offline_Properties
begin

text \<open>
  What follows for a server with a database: the webhook process keeps its bounds, with the number of tries that is configured; which users can
  be created; where the record of an offline transaction is found. The witnesses are evaluated on tables whose rows are lists.
\<close>

section \<open>A database\<close>

text \<open>A table that satisfies the laws, with the rows in a list; the witnesses are evaluated on it.\<close>

definition listed :: "('k, 'c) entity list \<Rightarrow> 'k \<rightharpoonup> ('k, 'c) entity" where
  "listed es = map_of (map (\<lambda>e. (rw_id e, e)) es)"

definition distinct_keys :: "('k, 'c) entity list \<Rightarrow> bool" where
  "distinct_keys es = distinct (map rw_id es)"

definition change_listed :: "'k set \<Rightarrow> ('c \<Rightarrow> 'c) \<Rightarrow> ('k, 'c) entity list \<Rightarrow> ('k, 'c) entity list" where
  "change_listed ks f = map (\<lambda>e. if rw_id e \<in> ks then e\<lparr>rw_columns := f (rw_columns e)\<rparr> else e)"

definition demo_table :: "('k list \<Rightarrow> 'k) \<Rightarrow> ('q \<Rightarrow> ('k, 'c) entity \<Rightarrow> bool) \<Rightarrow> (('k, 'c) entity set \<Rightarrow> 'c \<Rightarrow> string option) \<Rightarrow>
    ('k, 'c, 'q, ('k, 'c) entity list) orm" where
  "demo_table fresh sat refuse = \<lparr>
     db_save = (\<lambda>k c es. case k of
         None \<Rightarrow> (case refuse (set es) c of
             Some msg \<Rightarrow> (Inl (TypeOrmErr msg), es)
           | None \<Rightarrow> (let e = \<lparr>rw_id = fresh (map rw_id es), rw_columns = c, rw_createdAt = 0\<rparr> in (Inr e, e # es)))
       | Some i \<Rightarrow> (case refuse (set es) c of
             Some msg \<Rightarrow> (Inl (TypeOrmErr msg), es)
           | None \<Rightarrow> (let e = \<lparr>rw_id = i, rw_columns = c, rw_createdAt = 0\<rparr> in (Inr e, e # filter (\<lambda>x. rw_id x \<noteq> i) es)))),
     db_findOneBy = (\<lambda>q es. (Inr (find (sat q) es), es)),
     db_find = (\<lambda>es. (Inr es, es)),
     db_update = (\<lambda>k f es. (Inr (), change_listed {k} f es)),
     db_updateIn = (\<lambda>ks f es. (Inr (), change_listed (set ks) f es)),
     db_delete = (\<lambda>q es. (Inr (), filter (\<lambda>e. \<not> sat q e) es))\<rparr>"

lemma listed_Some: "distinct_keys es \<Longrightarrow> listed es k = Some e \<longleftrightarrow> e \<in> set es \<and> rw_id e = k"
  by (auto simp: listed_def distinct_keys_def comp_def map_of_eq_Some_iff)

lemma ran_listed: "distinct_keys es \<Longrightarrow> ran (listed es) = set es"
  by (auto simp: ran_def listed_Some)

lemma change_listed_rows:
  assumes "distinct_keys es"
  shows "distinct_keys (change_listed ks f es)" "listed (change_listed ks f es) = change_rows ks f (listed es)"
proof -
  have ids: "map rw_id (change_listed ks f es) = map rw_id es" by (simp add: change_listed_def)
  then show keys: "distinct_keys (change_listed ks f es)" using assms by (simp only: distinct_keys_def)
  show "listed (change_listed ks f es) = change_rows ks f (listed es)"
    by (induction es) (auto simp: listed_def change_listed_def change_rows_def)
qed

lemma listed_filter:
  assumes "distinct_keys es"
  shows "distinct_keys (filter P es)" "listed (filter P es) k = (case listed es k of Some e \<Rightarrow> if P e then Some e else None | None \<Rightarrow> None)"
proof -
  show keys: "distinct_keys (filter P es)" using assms by (simp add: distinct_keys_def distinct_map_filter)
  have "listed (filter P es) k = Some e \<longleftrightarrow> listed es k = Some e \<and> P e" for e
    by (auto simp: listed_Some keys assms)
  then have filtered: "listed (filter P es) k = Some e \<longleftrightarrow> listed es k = Some e \<and> P e" for e .
  show "listed (filter P es) k = (case listed es k of Some e \<Rightarrow> if P e then Some e else None | None \<Rightarrow> None)"
  proof (cases "listed es k")
    case None
    then have "listed (filter P es) k \<noteq> Some x" for x using filtered [of x] by simp
    then have "listed (filter P es) k = None" by (metis option.exhaust)
    with None show ?thesis by simp
  next
    case (Some e)
    show ?thesis
    proof (cases "P e")
      case True
      then show ?thesis using filtered [of e] Some by simp
    next
      case False
      then have "listed (filter P es) k \<noteq> Some x" for x using filtered [of x] Some by auto
      then have "listed (filter P es) k = None" by (metis option.exhaust)
      with False Some show ?thesis by simp
    qed
  qed
qed

lemma demo_table_laws:
  fixes fresh :: "'k list \<Rightarrow> 'k" and sat :: "'q \<Rightarrow> ('k, 'c) entity \<Rightarrow> bool"
  assumes fresh: "\<And>ks. fresh ks \<notin> set ks"
  shows "orm_table (demo_table fresh sat refuse) sat refuse listed distinct_keys"
  unfolding orm_table_def orm_reads_def orm_writes_def
proof (intro conjI allI impI)
  fix es :: "('k, 'c) entity list" and q
  assume ok: "distinct_keys es"
  show "finite (dom (listed es))" by (simp add: listed_def finite_dom_map_of)
  show "\<exists>xs. db_find (demo_table fresh sat refuse) es = (Inr xs, es) \<and> set xs = ran (listed es) \<and> distinct xs"
    using ok by (auto simp: demo_table_def ran_listed distinct_keys_def distinct_map)
  show "\<exists>r. db_findOneBy (demo_table fresh sat refuse) q es = (Inr r, es) \<and> (case r of
      Some e \<Rightarrow> e \<in> ran (listed es) \<and> sat q e | None \<Rightarrow> \<forall>e \<in> ran (listed es). \<not> sat q e)"
    by (auto simp: demo_table_def ran_listed [OF ok] find_None_iff split: option.split dest: find_SomeD)
  show "\<exists>t'. db_delete (demo_table fresh sat refuse) q es = (Inr (), t') \<and> distinct_keys t' \<and> listed t' =
      (\<lambda>k. case listed es k of Some e \<Rightarrow> if sat q e then None else Some e | None \<Rightarrow> None)"
    using listed_filter [OF ok] by (auto simp: demo_table_def split: option.split)
next
  fix es :: "('k, 'c) entity list" and k e
  assume "distinct_keys es" "listed es k = Some e"
  then show "rw_id e = k" by (simp add: listed_Some)
next
  fix es :: "('k, 'c) entity list" and c :: 'c
  assume ok: "distinct_keys es"
  let ?e = "\<lparr>rw_id = fresh (map rw_id es), rw_columns = c, rw_createdAt = 0\<rparr>"
  have new: "distinct_keys (?e # es)" "listed es (rw_id ?e) = None" "listed (?e # es) = (listed es)(rw_id ?e \<mapsto> ?e)"
    using ok fresh [of "map rw_id es"] by (auto simp: distinct_keys_def listed_def map_of_eq_None_iff)
  show "case refuse (ran (listed es)) c of
      Some msg \<Rightarrow> db_save (demo_table fresh sat refuse) None c es = (Inl (TypeOrmErr msg), es)
    | None \<Rightarrow> \<exists>e t'. db_save (demo_table fresh sat refuse) None c es = (Inr e, t') \<and> distinct_keys t' \<and> rw_columns e = c
        \<and> listed es (rw_id e) = None \<and> listed t' = (listed es)(rw_id e \<mapsto> e)"
    using new by (auto simp: demo_table_def ran_listed [OF ok] Let_def split: option.split intro!: exI [of _ ?e])
next
  fix es :: "('k, 'c) entity list" and k and c :: 'c
  assume ok: "distinct_keys es"
  let ?e = "\<lparr>rw_id = k, rw_columns = c, rw_createdAt = 0\<rparr>" and ?es = "filter (\<lambda>x. rw_id x \<noteq> k) es"
  have "distinct_keys (?e # ?es)" using listed_filter(1) [OF ok] by (auto simp: distinct_keys_def)
  moreover have "listed (?e # ?es) = (listed es)(k \<mapsto> ?e)"
  proof
    fix i
    show "listed (?e # ?es) i = ((listed es)(k \<mapsto> ?e)) i"
    proof (cases "i = k")
      case False
      have keep: "rw_id e \<noteq> k" if "listed es i = Some e" for e using that False listed_Some [OF ok] by simp
      have "listed (?e # ?es) i = listed ?es i" using False by (simp add: listed_def)
      also have "\<dots> = listed es i" using listed_filter(2) [OF ok, of "\<lambda>x. rw_id x \<noteq> k" i] keep by (auto split: option.split)
      finally show ?thesis using False by simp
    qed (simp add: listed_def)
  qed
  ultimately show "case refuse (ran (listed es)) c of
      Some msg \<Rightarrow> db_save (demo_table fresh sat refuse) (Some k) c es = (Inl (TypeOrmErr msg), es)
    | None \<Rightarrow> \<exists>e t'. db_save (demo_table fresh sat refuse) (Some k) c es = (Inr e, t') \<and> distinct_keys t' \<and> rw_id e = k
      \<and> rw_columns e = c \<and> listed t' = (listed es)(k \<mapsto> e)"
    by (auto simp: demo_table_def ran_listed [OF ok] Let_def split: option.split)
qed (auto simp: demo_table_def change_listed_rows)

definition next_key :: "nat list \<Rightarrow> nat" where
  "next_key ks = Suc (sum_list ks)"

lemma next_key_fresh: "next_key ks \<notin> set ks"
  using member_le_sum_list [of _ ks] by (fastforce simp: next_key_def)

definition next_uuid :: "string list \<Rightarrow> string" where
  "next_uuid ks = CHR ''x'' # concat ks"

lemma next_uuid_fresh: "next_uuid ks \<notin> set ks"
proof
  assume "next_uuid ks \<in> set ks"
  then have "length (next_uuid ks) \<le> sum_list (map length ks)" by (intro member_le_sum_list) auto
  then show False by (simp add: next_uuid_def length_concat)
qed

section \<open>A process with a database\<close>

definition postgres_deps :: "'s subscription_table \<Rightarrow> 'n notification_table \<Rightarrow> 'r base_deps \<Rightarrow> ('s, 'n, 'r) deps" where
  "postgres_deps S N c = base_deps.extend c \<lparr>sub_repo = postgres_subscriptions S, notif_repo = postgres_notifications N\<rparr>"

lemma postgres_deps_sel [simp]:
  "sub_repo (postgres_deps S N c) = postgres_subscriptions S" "notif_repo (postgres_deps S N c) = postgres_notifications N"
  "registry_of (postgres_deps S N c) = registry_of c" "sub_maxTries (postgres_deps S N c) = sub_maxTries c"
  "notif_maxTries (postgres_deps S N c) = notif_maxTries c" "legitimacySecret (postgres_deps S N c) = legitimacySecret c"
  by (simp_all add: postgres_deps_def base_deps.defs)

lemma postgres_webhooks:
  assumes "orm_table S by_id unrestricted srows sok" "orm_table N by_id unrestricted nrows nok"
  shows "webhooks (postgres_deps S N c) (models_of toSubscription srows) sok (models_of toNotification nrows) nok (\<lambda>n. n)"
  using postgres_subscription_repo [OF assms(1)] postgres_notification_repo [OF assms(2)]
  by (simp add: webhooks_def)

definition started_with :: "'r \<Rightarrow> int \<Rightarrow> 's \<Rightarrow> 'n \<Rightarrow> ('s, 'n, 'r) world" where
  "started_with r time st nt = \<lparr>now = time, sched = \<lparr>registry = r, timers = [], nextHandle = 0\<rparr>,
     subs = st, notifs = nt, events = \<lparr>ev_currentId = 0, ev_entries = []\<rparr>,
     txs = \<lparr>ts_currentId = 0, ts_entries = Map.empty, listening = []\<rparr>, outbox = [], inflight = []\<rparr>"

text \<open>
  C18: A process that starts with an empty database sends a handshake at most the configured number of times, and each notification too:
  this repository keeps the number of tries it is given, unlike the in-memory one.
\<close>

theorem postgres_attempts_bounded:
  assumes S: "orm_table S by_id unrestricted srows sok" and N: "orm_table N by_id unrestricted nrows nok"
    and start: "sok st" "srows st = Map.empty" "nok nt" "nrows nt = Map.empty"
    and R: "registry_ok (registry_of c)" "timeoutsR (registry_of c) r = Map.empty"
    and run: "reachable (postgres_deps S N c) (started_with r time st nt) w"
    and tries: "sub_maxTries c = Num k" "notif_maxTries c = Num l" "1 \<le> k" "1 \<le> l"
  shows "int (count_list (map fst (outbox w)) (SendHandshake i)) \<le> k \<and> int (count_list (map fst (outbox w)) (SendNotification j)) \<le> l"
proof -
  let ?D = "postgres_deps S N c" and ?w0 = "started_with r time st nt"
  note W = postgres_webhooks [OF S N, of c]
  let ?hooks = "webhooks.hooks_of (models_of toSubscription srows) (models_of toNotification nrows)"
  note sel = webhooks.hooks_of_sel [OF W] and proc = webhooks.proc_ok_def [OF W]
  have empty: "h_subs (?hooks ?w0) = Map.empty" "h_notifs (?hooks ?w0) = Map.empty" "h_sent (?hooks ?w0) = []"
    using start by (simp_all add: sel started_with_def models_of_def comp_def)
  have w0: "webhooks.proc_ok ?D sok nok ?w0" "hook_ok (?hooks ?w0)"
    using start R empty by (simp_all add: proc started_with_def events_ok_def txs_ok_def sched_ok_def pending_def hook_ok_empty sel)
  have "registry_ok (registry_of ?D)" using R by simp
  from webhooks.reachable_refines [OF W run this w0]
  have steps: "(hook_step (Num k) (Num l))\<^sup>*\<^sup>* (?hooks ?w0) (?hooks w)" by (simp add: tries)
  have "budget_ok k (view (?hooks w) (SendHandshake i))"
    by (rule budget_steps [OF steps w0(2) tries(3) budget_ok_empty [OF empty tries(3)]])
  moreover have "budget_ok l (view (?hooks w) (SendNotification j))"
    by (rule nbudget_steps [OF steps w0(2) tries(4) budget_ok_empty [OF empty tries(4)]])
  ultimately show ?thesis by (simp add: budget_ok_def view_def sel)
qed

definition demo_rows :: "(nat, 'c, nat, (nat, 'c) entity list) orm" where
  "demo_rows = demo_table next_key by_id unrestricted"

lemma demo_rows_laws: "orm_table demo_rows by_id unrestricted listed distinct_keys"
  unfolding demo_rows_def by (rule demo_table_laws [OF next_key_fresh])

theorem postgres_attempts_bounded_witness:
  "int (count_list (map fst (outbox (snd (submitAndSubscribe (postgres_deps demo_rows demo_rows demo_config) demo_tx ''https://hook'' ''legit''
       demo_tx None (started_with ([], []) 0 [] []))))) (SendHandshake 1)) \<le> 5
   \<and> int (count_list (map fst (outbox (snd (submitAndSubscribe (postgres_deps demo_rows demo_rows demo_config) demo_tx ''https://hook'' ''legit''
       demo_tx None (started_with ([], []) 0 [] []))))) (SendNotification 1)) \<le> 3"
proof -
  let ?D = "postgres_deps demo_rows demo_rows demo_config" and ?w0 = "started_with ([], []) 0 [] []"
  have secret: "''legit'' = legitimacySecret ?D" by (simp add: demo_config_def)
  have "wstep ?D ?w0 (snd (submitAndSubscribe ?D demo_tx ''https://hook'' ''legit'' demo_tx None ?w0))" unfolding secret by (rule wstep.submitted)
  then have run: "reachable ?D ?w0 (snd (submitAndSubscribe ?D demo_tx ''https://hook'' ''legit'' demo_tx None ?w0))"
    by (rule reachable.step [OF reachable.start])
  have "registry_ok (registry_of demo_config)" "timeoutsR (registry_of demo_config) ([], []) = Map.empty"
    by (simp add: demo_config_def list_registry_ok, simp add: demo_config_def list_registry_api_def)
  from postgres_attempts_bounded [OF demo_rows_laws demo_rows_laws _ _ _ _ this run, of 5 3 1 1] show ?thesis
    by (simp add: distinct_keys_def listed_def demo_config_def)
qed

section \<open>Users\<close>

definition names_in :: "(string, string, 's) rows_of \<Rightarrow> 's \<Rightarrow> string set" where
  "names_in rows t = rw_columns ` ran (rows t)"

fun named :: "user_query \<Rightarrow> (string, string) entity \<Rightarrow> bool" where
  "named (ByName n) e = (rw_columns e = n)"

text \<open>The constraints of the table (\<open>entities/user.entity.ts\<close>): a name is shorter than 127 characters and unique, and only a second one of a
  name is refused with the text for duplicates.\<close>

definition user_constraints :: "((string, string) entity set \<Rightarrow> string \<Rightarrow> string option) \<Rightarrow> bool" where
  "user_constraints refuse \<longleftrightarrow> (\<forall>es name. case refuse es name of
       None \<Rightarrow> length name < 127 \<and> name \<notin> rw_columns ` es
     | Some msg \<Rightarrow> if str_includes msg duplicate_key_text then name \<in> rw_columns ` es else 127 \<le> length name)"

lemma findByName_only:
  assumes "orm_table tbl named refuse rows ok" "ok t" "e \<in> ran (rows t)" "\<And>e'. e' \<in> ran (rows t) \<Longrightarrow> rw_columns e' = rw_columns e \<Longrightarrow> e' = e"
  shows "pg_findByName tbl (rw_columns e) t = (Inr (toUser e), t)"
proof -
  from orm_tableD(4) [OF assms(1,2), of "ByName (rw_columns e)"] obtain r where r: "db_findOneBy tbl (ByName (rw_columns e)) t = (Inr r, t)"
    "case r of Some e' \<Rightarrow> e' \<in> ran (rows t) \<and> rw_columns e' = rw_columns e | None \<Rightarrow> \<forall>e' \<in> ran (rows t). rw_columns e' \<noteq> rw_columns e"
    unfolding named.simps by blast
  then have "r = Some e" using assms(3,4) by (cases r) auto
  with r(1) show ?thesis by (simp add: pg_findByName_def found_def andThen_def eff_simps)
qed

text \<open>
  C19: Creating a user in the database. A new name shorter than 127 characters gives a user who is then found; a name that is taken is a conflict;
  a name of 127 characters or more, one of which the request accepts, ends in an error of the database that is passed on as it is. A failure
  changes nothing.
\<close>

theorem postgres_createUser:
  assumes T: "orm_table tbl named refuse rows ok" "user_constraints refuse" and t: "ok t"
  shows "case pg_createUser tbl name t of
      (Inr u, t') \<Rightarrow> length name < 127 \<and> name \<notin> names_in rows t \<and> us_name u = name \<and> ok t'
        \<and> names_in rows t' = insert name (names_in rows t) \<and> pg_findByName tbl name t' = (Inr u, t')
    | (Inl (AppErr e), t') \<Rightarrow> name \<in> names_in rows t \<and> e = appConflictError name ''User'' \<and> t' = t
    | (Inl (TypeOrmErr msg), t') \<Rightarrow> 127 \<le> length name \<and> t' = t
    | _ \<Rightarrow> False"
proof -
  have law: "case refuse (ran (rows t)) name of
       None \<Rightarrow> length name < 127 \<and> name \<notin> names_in rows t
     | Some msg \<Rightarrow> if str_includes msg duplicate_key_text then name \<in> names_in rows t else 127 \<le> length name"
    using T(2) unfolding user_constraints_def names_in_def by blast
  show ?thesis
  proof (cases "refuse (ran (rows t)) name")
    case (Some msg)
    have "if str_includes msg duplicate_key_text then name \<in> names_in rows t else 127 \<le> length name"
      using law Some by simp
    with orm_tableD(5) [OF T(1) t Some] show ?thesis
      by (auto simp: pg_createUser_def converting_def tryCatch_def andThen_def eff_simps UsersRepo_type_def)
  next
    case None
    have new: "length name < 127" "name \<notin> names_in rows t"
      using law None by simp_all
    from orm_tableD(6) [OF T(1) t None] obtain e t' where e: "db_save tbl None name t = (Inr e, t')" "ok t'" "rw_columns e = name"
      "rows t (rw_id e) = None" "rows t' = (rows t)(rw_id e \<mapsto> e)" by blast
    have rows': "ran (rows t') = insert e (ran (rows t))" using e(4,5) by (simp add: ran_map_upd)
    have "e' = e" if "e' \<in> ran (rows t')" "rw_columns e' = rw_columns e" for e'
      using that rows' new(2) e(3) by (auto simp: names_in_def)
    then have "pg_findByName tbl name t' = (Inr (toUser e), t')"
      using findByName_only [OF T(1) e(2), of e] rows' e(3) by simp
    then show ?thesis using new e(2,3) rows'
      by (simp add: pg_createUser_def andThen_def saved [OF e(1)] eff_simps toUser_def names_in_def)
  qed
qed

definition demo_refuse :: "(string, string) entity set \<Rightarrow> string \<Rightarrow> string option" where
  "demo_refuse es name = (if 127 \<le> length name then Some ''new row violates check constraint''
     else if name \<in> rw_columns ` es then Some duplicate_key_text else None)"

definition demo_users :: "(string, string, user_query, (string, string) entity list) orm" where
  "demo_users = demo_table next_uuid named demo_refuse"

lemma demo_users_laws: "orm_table demo_users named demo_refuse listed distinct_keys"
  unfolding demo_users_def by (rule demo_table_laws [OF next_uuid_fresh])

lemma demo_constraints: "user_constraints demo_refuse"
  by (auto simp: user_constraints_def demo_refuse_def duplicate_key_text_def split: option.split)

theorem postgres_createUser_witness:
  "pg_findByName demo_users ''Alice'' (snd (pg_createUser demo_users ''Alice'' [])) = (fst (pg_createUser demo_users ''Alice'' []),
     snd (pg_createUser demo_users ''Alice'' []))
   \<and> ''Alice'' \<in> names_in listed [\<lparr>rw_id = ''x'', rw_columns = ''Alice'', rw_createdAt = 0\<rparr>]"
proof
  have none: "db_save demo_users None ''Alice'' [] = (Inr \<lparr>rw_id = ''x'', rw_columns = ''Alice'', rw_createdAt = 0\<rparr>,
      [\<lparr>rw_id = ''x'', rw_columns = ''Alice'', rw_createdAt = 0\<rparr>])"
    by (simp add: demo_users_def demo_table_def demo_refuse_def next_uuid_def Let_def)
  have one: "db_save demo_users None ''Alice'' [\<lparr>rw_id = ''x'', rw_columns = ''Alice'', rw_createdAt = 0\<rparr>] = (Inl (TypeOrmErr duplicate_key_text),
      [\<lparr>rw_id = ''x'', rw_columns = ''Alice'', rw_createdAt = 0\<rparr>])"
    by (simp add: demo_users_def demo_table_def demo_refuse_def)
  show "pg_findByName demo_users ''Alice'' (snd (pg_createUser demo_users ''Alice'' [])) = (fst (pg_createUser demo_users ''Alice'' []),
     snd (pg_createUser demo_users ''Alice'' []))"
    using postgres_createUser [OF demo_users_laws demo_constraints, of "[]" "''Alice''"]
    by (simp add: distinct_keys_def pg_createUser_def andThen_def saved [OF none] eff_simps)
  show "''Alice'' \<in> names_in listed [\<lparr>rw_id = ''x'', rw_columns = ''Alice'', rw_createdAt = 0\<rparr>]"
    using postgres_createUser [OF demo_users_laws demo_constraints, of "[\<lparr>rw_id = ''x'', rw_columns = ''Alice'', rw_createdAt = 0\<rparr>]" "''Alice''"]
    by (simp add: distinct_keys_def pg_createUser_def andThen_def converting_def tryCatch_def one eff_simps duplicate_key_text_def)
qed

section \<open>Offline transactions\<close>

text \<open>
  The columns of a record: its key is a UUID and its nonce an \<open>integer\<close>, which has 32 bits. Everything else is text that is given, or empty.
\<close>

definition fits_integer :: "js_number \<Rightarrow> bool" where
  "fits_integer n = (case n of NaN \<Rightarrow> False | Num i \<Rightarrow> - 2147483648 \<le> i \<and> i \<le> 2147483647)"

text \<open>
  C20: With the database, a submission with a new identifier begins with its record. When the identifier and the nonce of the payload fit their columns, the
  record is found under the identifier, with the payload, signature, address and nonce of the request and nothing of a block yet, no other record changes, and the
  payload goes to the chain with the signature. When they do not fit, the submission fails with everything as it was: nothing is sent to the chain.
\<close>

theorem postgres_offline_record:
  assumes T: "orm_table tbl by_id refuse rows ok" and t: "ok (of_txs s)" and D: "od_txs D = postgres_offline_txs tbl"
    and new: "rows (of_txs s) (og_id body) = None"
    and columns: "\<forall>es tx. refuse es tx = None \<longleftrightarrow> uuid (ot_id tx) \<and> fits_integer (ot_nonce tx)"
  shows "if uuid (og_id body) \<and> fits_integer (parseInt16 (sp_nonce (tp_payload (og_payload body))))
    then \<exists>s' tx. submit_begin D body s = (Inr (), s') \<and> ok (of_txs s')
       \<and> pg_offline_findById tbl (og_id body) (of_txs s') = (Inr (Some tx), of_txs s')
       \<and> tx = \<lparr>ot_id = og_id body, ot_payload = og_payload body, ot_signature = og_signature body, ot_status = Signed,
            ot_address = sp_address (tp_payload (og_payload body)), ot_nonce = parseInt16 (sp_nonce (tp_payload (og_payload body))),
            ot_blockHash = None, ot_txIndex = None, ot_txHash = None\<rparr>
       \<and> of_submitted s' = of_submitted s @ [(og_payload body, og_signature body)]
       \<and> (\<forall>i. i \<noteq> og_id body \<longrightarrow> rows (of_txs s') i = rows (of_txs s) i)
    else \<exists>e. submit_begin D body s = (Inl e, s)"
proof -
  let ?p = "og_payload body"
  let ?tx = "\<lparr>ot_id = og_id body, ot_payload = ?p, ot_signature = og_signature body, ot_status = Signed,
     ot_address = sp_address (tp_payload ?p), ot_nonce = parseInt16 (sp_nonce (tp_payload ?p)), ot_blockHash = None, ot_txIndex = None, ot_txHash = None\<rparr>"
  have fits: "refuse (ran (rows (of_txs s))) ?tx = None \<longleftrightarrow> uuid (og_id body) \<and> fits_integer (parseInt16 (sp_nonce (tp_payload ?p)))"
    using columns by simp
  note save = orm_tableD(7) [OF T t new, of ?tx]
  show ?thesis
  proof (cases "refuse (ran (rows (of_txs s))) ?tx")
    case None
    with save obtain e t' where e: "db_save tbl (Some (og_id body)) ?tx (of_txs s) = (Inr e, t')" "ok t'"
      "rw_id e = og_id body" "rw_columns e = ?tx" "rows t' = (rows (of_txs s))(og_id body \<mapsto> e)" by auto
    have create: "ox_createTx (od_txs D) ?tx (of_txs s) = (Inr ?tx, t')"
      by (simp add: D postgres_offline_txs_def pg_createTx_def pg_save_tx_def andThen_def saved [OF e(1)] eff_simps toModel_def e(3,4))
    have find: "pg_offline_findById tbl (og_id body) t' = (Inr (Some ?tx), t')"
      using findOneBy_id [OF T e(2)] by (simp add: pg_offline_findById_def andThen_def eff_simps e(3-5) toModel_def)
    have "\<exists>s' tx. submit_begin D body s = (Inr (), s') \<and> ok (of_txs s') \<and> pg_offline_findById tbl (og_id body) (of_txs s') = (Inr (Some tx), of_txs s')
       \<and> tx = ?tx \<and> of_submitted s' = of_submitted s @ [(?p, og_signature body)] \<and> (\<forall>i. i \<noteq> og_id body \<longrightarrow> rows (of_txs s') i = rows (of_txs s) i)"
      by (rule exI [of _ "s\<lparr>of_txs := t', of_submitted := of_submitted s @ [(?p, og_signature body)],
            of_waiting := of_waiting s @ [AwaitChain body (parseInt16 (sp_nonce (tp_payload ?p))) ?tx]\<rparr>"], rule exI [of _ ?tx])
        (use e(2,5) create find in \<open>simp add: submit_begin_def andThen_def zoom_def eff_simps Let_def\<close>)
    with None fits show ?thesis by simp
  next
    case (Some msg)
    with save have "db_save tbl (Some (og_id body)) ?tx (of_txs s) = (Inl (TypeOrmErr msg), of_txs s)" by simp
    then have "\<exists>e. ox_createTx (od_txs D) ?tx (of_txs s) = (Inl e, of_txs s)"
      by (simp add: D postgres_offline_txs_def pg_createTx_def pg_save_tx_def andThen_def converting_def tryCatch_def eff_simps)
    then have "\<exists>e. submit_begin D body s = (Inl e, s)" by (auto simp: submit_begin_def andThen_def zoom_def Let_def)
    moreover have "\<not> (uuid (og_id body) \<and> fits_integer (parseInt16 (sp_nonce (tp_payload ?p))))" using Some fits by simp
    ultimately show ?thesis by (simp only: if_False)
  qed
qed

definition demo_columns :: "(string, offline_tx) entity set \<Rightarrow> offline_tx \<Rightarrow> string option" where
  "demo_columns es tx = (if length (ot_id tx) = 3 \<and> fits_integer (ot_nonce tx) then None else Some ''invalid input syntax'')"

definition demo_offline_rows :: "(string, offline_tx, string, (string, offline_tx) entity list) orm" where
  "demo_offline_rows = demo_table next_uuid by_id demo_columns"

lemma demo_offline_rows_laws: "orm_table demo_offline_rows by_id demo_columns listed distinct_keys"
  unfolding demo_offline_rows_def by (rule demo_table_laws [OF next_uuid_fresh])

definition demo_offline_deps :: "((string, offline_tx) entity list, unit) offline_deps" where
  "demo_offline_deps = \<lparr>od_validate = (\<lambda>_ _. None), od_txs = postgres_offline_txs demo_offline_rows,
     od_events = \<lparr>oe_recordEvent = (\<lambda>m. throw NotAnError)\<rparr>, od_manager = demo_signer\<rparr>"

text \<open>A nonce that is no number is refused before anything is sent.\<close>

theorem postgres_offline_record_witness:
  "(\<exists>s' tx. submit_begin demo_offline_deps \<lparr>og_id = ''id1'', og_signature = ''0xaa'', og_payload = demo_payload\<rparr> (offline_start [] ()) = (Inr (), s')
      \<and> pg_offline_findById demo_offline_rows ''id1'' (of_txs s') = (Inr (Some tx), of_txs s') \<and> ot_signature tx = ''0xaa'')
   \<and> (\<exists>e. submit_begin demo_offline_deps \<lparr>og_id = ''id1'', og_signature = ''0xaa'', og_payload = demo_payload\<lparr>tp_payload := (tp_payload demo_payload)\<lparr>sp_nonce := ''x''\<rparr>\<rparr>\<rparr>
        (offline_start [] ()) = (Inl e, offline_start [] ()))"
proof -
  have s: "distinct_keys (of_txs (offline_start [] ()))" "od_txs demo_offline_deps = postgres_offline_txs demo_offline_rows"
    "listed (of_txs (offline_start [] ())) k = None" for k
    by (simp_all add: distinct_keys_def offline_start_def demo_offline_deps_def listed_def)
  have c: "\<forall>es tx. demo_columns es tx = None \<longleftrightarrow> length (ot_id tx) = 3 \<and> fits_integer (ot_nonce tx)" by (simp add: demo_columns_def)
  note submitted = postgres_offline_record [OF demo_offline_rows_laws s(1,2,3) c]
  have "fits_integer (parseInt16 (sp_nonce (tp_payload demo_payload)))" "parseInt16 ''x'' = NaN" by code_simp+
  with submitted [of "\<lparr>og_id = ''id1'', og_signature = ''0xaa'', og_payload = demo_payload\<rparr>"]
    submitted [of "\<lparr>og_id = ''id1'', og_signature = ''0xaa'', og_payload = demo_payload\<lparr>tp_payload := (tp_payload demo_payload)\<lparr>sp_nonce := ''x''\<rparr>\<rparr>\<rparr>"]
  show ?thesis by (auto simp: fits_integer_def)
qed

end
