(* ===== verification/Js_Double.thy ===== *)
theory Js_Double
  imports Js_Numeric
begin

text \<open>
  The rounding of the language's numbers, which are binary floating-point values of 53 bits: \<open>to_double r\<close> is the number
  nearest to a rational, ties to the even one. Used where the source does arithmetic on an amount. The
  sign of a zero is not kept.
\<close>

fun bits :: "nat \<Rightarrow> nat" where
  "bits n = (if n = 0 then 0 else Suc (bits (n div 2)))"

declare bits.simps [simp del]

definition pow2 :: "int \<Rightarrow> rat" where
  "pow2 e = (if 0 \<le> e then 2 ^ nat e else 1 / 2 ^ nat (- e))"

definition round_half_even :: "rat \<Rightarrow> int" where
  "round_half_even x = (let f = \<lfloor>x\<rfloor>; d = x - of_int f
     in if d < 1 / 2 then f else if d > 1 / 2 then f + 1 else if even f then f else f + 1)"

text \<open>The weight of the last bit: the quotient then has 53 bits before the point, or fewer for the smallest numbers.\<close>

definition last_bit :: "rat \<Rightarrow> int" where
  "last_bit r = (case quotient_of r of (p, q) \<Rightarrow>
     (let e = int (bits (nat p)) - int (bits (nat q)) - 53
      in max (if r / pow2 e < 2 ^ 53 then e else e + 1) (- 1074)))"

definition to_double :: "rat \<Rightarrow> js_real" where
  "to_double r = (if r = 0 then JRat 0
     else (let e = last_bit \<bar>r\<bar>; v = of_int (round_half_even (\<bar>r\<bar> / pow2 e)) * pow2 e
           in if 2 ^ 1024 \<le> v then JInf (0 < r) else JRat (sgn r * v)))"

text \<open>The product of two numbers.\<close>

fun js_times :: "js_real \<Rightarrow> js_real \<Rightarrow> js_real" where
  "js_times (JRat a) (JRat b) = to_double (a * b)"
| "js_times JNaN _ = JNaN"
| "js_times _ JNaN = JNaN"
| "js_times (JInf a) (JInf b) = JInf (a = b)"
| "js_times (JInf a) (JRat b) = (if b = 0 then JNaN else JInf (a = (0 < b)))"
| "js_times (JRat a) (JInf b) = (if a = 0 then JNaN else JInf (b = (0 < a)))"

section \<open>Whole numbers are exact up to \<open>2 ^ 53\<close>\<close>

lemma bits_le: "n < 2 ^ k \<Longrightarrow> bits n \<le> k"
proof (induction n arbitrary: k rule: bits.induct)
  case (1 n)
  show ?case
  proof (cases "n = 0")
    case True
    then show ?thesis by (simp add: bits.simps)
  next
    case False
    with 1 obtain j where k: "k = Suc j" by (cases k) auto
    with 1(2) have "n div 2 < 2 ^ j" by auto
    with 1 False k show ?thesis by (simp add: bits.simps [of n])
  qed
qed

lemma bits_1: "bits (Suc 0) = Suc 0"
  by (simp add: bits.simps)

lemma pow2_nonpos: "e \<le> 0 \<Longrightarrow> of_int n / pow2 e = of_int (n * 2 ^ nat (- e))"
  by (auto simp: pow2_def)

lemma round_half_even_of_int [simp]: "round_half_even (of_int n) = n"
  by (simp add: round_half_even_def Let_def)

lemma pow2_pos: "0 < pow2 e"
  by (simp add: pow2_def)

lemma last_bit_le:
  assumes "0 < n" "n \<le> 2 ^ 53"
  shows "last_bit (of_int n) \<le> (if n = 2 ^ 53 then 1 else 0)"
proof -
  have quo: "quotient_of (of_int n) = (n, 1)" by (simp add: of_int_rat quotient_of_Fract normalize_def)
  show ?thesis
  proof (cases "n = 2 ^ 53")
    case True
    have "bits (2 ^ 53) \<le> 54" by (rule bits_le) simp
    with True quo show ?thesis by (simp add: last_bit_def Let_def bits_1)
  next
    case False
    with assms have "nat n < 2 ^ 53" by (simp add: nat_less_iff)
    then have "bits (nat n) \<le> 53" by (rule bits_le)
    with False quo show ?thesis by (simp add: last_bit_def Let_def bits_1)
  qed
qed

text \<open>\<open>2 ^ 53\<close> itself is even, so its quotient by 2 is whole too.\<close>

lemma rounded_whole:
  assumes "0 < n" "n \<le> 2 ^ 53"
  shows "of_int (round_half_even (of_int n / pow2 (last_bit (of_int n)))) * pow2 (last_bit (of_int n)) = (of_int n :: rat)"
proof -
  let ?e = "last_bit (of_int n)"
  have "\<exists>m. of_int n / pow2 ?e = of_int m"
  proof (cases "?e \<le> 0")
    case True
    then show ?thesis using pow2_nonpos by blast
  next
    case False
    with last_bit_le [OF assms] have "?e = 1" "n = 2 ^ 53" by (auto split: if_splits)
    then show ?thesis by (intro exI [of _ "2 ^ 52"]) (simp add: pow2_def)
  qed
  then obtain m where m: "of_int n / pow2 ?e = of_int m" ..
  with pow2_pos [of ?e] have "of_int n = of_int m * pow2 ?e" by (simp add: field_simps)
  with m show ?thesis by simp
qed

theorem to_double_whole:
  assumes "\<bar>n\<bar> \<le> 2 ^ 53"
  shows "to_double (of_int n) = JRat (of_int n)"
proof (cases "n = 0")
  case False
  have abs: "\<bar>of_int n :: rat\<bar> = of_int \<bar>n\<bar>" by simp
  have r: "of_int (round_half_even (\<bar>of_int n\<bar> / pow2 (last_bit \<bar>of_int n\<bar>))) * pow2 (last_bit \<bar>of_int n\<bar>) = (\<bar>of_int n\<bar> :: rat)"
    unfolding abs by (rule rounded_whole) (use assms False in auto)
  have "(of_int \<bar>n\<bar> :: rat) \<le> of_int (2 ^ 53)" using assms by (simp only: of_int_le_iff)
  also have "(of_int (2 ^ 53) :: rat) < 2 ^ 1024" by simp
  finally have "\<bar>of_int n :: rat\<bar> < 2 ^ 1024" by simp
  with r False show ?thesis by (simp add: to_double_def Let_def sgn_mult_abs not_le)
qed (simp add: to_double_def)

lemma js_times_whole: "\<bar>a * b\<bar> \<le> 2 ^ 53 \<Longrightarrow> js_times (JRat (of_int a)) (JRat (of_int b)) = JRat (of_int (a * b))"
  using to_double_whole [of "a * b"] by simp

text \<open>A product of decimals need not be whole when the decimals say so.\<close>

lemma quotient_of_fraction: "0 < q \<Longrightarrow> quotient_of (of_int p / of_int q) = (p div gcd p q, q div gcd p q)"
  by (simp add: Fract_of_int_quotient [symmetric] quotient_of_Fract normalize_def Let_def)

lemma last_bit_fraction:
  assumes "0 < q" "gcd p q = 1" "r = of_int p / of_int q"
  shows "last_bit r = (let e = int (bits (nat p)) - int (bits (nat q)) - 53
      in max (if r / pow2 e < 2 ^ 53 then e else e + 1) (- 1074))"
  using assms quotient_of_fraction [of q p] by (simp add: last_bit_def)

lemma floor_quotient: "\<lfloor>numeral a / numeral b :: rat\<rfloor> = numeral a div numeral b"
  using floor_divide_of_int_eq [of "numeral a" "numeral b", where 'a = rat] by simp

lemma to_double_1001: "to_double (1001 / 1000) = JRat (2254051613498933 / 2251799813685248)"
proof -
  have "gcd (1001 :: int) 1000 = 1" by code_simp
  then have "last_bit (1001 / 1000) = - 52"
    by (subst last_bit_fraction [of 1000 1001]) (simp_all add: bits.simps pow2_def)
  then show ?thesis by (simp add: to_double_def pow2_def round_half_even_def Let_def floor_quotient)
qed

lemma last_bit_product: "last_bit (35219556460920828125 / 35184372088832) = - 33"
proof -
  have g: "gcd (35219556460920828125 :: int) 35184372088832 = 1" by code_simp
  have b: "bits 35219556460920828125 = 65" "bits 35184372088832 = 46" by (simp_all add: bits.simps)
  show ?thesis using last_bit_fraction [OF _ g refl] by (simp only: Let_def nat_numeral b pow2_def of_int_numeral) simp
qed

lemma inexact_product: "js_times (to_double (1001 / 1000)) (JRat 1000000) = JRat (8598524526591999 / 8589934592)"
proof -
  have "to_double (35219556460920828125 / 35184372088832) = JRat (8598524526591999 / 8589934592)"
    by (simp add: to_double_def Let_def last_bit_product pow2_def round_half_even_def floor_quotient)
  then show ?thesis by (simp add: to_double_1001)
qed

end
