(* ===== verification/Developer_Testing.thy ===== *)
theory Developer_Testing
  imports Controllers Js_Double Response_Models
begin

text \<open>
  The developer tools: \<open>developer-testing/\<close> and the transactions of \<open>polymesh/polymesh.service.ts\<close> that bypass the SDK.

  The chain is reached through polkadot.js, a package: \<open>dd_send\<close> is what signing and sending an extrinsic does, \<open>dd_create\<close>
  what making the call does, \<open>dd_api\<close> the SDK on the present state \<open>'c\<close> of the chain, \<open>dd_addFromUri\<close> the keyring for a network's prefix.
  A promise that nobody settles stops the computation that awaits it: \<open>Never\<close>, which no handler sees.

  The lemmas give the transactions each tool sends, and the coverage report as a function of the requests seen.
\<close>

section \<open>Transactions beside the SDK\<close>

datatype halt = Raised exn | Never

definition raising :: "(exn, 's, 'a) eff \<Rightarrow> (halt, 's, 'a) eff" where
  "raising m = (\<lambda>s. case m s of (Inl e, s') \<Rightarrow> (Inl (Raised e), s') | (Inr a, s') \<Rightarrow> (Inr a, s'))"

datatype chain_call =
    CddRegisterDid string
  | AddCustomerDueDiligence string
  | Transfer string js_real
  | AddMember string

datatype extrinsic = Batch "chain_call list" | BatchAll "chain_call list" | Sudo extrinsic

text \<open>\<open>tx.method\<close>\<close>

fun tx_method :: "extrinsic \<Rightarrow> string" where
  "tx_method (Batch _) = ''batch''"
| "tx_method (BatchAll _) = ''batchAll''"
| "tx_method (Sudo _) = ''sudo''"

record receipt =
  rc_isInBlock :: bool
  rc_failedRecord :: bool
  rc_isError :: bool

text \<open>
  What sending does: making the extrinsic throws, the returned promise rejects, or it answers a way to unsubscribe and the callback
  is called with the receipts.
\<close>

datatype sent = NotMade exn | Refused exn | Watched "receipt list"

datatype 'p address_or_pair = AtAddress account_ref | Pair 'p

definition handlePolkadotErrors :: "receipt \<Rightarrow> string \<Rightarrow> app_error option" where
  "handlePolkadotErrors receipt txName =
     (if rc_failedRecord receipt \<or> rc_isError receipt
      then Some (if txName = ''mockCddRegisterDid''
          then appValidationError ''Unable to create mock Identity. Perhaps the address is already linked to an Identity or mock CDD claims are unable to be made on the chain''
        else if txName = ''sudo'' then appInternalError ''Unable to execute a sudo transaction. Perhaps the signer lacks permission''
        else appInternalError ''Unable to process the request'')
      else None)"

text \<open>The first receipt in a block settles the promise; what later receipts do to it has no effect.\<close>

fun settled_by :: "string \<Rightarrow> receipt list \<Rightarrow> unit result option" where
  "settled_by txName [] = None"
| "settled_by txName (r # rs) = (if rc_isInBlock r
     then Some (case handlePolkadotErrors r txName of Some e \<Rightarrow> Inl (AppErr e) | None \<Rightarrow> Inr ())
     else settled_by txName rs)"

record path_coverage =
  pc_path :: string
  pc_matcher :: "string \<Rightarrow> bool"
  pc_covered :: bool

record ('p, 'c) dev_state =
  dv_sudoPair :: "'p option"
  dv_routeRecords :: "path_coverage list option"
  dv_book :: address_book
  dv_chain :: 'c
  dv_sent :: "('p address_or_pair \<times> extrinsic) list"
  dv_watching :: nat

record ('p, 'c) dev_deps =
  dd_signing :: signing_service
  dd_manager :: manager
  dd_getOrThrow :: "string \<Rightarrow> string result"
  dd_ss58Format :: big_number
  dd_addFromUri :: "js_real \<Rightarrow> string \<Rightarrow> 'p result"
  dd_create :: "chain_call \<Rightarrow> exn option"
  dd_send :: "'p address_or_pair \<Rightarrow> extrinsic \<Rightarrow> 'c \<Rightarrow> sent \<times> 'c"
  dd_api :: "'c \<Rightarrow> identity_api"
  dd_numbers :: bignumber
  dd_pathToRegexp :: "string \<Rightarrow> (string \<Rightarrow> bool) result"
  dd_pathname :: "string \<Rightarrow> string result"

text \<open>\<open>dv_watching\<close> counts the subscriptions to extrinsics that are not ended.\<close>

definition execTransaction ::
    "('p, 'c) dev_deps \<Rightarrow> 'p address_or_pair \<Rightarrow> extrinsic \<Rightarrow> (halt, ('p, 'c) dev_state, unit) eff" where
  "execTransaction D signer tx = (\<lambda>s. case dd_send D signer tx (dv_chain s) of (outcome, chain) \<Rightarrow>
     (let s' = s\<lparr>dv_chain := chain, dv_sent := dv_sent s @ [(signer, tx)]\<rparr>
      in case outcome of
          NotMade e \<Rightarrow> (Inl (Raised e), s)
        | Refused e \<Rightarrow> (Inl Never, s')
        | Watched receipts \<Rightarrow> (case settled_by (tx_method tx) receipts of
              None \<Rightarrow> (Inl Never, s'\<lparr>dv_watching := Suc (dv_watching s')\<rparr>)
            | Some (Inl e) \<Rightarrow> (Inl (Raised e), s'\<lparr>dv_watching := Suc (dv_watching s')\<rparr>)
            | Some (Inr _) \<Rightarrow> (Inr (), s'))))"

section \<open>Test accounts\<close>

record test_account =
  ta_address :: string
  ta_initialPolyx :: big_number

fun bn_toNumber :: "big_number \<Rightarrow> js_real" where
  "bn_toNumber (BN r) = to_double r"
| "bn_toNumber (BNInf b) = JInf b"
| "bn_toNumber BNNaN = JNaN"

definition unitsPerPolyx :: rat where
  "unitsPerPolyx = 1000000"

definition make_calls :: "('p, 'c) dev_deps \<Rightarrow> chain_call list \<Rightarrow> chain_call list result" where
  "make_calls D calls = sequence (map (\<lambda>c. case dd_create D c of Some e \<Rightarrow> Inl e | None \<Rightarrow> Inr c) calls)"

text \<open>The getter: the pair is made once.\<close>

definition sudoPair :: "('p, 'c) dev_deps \<Rightarrow> (exn, ('p, 'c) dev_state, 'p) eff" where
  "sudoPair D = (\<lambda>s. case dv_sudoPair s of
      Some p \<Rightarrow> (Inr p, s)
    | None \<Rightarrow> (case dd_getOrThrow D ''DEVELOPER_SUDO_MNEMONIC'' of
          Inl e \<Rightarrow> (Inl e, s)
        | Inr sudoMnemonic \<Rightarrow> (case dd_addFromUri D (bn_toNumber (dd_ss58Format D)) sudoMnemonic of
              Inl e \<Rightarrow> (Inl e, s)
            | Inr p \<Rightarrow> (Inr p, s\<lparr>dv_sudoPair := Some p\<rparr>))))"

definition fetchAccountForAccountParams ::
    "('p, 'c) dev_deps \<Rightarrow> test_account list \<Rightarrow> (exn, ('p, 'c) dev_state, account list) eff" where
  "fetchAccountForAccountParams D accounts =
     (\<lambda>s. (sequence (map (\<lambda>a. rethrow_sdk (ia_getAccount (dd_api D (dv_chain s)) (ta_address a))) accounts), s))"

definition fetchAccountsIdentities :: "account list \<Rightarrow> identity list result" where
  "fetchAccountsIdentities accounts =
     bindr (sequence (map ac_getIdentity accounts)) (\<lambda>potentialIdentities.
       (let identities = map the (filter (\<lambda>i. i \<noteq> None) potentialIdentities)
        in if length identities \<noteq> length potentialIdentities
           then Inl (AppErr (appInternalError ''At least one identity was not found which should have been made''))
           else Inr identities))"

definition initial_transfer :: "test_account \<Rightarrow> chain_call" where
  "initial_transfer a = Transfer (ta_address a) (js_times (bn_toNumber (ta_initialPolyx a)) (JRat unitsPerPolyx))"

definition createTestAccounts ::
    "('p, 'c) dev_deps \<Rightarrow> test_account list \<Rightarrow> string option \<Rightarrow> (halt, ('p, 'c) dev_state, identity list) eff" where
  "createTestAccounts D accounts signer =
     andThen (if present signer
        then andThen (raising (zoom dv_book (\<lambda>b s. s\<lparr>dv_book := b\<rparr>) (getAddressByHandle (dd_signing D) (dd_manager D) (the signer))))
               (\<lambda>address. ret (AtAddress address))
        else andThen (raising (sudoPair D)) (\<lambda>p. ret (Pair p))) (\<lambda>signerAddress.
     andThen (raising (lift_result (make_calls D (map (\<lambda>a. CddRegisterDid (ta_address a)) accounts)))) (\<lambda>createDidCalls.
     andThen (execTransaction D signerAddress (Batch createDidCalls)) (\<lambda>_.
     andThen (raising (fetchAccountForAccountParams D accounts)) (\<lambda>madeAccounts.
     andThen (raising (lift_result (fetchAccountsIdentities madeAccounts))) (\<lambda>identities.
     andThen (raising (lift_result (make_calls D (map (\<lambda>i. AddCustomerDueDiligence (ie_did i)) identities)))) (\<lambda>createCddCalls.
     andThen (raising (lift_result (make_calls D
        (map initial_transfer (filter (\<lambda>a. bn_gt (ta_initialPolyx a) (BN 0)) accounts))))) (\<lambda>initialPolyxCalls.
     andThen (execTransaction D signerAddress (BatchAll (createCddCalls @ initialPolyxCalls))) (\<lambda>_.
     ret identities))))))))"

definition createCddProvidersBatch :: "('p, 'c) dev_deps \<Rightarrow> identity list \<Rightarrow> (halt, ('p, 'c) dev_state, unit) eff" where
  "createCddProvidersBatch D identities =
     andThen (raising (sudoPair D)) (\<lambda>p.
     andThen (raising (lift_result (make_calls D (map (\<lambda>i. AddMember (ie_did i)) identities)))) (\<lambda>cddCalls.
     execTransaction D (Pair p) (Sudo (BatchAll cddCalls))))"

definition createTestAdmins ::
    "('p, 'c) dev_deps \<Rightarrow> test_account list \<Rightarrow> (halt, ('p, 'c) dev_state, identity list) eff" where
  "createTestAdmins D accounts =
     andThen (createTestAccounts D accounts None) (\<lambda>identities.
     andThen (createCddProvidersBatch D identities) (\<lambda>_. ret identities))"

section \<open>Coverage of the routes\<close>

text \<open>\<open>path.replace(/\{(.*?)\}/g, ':$1')\<close>: what stands before the first closing brace, when no line ends in it.\<close>

fun up_to_brace :: "string \<Rightarrow> (string \<times> string) option" where
  "up_to_brace [] = None"
| "up_to_brace (c # cs) = (if c = CHR ''}'' then Some ([], cs)
     else if c = CHR 0x0A \<or> c = CHR 0x0D then None
     else (case up_to_brace cs of None \<Rightarrow> None | Some (name, rest) \<Rightarrow> Some (c # name, rest)))"

lemma up_to_brace_shorter: "up_to_brace cs = Some (name, rest) \<Longrightarrow> length rest < length cs"
  by (induction cs arbitrary: name) (fastforce split: if_splits option.splits)+

function swagger_to_pattern :: "string \<Rightarrow> string" where
  "swagger_to_pattern [] = []"
| "swagger_to_pattern (c # cs) = (if c = CHR ''{''
     then (case up_to_brace cs of
         Some (name, rest) \<Rightarrow> CHR '':'' # name @ swagger_to_pattern rest
       | None \<Rightarrow> c # swagger_to_pattern cs)
     else c # swagger_to_pattern cs)"
  by pat_completeness auto
termination swagger_to_pattern
  by (relation "measure length") (auto dest: up_to_brace_shorter)

text \<open>\<open>paths\<close> are the keys of the document's paths, in order.\<close>

definition loadSwagger :: "('p, 'c) dev_deps \<Rightarrow> string list \<Rightarrow> (exn, ('p, 'c) dev_state, unit) eff" where
  "loadSwagger D paths = andThen (lift_result (sequence (map (\<lambda>path. bindr (dd_pathToRegexp D (swagger_to_pattern path))
       (\<lambda>matcher. Inr \<lparr>pc_path = path, pc_matcher = matcher, pc_covered = False\<rparr>)) paths)))
     (\<lambda>records. modifies (\<lambda>s. s\<lparr>dv_routeRecords := Some records\<rparr>))"

definition record_path :: "string \<Rightarrow> path_coverage \<Rightarrow> path_coverage" where
  "record_path pathname endpoint = (if pc_matcher endpoint pathname then endpoint\<lparr>pc_covered := True\<rparr> else endpoint)"

definition recordRoute :: "('p, 'c) dev_deps \<Rightarrow> string \<Rightarrow> (exn, ('p, 'c) dev_state, unit) eff" where
  "recordRoute D url = andThen (lift_result (dd_pathname D url)) (\<lambda>pathname s. case dv_routeRecords s of
      None \<Rightarrow> (Inl js_type_error, s)
    | Some records \<Rightarrow> (Inr (), s\<lparr>dv_routeRecords := Some (map (record_path pathname) records)\<rparr>))"

text \<open>The quotient of two counts.\<close>

definition js_quotient :: "nat \<Rightarrow> nat \<Rightarrow> js_real" where
  "js_quotient a b = (if b = 0 then (if a = 0 then JNaN else JInf True) else to_double (of_nat a / of_nat b))"

definition reportCoverage :: "('p, 'c) dev_deps \<Rightarrow> (exn, ('p, 'c) dev_state, js_value) eff" where
  "reportCoverage D = (\<lambda>s. case dv_routeRecords s of
      None \<Rightarrow> (Inl js_type_error, s)
    | Some records \<Rightarrow>
       (let covered = filter pc_covered records; unCovered = filter (\<lambda>p. \<not> pc_covered p) records;
            number = (\<lambda>n. JBig (bn_new (dd_numbers D) (JNumber (JRat (of_nat n)))));
            coverage = JBig (bn_new (dd_numbers D) (JNumber (js_times (js_quotient (length covered) (length records)) (JRat 100))));
            uncoveredPaths = map pc_path unCovered
        in (Inr (JInstance ''CoverageReportModel'' [(''total'', number (length records)), (''totalUncovered'', number (length uncoveredPaths)),
              (''coverage'', coverage), (''uncoveredPaths'', JArray (map JString uncoveredPaths))]), s)))"

text \<open>The interceptor records the request before it is handled.\<close>

definition coverage_intercept ::
    "('p, 'c) dev_deps \<Rightarrow> string \<Rightarrow> (exn, ('p, 'c) dev_state, 'v) eff \<Rightarrow> (exn, ('p, 'c) dev_state, 'v) eff" where
  "coverage_intercept D url handle = andThen (recordRoute D url) (\<lambda>_. handle)"

section \<open>The controller\<close>

text \<open>\<open>handleWebhook\<close>: the status and headers of its response, and the body.\<close>

definition handleWebhook :: "string option \<Rightarrow> http_response \<times> js_value" where
  "handleWebhook secret = (\<lparr>r_status = 200, r_headers = (if present secret then [HANDSHAKE_HEADER_KEY \<mapsto> the secret] else Map.empty)\<rparr>, JObject [])"

definition identity_results :: "sdk_entities \<Rightarrow> (identity \<Rightarrow> js_value) \<Rightarrow> identity list \<Rightarrow> js_value result" where
  "identity_results E shown ids = bindr (sequence (map (\<lambda>i. createIdentityModel E (shown i)) ids)) (\<lambda>results. Inr (results_model (JArray results)))"

definition ctl_createTestAdmins ::
    "sdk_entities \<Rightarrow> (identity \<Rightarrow> js_value) \<Rightarrow> ('p, 'c) dev_deps \<Rightarrow> test_account list \<Rightarrow> (halt, ('p, 'c) dev_state, js_value) eff" where
  "ctl_createTestAdmins E shown D accounts =
     andThen (createTestAdmins D accounts) (\<lambda>identities. raising (lift_result (identity_results E shown identities)))"

definition ctl_createTestAccounts ::
    "sdk_entities \<Rightarrow> (identity \<Rightarrow> js_value) \<Rightarrow> ('p, 'c) dev_deps \<Rightarrow> test_account list \<Rightarrow> string option \<Rightarrow> (halt, ('p, 'c) dev_state, js_value) eff" where
  "ctl_createTestAccounts E shown D accounts signer =
     andThen (createTestAccounts D accounts signer) (\<lambda>ids. raising (lift_result (identity_results E shown ids)))"

definition ctl_coverage :: "('p, 'c) dev_deps \<Rightarrow> (exn, ('p, 'c) dev_state, js_value) eff" where
  "ctl_coverage D = reportCoverage D"

text \<open>\<open>DeveloperTestingModule.register\<close>: whether the controller is reachable, from the text of \<open>DEVELOPER_UTILS\<close>.\<close>

definition developer_utils :: "string option \<Rightarrow> bool" where
  "developer_utils env = present env"

section \<open>The transactions that are sent\<close>

lemma raising_Inr: "raising m s = (Inr a, s') \<longleftrightarrow> m s = (Inr a, s')"
  by (auto simp: raising_def split: prod.splits sum.splits)

lemma raising_Inl: "raising m s = (Inl h, s') \<longleftrightarrow> (\<exists>e. m s = (Inl e, s') \<and> h = Raised e)"
  by (auto simp: raising_def split: prod.splits sum.splits)

lemma make_calls_Inr: "make_calls D calls = Inr cs \<Longrightarrow> cs = calls"
  unfolding make_calls_def sequence_Inr_iff
  by (induction calls arbitrary: cs) (auto split: option.splits)

lemma sequence_map_Inr: "sequence (map f xs) = Inr ys \<longleftrightarrow> list_all2 (\<lambda>x y. f x = Inr y) xs ys"
  unfolding sequence_Inr_iff by (induction xs arbitrary: ys) (auto simp: list_all2_Cons1)

lemma sent_by_execTransaction:
  assumes "execTransaction D p tx s = (r, s')"
  shows "dv_sent s' = dv_sent s \<or> dv_sent s' = dv_sent s @ [(p, tx)]" "dv_sudoPair s' = dv_sudoPair s"
    and "r = Inr a \<Longrightarrow> dv_sent s' = dv_sent s @ [(p, tx)] \<and> dv_watching s' = dv_watching s"
    and "dv_sent s' = dv_sent s \<Longrightarrow> \<exists>e. r = Inl (Raised e)"
  using assms by (auto simp: execTransaction_def Let_def split: prod.splits sent.splits option.splits sum.splits)

text \<open>
  Which errors a transaction can end with: those of making it, and internal ones. The validation error for accounts that
  have an identity is for a call that is not sent any more.
\<close>

lemma execTransaction_error:
  assumes "execTransaction D p tx s = (Inl (Raised e), s')"
  shows "fst (dd_send D p tx (dv_chain s)) = NotMade e \<or> (\<exists>a. e = AppErr a \<and> code a = Internal)"
proof -
  have "settled_by (tx_method tx) rs = Some (Inl e) \<Longrightarrow> \<exists>a. e = AppErr a \<and> code a = Internal" for rs
    by (induction rs) (cases tx; auto simp: handlePolkadotErrors_def split: if_splits)+
  then show ?thesis using assms
    by (auto simp: execTransaction_def Let_def split: prod.splits sent.splits option.splits sum.splits)
qed

text \<open>An extrinsic that the node refuses leaves the request without an answer.\<close>

lemma refused_never_answers:
  "dd_send D p tx (dv_chain s) = (Refused e, c) \<Longrightarrow> fst (execTransaction D p tx s) = Inl Never"
  by (simp add: execTransaction_def Let_def)

lemma sudoPair_quiet:
  assumes "sudoPair D s = (r, s')"
  shows "dv_sent s' = dv_sent s \<and> dv_chain s' = dv_chain s \<and> dv_watching s' = dv_watching s \<and> (\<forall>p. r = Inr p \<longrightarrow> dv_sudoPair s' = Some p)"
  using assms by (auto simp: sudoPair_def split: option.splits sum.splits)

lemma sudoPair_kept: "dv_sudoPair s = Some p \<Longrightarrow> sudoPair D s = (Inr p, s)"
  by (simp add: sudoPair_def)

lemma all_found: "length (filter (\<lambda>i. i \<noteq> None) os) = length os \<Longrightarrow> os = map Some (map the (filter (\<lambda>i. i \<noteq> None) os))"
proof (induction os)
  case (Cons x os)
  have "length (filter (\<lambda>i. i \<noteq> None) os) \<le> length os" by (rule length_filter_le)
  with Cons show ?case by (cases x) auto
qed simp

text \<open>The identities that accounts have on a state of the chain.\<close>

definition identified :: "('p, 'c) dev_deps \<Rightarrow> 'c \<Rightarrow> test_account \<Rightarrow> identity \<Rightarrow> bool" where
  "identified D c a i \<longleftrightarrow> (case ia_getAccount (dd_api D c) (ta_address a) of Inr acc \<Rightarrow>
     (case ac_getIdentity acc of Inr (Some j) \<Rightarrow> j = i | _ \<Rightarrow> False) | Inl _ \<Rightarrow> False)"

lemma fetched_identities:
  assumes "fetchAccountForAccountParams D accounts s = (Inr accs, s1)" "fetchAccountsIdentities accs = Inr ids"
  shows "s1 = s \<and> list_all2 (identified D (dv_chain s)) accounts ids"
proof -
  from assms(1) have accs: "s1 = s" "list_all2 (\<lambda>a acc. ia_getAccount (dd_api D (dv_chain s)) (ta_address a) = Inr acc) accounts accs"
    by (auto simp: fetchAccountForAccountParams_def sequence_map_Inr)
  from assms(2) obtain os where os: "list_all2 (\<lambda>acc i. ac_getIdentity acc = Inr i) accs os"
    and len: "length (map the (filter (\<lambda>i. i \<noteq> None) os)) = length os" and ids: "ids = map the (filter (\<lambda>i. i \<noteq> None) os)"
    by (auto simp: fetchAccountsIdentities_def bindr_def sequence_map_Inr Let_def split: sum.splits if_splits)
  have "os = map Some ids" using all_found [of os] len ids by simp
  with os have "list_all2 (\<lambda>acc i. ac_getIdentity acc = Inr (Some i)) accs ids" by (simp add: list_all2_map2)
  with accs show ?thesis by (auto simp: list_all2_conv_all_nth identified_def)
qed

section \<open>Test accounts and administrators\<close>

lemma andThenE:
  assumes "andThen m f s = (r, s')"
  obtains (stopped) e where "m s = (Inl e, s')" "r = Inl e" | (went_on) a s1 where "m s = (Inr a, s1)" "f a s1 = (r, s')"
  using assms by (auto simp: andThen_def split: prod.splits sum.splits)

text \<open>
  The transactions for the accounts: registration, then the claims of the identities and the initial amounts of the accounts that are to get one, in units
  of a millionth of POLYX; for administrators, membership.
\<close>

definition register_tx :: "test_account list \<Rightarrow> extrinsic" where
  "register_tx accounts = Batch (map (\<lambda>a. CddRegisterDid (ta_address a)) accounts)"

definition claims_tx :: "test_account list \<Rightarrow> identity list \<Rightarrow> extrinsic" where
  "claims_tx accounts ids = BatchAll (map (\<lambda>i. AddCustomerDueDiligence (ie_did i)) ids
     @ map (\<lambda>a. Transfer (ta_address a) (js_times (bn_toNumber (ta_initialPolyx a)) (JRat 1000000)))
         (filter (\<lambda>a. bn_gt (ta_initialPolyx a) (BN 0)) accounts))"

lemma claims_transfers: "claims_tx accounts ids = BatchAll (map (\<lambda>i. AddCustomerDueDiligence (ie_did i)) ids
     @ map initial_transfer (filter (\<lambda>a. bn_gt (ta_initialPolyx a) (BN 0)) accounts))"
  by (simp add: claims_tx_def initial_transfer_def [abs_def] unitsPerPolyx_def)

definition members_tx :: "identity list \<Rightarrow> extrinsic" where
  "members_tx ids = Sudo (BatchAll (map (\<lambda>i. AddMember (ie_did i)) ids))"

text \<open>What a signer is resolved to, without sending anything.\<close>

definition resolve_signer ::
    "('p, 'c) dev_deps \<Rightarrow> string option \<Rightarrow> (halt, ('p, 'c) dev_state, 'p address_or_pair) eff" where
  "resolve_signer D signer = (if present signer
     then andThen (raising (zoom dv_book (\<lambda>b s. s\<lparr>dv_book := b\<rparr>) (getAddressByHandle (dd_signing D) (dd_manager D) (the signer))))
            (\<lambda>address. ret (AtAddress address))
     else andThen (raising (sudoPair D)) (\<lambda>p. ret (Pair p)))"

lemma resolve_signer_quiet:
  assumes "resolve_signer D signer s = (r, s')"
  shows "dv_sent s' = dv_sent s \<and> dv_watching s' = dv_watching s \<and> (\<forall>p. \<not> present signer \<and> r = Inr p \<longrightarrow> (\<exists>q. p = Pair q \<and> dv_sudoPair s' = Some q))"
proof (cases "present signer")
  case True
  with assms show ?thesis
    by (cases "getAddressByHandle (dd_signing D) (dd_manager D) (the signer) (dv_book s)")
      (auto simp: resolve_signer_def zoom_def andThen_def raising_def ret_def split: sum.splits prod.splits)
next
  case False
  obtain q t where "sudoPair D s = (q, t)" by fastforce
  with False assms sudoPair_quiet [OF this] show ?thesis
    by (auto simp: resolve_signer_def andThen_def raising_def ret_def split: sum.splits)
qed

text \<open>What is computed between the two transactions.\<close>

definition claims_calls :: "('p, 'c) dev_deps \<Rightarrow> test_account list \<Rightarrow> (exn, ('p, 'c) dev_state, identity list \<times> chain_call list) eff" where
  "claims_calls D accounts = andThen (fetchAccountForAccountParams D accounts) (\<lambda>madeAccounts. lift_result
     (bindr (fetchAccountsIdentities madeAccounts) (\<lambda>ids.
      bindr (make_calls D (map (\<lambda>i. AddCustomerDueDiligence (ie_did i)) ids)) (\<lambda>createCddCalls.
      bindr (make_calls D (map initial_transfer (filter (\<lambda>a. bn_gt (ta_initialPolyx a) (BN 0)) accounts))) (\<lambda>initialPolyxCalls.
      Inr (ids, createCddCalls @ initialPolyxCalls))))))"

lemma claims_calls_quiet:
  assumes "claims_calls D accounts s = (r, s')"
  shows "s' = s \<and> (\<forall>ids cs. r = Inr (ids, cs) \<longrightarrow> list_all2 (identified D (dv_chain s)) accounts ids \<and> BatchAll cs = claims_tx accounts ids)"
proof -
  obtain accs t where f: "fetchAccountForAccountParams D accounts s = (accs, t)" by fastforce
  then have "t = s" by (simp add: fetchAccountForAccountParams_def)
  with f assms show ?thesis
    by (auto simp: claims_calls_def andThen_def lift_result_def bindr_def claims_transfers split: sum.splits
        dest!: make_calls_Inr dest: fetched_identities)
qed

lemma raising_andThen: "raising (andThen m f) = andThen (raising m) (\<lambda>x. raising (f x))"
  by (rule ext) (auto simp: andThen_def raising_def split: prod.splits sum.splits)

lemma raising_bindr: "raising (lift_result (bindr r k)) = andThen (raising (lift_result r)) (\<lambda>x. raising (lift_result (k x)))"
  by (rule ext) (auto simp: andThen_def raising_def lift_result_def bindr_def split: sum.splits)

lemma raising_Ok: "raising (lift_result (Inr x)) = ret x"
  by (rule ext) (simp add: raising_def lift_result_def ret_def)

lemma andThen_after: "andThen (andThen m f) g = andThen m (\<lambda>x. andThen (f x) g)"
  by (rule ext) (auto simp: andThen_def split: prod.splits sum.splits)

lemma ret_first: "andThen (ret x) f = f x"
  by (rule ext) (simp add: andThen_def ret_def)

lemma createTestAccounts_stages:
  "createTestAccounts D accounts signer = andThen (resolve_signer D signer) (\<lambda>p.
     andThen (raising (lift_result (make_calls D (map (\<lambda>a. CddRegisterDid (ta_address a)) accounts)))) (\<lambda>cs.
     andThen (execTransaction D p (Batch cs)) (\<lambda>_.
     andThen (raising (claims_calls D accounts)) (\<lambda>(ids, calls).
     andThen (execTransaction D p (BatchAll calls)) (\<lambda>_. ret ids)))))"
  unfolding createTestAccounts_def resolve_signer_def [symmetric] claims_calls_def
  by (simp only: raising_andThen raising_bindr raising_Ok andThen_after ret_first prod.case)

text \<open>
  The run of \<open>createTestAccounts\<close>: nothing is sent, or the registration alone, or both transactions.
\<close>

lemma createTestAccounts_run:
  assumes "createTestAccounts D accounts signer s = (r, s')"
  shows "(dv_sent s' = dv_sent s \<and> (\<exists>h. r = Inl h))
    \<or> (\<exists>p. dv_sent s' = dv_sent s @ [(p, register_tx accounts)] \<and> (\<exists>h. r = Inl h) \<and> (\<not> present signer \<longrightarrow> (\<exists>q. p = Pair q \<and> dv_sudoPair s' = Some q)))
    \<or> (\<exists>p ids c. dv_sent s' = dv_sent s @ [(p, register_tx accounts), (p, claims_tx accounts ids)] \<and> list_all2 (identified D c) accounts ids
         \<and> (\<forall>is. r = Inr is \<longrightarrow> is = ids \<and> dv_watching s' = dv_watching s) \<and> (\<not> present signer \<longrightarrow> (\<exists>q. p = Pair q \<and> dv_sudoPair s' = Some q)))"
    (is "?none \<or> ?one \<or> ?two")
  using assms unfolding createTestAccounts_stages
proof (cases rule: andThenE)
  case (stopped e)
  from resolve_signer_quiet [OF stopped(1)] stopped(2) show ?thesis by simp
next
  case signer: (went_on p s1)
  note q = resolve_signer_quiet [OF signer(1)]
  from signer(2) show ?thesis
  proof (cases rule: andThenE)
    case (stopped e)
    then show ?thesis using q by (intro disjI1) (auto simp: raising_Inl eff_simps)
  next
    case calls: (went_on cs s2)
    then have s2: "s2 = s1" "Batch cs = register_tx accounts"
      by (auto simp: raising_Inr eff_simps register_tx_def dest!: make_calls_Inr)
    from calls(2) [unfolded s2] show ?thesis
    proof (cases rule: andThenE)
      case (stopped e)
      from sent_by_execTransaction(1,2) [OF stopped(1)] stopped(2) q show ?thesis by auto
    next
      case registered: (went_on u s3)
      note one = sent_by_execTransaction(2) [OF registered(1)] sent_by_execTransaction(3) [OF registered(1) refl] q
      from registered(2) show ?thesis
      proof (cases rule: andThenE)
        case (stopped e)
        then show ?thesis using one claims_calls_quiet [of D accounts s3] by (auto simp: raising_Inl)
      next
        case claims: (went_on w s4)
        obtain ids ccs where w: "w = (ids, ccs)" by (cases w)
        then have c: "s4 = s3" "list_all2 (identified D (dv_chain s3)) accounts ids" "BatchAll ccs = claims_tx accounts ids"
          using claims(1) claims_calls_quiet [of D accounts s3] by (auto simp: raising_Inr)
        from claims(2) [unfolded w prod.case c(1,3)] show ?thesis
        proof (cases rule: andThenE)
          case (stopped e)
          from sent_by_execTransaction(1,2) [OF stopped(1)] stopped(2) one c(2) show ?thesis by auto
        next
          case (went_on v s5)
          then have "r = Inr ids" "s' = s5" by (auto simp: eff_simps)
          with sent_by_execTransaction(2) [OF went_on(1)] sent_by_execTransaction(3) [OF went_on(1) refl] one c(2) show ?thesis by auto
        qed
      qed
    qed
  qed
qed

text \<open>The batch for administrators, once the pair has been made.\<close>

lemma createCddProvidersBatch_run:
  assumes "createCddProvidersBatch D ids s = (r, s')" "dv_sudoPair s = Some p"
  shows "(dv_sent s' = dv_sent s \<and> (\<exists>h. r = Inl h)) \<or> dv_sent s' = dv_sent s @ [(Pair p, members_tx ids)]"
  using assms(1) unfolding createCddProvidersBatch_def
proof (cases rule: andThenE)
  case (stopped e)
  then show ?thesis using sudoPair_kept [OF assms(2), of D] by (auto simp: raising_Inl)
next
  case (went_on q s1)
  then have q: "q = p" "s1 = s" using sudoPair_kept [OF assms(2), of D] by (auto simp: raising_Inr)
  from went_on(2) [unfolded q] show ?thesis
  proof (cases rule: andThenE)
    case (stopped e)
    then show ?thesis by (auto simp: raising_Inl eff_simps)
  next
    case calls: (went_on cs s2)
    then have "s2 = s" "Sudo (BatchAll cs) = members_tx ids" by (auto simp: raising_Inr eff_simps members_tx_def dest!: make_calls_Inr)
    with sent_by_execTransaction(1,4) [OF calls(2)] show ?thesis by auto
  qed
qed

text \<open>
  C40: the administrators. Whatever happens, the transactions sent are the first of three, all signed by the configured pair: the
  registration of every account, then the claims and initial amounts of the identities these accounts have by then, and only then the membership of
  exactly these identities. The tool returns normally only when all three were sent, with the identities.
\<close>

theorem test_admins_in_order:
  assumes "createTestAdmins D accounts s = (r, s')"
  shows "\<exists>k p ids c. dv_sent s' = dv_sent s @ take k [(Pair p, register_tx accounts), (Pair p, claims_tx accounts ids), (Pair p, members_tx ids)]
     \<and> (2 \<le> k \<longrightarrow> list_all2 (identified D c) accounts ids) \<and> (\<forall>is. r = Inr is \<longrightarrow> is = ids \<and> 3 \<le> k)"
  using assms unfolding createTestAdmins_def
proof (cases rule: andThenE)
  case (stopped e)
  from createTestAccounts_run [OF stopped(1)] show ?thesis
  proof (elim disjE exE conjE)
    assume "dv_sent s' = dv_sent s"
    with stopped(2) show ?thesis by (intro exI [of _ 0]) simp
  next
    fix p assume "dv_sent s' = dv_sent s @ [(p, register_tx accounts)]" "\<not> present None \<longrightarrow> (\<exists>q. p = Pair q \<and> dv_sudoPair s' = Some q)"
    with stopped(2) show ?thesis by (intro exI [of _ 1]) (auto simp: present_def)
  next
    fix p ids c assume "dv_sent s' = dv_sent s @ [(p, register_tx accounts), (p, claims_tx accounts ids)]" "list_all2 (identified D c) accounts ids"
      "\<not> present None \<longrightarrow> (\<exists>q. p = Pair q \<and> dv_sudoPair s' = Some q)"
    with stopped(2) show ?thesis by (intro exI [of _ 2]) (auto simp: present_def)
  qed
next
  case accounts: (went_on ids s1)
  from createTestAccounts_run [OF accounts(1)] obtain p c where two:
    "dv_sent s1 = dv_sent s @ [(Pair p, register_tx accounts), (Pair p, claims_tx accounts ids)]" "list_all2 (identified D c) accounts ids" "dv_sudoPair s1 = Some p"
    by (auto simp: present_def)
  from accounts(2) show ?thesis
  proof (cases rule: andThenE)
    case (stopped e)
    from createCddProvidersBatch_run [OF stopped(1) two(3)] show ?thesis
      by (elim disjE) (use two stopped(2) in \<open>intro exI [of _ 2] exI [of _ p] exI [of _ ids] exI [of _ c], simp\<close>,
          use two stopped(2) in \<open>intro exI [of _ 3] exI [of _ p] exI [of _ ids] exI [of _ c], simp\<close>)
  next
    case (went_on u s2)
    then have r: "r = Inr ids" "s' = s2" by (auto simp: eff_simps)
    from createCddProvidersBatch_run [OF went_on(1) two(3)] two r show ?thesis
      by (intro exI [of _ 3] exI [of _ p] exI [of _ ids] exI [of _ c]) simp
  qed
qed

section \<open>Amounts\<close>

text \<open>A whole amount of POLYX is transferred in full, up to more than nine thousand million.\<close>

lemma initial_transfer_whole:
  assumes "\<bar>n\<bar> \<le> 9007199254"
  shows "initial_transfer \<lparr>ta_address = a, ta_initialPolyx = BN (of_int n)\<rparr> = Transfer a (JRat (of_int (n * 1000000)))"
proof -
  from assms have "\<bar>n\<bar> \<le> 2 ^ 53" "\<bar>n * 1000000\<bar> \<le> 2 ^ 53" by (simp_all add: abs_mult)
  then show ?thesis using to_double_whole [of n] js_times_whole [of n 1000000] by (simp add: initial_transfer_def unitsPerPolyx_def)
qed

text \<open>A transfer of 1.001 POLYX asks for a number of units that is not whole, and less than the amount.\<close>

lemma initial_transfer_fraction:
  "initial_transfer \<lparr>ta_address = a, ta_initialPolyx = BN (1001 / 1000)\<rparr> = Transfer a (JRat (8598524526591999 / 8589934592))"
  using inexact_product by (simp add: initial_transfer_def unitsPerPolyx_def)

section \<open>The webhook for tests\<close>

text \<open>The endpoint answers a handshake as the subscription expects: the subscription of a secret that is sent becomes active.\<close>

lemma handleWebhook_handshake:
  assumes "secret \<noteq> ''''"
  shows "handleHandshakeResponse D i (fst (handleWebhook (Some secret))) secret = andThen (updateSubscription D i (no_change\<lparr>u_status := Some Active\<rparr>)) (\<lambda>_. ret ())"
  using assms by (simp add: handleHandshakeResponse_def handleWebhook_def present_def)

section \<open>The coverage report\<close>

text \<open>Every request reaches the interceptor; one whose address cannot be read fails there.\<close>

definition after_urls :: "('p, 'c) dev_deps \<Rightarrow> string list \<Rightarrow> ('p, 'c) dev_state \<Rightarrow> ('p, 'c) dev_state" where
  "after_urls D urls s = foldl (\<lambda>s url. snd (recordRoute D url s)) s urls"

definition reached :: "('p, 'c) dev_deps \<Rightarrow> string list \<Rightarrow> (string \<Rightarrow> bool) \<Rightarrow> bool" where
  "reached D urls matcher = list_ex (\<lambda>url. case dd_pathname D url of Inr pathname \<Rightarrow> matcher pathname | Inl _ \<Rightarrow> False) urls"

definition unreached :: "('p, 'c) dev_deps \<Rightarrow> string list \<Rightarrow> string list \<Rightarrow> string list" where
  "unreached D urls paths = filter (\<lambda>path. case dd_pathToRegexp D (swagger_to_pattern path) of
     Inr matcher \<Rightarrow> \<not> reached D urls matcher | Inl _ \<Rightarrow> False) paths"

definition coverage_report :: "bignumber \<Rightarrow> nat \<Rightarrow> string list \<Rightarrow> js_value" where
  "coverage_report B n uncovered = JInstance ''CoverageReportModel''
     [(''total'', JBig (bn_new B (JNumber (JRat (of_nat n))))),
      (''totalUncovered'', JBig (bn_new B (JNumber (JRat (of_nat (length uncovered)))))),
      (''coverage'', JBig (bn_new B (JNumber (js_times (js_quotient (n - length uncovered) n) (JRat 100))))),
      (''uncoveredPaths'', JArray (map JString uncovered))]"

lemma recordRoute_records:
  assumes "dv_routeRecords s = Some records"
  shows "dv_routeRecords (snd (recordRoute D url s)) = Some (map (\<lambda>p. p\<lparr>pc_covered := pc_covered p \<or> reached D [url] (pc_matcher p)\<rparr>) records)"
  using assms by (cases "dd_pathname D url") (auto simp: recordRoute_def andThen_def lift_result_def record_path_def reached_def)

lemma after_urls_records:
  "dv_routeRecords s = Some records \<Longrightarrow>
   dv_routeRecords (after_urls D urls s) = Some (map (\<lambda>p. p\<lparr>pc_covered := pc_covered p \<or> reached D urls (pc_matcher p)\<rparr>) records)"
proof (induction urls arbitrary: s records)
  case Nil
  then show ?case by (simp add: after_urls_def reached_def)
next
  case (Cons url urls)
  have "reached D (url # urls) m = (reached D [url] m \<or> reached D urls m)" for m by (simp add: reached_def)
  with Cons.IH [OF recordRoute_records [OF Cons.prems, of D url]] show ?case
    by (simp add: after_urls_def comp_def disj_assoc)
qed

lemma loadSwagger_records:
  assumes "loadSwagger D paths s = (Inr (), s1)"
  obtains records where "dv_routeRecords s1 = Some records"
    "list_all2 (\<lambda>path r. \<exists>m. dd_pathToRegexp D (swagger_to_pattern path) = Inr m \<and> r = \<lparr>pc_path = path, pc_matcher = m, pc_covered = False\<rparr>) paths records"
proof -
  from assms obtain records where "s1 = s\<lparr>dv_routeRecords := Some records\<rparr>"
    "sequence (map (\<lambda>path. bindr (dd_pathToRegexp D (swagger_to_pattern path)) (\<lambda>m. Inr \<lparr>pc_path = path, pc_matcher = m, pc_covered = False\<rparr>)) paths) = Inr records"
    by (auto simp: loadSwagger_def andThen_def lift_result_def modifies_def split: sum.splits)
  then show thesis
    by (intro that [of records]) (auto simp: sequence_map_Inr bindr_def elim!: list_all2_mono split: sum.splits)
qed

lemma uncovered_paths:
  assumes "list_all2 (\<lambda>path r. \<exists>m. dd_pathToRegexp D (swagger_to_pattern path) = Inr m \<and> r = \<lparr>pc_path = path, pc_matcher = m, pc_covered = False\<rparr>) paths records"
  shows "map pc_path (filter (\<lambda>r. \<not> reached D urls (pc_matcher r)) records) = unreached D urls paths"
  using assms by (induction) (auto simp: unreached_def)

text \<open>
  The report lists, in the order of the document, exactly the paths that no request since the start matched, whatever the requests were and in
  whatever order they came; the other figures are the counts and the percentage that go with the list.
\<close>

lemma coverage_reported:
  assumes "loadSwagger D paths s = (Inr (), s1)"
  shows "fst (reportCoverage D (after_urls D urls s1)) = Inr (coverage_report (dd_numbers D) (length paths) (unreached D urls paths))"
proof -
  from assms obtain records where rs: "dv_routeRecords s1 = Some records" and
    l: "list_all2 (\<lambda>path r. \<exists>m. dd_pathToRegexp D (swagger_to_pattern path) = Inr m \<and> r = \<lparr>pc_path = path, pc_matcher = m, pc_covered = False\<rparr>) paths records"
    by (rule loadSwagger_records)
  let ?mark = "\<lambda>p. p\<lparr>pc_covered := pc_covered p \<or> reached D urls (pc_matcher p)\<rparr>"
  let ?rs = "map ?mark records"
  have fresh: "r \<in> set records \<Longrightarrow> \<not> pc_covered r" for r using l by (auto simp: list_all2_conv_all_nth in_set_conv_nth)
  have un: "filter (\<lambda>p. \<not> pc_covered p) ?rs = map ?mark (filter (\<lambda>r. \<not> reached D urls (pc_matcher r)) records)"
    using fresh by (simp add: filter_map comp_def cong: filter_cong)
  then have paths: "map pc_path (filter (\<lambda>p. \<not> pc_covered p) ?rs) = unreached D urls paths"
    by (simp add: comp_def uncovered_paths [OF l, symmetric])
  have len: "length ?rs = length paths" using l by (simp add: list_all2_lengthD)
  have unlen: "length (filter (\<lambda>p. \<not> pc_covered p) ?rs) = length (unreached D urls paths)" using arg_cong [OF paths, of length] by (simp only: length_map)
  with sum_length_filter_compl [of pc_covered ?rs] len
  have "length (filter pc_covered ?rs) = length paths - length (unreached D urls paths)" by (simp only: length_map)
  with paths len unlen show ?thesis
    by (simp only: reportCoverage_def after_urls_records [OF rs] option.case Let_def fst_conv coverage_report_def length_map)
qed

section \<open>Concrete inputs\<close>

text \<open>
  A chain that puts everything it is sent in a block without error, and patterns whose segments are names or match any segment. A
  state of the chain is the number of extrinsics sent.
\<close>

definition demo_dev_manager :: manager where
  "demo_dev_manager = \<lparr>mg_addAccount = (\<lambda>_. Inl NotAnError), mg_getVaultKeys = Inr [], mg_deriveAccount = (\<lambda>_. Inl NotAnError), mg_ss58Format = 42,
     mg_signPayload = (\<lambda>_. Inl NotAnError), mg_isValidAddress = (\<lambda>_. True)\<rparr>"

definition demo_pattern :: "string \<Rightarrow> string \<Rightarrow> bool" where
  "demo_pattern pattern pathname = list_all2 (\<lambda>p s. take 1 p = '':'' \<or> p = s) (split_on CHR ''/'' pattern) (split_on CHR ''/'' pathname)"

definition demo_dev :: "(string, nat) dev_deps" where
  "demo_dev = \<lparr>dd_signing = LocalService, dd_manager = demo_dev_manager, dd_getOrThrow = (\<lambda>_. Inr ''//Alice''), dd_ss58Format = BN 42,
     dd_addFromUri = (\<lambda>_ m. Inr m), dd_create = (\<lambda>_. None),
     dd_send = (\<lambda>_ _ c. (Watched [\<lparr>rc_isInBlock = False, rc_failedRecord = False, rc_isError = False\<rparr>, \<lparr>rc_isInBlock = True, rc_failedRecord = False, rc_isError = False\<rparr>], Suc c)),
     dd_api = (\<lambda>c. if c = 0 then demo_identities\<lparr>ia_getAccount := (\<lambda>_. Inl NotAnError)\<rparr> else demo_identities),
     dd_numbers = demo_bignumber, dd_pathToRegexp = (\<lambda>p. Inr (demo_pattern p)), dd_pathname = Inr\<rparr>"

definition demo_dev_state :: "(string, nat) dev_state" where
  "demo_dev_state = \<lparr>dv_sudoPair = None, dv_routeRecords = None, dv_book = Map.empty, dv_chain = 0, dv_sent = [], dv_watching = 0\<rparr>"

definition demo_dev_accounts :: "test_account list" where
  "demo_dev_accounts = [\<lparr>ta_address = ''5a'', ta_initialPolyx = BN 5\<rparr>]"

theorem test_admins_in_order_witness:
  "\<exists>p ids s'. createTestAdmins demo_dev demo_dev_accounts demo_dev_state = (Inr ids, s')
     \<and> dv_sent s' = [(Pair p, register_tx demo_dev_accounts), (Pair p, claims_tx demo_dev_accounts ids), (Pair p, members_tx ids)]"
proof -
  have "\<exists>ids s'. createTestAdmins demo_dev demo_dev_accounts demo_dev_state = (Inr ids, s')"
    by (simp add: createTestAdmins_def createTestAccounts_def createCddProvidersBatch_def execTransaction_def make_calls_def sudoPair_def
        fetchAccountForAccountParams_def fetchAccountsIdentities_def raising_def present_def demo_dev_def demo_dev_accounts_def demo_dev_state_def
        demo_identities_def demo_account_def demo_identity_def handlePolkadotErrors_def rethrow_sdk_def bindr_def eff_simps andThen_def bn_gt_def Let_def)
  then obtain ids s' where run: "createTestAdmins demo_dev demo_dev_accounts demo_dev_state = (Inr ids, s')" by blast
  from test_admins_in_order [OF run] obtain k p js where
    "dv_sent s' = take k [(Pair p, register_tx demo_dev_accounts), (Pair p, claims_tx demo_dev_accounts js), (Pair p, members_tx js)]" "js = ids" "3 \<le> k"
    by (auto simp: demo_dev_state_def)
  with run show ?thesis by (auto simp: numeral_3_eq_3)
qed

end
