(* ===== verification/Spec2Isabelle.thy ===== *)
theory Spec2Isabelle
  imports Auth Handlers Request_Properties Response_Properties Postgres_Properties Developer_Testing
begin

text \<open>
  The Polymesh REST API, a NestJS server (\<open>src/\<close>) that lets clients of the Polymesh chain work over HTTP. A request is
  validated and transformed by decorators, a service looks up entities through the Polymesh SDK, and a change of the
  chain goes through \<open>TransactionsService.submit\<close>: it is run at once, run with a callback to a webhook, prepared as an
  unsigned payload, simulated, or put on a message queue from which a signer and a submitter pick it up. Subscriptions and
  notifications deliver the status of transactions to webhooks, with retries, in timers. Users authenticate with API keys. What is not
  in the repository (the SDK, the scheduler registry, message brokers, \<open>class-validator\<close>, \<open>bignumber.js\<close>) is a parameter of the definitions
  that use it: records of what its functions answer, with what the code relies on as hypotheses.

  \<^bold>\<open>How the code is modelled.\<close> An operation is a computation with a state and exceptions, \<open>'s \<Rightarrow> (exn + 'a) \<times> 's\<close>
  (\<open>Prelude\<close>): a thrown exception keeps the changes made before it, \<open>promise_all\<close> starts everything and reports the first failure. Steps
  between two awaits are single steps; what happens at other times (timers, answers of webhooks, messages, status changes) are steps of
  inductive relations or of executable step functions over whole states, so that theorems quantify over every interleaving. JavaScript's
  primitives are written out where they matter: \<open>NaN\<close>, inherited properties, objects with integer keys, \<open>Number(s)\<close>.

  \<^bold>\<open>Theories and sources.\<close>
  \<^item> \<open>Prelude\<close>, \<open>Js_Numeric\<close>: primitives of the language. \<open>Local_Store\<close>: what the in-memory repositories share.
  \<^item> \<open>Errors\<close>: \<open>common/errors.ts\<close>, \<open>handleSdkError\<close>, the exception filter, database errors.
  \<^item> \<open>Schedule\<close>: \<open>schedule/schedule.service.ts\<close> over the registry of timers.
  \<^item> \<open>Sdk\<close>: the values of the SDK the code handles. \<open>Webhook_State\<close>: the state and data of subscriptions, notifications, events and tracked transactions.
  \<^item> \<open>Subscriptions\<close>, \<open>Notifications\<close>, \<open>Events\<close>, \<open>Transactions\<close>: the services of those names and the in-memory repositories. The contracts of the
    repositories are the locales \<open>subscription_repo\<close> and \<open>notification_repo\<close>, joined in \<open>webhooks\<close>, in which the lemmas on the services are proved; the in-memory
    repositories are interpretations.
  \<^item> \<open>Delivery\<close>, \<open>Webhook_Spec\<close>, \<open>Webhooks\<close>, \<open>Webhook_Properties\<close>: the abstract specification of one delivery, of all deliveries, the process that the
    services form (timers, requests, answers, status changes as steps), its invariant, and what follows for every reachable state.
  \<^item> \<open>Auth\<close>: \<open>auth/\<close>, \<open>users/\<close>, with the locales \<open>users_repo\<close> and \<open>api_key_repo\<close>. \<open>Signing\<close>: the three signing services and the configuration of signers.
  \<^item> \<open>Messages\<close>: the message services. \<open>Offline\<close>, \<open>Offline_Flow\<close>, \<open>Offline_Properties\<close>: the services of offline transactions, with the locales
    \<open>offline_tx_repo\<close> and \<open>offline_event_repo\<close>, the flow invariant of their messages in the locale \<open>offline_process\<close>, and the properties.
  \<^item> \<open>Submit\<close>, \<open>Submit_Properties\<close>: the options of a request, \<open>TransactionsService.submit\<close> and the response. The predicate \<open>makes\<close> follows which calls a computation makes on the SDK.
  \<^item> \<open>Js_Values\<close>, \<open>Validation\<close>: request and response values, the transformations and the validators. \<open>Transfer_Restrictions\<close>: \<open>assets/assets.util.ts\<close>.
  \<^item> \<open>Assets\<close>, \<open>Identities\<close>, \<open>Portfolios\<close>: the services of assets, identities, accounts, authorizations, portfolios and settlements over entities of the SDK, on top of \<open>submit\<close>.
  \<^item> \<open>Agents\<close>: the services of permission groups, checkpoints, compliance and claims. \<open>Actions\<close>: corporate actions, multi-signature accounts, NFTs, metadata,
    subsidies, reserved tickers, offerings and the network. \<open>Commands\<close>: the commands of all services, and that each is a submission.
  \<^item> \<open>Models\<close>: the functions and constructors that make the models of responses. \<open>Controllers\<close>, \<open>More_Controllers\<close>, \<open>Other_Controllers\<close>: the handlers of
    the controllers. \<open>Handlers\<close>: each handler of a command against its command.
  \<^item> \<open>Js_Double\<close>, \<open>Developer_Testing\<close>: numbers rounded to 53 bits, and \<open>developer-testing/\<close> with the transactions of \<open>polymesh/polymesh.service.ts\<close> beside the SDK.
  \<^item> \<open>Requests\<close>, \<open>More_Requests\<close>: the classes of requests (the \<open>dto\<close> directories) as the fields they list, over the conversions and predicates of
    \<open>class-transformer\<close> and \<open>class-validator\<close>. How the pipe of these packages makes an object from its class is what they document, not code of the repository. \<open>Request_Properties\<close>: what an accepted request is, and what the services then do with it.
  \<^item> \<open>Responses\<close>: how the decorators of a class say what is sent of an object, over the package that copies it. \<open>Response_Models\<close>: every class of responses (the
    \<open>models\<close> directories) as its fields, and the check of their decorators. \<open>Response_Properties\<close>: which answers can be sent.
  \<^item> \<open>Postgres\<close>: the repositories of \<open>datastore/postgres/repos\<close> over tables of TypeORM, and that they satisfy the contracts \<open>subscription_repo\<close> and
    \<open>notification_repo\<close>. \<open>Postgres_Properties\<close>: what follows for a server with a database.

  \<^bold>\<open>What is shown.\<close> The webhook process refines the specification of deliveries; notifications are numbered without gap, attempts are
  bounded, no delivery is lost, statuses only move forward, a terminal status ends the tracking. Submissions run a transaction at most
  once and never in the modes that must not; each mode answers what it should; errors reach the client as application errors, with the
  exceptions found. Offline transactions are conserved, are submitted only with the signature of their payload, and cause a
  bounded number of steps. Authentication refines a specification by user names, up to inherited property names. Validators accept what they should, up to the
  gaps stated; statistics reach the SDK with exactly their counts converted; adding transfer restrictions keeps the existing ones. Every command of a service either fails and leaves everything as it was or is one submission with the options of its
  request; its handler adds the response and nothing else, and a dry run is answered unless the response needs the result. Which values get past the
  conditional validators, and which of them a service then fails on, is stated exactly. Handles of signers resolve to the keys they are listed for, and the
  broker is connected to once. Test administrators are made in the order the chain needs. An answer of any
  class but twelve is sent without error and without private fields, whatever values of the declared types it holds. With a database the bounds of the webhook process
  hold as configured, users are created or refused as stated, and the record of an offline transaction is found under the identifier of its request.

  \<^bold>\<open>Bounds.\<close> There is no fuel: every definition is total by structural recursion or a measure. The retries are bounded by the configured tries, and the
  step bound of the offline process (seven per transaction) is proved with a measure on states.

  \<^bold>\<open>Not modelled.\<close> Strings are lists of ASCII characters and numbers are whole or rational: rounding to 53 bits, except in the developer tools, and encodings are left out. Awaiting
  several lookups at once is modelled in the order of the text. Of the database, columns are taken to hold what is written and the connection to hold. The services read the
  fields of an accepted request as typed records or objects; the two are linked where a property needs it. Modules, logging, start-up, API documentation, routes, migrations and test utilities have no behaviour of their own beyond calling what is modelled.
\<close>

end
